(* ===== verification/GoPrelude.thy ===== *)
theory GoPrelude
  imports Main "HOL-Library.Word" "HOL-Library.Sublist"
begin

text \<open>
  The vocabulary every component of the development shares: the outcome type of a Go call
  (value, error or run-time panic), the parts of the Go standard library the sources use
  (\<^verbatim>\<open>strings\<close>, \<^verbatim>\<open>strconv\<close>, \<^verbatim>\<open>encoding/hex\<close>, the \<^verbatim>\<open>%064x\<close> verb of \<^verbatim>\<open>fmt\<close>, fixed-width
  integer conversions) and the generic facts about them.

  A Go string is a sequence of bytes; an Isabelle \<^typ>\<open>char\<close> is a byte, so Go strings are
  values of type \<^typ>\<open>string\<close>.
\<close>

named_theorems go_simps \<open>unfolding rules for the Go standard library model\<close>
named_theorems outcome_simps \<open>case analysis of outcomes\<close>


section \<open>Outcomes of Go calls\<close>

text \<open>\<open>Ok v\<close> is the pair \<open>(v, nil)\<close>, \<open>Err e\<close> a non-nil error, \<open>Panic\<close> a run-time panic.\<close>

datatype ('e, 'a) outcome = Ok 'a | Err 'e | Panic

fun is_ok :: "('e, 'a) outcome \<Rightarrow> bool" where
  "is_ok (Ok _) = True"
| "is_ok _ = False"

fun is_err :: "('e, 'a) outcome \<Rightarrow> bool" where
  "is_err (Err _) = True"
| "is_err _ = False"

text \<open>Sequencing: the continuation runs on a value; errors and panics pass through.\<close>

fun and_then :: "('e, 'a) outcome \<Rightarrow> ('a \<Rightarrow> ('e, 'b) outcome) \<Rightarrow> ('e, 'b) outcome" where
  "and_then (Ok v) f = f v"
| "and_then (Err e) f = Err e"
| "and_then Panic f = Panic"

text \<open>A \<^verbatim>\<open>(value, ok)\<close> result whose failure is reported as the error \<open>e\<close>.\<close>

definition or_err :: "'e \<Rightarrow> 'a option \<Rightarrow> ('e, 'a) outcome" where
  "or_err e x = (case x of None \<Rightarrow> Err e | Some v \<Rightarrow> Ok v)"

lemma or_err_simps [simp]: "or_err e None = Err e" "or_err e (Some v) = Ok v"
  by (simp_all add: or_err_def)

lemma or_err_eq_iff [simp]:
  "or_err e x = Ok v \<longleftrightarrow> x = Some v"
  "or_err e x = Err d \<longleftrightarrow> x = None \<and> d = e"
  "or_err e x \<noteq> Panic"
  by (auto simp: or_err_def split: option.splits)

lemma and_then_Ok [outcome_simps]: "and_then r f = Ok w \<longleftrightarrow> (\<exists>v. r = Ok v \<and> f v = Ok w)"
  by (cases r) auto

lemma and_then_Panic [outcome_simps]: "and_then r f = Panic \<longleftrightarrow> r = Panic \<or> (\<exists>v. r = Ok v \<and> f v = Panic)"
  by (cases r) auto

lemma and_then_Err [outcome_simps]: "and_then r f = Err e \<longleftrightarrow> r = Err e \<or> (\<exists>v. r = Ok v \<and> f v = Err e)"
  by (cases r) auto


section \<open>Lists\<close>

lemma length_concat_uniform: "\<forall>w \<in> set ws. length w = k \<Longrightarrow> length (concat ws) = k * length ws"
  by (induction ws) auto


section \<open>Package strings\<close>

definition HasPrefix :: "string \<Rightarrow> string \<Rightarrow> bool" where
  "HasPrefix s p \<longleftrightarrow> take (length p) s = p"

definition TrimPrefix :: "string \<Rightarrow> string \<Rightarrow> string" where
  "TrimPrefix s p = (if HasPrefix s p then drop (length p) s else s)"

fun Contains :: "string \<Rightarrow> string \<Rightarrow> bool" where
  "Contains [] sub = (sub = [])"
| "Contains (c # s) sub = (HasPrefix (c # s) sub \<or> Contains s sub)"

text \<open>The ASCII white space of \<^verbatim>\<open>unicode.IsSpace\<close>: tab, newline, VT, FF, CR and blank.\<close>

definition is_space :: "char \<Rightarrow> bool" where
  "is_space c \<longleftrightarrow> (let n = of_char c :: nat in (9 \<le> n \<and> n \<le> 13) \<or> n = 32)"

definition TrimSpace :: "string \<Rightarrow> string" where
  "TrimSpace s = rev (dropWhile is_space (rev (dropWhile is_space s)))"

text \<open>\<^verbatim>\<open>strings.Split(s, sep)\<close> for a one-byte separator, and \<^verbatim>\<open>strings.Join\<close>.\<close>

fun split_char :: "char \<Rightarrow> string \<Rightarrow> string list" where
  "split_char sep [] = [[]]"
| "split_char sep (c # s) =
     (if c = sep then [] # split_char sep s
      else (case split_char sep s of [] \<Rightarrow> [[c]] | w # ws \<Rightarrow> (c # w) # ws))"

fun join_char :: "char \<Rightarrow> string list \<Rightarrow> string" where
  "join_char sep [] = []"
| "join_char sep [w] = w"
| "join_char sep (w # v # ws) = w @ sep # join_char sep (v # ws)"

definition newline :: char where
  "newline = CHR 0x0A"

lemma HasPrefix_append [simp]: "HasPrefix (p @ s) p"
  by (simp add: HasPrefix_def)

lemma HasPrefix_Cons [simp]:
  "HasPrefix s []" "HasPrefix (a # s) (b # p) \<longleftrightarrow> a = b \<and> HasPrefix s p"
  by (auto simp: HasPrefix_def)

lemma HasPrefix_iff: "HasPrefix s p \<longleftrightarrow> (\<exists>t. s = p @ t)"
  by (metis HasPrefix_append HasPrefix_def append_take_drop_id)

lemma HasPrefix_prefix: "HasPrefix s p \<longleftrightarrow> prefix p s"
  by (auto simp: HasPrefix_iff prefix_def)

lemma TrimPrefix_append [simp]: "TrimPrefix (p @ s) p = s"
  by (simp add: TrimPrefix_def)

lemma TrimPrefix_0x [simp]: "TrimPrefix (CHR ''0'' # CHR ''x'' # s) ''0x'' = s"
  using TrimPrefix_append [of "''0x''" s] by simp

lemma split_char_not_Nil [simp]: "split_char sep s \<noteq> []"
  by (induction s) (auto split: list.splits)

lemma split_char_no_sep: "sep \<notin> set s \<Longrightarrow> split_char sep s = [s]"
  by (induction s) auto

lemma split_char_append: "sep \<notin> set w \<Longrightarrow> split_char sep (w @ sep # s) = w # split_char sep s"
  by (induction w) auto

text \<open>Joining and splitting are inverse on lines that hold no separator.\<close>

lemma split_join:
  assumes "ws \<noteq> []" and "\<forall>w \<in> set ws. sep \<notin> set w"
  shows "split_char sep (join_char sep ws) = ws"
  using assms by (induction sep ws rule: join_char.induct) (auto simp: split_char_no_sep split_char_append)

lemma join_split: "join_char sep (split_char sep s) = s"
proof (induction s)
  case (Cons c s)
  obtain w ws where "split_char sep s = w # ws"
    by (meson neq_Nil_conv split_char_not_Nil)
  with Cons show ?case by (cases ws) auto
qed simp

lemma set_split_char: "w \<in> set (split_char sep s) \<Longrightarrow> sep \<notin> set w"
proof (induction s arbitrary: w)
  case (Cons c s)
  obtain v vs where v: "split_char sep s = v # vs"
    by (meson neq_Nil_conv split_char_not_Nil)
  with Cons show ?case by (auto split: if_splits)
qed simp

lemma TrimSpace_id:
  assumes "s = [] \<or> (\<not> is_space (hd s) \<and> \<not> is_space (last s))"
  shows "TrimSpace s = s"
proof (cases "s = []")
  case False
  with assms have h: "dropWhile is_space s = s" by (cases s) auto
  from False assms have "\<not> is_space (hd (rev s))" by (simp add: hd_rev)
  with False have "dropWhile is_space (rev s) = rev s" by (cases "rev s") auto
  with h show ?thesis by (simp add: TrimSpace_def)
qed (simp add: TrimSpace_def)

lemma TrimSpace_ends:
  "TrimSpace s = [] \<or> (\<not> is_space (hd (TrimSpace s)) \<and> \<not> is_space (last (TrimSpace s)))"
proof -
  let ?t = "dropWhile is_space s"
  let ?u = "dropWhile is_space (rev ?t)"
  have len: "?u = [] \<or> \<not> is_space (hd ?u)" by (metis hd_dropWhile)
  have "?u = [] \<or> \<not> is_space (last ?u)"
  proof (cases "?u = []")
    case False
    have "suffix ?u (rev ?t)" by (simp add: suffix_dropWhile)
    then obtain z where z: "rev ?t = z @ ?u" by (auto simp: suffix_def)
    with False have "last ?u = last (rev ?t)" by (metis last_appendR)
    moreover have "last (rev ?t) = hd ?t" by (simp add: last_rev)
    moreover from z False have "?t \<noteq> []" by (metis append_is_Nil_conv rev.simps(1))
    ultimately show ?thesis by (metis hd_dropWhile)
  qed simp
  with len show ?thesis by (auto simp: TrimSpace_def hd_rev last_rev)
qed

lemma TrimSpace_idem [simp]: "TrimSpace (TrimSpace s) = TrimSpace s"
  using TrimSpace_ends [of s] by (intro TrimSpace_id) auto



section \<open>Package strconv and the hexadecimal verbs\<close>

text \<open>The value of a digit character in any base up to 16, upper or lower case.\<close>

definition hex_val :: "char \<Rightarrow> nat option" where
  "hex_val c =
     (let n = of_char c :: nat in
      if 48 \<le> n \<and> n \<le> 57 then Some (n - 48)
      else if 97 \<le> n \<and> n \<le> 102 then Some (n - 87)
      else if 65 \<le> n \<and> n \<le> 70 then Some (n - 55)
      else None)"

definition hex_digit :: "nat \<Rightarrow> char" where
  "hex_digit d = (if d < 10 then char_of (d + 48) else char_of (d + 87))"

text \<open>The digits of a natural number in base \<open>b\<close>, most significant first.\<close>

fun digits_of :: "nat \<Rightarrow> nat \<Rightarrow> string" where
  "digits_of b n =
     (if b \<le> 1 \<or> n < b then [hex_digit n] else digits_of b (n div b) @ [hex_digit (n mod b)])"

declare digits_of.simps [simp del]

fun parse_digits :: "nat \<Rightarrow> nat \<Rightarrow> string \<Rightarrow> nat option" where
  "parse_digits b acc [] = Some acc"
| "parse_digits b acc (c # cs) =
     (case hex_val c of
        None \<Rightarrow> None
      | Some d \<Rightarrow> if d < b then parse_digits b (acc * b + d) cs else None)"

text \<open>
  \<^verbatim>\<open>strconv.ParseUint(s, base, bits)\<close> for base 10 and 16; \<^const>\<open>None\<close> is a non-nil error (no
  digits, an invalid digit, or a value that does not fit \<open>bits\<close> bits).
\<close>

definition ParseUint :: "string \<Rightarrow> nat \<Rightarrow> nat \<Rightarrow> nat option" where
  "ParseUint s b bits =
     (if s = [] then None
      else (case parse_digits b 0 s of
              None \<Rightarrow> None
            | Some n \<Rightarrow> if n < 2 ^ bits then Some n else None))"

definition Itoa :: "int \<Rightarrow> string" where
  "Itoa i = (if i < 0 then CHR ''-'' # digits_of 10 (nat (- i)) else digits_of 10 (nat i))"

text \<open>\<^verbatim>\<open>strconv.Atoi\<close> (a 64-bit \<^verbatim>\<open>int\<close>) and \<^verbatim>\<open>strconv.ParseInt(s, 10, 64)\<close>.\<close>

definition in_int64 :: "int \<Rightarrow> bool" where
  "in_int64 i \<longleftrightarrow> - (2 ^ 63) \<le> i \<and> i < 2 ^ 63"

definition Atoi :: "string \<Rightarrow> int option" where
  "Atoi s =
     (let neg = (s \<noteq> [] \<and> hd s = CHR ''-'');
          ds = (if s \<noteq> [] \<and> (hd s = CHR ''-'' \<or> hd s = CHR ''+'') then tl s else s)
      in if ds = [] then None
         else (case parse_digits 10 0 ds of
                 None \<Rightarrow> None
               | Some n \<Rightarrow>
                   (let i = (if neg then - int n else int n) in if in_int64 i then Some i else None)))"

text \<open>Go's conversions between integer widths: they keep the low bits.\<close>

definition to_uint32 :: "int \<Rightarrow> nat" where
  "to_uint32 i = nat (i mod 2 ^ 32)"

definition to_int64 :: "nat \<Rightarrow> int" where
  "to_int64 n = (let m = int n mod 2 ^ 64 in if m < 2 ^ 63 then m else m - 2 ^ 64)"

definition mul_uint64 :: "nat \<Rightarrow> nat \<Rightarrow> nat" where
  "mul_uint64 a b = (a * b) mod 2 ^ 64"

definition pad_left :: "nat \<Rightarrow> char \<Rightarrow> string \<Rightarrow> string" where
  "pad_left w c s = replicate (w - length s) c @ s"

text \<open>The verb \<^verbatim>\<open>%064x\<close>.\<close>

definition fmt_064x :: "nat \<Rightarrow> string" where
  "fmt_064x n = pad_left 64 (CHR ''0'') (digits_of 16 n)"

text \<open>Package \<^verbatim>\<open>encoding/hex\<close>: an odd length or a bad digit is an error.\<close>

fun hex_DecodeString :: "string \<Rightarrow> nat list option" where
  "hex_DecodeString [] = Some []"
| "hex_DecodeString [_] = None"
| "hex_DecodeString (a # b # cs) =
     (case (hex_val a, hex_val b) of
        (Some x, Some y) \<Rightarrow> map_option ((#) (16 * x + y)) (hex_DecodeString cs)
      | _ \<Rightarrow> None)"

fun hex_EncodeToString :: "nat list \<Rightarrow> string" where
  "hex_EncodeToString [] = []"
| "hex_EncodeToString (n # ns) = hex_digit (n div 16) # hex_digit (n mod 16) # hex_EncodeToString ns"

definition bytes_to_string :: "nat list \<Rightarrow> string" where
  "bytes_to_string ns = map char_of ns"

definition string_to_bytes :: "string \<Rightarrow> nat list" where
  "string_to_bytes s = map of_char s"


subsection \<open>Round trips\<close>

lemma hex_val_digit [simp]: "d < 16 \<Longrightarrow> hex_val (hex_digit d) = Some d"
  by (auto simp: hex_val_def hex_digit_def Let_def)

lemma hex_val_bound: "hex_val c = Some d \<Longrightarrow> d < 16"
  by (auto simp: hex_val_def Let_def split: if_splits)

lemma hex_digit_not_sign [simp]:
  "d < 16 \<Longrightarrow> hex_digit d \<noteq> CHR ''-''" "d < 16 \<Longrightarrow> hex_digit d \<noteq> CHR ''+''"
  using hex_val_digit [of d] by (auto simp: hex_val_def Let_def)

lemma parse_digits_append:
  "parse_digits b acc (xs @ ys) =
     (case parse_digits b acc xs of None \<Rightarrow> None | Some n \<Rightarrow> parse_digits b n ys)"
  by (induction xs arbitrary: acc) (auto split: option.splits)

lemma digits_of_not_Nil [simp]: "digits_of b n \<noteq> []"
  by (subst digits_of.simps) simp

lemma parse_digits_zeros: "0 < b \<Longrightarrow> parse_digits b 0 (replicate k (CHR ''0'') @ s) = parse_digits b 0 s"
  by (induction k) (auto simp: hex_val_def)

lemma parse_digits_of:
  assumes "1 < b" and "b \<le> 16"
  shows "parse_digits b 0 (digits_of b n) = Some n"
  using assms
proof (induction b n rule: digits_of.induct)
  case (1 b n)
  show ?case
  proof (cases "n < b")
    case True
    with "1.prems" show ?thesis by (simp add: digits_of.simps [of b n])
  next
    case False
    with 1 have "parse_digits b 0 (digits_of b (n div b)) = Some (n div b)" by simp
    moreover have "n mod b < 16" using "1.prems" by (meson less_le_trans mod_less_divisor order_less_trans zero_less_one)
    ultimately show ?thesis using False "1.prems"
      by (simp add: digits_of.simps [of b n] parse_digits_append)
  qed
qed

lemma length_digits_of:
  assumes "1 < b" and "n < b ^ Suc k"
  shows "length (digits_of b n) \<le> Suc k"
  using assms(2)
proof (induction k arbitrary: n)
  case 0
  with assms(1) show ?case by (simp add: digits_of.simps)
next
  case (Suc k)
  show ?case
  proof (cases "n < b")
    case True
    then show ?thesis by (simp add: digits_of.simps)
  next
    case False
    have "n div b < b ^ Suc k" using Suc.prems assms(1)
      by (metis less_mult_imp_div_less mult.commute power_Suc)
    from Suc.IH [OF this] False assms(1) show ?thesis by (subst digits_of.simps) simp
  qed
qed

lemma set_digits_of:
  assumes "1 < b" and "c \<in> set (digits_of b n)"
  shows "\<exists>d < b. c = hex_digit d"
  using assms
proof (induction b n rule: digits_of.induct)
  case (1 b n)
  then show ?case
    by (cases "n < b") (auto simp: digits_of.simps [of b n] intro: exI [of _ "n mod b"])
qed

lemma digits_of_no_sign:
  "hd (digits_of 10 n) \<noteq> CHR ''-''" "hd (digits_of 10 n) \<noteq> CHR ''+''"
proof -
  have "hd (digits_of 10 n) \<in> set (digits_of 10 n)" by (rule hd_in_set) simp
  then obtain d where "d < 10" and "hd (digits_of 10 n) = hex_digit d"
    using set_digits_of [of 10 "hd (digits_of 10 n)" n] by auto
  then show "hd (digits_of 10 n) \<noteq> CHR ''-''" "hd (digits_of 10 n) \<noteq> CHR ''+''" by simp_all
qed

lemma length_fmt_064x [simp]: "n < 2 ^ 256 \<Longrightarrow> length (fmt_064x n) = 64"
  using length_digits_of [of 16 n 63] by (simp add: fmt_064x_def pad_left_def)

lemma parse_fmt_064x [simp]: "parse_digits 16 0 (fmt_064x n) = Some n"
  by (simp add: fmt_064x_def pad_left_def parse_digits_zeros parse_digits_of)

lemma fmt_064x_not_Nil [simp]: "fmt_064x n \<noteq> []"
  by (simp add: fmt_064x_def pad_left_def)

lemma ParseUint_fmt_064x: "ParseUint (fmt_064x n) 16 bits = (if n < 2 ^ bits then Some n else None)"
  by (simp add: ParseUint_def)

lemma ParseUint_bound: "ParseUint s b bits = Some n \<Longrightarrow> n < 2 ^ bits"
  by (auto simp: ParseUint_def split: if_splits option.splits)

lemma fmt_064x_inject: "fmt_064x m = fmt_064x n \<longleftrightarrow> m = n"
  by (metis parse_fmt_064x option.inject)

lemma Atoi_Itoa: "in_int64 i \<Longrightarrow> Atoi (Itoa i) = Some i"
  by (auto simp: Atoi_def Itoa_def Let_def parse_digits_of digits_of_no_sign in_int64_def)

lemma digits_of_inject: "digits_of 10 m = digits_of 10 n \<Longrightarrow> m = n"
proof -
  assume eq: "digits_of 10 m = digits_of 10 n"
  have dig: "parse_digits 10 0 (digits_of 10 k) = Some k" for k
    by (rule parse_digits_of) simp_all
  from dig [of m] dig [of n] show "m = n" unfolding eq by simp
qed

lemma Itoa_inject: "Itoa i = Itoa j \<longleftrightarrow> i = j"
proof
  assume eq: "Itoa i = Itoa j"
  note dig = digits_of_inject
  show "i = j"
  proof (cases "i < 0"; cases "j < 0")
    assume "i < 0" "j < 0"
    with eq dig [of "nat (- i)" "nat (- j)"] show ?thesis by (simp add: Itoa_def)
  next
    assume "\<not> i < 0" "\<not> j < 0"
    with eq dig [of "nat i" "nat j"] show ?thesis by (simp add: Itoa_def)
  qed (use eq digits_of_no_sign(1) in \<open>(metis Itoa_def list.sel(1))+\<close>)
qed simp

lemma ParseUint_Itoa: "0 \<le> i \<Longrightarrow> i < 2 ^ bits \<Longrightarrow> ParseUint (Itoa i) 10 bits = Some (nat i)"
  by (simp add: ParseUint_def Itoa_def parse_digits_of)

lemma hex_decode_encode: "\<forall>n \<in> set ns. n < 256 \<Longrightarrow> hex_DecodeString (hex_EncodeToString ns) = Some ns"
  by (induction ns) (auto simp: less_mult_imp_div_less)

lemma length_hex_EncodeToString [simp]: "length (hex_EncodeToString ns) = 2 * length ns"
  by (induction ns) auto

lemma hex_DecodeString_length: "hex_DecodeString s = Some ns \<Longrightarrow> length s = 2 * length ns"
  by (induction s arbitrary: ns rule: hex_DecodeString.induct) (auto split: option.splits)

lemma hex_DecodeString_bound: "hex_DecodeString s = Some ns \<Longrightarrow> \<forall>n \<in> set ns. n < 256"
proof (induction s arbitrary: ns rule: hex_DecodeString.induct)
  case (3 a b cs)
  then show ?case by (fastforce split: option.splits dest: hex_val_bound)
qed auto

lemma to_uint32_bound: "to_uint32 i < 2 ^ 32"
  by (simp add: to_uint32_def nat_less_iff)

lemma to_uint32_id: "0 \<le> i \<Longrightarrow> i < 2 ^ 32 \<Longrightarrow> to_uint32 i = nat i"
  by (simp add: to_uint32_def)

lemma to_int64_small: "n < 2 ^ 63 \<Longrightarrow> to_int64 n = int n"
  by (simp add: to_int64_def)

lemma to_int64_neg_iff: "n < 2 ^ 64 \<Longrightarrow> to_int64 n < 0 \<longleftrightarrow> 2 ^ 63 \<le> n"
  by (auto simp: to_int64_def Let_def)


section \<open>Loops that may not end\<close>

text \<open>
  A \<^verbatim>\<open>for\<close> loop as a step function: it is done with a result or goes on with the next state.
  \<open>run_loop step n s\<close> makes at most \<open>n\<close> iterations; \<^const>\<open>None\<close> means that they did not suffice.
\<close>

datatype ('r, 's) loop_step = Done 'r | Next 's

fun run_loop :: "('s \<Rightarrow> ('r, 's) loop_step) \<Rightarrow> nat \<Rightarrow> 's \<Rightarrow> 'r option" where
  "run_loop step 0 s = None"
| "run_loop step (Suc n) s = (case step s of Done r \<Rightarrow> Some r | Next s' \<Rightarrow> run_loop step n s')"

lemma run_loop_mono: "run_loop step n s = Some r \<Longrightarrow> n \<le> m \<Longrightarrow> run_loop step m s = Some r"
proof (induction n arbitrary: m s)
  case (Suc n)
  then obtain k where "m = Suc k" "n \<le> k" by (cases m) auto
  with Suc show ?case by (auto split: loop_step.splits)
qed simp

lemma run_loop_invariant:
  assumes "run_loop step n s = Some r" and "I s"
    and "\<And>s s'. I s \<Longrightarrow> step s = Next s' \<Longrightarrow> I s'" and "\<And>s r. I s \<Longrightarrow> step s = Done r \<Longrightarrow> P r"
  shows "P r"
  using assms(1,2)
proof (induction n arbitrary: s)
  case (Suc n)
  then show ?case using assms(3,4) by (auto split: loop_step.splits)
qed simp

lemma run_loop_diverges:
  assumes "I s" and "\<And>s. I s \<Longrightarrow> \<exists>s'. step s = Next s' \<and> I s'"
  shows "run_loop step n s = None"
  using assms(1)
proof (induction n arbitrary: s)
  case (Suc n)
  then obtain s' where "step s = Next s'" "I s'" using assms(2) by blast
  with Suc.IH show ?case by simp
qed simp

lemma run_loop_measure:
  assumes "I s" and "\<And>s s'. I s \<Longrightarrow> step s = Next s' \<Longrightarrow> I s' \<and> f s' < (f s :: nat)"
  shows "\<exists>r. run_loop step (Suc (f s)) s = Some r"
  using assms(1)
proof (induction "f s" arbitrary: s rule: less_induct)
  case less
  show ?case
  proof (cases "step s")
    case (Next s')
    with assms(2) less.prems have lt: "I s'" "f s' < f s" by blast+
    with less.hyps obtain r where "run_loop step (Suc (f s')) s' = Some r" by blast
    then have "run_loop step (f s) s' = Some r" using lt(2) by (blast intro: run_loop_mono Suc_leI)
    with Next show ?thesis by simp
  qed simp
qed

end
