(* ===== verification/Device.thy ===== *)
theory Device
  imports GoPrelude
begin

text \<open>
  What the components share of the machine they run on: JSON documents as \<^verbatim>\<open>encoding/json\<close> decodes
  them into Go structs, HTTP exchanges, the file system, and the environment outside the process
  (network, clock, timers). The outside is a state of an arbitrary type \<open>'w\<close> moved by the functions
  of an \<open>env\<close> record, so every theorem holds for every behaviour of the network and of the clock.

  Text is modelled at the level of values: a body is a JSON document or bytes that are none, and a
  file holds text, the second named by an RFC 3339 time (\<open>Stamp\<close>), a YAML configuration, a JSON document, or
  a JSON object at the level of the map it decodes to (\<open>Props\<close>).
\<close>

section \<open>JSON documents\<close>

datatype json =
    JNull
  | JBool bool
  | JNum int
  | JFrac string
  | JStr string
  | JArr "json list"
  | JObj "(string \<times> json) list"

text \<open>\<open>Doc j\<close>: exactly one document; \<open>DocThen j s\<close>: a document and more bytes; \<open>Raw s\<close>: no document.\<close>

datatype body = Doc json | DocThen json string | Raw string

text \<open>\<^verbatim>\<open>json.Unmarshal\<close> wants the whole input, \<^verbatim>\<open>json.NewDecoder(r).Decode\<close> the first document.\<close>

fun unmarshal :: "body \<Rightarrow> json option" where
  "unmarshal (Doc j) = Some j"
| "unmarshal _ = None"

fun decode_first :: "body \<Rightarrow> json option" where
  "decode_first (Doc j) = Some j"
| "decode_first (DocThen j _) = Some j"
| "decode_first (Raw _) = None"

text \<open>Object keys match struct fields case-insensitively; a later key overwrites an earlier one.\<close>

definition lower_char :: "char \<Rightarrow> char" where
  "lower_char c = (let n = of_char c :: nat in if 65 \<le> n \<and> n \<le> 90 then char_of (n + 32) else c)"

definition fold_eq :: "string \<Rightarrow> string \<Rightarrow> bool" where
  "fold_eq k name \<longleftrightarrow> map lower_char k = map lower_char name"

fun field_value :: "(json \<Rightarrow> 'a option) \<Rightarrow> string \<Rightarrow> 'a \<Rightarrow> (string \<times> json) list \<Rightarrow> 'a option" where
  "field_value conv name x [] = Some x"
| "field_value conv name x ((k, v) # kvs) =
     (if fold_eq k name \<and> v \<noteq> JNull
      then (case conv v of None \<Rightarrow> None | Some y \<Rightarrow> field_value conv name y kvs)
      else field_value conv name x kvs)"

text \<open>One struct field: absent or null leaves the zero value, a wrong type is an error.\<close>

fun get_field :: "(json \<Rightarrow> 'a option) \<Rightarrow> string \<Rightarrow> 'a \<Rightarrow> json \<Rightarrow> 'a option" where
  "get_field conv name zero (JObj kvs) = field_value conv name zero kvs"
| "get_field conv name zero JNull = Some zero"
| "get_field conv name zero _ = None"

fun as_string :: "json \<Rightarrow> string option" where
  "as_string (JStr s) = Some s"
| "as_string _ = None"

fun as_int :: "json \<Rightarrow> int option" where
  "as_int (JNum i) = (if in_int64 i then Some i else None)"
| "as_int _ = None"

fun as_bool :: "json \<Rightarrow> bool option" where
  "as_bool (JBool b) = Some b"
| "as_bool _ = None"

text \<open>A field of pointer type: null sets the nil pointer.\<close>

fun pointer_field :: "(json \<Rightarrow> 'a option) \<Rightarrow> string \<Rightarrow> 'a option \<Rightarrow> (string \<times> json) list \<Rightarrow> 'a option option" where
  "pointer_field conv name x [] = Some x"
| "pointer_field conv name x ((k, v) # kvs) =
     (if \<not> fold_eq k name then pointer_field conv name x kvs
      else if v = JNull then pointer_field conv name None kvs
      else (case conv v of None \<Rightarrow> None | Some y \<Rightarrow> pointer_field conv name (Some y) kvs))"

text \<open>A document decoded into a \<^verbatim>\<open>map[string]interface{}\<close>: any object, or null.\<close>

fun as_map :: "json \<Rightarrow> (string \<times> json) list option" where
  "as_map (JObj kvs) = Some kvs"
| "as_map JNull = Some []"
| "as_map _ = None"


section \<open>HTTP\<close>

record http_req =
  hq_method :: string
  hq_url :: string
  hq_body :: body

text \<open>
  What \<^verbatim>\<open>http.Client.Do\<close> gives: a transport error, or a status and the body (\<^const>\<open>None\<close> when reading
  the body fails).
\<close>

datatype net_reply = NetErr | Reply nat "body option"

text \<open>What a handler writes: the status and the document or text of the body.\<close>

record http_resp =
  rs_status :: nat
  rs_body :: body

definition respond :: "nat \<Rightarrow> json \<Rightarrow> http_resp" where
  "respond st j = \<lparr>rs_status = st, rs_body = Doc j\<rparr>"

text \<open>\<^verbatim>\<open>http.Error\<close> writes the text and a newline.\<close>

definition http_Error :: "nat \<Rightarrow> string \<Rightarrow> http_resp" where
  "http_Error st msg = \<lparr>rs_status = st, rs_body = Raw (msg @ [newline])\<rparr>"

text \<open>
  \<^verbatim>\<open>w.WriteHeader\<close> panics on a status outside 100 to 999; the server then drops the connection, which
  is the reply \<^const>\<open>None\<close>. The statuses 1xx, 204 and 304 send no body.
\<close>

definition WriteHeader :: "nat \<Rightarrow> body \<Rightarrow> http_resp option" where
  "WriteHeader st b =
     (if st < 100 \<or> 999 < st then None
      else Some \<lparr>rs_status = st, rs_body = (if st < 200 \<or> st = 204 \<or> st = 304 then Raw [] else b)\<rparr>)"

lemma WriteHeader_plain [simp]:
  "200 \<le> st \<Longrightarrow> st \<le> 999 \<Longrightarrow> st \<noteq> 204 \<Longrightarrow> st \<noteq> 304 \<Longrightarrow> WriteHeader st b = Some \<lparr>rs_status = st, rs_body = b\<rparr>"
  by (simp add: WriteHeader_def)

lemma WriteHeader_0 [simp]: "WriteHeader 0 b = None"
  by (simp add: WriteHeader_def)

text \<open>
  The error documents of the handlers (\<^verbatim>\<open>encoding/json\<close> sorts the keys of a map). A description that
  quotes an error of the network or of the file system is abstracted to the empty string.
\<close>

definition error_doc :: "string \<Rightarrow> string \<Rightarrow> json" where
  "error_doc message description = JObj [(''description'', JStr description), (''message'', JStr message)]"

abbreviation StatusOK :: nat where "StatusOK \<equiv> 200"
abbreviation StatusAccepted :: nat where "StatusAccepted \<equiv> 202"
abbreviation StatusNoContent :: nat where "StatusNoContent \<equiv> 204"
abbreviation StatusBadRequest :: nat where "StatusBadRequest \<equiv> 400"
abbreviation StatusUnauthorized :: nat where "StatusUnauthorized \<equiv> 401"
abbreviation StatusNotFound :: nat where "StatusNotFound \<equiv> 404"
abbreviation StatusConflict :: nat where "StatusConflict \<equiv> 409"
abbreviation StatusExpectationFailed :: nat where "StatusExpectationFailed \<equiv> 417"
abbreviation StatusFailedDependency :: nat where "StatusFailedDependency \<equiv> 424"
abbreviation StatusInternalServerError :: nat where "StatusInternalServerError \<equiv> 500"
abbreviation StatusServiceUnavailable :: nat where "StatusServiceUnavailable \<equiv> 503"


section \<open>The outside and the device\<close>

type_synonym peerID = string

text \<open>
  Third-party codecs the sources call: multibase decoding, base58btc encoding (with its \<^verbatim>\<open>z\<close>
  prefix) and \<^verbatim>\<open>peer.Decode\<close>. A peer id is represented by its text.
\<close>

record codecs =
  mb_Decode :: "string \<Rightarrow> nat list option"
  mb_Encode58 :: "nat list \<Rightarrow> string"
  peer_Decode :: "string \<Rightarrow> peerID option"

text \<open>
  \<open>drain\<close> is \<^verbatim>\<open>http.Server.Shutdown\<close>: \<^const>\<open>True\<close> when it ends before its context does. \<open>wait ns\<close> is \<^verbatim>\<open>select\<close> between \<^verbatim>\<open>ctx.Done()\<close> and \<^verbatim>\<open>time.After(ns)\<close>: \<^const>\<open>True\<close> when the time passed.
  \<open>clock\<close> is \<^verbatim>\<open>time.Now()\<close> in nanoseconds. \<open>cid_Decode\<close> is \<^verbatim>\<open>cid.Decode\<close> followed by \<^verbatim>\<open>String()\<close>,
  \<open>cluster_pin\<close> the client of the cluster (\<^verbatim>\<open>ipfsClusterApi.Pin\<close>). \<open>raw_text\<close> gives the bytes of a body as they were received;
  \<open>reencode\<close> is the trip of a document through an \<^verbatim>\<open>interface{}\<close> value, which sorts keys and rounds
  numbers. \<open>str_pad\<close> is the padding of \<^verbatim>\<open>%064s\<close>.
\<close>

record 'w env =
  net :: "http_req \<Rightarrow> 'w \<Rightarrow> net_reply \<times> 'w"
  wait :: "int \<Rightarrow> 'w \<Rightarrow> bool \<times> 'w"
  clock :: "'w \<Rightarrow> int \<times> 'w"
  drain :: "'w \<Rightarrow> bool \<times> 'w"
  str_pad :: char
  raw_text :: "body \<Rightarrow> string"
  reencode :: "json \<Rightarrow> json"
  cid_Decode :: "string \<Rightarrow> string option"
  cluster_pin :: "string \<Rightarrow> 'w \<Rightarrow> string option \<times> 'w"
  codec :: codecs

text \<open>
  The daemon's configuration (\<^verbatim>\<open>app.config\<close> of \<^verbatim>\<open>cmd/blox/main.go\<close>): the two settings that change at
  run time and the others, and a YAML document, in which any setting may be missing.
\<close>

record blox_config =
  PoolName :: string
  ChainName :: string
  other_settings :: "string \<rightharpoonup> json"

record yaml_doc =
  y_poolName :: "string option"
  y_chainName :: "string option"
  y_others :: "string \<rightharpoonup> json"

datatype fcontent = Text string | Stamp int | Conf yaml_doc | Json json | Props "string \<rightharpoonup> json"

fun file_text :: "fcontent \<Rightarrow> string" where
  "file_text (Text s) = s"
| "file_text _ = []"

datatype member_status = Unknown | Pending | Approved

text \<open>
  The state: files, the paths whose reads or writes fail, the outside, and what the running
  \<^verbatim>\<open>FxBlockchain\<close> keeps in memory. \<open>signals\<close> counts the restarts requested by the
  \<^verbatim>\<open>onPoolConfigCleared\<close> hook.
\<close>

record 'w device =
  files :: "string \<rightharpoonup> fcontent"
  unreadable :: "string \<Rightarrow> bool"
  unwritable :: "string \<Rightarrow> bool"
  world :: 'w
  members :: "peerID \<rightharpoonup> member_status"
  authorizedPeers :: "peerID set"
  ping_up :: bool
  signals :: nat
  app_config :: blox_config

datatype fs_error = NotExist | FsFailure

definition ReadFile :: "string \<Rightarrow> 'w device \<Rightarrow> (fs_error, fcontent) outcome" where
  "ReadFile p d =
     (if unreadable d p then Err FsFailure
      else (case files d p of None \<Rightarrow> Err NotExist | Some f \<Rightarrow> Ok f))"

text \<open>\<^verbatim>\<open>os.WriteFile\<close> and \<^verbatim>\<open>os.Remove\<close>: \<^const>\<open>True\<close> is a nil error. A write fails when the file cannot be opened for
  writing, and then changes nothing; a device that fails in the middle of a write, say on a full disk, which leaves a
  truncated file behind, is not modelled.\<close>

definition WriteFile :: "string \<Rightarrow> fcontent \<Rightarrow> 'w device \<Rightarrow> bool \<times> 'w device" where
  "WriteFile p f d = (if unwritable d p then (False, d) else (True, d\<lparr>files := (files d)(p \<mapsto> f)\<rparr>))"

definition RemoveFile :: "string \<Rightarrow> 'w device \<Rightarrow> 'w device" where
  "RemoveFile p d = (if unwritable d p then d else d\<lparr>files := (files d)(p := None)\<rparr>)"

definition FileExists :: "string \<Rightarrow> 'w device \<Rightarrow> bool" where
  "FileExists p d \<longleftrightarrow> files d p \<noteq> None"

text \<open>The three ways of reaching outside, on the device.\<close>

definition send :: "'w env \<Rightarrow> http_req \<Rightarrow> 'w device \<Rightarrow> net_reply \<times> 'w device" where
  "send env r d = (let (x, w) = net env r (world d) in (x, d\<lparr>world := w\<rparr>))"

definition wait_for :: "'w env \<Rightarrow> int \<Rightarrow> 'w device \<Rightarrow> bool \<times> 'w device" where
  "wait_for env ns d = (let (x, w) = wait env ns (world d) in (x, d\<lparr>world := w\<rparr>))"

definition time_now :: "'w env \<Rightarrow> 'w device \<Rightarrow> int \<times> 'w device" where
  "time_now env d = (let (x, w) = clock env (world d) in (x, d\<lparr>world := w\<rparr>))"

abbreviation second :: int where "second \<equiv> 1000000000"
abbreviation minute :: int where "minute \<equiv> 60 * second"
abbreviation hour :: int where "hour \<equiv> 60 * minute"


section \<open>Frames\<close>

text \<open>
  \<open>same_local d e\<close>: the two devices differ at most in the outside world and in the copy of the
  configuration that reading its file refreshes. Everything that only talks to the network, waits or
  reads the configuration stays inside this frame.
\<close>

definition same_local :: "'w device \<Rightarrow> 'w device \<Rightarrow> bool" where
  "same_local d e \<longleftrightarrow> (\<exists>w c. e = d\<lparr>world := w, app_config := c\<rparr>)"

named_theorems frame_intros \<open>operations that only move the outside world\<close>

lemma same_local_refl [simp, intro]: "same_local d d"
  unfolding same_local_def by (rule exI [of _ "world d"], rule exI [of _ "app_config d"]) simp

lemma same_localI: "e = d\<lparr>world := w, app_config := c\<rparr> \<Longrightarrow> same_local d e"
  by (auto simp: same_local_def)

lemma same_local_trans: "same_local d e \<Longrightarrow> same_local e f \<Longrightarrow> same_local d f"
  by (clarsimp simp: same_local_def) blast

lemma same_local_world [simp, intro]: "same_local d (d\<lparr>world := w\<rparr>)"
  by (rule same_localI [where c = "app_config d"]) simp

lemma same_local_app_config [simp, intro]: "same_local d (d\<lparr>app_config := c\<rparr>)"
  by (rule same_localI [where w = "world d"]) simp

lemma same_localD:
  assumes "same_local d e"
  shows "files e = files d" "unreadable e = unreadable d" "unwritable e = unwritable d"
    "members e = members d" "authorizedPeers e = authorizedPeers d" "ping_up e = ping_up d" "signals e = signals d"
  using assms by (auto simp: same_local_def)

lemma send_local [frame_intros]: "send env r d = (x, e) \<Longrightarrow> same_local d e"
  by (auto simp: send_def split: prod.splits)

lemma wait_for_local [frame_intros]: "wait_for env ns d = (x, e) \<Longrightarrow> same_local d e"
  by (auto simp: wait_for_def split: prod.splits)

lemma time_now_local [frame_intros]: "time_now env d = (x, e) \<Longrightarrow> same_local d e"
  by (auto simp: time_now_def split: prod.splits)

lemma WriteFile_frame:
  "WriteFile p f d = (ok, e) \<Longrightarrow>
     unreadable e = unreadable d \<and> unwritable e = unwritable d \<and> world e = world d \<and>
     members e = members d \<and> authorizedPeers e = authorizedPeers d \<and> ping_up e = ping_up d \<and> signals e = signals d \<and>
     app_config e = app_config d \<and> (\<forall>q. q \<noteq> p \<longrightarrow> files e q = files d q) \<and> (ok \<longrightarrow> files e p = Some f) \<and> (\<not> ok \<longrightarrow> e = d)"
  by (auto simp: WriteFile_def split: if_splits)

lemma RemoveFile_frame [simp]:
  "unreadable (RemoveFile p d) = unreadable d" "unwritable (RemoveFile p d) = unwritable d"
  "world (RemoveFile p d) = world d" "members (RemoveFile p d) = members d"
  "authorizedPeers (RemoveFile p d) = authorizedPeers d"
  "ping_up (RemoveFile p d) = ping_up d" "signals (RemoveFile p d) = signals d"
  "app_config (RemoveFile p d) = app_config d"
  by (simp_all add: RemoveFile_def)

lemma RemoveFile_other: "q \<noteq> p \<Longrightarrow> files (RemoveFile p d) q = files d q"
  by (simp add: RemoveFile_def)

lemma ReadFile_same_local: "same_local d e \<Longrightarrow> ReadFile p e = ReadFile p d"
  by (auto simp: ReadFile_def same_local_def)

end
