(* ===== verification/GoStruct.thy ===== *)
theory GoStruct
  imports Device
begin

text \<open>
  Go struct types as \<^verbatim>\<open>encoding/json\<close> sees them. A value of a struct is represented by the document it
  marshals to before empty optional fields are dropped: one entry per field, in declaration order. A
  nil slice is null.
\<close>

section \<open>Types and values\<close>

text \<open>
  A field: its JSON name, its type, and whether it is tagged \<^verbatim>\<open>omitempty\<close>. A value of type \<^verbatim>\<open>interface{}\<close>
  (\<open>GAny\<close>) or \<^verbatim>\<open>map[string]interface{}\<close> (\<open>GMap\<close>) is kept as the document it was decoded from; the order of
  its keys and the rounding of its numbers are not represented.
\<close>

datatype gty =
    GInt
  | GUint64
  | GBigInt
  | GStr
  | GBool
  | GPtrInt
  | GArr gty
  | GStruct "(string \<times> gty \<times> bool) list"
  | GAny
  | GMap

fun zero_val :: "gty \<Rightarrow> json" and zero_fields :: "(string \<times> gty \<times> bool) list \<Rightarrow> (string \<times> json) list" where
  "zero_val GInt = JNum 0"
| "zero_val GUint64 = JNum 0"
| "zero_val GBigInt = JNum 0"
| "zero_val GStr = JStr []"
| "zero_val GBool = JBool False"
| "zero_val GPtrInt = JNull"
| "zero_val (GArr t) = JNull"
| "zero_val (GStruct fs) = JObj (zero_fields fs)"
| "zero_val GAny = JNull"
| "zero_val GMap = JNull"
| "zero_fields [] = []"
| "zero_fields ((n, t, om) # fs) = (n, zero_val t) # zero_fields fs"

text \<open>Every entry whose key matches the field is decoded into it, one after the other.\<close>

fun field_fold :: "(json \<Rightarrow> json \<Rightarrow> json option) \<Rightarrow> string \<Rightarrow> json \<Rightarrow> (string \<times> json) list \<Rightarrow> json option" where
  "field_fold conv name x [] = Some x"
| "field_fold conv name x ((k, v) # kvs) =
     (if fold_eq k name
      then (case conv x v of None \<Rightarrow> None | Some y \<Rightarrow> field_fold conv name y kvs)
      else field_fold conv name x kvs)"

fun entries :: "json \<Rightarrow> (string \<times> json) list" where
  "entries (JObj kvs) = kvs"
| "entries _ = []"

definition entry :: "string \<Rightarrow> json \<Rightarrow> json" where
  "entry n v = (case map_of (entries v) n of None \<Rightarrow> JNull | Some x \<Rightarrow> x)"

text \<open>
  \<open>decode_go t old v\<close> decodes the document \<open>v\<close> into a variable of type \<open>t\<close> that holds \<open>old\<close>. Null leaves
  a plain value alone and sets a pointer or slice to nil; unknown keys are ignored; a document of the
  wrong kind is an error.
\<close>

fun decode_go :: "gty \<Rightarrow> json \<Rightarrow> json \<Rightarrow> json option"
  and decode_fields :: "(string \<times> gty \<times> bool) list \<Rightarrow> json \<Rightarrow> (string \<times> json) list \<Rightarrow> (string \<times> json) list option" where
  "decode_go GInt old v =
     (case v of JNull \<Rightarrow> Some old | JNum i \<Rightarrow> if in_int64 i then Some (JNum i) else None | _ \<Rightarrow> None)"
| "decode_go GUint64 old v =
     (case v of JNull \<Rightarrow> Some old | JNum i \<Rightarrow> if 0 \<le> i \<and> i < 2 ^ 64 then Some (JNum i) else None | _ \<Rightarrow> None)"
| "decode_go GBigInt old v = (case v of JNull \<Rightarrow> Some old | JNum i \<Rightarrow> Some (JNum i) | _ \<Rightarrow> None)"
| "decode_go GStr old v = (case v of JNull \<Rightarrow> Some old | JStr s \<Rightarrow> Some (JStr s) | _ \<Rightarrow> None)"
| "decode_go GBool old v = (case v of JNull \<Rightarrow> Some old | JBool b \<Rightarrow> Some (JBool b) | _ \<Rightarrow> None)"
| "decode_go GPtrInt old v =
     (case v of JNull \<Rightarrow> Some JNull | JNum i \<Rightarrow> if in_int64 i then Some (JNum i) else None | _ \<Rightarrow> None)"
| "decode_go (GArr t) old v =
     (case v of
        JNull \<Rightarrow> Some JNull
      | JArr vs \<Rightarrow> map_option JArr (those (map (decode_go t (zero_val t)) vs))
      | _ \<Rightarrow> None)"
| "decode_go (GStruct fs) old v =
     (case v of
        JNull \<Rightarrow> Some old
      | JObj kvs \<Rightarrow> map_option JObj (decode_fields fs old kvs)
      | _ \<Rightarrow> None)"
| "decode_go GAny old v = Some v"
| "decode_go GMap old v = (case v of JNull \<Rightarrow> Some JNull | JObj kvs \<Rightarrow> Some (JObj kvs) | _ \<Rightarrow> None)"
| "decode_fields [] old kvs = Some []"
| "decode_fields ((n, t, om) # fs) old kvs =
     (case field_fold (decode_go t) n (entry n old) kvs of
        None \<Rightarrow> None
      | Some y \<Rightarrow> map_option ((#) (n, y)) (decode_fields fs old kvs))"

text \<open>\<^verbatim>\<open>json.Marshal\<close> drops an empty field that is tagged \<^verbatim>\<open>omitempty\<close>.\<close>

definition is_empty_val :: "json \<Rightarrow> bool" where
  "is_empty_val v \<longleftrightarrow> v \<in> {JNull, JBool False, JNum 0, JStr [], JArr []}"

fun encode_go :: "gty \<Rightarrow> json \<Rightarrow> json"
  and encode_fields :: "(string \<times> gty \<times> bool) list \<Rightarrow> json \<Rightarrow> (string \<times> json) list" where
  "encode_go (GStruct fs) v = JObj (encode_fields fs v)"
| "encode_go (GArr t) v = (case v of JArr vs \<Rightarrow> JArr (map (encode_go t) vs) | _ \<Rightarrow> v)"
| "encode_go _ v = v"
| "encode_fields [] v = []"
| "encode_fields ((n, t, om) # fs) v =
     (if om \<and> is_empty_val (entry n v) then encode_fields fs v
      else (n, encode_go t (entry n v)) # encode_fields fs v)"

text \<open>Decoding a whole document into a fresh variable.\<close>

definition decode_new :: "gty \<Rightarrow> json \<Rightarrow> json option" where
  "decode_new t v = decode_go t (zero_val t) v"


section \<open>Values of a type\<close>

fun has_type :: "gty \<Rightarrow> json \<Rightarrow> bool" and have_fields :: "(string \<times> gty \<times> bool) list \<Rightarrow> (string \<times> json) list \<Rightarrow> bool" where
  "has_type GInt v = (case v of JNum i \<Rightarrow> in_int64 i | _ \<Rightarrow> False)"
| "has_type GUint64 v = (case v of JNum i \<Rightarrow> 0 \<le> i \<and> i < 2 ^ 64 | _ \<Rightarrow> False)"
| "has_type GBigInt v = (case v of JNum i \<Rightarrow> True | _ \<Rightarrow> False)"
| "has_type GStr v = (case v of JStr _ \<Rightarrow> True | _ \<Rightarrow> False)"
| "has_type GBool v = (case v of JBool _ \<Rightarrow> True | _ \<Rightarrow> False)"
| "has_type GPtrInt v = (case v of JNull \<Rightarrow> True | JNum i \<Rightarrow> in_int64 i | _ \<Rightarrow> False)"
| "has_type (GArr t) v = (case v of JNull \<Rightarrow> True | JArr vs \<Rightarrow> (\<forall>x \<in> set vs. has_type t x) | _ \<Rightarrow> False)"
| "has_type (GStruct fs) v = (case v of JObj kvs \<Rightarrow> have_fields fs kvs | _ \<Rightarrow> False)"
| "has_type GAny v = True"
| "has_type GMap v = (case v of JNull \<Rightarrow> True | JObj kvs \<Rightarrow> True | _ \<Rightarrow> False)"
| "have_fields [] kvs = (kvs = [])"
| "have_fields ((n, t, om) # fs) kvs =
     (case kvs of (k, v) # r \<Rightarrow> k = n \<and> has_type t v \<and> have_fields fs r | [] \<Rightarrow> False)"

lemma zero_has_type: "has_type t (zero_val t)" "have_fields fs (zero_fields fs)"
  by (induction t and fs rule: zero_val_zero_fields.induct) (auto simp: in_int64_def)

lemma field_fold_type:
  assumes "\<And>x v y. P x \<Longrightarrow> conv x v = Some y \<Longrightarrow> P y"
  shows "field_fold conv n x kvs = Some y \<Longrightarrow> P x \<Longrightarrow> P y"
  using assms by (induction conv n x kvs rule: field_fold.induct) (auto split: if_splits option.splits)

text \<open>The field names of a struct, and structs without two fields of the same name at any level.\<close>

fun distinct_names :: "gty \<Rightarrow> bool" and distinct_fields :: "(string \<times> gty \<times> bool) list \<Rightarrow> bool" where
  "distinct_names (GArr t) = distinct_names t"
| "distinct_names (GStruct fs) = (distinct (map (map lower_char \<circ> fst) fs) \<and> distinct_fields fs)"
| "distinct_names _ = True"
| "distinct_fields [] = True"
| "distinct_fields ((n, t, om) # fs) = (distinct_names t \<and> distinct_fields fs)"

lemma those_eq_Some: "those xs = Some ys \<longleftrightarrow> xs = map Some ys"
  by (induction xs arbitrary: ys) (auto split: option.splits)

section \<open>Decoding is type safe and inverts encoding\<close>

definition names :: "(string \<times> gty \<times> bool) list \<Rightarrow> string list" where
  "names fs = map (map lower_char \<circ> fst) fs"

lemma names_simps [simp]: "names [] = []" "names ((n, t, om) # fs) = map lower_char n # names fs"
  by (simp_all add: names_def)

lemma distinct_names_struct [simp]: "distinct_names (GStruct fs) \<longleftrightarrow> distinct (names fs) \<and> distinct_fields fs"
  by (simp add: names_def)

declare distinct_names.simps(2) [simp del]

lemma distinct_fields_all: "distinct_fields fs \<longleftrightarrow> (\<forall>(n, t, om) \<in> set fs. distinct_names t)"
  by (induction fs) auto

lemma names_mem: "(n, t, om) \<in> set fs \<Longrightarrow> map lower_char n \<in> set (names fs)"
  by (force simp: names_def)

lemma entry_Cons: "entry n (JObj ((k, v) # kvs)) = (if n = k then v else entry n (JObj kvs))"
  by (simp add: entry_def)

lemma have_fields_entry:
  "have_fields fs kvs \<Longrightarrow> distinct (names fs) \<Longrightarrow> (n, t, om) \<in> set fs \<Longrightarrow> has_type t (entry n (JObj kvs))"
proof (induction fs arbitrary: kvs)
  case (Cons f fs)
  obtain m s o' where f: "f = (m, s, o')" by (cases f) auto
  with Cons.prems obtain v r where kvs: "kvs = (m, v) # r" "has_type s v" "have_fields fs r"
    by (auto split: list.splits prod.splits)
  show ?case
  proof (cases "f = (n, t, om)")
    case False
    with Cons.prems f have "(n, t, om) \<in> set fs" by auto
    moreover from this Cons.prems f have "n \<noteq> m" by (auto dest: names_mem)
    ultimately show ?thesis using Cons kvs f by (simp add: entry_Cons)
  qed (use f kvs in \<open>simp add: entry_Cons\<close>)
qed simp

lemma decode_fields_type:
  "decode_fields fs old kvs = Some r \<Longrightarrow>
   (\<And>n t om x v y. (n, t, om) \<in> set fs \<Longrightarrow> has_type t x \<Longrightarrow> decode_go t x v = Some y \<Longrightarrow> has_type t y) \<Longrightarrow>
   (\<And>n t om. (n, t, om) \<in> set fs \<Longrightarrow> has_type t (entry n old)) \<Longrightarrow> have_fields fs r"
proof (induction fs arbitrary: r)
  case (Cons f fs)
  obtain n t om where f: "f = (n, t, om)" by (cases f) auto
  with Cons.prems(1) obtain y s where y: "field_fold (decode_go t) n (entry n old) kvs = Some y"
    and s: "decode_fields fs old kvs = Some s" "r = (n, y) # s" by (auto split: option.splits)
  have "(n, t, om) \<in> set (f # fs)" using f by simp
  then have "has_type t y" using Cons.prems(2,3) by (intro field_fold_type [where P = "has_type t", OF _ y]) blast+
  moreover have "have_fields fs s" by (rule Cons.IH [OF s(1)]) (use Cons.prems(2,3) in \<open>meson list.set_intros(2)\<close>)+
  ultimately show ?case using f s by simp
qed simp

lemma decode_go_type:
  "decode_go t old v = Some y \<Longrightarrow> has_type t old \<Longrightarrow> distinct_names t \<Longrightarrow> has_type t y"
proof (induction t arbitrary: old v y)
  case (GArr t)
  show ?case
  proof (cases v)
    case (JArr vs)
    with GArr.prems(1) obtain ys where ys: "map (decode_go t (zero_val t)) vs = map Some ys" "y = JArr ys"
      by (auto simp: those_eq_Some)
    have "has_type t u" if u: "u \<in> set ys" for u
    proof -
      from u have "Some u \<in> set (map (decode_go t (zero_val t)) vs)" unfolding ys(1) by simp
      then obtain w where "decode_go t (zero_val t) w = Some u" by auto
      then show ?thesis using GArr.IH zero_has_type(1) GArr.prems(3) by auto
    qed
    with ys(2) show ?thesis by simp
  qed (use GArr.prems in auto)
next
  case (GStruct fs)
  from GStruct.prems(2) obtain ovs where old: "old = JObj ovs" "have_fields fs ovs" by (cases old) auto
  show ?case
  proof (cases v)
    case (JObj kvs)
    with GStruct.prems(1) obtain r where r: "decode_fields fs old kvs = Some r" "y = JObj r" by auto
    have "have_fields fs r"
    proof (rule decode_fields_type [OF r(1)])
      fix n t om x v y
      assume "(n, t, om) \<in> set fs" "has_type t x" "decode_go t x v = Some y"
      moreover from this(1) GStruct.prems(3) have "distinct_names t" by (auto simp: distinct_fields_all)
      ultimately show "has_type t y" using GStruct.IH [of "(n, t, om)" "(t, om)" t x v y] by auto
    next
      fix n t om
      assume "(n, t, om) \<in> set fs"
      then show "has_type t (entry n old)" using have_fields_entry old GStruct.prems(3) by auto
    qed
    with r show ?thesis by simp
  qed (use GStruct.prems in auto)
qed (auto split: json.splits if_splits)

text \<open>Only fields of plain type are tagged \<^verbatim>\<open>omitempty\<close>.\<close>

fun plain_omits :: "gty \<Rightarrow> bool" and plain_omit_fields :: "(string \<times> gty \<times> bool) list \<Rightarrow> bool" where
  "plain_omits (GArr t) = plain_omits t"
| "plain_omits (GStruct fs) = plain_omit_fields fs"
| "plain_omits _ = True"
| "plain_omit_fields [] = True"
| "plain_omit_fields ((n, t, om) # fs) =
     (plain_omits t \<and> (om \<longrightarrow> t \<in> {GInt, GStr, GBool}) \<and> plain_omit_fields fs)"

lemma plain_omit_fields_all:
  "plain_omit_fields fs \<longleftrightarrow> (\<forall>(n, t, om) \<in> set fs. plain_omits t \<and> (om \<longrightarrow> t \<in> {GInt, GStr, GBool}))"
  by (induction fs) auto

lemma empty_is_zero: "has_type t v \<Longrightarrow> is_empty_val v \<Longrightarrow> t \<in> {GInt, GStr, GBool} \<Longrightarrow> v = zero_val t"
  by (auto simp: is_empty_val_def split: json.splits)

lemma keys_encode_fields: "(k, x) \<in> set (encode_fields fs v) \<Longrightarrow> map lower_char k \<in> set (names fs)"
  by (induction fs) (auto split: if_splits)

lemma field_fold_no_match: "\<forall>(k, x) \<in> set kvs. \<not> fold_eq k n \<Longrightarrow> field_fold conv n x kvs = Some x"
  by (induction kvs arbitrary: x) auto

lemma field_fold_encode:
  "distinct (names fs) \<Longrightarrow> (n, t, om) \<in> set fs \<Longrightarrow>
   field_fold conv n x (encode_fields fs v) =
     (if om \<and> is_empty_val (entry n v) then Some x else conv x (encode_go t (entry n v)))"
proof (induction fs)
  case (Cons f fs)
  obtain m s o' where f: "f = (m, s, o')" by (cases f) auto
  have rest: "field_fold conv n y (encode_fields fs v) = Some y" if "map lower_char n \<notin> set (names fs)" for y
    by (rule field_fold_no_match) (use that in \<open>auto simp: fold_eq_def dest: keys_encode_fields\<close>)
  show ?case
  proof (cases "f = (n, t, om)")
    case True
    with Cons.prems have "map lower_char n \<notin> set (names fs)" by simp
    with True rest show ?thesis by (auto simp: fold_eq_def split: option.splits)
  next
    case False
    with Cons.prems f have mem: "(n, t, om) \<in> set fs" by auto
    with Cons.prems f have "\<not> fold_eq m n" by (auto simp: fold_eq_def dest: names_mem)
    with Cons mem f show ?thesis by auto
  qed
qed simp

lemma entry_zero_fields:
  "distinct (names fs) \<Longrightarrow> (n, t, om) \<in> set fs \<Longrightarrow> entry n (JObj (zero_fields fs)) = zero_val t"
proof (induction fs)
  case (Cons f fs)
  then show ?case by (cases f) (auto simp: entry_Cons dest: names_mem)
qed simp

lemma have_fields_map:
  "have_fields fs kvs \<Longrightarrow> distinct (names fs) \<Longrightarrow> map (\<lambda>f. (fst f, entry (fst f) (JObj kvs))) fs = kvs"
proof (induction fs arbitrary: kvs)
  case (Cons f fs)
  obtain m s o' where f: "f = (m, s, o')" by (cases f) auto
  with Cons.prems obtain v r where kvs: "kvs = (m, v) # r" "have_fields fs r" by (auto split: list.splits prod.splits)
  have "map (\<lambda>f. (fst f, entry (fst f) (JObj kvs))) fs = map (\<lambda>f. (fst f, entry (fst f) (JObj r))) fs"
    using Cons.prems(2) f kvs by (auto simp: entry_Cons dest: names_mem)
  also have "\<dots> = r" using Cons.IH [OF kvs(2)] Cons.prems(2) f by simp
  finally show ?case using f kvs by (simp add: entry_Cons)
qed simp

lemma decode_fields_map:
  "(\<And>n t om. (n, t, om) \<in> set fs \<Longrightarrow> field_fold (decode_go t) n (entry n old) kvs = Some (h n)) \<Longrightarrow>
   decode_fields fs old kvs = Some (map (\<lambda>f. (fst f, h (fst f))) fs)"
proof (induction fs)
  case (Cons f fs)
  obtain n t om where f: "f = (n, t, om)" by (cases f) auto
  have "field_fold (decode_go t) n (entry n old) kvs = Some (h n)"
    using Cons.prems [of n t om] f by simp
  moreover have "decode_fields fs old kvs = Some (map (\<lambda>f. (fst f, h (fst f))) fs)"
    using Cons.IH Cons.prems by (meson list.set_intros(2))
  ultimately show ?case using f by simp
qed simp

text \<open>
  Encoding loses nothing if every field that \<^verbatim>\<open>omitempty\<close> drops holds its zero value; a nil and an empty
  slice are dropped alike.
\<close>

fun omit_zero :: "gty \<Rightarrow> json \<Rightarrow> bool" and omit_zero_fields :: "(string \<times> gty \<times> bool) list \<Rightarrow> json \<Rightarrow> bool" where
  "omit_zero (GArr t) v = (case v of JArr vs \<Rightarrow> \<forall>x \<in> set vs. omit_zero t x | _ \<Rightarrow> True)"
| "omit_zero (GStruct fs) v = omit_zero_fields fs v"
| "omit_zero _ v = True"
| "omit_zero_fields [] v = True"
| "omit_zero_fields ((n, t, om) # fs) v =
     ((om \<and> is_empty_val (entry n v) \<longrightarrow> entry n v = zero_val t) \<and> omit_zero t (entry n v) \<and> omit_zero_fields fs v)"

lemma omit_zero_fields_all:
  "omit_zero_fields fs v \<longleftrightarrow>
   (\<forall>(n, t, om) \<in> set fs. (om \<and> is_empty_val (entry n v) \<longrightarrow> entry n v = zero_val t) \<and> omit_zero t (entry n v))"
  by (induction fs) auto

lemma decode_encode_zero:
  "has_type t x \<Longrightarrow> distinct_names t \<Longrightarrow> omit_zero t x \<Longrightarrow> decode_go t (zero_val t) (encode_go t x) = Some x"
proof (induction t arbitrary: x)
  case (GArr t)
  show ?case
  proof (cases x)
    case (JArr vs)
    with GArr have "map (decode_go t (zero_val t) \<circ> encode_go t) vs = map Some vs" by auto
    with JArr show ?thesis by (simp add: those_eq_Some)
  qed (use GArr.prems in auto)
next
  case (GStruct fs)
  then obtain kvs where x: "x = JObj kvs" "have_fields fs kvs" by (cases x) auto
  have dis: "distinct (names fs)" using GStruct.prems by simp
  have "decode_fields fs (JObj (zero_fields fs)) (encode_fields fs x) = Some (map (\<lambda>f. (fst f, entry (fst f) x)) fs)"
  proof (rule decode_fields_map)
    fix n t om
    assume mem: "(n, t, om) \<in> set fs"
    have ty: "has_type t (entry n x)" using have_fields_entry [OF x(2) dis mem] x by simp
    have sub: "distinct_names t" "omit_zero t (entry n x)" "om \<and> is_empty_val (entry n x) \<longrightarrow> entry n x = zero_val t"
      using GStruct.prems mem by (auto simp: distinct_fields_all omit_zero_fields_all)
    have "decode_go t (zero_val t) (encode_go t (entry n x)) = Some (entry n x)"
      using GStruct.IH [of "(n, t, om)" "(t, om)" t "entry n x"] mem ty sub by simp
    then show "field_fold (decode_go t) n (entry n (JObj (zero_fields fs))) (encode_fields fs x) = Some (entry n x)"
      using field_fold_encode [OF dis mem] entry_zero_fields [OF dis mem] sub by auto
  qed
  then show ?case using have_fields_map [OF x(2) dis] x by simp
qed (auto split: json.splits)

lemma plain_omits_zero: "has_type t x \<Longrightarrow> distinct_names t \<Longrightarrow> plain_omits t \<Longrightarrow> omit_zero t x"
proof (induction t arbitrary: x)
  case (GArr t)
  then show ?case by (auto split: json.splits)
next
  case (GStruct fs)
  then obtain kvs where x: "x = JObj kvs" "have_fields fs kvs" by (cases x) auto
  have "(om \<and> is_empty_val (entry n x) \<longrightarrow> entry n x = zero_val t) \<and> omit_zero t (entry n x)" if mem: "(n, t, om) \<in> set fs" for n t om
  proof -
    have ty: "has_type t (entry n x)" using have_fields_entry [OF x(2) _ mem] x GStruct.prems by simp
    have sub: "distinct_names t" "plain_omits t" "om \<Longrightarrow> t \<in> {GInt, GStr, GBool}"
      using GStruct.prems mem by (auto simp: distinct_fields_all plain_omit_fields_all)
    have "omit_zero t (entry n x)" using GStruct.IH [of "(n, t, om)" "(t, om)" t "entry n x"] mem ty sub by simp
    with empty_is_zero [OF ty] sub show ?thesis by auto
  qed
  then show ?case by (auto simp: omit_zero_fields_all)
qed simp_all

lemma decode_encode:
  "has_type t x \<Longrightarrow> distinct_names t \<Longrightarrow> plain_omits t \<Longrightarrow> decode_go t (zero_val t) (encode_go t x) = Some x"
  by (intro decode_encode_zero plain_omits_zero)

section \<open>Decoding that goes on after an error\<close>

text \<open>
  What a variable holds after \<^verbatim>\<open>json.Unmarshal\<close> of a syntactically valid document, also when a type
  mismatch was reported: the offending value is skipped and decoding continues.
\<close>

fun field_last :: "(json \<Rightarrow> json \<Rightarrow> json) \<Rightarrow> string \<Rightarrow> json \<Rightarrow> (string \<times> json) list \<Rightarrow> json" where
  "field_last conv name x [] = x"
| "field_last conv name x ((k, v) # kvs) = field_last conv name (if fold_eq k name then conv x v else x) kvs"

fun fill :: "gty \<Rightarrow> json \<Rightarrow> json \<Rightarrow> json"
  and fill_fields :: "(string \<times> gty \<times> bool) list \<Rightarrow> json \<Rightarrow> (string \<times> json) list \<Rightarrow> (string \<times> json) list" where
  "fill (GArr t) old v =
     (case v of JNull \<Rightarrow> JNull | JArr vs \<Rightarrow> JArr (map (fill t (zero_val t)) vs) | _ \<Rightarrow> old)"
| "fill (GStruct fs) old v = (case v of JObj kvs \<Rightarrow> JObj (fill_fields fs old kvs) | _ \<Rightarrow> old)"
| "fill t old v = (case decode_go t old v of Some y \<Rightarrow> y | None \<Rightarrow> old)"
| "fill_fields [] old kvs = []"
| "fill_fields ((n, t, om) # fs) old kvs = (n, field_last (fill t) n (entry n old) kvs) # fill_fields fs old kvs"

lemma field_last_fold:
  assumes "\<And>x v y. conv x v = Some y \<Longrightarrow> conv' x v = y"
  shows "field_fold conv n x kvs = Some y \<Longrightarrow> field_last conv' n x kvs = y"
  using assms by (induction conv n x kvs rule: field_fold.induct) (auto split: if_splits option.splits)

lemma fill_decode: "decode_go t old v = Some y \<Longrightarrow> fill t old v = y"
  and fill_decode_fields: "decode_fields fs old kvs = Some r \<Longrightarrow> fill_fields fs old kvs = r"
proof (induction t old v and fs old kvs arbitrary: y and r rule: decode_go_decode_fields.induct)
  case (7 t old v)
  show ?case
  proof (cases v)
    case (JArr vs)
    with 7 obtain ys where "map (decode_go t (zero_val t)) vs = map Some ys" "y = JArr ys" by (auto simp: those_eq_Some)
    moreover have "map (fill t (zero_val t)) vs = ys"
    proof (rule nth_equalityI)
      show len: "length (map (fill t (zero_val t)) vs) = length ys"
        using calculation(1) by (metis length_map)
      fix i
      assume "i < length (map (fill t (zero_val t)) vs)"
      then have "i < length vs" "decode_go t (zero_val t) (vs ! i) = Some (ys ! i)"
        using calculation(1) len by (auto simp: list_eq_iff_nth_eq)
      then show "map (fill t (zero_val t)) vs ! i = ys ! i" using 7 JArr by (metis nth_map nth_mem)
    qed
    ultimately show ?thesis using JArr by simp
  qed (use 7 in auto)
next
  case (12 n t om fs old kvs)
  then obtain y s where "field_fold (decode_go t) n (entry n old) kvs = Some y" "decode_fields fs old kvs = Some s"
    "r = (n, y) # s" by (auto split: option.splits)
  with 12 show ?case using field_last_fold [of "decode_go t" "fill t" n "entry n old" kvs y] by auto
qed (auto split: json.splits)

end
