(* ===== verification/ApiTypes.thy ===== *)
theory ApiTypes
  imports GoStruct
begin

text \<open>
  The request and response structs of \<^verbatim>\<open>blockchain/interface.go\<close> that travel between the phone, the
  device and the Fula API, and the two tables that give the types of an action. The tables hold the
  entries of the actions that go through the API; the entries of the hardware, plugin and storage
  actions are never looked up.
\<close>

section \<open>Structs\<close>

definition ReplicateRequest :: gty where
  "ReplicateRequest = GStruct [(''cids'', GArr GStr, False), (''uploader'', GStr, False), (''pool_id'', GInt, False)]"

definition AvailableAllaccountsBatchRequest :: gty where
  "AvailableAllaccountsBatchRequest = GStruct [(''cids'', GArr GStr, False), (''pool_id'', GInt, False)]"

definition BatchManifest :: gty where
  "BatchManifest = GStruct [(''cid'', GStr, False), (''replication_available'', GInt, False)]"

definition ReplicateResponse :: gty where
  "ReplicateResponse = GStruct [(''manifests'', GArr BatchManifest, False)]"

definition BatchManifestAllaccounts :: gty where
  "BatchManifestAllaccounts = GStruct [(''cid'', GStr, False)]"

definition BatchManifestAllaccountsResponse :: gty where
  "BatchManifestAllaccountsResponse = GStruct [(''manifests'', GArr BatchManifestAllaccounts, False)]"

definition SeededRequest :: gty where
  "SeededRequest = GStruct []"

definition SeededResponse :: gty where
  "SeededResponse = GStruct [(''seed'', GStr, False), (''account'', GStr, False)]"

definition AccountExistsRequest :: gty where
  "AccountExistsRequest = GStruct [(''account'', GStr, False)]"

definition AccountExistsResponse :: gty where
  "AccountExistsResponse = GStruct [(''account'', GStr, False), (''exists'', GBool, False)]"

definition AccountCreateRequest :: gty where
  "AccountCreateRequest = GStruct [(''account'', GStr, False)]"

definition AccountCreateResponse :: gty where
  "AccountCreateResponse = GStruct [(''account'', GStr, False)]"

definition AccountFundRequest :: gty where
  "AccountFundRequest = GStruct [(''amount'', GBigInt, False), (''to'', GStr, False)]"

definition AccountFundResponse :: gty where
  "AccountFundResponse = GStruct [(''from'', GStr, False), (''to'', GStr, False), (''amount'', GStr, False)]"

definition AssetsBalanceRequest :: gty where
  "AssetsBalanceRequest = GStruct [(''account'', GStr, False), (''class_id'', GUint64, False), (''asset_id'', GUint64, False)]"

definition AssetsBalanceResponse :: gty where
  "AssetsBalanceResponse = GStruct [(''amount'', GUint64, False)]"

definition TransferToFulaRequest :: gty where
  "TransferToFulaRequest = GStruct [(''wallet_account'', GStr, False), (''amount'', GUint64, False), (''chain'', GStr, False)]"

definition TransferToFulaResponse :: gty where
  "TransferToFulaResponse = GStruct [(''msg'', GStr, False), (''description'', GStr, False)]"

definition PoolCreateRequest :: gty where
  "PoolCreateRequest = GStruct [(''pool_name'', GStr, False), (''peer_id'', GStr, False)]"

definition PoolCreateResponse :: gty where
  "PoolCreateResponse = GStruct [(''owner'', GStr, False), (''pool_id'', GInt, False)]"

definition PoolJoinRequest :: gty where
  "PoolJoinRequest = GStruct [(''pool_id'', GInt, False), (''peer_id'', GStr, False), (''chain_name'', GStr, True)]"

definition PoolJoinResponse :: gty where
  "PoolJoinResponse = GStruct [(''account'', GStr, False), (''pool_id'', GInt, False), (''chain_name'', GStr, True)]"

definition PoolCancelJoinRequest :: gty where
  "PoolCancelJoinRequest = GStruct [(''pool_id'', GInt, False)]"

definition PoolCancelJoinResponse :: gty where
  "PoolCancelJoinResponse = GStruct [(''account'', GStr, False), (''pool_id'', GInt, False)]"

definition PoolRequestsRequest :: gty where
  "PoolRequestsRequest = GStruct [(''pool_id'', GInt, False)]"

definition PoolRequest :: gty where
  "PoolRequest = GStruct [(''pool_id'', GInt, False), (''account'', GStr, False), (''voted'', GArr GStr, False), (''positive_votes'', GInt, False), (''peer_id'', GStr, False)]"

definition PoolRequestsResponse :: gty where
  "PoolRequestsResponse = GStruct [(''poolrequests'', GArr PoolRequest, False)]"

definition PoolListRequest :: gty where
  "PoolListRequest = GStruct []"

definition PoolUserListRequest :: gty where
  "PoolUserListRequest = GStruct [(''pool_id'', GInt, False), (''request_pool_id'', GInt, False)]"

definition PoolUser :: gty where
  "PoolUser = GStruct [(''pool_id'', GPtrInt, False), (''request_pool_id'', GPtrInt, False), (''account'', GStr, False), (''peer_id'', GStr, False)]"

definition PoolEntry :: gty where
  "PoolEntry = GStruct [(''pool_id'', GInt, False), (''creator'', GStr, False), (''pool_name'', GStr, False), (''parent'', GStr, False), (''participants'', GArr GStr, False), (''region'', GStr, False)]"

definition PoolListResponse :: gty where
  "PoolListResponse = GStruct [(''pools'', GArr PoolEntry, False)]"

definition PoolUserListResponse :: gty where
  "PoolUserListResponse = GStruct [(''users'', GArr PoolUser, False)]"

definition PoolVoteRequest :: gty where
  "PoolVoteRequest = GStruct [(''pool_id'', GInt, False), (''account'', GStr, False), (''vote_value'', GBool, False), (''peer_id'', GStr, False)]"

definition PoolVoteResponse :: gty where
  "PoolVoteResponse = GStruct [(''account'', GStr, False), (''pool_id'', GInt, False), (''result'', GStr, False)]"

definition PoolLeaveRequest :: gty where
  "PoolLeaveRequest = GStruct [(''pool_id'', GInt, False), (''chain_name'', GStr, True)]"

definition PoolLeaveResponse :: gty where
  "PoolLeaveResponse = GStruct [(''account'', GStr, False), (''pool_id'', GInt, False), (''chain_name'', GStr, True)]"

definition ManifestJob :: gty where
  "ManifestJob = GStruct [(''work'', GStr, False), (''engine'', GStr, False), (''uri'', GStr, False)]"

definition ManifestMetadata :: gty where
  "ManifestMetadata = GStruct [(''job'', ManifestJob, False)]"

definition ManifestUploadRequest :: gty where
  "ManifestUploadRequest = GStruct [(''pool_id'', GInt, False), (''replication_factor'', GInt, False), (''manifest_metadata'', ManifestMetadata, False), (''cid'', GStr, False)]"

definition ManifestUploadResponse :: gty where
  "ManifestUploadResponse = GStruct [(''uploader'', GStr, False), (''storage'', GArr GStr, False), (''manifest_metadata'', ManifestMetadata, False), (''pool_id'', GInt, False)]"

definition ManifestStoreRequest :: gty where
  "ManifestStoreRequest = GStruct [(''uploader'', GStr, False), (''cid'', GStr, False), (''pool_id'', GInt, False)]"

definition ManifestStoreResponse :: gty where
  "ManifestStoreResponse = GStruct [(''pool_id'', GInt, False), (''storage'', GStr, False), (''uploader'', GStr, False), (''cid'', GStr, False)]"

definition ManifestBatchStoreRequest :: gty where
  "ManifestBatchStoreRequest = GStruct [(''cid'', GArr GStr, False), (''pool_id'', GInt, False)]"

definition ManifestBatchStoreResponse :: gty where
  "ManifestBatchStoreResponse = GStruct [(''pool_id'', GInt, False), (''storer'', GStr, False), (''cid'', GArr GStr, False)]"

definition ManifestBatchUploadRequest :: gty where
  "ManifestBatchUploadRequest = GStruct [(''cid'', GArr GStr, False), (''pool_id'', GInt, False), (''replication_factor'', GArr GInt, False), (''manifest_metadata'', GArr ManifestMetadata, False)]"

definition ManifestBatchUploadMobileRequest :: gty where
  "ManifestBatchUploadMobileRequest = GStruct [(''cid'', GArr GStr, False), (''pool_id'', GInt, False), (''replication_factor'', GInt, False)]"

definition ManifestBatchUploadResponse :: gty where
  "ManifestBatchUploadResponse = GStruct [(''pool_id'', GInt, False), (''storer'', GStr, False), (''cid'', GArr GStr, False)]"

definition ManifestAvailableRequest :: gty where
  "ManifestAvailableRequest = GStruct [(''pool_id'', GInt, False)]"

definition ManifestEntry :: gty where
  "ManifestEntry = GStruct [(''pool_id'', GInt, False), (''replication_available'', GInt, False), (''manifest_metadata'', ManifestMetadata, False)]"

definition ManifestAvailableResponse :: gty where
  "ManifestAvailableResponse = GStruct [(''manifests'', GArr ManifestEntry, False)]"

definition ManifestRemoveRequest :: gty where
  "ManifestRemoveRequest = GStruct [(''cid'', GStr, False), (''pool_id'', GInt, False)]"

definition ManifestRemoveResponse :: gty where
  "ManifestRemoveResponse = GStruct [(''uploader'', GStr, False), (''cid'', GStr, False), (''pool_id'', GInt, False)]"

definition ManifestRemoveStorerRequest :: gty where
  "ManifestRemoveStorerRequest = GStruct [(''storage'', GStr, False), (''cid'', GStr, False), (''pool_id'', GInt, False)]"

definition ManifestRemoveStorerResponse :: gty where
  "ManifestRemoveStorerResponse = GStruct [(''uploader'', GStr, False), (''storage'', GStr, False), (''cid'', GStr, False), (''pool_id'', GInt, False)]"

definition ManifestRemoveStoredRequest :: gty where
  "ManifestRemoveStoredRequest = GStruct [(''uploader'', GStr, False), (''cid'', GStr, False), (''pool_id'', GInt, False)]"

definition ManifestRemoveStoredResponse :: gty where
  "ManifestRemoveStoredResponse = GStruct [(''uploader'', GStr, False), (''storage'', GStr, False), (''cid'', GStr, False), (''pool_id'', GInt, False)]"

lemmas api_types_defs = ReplicateRequest_def AvailableAllaccountsBatchRequest_def BatchManifest_def
  ReplicateResponse_def BatchManifestAllaccounts_def BatchManifestAllaccountsResponse_def
  SeededRequest_def SeededResponse_def AccountExistsRequest_def AccountExistsResponse_def
  AccountCreateRequest_def AccountCreateResponse_def AccountFundRequest_def AccountFundResponse_def
  AssetsBalanceRequest_def AssetsBalanceResponse_def TransferToFulaRequest_def
  TransferToFulaResponse_def PoolCreateRequest_def PoolCreateResponse_def PoolJoinRequest_def
  PoolJoinResponse_def PoolCancelJoinRequest_def PoolCancelJoinResponse_def PoolRequestsRequest_def
  PoolRequest_def PoolRequestsResponse_def PoolListRequest_def PoolUserListRequest_def PoolUser_def
  PoolEntry_def PoolListResponse_def PoolUserListResponse_def PoolVoteRequest_def
  PoolVoteResponse_def PoolLeaveRequest_def PoolLeaveResponse_def ManifestJob_def
  ManifestMetadata_def ManifestUploadRequest_def ManifestUploadResponse_def ManifestStoreRequest_def
  ManifestStoreResponse_def ManifestBatchStoreRequest_def ManifestBatchStoreResponse_def
  ManifestBatchUploadRequest_def ManifestBatchUploadMobileRequest_def
  ManifestBatchUploadResponse_def ManifestAvailableRequest_def ManifestEntry_def
  ManifestAvailableResponse_def ManifestRemoveRequest_def ManifestRemoveResponse_def
  ManifestRemoveStorerRequest_def ManifestRemoveStorerResponse_def ManifestRemoveStoredRequest_def
  ManifestRemoveStoredResponse_def


section \<open>Tables\<close>

definition requestTypes :: "string \<rightharpoonup> gty" where
  "requestTypes = map_of
    [(''account-seeded'', SeededRequest),
     (''account-exists'', AccountExistsRequest),
     (''account-create'', AccountCreateRequest),
     (''account-fund'', AccountFundRequest),
     (''fula-pool-create'', PoolCreateRequest),
     (''fula-pool-join'', PoolJoinRequest),
     (''fula-pool-poolrequests'', PoolRequestsRequest),
     (''fula-pool-cancel_join'', PoolCancelJoinRequest),
     (''fula-pool'', PoolListRequest),
     (''fula-pool-users'', PoolUserListRequest),
     (''fula-pool-vote'', PoolVoteRequest),
     (''fula-pool-leave'', PoolLeaveRequest),
     (''fula-manifest-upload'', ManifestUploadRequest),
     (''fula-manifest-storage'', ManifestStoreRequest),
     (''fula-manifest-batch_storage'', ManifestBatchStoreRequest),
     (''fula-manifest-batch_upload'', ManifestBatchUploadRequest),
     (''fula-manifest-available'', ManifestAvailableRequest),
     (''fula-manifest-available_batch'', ReplicateRequest),
     (''fula-manifest-available_allaccounts_batch'', AvailableAllaccountsBatchRequest),
     (''fula-manifest-remove'', ManifestRemoveRequest),
     (''fula-manifest-remove_storer'', ManifestRemoveStorerRequest),
     (''fula-manifest-remove_storing_manifest'', ManifestRemoveStoredRequest),
     (''asset-balance'', AssetsBalanceRequest),
     (''fula-goerli-convert_tokens'', TransferToFulaRequest),
     (''fula-mumbai-convert_tokens'', TransferToFulaRequest),
     (''replicate'', ReplicateRequest)]"

definition responseTypes :: "string \<rightharpoonup> gty" where
  "responseTypes = map_of
    [(''account-seeded'', SeededResponse),
     (''account-exists'', AccountExistsResponse),
     (''account-create'', AccountCreateResponse),
     (''account-fund'', AccountFundResponse),
     (''fula-pool-create'', PoolCreateResponse),
     (''fula-pool-join'', PoolJoinResponse),
     (''fula-pool-poolrequests'', PoolRequestsResponse),
     (''fula-pool-cancel_join'', PoolCancelJoinResponse),
     (''fula-pool'', PoolListResponse),
     (''fula-pool-users'', PoolUserListResponse),
     (''fula-pool-vote'', PoolVoteResponse),
     (''fula-pool-leave'', PoolLeaveResponse),
     (''fula-manifest-upload'', ManifestUploadResponse),
     (''fula-manifest-storage'', ManifestStoreResponse),
     (''fula-manifest-batch_storage'', ManifestBatchStoreResponse),
     (''fula-manifest-batch_upload'', ManifestBatchUploadResponse),
     (''fula-manifest-available'', ManifestAvailableResponse),
     (''fula-manifest-available_batch'', ReplicateResponse),
     (''fula-manifest-available_allaccounts_batch'', BatchManifestAllaccountsResponse),
     (''fula-manifest-remove'', ManifestRemoveResponse),
     (''fula-manifest-remove_storer'', ManifestRemoveStorerResponse),
     (''fula-manifest-remove_storing_manifest'', ManifestRemoveStoredResponse),
     (''asset-balance'', AssetsBalanceResponse),
     (''fula-goerli-convert_tokens'', TransferToFulaResponse),
     (''fula-mumbai-convert_tokens'', TransferToFulaResponse),
     (''replicate'', ReplicateResponse)]"

section \<open>Documents of the API\<close>

definition api_type :: "gty \<Rightarrow> bool" where
  "api_type t \<longleftrightarrow> (\<exists>action. requestTypes action = Some t \<or> responseTypes action = Some t)"

lemma api_type_wf: "api_type t \<Longrightarrow> distinct_names t \<and> plain_omits t"
  unfolding api_type_def requestTypes_def responseTypes_def
  by (elim exE disjE) (auto simp: api_types_defs lower_char_def split: if_splits)

text \<open>
  The types in the two tables survive the wire: decoding the marshalled document of a well-typed value gives
  the value back, and whatever document is decoded without an error yields a well-typed value (all fields
  present, integers in range).
\<close>

lemma api_documents_roundtrip:
  assumes "api_type t"
  shows "(has_type t x \<longrightarrow> decode_new t (encode_go t x) = Some x) \<and>
    (decode_new t v = Some y \<longrightarrow> has_type t y)"
  using api_type_wf [OF assms] decode_encode [of t x] decode_go_type [of t "zero_val t" v y] zero_has_type(1) [of t]
  by (simp add: decode_new_def)

theorem api_documents_roundtrip_witness:
  "decode_new PoolJoinRequest (encode_go PoolJoinRequest
      (JObj [(''pool_id'', JNum 5), (''peer_id'', JStr ''12D3''), (''chain_name'', JStr [])])) =
    Some (JObj [(''pool_id'', JNum 5), (''peer_id'', JStr ''12D3''), (''chain_name'', JStr [])])"
proof -
  have "api_type PoolJoinRequest"
    unfolding api_type_def by (rule exI [of _ "''fula-pool-join''"]) (simp add: requestTypes_def)
  from api_documents_roundtrip [OF this] show ?thesis by (simp add: PoolJoinRequest_def in_int64_def)
qed

end
