(* ===== verification/Abi.thy ===== *)
theory Abi
  imports GoPrelude
begin

text \<open>
  The contract ABI codec of \<^verbatim>\<open>blockchain/abi/contract.go\<close>: call-data encoders, result decoders and
  the contract-error table. Hexadecimal data is the Go string the code works on. A decoder returns
  an \<^typ>\<open>('e, 'a) outcome\<close>, because slice bounds computed from words of the answer can leave the
  slice: that is a run-time panic in Go, \<^const>\<open>Panic\<close> here.
\<close>

section \<open>Contract errors\<close>

record contract_error =
  ce_Code :: string
  ce_Message :: string

definition mk_contract_error :: "string \<Rightarrow> string \<Rightarrow> contract_error" where
  "mk_contract_error c m = \<lparr>ce_Code = c, ce_Message = m\<rparr>"

definition ContractErrorSignatures :: "(string \<times> contract_error) list" where
  "ContractErrorSignatures =
    [(''0x12345678'', mk_contract_error ''PNF'' ''PoolNotFound''),
     (''0x87654321'', mk_contract_error ''AIP'' ''AlreadyInPool''),
     (''0x11111111'', mk_contract_error ''ARQ'' ''AlreadyRequested''),
     (''0x22222222'', mk_contract_error ''PNF2'' ''PeerNotFound''),
     (''0x33333333'', mk_contract_error ''CR'' ''CapacityReached''),
     (''0x44444444'', mk_contract_error ''UF'' ''UserFlagged''),
     (''0x55555555'', mk_contract_error ''NM'' ''NotMember''),
     (''0x66666666'', mk_contract_error ''AV'' ''AlreadyVoted''),
     (''0x77777777'', mk_contract_error ''NAR'' ''NoActiveRequest''),
     (''0x88888888'', mk_contract_error ''OCA'' ''OnlyCreatorOrAdmin''),
     (''0x99999999'', mk_contract_error ''PNE'' ''PoolNotEmpty''),
     (''0xAAAAAAAA'', mk_contract_error ''PRE'' ''PendingRequestsExist''),
     (''0xBBBBBBBB'', mk_contract_error ''ITA'' ''InvalidTokenAmount''),
     (''0xCCCCCCCC'', mk_contract_error ''IA'' ''InsufficientAllowance'')]"

definition ParseContractError :: "string \<Rightarrow> contract_error option" where
  "ParseContractError data =
     (if \<not> HasPrefix data ''0x'' \<or> length data < 10 then None
      else map_of ContractErrorSignatures (take 10 data))"


section \<open>Contract data\<close>

text \<open>
  \<^verbatim>\<open>big.Int.SetString\<close> leaves an undefined value in its receiver when the digits do not parse; the
  two \<^verbatim>\<open>*big.Int\<close> fields are \<^const>\<open>None\<close> then.
\<close>

record Pool =
  p_Creator :: string
  p_ID :: nat
  p_MaxChallengeResponsePeriod :: nat
  p_MemberCount :: nat
  p_MaxMembers :: nat
  p_RequiredTokens :: "int option"
  p_MinPingTime :: "int option"
  p_Name :: string
  p_Region :: string

record IsMemberOfPoolResult =
  imr_IsMember :: bool
  imr_MemberAddress :: string

record GetMemberPeerIdsResult =
  gmp_PeerIds :: "string list"

datatype abi_error =
    InsufficientData nat
  | InsufficientSlots nat
  | ZeroCreator
  | BadWord string
  | BadText string
  | BadLength nat

record method_signatures =
  ms_Pools :: string
  ms_PoolIds :: string
  ms_IsPeerIdMemberOfPool :: string
  ms_GetMemberPeerIds :: string
  ms_RemoveMemberPeerId :: string
  ms_JoinRequests :: string

definition MethodSignatures :: method_signatures where
  "MethodSignatures =
     \<lparr>ms_Pools = ''0xced08b2d'', ms_PoolIds = ''0x69883b4e'',
      ms_IsPeerIdMemberOfPool = ''0xb098a605'', ms_GetMemberPeerIds = ''0x31db3ae8'',
      ms_RemoveMemberPeerId = ''0x3d71233a'', ms_JoinRequests = ''0xccc9fc03''\<rparr>"

text \<open>The Go slice expression \<open>s[a:b]\<close> for bounds already known to be in range.\<close>

definition slice :: "string \<Rightarrow> nat \<Rightarrow> nat \<Rightarrow> string" where
  "slice s a b = take (b - a) (drop a s)"

definition all_zero :: "string \<Rightarrow> bool" where
  "all_zero s \<longleftrightarrow> list_all (\<lambda>c. c = CHR ''0'') s"

text \<open>The loop that cuts the data in 64-character slots; a shorter rest is dropped.\<close>

fun slots_of :: "string \<Rightarrow> string list" where
  "slots_of s = (if length s < 64 then [] else take 64 s # slots_of (drop 64 s))"

declare slots_of.simps [simp del]

text \<open>\<^verbatim>\<open>z.SetString(s, 16)\<close>: an optional sign and at least one hexadecimal digit.\<close>

definition big_SetString16 :: "string \<Rightarrow> int option" where
  "big_SetString16 s =
     (let neg = (s \<noteq> [] \<and> hd s = CHR ''-'');
          ds = (if s \<noteq> [] \<and> (hd s = CHR ''-'' \<or> hd s = CHR ''+'') then tl s else s)
      in if ds = [] then None
         else map_option (\<lambda>n. if neg then - int n else int n) (parse_digits 16 0 ds))"

text \<open>
  The name and region blocks of \<^verbatim>\<open>DecodePoolsResult\<close>: the slot at the offset holds the byte length,
  the next slot the (first 32) bytes. The length is a \<^verbatim>\<open>uint64\<close>; the guard compares the signed
  conversion of its wrapped double with the slot length, the slice uses the unsigned value.
\<close>

definition decode_text :: "string \<Rightarrow> string list \<Rightarrow> nat \<Rightarrow> (abi_error, string) outcome" where
  "decode_text what slots offset =
     (let idx = offset div 32 in
      if idx < length slots then
        and_then (or_err (BadWord (what @ '' length'')) (ParseUint (slots ! idx) 16 64)) (\<lambda>len.
          if 0 < len \<and> idx + 1 < length slots then
            (let h = slots ! (idx + 1); n2 = mul_uint64 len 2 in
             and_then (if to_int64 n2 \<le> int (length h)
                       then (if n2 \<le> length h then Ok (take n2 h) else Panic)
                       else Ok h) (\<lambda>h'.
             and_then (or_err (BadText what) (hex_DecodeString h')) (\<lambda>bs.
               Ok (bytes_to_string bs))))
          else Ok [])
      else Ok [])"

definition DecodePoolsResult :: "string \<Rightarrow> (abi_error, Pool) outcome" where
  "DecodePoolsResult data0 =
     (let data = TrimPrefix data0 ''0x'' in
      if length data < 288 then Err (InsufficientData (length data)) else
      let slots = slots_of data in
      if length slots < 9 then Err (InsufficientSlots (length slots)) else
      let creatorHex = slice (slots ! 0) 24 64 in
      if all_zero creatorHex then Err ZeroCreator else
      and_then (or_err (BadWord ''pool ID'') (ParseUint (slice (slots ! 1) 56 64) 16 32)) (\<lambda>id.
      and_then (or_err (BadWord ''maxChallengeResponsePeriod'') (ParseUint (slice (slots ! 2) 56 64) 16 32)) (\<lambda>maxChallenge.
      and_then (or_err (BadWord ''memberCount'') (ParseUint (slice (slots ! 3) 56 64) 16 32)) (\<lambda>memberCount.
      and_then (or_err (BadWord ''maxMembers'') (ParseUint (slice (slots ! 4) 56 64) 16 32)) (\<lambda>maxMembers.
      and_then (or_err (BadWord ''name offset'') (ParseUint (slots ! 7) 16 64)) (\<lambda>nameOffset.
      and_then (or_err (BadWord ''region offset'') (ParseUint (slots ! 8) 16 64)) (\<lambda>regionOffset.
      and_then (decode_text ''name'' slots nameOffset) (\<lambda>name.
      and_then (decode_text ''region'' slots regionOffset) (\<lambda>region.
      Ok \<lparr>p_Creator = ''0x'' @ creatorHex, p_ID = id, p_MaxChallengeResponsePeriod = maxChallenge,
          p_MemberCount = memberCount, p_MaxMembers = maxMembers,
          p_RequiredTokens = big_SetString16 (slots ! 5), p_MinPingTime = big_SetString16 (slots ! 6),
          p_Name = name, p_Region = region\<rparr>)))))))))"

definition DecodeIsMemberOfPoolResult :: "string \<Rightarrow> (abi_error, IsMemberOfPoolResult) outcome" where
  "DecodeIsMemberOfPoolResult data0 =
     (let data = TrimPrefix data0 ''0x'' in
      if length data < 128 then Err (InsufficientData (length data))
      else
        let isMemberHex = slice data 0 64; memberAddressHex = slice data 64 128 in
        Ok \<lparr>imr_IsMember = (\<not> all_zero isMemberHex),
            imr_MemberAddress = ''0x'' @ slice memberAddressHex 24 64\<rparr>)"

text \<open>
  \<^verbatim>\<open>make([]string, 0, arrayLength)\<close> panics when the capacity in bytes exceeds the address space the
  Go runtime allocates from: 16 bytes per string header and \<open>2 ^ 48\<close> bytes on 64-bit Linux.
\<close>

definition max_string_cap :: nat where
  "max_string_cap = 2 ^ 44"

text \<open>The element loop: element \<open>i\<close> is the 64 characters at \<open>start + 64 * i\<close>, while they are there.\<close>

function peer_id_elements :: "string \<Rightarrow> nat \<Rightarrow> nat \<Rightarrow> nat \<Rightarrow> string list" where
  "peer_id_elements data start i n =
     (if i < n \<and> start + i * 64 + 64 \<le> length data
      then (''0x'' @ slice data (start + i * 64) (start + i * 64 + 64)) # peer_id_elements data start (Suc i) n
      else [])"
  by pat_completeness auto
termination
  by (relation "measure (\<lambda>(data, start, i, n). n - i)") auto

declare peer_id_elements.simps [simp del]

definition DecodeGetMemberPeerIdsResult :: "string \<Rightarrow> (abi_error, GetMemberPeerIdsResult) outcome" where
  "DecodeGetMemberPeerIdsResult data0 =
     (let data = TrimPrefix data0 ''0x'' in
      if length data < 64 then Ok \<lparr>gmp_PeerIds = []\<rparr>
      else
        and_then (or_err (BadWord ''array offset'') (ParseUint (slice data 0 64) 16 64)) (\<lambda>offset.
          let arrayStartPos = to_int64 (mul_uint64 offset 2) in
          if int (length data) \<le> arrayStartPos then Ok \<lparr>gmp_PeerIds = []\<rparr>
          else if int (length data) < arrayStartPos + 64 then Ok \<lparr>gmp_PeerIds = []\<rparr>
          else if arrayStartPos < 0 then Panic
          else
            let start = nat arrayStartPos in
            and_then (or_err (BadWord ''array length'') (ParseUint (slice data start (start + 64)) 16 64)) (\<lambda>arrayLength.
              if max_string_cap < arrayLength then Panic
              else Ok \<lparr>gmp_PeerIds = peer_id_elements data (start + 64) 0 arrayLength\<rparr>)))"

definition EncodePoolsCall :: "nat \<Rightarrow> string" where
  "EncodePoolsCall poolID = ms_Pools MethodSignatures @ fmt_064x poolID"

definition EncodePoolIdsCall :: "nat \<Rightarrow> string" where
  "EncodePoolIdsCall index = ms_PoolIds MethodSignatures @ fmt_064x index"

definition DecodePoolIdResponse :: "string \<Rightarrow> (abi_error, nat) outcome" where
  "DecodePoolIdResponse result0 =
     (let result = TrimPrefix result0 ''0x'' in
      if length result \<noteq> 64 then Err (BadLength (length result))
      else and_then (or_err (BadWord ''pool ID'') (ParseUint result 16 64)) (\<lambda>poolID.
        Ok (to_uint32 (int poolID))))"

definition EncodeIsPeerIdMemberOfPoolCall :: "nat \<Rightarrow> string \<Rightarrow> string" where
  "EncodeIsPeerIdMemberOfPoolCall poolID peerIDBytes32 =
     ms_IsPeerIdMemberOfPool MethodSignatures @ fmt_064x poolID @ TrimPrefix peerIDBytes32 ''0x''"

text \<open>
  \<open>pad\<close> is the character the verb \<^verbatim>\<open>%064s\<close> pads a string with: a zero where the Go release honours
  the flag for strings, a blank where it ignores it.
\<close>

definition EncodeGetMemberPeerIdsCall :: "char \<Rightarrow> nat \<Rightarrow> string \<Rightarrow> string" where
  "EncodeGetMemberPeerIdsCall pad poolID memberAddress =
     ms_GetMemberPeerIds MethodSignatures @ fmt_064x poolID @
       pad_left 64 pad (TrimPrefix memberAddress ''0x'')"

definition EncodeRemoveMemberPeerIdCall :: "nat \<Rightarrow> string \<Rightarrow> string" where
  "EncodeRemoveMemberPeerIdCall poolID peerIDBytes32 =
     ms_RemoveMemberPeerId MethodSignatures @ fmt_064x poolID @ TrimPrefix peerIDBytes32 ''0x''"

definition EncodeJoinRequestsCall :: "nat \<Rightarrow> string \<Rightarrow> string" where
  "EncodeJoinRequestsCall poolID peerIDBytes32 =
     ms_JoinRequests MethodSignatures @ fmt_064x poolID @ TrimPrefix peerIDBytes32 ''0x''"

definition DecodeJoinRequestStatus :: "string \<Rightarrow> (abi_error, nat) outcome" where
  "DecodeJoinRequestStatus data0 =
     (let data = TrimPrefix data0 ''0x'' in
      if length data < 512 then Err (InsufficientData (length data))
      else or_err (BadWord ''join request status'') (ParseUint (slice data (6 * 64) (7 * 64)) 16 8))"



section \<open>Slots and words\<close>

lemma slots_of_append: "length w = 64 \<Longrightarrow> slots_of (w @ s) = w # slots_of s"
  by (subst slots_of.simps) simp

lemma slots_of_short: "length s < 64 \<Longrightarrow> slots_of s = []"
  by (subst slots_of.simps) simp

lemma slots_of_Nil [simp]: "slots_of [] = []"
  by (simp add: slots_of_short)

lemma length_slots_of: "length (slots_of s) = length s div 64"
proof (induction s rule: slots_of.induct)
  case (1 s)
  show ?case
  proof (cases "length s < 64")
    case True
    then show ?thesis by (simp add: slots_of_short)
  next
    case False
    with 1 show ?thesis by (subst slots_of.simps) (simp add: le_div_geq)
  qed
qed

lemma slots_of_width: "w \<in> set (slots_of s) \<Longrightarrow> length w = 64"
proof (induction s rule: slots_of.induct)
  case (1 s)
  then show ?case
    by (cases "length s < 64") (auto simp: slots_of_short slots_of.simps [of s])
qed

lemma all_zero_replicate [simp]: "all_zero (replicate n (CHR ''0''))"
  by (simp add: all_zero_def list_all_iff)

lemma all_zero_append [simp]: "all_zero (s @ t) \<longleftrightarrow> all_zero s \<and> all_zero t"
  by (simp add: all_zero_def)

lemma hex_digit_zero [simp]: "hex_digit 0 = CHR ''0''"
  by code_simp

lemma hex_digit_eq_zero: "d < 16 \<Longrightarrow> hex_digit d = CHR ''0'' \<longleftrightarrow> d = 0"
  by (metis hex_digit_zero hex_val_digit option.inject zero_less_numeral)

lemma all_zero_digits: "all_zero (digits_of 16 n) \<longleftrightarrow> n = 0"
proof
  assume z: "all_zero (digits_of 16 n)"
  define ds where "ds = digits_of 16 n"
  have "ds = replicate (length ds) (CHR ''0'')"
    using z by (simp add: all_zero_def ds_def list_all_iff replicate_eqI [symmetric])
  then have "parse_digits 16 0 ds = Some 0"
    using parse_digits_zeros [of 16 "length ds" "[]"] by simp
  then show "n = 0" using parse_digits_of [of 16 n] by (simp add: ds_def)
next
  assume "n = 0"
  then show "all_zero (digits_of 16 n)" by (simp add: digits_of.simps all_zero_def)
qed

lemma all_zero_fmt [simp]: "all_zero (fmt_064x n) \<longleftrightarrow> n = 0"
  by (simp add: fmt_064x_def pad_left_def all_zero_digits)

lemma fmt_064x_low:
  assumes "n < 2 ^ 32"
  shows "slice (fmt_064x n) 56 64 = pad_left 8 (CHR ''0'') (digits_of 16 n)"
proof -
  have "length (digits_of 16 n) \<le> 8" using length_digits_of [of 16 n 7] assms by simp
  then show ?thesis by (simp add: slice_def fmt_064x_def pad_left_def)
qed

lemma ParseUint_low: "n < 2 ^ 32 \<Longrightarrow> ParseUint (slice (fmt_064x n) 56 64) 16 32 = Some n"
  by (simp add: fmt_064x_low ParseUint_def pad_left_def parse_digits_zeros parse_digits_of)

lemma hd_fmt_064x: "hd (fmt_064x n) \<noteq> CHR ''-''" "hd (fmt_064x n) \<noteq> CHR ''+''"
proof -
  have "hd (fmt_064x n) \<in> set (fmt_064x n)" by (rule hd_in_set) simp
  then have "hd (fmt_064x n) = hex_digit 0 \<or> hd (fmt_064x n) \<in> set (digits_of 16 n)"
    by (auto simp: fmt_064x_def pad_left_def)
  then have "\<exists>d < 16. hd (fmt_064x n) = hex_digit d"
  proof
    assume "hd (fmt_064x n) = hex_digit 0"
    then show ?thesis by (intro exI [of _ 0]) simp
  qed (rule set_digits_of, simp_all)
  then obtain d where "d < 16" and "hd (fmt_064x n) = hex_digit d" by auto
  then show "hd (fmt_064x n) \<noteq> CHR ''-''" "hd (fmt_064x n) \<noteq> CHR ''+''" by simp_all
qed

lemma big_SetString16_fmt: "big_SetString16 (fmt_064x n) = Some (int n)"
  by (simp add: big_SetString16_def Let_def hd_fmt_064x)

lemma bytes_string_roundtrip [simp]: "bytes_to_string (string_to_bytes s) = s"
  by (induction s) (auto simp: bytes_to_string_def string_to_bytes_def)

lemma length_string_to_bytes [simp]: "length (string_to_bytes s) = length s"
  by (simp add: string_to_bytes_def)

lemma string_to_bytes_bound: "\<forall>n \<in> set (string_to_bytes s). n < 256"
  by (auto simp: string_to_bytes_def)


section \<open>The text fields\<close>

text \<open>
  The panic of the text block: exactly the lengths whose bit 62 is set make the wrapped double
  negative as a signed integer and so slip under the guard.
\<close>

lemma mul2_guard_iff:
  assumes "len < 2 ^ 64" and "k \<le> 64"
  shows "to_int64 (mul_uint64 len 2) \<le> int k \<and> k < mul_uint64 len 2 \<longleftrightarrow> 2 ^ 62 \<le> len mod 2 ^ 63"
proof -
  have n2: "mul_uint64 len 2 = 2 * (len mod 2 ^ 63)"
    using mult_mod_right [of 2 len "2 ^ 63"] by (simp add: mul_uint64_def mult.commute)
  have b: "mul_uint64 len 2 < 2 ^ 64" by (simp add: mul_uint64_def)
  show ?thesis
  proof (cases "mul_uint64 len 2 < 2 ^ 63")
    case True
    then show ?thesis using n2 assms(2) by (auto simp: to_int64_small)
  next
    case False
    with b have "to_int64 (mul_uint64 len 2) < 0" by (simp add: to_int64_neg_iff)
    with False n2 assms(2) show ?thesis by auto
  qed
qed

lemma decode_text_Panic_iff:
  assumes "\<forall>w \<in> set slots. length w = 64"
  shows "decode_text what slots offset = Panic \<longleftrightarrow>
    offset div 32 + 1 < length slots \<and>
    (\<exists>len. ParseUint (slots ! (offset div 32)) 16 64 = Some len \<and> 2 ^ 62 \<le> len mod 2 ^ 63)"
proof (cases "offset div 32 + 1 < length slots")
  case True
  then have h: "length (slots ! (offset div 32 + 1)) = 64" using assms by simp
  show ?thesis
  proof (cases "ParseUint (slots ! (offset div 32)) 16 64")
    case None
    with True show ?thesis by (simp add: decode_text_def Let_def)
  next
    case (Some len)
    have b: "len < 2 ^ 64" using Some by (rule ParseUint_bound)
    have "2 ^ 62 \<le> len mod 2 ^ 63 \<Longrightarrow> 0 < len" by (cases len) auto
    with mul2_guard_iff [OF b, of 64] Some True h show ?thesis
      by (auto simp: decode_text_def Let_def outcome_simps)
  qed
next
  case False
  then show ?thesis by (auto simp: decode_text_def Let_def outcome_simps)
qed

definition encode_text :: "string \<Rightarrow> string" where
  "encode_text s =
     fmt_064x (length s) @
     (if s = [] then [] else hex_EncodeToString (string_to_bytes s) @ replicate (64 - 2 * length s) (CHR ''0''))"

lemma decode_text_slot:
  assumes "idx < length slots" and "slots ! idx = fmt_064x (length s)"
    and "s \<noteq> [] \<Longrightarrow> idx + 1 < length slots \<and>
           slots ! (idx + 1) = hex_EncodeToString (string_to_bytes s) @ replicate (64 - 2 * length s) (CHR ''0'')"
    and "length s \<le> 32"
  shows "decode_text what slots (32 * idx) = Ok s"
proof (cases "s = []")
  case True
  with assms(1,2) show ?thesis by (simp add: decode_text_def Let_def ParseUint_fmt_064x)
next
  case False
  have m: "mul_uint64 (length s) 2 = 2 * length s"
    using assms(4) by (simp add: mul_uint64_def)
  have i: "to_int64 (2 * length s) = 2 * int (length s)"
    using assms(4) by (simp add: to_int64_small)
  have l: "length s < 2 ^ 64" using assms(4) by (rule le_less_trans) simp
  show ?thesis
    using False assms m i l hex_decode_encode [OF string_to_bytes_bound]
    by (simp add: decode_text_def Let_def ParseUint_fmt_064x)
qed

section \<open>Specification of the encodings\<close>

text \<open>
  The standard ABI rendering of the answers the contract gives, the specification the decoders are
  measured against: head words, then the two strings, each a length word and one data word.
\<close>

definition encode_pool :: "Pool \<Rightarrow> string" where
  "encode_pool p =
     ''0x'' @ pad_left 64 (CHR ''0'') (TrimPrefix (p_Creator p) ''0x'') @ fmt_064x (p_ID p) @
     fmt_064x (p_MaxChallengeResponsePeriod p) @ fmt_064x (p_MemberCount p) @ fmt_064x (p_MaxMembers p) @
     fmt_064x (nat (the (p_RequiredTokens p))) @ fmt_064x (nat (the (p_MinPingTime p))) @
     fmt_064x (32 * 9) @ fmt_064x (32 * (if p_Name p = [] then 10 else 11)) @
     encode_text (p_Name p) @ encode_text (p_Region p)"

definition uint256 :: "int option \<Rightarrow> bool" where
  "uint256 x = (case x of None \<Rightarrow> False | Some i \<Rightarrow> 0 \<le> i \<and> i < 2 ^ 256)"

text \<open>What the contract stores: a non-zero address, words in range, strings of at most 32 bytes.\<close>

definition wf_pool :: "Pool \<Rightarrow> bool" where
  "wf_pool p \<longleftrightarrow>
     HasPrefix (p_Creator p) ''0x'' \<and> length (p_Creator p) = 42 \<and>
     \<not> all_zero (TrimPrefix (p_Creator p) ''0x'') \<and>
     p_ID p < 2 ^ 32 \<and> p_MaxChallengeResponsePeriod p < 2 ^ 32 \<and> p_MemberCount p < 2 ^ 32 \<and>
     p_MaxMembers p < 2 ^ 32 \<and> uint256 (p_RequiredTokens p) \<and> uint256 (p_MinPingTime p) \<and>
     length (p_Name p) \<le> 32 \<and> length (p_Region p) \<le> 32"

lemma slots_of_encode_text:
  "length s \<le> 32 \<Longrightarrow> slots_of (encode_text s @ t) =
     fmt_064x (length s) #
       (if s = [] then [] else [hex_EncodeToString (string_to_bytes s) @ replicate (64 - 2 * length s) (CHR ''0'')])
       @ slots_of t"
  using slots_of_append [of "hex_EncodeToString (string_to_bytes s) @ replicate (64 - 2 * length s) (CHR ''0'')" t]
  by (simp add: encode_text_def slots_of_append)

lemma slots_of_word: "n < 2 ^ 256 \<Longrightarrow> slots_of (fmt_064x n @ s) = fmt_064x n # slots_of s"
  by (rule slots_of_append) simp

definition pool_slots :: "Pool \<Rightarrow> string list" where
  "pool_slots p = slots_of (TrimPrefix (encode_pool p) ''0x'')"

lemma pool_slots_eq:
  assumes "wf_pool p"
  shows "pool_slots p =
    [pad_left 64 (CHR ''0'') (TrimPrefix (p_Creator p) ''0x''), fmt_064x (p_ID p),
     fmt_064x (p_MaxChallengeResponsePeriod p), fmt_064x (p_MemberCount p), fmt_064x (p_MaxMembers p),
     fmt_064x (nat (the (p_RequiredTokens p))), fmt_064x (nat (the (p_MinPingTime p))),
     fmt_064x (32 * 9), fmt_064x (32 * (if p_Name p = [] then 10 else 11))] @
    slots_of (encode_text (p_Name p) @ encode_text (p_Region p))"
proof -
  have cr: "length (pad_left 64 (CHR ''0'') (TrimPrefix (p_Creator p) ''0x'')) = 64"
    using assms by (simp add: wf_pool_def pad_left_def TrimPrefix_def)
  have small: "n < 2 ^ 32 \<Longrightarrow> n < 2 ^ 256" for n :: nat by simp
  have tok: "nat (the (p_RequiredTokens p)) < 2 ^ 256" "nat (the (p_MinPingTime p)) < 2 ^ 256"
    using assms by (auto simp: wf_pool_def uint256_def split: option.splits)
  have off: "32 * (if p_Name p = [] then 10 else 11) < (2 :: nat) ^ 256" "32 * 9 < (2 :: nat) ^ 256"
    by simp_all
  have drp: "TrimPrefix (encode_pool p) ''0x'' = drop 2 (encode_pool p)"
    by (simp add: encode_pool_def TrimPrefix_def HasPrefix_def)
  show ?thesis
    unfolding pool_slots_def drp encode_pool_def
    using assms small [of "p_ID p"] small [of "p_MaxChallengeResponsePeriod p"] small [of "p_MemberCount p"]
      small [of "p_MaxMembers p"] tok off
    by (simp add: wf_pool_def slots_of_append [OF cr] slots_of_word)
qed

lemma pool_slots_text:
  assumes "wf_pool p"
  shows "decode_text what (pool_slots p) (32 * 9) = Ok (p_Name p)"
    and "decode_text what (pool_slots p) (32 * (if p_Name p = [] then 10 else 11)) = Ok (p_Region p)"
proof -
  have len: "length (p_Name p) \<le> 32" "length (p_Region p) \<le> 32" using assms by (auto simp: wf_pool_def)
  note sl = pool_slots_eq [OF assms] slots_of_encode_text [OF len(1)]
    slots_of_encode_text [OF len(2), of "[]", simplified]
  show "decode_text what (pool_slots p) (32 * 9) = Ok (p_Name p)"
    by (rule decode_text_slot) (use len in \<open>auto simp: sl\<close>)
  show "decode_text what (pool_slots p) (32 * (if p_Name p = [] then 10 else 11)) = Ok (p_Region p)"
    by (rule decode_text_slot) (use len in \<open>auto simp: sl\<close>)
qed

lemma decode_encode_pool:
  assumes "wf_pool p"
  shows "DecodePoolsResult (encode_pool p) = Ok p"
proof -
  let ?d = "TrimPrefix (encode_pool p) ''0x''"
  let ?cr = "TrimPrefix (p_Creator p) ''0x''"
  have l: "9 \<le> length (pool_slots p)" by (simp add: pool_slots_eq [OF assms])
  then have len: "288 \<le> length ?d" by (simp add: pool_slots_def length_slots_of)
  have cr: "slice (pad_left 64 (CHR ''0'') ?cr) 24 64 = ?cr" "''0x'' @ ?cr = p_Creator p" "\<not> all_zero ?cr"
    using assms by (auto simp: wf_pool_def slice_def pad_left_def TrimPrefix_def HasPrefix_iff)
  have tok: "Some (int (nat (the (p_RequiredTokens p)))) = p_RequiredTokens p"
    "Some (int (nat (the (p_MinPingTime p)))) = p_MinPingTime p"
    using assms by (auto simp: wf_pool_def uint256_def split: option.splits)
  have slots: "slots_of ?d = pool_slots p" by (simp add: pool_slots_def)
  show ?thesis
    using l len cr tok assms pool_slots_text [OF assms]
    unfolding DecodePoolsResult_def Let_def slots
    by (simp add: pool_slots_eq [OF assms] wf_pool_def ParseUint_low ParseUint_fmt_064x big_SetString16_fmt)
qed

text \<open>
  Decoding the contract's answer to \<^verbatim>\<open>pools(uint32)\<close> gives back the pool the contract encoded,
  for every pool with a non-zero creator and strings of at most 32 bytes.
\<close>

lemma pools_roundtrip:
  assumes "wf_pool p"
  shows "DecodePoolsResult (encode_pool p) = Ok p"
  using assms by (rule decode_encode_pool)

definition sample_pool :: Pool where
  "sample_pool = \<lparr>p_Creator = ''0x00000000000000000000000000000000000000ab'', p_ID = 7,
     p_MaxChallengeResponsePeriod = 86400, p_MemberCount = 3, p_MaxMembers = 50,
     p_RequiredTokens = Some 1000, p_MinPingTime = Some 250, p_Name = ''north'', p_Region = ''eu''\<rparr>"

lemma wf_sample_pool: "wf_pool sample_pool"
  by (simp add: wf_pool_def sample_pool_def HasPrefix_def TrimPrefix_def all_zero_def uint256_def)

theorem pools_roundtrip_witness: "wf_pool sample_pool \<and> DecodePoolsResult (encode_pool sample_pool) = Ok sample_pool"
  using wf_sample_pool pools_roundtrip [OF wf_sample_pool] by simp

section \<open>Panics of the pool decoder\<close>

text \<open>
  \<^verbatim>\<open>DecodePoolsResult\<close> does not panic as long as no word of the answer, read as a 64-bit length,
  has bit 62 set (every length below \<open>2 ^ 62\<close>, so every honest answer).
\<close>

lemma pools_no_panic:
  assumes "\<forall>w \<in> set (slots_of (TrimPrefix data ''0x'')). \<forall>len.
    ParseUint w 16 64 = Some len \<longrightarrow> len mod 2 ^ 63 < 2 ^ 62"
  shows "DecodePoolsResult data \<noteq> Panic"
proof -
  let ?s = "slots_of (TrimPrefix data ''0x'')"
  have w: "\<forall>x \<in> set ?s. length x = 64" using slots_of_width by blast
  have "decode_text what ?s off \<noteq> Panic" for what off
  proof
    assume "decode_text what ?s off = Panic"
    then obtain len where i: "off div 32 + 1 < length ?s"
      and p: "ParseUint (?s ! (off div 32)) 16 64 = Some len" and b: "2 ^ 62 \<le> len mod 2 ^ 63"
      using decode_text_Panic_iff [OF w] by blast
    from i have "?s ! (off div 32) \<in> set ?s" by simp
    with assms p have "len mod 2 ^ 63 < 2 ^ 62" by blast
    with b show False by simp
  qed
  then show ?thesis
    by (auto simp: DecodePoolsResult_def Let_def outcome_simps)
qed

text \<open>An answer whose name length is \<open>2 ^ 62\<close>: well formed as far as the head words go.\<close>

definition crash_answer :: string where
  "crash_answer = ''0x'' @ concat (map fmt_064x [1, 0, 0, 0, 0, 0, 0, 288, 288, 2 ^ 62, 0])"

lemma slots_of_words: "\<forall>n \<in> set ns. n < 2 ^ 256 \<Longrightarrow> slots_of (concat (map fmt_064x ns)) = map fmt_064x ns"
  by (induction ns) (auto simp: slots_of_word)

lemma slots_of_0x_words:
  "\<forall>n \<in> set ns. n < 2 ^ 256 \<Longrightarrow>
     slots_of (TrimPrefix (''0x'' @ concat (map fmt_064x ns)) ''0x'') = map fmt_064x ns"
  by (simp add: slots_of_words)

lemma length_words: "\<forall>n \<in> set ns. n < 2 ^ 256 \<Longrightarrow> length (concat (map fmt_064x ns)) = 64 * length ns"
  by (induction ns) auto

theorem pools_no_panic_witness:
  "DecodePoolsResult (''0x'' @ concat (map fmt_064x [5, 7])) \<noteq> Panic"
proof -
  have s: "slots_of (TrimPrefix (''0x'' @ concat (map fmt_064x [5, 7])) ''0x'') = map fmt_064x [5, 7]"
    by (rule slots_of_0x_words) simp
  show ?thesis
    by (rule pools_no_panic) (unfold s, simp add: ParseUint_fmt_064x)
qed

text \<open>
  The decoder does panic on some answer of a node: a name length of \<open>2 ^ 62\<close> passes the bounds
  check, because the doubled length is converted to a negative signed integer, and the slice
  expression after it is out of range.
\<close>

lemma pools_crash_answer: "DecodePoolsResult crash_answer = Panic"
proof -
  let ?ns = "[1, 0, 0, 0, 0, 0, 0, 288, 288, 2 ^ 62, 0] :: nat list"
  have b: "\<forall>n \<in> set ?ns. n < 2 ^ 256" by simp
  have s: "slots_of (TrimPrefix crash_answer ''0x'') = map fmt_064x ?ns"
    unfolding crash_answer_def by (rule slots_of_0x_words [OF b])
  have l: "length (TrimPrefix crash_answer ''0x'') = 704"
    unfolding crash_answer_def using length_words [OF b] by simp
  have w: "\<forall>x \<in> set (map fmt_064x ?ns). length x = 64" by simp
  have nm: "decode_text ''name'' (map fmt_064x ?ns) 288 = Panic"
    by (subst decode_text_Panic_iff [OF w]) (simp add: ParseUint_fmt_064x)
  have cr: "\<not> all_zero (slice (fmt_064x 1) 24 64)"
  proof -
    have "fmt_064x 1 = replicate 63 (CHR ''0'') @ ''1''" by code_simp
    then show ?thesis by (simp add: slice_def all_zero_def numeral_eq_Suc)
  qed
  show ?thesis
    using nm cr unfolding DecodePoolsResult_def Let_def s l
    by (simp add: ParseUint_low ParseUint_fmt_064x)
qed


section \<open>Membership and join requests\<close>

lemma DecodeIsMember_answer:
  assumes "length addr = 40"
  shows "DecodeIsMemberOfPoolResult (''0x'' @ fmt_064x (of_bool b) @ pad_left 64 (CHR ''0'') addr) =
           Ok \<lparr>imr_IsMember = b, imr_MemberAddress = ''0x'' @ addr\<rparr>"
proof -
  have l: "length (fmt_064x (of_bool b)) = 64" by (cases b) simp_all
  have "slice (fmt_064x (of_bool b) @ pad_left 64 (CHR ''0'') addr) 0 64 = fmt_064x (of_bool b)"
    "slice (slice (fmt_064x (of_bool b) @ pad_left 64 (CHR ''0'') addr) 64 128) 24 64 = addr"
    using assms l by (simp_all add: slice_def pad_left_def)
  then show ?thesis using assms l by (simp add: DecodeIsMemberOfPoolResult_def Let_def pad_left_def)
qed

lemma DecodeIsMember_total: "DecodeIsMemberOfPoolResult data \<noteq> Panic"
  by (simp add: DecodeIsMemberOfPoolResult_def Let_def)

text \<open>
  The membership decoder is total and exact: short data is the only error, and on an ABI answer
  of a boolean and an address it returns exactly these two.
\<close>

lemma member_result_spec:
  assumes "length addr = 40"
  shows "DecodeIsMemberOfPoolResult (''0x'' @ fmt_064x (of_bool b) @ pad_left 64 (CHR ''0'') addr) =
           Ok \<lparr>imr_IsMember = b, imr_MemberAddress = ''0x'' @ addr\<rparr> \<and>
         (is_err (DecodeIsMemberOfPoolResult data) \<longleftrightarrow> length (TrimPrefix data ''0x'') < 128) \<and>
         DecodeIsMemberOfPoolResult data \<noteq> Panic"
  using DecodeIsMember_answer [OF assms] by (simp add: DecodeIsMemberOfPoolResult_def Let_def)

theorem member_result_spec_witness:
  "length (replicate 40 (CHR ''a'')) = 40 \<and>
   DecodeIsMemberOfPoolResult (''0x'' @ fmt_064x (of_bool True) @ pad_left 64 (CHR ''0'') (replicate 40 (CHR ''a''))) =
     Ok \<lparr>imr_IsMember = True, imr_MemberAddress = ''0x'' @ replicate 40 (CHR ''a'')\<rparr>"
  using member_result_spec [of "replicate 40 (CHR ''a'')" True "[]"] by simp

lemma drop_words:
  assumes "\<forall>n \<in> set ns. n < 2 ^ 256" and "k \<le> length ns"
  shows "drop (64 * k) (concat (map fmt_064x ns) @ t) = concat (map fmt_064x (drop k ns)) @ t"
  using assms
proof (induction k arbitrary: ns)
  case (Suc k)
  then obtain n ms where ns: "ns = n # ms" by (cases ns) auto
  with Suc.prems have "length (fmt_064x n) = 64" by simp
  with Suc ns show ?case by simp
qed simp

lemma slice_words:
  assumes "\<forall>n \<in> set ns. n < 2 ^ 256" and "k < length ns"
  shows "slice (concat (map fmt_064x ns) @ t) (64 * k) (64 * k + 64) = fmt_064x (ns ! k)"
proof -
  have "drop k ns = ns ! k # drop (Suc k) ns" using assms(2) by (rule Cons_nth_drop_Suc [symmetric])
  moreover have "length (fmt_064x (ns ! k)) = 64" using assms by simp
  ultimately show ?thesis using assms by (simp add: slice_def drop_words del: drop_append)
qed

lemma DecodeJoinRequestStatus_words:
  assumes "length ws = 8" and "\<forall>n \<in> set ws. n < 2 ^ 256"
  shows "DecodeJoinRequestStatus (''0x'' @ concat (map fmt_064x ws) @ rest) =
    (if ws ! 6 < 256 then Ok (ws ! 6) else Err (BadWord ''join request status''))"
proof -
  have "slice (concat (map fmt_064x ws) @ rest) (6 * 64) (7 * 64) = fmt_064x (ws ! 6)"
    using slice_words [OF assms(2), of 6 rest] assms(1) by simp
  then show ?thesis
    using assms length_words [OF assms(2)]
    by (simp add: DecodeJoinRequestStatus_def Let_def ParseUint_fmt_064x)
qed

lemma DecodeJoinRequestStatus_total: "DecodeJoinRequestStatus data \<noteq> Panic"
  by (simp add: DecodeJoinRequestStatus_def Let_def)

text \<open>
  The status of a join request is word 6 of the eight-word answer: a value that fits a byte is
  returned, a larger one is an error, as is data shorter than eight words.
\<close>

lemma join_status_spec:
  assumes "length ws = 8" and "\<forall>n \<in> set ws. n < 2 ^ 256"
  shows "DecodeJoinRequestStatus (''0x'' @ concat (map fmt_064x ws) @ rest) =
    (if ws ! 6 < 256 then Ok (ws ! 6) else Err (BadWord ''join request status'')) \<and>
    (length (TrimPrefix data ''0x'') < 512 \<longrightarrow> is_err (DecodeJoinRequestStatus data))"
  using DecodeJoinRequestStatus_words [OF assms] by (auto simp: DecodeJoinRequestStatus_def Let_def)

theorem join_status_spec_witness:
  "DecodeJoinRequestStatus (''0x'' @ concat (map fmt_064x [9, 1, 100, 0, 2, 0, 1, 77]) @ []) = Ok 1"
  using join_status_spec [of "[9, 1, 100, 0, 2, 0, 1, 77]" "[]"] by simp

text \<open>
  A pool id answer is truncated to 32 bits: below \<open>2 ^ 32\<close> the word is returned as it is, up to
  \<open>2 ^ 64\<close> its low half is, beyond that the decoder reports an error.
\<close>

lemma pool_id_response_spec:
  assumes "n < 2 ^ 256"
  shows "DecodePoolIdResponse (''0x'' @ fmt_064x n) =
    (if n < 2 ^ 64 then Ok (n mod 2 ^ 32) else Err (BadWord ''pool ID''))"
  using assms
  by (simp add: DecodePoolIdResponse_def Let_def ParseUint_fmt_064x to_uint32_def nat_mod_distrib)

theorem pool_id_response_spec_witness:
  "(2 ^ 32 + 5 :: nat) < 2 ^ 256 \<and> DecodePoolIdResponse (''0x'' @ fmt_064x (2 ^ 32 + 5)) = Ok 5"
  using pool_id_response_spec [of "2 ^ 32 + 5"] by simp

section \<open>Call data\<close>

lemma call_data_eq:
  assumes "length sel = length sel'" and "m < 2 ^ 256" and "n < 2 ^ 256"
  shows "sel @ fmt_064x m @ x = sel' @ fmt_064x n @ y \<longleftrightarrow> sel = sel' \<and> m = n \<and> x = y"
  using assms by (auto simp: fmt_064x_inject)

text \<open>
  Call data is unambiguous: a membership query determines the pool and the peer it asks about,
  and no two of the membership, join-request and removal calls (nor the two pool queries) produce
  the same call data.
\<close>

lemma call_data_unambiguous:
  assumes "m < 2 ^ 32" and "n < 2 ^ 32"
  shows "(EncodeIsPeerIdMemberOfPoolCall m p = EncodeIsPeerIdMemberOfPoolCall n q
            \<longleftrightarrow> m = n \<and> TrimPrefix p ''0x'' = TrimPrefix q ''0x'') \<and>
         EncodeIsPeerIdMemberOfPoolCall m p \<noteq> EncodeJoinRequestsCall n q \<and>
         EncodeIsPeerIdMemberOfPoolCall m p \<noteq> EncodeRemoveMemberPeerIdCall n q \<and>
         EncodeJoinRequestsCall m p \<noteq> EncodeRemoveMemberPeerIdCall n q \<and>
         EncodePoolsCall m \<noteq> EncodePoolIdsCall n"
proof -
  have b: "m < 2 ^ 256" "n < 2 ^ 256" using assms by simp_all
  note eqs = call_data_eq [OF _ b]
  show ?thesis
    using eqs [of "ms_IsPeerIdMemberOfPool MethodSignatures" "ms_IsPeerIdMemberOfPool MethodSignatures"]
      eqs [of "ms_IsPeerIdMemberOfPool MethodSignatures" "ms_JoinRequests MethodSignatures"]
      eqs [of "ms_IsPeerIdMemberOfPool MethodSignatures" "ms_RemoveMemberPeerId MethodSignatures"]
      eqs [of "ms_JoinRequests MethodSignatures" "ms_RemoveMemberPeerId MethodSignatures"]
    by (simp add: EncodeIsPeerIdMemberOfPoolCall_def EncodeJoinRequestsCall_def
        EncodeRemoveMemberPeerIdCall_def EncodePoolsCall_def EncodePoolIdsCall_def MethodSignatures_def)
qed

theorem call_data_unambiguous_witness:
  "EncodeIsPeerIdMemberOfPoolCall 1 ''0xab'' \<noteq> EncodeIsPeerIdMemberOfPoolCall 2 ''0xab'' \<and>
   EncodeIsPeerIdMemberOfPoolCall 1 ''0xab'' \<noteq> EncodeJoinRequestsCall 2 ''0xab''"
  using call_data_unambiguous [of 1 2 "''0xab''" "''0xab''"] by simp


section \<open>The peer id array\<close>

lemma peer_id_elements_step:
  assumes "\<forall>w \<in> set ids. length w = 64" and "length pre = start" and "i \<le> length ids"
  shows "peer_id_elements (pre @ concat ids @ post) start i (length ids) = map ((@) ''0x'') (drop i ids)"
  using assms(3)
proof (induction "length ids - i" arbitrary: i)
  case 0
  then show ?case by (subst peer_id_elements.simps) simp
next
  case (Suc k)
  then have i: "i < length ids" by simp
  have len: "length (concat (take i ids)) = 64 * i"
    using assms(1) i length_concat_uniform [of "take i ids" 64] by (auto dest: in_set_takeD)
  have all: "concat ids = concat (take i ids) @ ids ! i @ concat (drop (Suc i) ids)"
    by (metis append_take_drop_id Cons_nth_drop_Suc concat.simps(2) concat_append i)
  have w: "length (ids ! i) = 64" using assms(1) i by simp
  have sl: "slice (pre @ concat ids @ post) (start + i * 64) (start + i * 64 + 64) = ids ! i"
    unfolding slice_def all using assms(2) len w by simp
  have bd: "start + i * 64 + 64 \<le> length (pre @ concat ids @ post)"
    unfolding all using assms(2) len w by simp
  have "peer_id_elements (pre @ concat ids @ post) start (Suc i) (length ids) = map ((@) ''0x'') (drop (Suc i) ids)"
    using Suc.hyps i by simp
  then show ?case
    using i sl bd by (subst peer_id_elements.simps) (simp add: Cons_nth_drop_Suc [symmetric])
qed

text \<open>
  Decoding an ABI-encoded \<^verbatim>\<open>bytes32[]\<close> of up to \<open>2 ^ 44\<close> elements returns every element in order.
\<close>

lemma peer_ids_roundtrip:
  assumes "\<forall>w \<in> set ids. length w = 64" and "length ids \<le> 2 ^ 44"
  shows "DecodeGetMemberPeerIdsResult (''0x'' @ fmt_064x 32 @ fmt_064x (length ids) @ concat ids) =
           Ok \<lparr>gmp_PeerIds = map ((@) ''0x'') ids\<rparr>"
proof -
  let ?d = "fmt_064x 32 @ fmt_064x (length ids) @ concat ids"
  have n: "length ids < 2 ^ 64" "length ids < 2 ^ 256"
    using assms(2) by (auto intro: le_less_trans)
  then have l: "length (fmt_064x 32) = 64" "length (fmt_064x (length ids)) = 64" by simp_all
  have sl: "slice ?d 0 64 = fmt_064x 32" "slice ?d 64 128 = fmt_064x (length ids)"
    using l by (simp_all add: slice_def)
  have el: "peer_id_elements ?d 128 0 (length ids) = map ((@) ''0x'') ids"
    using peer_id_elements_step [OF assms(1), of "fmt_064x 32 @ fmt_064x (length ids)" 128 0 "[]"] l by simp
  show ?thesis
    using sl el l n assms(2)
    by (simp add: DecodeGetMemberPeerIdsResult_def Let_def ParseUint_fmt_064x mul_uint64_def to_int64_small
        max_string_cap_def)
qed

theorem peer_ids_roundtrip_witness:
  "DecodeGetMemberPeerIdsResult (''0x'' @ fmt_064x 32 @ fmt_064x (length [fmt_064x 5, fmt_064x 9]) @
      concat [fmt_064x 5, fmt_064x 9]) =
     Ok \<lparr>gmp_PeerIds = map ((@) ''0x'') [fmt_064x 5, fmt_064x 9]\<rparr>"
  by (rule peer_ids_roundtrip) simp_all

text \<open>
  The array decoder panics on an offset of \<open>2 ^ 62\<close> (its double is negative as a signed integer,
  so both range checks pass) and on an array length the allocator cannot reserve.
\<close>

lemma peer_ids_crash_answers:
  "DecodeGetMemberPeerIdsResult (''0x'' @ fmt_064x (2 ^ 62)) = Panic \<and>
   DecodeGetMemberPeerIdsResult (''0x'' @ fmt_064x 32 @ fmt_064x (2 ^ 63)) = Panic"
proof
  show "DecodeGetMemberPeerIdsResult (''0x'' @ fmt_064x (2 ^ 62)) = Panic"
    by (simp add: DecodeGetMemberPeerIdsResult_def Let_def slice_def ParseUint_fmt_064x mul_uint64_def to_int64_def)
  show "DecodeGetMemberPeerIdsResult (''0x'' @ fmt_064x 32 @ fmt_064x (2 ^ 63)) = Panic"
    by (simp add: DecodeGetMemberPeerIdsResult_def Let_def slice_def ParseUint_fmt_064x mul_uint64_def
        to_int64_small max_string_cap_def)
qed

end
