(* ===== verification/PeerIds.thy ===== *)
theory PeerIds
  imports Device
begin

text \<open>
  \<^verbatim>\<open>blockchain/peerid_utils.go\<close>: the conversion between libp2p peer ids and the \<^verbatim>\<open>bytes32\<close> the pool
  contract stores. The multibase and peer-id codecs are parameters (the \<^typ>\<open>codecs\<close> record).
\<close>

datatype peer_error =
    BadMultibase
  | UnsupportedFormat nat
  | Not32Bytes nat
  | BadHex
  | NotReversible string string
  | BadPeerID

definition cidHeader :: "nat list" where
  "cidHeader = [0x00, 0x24, 0x08, 0x01, 0x12]"

definition bytes32ToPeerId :: "codecs \<Rightarrow> string \<Rightarrow> (peer_error, string) outcome" where
  "bytes32ToPeerId cd digest =
     (case hex_DecodeString (TrimPrefix digest ''0x'') of
        None \<Rightarrow> Err BadHex
      | Some pubkey \<Rightarrow>
          if length pubkey \<noteq> 32 then Err (Not32Bytes (length pubkey))
          else
            let full = [0x00, 0x24] @ [0x08, 0x01] @ [0x12, 0x20] @ pubkey;
                encoded = mb_Encode58 cd full
            in Ok (if HasPrefix encoded ''z'' then tl encoded else encoded))"

definition peerIdToBytes32 :: "codecs \<Rightarrow> string \<Rightarrow> (peer_error, string) outcome" where
  "peerIdToBytes32 cd peerID0 =
     (let peerID = (if HasPrefix peerID0 ''z'' then peerID0 else ''z'' @ peerID0) in
      case mb_Decode cd peerID of
        None \<Rightarrow> Err BadMultibase
      | Some decoded \<Rightarrow>
          let isCIDv1 = (take (length cidHeader) decoded = cidHeader) in
          and_then
            (if isCIDv1 \<and> 37 \<le> length decoded then Ok (drop (length decoded - 32) decoded)
             else if length decoded = 34 \<and> decoded ! 0 = 0x12 \<and> decoded ! 1 = 0x20 then Ok (drop 2 decoded)
             else Err (UnsupportedFormat (length decoded))) (\<lambda>bytes32.
          if length bytes32 \<noteq> 32 then Err (Not32Bytes (length bytes32))
          else
            let result = ''0x'' @ hex_EncodeToString bytes32 in
            and_then (bytes32ToPeerId cd result) (\<lambda>reconstructed.
              let originalWithoutZ = TrimPrefix peerID ''z'' in
              if reconstructed \<noteq> originalWithoutZ then Err (NotReversible reconstructed originalWithoutZ)
              else Ok result)))"

definition PeerIDToBytes32 :: "codecs \<Rightarrow> peerID \<Rightarrow> (peer_error, string) outcome" where
  "PeerIDToBytes32 cd pid = peerIdToBytes32 cd pid"

definition Bytes32ToPeerID :: "codecs \<Rightarrow> string \<Rightarrow> (peer_error, peerID) outcome" where
  "Bytes32ToPeerID cd digest =
     and_then (bytes32ToPeerId cd digest) (\<lambda>s. or_err BadPeerID (peer_Decode cd s))"

definition ValidatePeerIDConversion :: "codecs \<Rightarrow> peerID \<Rightarrow> (peer_error, unit) outcome" where
  "ValidatePeerIDConversion cd pid =
     and_then (PeerIDToBytes32 cd pid) (\<lambda>b.
     and_then (Bytes32ToPeerID cd b) (\<lambda>r.
       if pid \<noteq> r then Err (NotReversible pid r) else Ok ()))"


section \<open>Conversions are reversible\<close>

lemma peerIdToBytes32_sound:
  assumes "peerIdToBytes32 cd pid = Ok b"
  shows "bytes32ToPeerId cd b = Ok (TrimPrefix pid ''z'')" and "length b = 66" and "HasPrefix b ''0x''"
  using assms
  by (auto simp: peerIdToBytes32_def Let_def outcome_simps TrimPrefix_def split: option.splits if_splits)

text \<open>
  The id sent to the contract always identifies the peer: when the conversion of a peer id
  succeeds, converting the 32 bytes back gives that peer id, so two peers never share a \<^verbatim>\<open>bytes32\<close>,
  whatever the multibase library does.
\<close>

lemma bytes32_identifies_peer:
  assumes "peerIdToBytes32 cd p = Ok b" and "peerIdToBytes32 cd q = Ok b"
  shows "bytes32ToPeerId cd b = Ok (TrimPrefix p ''z'') \<and> TrimPrefix p ''z'' = TrimPrefix q ''z'' \<and> length b = 66"
  using peerIdToBytes32_sound [OF assms(1)] peerIdToBytes32_sound [OF assms(2)] by simp

text \<open>A lawful base58btc codec: the encoder adds the \<^verbatim>\<open>z\<close> and the decoder inverts it.\<close>

definition lawful_multibase :: "codecs \<Rightarrow> bool" where
  "lawful_multibase cd \<longleftrightarrow>
     (\<forall>bs. (\<forall>n \<in> set bs. n < 256) \<longrightarrow>
        HasPrefix (mb_Encode58 cd bs) ''z'' \<and> mb_Decode cd (mb_Encode58 cd bs) = Some bs)"

definition key_bytes :: "nat list \<Rightarrow> bool" where
  "key_bytes bs \<longleftrightarrow> length bs = 32 \<and> (\<forall>n \<in> set bs. n < 256)"

definition ed25519_multihash :: "nat list \<Rightarrow> nat list" where
  "ed25519_multihash key = [0x00, 0x24, 0x08, 0x01, 0x12, 0x20] @ key"

lemma bytes32ToPeerId_key:
  assumes "lawful_multibase cd" and "key_bytes key"
  shows "bytes32ToPeerId cd (''0x'' @ hex_EncodeToString key) = Ok (tl (mb_Encode58 cd (ed25519_multihash key)))"
    and "HasPrefix (mb_Encode58 cd (ed25519_multihash key)) ''z''"
    and "mb_Decode cd (mb_Encode58 cd (ed25519_multihash key)) = Some (ed25519_multihash key)"
proof -
  have b: "\<forall>n \<in> set (ed25519_multihash key). n < 256"
    using assms(2) by (auto simp: ed25519_multihash_def key_bytes_def)
  show z: "HasPrefix (mb_Encode58 cd (ed25519_multihash key)) ''z''"
    and "mb_Decode cd (mb_Encode58 cd (ed25519_multihash key)) = Some (ed25519_multihash key)"
    using assms(1) b by (auto simp: lawful_multibase_def)
  show "bytes32ToPeerId cd (''0x'' @ hex_EncodeToString key) = Ok (tl (mb_Encode58 cd (ed25519_multihash key)))"
    using z assms(2) hex_decode_encode [of key]
    by (simp add: bytes32ToPeerId_def key_bytes_def ed25519_multihash_def Let_def)
qed

text \<open>
  Every Ed25519 key survives the trip through the contract: encoding the 32 key bytes as a peer
  id and converting that peer id to \<^verbatim>\<open>bytes32\<close> gives the key bytes again.
\<close>

lemma ed25519_key_roundtrip:
  assumes "lawful_multibase cd" and "key_bytes key"
    and "bytes32ToPeerId cd (''0x'' @ hex_EncodeToString key) = Ok pid"
  shows "peerIdToBytes32 cd (''z'' @ pid) = Ok (''0x'' @ hex_EncodeToString key)"
proof -
  note k = bytes32ToPeerId_key [OF assms(1,2)]
  obtain t where t: "mb_Encode58 cd (ed25519_multihash key) = ''z'' @ t"
    using k(2) by (auto simp: HasPrefix_iff)
  have pid: "pid = t" using k(1) assms(3) t by simp
  have len: "length key = 32" using assms(2) by (simp add: key_bytes_def)
  have dec: "mb_Decode cd (''z'' @ t) = Some (ed25519_multihash key)" using k(3) t by simp
  show ?thesis
    using k(1) t pid len dec
    by (simp add: peerIdToBytes32_def Let_def cidHeader_def ed25519_multihash_def HasPrefix_def TrimPrefix_def)
qed

text \<open>
  The branch for legacy \<^verbatim>\<open>Qm...\<close> peer ids never succeeds: with a lawful codec the rebuilt peer id
  is an Ed25519 one, so the reversible check rejects every 34-byte sha2-256 multihash.
\<close>

lemma legacy_peer_ids_rejected:
  assumes "lawful_multibase cd" and "key_bytes digest"
    and "mb_Decode cd (''z'' @ pid) = Some ([0x12, 0x20] @ digest)"
  shows "is_err (peerIdToBytes32 cd (''z'' @ pid))"
proof -
  note k = bytes32ToPeerId_key [OF assms(1,2)]
  obtain t where t: "mb_Encode58 cd (ed25519_multihash digest) = ''z'' @ t"
    using k(2) by (auto simp: HasPrefix_iff)
  have len: "length digest = 32" using assms(2) by (simp add: key_bytes_def)
  have "t \<noteq> pid"
  proof
    assume "t = pid"
    with k(3) t assms(3) have "ed25519_multihash digest = [0x12, 0x20] @ digest" by simp
    then show False by (simp add: ed25519_multihash_def)
  qed
  then show ?thesis
    using k(1) t len assms(3)
    by (simp add: peerIdToBytes32_def Let_def cidHeader_def HasPrefix_def TrimPrefix_def)
qed

text \<open>A lawful codec to evaluate the theorems on: \<^verbatim>\<open>z\<close> followed by the hexadecimal digits.\<close>

definition hex_codec :: codecs where
  "hex_codec = \<lparr>mb_Decode = (\<lambda>s. hex_DecodeString (TrimPrefix s ''z'')),
     mb_Encode58 = (\<lambda>bs. ''z'' @ hex_EncodeToString bs), peer_Decode = Some\<rparr>"

lemma hex_codec_lawful: "lawful_multibase hex_codec"
  using hex_decode_encode HasPrefix_append [of "''z''"] TrimPrefix_append [of "''z''"]
  by (auto simp: lawful_multibase_def hex_codec_def)

lemma sample_key: "key_bytes (replicate 32 7)"
  by (simp add: key_bytes_def)

lemma sample_peer:
  "bytes32ToPeerId hex_codec (''0x'' @ hex_EncodeToString (replicate 32 7)) =
     Ok (hex_EncodeToString (ed25519_multihash (replicate 32 7)))"
  using bytes32ToPeerId_key(1) [OF hex_codec_lawful sample_key] by (simp add: hex_codec_def)

theorem ed25519_key_roundtrip_witness:
  "peerIdToBytes32 hex_codec (''z'' @ hex_EncodeToString (ed25519_multihash (replicate 32 7))) =
     Ok (''0x'' @ hex_EncodeToString (replicate 32 7))"
  by (rule ed25519_key_roundtrip [OF hex_codec_lawful sample_key sample_peer])

lemma sample_conversion:
  "peerIdToBytes32 hex_codec (''z'' @ hex_EncodeToString (ed25519_multihash (replicate 32 7))) =
     Ok (''0x'' @ hex_EncodeToString (replicate 32 7))"
proof -
  have "hex_DecodeString (hex_EncodeToString (ed25519_multihash (replicate 32 7))) = Some (ed25519_multihash (replicate 32 7))"
    by (rule hex_decode_encode) (simp add: ed25519_multihash_def)
  then show ?thesis
    using sample_peer
    by (simp add: peerIdToBytes32_def Let_def cidHeader_def HasPrefix_def TrimPrefix_def hex_codec_def
        ed25519_multihash_def)
qed

theorem bytes32_identifies_peer_witness:
  "bytes32ToPeerId hex_codec (''0x'' @ hex_EncodeToString (replicate 32 7)) =
     Ok (TrimPrefix (''z'' @ hex_EncodeToString (ed25519_multihash (replicate 32 7))) ''z'')"
  using bytes32_identifies_peer [OF sample_conversion sample_conversion] by simp

theorem legacy_peer_ids_rejected_witness:
  "is_err (peerIdToBytes32 hex_codec (''z'' @ hex_EncodeToString ([0x12, 0x20] @ replicate 32 7)))"
proof (rule legacy_peer_ids_rejected [OF hex_codec_lawful sample_key])
  show "mb_Decode hex_codec (''z'' @ hex_EncodeToString ([0x12, 0x20] @ replicate 32 7)) =
      Some ([0x12, 0x20] @ replicate 32 7)"
    using hex_decode_encode [of "[0x12, 0x20] @ replicate 32 7"] TrimPrefix_append [of "''z''"]
    by (simp add: hex_codec_def)
qed

end
