(* ===== verification/AuthSigned.thy ===== *)
theory AuthSigned
  imports Device
begin

text \<open>
  \<^verbatim>\<open>blockchain/auth_signed.go\<close>: signed request headers, their verification on the device and their
  creation on the client. The signature scheme and the peer-id decoder (libp2p) are parameters; so
  is the digest, of which the theorems use nothing. Standard base64 is modelled in full.
\<close>

section \<open>Base64\<close>

definition b64_char :: "nat \<Rightarrow> char" where
  "b64_char n = (if n < 26 then char_of (n + 65) else if n < 52 then char_of (n + 71)
     else if n < 62 then char_of (n - 4) else if n = 62 then CHR ''+'' else CHR ''/'')"

definition b64_val :: "char \<Rightarrow> nat option" where
  "b64_val c = (let n = of_char c :: nat in
     if 65 \<le> n \<and> n \<le> 90 then Some (n - 65) else if 97 \<le> n \<and> n \<le> 122 then Some (n - 71)
     else if 48 \<le> n \<and> n \<le> 57 then Some (n + 4) else if n = 43 then Some 62
     else if n = 47 then Some 63 else None)"

fun b64_encode :: "nat list \<Rightarrow> string" where
  "b64_encode [] = []"
| "b64_encode [a] = [b64_char (a div 4), b64_char (a mod 4 * 16), CHR ''='', CHR ''='']"
| "b64_encode [a, b] =
     [b64_char (a div 4), b64_char (a mod 4 * 16 + b div 16), b64_char (b mod 16 * 4), CHR ''='']"
| "b64_encode (a # b # c # r) =
     b64_char (a div 4) # b64_char (a mod 4 * 16 + b div 16) # b64_char (b mod 16 * 4 + c div 64) #
     b64_char (c mod 64) # b64_encode r"

fun b64_groups :: "string \<Rightarrow> nat list option" where
  "b64_groups [] = Some []"
| "b64_groups (p # q # r # s # t) =
     (if s = CHR ''='' then
        (if t \<noteq> [] then None
         else if r = CHR ''='' then
           (case (b64_val p, b64_val q) of (Some a, Some b) \<Rightarrow> Some [a * 4 + b div 16] | _ \<Rightarrow> None)
         else
           (case (b64_val p, b64_val q, b64_val r) of
              (Some a, Some b, Some c) \<Rightarrow> Some [a * 4 + b div 16, b mod 16 * 16 + c div 4] | _ \<Rightarrow> None))
      else
        (case (b64_val p, b64_val q, b64_val r, b64_val s) of
           (Some a, Some b, Some c, Some d) \<Rightarrow>
             map_option (\<lambda>l. (a * 4 + b div 16) # (b mod 16 * 16 + c div 4) # (c mod 4 * 64 + d) # l) (b64_groups t)
         | _ \<Rightarrow> None))"
| "b64_groups _ = None"

text \<open>The decoder skips carriage returns and newlines.\<close>

definition b64_decode :: "string \<Rightarrow> nat list option" where
  "b64_decode s = b64_groups (filter (\<lambda>c. c \<noteq> newline \<and> c \<noteq> CHR 0x0D) s)"

lemma b64_val_char [simp]: "n < 64 \<Longrightarrow> b64_val (b64_char n) = Some n"
  by (auto simp: b64_val_def b64_char_def Let_def)

lemma b64_char_plain [simp]:
  assumes "n < 64"
  shows "b64_char n \<noteq> CHR ''=''" "b64_char n \<noteq> newline" "b64_char n \<noteq> CHR 0x0D" "b64_char n \<noteq> CHR '':''"
  using b64_val_char [OF assms] by (auto simp: b64_val_def newline_def Let_def)

lemma b64_groups_encode: "\<forall>n \<in> set bs. n < 256 \<Longrightarrow> b64_groups (b64_encode bs) = Some bs"
proof (induction bs rule: b64_encode.induct)
  case (2 a)
  then have "a div 4 < 64" "a mod 4 * 16 < 64" by auto
  then show ?case by simp
next
  case (3 a b)
  then have "a div 4 < 64" "a mod 4 * 16 + b div 16 < 64" "b mod 16 * 4 < 64" by auto
  moreover have "b div 16 < 16" using 3 by auto
  ultimately show ?case by simp
next
  case (4 a b c r)
  then have lt: "a div 4 < 64" "a mod 4 * 16 + b div 16 < 64" "b mod 16 * 4 + c div 64 < 64" "c mod 64 < 64" by auto
  have "b div 16 < 16" "c div 64 < 4" using 4 by auto
  then have "a div 4 * 4 + (a mod 4 * 16 + b div 16) div 16 = a"
    "(a mod 4 * 16 + b div 16) mod 16 * 16 + (b mod 16 * 4 + c div 64) div 4 = b"
    "(b mod 16 * 4 + c div 64) mod 4 * 64 + c mod 64 = c"
    by simp_all
  moreover have "b64_groups (b64_encode r) = Some r" using 4 by simp
  ultimately show ?case by (simp only: b64_encode.simps b64_groups.simps b64_val_char [OF lt(1)]
    b64_val_char [OF lt(2)] b64_val_char [OF lt(3)] b64_val_char [OF lt(4)] b64_char_plain(1) [OF lt(4)]
    if_False prod.case option.case option.map)
qed simp

lemma padding_plain [simp]: "CHR ''='' \<noteq> newline" "newline \<noteq> CHR ''=''"
  by (simp_all add: newline_def)

lemma set_b64_encode:
  "\<forall>n \<in> set bs. n < 256 \<Longrightarrow> c \<in> set (b64_encode bs) \<Longrightarrow> c \<noteq> newline \<and> c \<noteq> CHR 0x0D \<and> c \<noteq> CHR '':''"
proof (induction bs rule: b64_encode.induct)
  case (2 a)
  then have "a div 4 < 64" "a mod 4 * 16 < 64" by auto
  with 2 show ?case by auto
next
  case (3 a b)
  then have "a div 4 < 64" "a mod 4 * 16 + b div 16 < 64" "b mod 16 * 4 < 64" by auto
  with 3 show ?case by auto
next
  case (4 a b d r)
  then have "a div 4 < 64" "a mod 4 * 16 + b div 16 < 64" "b mod 16 * 4 + d div 64 < 64" "d mod 64 < 64" by auto
  with 4 show ?case by auto
qed simp

lemma b64_roundtrip: "\<forall>n \<in> set bs. n < 256 \<Longrightarrow> b64_decode (b64_encode bs) = Some bs"
  using set_b64_encode b64_groups_encode [of bs] by (simp add: b64_decode_def filter_True)


section \<open>Requests and verification\<close>

text \<open>\<^verbatim>\<open>path.Base\<close>: the last element of a slash-separated path.\<close>

definition path_Base :: "string \<Rightarrow> string" where
  "path_Base p =
     (if p = [] then ''.''
      else (let q = rev (dropWhile (\<lambda>c. c = CHR ''/'') (rev p))
            in if q = [] then ''/'' else rev (takeWhile (\<lambda>c. c \<noteq> CHR ''/'') (rev q))))"

text \<open>A request: URL path, the three headers (empty when absent), the body (\<^const>\<open>None\<close>: unreadable).\<close>

record signed_req =
  sq_path :: string
  sq_peer :: string
  sq_timestamp :: string
  sq_signature :: string
  sq_body :: "body option"

text \<open>\<open>bytes_of\<close> renders a body as the bytes on the wire; \<open>pk\<close> and \<open>sk\<close> are the key types.\<close>

record ('pk, 'sk) crypto =
  sha256 :: "nat list \<Rightarrow> nat list"
  bytes_of :: "body \<Rightarrow> nat list"
  decode_peer :: "string \<Rightarrow> peerID option"
  extract_key :: "peerID \<Rightarrow> 'pk option"
  verify_sig :: "'pk \<Rightarrow> nat list \<Rightarrow> nat list \<Rightarrow> bool option"
  sign_msg :: "'sk \<Rightarrow> nat list \<Rightarrow> nat list option"

datatype auth_error =
    MissingHeader string
  | InvalidPeerID
  | InvalidTimestamp
  | TooFar int
  | NoPublicKey
  | BodyUnreadable
  | BadSignatureEncoding
  | VerificationError
  | InvalidSignature

text \<open>64-bit signed arithmetic wraps around.\<close>

definition wrap64 :: "int \<Rightarrow> int" where
  "wrap64 i = (i + 2 ^ 63) mod 2 ^ 64 - 2 ^ 63"

definition maxTimestampSkew :: int where
  "maxTimestampSkew = 300"

definition skew :: "int \<Rightarrow> int \<Rightarrow> int" where
  "skew now ts = (let diff = wrap64 (now - ts) in if diff < 0 then wrap64 (- diff) else diff)"

definition signed_message :: "('pk, 'sk) crypto \<Rightarrow> string \<Rightarrow> string \<Rightarrow> body \<Rightarrow> string" where
  "signed_message cr action timestamp b =
     action @ '':'' @ timestamp @ '':'' @ b64_encode (sha256 cr (bytes_of cr b))"

definition verifySignedRequest ::
  "('pk, 'sk) crypto \<Rightarrow> int \<Rightarrow> signed_req \<Rightarrow> (auth_error, peerID \<times> body) outcome" where
  "verifySignedRequest cr now r =
     (if sq_peer r = [] then Err (MissingHeader ''X-Fula-Peer-ID'')
      else if sq_timestamp r = [] then Err (MissingHeader ''X-Fula-Timestamp'')
      else if sq_signature r = [] then Err (MissingHeader ''X-Fula-Signature'')
      else
        and_then (or_err InvalidPeerID (decode_peer cr (sq_peer r))) (\<lambda>pid.
        and_then (or_err InvalidTimestamp (Atoi (sq_timestamp r))) (\<lambda>ts.
        if maxTimestampSkew < skew now ts then Err (TooFar (skew now ts))
        else
          and_then (or_err NoPublicKey (extract_key cr pid)) (\<lambda>pubKey.
          and_then (or_err BodyUnreadable (sq_body r)) (\<lambda>b.
          let message = signed_message cr (path_Base (sq_path r)) (sq_timestamp r) b;
              messageHash = sha256 cr (string_to_bytes message)
          in
          and_then (or_err BadSignatureEncoding (b64_decode (sq_signature r))) (\<lambda>sig.
          and_then (or_err VerificationError (verify_sig cr pubKey messageHash sig)) (\<lambda>ok.
          if ok then Ok (pid, b) else Err InvalidSignature)))))))"

definition signRequest ::
  "('pk, 'sk) crypto \<Rightarrow> 'sk \<Rightarrow> peerID \<Rightarrow> int \<Rightarrow> signed_req \<Rightarrow> (auth_error, signed_req) outcome" where
  "signRequest cr privKey selfPeerID now r =
     and_then (or_err BodyUnreadable (sq_body r)) (\<lambda>b.
     let action = path_Base (sq_path r);
         timestamp = Itoa now;
         messageHash = sha256 cr (string_to_bytes (signed_message cr action timestamp b))
     in
     and_then (or_err InvalidSignature (sign_msg cr privKey messageHash)) (\<lambda>sig.
     Ok (r\<lparr>sq_peer := selfPeerID, sq_timestamp := timestamp, sq_signature := b64_encode sig\<rparr>)))"

text \<open>\<^verbatim>\<open>signingTransport.RoundTrip\<close>: sign, then hand the request to the transport below.\<close>

definition signingTransport_RoundTrip ::
  "('pk, 'sk) crypto \<Rightarrow> 'sk \<Rightarrow> peerID \<Rightarrow> int \<Rightarrow> (signed_req \<Rightarrow> (auth_error, 'r) outcome) \<Rightarrow>
   signed_req \<Rightarrow> (auth_error, 'r) outcome" where
  "signingTransport_RoundTrip cr privKey pid now base r = and_then (signRequest cr privKey pid now r) base"


section \<open>The timestamp window\<close>

lemma wrap64_id: "in_int64 i \<Longrightarrow> wrap64 i = i"
  by (simp add: wrap64_def in_int64_def)

lemma skew_window:
  assumes "0 \<le> now" and "now < 2 ^ 62" and "in_int64 ts"
  shows "\<not> maxTimestampSkew < skew now ts \<longleftrightarrow> \<bar>now - ts\<bar> \<le> 300 \<or> now - ts = 2 ^ 63"
proof -
  define k where "k = now - ts"
  have k: "- (2 ^ 63) < k" "k < 2 ^ 64" using assms by (auto simp: in_int64_def k_def)
  consider "k < 2 ^ 63" | "k = 2 ^ 63" | "2 ^ 63 < k" by linarith
  then show ?thesis
  proof cases
    case 1
    then have "wrap64 k = k" "k < 0 \<Longrightarrow> wrap64 (- k) = - k"
      using k by (simp_all add: wrap64_id in_int64_def)
    then have "skew now ts = \<bar>k\<bar>" by (simp add: skew_def Let_def k_def [symmetric])
    with 1 show ?thesis by (auto simp: maxTimestampSkew_def k_def [symmetric])
  next
    case 2
    then have "skew now ts = - (2 ^ 63)" by (simp add: skew_def Let_def k_def [symmetric] wrap64_def)
    with 2 show ?thesis by (simp add: maxTimestampSkew_def k_def [symmetric])
  next
    case 3
    have "wrap64 k = k - 2 ^ 64"
    proof -
      have "(k + 2 ^ 63) mod 2 ^ 64 = (k + 2 ^ 63 - 2 ^ 64) mod 2 ^ 64"
        by (rule minus_mod_self2 [symmetric])
      also have "\<dots> = k + 2 ^ 63 - 2 ^ 64" using 3 k by (intro mod_pos_pos_trivial) simp_all
      finally show ?thesis by (simp add: wrap64_def)
    qed
    moreover have "wrap64 (2 ^ 64 - k) = 2 ^ 64 - k" using 3 k by (intro wrap64_id) (simp add: in_int64_def)
    ultimately have "skew now ts = 2 ^ 64 - k"
      using k by (simp add: skew_def Let_def k_def [symmetric])
    moreover have "300 < 2 ^ 64 - k"
      using assms by (simp add: k_def in_int64_def)
    ultimately show ?thesis using 3 by (simp add: maxTimestampSkew_def k_def [symmetric])
  qed
qed

text \<open>
  The freshness check accepts a timestamp exactly when it is at most 300 seconds away from the
  clock, or when it lies exactly \<open>2 ^ 63\<close> seconds in the past: there the signed difference and its
  negation both wrap to the least 64-bit integer, which is not greater than 300.
\<close>

lemma skew_check_exact:
  assumes "0 \<le> now" and "now < 2 ^ 62" and "in_int64 ts"
  shows "\<not> maxTimestampSkew < skew now ts \<longleftrightarrow> \<bar>now - ts\<bar> \<le> 300 \<or> now - ts = 2 ^ 63"
  using assms by (rule skew_window)

theorem skew_check_exact_witness:
  "\<not> maxTimestampSkew < skew 1700000000 1699999701 \<and> maxTimestampSkew < skew 1700000000 1699999699"
  using skew_check_exact [of 1700000000 1699999701] skew_check_exact [of 1700000000 1699999699]
  by (simp add: in_int64_def)


section \<open>What an accepted request was signed for\<close>

lemma Atoi_no_colon: "Atoi s = Some i \<Longrightarrow> CHR '':'' \<notin> set s"
proof -
  have parse: "CHR '':'' \<notin> set ds" if "parse_digits 10 acc ds = Some n" for acc ds n
    using that
    by (induction ds arbitrary: acc) (auto simp: hex_val_def split: option.splits if_splits)
  assume "Atoi s = Some i"
  then show ?thesis
    by (cases s) (auto simp: Atoi_def Let_def simp del: parse_digits.simps dest!: parse split: option.splits if_splits)
qed

text \<open>
  The text that is hashed and signed determines the action, the timestamp and the digest of the
  body: no two different requests share one message, although the parts are joined by plain colons
  and the action may itself contain colons.
\<close>

lemma signed_message_unambiguous:
  assumes "signed_message cr a t b = signed_message cr a' t' b'"
    and "Atoi t \<noteq> None" and "Atoi t' \<noteq> None"
    and "\<And>m. \<forall>n \<in> set (sha256 cr m). n < 256"
  shows "a = a' \<and> t = t' \<and> sha256 cr (bytes_of cr b) = sha256 cr (bytes_of cr b')"
proof -
  let ?h = "b64_encode (sha256 cr (bytes_of cr b))" and ?h' = "b64_encode (sha256 cr (bytes_of cr b'))"
  have no_t: "CHR '':'' \<notin> set t" "CHR '':'' \<notin> set t'" using assms(2,3) by (auto dest: Atoi_no_colon)
  have no_h: "CHR '':'' \<notin> set ?h" "CHR '':'' \<notin> set ?h'" using assms(4) by (auto dest: set_b64_encode)
  have "rev ?h @ CHR '':'' # rev t @ CHR '':'' # rev a = rev ?h' @ CHR '':'' # rev t' @ CHR '':'' # rev a'"
    using arg_cong [OF assms(1), of rev] by (simp add: signed_message_def)
  then have "split_char (CHR '':'') (rev ?h @ CHR '':'' # rev t @ CHR '':'' # rev a)
      = split_char (CHR '':'') (rev ?h' @ CHR '':'' # rev t' @ CHR '':'' # rev a')"
    by simp
  then have eq: "?h = ?h'" "t = t'" "split_char (CHR '':'') (rev a) = split_char (CHR '':'') (rev a')"
    using no_t no_h by (simp_all add: split_char_append)
  have "a = a'" using arg_cong [OF eq(3), of "join_char (CHR '':'')"] by (simp add: join_split)
  moreover have "sha256 cr (bytes_of cr b) = sha256 cr (bytes_of cr b')"
    using arg_cong [OF eq(1), of b64_decode] assms(4) by (simp add: b64_roundtrip)
  ultimately show ?thesis using eq(2) by simp
qed

text \<open>A concrete instance of the cryptography: a checksum as digest, a keyed copy as signature.\<close>

definition sample_crypto :: "(nat, nat) crypto" where
  "sample_crypto = \<lparr>sha256 = (\<lambda>m. [length m mod 256]),
     bytes_of = (\<lambda>b. case b of Raw s \<Rightarrow> string_to_bytes s | _ \<Rightarrow> []),
     decode_peer = (\<lambda>s. if s = ''12D3'' then Some s else None), extract_key = (\<lambda>_. Some 7),
     verify_sig = (\<lambda>k m s. Some (s = [k, length m mod 256])),
     sign_msg = (\<lambda>k m. Some [k, length m mod 256])\<rparr>"

lemma sample_digest: "\<forall>n \<in> set (sha256 sample_crypto m). n < 256"
  by (simp add: sample_crypto_def)

theorem signed_message_unambiguous_witness:
  "signed_message sample_crypto ''pool-join'' ''12'' (Raw ''x'')
     \<noteq> signed_message sample_crypto ''pool-join:1'' ''2'' (Raw ''x'')"
proof
  assume eq: "signed_message sample_crypto ''pool-join'' ''12'' (Raw ''x'')
     = signed_message sample_crypto ''pool-join:1'' ''2'' (Raw ''x'')"
  have "Atoi ''12'' \<noteq> None" "Atoi ''2'' \<noteq> None" by code_simp+
  from signed_message_unambiguous [OF eq this] sample_digest show False by simp
qed

text \<open>
  The conditions under which a request is accepted, as one predicate on the request and the clock.
\<close>

definition genuine :: "('pk, 'sk) crypto \<Rightarrow> int \<Rightarrow> signed_req \<Rightarrow> peerID \<Rightarrow> body \<Rightarrow> bool" where
  "genuine cr now r pid b \<longleftrightarrow>
     decode_peer cr (sq_peer r) = Some pid \<and> sq_body r = Some b \<and>
     (\<exists>ts. Atoi (sq_timestamp r) = Some ts \<and> (\<bar>now - ts\<bar> \<le> 300 \<or> now - ts = 2 ^ 63)) \<and>
     (\<exists>key sig. extract_key cr pid = Some key \<and> b64_decode (sq_signature r) = Some sig \<and>
        verify_sig cr key
          (sha256 cr (string_to_bytes (signed_message cr (path_Base (sq_path r)) (sq_timestamp r) b))) sig
        = Some True)"

lemma Atoi_in_int64: "Atoi s = Some i \<Longrightarrow> in_int64 i"
  by (auto simp: Atoi_def Let_def split: option.splits if_splits)

lemma Atoi_Nil [simp]: "Atoi [] = None"
  by (simp add: Atoi_def)

lemma verify_cases:
  "verifySignedRequest cr now r = Ok (pid, b) \<longleftrightarrow>
     sq_peer r \<noteq> [] \<and> sq_signature r \<noteq> [] \<and> decode_peer cr (sq_peer r) = Some pid \<and> sq_body r = Some b \<and>
     (\<exists>ts. Atoi (sq_timestamp r) = Some ts \<and> \<not> maxTimestampSkew < skew now ts) \<and>
     (\<exists>key sig. extract_key cr pid = Some key \<and> b64_decode (sq_signature r) = Some sig \<and>
        verify_sig cr key
          (sha256 cr (string_to_bytes (signed_message cr (path_Base (sq_path r)) (sq_timestamp r) b))) sig
        = Some True)"
proof (cases "Atoi (sq_timestamp r)")
  case (Some ts)
  then have "sq_timestamp r \<noteq> []" by auto
  with Some show ?thesis
    by (auto simp: verifySignedRequest_def outcome_simps Let_def split: if_splits)
qed (auto simp: verifySignedRequest_def outcome_simps Let_def)

text \<open>
  C2. A request is accepted as peer \<open>pid\<close> with body \<open>b\<close> exactly when the header names \<open>pid\<close>, the
  timestamp is fresh and the signature over this action, this timestamp and this body verifies under
  the key inside \<open>pid\<close> (a peer id and a signature that decode to nothing are refused as missing).
\<close>

theorem verify_iff_genuine:
  assumes "0 \<le> now" and "now < 2 ^ 62"
  shows "verifySignedRequest cr now r = Ok (pid, b) \<longleftrightarrow>
     sq_peer r \<noteq> [] \<and> sq_signature r \<noteq> [] \<and> genuine cr now r pid b"
proof -
  have skew: "\<not> maxTimestampSkew < skew now ts \<longleftrightarrow> \<bar>now - ts\<bar> \<le> 300 \<or> now - ts = 2 ^ 63"
    if "Atoi (sq_timestamp r) = Some ts" for ts
    using skew_window [OF assms Atoi_in_int64 [OF that]] .
  show ?thesis unfolding verify_cases genuine_def using skew by (metis (no_types, lifting))
qed

text \<open>
  A request signed by \<^const>\<open>signRequest\<close> is accepted by \<^const>\<open>verifySignedRequest\<close> as coming from its
  signer, with its body, whenever the two clocks differ by at most 300 seconds and the signature
  scheme verifies its own signatures.
\<close>

lemma signed_then_verified:
  assumes signed: "signRequest cr sk self now r = Ok r'"
    and scheme: "\<And>m sig. sign_msg cr sk m = Some sig \<Longrightarrow>
        sig \<noteq> [] \<and> (\<forall>n \<in> set sig. n < 256) \<and> verify_sig cr pk m sig = Some True"
    and identity: "self \<noteq> []" "decode_peer cr self = Some self" "extract_key cr self = Some pk"
    and clocks: "0 \<le> now" "0 \<le> now'" "now < 2 ^ 62" "now' < 2 ^ 62" "\<bar>now' - now\<bar> \<le> 300"
  shows "\<exists>b. sq_body r = Some b \<and> verifySignedRequest cr now' r' = Ok (self, b)"
proof -
  define msg where "msg b = sha256 cr (string_to_bytes (signed_message cr (path_Base (sq_path r)) (Itoa now) b))" for b
  from signed obtain b sig where b: "sq_body r = Some b" and sig: "sign_msg cr sk (msg b) = Some sig"
    and r': "r' = r\<lparr>sq_peer := self, sq_timestamp := Itoa now, sq_signature := b64_encode sig\<rparr>"
    by (auto simp: signRequest_def outcome_simps Let_def msg_def)
  note ok = scheme [OF sig]
  have "in_int64 now" using clocks by (simp add: in_int64_def)
  then have ts: "Atoi (Itoa now) = Some now" and "\<not> maxTimestampSkew < skew now' now"
    using skew_window [of now' now] clocks by (auto simp: Atoi_Itoa)
  moreover have "b64_encode sig \<noteq> []" using ok by (cases sig rule: b64_encode.cases) auto
  ultimately have "verifySignedRequest cr now' r' = Ok (self, b)"
    using ok identity b by (simp add: verify_cases r' b64_roundtrip msg_def)
  with b show ?thesis by blast
qed

text \<open>
  Verification keeps no memory: a request accepted once is accepted again, with the same
  identity and body, at every moment within 300 seconds of the timestamp it carries. The freshness
  window bounds how long a captured request can be replayed; it does not prevent the replay.
\<close>

lemma replay_accepted:
  assumes "verifySignedRequest cr now r = Ok (pid, b)" and "Atoi (sq_timestamp r) = Some ts"
    and "0 \<le> now'" and "now' < 2 ^ 62" and "\<bar>now' - ts\<bar> \<le> 300"
  shows "verifySignedRequest cr now' r = Ok (pid, b)"
  using assms skew_window [of now' ts] by (auto simp: verify_cases Atoi_in_int64)

definition sample_request :: signed_req where
  "sample_request = \<lparr>sq_path = ''/pool-join'', sq_peer = [], sq_timestamp = [], sq_signature = [],
     sq_body = Some (Raw ''x'')\<rparr>"

definition sample_signed :: signed_req where
  "sample_signed = (case signRequest sample_crypto 7 ''12D3'' 1000 sample_request of
     Ok r \<Rightarrow> r | _ \<Rightarrow> sample_request)"

lemmas sample_defs = sample_signed_def sample_request_def sample_crypto_def signRequest_def
  verifySignedRequest_def signed_message_def path_Base_def Itoa_def Atoi_def digits_of.simps hex_digit_def
  hex_val_def string_to_bytes_def b64_char_def b64_val_def b64_decode_def newline_def maxTimestampSkew_def
  skew_def wrap64_def in_int64_def char_of_def bit_0

lemma sample_signed_eq: "signRequest sample_crypto 7 ''12D3'' 1000 sample_request = Ok sample_signed"
  by (simp add: sample_defs)

lemma sample_signed_ok: "verifySignedRequest sample_crypto 1000 sample_signed = Ok (''12D3'', Raw ''x'')"
  by (simp add: sample_defs)

theorem signed_then_verified_witness:
  "\<exists>b. sq_body sample_request = Some b \<and> verifySignedRequest sample_crypto 1300 sample_signed = Ok (''12D3'', b)"
proof (rule signed_then_verified [OF sample_signed_eq, where pk = 7])
  fix m sig
  assume "sign_msg sample_crypto 7 m = Some sig"
  then have s: "sig = [7, length m mod 256]" by (simp add: sample_crypto_def)
  show "sig \<noteq> [] \<and> (\<forall>n \<in> set sig. n < 256) \<and> verify_sig sample_crypto 7 m sig = Some True"
    using s by (simp add: sample_crypto_def)
qed (simp_all add: sample_crypto_def)

theorem verify_iff_genuine_witness:
  "genuine sample_crypto 1000 sample_signed ''12D3'' (Raw ''x'')"
  using verify_iff_genuine [of 1000 sample_crypto sample_signed "''12D3''" "Raw ''x''"] sample_signed_ok
  by simp

theorem replay_accepted_witness:
  "verifySignedRequest sample_crypto 1299 sample_signed = Ok (''12D3'', Raw ''x'')"
proof -
  have "Atoi (sq_timestamp sample_signed) = Some 1000" by (simp add: sample_defs)
  from replay_accepted [OF sample_signed_ok this] show ?thesis by simp
qed

end
