(* ===== verification/AccessControl.thy ===== *)
theory AccessControl
  imports AuthSigned
begin

text \<open>
  Who may do what on a device: the action names of \<^verbatim>\<open>blockchain/interface.go\<close>, the set of authorised
  peers kept by \<^verbatim>\<open>FxBlockchain\<close> (\<^verbatim>\<open>SetAuth\<close>, \<^verbatim>\<open>handleAuthorization\<close>) and the decision \<^verbatim>\<open>authorized\<close> of
  \<^verbatim>\<open>blockchain/blockchain.go\<close>. The proxy that applies the decision is in the theory of the proxy.
\<close>

section \<open>Identity of the device\<close>

text \<open>The two peer ids of the options: the device itself and its owner (empty when unset).\<close>

record identity =
  selfPeerID :: peerID
  authorizer :: peerID


section \<open>Actions\<close>

text \<open>
  The actions the switch in \<^verbatim>\<open>authorized\<close> grants to every peer of the authorised set.
\<close>

definition member_actions :: "string list" where
  "member_actions =
     [''blox-free-space'', ''account-fund'', ''fula-manifest-batch_upload'', ''asset-balance'',
      ''get-datastore-size'', ''get-folder-size'', ''find-bestandtarget-inlogs'',
      ''fetch-container-logs'', ''chat-ai'', ''erase-blockchain-data'', ''wifi-removeall'', ''reboot'',
      ''partition'', ''delete-wifi'', ''disconnect-wifi'', ''delete-fula-config'', ''get-account'',
      ''account-seeded'', ''account-exists'', ''fula-pool-create'', ''fula-pool-join'',
      ''fula-pool-cancel_join'', ''fula-pool-poolrequests'', ''fula-pool'', ''fula-pool-vote'',
      ''fula-pool-leave'', ''fula-manifest-upload'', ''fula-manifest-storage'',
      ''fula-manifest-available'', ''fula-manifest-remove'', ''fula-manifest-remove_storer'',
      ''fula-manifest-remove_storing_manifest'', ''fula-mumbai-convert_tokens'', ''list-plugins'',
      ''list-active-plugins'', ''install-plugin'', ''uninstall-plugin'', ''get-install-status'',
      ''get-install-output'', ''update-plugin'', ''get-docker-image-build-dates'',
      ''get-cluster-info'', ''auto-pin-pair'', ''auto-pin-refresh'', ''auto-pin-unpair'']"

definition owner_actions :: "string list" where
  "owner_actions = [''auth'', ''nas-credentials'']"

definition authorized :: "'z identity_scheme \<Rightarrow> peerID set \<Rightarrow> peerID \<Rightarrow> string \<Rightarrow> bool" where
  "authorized ids peers pid action =
     (if action = ''replicate'' then authorizer ids = selfPeerID ids \<or> authorizer ids = []
      else if action \<in> set member_actions then pid \<in> peers
      else if action \<in> set owner_actions then pid = authorizer ids \<and> authorizer ids \<noteq> []
      else False)"


section \<open>The authorised set\<close>

text \<open>\<^verbatim>\<open>SetAuth\<close>; the error (\<^const>\<open>False\<close>) leaves the set alone.\<close>

definition SetAuth :: "'z identity_scheme \<Rightarrow> peerID \<Rightarrow> peerID \<Rightarrow> bool \<Rightarrow> 'w device \<Rightarrow> bool \<times> 'w device" where
  "SetAuth ids on subject allow d =
     (if on \<noteq> selfPeerID ids then (False, d)
      else (True, d\<lparr>authorizedPeers :=
              (if allow then insert subject (authorizedPeers d) else authorizedPeers d - {subject})\<rparr>))"

text \<open>
  The authorisation part of \<^verbatim>\<open>NewFxBlockchain\<close>: an empty set, and the owner granted access when both
  ids are configured.
\<close>

definition NewFxBlockchain :: "'z identity_scheme \<Rightarrow> 'w device \<Rightarrow> 'w device option" where
  "NewFxBlockchain ids d =
     (let d0 = d\<lparr>authorizedPeers := {}, members := Map.empty\<rparr> in
      if authorizer ids \<noteq> [] \<and> selfPeerID ids \<noteq> [] then
        (case SetAuth ids (selfPeerID ids) (authorizer ids) True d0 of (ok, d1) \<Rightarrow> if ok then Some d1 else None)
      else Some d0)"

text \<open>
  The request document: \<^verbatim>\<open>id\<close> is a peer id, which decodes itself (also a null), \<^verbatim>\<open>allow\<close> a boolean.
\<close>

fun peer_field :: "codecs \<Rightarrow> peerID \<Rightarrow> (string \<times> json) list \<Rightarrow> peerID option" where
  "peer_field cod x [] = Some x"
| "peer_field cod x ((k, v) # kvs) =
     (if fold_eq k ''id'' then
        (case (case v of JStr s \<Rightarrow> peer_Decode cod s | JNull \<Rightarrow> peer_Decode cod [] | _ \<Rightarrow> None) of
           None \<Rightarrow> None
         | Some p \<Rightarrow> peer_field cod p kvs)
      else peer_field cod x kvs)"

fun authorization_request :: "codecs \<Rightarrow> json \<Rightarrow> (peerID \<times> bool) option" where
  "authorization_request cod (JObj kvs) =
     (case (peer_field cod [] kvs, field_value as_bool ''allow'' False kvs) of
        (Some subject, Some allow) \<Rightarrow> Some (subject, allow)
      | _ \<Rightarrow> None)"
| "authorization_request cod JNull = Some ([], False)"
| "authorization_request cod _ = None"

definition handleAuthorization ::
  "codecs \<Rightarrow> peerID \<Rightarrow> body option \<Rightarrow> 'w device \<Rightarrow> http_resp \<times> 'w device" where
  "handleAuthorization cod from rbody d =
     (case rbody of
        None \<Rightarrow> (http_Error StatusInternalServerError [], d)
      | Some b \<Rightarrow>
          (case Option.bind (unmarshal b) (authorization_request cod) of
             None \<Rightarrow> (http_Error StatusBadRequest [], d)
           | Some (subject, allow) \<Rightarrow>
               (\<lparr>rs_status = StatusOK, rs_body = Raw []\<rparr>,
                d\<lparr>authorizedPeers :=
                    (if allow then insert subject (authorizedPeers d)
                     else authorizedPeers d - {subject})\<rparr>)))"


section \<open>The contract of an access list\<close>

text \<open>
  What the rest of the device relies on: setting the permission of one peer is seen for that peer
  and for no other. From this law alone, after any history of changes the last one that names a peer
  decides.
\<close>

locale access_list =
  fixes set_perm :: "'p \<Rightarrow> bool \<Rightarrow> 's \<Rightarrow> 's"
    and has_perm :: "'s \<Rightarrow> 'p \<Rightarrow> bool"
  assumes has_perm_set: "has_perm (set_perm p b s) q \<longleftrightarrow> (if q = p then b else has_perm s q)"
begin

definition run :: "('p \<times> bool) list \<Rightarrow> 's \<Rightarrow> 's" where
  "run h s = fold (\<lambda>(p, b). set_perm p b) h s"

lemma run_simps [simp]:
  "run [] s = s" "run (x # h) s = run h (set_perm (fst x) (snd x) s)" "run (h @ h') s = run h' (run h s)"
  by (simp_all add: run_def split_def)

lemma untouched: "q \<notin> fst ` set h \<Longrightarrow> has_perm (run h s) q \<longleftrightarrow> has_perm s q"
  by (induction h arbitrary: s) (auto simp: has_perm_set)

lemma last_decides: "q \<notin> fst ` set h' \<Longrightarrow> has_perm (run (h @ (q, b) # h') s) q \<longleftrightarrow> b"
  by (simp add: untouched has_perm_set)

lemma order_irrelevant:
  assumes "p \<noteq> q"
  shows "has_perm (run [(p, a), (q, b)] s) = has_perm (run [(q, b), (p, a)] s)"
  using assms by (auto simp: has_perm_set fun_eq_iff)

end

text \<open>The authorised set changed by local calls of \<^const>\<open>SetAuth\<close> keeps the contract.\<close>

interpretation local_auth: access_list
  "\<lambda>p b (d :: 'w device). snd (SetAuth ids (selfPeerID ids) p b d)"
  "\<lambda>d p. p \<in> authorizedPeers d"
  for ids :: identity
  by unfold_locales (auto simp: SetAuth_def)

text \<open>The document the client sends, and what a well-behaved peer id decoder does with it.\<close>

definition auth_document :: "peerID \<times> bool \<Rightarrow> json" where
  "auth_document x = JObj [(''id'', JStr (fst x)), (''allow'', JBool (snd x))]"

lemma auth_document_decodes:
  "peer_Decode cod p = Some p \<Longrightarrow> authorization_request cod (auth_document (p, b)) = Some (p, b)"
  by (simp add: auth_document_def fold_eq_def lower_char_def)

text \<open>A remote request is the local call.\<close>

lemma handleAuthorization_SetAuth:
  assumes "peer_Decode cod p = Some p"
  shows "snd (handleAuthorization cod from (Some (Doc (auth_document (p, b)))) d)
    = snd (SetAuth ids (selfPeerID ids) p b d)"
  using auth_document_decodes [OF assms, of b] by (simp add: handleAuthorization_def SetAuth_def)

definition serve_auth_history :: "codecs \<Rightarrow> peerID \<Rightarrow> (peerID \<times> bool) list \<Rightarrow> 'w device \<Rightarrow> 'w device" where
  "serve_auth_history cod from h d =
     fold (\<lambda>x d. snd (handleAuthorization cod from (Some (Doc (auth_document x))) d)) h d"

lemma serve_auth_history_run:
  "\<forall>x \<in> set h. peer_Decode cod (fst x) = Some (fst x) \<Longrightarrow>
     serve_auth_history cod from h d = local_auth.run ids h d"
proof (induction h arbitrary: d)
  case (Cons x h)
  then show ?case
    using handleAuthorization_SetAuth [of cod "fst x" "from" "snd x" d ids]
    by (simp add: serve_auth_history_def)
qed (simp add: serve_auth_history_def)

text \<open>
  C10. After any history of authorisation requests the last one that names a peer decides: the peer
  may perform a member action exactly when that request allowed it, whatever came before and
  whatever was said about other peers since.
\<close>

theorem last_authorization_decides:
  assumes "\<forall>x \<in> set (h @ (p, b) # h'). peer_Decode cod (fst x) = Some (fst x)"
    and "p \<notin> fst ` set h'" and "action \<in> set member_actions"
  shows "authorized ids (authorizedPeers (serve_auth_history cod from (h @ (p, b) # h') d)) p action \<longleftrightarrow> b"
proof -
  fix me :: identity
  have "serve_auth_history cod from (h @ (p, b) # h') d = local_auth.run me (h @ (p, b) # h') d"
    using assms(1) by (rule serve_auth_history_run)
  moreover have "action \<noteq> ''replicate''" using assms(3) by (auto simp: member_actions_def)
  ultimately show ?thesis
    using local_auth.last_decides [OF assms(2), of me h b d] assms(3) by (simp add: authorized_def)
qed

definition sample_ids :: identity where
  "sample_ids = \<lparr>selfPeerID = ''dev'', authorizer = ''own''\<rparr>"

definition sample_codecs :: codecs where
  "sample_codecs = \<lparr>mb_Decode = (\<lambda>_. None), mb_Encode58 = (\<lambda>_. []),
     peer_Decode = (\<lambda>s. if s = [] then None else Some s)\<rparr>"

definition sample_device :: "'w \<Rightarrow> 'w device" where
  "sample_device w = \<lparr>files = Map.empty, unreadable = (\<lambda>_. False), unwritable = (\<lambda>_. False), world = w,
     members = Map.empty, authorizedPeers = {''own''}, ping_up = False, signals = 0,
     app_config = \<lparr>PoolName = ''0'', ChainName = [], other_settings = Map.empty\<rparr>\<rparr>"

lemma reboot_member: "''reboot'' \<in> set member_actions"
  by (simp add: member_actions_def)

theorem last_authorization_decides_witness:
  "\<not> authorized sample_ids (authorizedPeers (serve_auth_history sample_codecs ''own''
      [(''phone'', True), (''phone'', False), (''tv'', True)] (sample_device ()))) ''phone'' ''reboot''"
  using last_authorization_decides [of "[(''phone'', True)]" "''phone''" False "[(''tv'', True)]"
      sample_codecs "''reboot''" sample_ids "''own''" "sample_device ()"]
  by (simp add: sample_codecs_def reboot_member)


section \<open>Owner-only actions\<close>

text \<open>
  Delegation never reaches the secrets: whatever authorisation requests were served, only the
  configured owner passes the check for changing authorisations and for reading the NAS password,
  and nobody does when no owner is configured.
\<close>

lemma owner_actions_not_delegable:
  assumes "action \<in> set owner_actions"
  shows "authorized ids (authorizedPeers (serve_auth_history cod from h d)) pid action
     \<longleftrightarrow> pid = authorizer ids \<and> authorizer ids \<noteq> []"
  using assms by (auto simp: authorized_def owner_actions_def member_actions_def)

theorem owner_actions_not_delegable_witness:
  "\<not> authorized sample_ids (authorizedPeers (serve_auth_history sample_codecs ''own''
      [(''phone'', True)] (sample_device ()))) ''phone'' ''nas-credentials''"
  using owner_actions_not_delegable [of "''nas-credentials''" sample_ids sample_codecs "''own''"
      "[(''phone'', True)]" "sample_device ()" "''phone''"]
  by (simp add: owner_actions_def sample_ids_def)

text \<open>
  A fresh device authorises exactly its owner: after construction the member actions are open to
  the configured owner and to nobody else.
\<close>

lemma new_device_authorises_owner:
  assumes "selfPeerID ids \<noteq> []" and "action \<in> set member_actions"
  shows "\<exists>d'. NewFxBlockchain ids d = Some d' \<and> members d' = Map.empty \<and>
    (\<forall>pid. authorized ids (authorizedPeers d') pid action \<longleftrightarrow> pid = authorizer ids \<and> authorizer ids \<noteq> [])"
proof -
  have "action \<noteq> ''replicate''" using assms(2) by (auto simp: member_actions_def)
  then show ?thesis using assms by (auto simp: NewFxBlockchain_def SetAuth_def authorized_def Let_def)
qed

theorem new_device_authorises_owner_witness:
  "\<exists>d'. NewFxBlockchain sample_ids (sample_device ()) = Some d' \<and> members d' = Map.empty \<and>
    (\<forall>pid. authorized sample_ids (authorizedPeers d') pid ''reboot'' \<longleftrightarrow>
       pid = authorizer sample_ids \<and> authorizer sample_ids \<noteq> [])"
  by (rule new_device_authorises_owner) (simp_all add: sample_ids_def reboot_member)

end
