(* ===== verification/EvmChain.thy ===== *)
theory EvmChain
  imports Abi PeerIds AccessControl
begin

text \<open>
  Reading the pool contracts: the options of \<^verbatim>\<open>FxBlockchain\<close>, the chain table and the JSON-RPC calls of
  \<^verbatim>\<open>blockchain/blockchain.go\<close>, and the contract queries of \<^verbatim>\<open>blockchain/bl_pool.go\<close>. The network is the
  environment of the theory of the device: any node may answer anything at any call.
\<close>

section \<open>Options\<close>

record ChainConfig =
  cc_Name :: string
  cc_ChainID :: int
  cc_RPC :: string
  cc_BackupRPC :: string
  cc_Contract :: string

text \<open>
  The options that the modelled code reads. A callback is a function on the device, \<^const>\<open>None\<close> a nil
  function value; the getters re-read the configuration file, so they return a device too.
  \<open>onPoolConfigCleared\<close> and \<open>ipfsClusterApi\<close> tell whether the hook and the cluster client are set, \<open>secretsDir\<close> is the directory of the key store.
\<close>

record 'w options = identity +
  clusterPeerID :: peerID
  poolHost :: bool
  topicName :: string
  ipfsClusterApi :: bool
  blockchainEndPoint :: string
  secretsDir :: string
  chainConfigOverride :: "(string \<rightharpoonup> ChainConfig) option"
  updatePoolName :: "(string \<Rightarrow> 'w device \<Rightarrow> bool \<times> 'w device) option"
  getPoolName :: "('w device \<Rightarrow> string \<times> 'w device) option"
  updateChainName :: "(string \<Rightarrow> 'w device \<Rightarrow> bool \<times> 'w device) option"
  getChainName :: "('w device \<Rightarrow> string \<times> 'w device) option"
  onPoolConfigCleared :: bool

definition GetChainConfigs :: "string \<rightharpoonup> ChainConfig" where
  "GetChainConfigs =
     [''base'' \<mapsto> \<lparr>cc_Name = ''base'', cc_ChainID = 8453, cc_RPC = ''https://base-rpc.publicnode.com'',
         cc_BackupRPC = ''https://1rpc.io/base'', cc_Contract = ''0xb093fF4B3B3B87a712107B26566e0cCE5E752b4D''\<rparr>,
      ''skale'' \<mapsto> \<lparr>cc_Name = ''skale'', cc_ChainID = 2046399126,
         cc_RPC = ''https://mainnet.skalenodes.com/v1/elated-tan-skat'', cc_BackupRPC = [],
         cc_Contract = ''0xf9176Ffde541bF0aa7884298Ce538c471Ad0F015''\<rparr>]"

definition chainConfigs :: "'w options \<Rightarrow> string \<rightharpoonup> ChainConfig" where
  "chainConfigs opts = (case chainConfigOverride opts of Some c \<Rightarrow> c | None \<Rightarrow> GetChainConfigs)"


section \<open>Calls\<close>

text \<open>The result of a call: body and status, or an error with the status that accompanies it.\<close>

datatype call = Answer body nat | Failed nat

text \<open>\<^verbatim>\<open>io.Copy\<close> of the response body.\<close>

definition read_all :: "nat \<Rightarrow> body option \<Rightarrow> call" where
  "read_all st b = (case b of None \<Rightarrow> Failed st | Some x \<Rightarrow> Answer x st)"

definition rpc_request :: "string \<Rightarrow> json list \<Rightarrow> json" where
  "rpc_request mth params =
     JObj [(''id'', JNum 1), (''jsonrpc'', JStr ''2.0''), (''method'', JStr mth), (''params'', JArr params)]"

definition callEVMChain ::
  "'w env \<Rightarrow> 'w options \<Rightarrow> string \<Rightarrow> string \<Rightarrow> json list \<Rightarrow> 'w device \<Rightarrow> call \<times> 'w device" where
  "callEVMChain env opts chainName mth params d =
     (case chainConfigs opts chainName of
        None \<Rightarrow> (Failed StatusBadRequest, d)
      | Some cc \<Rightarrow>
          let post = (\<lambda>url. \<lparr>hq_method = ''POST'', hq_url = url, hq_body = Doc (rpc_request mth params)\<rparr>) in
          (case send env (post (cc_RPC cc)) d of
             (Reply st b, d1) \<Rightarrow> (read_all st b, d1)
           | (NetErr, d1) \<Rightarrow>
               if cc_BackupRPC cc \<noteq> [] then
                 (case send env (post (cc_BackupRPC cc)) d1 of
                    (NetErr, d2) \<Rightarrow> (Failed 0, d2)
                  | (Reply st b, d2) \<Rightarrow> (read_all st b, d2))
               else (Failed 0, d1)))"

text \<open>The retry loop from attempt \<open>k\<close> on, with \<open>n\<close> attempts left: \<open>k\<close> squared seconds between two.\<close>

fun retry_loop ::
  "'w env \<Rightarrow> 'w options \<Rightarrow> string \<Rightarrow> string \<Rightarrow> json list \<Rightarrow> nat \<Rightarrow> nat \<Rightarrow> 'w device \<Rightarrow> call \<times> 'w device" where
  "retry_loop env opts chainName mth params k 0 d = (Failed 0, d)"
| "retry_loop env opts chainName mth params k (Suc n) d =
     (case callEVMChain env opts chainName mth params d of
        (Answer b st, d1) \<Rightarrow> (Answer b st, d1)
      | (Failed _, d1) \<Rightarrow>
          if 0 < n then
            (case wait_for env (int (k * k) * second) d1 of
               (False, d2) \<Rightarrow> (Failed 0, d2)
             | (True, d2) \<Rightarrow> retry_loop env opts chainName mth params (Suc k) n d2)
          else (Failed 0, d1))"

definition callEVMChainWithRetry ::
  "'w env \<Rightarrow> 'w options \<Rightarrow> string \<Rightarrow> string \<Rightarrow> json list \<Rightarrow> nat \<Rightarrow> 'w device \<Rightarrow> call \<times> 'w device" where
  "callEVMChainWithRetry env opts chainName mth params maxRetries d =
     retry_loop env opts chainName mth params 1 maxRetries d"

text \<open>
  The response struct that every caller decodes: \<^verbatim>\<open>result\<close>, and \<^verbatim>\<open>error\<close> as a pointer to a code and a
  message.
\<close>

fun rpc_error :: "json \<Rightarrow> string option" where
  "rpc_error (JObj kvs) =
     (case (field_value as_int ''code'' 0 kvs, field_value as_string ''message'' [] kvs) of
        (Some _, Some m) \<Rightarrow> Some m
      | _ \<Rightarrow> None)"
| "rpc_error _ = None"

fun rpc_response :: "json \<Rightarrow> (string \<times> string option) option" where
  "rpc_response (JObj kvs) =
     (case (field_value as_string ''result'' [] kvs, pointer_field rpc_error ''error'' None kvs) of
        (Some r, Some e) \<Rightarrow> Some (r, e)
      | _ \<Rightarrow> None)"
| "rpc_response JNull = Some ([], None)"
| "rpc_response _ = None"

text \<open>The four checks every caller makes on the way from the call to the result text.\<close>

datatype eth_answer = CallFailed | BadStatus nat | Unparsable | RpcError string | Result string

definition eth_answer_of :: "call \<Rightarrow> eth_answer" where
  "eth_answer_of c =
     (case c of
        Failed _ \<Rightarrow> CallFailed
      | Answer b st \<Rightarrow>
          if st \<noteq> StatusOK then BadStatus st
          else (case Option.bind (unmarshal b) rpc_response of
                  None \<Rightarrow> Unparsable
                | Some (_, Some m) \<Rightarrow> RpcError m
                | Some (r, None) \<Rightarrow> Result r))"

definition eth_params :: "string \<Rightarrow> string \<Rightarrow> json list" where
  "eth_params contract callData = [JObj [(''data'', JStr callData), (''to'', JStr contract)], JStr ''latest'']"

definition eth_call ::
  "'w env \<Rightarrow> 'w options \<Rightarrow> string \<Rightarrow> ChainConfig \<Rightarrow> string \<Rightarrow> nat \<Rightarrow> 'w device \<Rightarrow> eth_answer \<times> 'w device" where
  "eth_call env opts chainName cc callData n d =
     (case callEVMChainWithRetry env opts chainName ''eth_call'' (eth_params (cc_Contract cc) callData) n d of
        (c, d1) \<Rightarrow> (eth_answer_of c, d1))"


section \<open>Contract queries\<close>

datatype evm_error =
    UnsupportedChain string
  | EthCall eth_answer
  | ContractErr string
  | Undecodable abi_error
  | PeerConversion peer_error
  | InvalidPoolID
  | NoClusterPeer
  | NoPeerIds
  | EmptyPeerId
  | NotOnAnyChain

fun map_err :: "('e \<Rightarrow> 'f) \<Rightarrow> ('e, 'a) outcome \<Rightarrow> ('f, 'a) outcome" where
  "map_err f (Ok v) = Ok v"
| "map_err f (Err e) = Err (f e)"
| "map_err f Panic = Panic"

text \<open>A result that is no contract error.\<close>

definition contract_ok :: "string \<Rightarrow> (evm_error, string) outcome" where
  "contract_ok r = (case ParseContractError r of Some e \<Rightarrow> Err (ContractErr (ce_Code e)) | None \<Rightarrow> Ok r)"

definition strict_answer :: "eth_answer \<Rightarrow> (evm_error, string) outcome" where
  "strict_answer a = (case a of Result r \<Rightarrow> Ok r | _ \<Rightarrow> Err (EthCall a))"

definition strictEthCall ::
  "'w env \<Rightarrow> 'w options \<Rightarrow> string \<Rightarrow> string \<Rightarrow> 'w device \<Rightarrow> (evm_error, string) outcome \<times> 'w device" where
  "strictEthCall env opts chainName callData d =
     (case chainConfigs opts chainName of
        None \<Rightarrow> (Err (UnsupportedChain chainName), d)
      | Some cc \<Rightarrow> (case eth_call env opts chainName cc callData 3 d of (a, d1) \<Rightarrow> (strict_answer a, d1)))"

definition joinRequestPending :: nat where
  "joinRequestPending = 1"

definition ClusterPeerPoolStatus ::
  "'w env \<Rightarrow> 'w options \<Rightarrow> nat \<Rightarrow> string \<Rightarrow> 'w device \<Rightarrow> (evm_error, bool \<times> bool) outcome \<times> 'w device" where
  "ClusterPeerPoolStatus env opts poolID chainName d =
     (if clusterPeerID opts = [] then (Err NoClusterPeer, d)
      else (case peerIdToBytes32 (codec env) (clusterPeerID opts) of
        Err e \<Rightarrow> (Err (PeerConversion e), d)
      | Panic \<Rightarrow> (Panic, d)
      | Ok peer32 \<Rightarrow>
          (case strictEthCall env opts chainName (EncodeIsPeerIdMemberOfPoolCall poolID peer32) d of
             (Err e, d1) \<Rightarrow> (Err e, d1)
           | (Panic, d1) \<Rightarrow> (Panic, d1)
           | (Ok memberResult, d1) \<Rightarrow>
               (case DecodeIsMemberOfPoolResult memberResult of
                  Err e \<Rightarrow> (Err (Undecodable e), d1)
                | Panic \<Rightarrow> (Panic, d1)
                | Ok membership \<Rightarrow>
                    if imr_IsMember membership then (Ok (True, False), d1)
                    else
                      (case strictEthCall env opts chainName (EncodeJoinRequestsCall poolID peer32) d1 of
                         (Err e, d2) \<Rightarrow> (Err e, d2)
                       | (Panic, d2) \<Rightarrow> (Panic, d2)
                       | (Ok requestResult, d2) \<Rightarrow>
                           (and_then (map_err Undecodable (DecodeJoinRequestStatus requestResult)) (\<lambda>status.
                              Ok (False, status = joinRequestPending)), d2))))))"

record IsMemberOfPoolResponse =
  ir_IsMember :: bool
  ir_MemberAddress :: string
  ir_ChainName :: string
  ir_PoolID :: nat

definition not_a_member :: "string \<Rightarrow> nat \<Rightarrow> IsMemberOfPoolResponse" where
  "not_a_member chainName poolID =
     \<lparr>ir_IsMember = False, ir_MemberAddress = ''0x'' @ replicate 40 (CHR ''0''), ir_ChainName = chainName,
      ir_PoolID = poolID\<rparr>"

definition HandleIsMemberOfPool ::
  "'w env \<Rightarrow> 'w options \<Rightarrow> string \<Rightarrow> nat \<Rightarrow> string \<Rightarrow> 'w device \<Rightarrow>
   (evm_error, IsMemberOfPoolResponse) outcome \<times> 'w device" where
  "HandleIsMemberOfPool env opts peerID poolID chainName d =
     (if poolID = 0 then (Ok (not_a_member chainName poolID), d)
      else (case chainConfigs opts chainName of
        None \<Rightarrow> (Err (UnsupportedChain chainName), d)
      | Some cc \<Rightarrow>
          (case peerIdToBytes32 (codec env) peerID of
             Err e \<Rightarrow> (Err (PeerConversion e), d)
           | Panic \<Rightarrow> (Panic, d)
           | Ok peer32 \<Rightarrow>
               (case eth_call env opts chainName cc (EncodeIsPeerIdMemberOfPoolCall poolID peer32) 3 d of
                  (CallFailed, d1) \<Rightarrow> (Ok (not_a_member chainName poolID), d1)
                | (Result r, d1) \<Rightarrow>
                    (case ParseContractError r of
                       Some _ \<Rightarrow> (Ok (not_a_member chainName poolID), d1)
                     | None \<Rightarrow>
                         (case DecodeIsMemberOfPoolResult r of
                            Err _ \<Rightarrow> (Ok (not_a_member chainName poolID), d1)
                          | Panic \<Rightarrow> (Panic, d1)
                          | Ok m \<Rightarrow>
                              (Ok \<lparr>ir_IsMember = imr_IsMember m, ir_MemberAddress = imr_MemberAddress m,
                                   ir_ChainName = chainName, ir_PoolID = poolID\<rparr>, d1)))
                | (a, d1) \<Rightarrow> (Err (EthCall a), d1)))))"

definition validatePoolOnChain ::
  "'w env \<Rightarrow> 'w options \<Rightarrow> nat \<Rightarrow> string \<Rightarrow> 'w device \<Rightarrow> (evm_error, unit) outcome \<times> 'w device" where
  "validatePoolOnChain env opts poolID chainName d =
     (case chainConfigs opts chainName of
        None \<Rightarrow> (Err (UnsupportedChain chainName), d)
      | Some cc \<Rightarrow>
          (case eth_call env opts chainName cc (EncodePoolsCall poolID) 2 d of
             (a, d1) \<Rightarrow>
               (and_then (strict_answer a) (\<lambda>r. and_then (contract_ok r) (\<lambda>r.
                  and_then (map_err Undecodable (DecodePoolsResult r)) (\<lambda>_. Ok ()))), d1)))"

fun first_valid_chain ::
  "'w env \<Rightarrow> 'w options \<Rightarrow> nat \<Rightarrow> string list \<Rightarrow> 'w device \<Rightarrow> (evm_error, string) outcome \<times> 'w device" where
  "first_valid_chain env opts poolID [] d = (Err NotOnAnyChain, d)"
| "first_valid_chain env opts poolID (c # cs) d =
     (case validatePoolOnChain env opts poolID c d of
        (Ok _, d1) \<Rightarrow> (Ok c, d1)
      | (Panic, d1) \<Rightarrow> (Panic, d1)
      | (Err _, d1) \<Rightarrow> first_valid_chain env opts poolID cs d1)"

definition discoverPoolChain ::
  "'w env \<Rightarrow> 'w options \<Rightarrow> nat \<Rightarrow> 'w device \<Rightarrow> (evm_error, string) outcome \<times> 'w device" where
  "discoverPoolChain env opts poolID d = first_valid_chain env opts poolID [''skale'', ''base''] d"

definition GetPoolCreatorPeerID ::
  "'w env \<Rightarrow> 'w options \<Rightarrow> nat \<Rightarrow> string \<Rightarrow> 'w device \<Rightarrow> (evm_error, string) outcome \<times> 'w device" where
  "GetPoolCreatorPeerID env opts poolID chainName d =
     (if poolID = 0 then (Err InvalidPoolID, d)
      else (case chainConfigs opts chainName of
        None \<Rightarrow> (Err (UnsupportedChain chainName), d)
      | Some cc \<Rightarrow>
          (case eth_call env opts chainName cc (EncodePoolsCall poolID) 3 d of
             (a, d1) \<Rightarrow>
               (case and_then (strict_answer a) (\<lambda>r. and_then (contract_ok r) (\<lambda>r.
                       map_err Undecodable (DecodePoolsResult r))) of
                  Err e \<Rightarrow> (Err e, d1)
                | Panic \<Rightarrow> (Panic, d1)
                | Ok poolData \<Rightarrow>
                    (case eth_call env opts chainName cc
                            (EncodeGetMemberPeerIdsCall (str_pad env) poolID (p_Creator poolData)) 3 d1 of
                       (a2, d2) \<Rightarrow>
                         (and_then (strict_answer a2) (\<lambda>r. and_then (contract_ok r) (\<lambda>r.
                          and_then (map_err Undecodable (DecodeGetMemberPeerIdsResult r)) (\<lambda>ids.
                          case gmp_PeerIds ids of
                            [] \<Rightarrow> Err NoPeerIds
                          | first # _ \<Rightarrow>
                              if first = [] \<or> first = ''0x'' @ replicate 64 (CHR ''0'') then Err EmptyPeerId
                              else and_then (map_err PeerConversion (Bytes32ToPeerID (codec env) first)) (\<lambda>full.
                                if full = [] then Err EmptyPeerId else Ok full)))), d2))))))"

text \<open>The pool list: one iteration of the enumeration loop at \<open>index\<close>, and the loop on fuel.\<close>

record EVMPool =
  ev_Creator :: string
  ev_ID :: nat
  ev_MaxChallengeResponsePeriod :: nat
  ev_MemberCount :: nat
  ev_MaxMembers :: nat
  ev_RequiredTokens :: string
  ev_MinPingTime :: string
  ev_Name :: string
  ev_Region :: string
  ev_ChainName :: string

definition big_String :: "int option \<Rightarrow> string" where
  "big_String x = (case x of None \<Rightarrow> ''<nil>'' | Some i \<Rightarrow> Itoa i)"

definition evm_pool :: "nat \<Rightarrow> string \<Rightarrow> Pool \<Rightarrow> EVMPool" where
  "evm_pool poolID chainName p =
     \<lparr>ev_Creator = p_Creator p, ev_ID = poolID,
      ev_MaxChallengeResponsePeriod = p_MaxChallengeResponsePeriod p, ev_MemberCount = p_MemberCount p,
      ev_MaxMembers = p_MaxMembers p, ev_RequiredTokens = big_String (p_RequiredTokens p),
      ev_MinPingTime = big_String (p_MinPingTime p), ev_Name = p_Name p, ev_Region = p_Region p,
      ev_ChainName = chainName\<rparr>"

text \<open>\<^verbatim>\<open>index++\<close> on a \<^verbatim>\<open>uint32\<close>.\<close>

definition next_index :: "nat \<Rightarrow> nat" where
  "next_index i = (i + 1) mod 2 ^ 32"

definition pool_list_step ::
  "'w env \<Rightarrow> 'w options \<Rightarrow> string \<Rightarrow> ChainConfig \<Rightarrow> nat \<times> EVMPool list \<times> 'w device \<Rightarrow>
   ((evm_error, EVMPool list) outcome \<times> 'w device, nat \<times> EVMPool list \<times> 'w device) loop_step" where
  "pool_list_step env opts chainName cc = (\<lambda>(index, pools, d).
     case eth_call env opts chainName cc (EncodePoolIdsCall index) 3 d of
       (CallFailed, d1) \<Rightarrow> Done (Ok pools, d1)
     | (BadStatus st, d1) \<Rightarrow> Done (Err (EthCall (BadStatus st)), d1)
     | (Unparsable, d1) \<Rightarrow> Done (Err (EthCall Unparsable), d1)
     | (RpcError m, d1) \<Rightarrow> Done (Ok pools, d1)
     | (Result r, d1) \<Rightarrow>
         if r = ''0x'' \<or> length r \<le> 2 then Done (Ok pools, d1)
         else (case DecodePoolIdResponse r of
           Err _ \<Rightarrow> Done (Ok pools, d1)
         | Panic \<Rightarrow> Done (Panic, d1)
         | Ok poolID \<Rightarrow>
             if poolID = 0 then Next (next_index index, pools, d1)
             else (case eth_call env opts chainName cc (EncodePoolsCall poolID) 3 d1 of
               (Result r2, d2) \<Rightarrow>
                 (case DecodePoolsResult r2 of
                    Err _ \<Rightarrow> Next (next_index index, pools, d2)
                  | Panic \<Rightarrow> Done (Panic, d2)
                  | Ok poolData \<Rightarrow>
                      let pools' = pools @ [evm_pool poolID chainName poolData] in
                      if 20 < next_index index then Done (Ok pools', d2)
                      else Next (next_index index, pools', d2))
             | (_, d2) \<Rightarrow> Next (next_index index, pools, d2))))"

definition HandleEVMPoolList ::
  "'w env \<Rightarrow> 'w options \<Rightarrow> nat \<Rightarrow> string \<Rightarrow> 'w device \<Rightarrow>
   ((evm_error, EVMPool list) outcome \<times> 'w device) option" where
  "HandleEVMPoolList env opts fuel chainName d =
     (case chainConfigs opts chainName of
        None \<Rightarrow> Some (Err (UnsupportedChain chainName), d)
      | Some cc \<Rightarrow> run_loop (pool_list_step env opts chainName cc) fuel (0, [], d))"


section \<open>Queries only move the outside world\<close>

lemma callEVMChain_local [frame_intros]: "callEVMChain env opts c m p d = (x, e) \<Longrightarrow> same_local d e"
  by (auto simp: callEVMChain_def Let_def dest!: send_local
      split: option.splits prod.splits net_reply.splits if_splits intro: same_local_trans)

lemma retry_loop_local: "retry_loop env opts c m p k n d = (x, e) \<Longrightarrow> same_local d e"
  by (induction env opts c m p k n d rule: retry_loop.induct)
    (auto dest!: callEVMChain_local wait_for_local split: prod.splits call.splits if_splits bool.splits
      intro: same_local_trans)

lemma eth_call_local [frame_intros]: "eth_call env opts c cc data n d = (x, e) \<Longrightarrow> same_local d e"
  by (auto simp: eth_call_def callEVMChainWithRetry_def dest!: retry_loop_local split: prod.splits)

lemma strictEthCall_local [frame_intros]: "strictEthCall env opts c data d = (x, e) \<Longrightarrow> same_local d e"
  by (auto simp: strictEthCall_def dest: eth_call_local split: option.splits prod.splits)

lemma ClusterPeerPoolStatus_local [frame_intros]:
  "ClusterPeerPoolStatus env opts p c d = (x, e) \<Longrightarrow> same_local d e"
  by (auto simp: ClusterPeerPoolStatus_def dest!: strictEthCall_local
      split: outcome.splits prod.splits if_splits intro: same_local_trans)

lemma HandleIsMemberOfPool_local [frame_intros]:
  "HandleIsMemberOfPool env opts pid p c d = (x, e) \<Longrightarrow> same_local d e"
  by (auto simp: HandleIsMemberOfPool_def dest!: eth_call_local
      split: outcome.splits prod.splits if_splits option.splits eth_answer.splits)

lemma validatePoolOnChain_local [frame_intros]: "validatePoolOnChain env opts p c d = (x, e) \<Longrightarrow> same_local d e"
  by (auto simp: validatePoolOnChain_def dest!: eth_call_local split: option.splits prod.splits)

lemma first_valid_chain_local: "first_valid_chain env opts p cs d = (x, e) \<Longrightarrow> same_local d e"
  by (induction env opts p cs d rule: first_valid_chain.induct)
    (auto dest!: validatePoolOnChain_local split: prod.splits outcome.splits intro: same_local_trans)

lemma discoverPoolChain_local [frame_intros]: "discoverPoolChain env opts p d = (x, e) \<Longrightarrow> same_local d e"
  unfolding discoverPoolChain_def by (rule first_valid_chain_local)

lemma GetPoolCreatorPeerID_local [frame_intros]:
  "GetPoolCreatorPeerID env opts p c d = (x, e) \<Longrightarrow> same_local d e"
  by (auto simp: GetPoolCreatorPeerID_def dest!: eth_call_local
      split: outcome.splits prod.splits if_splits option.splits intro: same_local_trans)

section \<open>What the nodes say and what the queries report\<close>

text \<open>One node's answer to one contract call, at one moment of the outside world.\<close>

definition node_answer :: "'w env \<Rightarrow> string \<Rightarrow> string \<Rightarrow> string \<Rightarrow> 'w \<Rightarrow> eth_answer" where
  "node_answer env url contract callData w =
     (case fst (net env \<lparr>hq_method = ''POST'', hq_url = url,
                hq_body = Doc (rpc_request ''eth_call'' (eth_params contract callData))\<rparr> w) of
        NetErr \<Rightarrow> CallFailed
      | Reply st b \<Rightarrow> eth_answer_of (read_all st b))"

definition nodes_of :: "ChainConfig \<Rightarrow> string set" where
  "nodes_of cc = insert (cc_RPC cc) (if cc_BackupRPC cc = [] then {} else {cc_BackupRPC cc})"

lemma eth_answer_of_Failed [simp]: "eth_answer_of (Failed st) = CallFailed"
  by (simp add: eth_answer_of_def)

lemma send_node:
  assumes "send env \<lparr>hq_method = ''POST'', hq_url = url,
      hq_body = Doc (rpc_request ''eth_call'' (eth_params contract callData))\<rparr> d = (Reply st b, e)"
  shows "node_answer env url contract callData (world d) = eth_answer_of (read_all st b)"
  using assms by (simp add: send_def node_answer_def split: prod.splits)

lemma callEVMChain_node:
  assumes "callEVMChain env opts chainName ''eth_call'' (eth_params (cc_Contract cc) callData) d = (c, e)"
    and "chainConfigs opts chainName = Some cc" and "eth_answer_of c \<noteq> CallFailed"
  shows "\<exists>url \<in> nodes_of cc. \<exists>w. node_answer env url (cc_Contract cc) callData w = eth_answer_of c"
  using assms
  by (auto simp: callEVMChain_def nodes_of_def Let_def dest: send_node
      split: prod.splits net_reply.splits if_splits)

lemma retry_loop_node:
  "retry_loop env opts chainName ''eth_call'' (eth_params (cc_Contract cc) callData) k n d = (c, e) \<Longrightarrow>
     chainConfigs opts chainName = Some cc \<Longrightarrow> eth_answer_of c \<noteq> CallFailed \<Longrightarrow>
     \<exists>url \<in> nodes_of cc. \<exists>w. node_answer env url (cc_Contract cc) callData w = eth_answer_of c"
proof (induction n arbitrary: k d)
  case (Suc n)
  obtain c1 d1 where c1: "callEVMChain env opts chainName ''eth_call'' (eth_params (cc_Contract cc) callData) d = (c1, d1)"
    by (cases "callEVMChain env opts chainName ''eth_call'' (eth_params (cc_Contract cc) callData) d") auto
  show ?case
  proof (cases c1)
    case (Answer b st)
    with c1 Suc.prems show ?thesis by (auto dest: callEVMChain_node)
  next
    case (Failed st)
    with c1 Suc show ?thesis by (auto split: if_splits prod.splits bool.splits)
  qed
qed (auto simp: eth_answer_of_def)

text \<open>Whatever a query reports was said by one of the configured nodes in answer to this very call.\<close>

lemma eth_call_node:
  "eth_call env opts chainName cc callData n d = (a, e) \<Longrightarrow> chainConfigs opts chainName = Some cc \<Longrightarrow>
     a \<noteq> CallFailed \<Longrightarrow> \<exists>url \<in> nodes_of cc. \<exists>w. node_answer env url (cc_Contract cc) callData w = a"
  by (auto simp: eth_call_def callEVMChainWithRetry_def dest!: retry_loop_node split: prod.splits)

text \<open>
  An honest chain: \<open>isM\<close> and \<open>st\<close> are the contract's membership table and join-request states, and
  every result a node returns for the two queries is the ABI encoding of the entry asked for. Nodes
  may still fail, time out or answer with errors at any call.
\<close>

definition member_answer :: "bool \<Rightarrow> string \<Rightarrow> string" where
  "member_answer b addr = ''0x'' @ fmt_064x (of_bool b) @ pad_left 64 (CHR ''0'') addr"

definition request_answer :: "nat list \<Rightarrow> string \<Rightarrow> string" where
  "request_answer ws rest = ''0x'' @ concat (map fmt_064x ws) @ rest"

definition honest_chain ::
  "'w env \<Rightarrow> ChainConfig \<Rightarrow> (nat \<Rightarrow> string \<Rightarrow> bool) \<Rightarrow> (nat \<Rightarrow> string \<Rightarrow> nat) \<Rightarrow> bool" where
  "honest_chain env cc isM st \<longleftrightarrow>
     (\<forall>url \<in> nodes_of cc. \<forall>w p k r.
        (node_answer env url (cc_Contract cc) (EncodeIsPeerIdMemberOfPoolCall p k) w = Result r \<longrightarrow>
           (\<exists>addr. length addr = 40 \<and> r = member_answer (isM p k) addr)) \<and>
        (node_answer env url (cc_Contract cc) (EncodeJoinRequestsCall p k) w = Result r \<longrightarrow>
           (\<exists>ws rest. length ws = 8 \<and> (\<forall>n \<in> set ws. n < 2 ^ 256) \<and> ws ! 6 = st p k \<and>
              r = request_answer ws rest)))"

lemma honest_member:
  "honest_chain env cc isM st \<Longrightarrow> url \<in> nodes_of cc \<Longrightarrow>
   node_answer env url (cc_Contract cc) (EncodeIsPeerIdMemberOfPoolCall p k) w = Result r \<Longrightarrow>
   \<exists>addr. length addr = 40 \<and> r = member_answer (isM p k) addr"
  unfolding honest_chain_def by blast

lemma honest_request:
  "honest_chain env cc isM st \<Longrightarrow> url \<in> nodes_of cc \<Longrightarrow>
   node_answer env url (cc_Contract cc) (EncodeJoinRequestsCall p k) w = Result r \<Longrightarrow>
   \<exists>ws rest. length ws = 8 \<and> (\<forall>n \<in> set ws. n < 2 ^ 256) \<and> ws ! 6 = st p k \<and>
     r = request_answer ws rest"
  unfolding honest_chain_def by blast

lemma bytes32ToPeerId_total: "bytes32ToPeerId cd p \<noteq> Panic"
  by (simp add: bytes32ToPeerId_def Let_def split: option.splits)

lemma peerIdToBytes32_total: "peerIdToBytes32 cd p \<noteq> Panic"
  by (simp add: peerIdToBytes32_def Let_def outcome_simps bytes32ToPeerId_total split: option.splits)

lemma strict_answer_simps [simp]:
  "strict_answer a = Ok r \<longleftrightarrow> a = Result r" "strict_answer a \<noteq> Panic"
  by (auto simp: strict_answer_def split: eth_answer.splits)

lemma strictEthCall_total: "strictEthCall env opts c data d = (x, e) \<Longrightarrow> x \<noteq> Panic"
  by (auto simp: strictEthCall_def split: option.splits prod.splits)

lemma strictEthCall_node:
  assumes "strictEthCall env opts c data d = (Ok r, e)"
  shows "\<exists>cc. chainConfigs opts c = Some cc \<and>
     (\<exists>url \<in> nodes_of cc. \<exists>w. node_answer env url (cc_Contract cc) data w = Result r)"
  using assms by (auto simp: strictEthCall_def dest: eth_call_node split: option.splits prod.splits)

lemma map_err_simps [simp]: "map_err f x = Ok v \<longleftrightarrow> x = Ok v" "map_err f x = Panic \<longleftrightarrow> x = Panic"
  by (cases x; simp)+

lemma ClusterPeerPoolStatus_total: "ClusterPeerPoolStatus env opts p c d = (x, e) \<Longrightarrow> x \<noteq> Panic"
  by (auto simp: ClusterPeerPoolStatus_def outcome_simps peerIdToBytes32_total DecodeIsMember_total
      DecodeJoinRequestStatus_total dest: strictEthCall_total split: if_splits outcome.splits prod.splits)

lemma status_definitive:
  assumes "ClusterPeerPoolStatus env opts pool chain d = (Ok (m, p), e)"
    and "chainConfigs opts chain = Some cc" and "honest_chain env cc isM st"
  shows "\<exists>k. peerIdToBytes32 (codec env) (clusterPeerID opts) = Ok k \<and> m = isM pool k \<and>
     (p \<longleftrightarrow> \<not> isM pool k \<and> st pool k = joinRequestPending)"
proof -
  from assms(1) obtain k d1 r where k: "peerIdToBytes32 (codec env) (clusterPeerID opts) = Ok k"
    and r: "strictEthCall env opts chain (EncodeIsPeerIdMemberOfPoolCall pool k) d = (Ok r, d1)"
    by (auto simp: ClusterPeerPoolStatus_def split: if_splits outcome.splits prod.splits)
  obtain addr where addr: "length addr = 40" "r = member_answer (isM pool k) addr"
    using strictEthCall_node [OF r] assms(2) honest_member [OF assms(3)] by (metis option.inject)
  have dec: "DecodeIsMemberOfPoolResult r = Ok \<lparr>imr_IsMember = isM pool k, imr_MemberAddress = ''0x'' @ addr\<rparr>"
    using DecodeIsMember_answer [OF addr(1)] addr(2) by (simp add: member_answer_def)
  show ?thesis
  proof (cases "isM pool k")
    case True
    with assms(1) k r dec show ?thesis by (auto simp: ClusterPeerPoolStatus_def split: if_splits)
  next
    case False
    with assms(1) k r dec obtain q d2 where
      q: "strictEthCall env opts chain (EncodeJoinRequestsCall pool k) d1 = (Ok q, d2)"
      and m: "m = False" "\<exists>s. DecodeJoinRequestStatus q = Ok s \<and> p = (s = joinRequestPending)"
      by (auto simp: ClusterPeerPoolStatus_def outcome_simps split: if_splits outcome.splits prod.splits)
    obtain ws rest where ws: "length ws = 8" "\<forall>n \<in> set ws. n < 2 ^ 256" "ws ! 6 = st pool k"
      and qe: "q = request_answer ws rest"
      using strictEthCall_node [OF q] assms(2) honest_request [OF assms(3)] by (metis option.inject)
    from m(2) obtain s where s: "DecodeJoinRequestStatus q = Ok s" "p = (s = joinRequestPending)" by blast
    have "s = st pool k"
      using DecodeJoinRequestStatus_words [OF ws(1,2), of rest] s(1) ws(3) unfolding qe request_answer_def by (auto split: if_splits)
    with s(2) m(1) k False show ?thesis by auto
  qed
qed

text \<open>
  C13. The strict status query never guesses. On an honest chain a definitive answer is the truth
  about this device's cluster peer in the pool asked about, whatever nodes failed or were retried on
  the way; everything else is an error, never a panic, and nothing local changes.
\<close>

theorem status_matches_chain:
  assumes "ClusterPeerPoolStatus env opts pool chain d = (x, e)"
    and "chainConfigs opts chain = Some cc" and "honest_chain env cc isM st"
  shows "same_local d e \<and>
    ((\<exists>k. peerIdToBytes32 (codec env) (clusterPeerID opts) = Ok k \<and>
        x = Ok (isM pool k, \<not> isM pool k \<and> st pool k = joinRequestPending)) \<or> is_err x)"
proof (cases x)
  case (Ok mp)
  with assms show ?thesis using status_definitive [of env opts pool chain d "fst mp" "snd mp" e cc isM st]
    by (cases mp) (auto intro: ClusterPeerPoolStatus_local)
next
  case (Err err)
  with assms(1) show ?thesis by (auto intro: ClusterPeerPoolStatus_local)
next
  case Panic
  with assms(1) show ?thesis using ClusterPeerPoolStatus_total by blast
qed

text \<open>
  A node for concrete runs: its answer depends on the method selector of the call alone. The world is
  the clock, which only waiting moves.
\<close>

definition selector_node :: "(string \<rightharpoonup> string) \<Rightarrow> http_req \<Rightarrow> net_reply" where
  "selector_node f rq =
     (case hq_body rq of
        Doc (JObj [_, _, _, (_, JArr [JObj [(_, JStr data), _], _])]) \<Rightarrow>
          (case f (take 10 data) of
             None \<Rightarrow> NetErr
           | Some r \<Rightarrow> Reply StatusOK (Some (Doc (JObj [(''result'', JStr r)]))))
      | _ \<Rightarrow> NetErr)"

definition sample_env :: "(string \<rightharpoonup> string) \<Rightarrow> int env" where
  "sample_env f = \<lparr>net = (\<lambda>r w. (selector_node f r, w)), wait = (\<lambda>ns w. (True, w + \<bar>ns\<bar>)), clock = (\<lambda>w. (w, w)),
     drain = (\<lambda>w. (True, w)), str_pad = CHR ''0'',
     raw_text = (\<lambda>b. case b of Raw s \<Rightarrow> s | _ \<Rightarrow> ''{}''), reencode = id, cid_Decode = Some, cluster_pin = (\<lambda>c w. (Some c, w)), codec = hex_codec\<rparr>"

abbreviation sample_peer_id :: string where
  "sample_peer_id \<equiv> ''z'' @ hex_EncodeToString (ed25519_multihash (replicate 32 7))"

definition sample_opts :: "int options" where
  "sample_opts = \<lparr>selfPeerID = ''dev'', authorizer = ''own'', clusterPeerID = sample_peer_id, poolHost = False,
     topicName = ''0'', ipfsClusterApi = True, blockchainEndPoint = ''api.node3.functionyard.fula.network'', secretsDir = ''/internal/.secrets'',
     chainConfigOverride = None, updatePoolName = None, getPoolName = None, updateChainName = None,
     getChainName = None, onPoolConfigCleared = True\<rparr>"

abbreviation skale :: ChainConfig where
  "skale \<equiv> the (GetChainConfigs ''skale'')"

lemma chainConfigs_skale [simp]: "chainConfigs sample_opts ''skale'' = Some skale"
  by (simp add: chainConfigs_def sample_opts_def GetChainConfigs_def)

lemma selector_node_answer [simp]:
  "node_answer (sample_env f) url contract callData w =
     (case f (take 10 callData) of None \<Rightarrow> CallFailed | Some r \<Rightarrow> Result r)"
  by (simp add: node_answer_def sample_env_def selector_node_def rpc_request_def eth_params_def read_all_def
      eth_answer_of_def fold_eq_def lower_char_def split: option.splits)

lemma sample_call:
  assumes "f (take 10 data) = Some r" and "chainConfigs opts c = Some cc"
  shows "eth_call (sample_env f) opts c cc data (Suc n) d = (Result r, d)"
  using assms
  by (simp add: eth_call_def callEVMChainWithRetry_def callEVMChain_def send_def sample_env_def selector_node_def
      rpc_request_def eth_params_def read_all_def eth_answer_of_def fold_eq_def lower_char_def)

text \<open>A chain on which every peer has the same membership and the same join-request state.\<close>

definition uniform_chain :: "bool \<Rightarrow> nat \<Rightarrow> string \<rightharpoonup> string" where
  "uniform_chain b s =
     [ms_IsPeerIdMemberOfPool MethodSignatures \<mapsto> member_answer b (replicate 40 (CHR ''a'')),
      ms_JoinRequests MethodSignatures \<mapsto> request_answer [9, 1, 100, 0, 2, 0, s, 77] []]"

lemma uniform_chain_selectors [simp]:
  "uniform_chain b s (take 10 (EncodeIsPeerIdMemberOfPoolCall p k)) = Some (member_answer b (replicate 40 (CHR ''a'')))"
  "uniform_chain b s (take 10 (EncodeJoinRequestsCall p k)) =
     Some (request_answer [9, 1, 100, 0, 2, 0, s, 77] [])"
  by (simp_all add: uniform_chain_def MethodSignatures_def EncodeIsPeerIdMemberOfPoolCall_def EncodeJoinRequestsCall_def)

lemma uniform_chain_honest:
  assumes "s < 256"
  shows "honest_chain (sample_env (uniform_chain b s)) cc (\<lambda>_ _. b) (\<lambda>_ _. s)"
proof -
  have "\<exists>ws rest. length ws = 8 \<and> (\<forall>n \<in> set ws. n < 2 ^ 256) \<and> ws ! 6 = s \<and>
      request_answer [9, 1, 100, 0, 2, 0, s, 77] [] = request_answer ws rest"
    using assms by (intro exI [of _ "[9, 1, 100, 0, 2, 0, s, 77]"] exI [of _ "[]"]) simp
  moreover have "\<exists>addr. length addr = 40 \<and> member_answer b (replicate 40 (CHR ''a'')) = member_answer b addr"
    by (rule exI [of _ "replicate 40 (CHR ''a'')"]) simp
  ultimately show ?thesis unfolding honest_chain_def by auto
qed

lemma sample_status:
  assumes "s < 256"
  shows "ClusterPeerPoolStatus (sample_env (uniform_chain b s)) (sample_opts\<lparr>updatePoolName := u, getPoolName := g,
      updateChainName := u', getChainName := g'\<rparr>) p ''skale'' d = (Ok (b, \<not> b \<and> s = 1), d)"
proof -
  let ?o = "sample_opts\<lparr>updatePoolName := u, getPoolName := g, updateChainName := u', getChainName := g'\<rparr>"
  have cc: "chainConfigs ?o ''skale'' = Some skale" by (simp add: chainConfigs_def sample_opts_def GetChainConfigs_def)
  have strict: "strictEthCall (sample_env (uniform_chain b s)) ?o ''skale'' data d
      = (Ok r, d)" if "uniform_chain b s (take 10 data) = Some r" for data r
    using sample_call [where f = "uniform_chain b s" and data = data and n = 2 and d = d, OF that] cc by (simp add: strictEthCall_def numeral_3_eq_3 strict_answer_def)
  have dec: "DecodeIsMemberOfPoolResult (member_answer b (replicate 40 (CHR ''a'')))
      = Ok \<lparr>imr_IsMember = b, imr_MemberAddress = ''0x'' @ replicate 40 (CHR ''a'')\<rparr>"
    unfolding member_answer_def by (rule DecodeIsMember_answer) simp
  have req: "DecodeJoinRequestStatus (request_answer [9, 1, 100, 0, 2, 0, s, 77] []) = Ok s"
    unfolding request_answer_def
    using DecodeJoinRequestStatus_words [of "[9, 1, 100, 0, 2, 0, s, 77]" "[]"] assms by simp
  obtain k where conv: "peerIdToBytes32 (codec (sample_env (uniform_chain b s))) (clusterPeerID ?o) = Ok k"
    using sample_conversion by (simp add: sample_env_def sample_opts_def)
  have ne: "clusterPeerID ?o \<noteq> []" by (simp add: sample_opts_def)
  note calls = strict [OF uniform_chain_selectors(1)] strict [OF uniform_chain_selectors(2)]
  show ?thesis
    unfolding ClusterPeerPoolStatus_def conv if_not_P [OF ne] outcome.case calls prod.case dec
    by (simp add: calls req joinRequestPending_def del: One_nat_def)
qed

theorem status_matches_chain_witness:
  "\<exists>x e. ClusterPeerPoolStatus (sample_env (uniform_chain False 1)) sample_opts 5 ''skale'' (sample_device 0) = (x, e) \<and>
     same_local (sample_device 0) e \<and>
     ((\<exists>k. peerIdToBytes32 (codec (sample_env (uniform_chain False 1))) (clusterPeerID sample_opts) = Ok k \<and>
        x = Ok (False, True)) \<or> is_err x)"
proof -
  obtain x e where r: "ClusterPeerPoolStatus (sample_env (uniform_chain False 1)) sample_opts 5 ''skale'' (sample_device 0) = (x, e)"
    by (cases "ClusterPeerPoolStatus (sample_env (uniform_chain False 1)) sample_opts 5 ''skale'' (sample_device 0)") auto
  from status_matches_chain [OF r chainConfigs_skale uniform_chain_honest] r show ?thesis
    by (auto simp: joinRequestPending_def)
qed

section \<open>The pool list\<close>

definition listed_pool :: "string \<Rightarrow> EVMPool \<Rightarrow> bool" where
  "listed_pool chainName p \<longleftrightarrow> ev_ID p \<noteq> 0 \<and> ev_ID p < 2 ^ 32 \<and> ev_ChainName p = chainName"

lemma DecodePoolIdResponse_bound: "DecodePoolIdResponse r = Ok n \<Longrightarrow> n < 2 ^ 32"
  using to_uint32_bound by (auto simp: DecodePoolIdResponse_def Let_def outcome_simps split: if_splits)

lemma listed_evm_pool: "DecodePoolIdResponse r = Ok n \<Longrightarrow> n \<noteq> 0 \<Longrightarrow> listed_pool c (evm_pool n c p)"
  using DecodePoolIdResponse_bound by (simp add: listed_pool_def evm_pool_def)

lemmas pool_list_splits = prod.splits eth_answer.splits outcome.splits if_splits

lemma pool_list_step_Next:
  assumes "pool_list_step env opts c cc (i, ps, d) = Next (j, ps', d')"
  shows "j = next_index i \<and> same_local d d' \<and> (ps' = ps \<or> (j \<le> 20 \<and> (\<exists>p. ps' = ps @ [p] \<and> listed_pool c p)))"
  using assms
  by (auto simp: pool_list_step_def Let_def intro: listed_evm_pool same_local_trans
      dest!: eth_call_local split: pool_list_splits)

lemma pool_list_step_Done:
  assumes "pool_list_step env opts c cc (i, ps, d) = Done (Ok ps', d')"
  shows "same_local d d' \<and> (ps' = ps \<or> (\<exists>p. ps' = ps @ [p] \<and> listed_pool c p))"
  using assms
  by (auto simp: pool_list_step_def Let_def intro: listed_evm_pool same_local_trans
      dest!: eth_call_local split: pool_list_splits)

lemma pool_list_run:
  "run_loop (pool_list_step env opts c cc) fuel (i, ps, d) = Some (Ok out, e) \<Longrightarrow> i + fuel \<le> 2 ^ 32 \<Longrightarrow>
     length ps \<le> min i 20 \<Longrightarrow> list_all (listed_pool c) ps \<Longrightarrow>
     length out \<le> 21 \<and> list_all (listed_pool c) out \<and> same_local d e"
proof (induction fuel arbitrary: i ps d)
  case (Suc n)
  show ?case
  proof (cases "pool_list_step env opts c cc (i, ps, d)")
    case (Done r)
    with Suc.prems show ?thesis using pool_list_step_Done [of env opts c cc i ps d out e] by auto
  next
    case (Next s)
    then obtain j ps' d' where s: "pool_list_step env opts c cc (i, ps, d) = Next (j, ps', d')" by (cases s) auto
    with Suc.prems have run: "run_loop (pool_list_step env opts c cc) n (j, ps', d') = Some (Ok out, e)" by simp
    then have "0 < n" by (cases n) auto
    with Suc.prems(2) have "next_index i = i + 1" by (simp add: next_index_def)
    with pool_list_step_Next [OF s] Suc.prems
    have "j = i + 1" "same_local d d'" "length ps' \<le> min j 20" "list_all (listed_pool c) ps'" by auto
    with Suc.IH [OF run] Suc.prems(2) show ?thesis using same_local_trans by auto
  qed
qed simp

text \<open>
  A pool list has at most 21 entries, each a non-zero 32-bit pool id read from this chain, and
  computing it changes nothing on the device (for any run of fewer than \<open>2 ^ 32\<close> iterations, after
  which the index itself wraps).
\<close>

lemma pool_list_bounded:
  assumes "HandleEVMPoolList env opts fuel chain d = Some (Ok pools, e)" and "fuel \<le> 2 ^ 32"
  shows "length pools \<le> 21 \<and> list_all (listed_pool chain) pools \<and> same_local d e"
  using assms pool_list_run [of env opts chain _ fuel 0 "[]" d pools e]
  by (auto simp: HandleEVMPoolList_def split: option.splits)

text \<open>An answer that ends the enumeration.\<close>

definition no_pool_here :: "eth_answer \<Rightarrow> bool" where
  "no_pool_here a = (case a of Result r \<Rightarrow> length r \<le> 2 \<or> \<not> is_ok (DecodePoolIdResponse r) | _ \<Rightarrow> True)"

lemma pool_list_step_stops:
  assumes "no_pool_here (fst (eth_call env opts c cc (EncodePoolIdsCall i) 3 d))"
  shows "\<exists>r. pool_list_step env opts c cc (i, ps, d) = Done r"
  using assms
  by (cases "eth_call env opts c cc (EncodePoolIdsCall i) 3 d")
    (auto simp: pool_list_step_def no_pool_here_def split: eth_answer.splits outcome.splits)

text \<open>
  C39. The enumeration returns as soon as the chain has an index without a pool: if no call for index
  \<open>k\<close> yields a pool id, then \<open>k + 1\<close> iterations suffice, whatever the other calls answer.
\<close>

theorem pool_list_returns:
  assumes "chainConfigs opts chain = Some cc" and "k < 2 ^ 32"
    and "\<And>d. no_pool_here (fst (eth_call env opts chain cc (EncodePoolIdsCall k) 3 d))"
  shows "\<exists>r. HandleEVMPoolList env opts (Suc k) chain d = Some r"
proof -
  have "\<exists>r. run_loop (pool_list_step env opts chain cc) (Suc ((\<lambda>(i, _, _). k - i) (0 :: nat, [] :: EVMPool list, d))) (0, [], d) = Some r"
  proof (rule run_loop_measure [where I = "\<lambda>(i, ps, d). i \<le> k"])
    fix s s'
    assume "case s of (i, ps, d) \<Rightarrow> i \<le> k" and step: "pool_list_step env opts chain cc s = Next s'"
    then obtain i ps d j ps' d' where s: "s = (i, ps, d)" "s' = (j, ps', d')" "i \<le> k" by (cases s; cases s') auto
    have "i \<noteq> k" using step s pool_list_step_stops [OF assms(3), of ps d] by fastforce
    moreover have "j = next_index i" using pool_list_step_Next step s by blast
    ultimately show "(case s' of (i, ps, d) \<Rightarrow> i \<le> k) \<and>
        (case s' of (i, uu, uua) \<Rightarrow> k - i) < (case s of (i, uu, uua) \<Rightarrow> k - i)"
      using s assms(2) by (simp add: next_index_def)
  qed simp
  then show ?thesis using assms(1) by (simp add: HandleEVMPoolList_def)
qed

text \<open>A chain whose every index holds pool id 0, and one that answers nothing.\<close>

definition zero_pools :: "string \<rightharpoonup> string" where
  "zero_pools = [ms_PoolIds MethodSignatures \<mapsto> ''0x'' @ fmt_064x 0]"

lemma zero_pools_step:
  "pool_list_step (sample_env zero_pools) sample_opts ''skale'' skale (i, ps, d) = Next (next_index i, ps, d)"
proof -
  have "zero_pools (take 10 (EncodePoolIdsCall i)) = Some (''0x'' @ fmt_064x 0)"
    by (simp add: zero_pools_def EncodePoolIdsCall_def MethodSignatures_def)
  then have call: "eth_call (sample_env zero_pools) sample_opts ''skale'' skale (EncodePoolIdsCall i) 3 d
      = (Result (''0x'' @ fmt_064x 0), d)"
    using sample_call [of zero_pools "EncodePoolIdsCall i" "''0x'' @ fmt_064x 0" sample_opts "''skale''" skale 2 d]
    by (simp add: numeral_3_eq_3)
  have "DecodePoolIdResponse (''0x'' @ fmt_064x 0) = Ok 0"
    by (simp add: DecodePoolIdResponse_def Let_def ParseUint_fmt_064x to_uint32_def)
  moreover have "2 < length (''0x'' @ fmt_064x 0)" by simp
  ultimately show ?thesis unfolding pool_list_step_def by (simp add: call)
qed

text \<open>
  The index limit alone does not end the enumeration: the branches that skip a pool bypass it, so
  against a chain that answers pool id 0 at every index no number of iterations suffices. Only the
  deadline of the context, which makes the calls fail, stops such a run.
\<close>

lemma pool_list_limit_bypassed:
  "HandleEVMPoolList (sample_env zero_pools) sample_opts fuel ''skale'' d = None"
proof -
  have "run_loop (pool_list_step (sample_env zero_pools) sample_opts ''skale'' skale) fuel (0, [], d) = None"
    by (rule run_loop_diverges [where I = "\<lambda>_. True"]) (auto simp: zero_pools_step)
  then show ?thesis by (simp add: HandleEVMPoolList_def)
qed

lemma silent_call: "\<exists>e. eth_call (sample_env Map.empty) sample_opts ''skale'' skale data 3 d = (CallFailed, e)"
  by (simp add: eth_call_def callEVMChainWithRetry_def callEVMChain_def send_def sample_env_def selector_node_def
      rpc_request_def eth_params_def numeral_3_eq_3 wait_for_def GetChainConfigs_def)

theorem pool_list_returns_witness:
  "\<exists>r. HandleEVMPoolList (sample_env Map.empty) sample_opts (Suc 0) ''skale'' (sample_device 0) = Some r"
proof (rule pool_list_returns [OF chainConfigs_skale])
  fix d
  show "no_pool_here (fst (eth_call (sample_env Map.empty) sample_opts ''skale'' skale (EncodePoolIdsCall 0) 3 d))"
    using silent_call [of "EncodePoolIdsCall 0" d] by (auto simp: no_pool_here_def)
qed simp

lemma silent_list: "\<exists>e. HandleEVMPoolList (sample_env Map.empty) sample_opts 1 ''skale'' (sample_device 0) = Some (Ok [], e)"
  using silent_call [of "EncodePoolIdsCall 0" "sample_device 0"]
  by (auto simp: HandleEVMPoolList_def pool_list_step_def)

theorem pool_list_bounded_witness:
  "\<exists>e. HandleEVMPoolList (sample_env Map.empty) sample_opts 1 ''skale'' (sample_device 0) = Some (Ok [], e) \<and>
     length ([] :: EVMPool list) \<le> 21 \<and> same_local (sample_device 0) e"
  using silent_list pool_list_bounded [of "sample_env Map.empty" sample_opts 1 "''skale''" "sample_device 0" "[]"]
  by fastforce

end
