(* ===== verification/ApiRelay.thy ===== *)
theory ApiRelay
  imports ApiTypes EvmChain
begin

text \<open>
  The path from a request on the device to the Fula API: \<^verbatim>\<open>callBlockchain\<close>, \<^verbatim>\<open>PlugSeedIfNeeded\<close>, the
  generic relay \<^verbatim>\<open>handleAction\<close> and the batch upload of \<^verbatim>\<open>blockchain/blockchain.go\<close>, the manifest calls of
  \<^verbatim>\<open>blockchain/bl_manifest.go\<close> and the key store of \<^verbatim>\<open>blockchain/keystore.go\<close>.
\<close>

section \<open>The key store\<close>

definition seed_path :: "'w options \<Rightarrow> string" where
  "seed_path opts = secretsDir opts @ ''/secret_seed.txt''"

definition SaveKey :: "'w options \<Rightarrow> string \<Rightarrow> 'w device \<Rightarrow> bool \<times> 'w device" where
  "SaveKey opts key d = WriteFile (seed_path opts) (Text key) d"

definition LoadKey :: "'w options \<Rightarrow> 'w device \<Rightarrow> (fs_error, string) outcome" where
  "LoadKey opts d = and_then (ReadFile (seed_path opts) d) (\<lambda>f. Ok (TrimSpace (file_text f)))"


section \<open>Calls to the API\<close>

definition prependProtocol :: "string \<Rightarrow> string" where
  "prependProtocol addr =
     (if HasPrefix addr ''localhost'' \<or> HasPrefix addr ''127.0.0.1'' \<or> HasPrefix addr ''192.168.'' \<or> HasPrefix addr ''10.''
      then ''http://'' @ addr else ''https://'' @ addr)"

text \<open>\<^verbatim>\<open>strings.Replace(action, "-", "/", -1)\<close>.\<close>

definition slashes :: "string \<Rightarrow> string" where
  "slashes action = map (\<lambda>c. if c = CHR ''-'' then CHR ''/'' else c) action"

definition seed_actions :: "string list" where
  "seed_actions =
     [''account-seeded'', ''account-exists'', ''account-fund'', ''fula-pool-create'', ''fula-pool-cancel_join'',
      ''fula-pool-vote'', ''fula-manifest-upload'', ''fula-manifest-storage'', ''fula-manifest-remove'',
      ''fula-manifest-remove_storer'', ''fula-manifest-remove_storing_manifest'', ''fula-manifest-batch_upload'',
      ''fula-manifest-batch_storage'', ''fula-mumbai-convert_tokens'', ''fula-goerli-convert_tokens'']"

text \<open>The request of a call: nil, a struct value, or a pointer to a struct.\<close>

datatype payload = NilReq | StructVal gty json | StructPtr gty json

fun marshal :: "payload \<Rightarrow> json" where
  "marshal NilReq = JNull"
| "marshal (StructVal t x) = encode_go t x"
| "marshal (StructPtr t x) = encode_go t x"

definition PlugSeedIfNeeded :: "'w options \<Rightarrow> string \<Rightarrow> payload \<Rightarrow> 'w device \<Rightarrow> json" where
  "PlugSeedIfNeeded opts action p d =
     (if action \<in> set seed_actions then
        (let seed = (case LoadKey opts d of Ok s \<Rightarrow> s | _ \<Rightarrow> []) in
         case p of
           StructPtr (GStruct fs) x \<Rightarrow> encode_go (GStruct (fs @ [(''seed'', GStr, False)]))
             (JObj (entries x @ [(''seed'', JStr seed)]))
         | _ \<Rightarrow> marshal p)
      else marshal p)"

definition callBlockchain ::
  "'w env \<Rightarrow> 'w options \<Rightarrow> string \<Rightarrow> string \<Rightarrow> payload \<Rightarrow> 'w device \<Rightarrow> call \<times> 'w device" where
  "callBlockchain env opts mth action p d =
     (case send env \<lparr>hq_method = mth, hq_url = prependProtocol (blockchainEndPoint opts) @ ''/'' @ slashes action,
            hq_body = Doc (PlugSeedIfNeeded opts action p d)\<rparr> d of
        (NetErr, d1) \<Rightarrow> (Failed 0, d1)
      | (Reply st b, d1) \<Rightarrow> (read_all st b, d1))"

lemma callBlockchain_local [frame_intros]: "callBlockchain env opts m a p d = (c, e) \<Longrightarrow> same_local d e"
  by (auto simp: callBlockchain_def dest!: send_local split: prod.splits net_reply.splits)


section \<open>The generic relay\<close>

text \<open>
  Decoding into a pointer held by an interface: null replaces the pointer by nil, any other document
  fills the struct.
\<close>

definition decode_request :: "gty \<Rightarrow> json \<Rightarrow> payload option" where
  "decode_request t v = (if v = JNull then Some NilReq else map_option (StructPtr t) (decode_new t v))"

definition fill_response :: "gty \<Rightarrow> body \<Rightarrow> json" where
  "fill_response t b =
     (case unmarshal b of
        None \<Rightarrow> encode_go t (zero_val t)
      | Some JNull \<Rightarrow> JNull
      | Some v \<Rightarrow> encode_go t (fill t (zero_val t) v))"

text \<open>A body that decodes into a \<^verbatim>\<open>map[string]interface{}\<close>, or a document wrapping it.\<close>

definition as_object :: "body \<Rightarrow> bool" where
  "as_object b = (case unmarshal b of Some j \<Rightarrow> as_map j \<noteq> None | None \<Rightarrow> False)"

definition relay_failure :: "'w env \<Rightarrow> nat \<Rightarrow> body \<Rightarrow> http_resp option" where
  "relay_failure env st b =
     WriteHeader st (if as_object b then b else Doc (error_doc ''Error'' (raw_text env b)))"

text \<open>The reply to an API call, given its result; \<open>ok_status\<close> holds the statuses taken as success.\<close>

definition relay_reply :: "'w env \<Rightarrow> gty \<Rightarrow> nat set \<Rightarrow> call \<Rightarrow> http_resp option" where
  "relay_reply env t ok_status c =
     (case c of
        Failed st \<Rightarrow> WriteHeader st (Doc (error_doc ''An error occurred'' []))
      | Answer b st \<Rightarrow>
          if st \<notin> ok_status then relay_failure env st b
          else WriteHeader StatusAccepted (Doc (fill_response t b)))"

definition handleAction ::
  "'w env \<Rightarrow> 'w options \<Rightarrow> string \<Rightarrow> string \<Rightarrow> body \<Rightarrow> 'w device \<Rightarrow> http_resp option \<times> 'w device" where
  "handleAction env opts mth action rbody d =
     (case (requestTypes action, responseTypes action) of
        (Some t, Some u) \<Rightarrow>
          (case Option.bind (decode_first rbody) (decode_request t) of
             None \<Rightarrow> (Some (http_Error StatusBadRequest []), d)
           | Some p \<Rightarrow>
               (case callBlockchain env opts mth action p d of
                  (c, d1) \<Rightarrow> (relay_reply env u {StatusOK} c, d1)))
      | _ \<Rightarrow> (None, d))"

section \<open>Replication in a pool\<close>

text \<open>The manifests of a response: the value of one of their fields.\<close>

definition elements :: "json \<Rightarrow> json list" where
  "elements v = (case v of JArr vs \<Rightarrow> vs | _ \<Rightarrow> [])"

definition text_of :: "json \<Rightarrow> string" where
  "text_of v = (case v of JStr s \<Rightarrow> s | _ \<Rightarrow> [])"

definition int_of :: "json \<Rightarrow> int" where
  "int_of v = (case v of JNum i \<Rightarrow> i | _ \<Rightarrow> 0)"

text \<open>The pin loop: undecodable cids and failed pins are skipped.\<close>

fun pin_all :: "'w env \<Rightarrow> string list \<Rightarrow> 'w device \<Rightarrow> string list \<times> 'w device" where
  "pin_all env [] d = ([], d)"
| "pin_all env (c # cs) d =
     (case cid_Decode env c of
        None \<Rightarrow> pin_all env cs d
      | Some c' \<Rightarrow>
          (case cluster_pin env c' (world d) of
             (r, w) \<Rightarrow>
               (case pin_all env cs (d\<lparr>world := w\<rparr>) of
                  (rs, e) \<Rightarrow> ((case r of None \<Rightarrow> rs | Some x \<Rightarrow> x # rs), e))))"

definition failed_dependency :: "string \<Rightarrow> http_resp option" where
  "failed_dependency description = WriteHeader StatusFailedDependency (Doc (error_doc ''An error occurred'' description))"

definition handleReplicateInPool ::
  "'w env \<Rightarrow> 'w options \<Rightarrow> string \<Rightarrow> body \<Rightarrow> 'w device \<Rightarrow> http_resp option \<times> 'w device" where
  "handleReplicateInPool env opts mth rbody d =
     (case Option.bind (decode_first rbody) (decode_new ReplicateRequest) of
        None \<Rightarrow> (Some (http_Error StatusBadRequest ''cannot parse request body''), d)
      | Some rq \<Rightarrow>
          (case callBlockchain env opts mth ''fula-manifest-available_batch'' (StructVal ReplicateRequest rq) d of
             (Failed st, d1) \<Rightarrow> (WriteHeader st (Doc (error_doc ''An error occurred'' [])), d1)
           | (Answer b st, d1) \<Rightarrow>
               if st \<noteq> StatusOK then (relay_failure env st b, d1)
               else (case Option.bind (unmarshal b) (decode_new ReplicateResponse) of
                       None \<Rightarrow> (failed_dependency [], d1)
                     | Some res \<Rightarrow>
                         let manifests = elements (entry ''manifests'' res) in
                         if manifests = [] then
                           (WriteHeader StatusNoContent
                              (Doc (error_doc ''An error occurred'' ''no uploadable manifests could be found'')), d1)
                         else (case Atoi (topicName opts) of
                           None \<Rightarrow> (failed_dependency ''endpoint is not a member of valid pool'', d1)
                         | Some poolInt \<Rightarrow>
                             if int_of (entry ''pool_id'' rq) \<noteq> poolInt then
                               (failed_dependency ''Endpoint is not a member of requested replication pool'', d1)
                             else if \<not> ipfsClusterApi opts then (failed_dependency ''ipfs cluster API is nil'', d1)
                             else (case pin_all env (map (\<lambda>m. text_of (entry ''cid'' m)) manifests) d1 of
                               (pins, d2) \<Rightarrow>
                                 (WriteHeader StatusAccepted
                                    (Doc (if pins = [] then JNull else JArr (map JStr pins))), d2))))))"


section \<open>The pool's cluster\<close>

definition creatorPeerIDFilePath :: "int \<Rightarrow> string" where
  "creatorPeerIDFilePath poolID = ''/internal/.tmp/pool_'' @ Itoa poolID @ ''_creator.tmp''"

definition loadCreatorPeerID :: "int \<Rightarrow> 'w device \<Rightarrow> (fs_error, string) outcome" where
  "loadCreatorPeerID poolID d =
     (case ReadFile (creatorPeerIDFilePath poolID) d of
        Err NotExist \<Rightarrow> Ok []
      | Err FsFailure \<Rightarrow> Err FsFailure
      | Panic \<Rightarrow> Panic
      | Ok f \<Rightarrow> Ok (TrimSpace (file_text f)))"

definition saveCreatorPeerID :: "int \<Rightarrow> string \<Rightarrow> 'w device \<Rightarrow> bool \<times> 'w device" where
  "saveCreatorPeerID poolID peerID d = WriteFile (creatorPeerIDFilePath poolID) (Text peerID) d"

definition cluster_host :: "int \<Rightarrow> string" where
  "cluster_host poolID = Itoa poolID @ ''.pools.functionyard.fula.network''"

text \<open>A getter that is called without a nil check panics when it is nil.\<close>

definition getClusterEndpoint ::
  "'w env \<Rightarrow> 'w options \<Rightarrow> int \<Rightarrow> 'w device \<Rightarrow> (evm_error, string) outcome \<times> 'w device" where
  "getClusterEndpoint env opts poolID d =
     (case loadCreatorPeerID poolID d of
        Ok (c # cs) \<Rightarrow> (Ok (cluster_host poolID), d)
      | _ \<Rightarrow>
          (case getChainName opts of
             None \<Rightarrow> (Panic, d)
           | Some get \<Rightarrow>
               (case get d of
                  (configured, d0) \<Rightarrow>
                    let chainName = (if configured = [] then ''skale'' else configured) in
                    (case GetPoolCreatorPeerID env opts (to_uint32 poolID) chainName d0 of
                       (Panic, d1) \<Rightarrow> (Panic, d1)
                     | (Ok peerID, d1) \<Rightarrow> (Ok (cluster_host poolID), snd (saveCreatorPeerID poolID peerID d1))
                     | (Err _, d1) \<Rightarrow>
                         let fallbackChain = (if chainName = ''base'' then ''skale'' else ''base'') in
                         (case GetPoolCreatorPeerID env opts (to_uint32 poolID) fallbackChain d1 of
                            (Panic, d2) \<Rightarrow> (Panic, d2)
                          | (Err e, d2) \<Rightarrow> (Err e, d2)
                          | (Ok peerID, d2) \<Rightarrow>
                              let d3 = (case updateChainName opts of None \<Rightarrow> d2 | Some f \<Rightarrow> snd (f fallbackChain d2)) in
                              (Ok (cluster_host poolID), snd (saveCreatorPeerID poolID peerID d3)))))))"

text \<open>
  \<^verbatim>\<open>http.Post\<close>: the client refuses a URL whose scheme is neither \<^verbatim>\<open>http\<close> nor \<^verbatim>\<open>https\<close> before it sends
  anything.
\<close>

definition http_Post :: "'w env \<Rightarrow> string \<Rightarrow> body \<Rightarrow> 'w device \<Rightarrow> net_reply \<times> 'w device" where
  "http_Post env url b d =
     (if HasPrefix url ''http://'' \<or> HasPrefix url ''https://''
      then send env \<lparr>hq_method = ''POST'', hq_url = url, hq_body = b\<rparr> d
      else (NetErr, d))"

definition convertMobileRequestToFullRequest :: "json \<Rightarrow> json" where
  "convertMobileRequestToFullRequest m =
     (let cids = elements (entry ''cid'' m) in
      JObj [(''cid'', entry ''cid'' m), (''pool_id'', entry ''pool_id'' m),
            (''replication_factor'', JArr (map (\<lambda>_. entry ''replication_factor'' m) cids)),
            (''manifest_metadata'',
               JArr (map (\<lambda>c. JObj [(''job'', JObj [(''work'', JStr ''Storage''), (''engine'', JStr ''IPFS''), (''uri'', c)])]) cids))])"

definition batch_error :: "nat \<Rightarrow> string \<Rightarrow> string \<Rightarrow> http_resp option" where
  "batch_error st message description = WriteHeader st (Doc (error_doc message description))"

definition handleActionManifestBatchUpload ::
  "'w env \<Rightarrow> 'w options \<Rightarrow> json \<Rightarrow> 'w device \<Rightarrow> http_resp option \<times> 'w device" where
  "handleActionManifestBatchUpload env opts rq d =
     (let poolID = int_of (entry ''pool_id'' rq);
          accepted = WriteHeader StatusAccepted (Doc (encode_go ManifestBatchUploadResponse (zero_val ManifestBatchUploadResponse))) in
      if poolID = 0 then (accepted, d)
      else (case getClusterEndpoint env opts poolID d of
        (Panic, d1) \<Rightarrow> (None, d1)
      | (Err _, d1) \<Rightarrow> (batch_error StatusFailedDependency ''Error'' [], d1)
      | (Ok ep, d1) \<Rightarrow>
          if ep = [] then (batch_error StatusFailedDependency ''Error'' ''Wrong cluster endpoint'', d1)
          else (case http_Post env (ep @ ''/pins'')
                       (Doc (JObj [(''pool_id'', JNum poolID), (''cids'', entry ''cid'' rq)])) d1 of
            (NetErr, d2) \<Rightarrow> (batch_error StatusFailedDependency ''Error'' [], d2)
          | (Reply st b, d2) \<Rightarrow>
              if st \<noteq> StatusAccepted
              then (batch_error st ''Replication Error'' (case b of None \<Rightarrow> [] | Some x \<Rightarrow> raw_text env x), d2)
              else (accepted, d2))))"

text \<open>The closure of \<^verbatim>\<open>dispatch\<close> for batch uploads: decode the phone's request, convert, upload.\<close>

definition batch_upload_action ::
  "'w env \<Rightarrow> 'w options \<Rightarrow> body \<Rightarrow> 'w device \<Rightarrow> http_resp option \<times> 'w device" where
  "batch_upload_action env opts rbody d =
     (case Option.bind (decode_first rbody) (decode_new ManifestBatchUploadMobileRequest) of
        None \<Rightarrow> (Some (http_Error StatusBadRequest []), d)
      | Some m \<Rightarrow> handleActionManifestBatchUpload env opts (convertMobileRequestToFullRequest m) d)"

section \<open>Manifest calls\<close>

text \<open>A link is represented by the text of its cid.\<close>

datatype api_error = BadPoolID | CallError nat | UnexpectedStatus nat | BadResponse | BadCid

text \<open>A call that wants status 200 and a document of type \<open>t\<close>.\<close>

definition expect_ok :: "gty \<Rightarrow> call \<Rightarrow> (api_error, json) outcome" where
  "expect_ok t c =
     (case c of
        Failed st \<Rightarrow> Err (CallError st)
      | Answer b st \<Rightarrow>
          if st \<noteq> StatusOK then Err (UnexpectedStatus st)
          else or_err BadResponse (Option.bind (unmarshal b) (decode_new t)))"

definition string_list :: "string list \<Rightarrow> json" where
  "string_list ss = (if ss = [] then JNull else JArr (map JStr ss))"

definition HandleManifestAvailableAllaccountsBatch ::
  "'w env \<Rightarrow> 'w options \<Rightarrow> string \<Rightarrow> string list \<Rightarrow> 'w device \<Rightarrow> (api_error, string list) outcome \<times> 'w device" where
  "HandleManifestAvailableAllaccountsBatch env opts poolIDString links d =
     (case Atoi poolIDString of
        None \<Rightarrow> (Err BadPoolID, d)
      | Some poolID \<Rightarrow>
          (case callBlockchain env opts ''POST'' ''fula-manifest-available_allaccounts_batch''
                  (StructPtr AvailableAllaccountsBatchRequest
                     (JObj [(''cids'', string_list links), (''pool_id'', JNum poolID)])) d of
             (c, d1) \<Rightarrow>
               (and_then (expect_ok BatchManifestAllaccountsResponse c) (\<lambda>resp.
                  Ok (List.map_filter (\<lambda>m. cid_Decode env (text_of (entry ''cid'' m)))
                        (elements (entry ''manifests'' resp)))), d1)))"

definition HandleManifestBatchStore ::
  "'w env \<Rightarrow> 'w options \<Rightarrow> string \<Rightarrow> string list \<Rightarrow> 'w device \<Rightarrow> (api_error, string list) outcome \<times> 'w device" where
  "HandleManifestBatchStore env opts poolIDString links d =
     (case Atoi poolIDString of
        None \<Rightarrow> (Err BadPoolID, d)
      | Some poolID \<Rightarrow>
          (case callBlockchain env opts ''POST'' ''fula-manifest-batch_storage''
                  (StructPtr ManifestBatchStoreRequest
                     (JObj [(''cid'', string_list links), (''pool_id'', JNum poolID)])) d of
             (c, d1) \<Rightarrow>
               (and_then (expect_ok ManifestBatchStoreResponse c) (\<lambda>resp.
                  Ok (map text_of (elements (entry ''cid'' resp)))), d1)))"

text \<open>The grouping loop: it decodes the cid first and stops at the limit.\<close>

fun links_with_limits :: "'w env \<Rightarrow> int \<Rightarrow> (string \<times> int) list \<Rightarrow> json list \<Rightarrow> (api_error, (string \<times> int) list) outcome" where
  "links_with_limits env limit acc [] = Ok acc"
| "links_with_limits env limit acc (m # ms) =
     (case cid_Decode env (text_of (entry ''uri'' (entry ''job'' (entry ''manifest_metadata'' m)))) of
        None \<Rightarrow> Err BadCid
      | Some c \<Rightarrow>
          if int (length acc) < limit
          then links_with_limits env limit (acc @ [(c, int_of (entry ''replication_available'' m))]) ms
          else Ok acc)"

definition HandleManifestsAvailable ::
  "'w env \<Rightarrow> 'w options \<Rightarrow> string \<Rightarrow> int \<Rightarrow> 'w device \<Rightarrow> (api_error, (string \<times> int) list) outcome \<times> 'w device" where
  "HandleManifestsAvailable env opts poolIDString limit d =
     (case Atoi poolIDString of
        None \<Rightarrow> (Err BadPoolID, d)
      | Some poolID \<Rightarrow>
          (case callBlockchain env opts ''POST'' ''fula-manifest-available''
                  (StructPtr ManifestAvailableRequest (JObj [(''pool_id'', JNum poolID)])) d of
             (c, d1) \<Rightarrow>
               (and_then (expect_ok ManifestAvailableResponse c) (\<lambda>resp.
                  links_with_limits env limit [] (elements (entry ''manifests'' resp))), d1)))"


section \<open>Properties of the relay\<close>

lemma fill_response_exact:
  assumes "api_type u" and "has_type u x"
  shows "fill_response u (Doc (encode_go u x)) = encode_go u x \<or> encode_go u x = JNull"
proof (cases "encode_go u x")
  case JNull
  then show ?thesis by simp
next
  case (JObj kvs)
  moreover have "decode_go u (zero_val u) (encode_go u x) = Some x"
    using decode_encode assms api_type_wf by blast
  ultimately show ?thesis by (auto simp: fill_response_def dest: fill_decode)
qed (use decode_encode [of u x] assms api_type_wf fill_decode in \<open>auto simp: fill_response_def\<close>)

lemma api_type_struct: "api_type u \<Longrightarrow> \<exists>fs. u = GStruct fs"
  unfolding api_type_def requestTypes_def responseTypes_def
  by (elim exE disjE) (auto simp: api_types_defs split: if_splits)

text \<open>
  The relay is transparent on success: when the API answers 200 with the document of a value of
  the action's response type, the phone receives status 202 and exactly that document.
\<close>

lemma relay_transparent:
  assumes "requestTypes action = Some t" and "responseTypes action = Some u"
    and "Option.bind (decode_first rbody) (decode_request t) = Some p"
    and "callBlockchain env opts mth action p d = (Answer (Doc (encode_go u x)) StatusOK, d1)"
    and "has_type u x"
  shows "handleAction env opts mth action rbody d =
    (Some \<lparr>rs_status = StatusAccepted, rs_body = Doc (encode_go u x)\<rparr>, d1)"
proof -
  have u: "api_type u" using assms(2) by (auto simp: api_type_def)
  obtain fs where "u = GStruct fs" using api_type_struct [OF u] by blast
  with fill_response_exact [OF u assms(5)] have "fill_response u (Doc (encode_go u x)) = encode_go u x" by simp
  with assms show ?thesis by (simp add: handleAction_def relay_reply_def)
qed

text \<open>
  When the API cannot be reached the relay sends nothing: the error branch calls
  \<^verbatim>\<open>w.WriteHeader\<close> with status 0, which panics before the prepared error document is written, so the
  phone sees a dropped connection.
\<close>

lemma relay_unreachable_api_drops:
  assumes "requestTypes action = Some t" and "responseTypes action = Some u"
    and "Option.bind (decode_first rbody) (decode_request t) = Some p"
    and "callBlockchain env opts mth action p d = (Failed 0, d1)"
  shows "handleAction env opts mth action rbody d = (None, d1)"
  using assms by (simp add: handleAction_def relay_reply_def)

lemma send_files:
  "send env r (d\<lparr>files := f\<rparr>) = (case send env r d of (x, e) \<Rightarrow> (x, e\<lparr>files := f\<rparr>))"
  by (simp add: send_def split: prod.splits)

text \<open>
  The wallet seed stays out of every other call: for an action outside the fifteen seed actions
  the relay behaves the same whatever the seed file holds.
\<close>

lemma seed_only_where_needed:
  assumes "action \<notin> set seed_actions"
  shows "handleAction env opts mth action rbody (d\<lparr>files := (files d)(seed_path opts := f)\<rparr>) =
    (case handleAction env opts mth action rbody d of
       (r, e) \<Rightarrow> (r, e\<lparr>files := (files d)(seed_path opts := f)\<rparr>))"
  using assms
  by (auto simp: handleAction_def callBlockchain_def PlugSeedIfNeeded_def send_files
      split: option.splits prod.splits net_reply.splits)

lemma cluster_host_no_scheme:
  "\<not> HasPrefix (cluster_host p @ s) ''http://'' \<and> \<not> HasPrefix (cluster_host p @ s) ''https://''"
proof -
  have "hd (Itoa p) \<noteq> CHR ''h''"
  proof (cases "p < 0")
    case False
    have "hd (digits_of 10 (nat p)) \<in> set (digits_of 10 (nat p))" by (intro hd_in_set) simp
    then obtain k where "k < 10" "hd (digits_of 10 (nat p)) = hex_digit k"
      using set_digits_of [of 10 "hd (digits_of 10 (nat p))" "nat p"] by auto
    moreover from this(1) have "hex_digit k \<noteq> CHR ''h''" using hex_val_digit [of k] by (auto simp: hex_val_def)
    ultimately show ?thesis using False by (simp add: Itoa_def)
  qed (simp add: Itoa_def)
  moreover have "Itoa p \<noteq> []" by (simp add: Itoa_def)
  ultimately show ?thesis by (cases "Itoa p") (auto simp: cluster_host_def)
qed

lemma http_Post_no_scheme: "http_Post env (cluster_host p @ s) b d = (NetErr, d)"
  using cluster_host_no_scheme [of p s] by (simp add: http_Post_def)

lemma getClusterEndpoint_host:
  "getClusterEndpoint env opts p d = (Ok ep, e) \<Longrightarrow> ep = cluster_host p"
  by (auto simp: getClusterEndpoint_def Let_def split: outcome.splits list.splits option.splits prod.splits)

lemma cluster_host_not_Nil [simp]: "cluster_host p \<noteq> []"
  by (simp add: cluster_host_def)

text \<open>
  A batch upload to a pool never reaches the pool's cluster: the endpoint is a host name without
  a scheme, the HTTP client refuses such a URL, and so every upload with a pool id other than 0 is
  answered with status 424 (or dropped), whatever the chain and the cluster would have said.
\<close>

lemma batch_upload_never_pins:
  assumes "int_of (entry ''pool_id'' rq) \<noteq> 0"
    and "handleActionManifestBatchUpload env opts rq d = (Some resp, e)"
  shows "rs_status resp = StatusFailedDependency"
proof -
  obtain x d1 where ep: "getClusterEndpoint env opts (int_of (entry ''pool_id'' rq)) d = (x, d1)"
    by (cases "getClusterEndpoint env opts (int_of (entry ''pool_id'' rq)) d") auto
  show ?thesis
  proof (cases x)
    case (Ok h)
    with ep have "h = cluster_host (int_of (entry ''pool_id'' rq))" by (auto dest: getClusterEndpoint_host)
    with assms ep Ok show ?thesis
      by (auto simp: handleActionManifestBatchUpload_def Let_def http_Post_no_scheme batch_error_def)
  qed (use assms ep in \<open>auto simp: handleActionManifestBatchUpload_def Let_def batch_error_def\<close>)
qed

lemma links_with_limits_length:
  "links_with_limits env limit acc ms = Ok r \<Longrightarrow>
     (\<exists>s. r = acc @ s) \<and> int (length r) \<le> max limit (int (length acc)) \<and> length r \<le> length acc + length ms"
proof (induction ms arbitrary: acc)
  case (Cons m ms)
  then show ?case by (fastforce split: option.splits if_splits)
qed simp

text \<open>
  The manifests offered for a pool are at most as many as asked for (and none for a limit that is
  not positive), each with a decodable cid, and asking changes nothing on the device.
\<close>

lemma manifests_respect_limit:
  assumes "HandleManifestsAvailable env opts pool limit d = (Ok links, e)"
  shows "int (length links) \<le> max limit 0 \<and> same_local d e"
  using assms
  by (auto simp: HandleManifestsAvailable_def outcome_simps dest!: links_with_limits_length callBlockchain_local
      split: option.splits prod.splits)

lemma pin_all_local: "pin_all env cs d = (rs, e) \<Longrightarrow> same_local d e \<and> length rs \<le> length cs"
proof (induction env cs d arbitrary: rs e rule: pin_all.induct)
  case (2 env c cs d)
  then show ?case
    by (fastforce split: option.splits prod.splits intro: same_local_trans [OF same_local_world])
qed simp

text \<open>
  A record of the pins that the outside world may keep: the content ids handed to the cluster client, in order; HTTP requests add
  none.
\<close>

definition pin_record :: "'w env \<Rightarrow> ('w \<Rightarrow> string list) \<Rightarrow> bool" where
  "pin_record env pinned \<longleftrightarrow>
     (\<forall>r w. pinned (snd (net env r w)) = pinned w) \<and> (\<forall>c w. pinned (snd (cluster_pin env c w)) = pinned w @ [c])"

text \<open>
  What a replication request should pin: nothing, unless it names the pool of this device and the cluster client is set; then
  the content of every manifest that the API offers for the request.
\<close>

definition to_replicate :: "'w env \<Rightarrow> 'w options \<Rightarrow> string \<Rightarrow> body \<Rightarrow> 'w device \<Rightarrow> string list" where
  "to_replicate env opts mth rbody d =
     (case Option.bind (decode_first rbody) (decode_new ReplicateRequest) of
        None \<Rightarrow> []
      | Some rq \<Rightarrow>
          if Atoi (topicName opts) \<noteq> Some (int_of (entry ''pool_id'' rq)) \<or> \<not> ipfsClusterApi opts then []
          else (case fst (callBlockchain env opts mth ''fula-manifest-available_batch'' (StructVal ReplicateRequest rq) d) of
                  Failed st \<Rightarrow> []
                | Answer b st \<Rightarrow>
                    (if st \<noteq> StatusOK then []
                     else (case Option.bind (unmarshal b) (decode_new ReplicateResponse) of
                             None \<Rightarrow> []
                           | Some res \<Rightarrow>
                               List.map_filter (cid_Decode env) (map (\<lambda>m. text_of (entry ''cid'' m)) (elements (entry ''manifests'' res)))))))"

lemma callBlockchain_pins:
  "pin_record env pinned \<Longrightarrow> callBlockchain env opts m a p d = (c, d1) \<Longrightarrow> pinned (world d1) = pinned (world d)"
  unfolding pin_record_def callBlockchain_def send_def
  by (auto split: prod.splits net_reply.splits dest: spec) (metis snd_conv)+

lemma pin_all_pins:
  "pin_record env pinned \<Longrightarrow> pin_all env cs d = (rs, e) \<Longrightarrow> pinned (world e) = pinned (world d) @ List.map_filter (cid_Decode env) cs"
proof (induction env cs d arbitrary: rs e rule: pin_all.induct)
  case (2 env c cs d)
  show ?case
  proof (cases "cid_Decode env c")
    case None
    with 2 show ?thesis by (simp add: map_filter_simps)
  next
    case (Some c')
    obtain r w where r: "cluster_pin env c' (world d) = (r, w)" by fastforce
    with "2.prems"(1) have w: "pinned w = pinned (world d) @ [c']" by (metis pin_record_def snd_conv)
    from "2.prems"(2) Some r obtain rs' where "pin_all env cs (d\<lparr>world := w\<rparr>) = (rs', e)" by (auto split: prod.splits)
    from "2.IH"(2) [OF Some r [symmetric] "2.prems"(1) this] w Some show ?thesis by (simp add: map_filter_simps)
  qed
qed (simp add: map_filter_simps)

text \<open>
  C33. Content is pinned only for this device's own pool: whatever the request, the API and the answer to the phone are, the content
  ids handed to the cluster client while a replication request is handled are exactly those of the manifests that the API
  offered, in order, if the request names the pool the device is configured for and the cluster client is set, and none otherwise.
  If anything was pinned the request is accepted (202), and nothing on the device itself changes.
\<close>

theorem replicate_only_own_pool:
  assumes "pin_record env pinned" and "handleReplicateInPool env opts mth rbody d = (resp, e)"
  shows "pinned (world e) = pinned (world d) @ to_replicate env opts mth rbody d \<and> same_local d e \<and>
    (to_replicate env opts mth rbody d \<noteq> [] \<longrightarrow> (\<exists>r. resp = Some r \<and> rs_status r = StatusAccepted))"
proof (cases "Option.bind (decode_first rbody) (decode_new ReplicateRequest)")
  case None
  with assms(2) show ?thesis by (auto simp: handleReplicateInPool_def to_replicate_def)
next
  case (Some rq)
  obtain c d1 where c: "callBlockchain env opts mth ''fula-manifest-available_batch'' (StructVal ReplicateRequest rq) d = (c, d1)"
    by (cases "callBlockchain env opts mth ''fula-manifest-available_batch'' (StructVal ReplicateRequest rq) d") auto
  note p = callBlockchain_pins [OF assms(1) c] and l = callBlockchain_local [OF c]
  show ?thesis
  proof (cases c)
    case (Failed st)
    with Some c p l assms(2) show ?thesis by (auto simp: handleReplicateInPool_def to_replicate_def)
  next
    case (Answer b st)
    show ?thesis
    proof (cases "st = StatusOK \<and> Option.bind (unmarshal b) (decode_new ReplicateResponse) \<noteq> None")
      case False
      with Some c p l assms(2) Answer show ?thesis
        by (auto simp: handleReplicateInPool_def to_replicate_def split: if_splits)
    next
      case True
      then obtain res where res: "Option.bind (unmarshal b) (decode_new ReplicateResponse) = Some res" by auto
      show ?thesis
        using Some c p l assms(2) Answer True res pin_all_pins [OF assms(1)]
        by (auto simp: handleReplicateInPool_def to_replicate_def Let_def WriteHeader_def map_filter_simps
            dest!: pin_all_local intro: same_local_trans split: option.splits prod.splits if_splits)
    qed
  qed
qed

section \<open>Concrete runs\<close>

definition api_env :: "net_reply \<Rightarrow> int env" where
  "api_env r = (sample_env Map.empty)\<lparr>net := (\<lambda>_ w. (r, w))\<rparr>"

lemma api_env_call:
  "callBlockchain (api_env r) opts m a p d = (case r of NetErr \<Rightarrow> Failed 0 | Reply st b \<Rightarrow> read_all st b, d)"
  by (simp add: callBlockchain_def send_def api_env_def split: net_reply.splits)

abbreviation exists_doc :: json where
  "exists_doc \<equiv> JObj [(''account'', JStr ''5G''), (''exists'', JBool True)]"

lemma exists_request:
  "Option.bind (decode_first (Doc (JObj []))) (decode_request AccountExistsRequest) =
     Some (StructPtr AccountExistsRequest (JObj [(''account'', JStr [])]))"
  by (simp add: decode_request_def decode_new_def AccountExistsRequest_def entry_def)

lemma exists_types:
  "requestTypes ''account-exists'' = Some AccountExistsRequest"
  "responseTypes ''account-exists'' = Some AccountExistsResponse"
  by (simp_all add: requestTypes_def responseTypes_def)

lemma exists_encode: "encode_go AccountExistsResponse exists_doc = exists_doc"
  by (simp add: AccountExistsResponse_def entry_def)

theorem relay_transparent_witness:
  "handleAction (api_env (Reply StatusOK (Some (Doc exists_doc)))) sample_opts ''POST'' ''account-exists''
     (Doc (JObj [])) (sample_device 0)
   = (Some \<lparr>rs_status = StatusAccepted, rs_body = Doc exists_doc\<rparr>, sample_device 0)"
proof -
  have "callBlockchain (api_env (Reply StatusOK (Some (Doc exists_doc)))) sample_opts ''POST'' ''account-exists''
      (StructPtr AccountExistsRequest (JObj [(''account'', JStr [])])) (sample_device 0)
    = (Answer (Doc (encode_go AccountExistsResponse exists_doc)) StatusOK, sample_device 0)"
    unfolding exists_encode by (simp add: api_env_call read_all_def)
  from relay_transparent [OF exists_types exists_request this] show ?thesis
    unfolding exists_encode by (simp add: AccountExistsResponse_def)
qed

theorem relay_unreachable_api_drops_witness:
  "handleAction (api_env NetErr) sample_opts ''POST'' ''account-exists'' (Doc (JObj [])) (sample_device 0)
   = (None, sample_device 0)"
  by (rule relay_unreachable_api_drops [OF exists_types exists_request]) (simp add: api_env_call)

theorem seed_only_where_needed_witness:
  "''fula-pool'' \<notin> set seed_actions \<and>
   handleAction (api_env NetErr) sample_opts ''GET'' ''fula-pool'' (Doc JNull)
     ((sample_device 0)\<lparr>files := (files (sample_device (0 :: int)))(seed_path sample_opts := Some (Text ''secret''))\<rparr>) =
   (case handleAction (api_env NetErr) sample_opts ''GET'' ''fula-pool'' (Doc JNull) (sample_device 0) of
      (r, e) \<Rightarrow> (r, e\<lparr>files := (files (sample_device (0 :: int)))(seed_path sample_opts := Some (Text ''secret''))\<rparr>))"
proof -
  have n: "''fula-pool'' \<notin> set seed_actions" by (simp add: seed_actions_def)
  with seed_only_where_needed [OF n, of "api_env NetErr" sample_opts "''GET''" "Doc JNull" "sample_device 0" "Some (Text ''secret'')"]
  show ?thesis by blast
qed

abbreviation creator_device :: "int device" where
  "creator_device \<equiv> (sample_device 0)\<lparr>files := [creatorPeerIDFilePath 5 \<mapsto> Text ''12D3'']\<rparr>"

theorem batch_upload_never_pins_witness:
  "\<exists>resp e. handleActionManifestBatchUpload (api_env (Reply StatusAccepted (Some (Raw [])))) sample_opts
      (JObj [(''cid'', JNull), (''pool_id'', JNum 5)]) creator_device = (Some resp, e) \<and> rs_status resp = StatusFailedDependency"
proof -
  have load: "loadCreatorPeerID 5 creator_device = Ok ''12D3''"
    by (simp add: loadCreatorPeerID_def ReadFile_def sample_device_def TrimSpace_def is_space_def)
  then have "getClusterEndpoint (api_env (Reply StatusAccepted (Some (Raw [])))) sample_opts 5 creator_device
      = (Ok (cluster_host 5), creator_device)" by (simp add: getClusterEndpoint_def)
  then obtain resp e where r: "handleActionManifestBatchUpload (api_env (Reply StatusAccepted (Some (Raw [])))) sample_opts
      (JObj [(''cid'', JNull), (''pool_id'', JNum 5)]) creator_device = (Some resp, e)"
    by (simp add: handleActionManifestBatchUpload_def Let_def int_of_def entry_def http_Post_no_scheme batch_error_def)
  with batch_upload_never_pins [OF _ r] show ?thesis by (auto simp: int_of_def entry_def)
qed

lemma empty_manifests:
  "HandleManifestsAvailable (api_env (Reply StatusOK (Some (Doc (JObj []))))) sample_opts ''5'' 3 (sample_device 0) = (Ok [], sample_device 0)"
proof -
  have "Atoi ''5'' = Some 5" by (simp add: Atoi_def hex_val_def in_int64_def)
  then show ?thesis
    by (simp add: HandleManifestsAvailable_def api_env_call read_all_def expect_ok_def decode_new_def
        ManifestAvailableResponse_def entry_def elements_def)
qed

theorem manifests_respect_limit_witness:
  "int (length ([] :: (string \<times> int) list)) \<le> max 3 0 \<and> same_local (sample_device (0 :: int)) (sample_device 0)"
  using manifests_respect_limit [OF empty_manifests] by simp

definition manifests_doc :: json where
  "manifests_doc = JObj [(''manifests'', JArr [JObj [(''cid'', JStr ''Qm''), (''replication_available'', JNum 1)]])]"

definition replicate_doc :: json where
  "replicate_doc = JObj [(''cids'', JArr [JStr ''Qm'']), (''uploader'', JStr ''5G''), (''pool_id'', JNum 5)]"

text \<open>A world that is the list of the pins so far, with an API that always offers the manifest of \<open>Qm\<close>.\<close>

definition pin_env :: "string list env" where
  "pin_env = \<lparr>net = (\<lambda>_ w. (Reply StatusOK (Some (Doc manifests_doc)), w)), wait = (\<lambda>_ w. (True, w)), clock = (\<lambda>w. (0, w)),
     drain = (\<lambda>w. (True, w)), str_pad = CHR ''0'', raw_text = (\<lambda>_. []), reencode = id, cid_Decode = Some,
     cluster_pin = (\<lambda>c w. (Some c, w @ [c])), codec = hex_codec\<rparr>"

definition pin_opts :: "string \<Rightarrow> string list options" where
  "pin_opts pool = \<lparr>selfPeerID = ''dev'', authorizer = ''own'', clusterPeerID = [], poolHost = False,
     topicName = pool, ipfsClusterApi = True, blockchainEndPoint = ''api'', secretsDir = ''/internal/.secrets'',
     chainConfigOverride = None, updatePoolName = None, getPoolName = None, updateChainName = None,
     getChainName = None, onPoolConfigCleared = True\<rparr>"

lemma pin_docs:
  "decode_new ReplicateRequest replicate_doc = Some replicate_doc" "decode_new ReplicateResponse manifests_doc = Some manifests_doc"
  "Atoi ''5'' = Some 5" "Atoi ''6'' = Some 6"
  by (simp_all add: decode_new_def ReplicateRequest_def replicate_doc_def ReplicateResponse_def BatchManifest_def manifests_doc_def
      entry_def fold_eq_def lower_char_def in_int64_def Atoi_def hex_val_def)

lemma pin_sample:
  "to_replicate pin_env (pin_opts ''5'') ''POST'' (Doc replicate_doc) d = [''Qm'']"
  "to_replicate pin_env (pin_opts ''6'') ''POST'' (Doc replicate_doc) d = []"
  by (simp_all add: to_replicate_def pin_docs callBlockchain_def send_def pin_env_def pin_opts_def read_all_def)
    (simp_all add: replicate_doc_def manifests_doc_def entry_def elements_def text_of_def int_of_def map_filter_simps)

theorem replicate_only_own_pool_witness:
  "world (snd (handleReplicateInPool pin_env (pin_opts ''5'') ''POST'' (Doc replicate_doc) (sample_device []))) = [''Qm''] \<and>
   world (snd (handleReplicateInPool pin_env (pin_opts ''6'') ''POST'' (Doc replicate_doc) (sample_device []))) = []"
proof -
  have m: "pin_record pin_env id" by (simp add: pin_record_def pin_env_def)
  have w: "world (sample_device []) = ([] :: string list)" by (simp add: sample_device_def)
  show ?thesis
    using replicate_only_own_pool [OF m prod.collapse [symmetric], of "pin_opts ''5''" "''POST''" "Doc replicate_doc" "sample_device []"]
      replicate_only_own_pool [OF m prod.collapse [symmetric], of "pin_opts ''6''" "''POST''" "Doc replicate_doc" "sample_device []"]
    by (simp add: pin_sample w)
qed

end
