(* ===== verification/Chat.thy ===== *)
theory Chat
  imports ApiRelay
begin

text \<open>
  The assistant's streamed answers: the handler \<^verbatim>\<open>handleChatWithAI\<close> on the device, the reader goroutine of
  \<^verbatim>\<open>ChatWithAI\<close> on the phone and the \<^verbatim>\<open>StreamBuffer\<close> between it and the application, all of
  \<^verbatim>\<open>blockchain/blox.go\<close>.

  The text of JSON documents matters here, so the parser and the printer of \<^verbatim>\<open>encoding/json\<close> are arguments:
  \<open>parse\<close> decodes a whole text (\<^const>\<open>None\<close>: an error), \<open>print\<close> is what \<^verbatim>\<open>Encoder.Encode\<close> writes before the
  newline.
\<close>

section \<open>On the device\<close>

definition ai_chunk :: gty where
  "ai_chunk = GStruct [(''id'', GStr, False), (''object'', GStr, False),
     (''choices'', GArr (GStruct [(''delta'', GStruct [(''content'', GStr, False)], False)]), False)]"

definition ai_content :: "json \<Rightarrow> string" where
  "ai_content c = concat (map (\<lambda>x. text_of (entry ''content'' (entry ''delta'' x))) (elements (entry ''choices'' c)))"

definition ChatWithAIResponse :: "string \<Rightarrow> json" where
  "ChatWithAIResponse msg = JObj [(''status'', JBool True), (''msg'', JStr msg)]"

text \<open>The loop over the chunks of the model: incomplete documents are kept until they parse.\<close>

fun chat_loop :: "(string \<Rightarrow> json option) \<Rightarrow> string \<Rightarrow> string list \<Rightarrow> json list" where
  "chat_loop parse buffer [] = []"
| "chat_loop parse buffer (chunk # chunks) =
     (if chunk = [] then chat_loop parse buffer chunks
      else (case Option.bind (parse (buffer @ chunk)) (decode_new ai_chunk) of
              None \<Rightarrow> chat_loop parse (buffer @ chunk) chunks
            | Some c \<Rightarrow> ChatWithAIResponse (ai_content c) # chat_loop parse [] chunks))"

text \<open>What the handler writes after the headers: one document and a newline per complete chunk.\<close>

definition chat_text :: "(json \<Rightarrow> string) \<Rightarrow> json list \<Rightarrow> string" where
  "chat_text print js = concat (map (\<lambda>j. print j @ [newline]) js)"

definition ChatWithAIRequest :: gty where
  "ChatWithAIRequest = GStruct [(''ai_model'', GStr, False), (''user_message'', GStr, False)]"

text \<open>
  \<open>fetch\<close> is \<^verbatim>\<open>wifi.FetchAIResponse\<close>: the chunks until the channel is closed or the context ends, or an
  error. The status line is out before the model is asked, so an error only appends its text.
\<close>

definition handleChatWithAI ::
  "(string \<Rightarrow> json option) \<Rightarrow> (json \<Rightarrow> string) \<Rightarrow> (string \<Rightarrow> string \<Rightarrow> 'w \<Rightarrow> string list option \<times> 'w) \<Rightarrow> body \<Rightarrow> 'w device \<Rightarrow>
   http_resp option \<times> 'w device" where
  "handleChatWithAI parse print fetch rbody d =
     (case Option.bind (decode_first rbody) (decode_new ChatWithAIRequest) of
        None \<Rightarrow> (Some (http_Error StatusBadRequest ''failed to decode request''), d)
      | Some req \<Rightarrow>
          (case fetch (text_of (entry ''ai_model'' req)) (text_of (entry ''user_message'' req)) (world d) of
             (None, w) \<Rightarrow> (Some \<lparr>rs_status = StatusOK, rs_body = Raw (''Error fetching AI response: '' @ [newline])\<rparr>, d\<lparr>world := w\<rparr>)
           | (Some chunks, w) \<Rightarrow>
               (Some \<lparr>rs_status = StatusOK, rs_body = Raw (chat_text print (chat_loop parse [] chunks))\<rparr>, d\<lparr>world := w\<rparr>)))"


section \<open>On the phone\<close>

text \<open>
  The lines \<^verbatim>\<open>ReadBytes\<close> returns, each with its newline. What follows the last newline comes with \<^verbatim>\<open>io.EOF\<close> and
  is not looked at.
\<close>

fun read_lines :: "string \<Rightarrow> string list" where
  "read_lines [] = []"
| "read_lines (c # s) =
     (if newline \<notin> set (c # s) then []
      else if c = newline then [c] # read_lines s
      else (case read_lines s of [] \<Rightarrow> [] | l # ls \<Rightarrow> (c # l) # ls))"

text \<open>The reader goroutine: the chunks it adds before it closes the buffer.\<close>

fun chat_reader :: "(string \<Rightarrow> json option) \<Rightarrow> string \<Rightarrow> string list \<Rightarrow> string list" where
  "chat_reader parse accum [] = (if accum = [] then [] else [accum])"
| "chat_reader parse accum (line # rest) =
     (if HasPrefix line ''!COMPLETION!'' then []
      else if parse (accum @ line) \<noteq> None then (accum @ line) # chat_reader parse [] rest
      else chat_reader parse (accum @ line) rest)"


section \<open>The buffer\<close>

record stream_buffer =
  sb_Chunks :: "string list"
  sb_closed :: bool
  sb_err :: "string option"

definition NewStreamBuffer :: stream_buffer where
  "NewStreamBuffer = \<lparr>sb_Chunks = [], sb_closed = False, sb_err = None\<rparr>"

definition sb_capacity :: nat where
  "sb_capacity = 100"

text \<open>\<^const>\<open>None\<close>: the operation blocks.\<close>

definition AddChunk :: "string \<Rightarrow> stream_buffer \<Rightarrow> stream_buffer option" where
  "AddChunk chunk b =
     (if sb_closed b then Some b
      else if length (sb_Chunks b) < sb_capacity then Some (b\<lparr>sb_Chunks := sb_Chunks b @ [chunk]\<rparr>)
      else None)"

definition GetChunk :: "stream_buffer \<Rightarrow> ((string \<times> string option) \<times> stream_buffer) option" where
  "GetChunk b =
     (case sb_Chunks b of
        c # cs \<Rightarrow> Some ((c, None), b\<lparr>sb_Chunks := cs\<rparr>)
      | [] \<Rightarrow> if sb_closed b then Some (([], sb_err b), b) else None)"

definition CloseBuffer :: "string option \<Rightarrow> stream_buffer \<Rightarrow> stream_buffer" where
  "CloseBuffer err b = (if sb_closed b then b else b\<lparr>sb_closed := True\<rparr>)"

text \<open>
  An interleaving of the goroutine (adding a list of chunks one by one, then closing) with the
  application (which has received a list of chunks, and possibly seen the end).
\<close>

record stream_state =
  ss_buffer :: stream_buffer
  ss_todo :: "string list"
  ss_final :: "string option"
  ss_got :: "string list"
  ss_ended :: "string option option"

inductive stream_step :: "stream_state \<Rightarrow> stream_state \<Rightarrow> bool" where
  produce: "ss_todo s = c # cs \<Longrightarrow> AddChunk c (ss_buffer s) = Some b \<Longrightarrow> stream_step s (s\<lparr>ss_buffer := b, ss_todo := cs\<rparr>)"
| finish: "ss_todo s = [] \<Longrightarrow> stream_step s (s\<lparr>ss_buffer := CloseBuffer (ss_final s) (ss_buffer s)\<rparr>)"
| consume: "sb_Chunks (ss_buffer s) \<noteq> [] \<Longrightarrow> GetChunk (ss_buffer s) = Some ((c, e), b) \<Longrightarrow>
     stream_step s (s\<lparr>ss_buffer := b, ss_got := ss_got s @ [c]\<rparr>)"
| notice: "sb_Chunks (ss_buffer s) = [] \<Longrightarrow> GetChunk (ss_buffer s) = Some ((c, e), b) \<Longrightarrow>
     stream_step s (s\<lparr>ss_buffer := b, ss_ended := Some e\<rparr>)"

inductive_cases stream_stepE: "stream_step s t"

definition stream_start :: "string list \<Rightarrow> string option \<Rightarrow> stream_state" where
  "stream_start cs err = \<lparr>ss_buffer = NewStreamBuffer, ss_todo = cs, ss_final = err, ss_got = [], ss_ended = None\<rparr>"

definition stream_inv :: "string list \<Rightarrow> stream_state \<Rightarrow> bool" where
  "stream_inv cs s \<longleftrightarrow>
     ss_got s @ sb_Chunks (ss_buffer s) @ ss_todo s = cs \<and> length (sb_Chunks (ss_buffer s)) \<le> sb_capacity \<and>
     sb_err (ss_buffer s) = None \<and> (sb_closed (ss_buffer s) \<longrightarrow> ss_todo s = []) \<and>
     (ss_ended s \<noteq> None \<longrightarrow> ss_ended s = Some None \<and> ss_got s = cs)"

lemma stream_step_inv: "stream_step s t \<Longrightarrow> stream_inv cs s \<Longrightarrow> stream_inv cs t"
  by (erule stream_stepE)
    (auto simp: stream_inv_def AddChunk_def GetChunk_def CloseBuffer_def split: if_splits list.splits)

text \<open>
  C34. Whatever the interleaving of the reader goroutine and the application, the application receives
  the chunks in order, none twice and none lost; the buffer never holds more than 100; and the end is
  reported only after all chunks were delivered, always without an error: the error given to
  \<^verbatim>\<open>Close\<close> is dropped, so an interrupted answer looks like a complete one.
\<close>

theorem stream_delivers_in_order:
  assumes "stream_step\<^sup>*\<^sup>* (stream_start cs err) s"
  shows "ss_got s @ sb_Chunks (ss_buffer s) @ ss_todo s = cs \<and> length (sb_Chunks (ss_buffer s)) \<le> 100 \<and>
    (\<forall>e. ss_ended s = Some e \<longrightarrow> e = None \<and> ss_got s = cs)"
proof -
  have "stream_inv cs s"
    using assms
  proof (induction rule: rtranclp_induct)
    case base
    show ?case by (simp add: stream_start_def stream_inv_def NewStreamBuffer_def)
  next
    case (step s t)
    then show ?case by (blast intro: stream_step_inv)
  qed
  then show ?thesis by (auto simp: stream_inv_def sb_capacity_def)
qed


section \<open>From the device to the phone\<close>

lemma read_lines_append:
  "newline \<notin> set l \<Longrightarrow> read_lines (l @ newline # s) = (l @ [newline]) # read_lines s"
  by (induction l) auto

lemma read_lines_chat_text:
  "\<forall>j \<in> set js. newline \<notin> set (print j) \<Longrightarrow> read_lines (chat_text print js) = map (\<lambda>j. print j @ [newline]) js"
  by (induction js) (auto simp: chat_text_def read_lines_append)

text \<open>What is relied on of \<^verbatim>\<open>encoding/json\<close>: an encoded message is one line, an object, and parses back.\<close>

definition json_text :: "(string \<Rightarrow> json option) \<Rightarrow> (json \<Rightarrow> string) \<Rightarrow> bool" where
  "json_text parse print \<longleftrightarrow>
     (\<forall>m. let j = ChatWithAIResponse m in
        newline \<notin> set (print j) \<and> parse (print j @ [newline]) = Some j \<and> (\<exists>s. print j = CHR ''{'' # s))"

text \<open>
  C35. The phone gets exactly the messages the device streamed: for every way the model's output is cut
  into chunks, reading the body of the reply line by line yields one chunk per message, in order, and
  each of them parses to the message the device sent.
\<close>

theorem chat_roundtrip:
  assumes "json_text parse print"
  shows "map parse (chat_reader parse [] (read_lines (chat_text print (chat_loop parse [] chunks)))) =
    map Some (chat_loop parse [] chunks)"
proof -
  have obj: "\<forall>j \<in> set (chat_loop parse b chunks). \<exists>m. j = ChatWithAIResponse m" for b
    by (induction parse b chunks rule: chat_loop.induct) (auto split: option.splits)
  have one: "newline \<notin> set (print j)" "parse (print j @ [newline]) = Some j" "\<not> HasPrefix (print j @ [newline]) ''!COMPLETION!''"
    if "\<exists>m. j = ChatWithAIResponse m" for j
  proof -
    from assms that show "newline \<notin> set (print j)" "parse (print j @ [newline]) = Some j" by (auto simp: json_text_def Let_def)
    from assms that obtain s where "print j = CHR ''{'' # s" by (auto simp: json_text_def Let_def)
    then show "\<not> HasPrefix (print j @ [newline]) ''!COMPLETION!''" by simp
  qed
  have read: "chat_reader parse [] (map (\<lambda>j. print j @ [newline]) js) = map (\<lambda>j. print j @ [newline]) js"
    if "\<forall>j \<in> set js. \<exists>m. j = ChatWithAIResponse m" for js
    using that by (induction js) (auto simp: one)
  show ?thesis
    using one obj [of "[]"] by (simp add: read_lines_chat_text read)
qed


subsection \<open>Concrete streams\<close>

lemma cut_stream:
  "stream_step\<^sup>*\<^sup>* (stream_start [''a'', ''b''] (Some ''reset''))
     \<lparr>ss_buffer = \<lparr>sb_Chunks = [], sb_closed = True, sb_err = None\<rparr>, ss_todo = [], ss_final = Some ''reset'',
      ss_got = [''a'', ''b''], ss_ended = Some None\<rparr>"
proof -
  let ?st = "\<lambda>q c t g e. \<lparr>ss_buffer = \<lparr>sb_Chunks = q, sb_closed = c, sb_err = None\<rparr>, ss_todo = t, ss_final = Some ''reset'',
      ss_got = g, ss_ended = e\<rparr>"
  note ops = AddChunk_def GetChunk_def CloseBuffer_def sb_capacity_def
  have "stream_step (?st [] False [''a'', ''b''] [] None) (?st [''a''] False [''b''] [] None)"
    using stream_step.produce [of "?st [] False [''a'', ''b''] [] None" "''a''" "[''b'']"] by (simp add: ops)
  moreover have "stream_step (?st [''a''] False [''b''] [] None) (?st [] False [''b''] [''a''] None)"
    using stream_step.consume [of "?st [''a''] False [''b''] [] None" "''a''"] by (simp add: ops)
  moreover have "stream_step (?st [] False [''b''] [''a''] None) (?st [''b''] False [] [''a''] None)"
    using stream_step.produce [of "?st [] False [''b''] [''a''] None" "''b''" "[]"] by (simp add: ops)
  moreover have "stream_step (?st [''b''] False [] [''a''] None) (?st [''b''] True [] [''a''] None)"
    using stream_step.finish [of "?st [''b''] False [] [''a''] None"] by (simp add: ops)
  moreover have "stream_step (?st [''b''] True [] [''a''] None) (?st [] True [] [''a'', ''b''] None)"
    using stream_step.consume [of "?st [''b''] True [] [''a''] None" "''b''"] by (simp add: ops)
  moreover have "stream_step (?st [] True [] [''a'', ''b''] None) (?st [] True [] [''a'', ''b''] (Some None))"
    using stream_step.notice [of "?st [] True [] [''a'', ''b''] None" "[]" None] by (simp add: ops)
  ultimately show ?thesis unfolding stream_start_def NewStreamBuffer_def by (meson converse_rtranclp_into_rtranclp rtranclp.rtrancl_refl)
qed

theorem stream_delivers_in_order_witness:
  "\<exists>s. stream_step\<^sup>*\<^sup>* (stream_start [''a'', ''b''] (Some ''reset'')) s \<and> ss_ended s = Some None \<and> ss_got s = [''a'', ''b'']"
proof -
  from stream_delivers_in_order [OF cut_stream] show ?thesis using cut_stream by fastforce
qed

text \<open>A rendering of messages in hexadecimal, with a parser that also knows one document of the model.\<close>

definition hex_print :: "json \<Rightarrow> string" where
  "hex_print j = CHR ''{'' # hex_EncodeToString (string_to_bytes (text_of (entry ''msg'' j)))"

definition hex_parse :: "string \<Rightarrow> json option" where
  "hex_parse s =
     (if s = ''{ai}'' then Some (JObj [(''choices'', JArr [JObj [(''delta'', JObj [(''content'', JStr ''hi'')])]])])
      else if s = [] \<or> last s \<noteq> newline then None
      else map_option (\<lambda>bs. ChatWithAIResponse (bytes_to_string bs)) (hex_DecodeString (butlast (tl s))))"

lemma newline_not_digit: "k < 16 \<Longrightarrow> newline \<noteq> hex_digit k"
proof
  assume "k < 16" "newline = hex_digit k"
  then have "hex_val newline = Some k" by (metis hex_val_digit)
  then show False by (simp add: hex_val_def newline_def)
qed

lemma newline_not_hex: "newline \<notin> set (hex_EncodeToString (string_to_bytes m))"
proof (induction m)
  case (Cons c m)
  have "(of_char c :: nat) < 256" by simp
  then have "(of_char c :: nat) div 16 < 16" by linarith
  then show ?case using Cons newline_not_digit by (simp add: string_to_bytes_def)
qed (simp add: string_to_bytes_def)

lemma hex_json_text: "json_text hex_parse hex_print"
proof -
  have "hex_print (ChatWithAIResponse m) @ [newline] \<noteq> ''{ai}''" for m
    by (auto simp: hex_print_def newline_def dest!: arg_cong [of _ _ last])
  moreover have "hex_DecodeString (hex_EncodeToString (string_to_bytes m)) = Some (string_to_bytes m)" for m
    by (rule hex_decode_encode) (auto simp: string_to_bytes_def)
  moreover have "newline \<noteq> CHR ''{''" by (simp add: newline_def)
  moreover have "bytes_to_string (string_to_bytes m) = m" for m
    by (simp add: bytes_to_string_def string_to_bytes_def map_idI)
  ultimately show ?thesis
    by (auto simp: json_text_def hex_print_def hex_parse_def newline_not_hex ChatWithAIResponse_def entry_def text_of_def)
qed

theorem chat_roundtrip_witness:
  "chat_loop hex_parse [] [''{a'', [], ''i}''] = [ChatWithAIResponse ''hi''] \<and>
   map hex_parse (chat_reader hex_parse [] (read_lines (chat_text hex_print (chat_loop hex_parse [] [''{a'', [], ''i}''])))) =
     [Some (ChatWithAIResponse ''hi'')]"
proof -
  have "hex_parse ''{a'' = None" by (simp add: hex_parse_def newline_def)
  moreover have "hex_parse ''{ai}'' = Some (JObj [(''choices'', JArr [JObj [(''delta'', JObj [(''content'', JStr ''hi'')])]])])"
    by (simp add: hex_parse_def)
  ultimately have "chat_loop hex_parse [] [''{a'', [], ''i}''] = [ChatWithAIResponse ''hi'']"
    by (simp add: decode_new_def ai_chunk_def ChatWithAIResponse_def ai_content_def elements_def text_of_def entry_def fold_eq_def lower_char_def)
  with chat_roundtrip [OF hex_json_text, of "[''{a'', [], ''i}'']"] show ?thesis by simp
qed

end
