(* ===== verification/ChatIterator.thy ===== *)
theory ChatIterator
  imports Chat "HOL-Library.Multiset"
begin

text \<open>
  How an application reads a streamed answer: \<^verbatim>\<open>GetChatChunk\<close> of \<^verbatim>\<open>mobile/blockchain.go\<close> and the iterator of
  \<^verbatim>\<open>mobile/stream_iter.go\<close>, over the buffer of \<^verbatim>\<open>blockchain/blox.go\<close>.
\<close>

section \<open>Streams\<close>

text \<open>
  \<^verbatim>\<open>GetChatChunk\<close> asks the buffer again as long as it gets the empty text. \<open>n\<close> bounds the rounds of the loop that are
  looked at: \<open>Looping\<close> says that the call has not returned after them, \<open>Waiting\<close> that it is blocked on the empty
  buffer of an open stream.
\<close>

datatype chat_result = Chunk string | ChatError string | InvalidStream | Waiting | Looping

type_synonym streams = "string \<rightharpoonup> stream_buffer"

fun chunk_loop :: "nat \<Rightarrow> string \<Rightarrow> stream_buffer \<Rightarrow> streams \<Rightarrow> chat_result \<times> streams" where
  "chunk_loop 0 sid b st = (Looping, st(sid \<mapsto> b))"
| "chunk_loop (Suc n) sid b st =
     (case GetChunk b of
        None \<Rightarrow> (Waiting, st(sid \<mapsto> b))
      | Some ((chunk, Some e), b') \<Rightarrow> (ChatError e, st(sid := None))
      | Some ((chunk, None), b') \<Rightarrow> if chunk \<noteq> [] then (Chunk chunk, st(sid \<mapsto> b')) else chunk_loop n sid b' st)"

definition GetChatChunk :: "nat \<Rightarrow> string \<Rightarrow> streams \<Rightarrow> chat_result \<times> streams" where
  "GetChatChunk n sid st = (case st sid of None \<Rightarrow> (InvalidStream, st) | Some b \<Rightarrow> chunk_loop n sid b st)"

text \<open>
  \<^verbatim>\<open>ChatWithAI\<close> of the client: \<open>answered\<close> says whether the device accepted the question, and \<open>uuid\<close> is a new stream id.
  The iterator of \<^verbatim>\<open>GetStreamIterator\<close> has no timeout, so its \<^verbatim>\<open>Next\<close> does not wait on an empty stream.
\<close>

definition start_stream :: "bool \<Rightarrow> bool \<Rightarrow> string \<Rightarrow> streams \<Rightarrow> string option \<times> streams" where
  "start_stream closed answered uuid st = (if closed \<or> \<not> answered then (None, st) else (Some uuid, st(uuid \<mapsto> NewStreamBuffer)))"

definition GetStreamIterator :: "string \<Rightarrow> streams \<Rightarrow> stream_buffer option" where
  "GetStreamIterator sid st = st sid"

lemma GetChunk_next: "sb_Chunks b = c # cs \<Longrightarrow> GetChunk b = Some ((c, None), b\<lparr>sb_Chunks := cs\<rparr>)"
  by (simp add: GetChunk_def)

lemma GetChunk_over: "sb_Chunks b = [] \<Longrightarrow> sb_closed b \<Longrightarrow> sb_err b = None \<Longrightarrow> GetChunk b = Some (([], None), b)"
  by (simp add: GetChunk_def)

lemma chunk_loop_finds:
  "dropWhile (\<lambda>x. x = []) (sb_Chunks b) = c # cs \<Longrightarrow> length (sb_Chunks b) \<le> n \<Longrightarrow>
   chunk_loop n sid b st = (Chunk c, st(sid \<mapsto> b\<lparr>sb_Chunks := cs\<rparr>))"
proof (induction n arbitrary: b)
  case (Suc n)
  then obtain x xs where "sb_Chunks b = x # xs" by (cases "sb_Chunks b") auto
  moreover have "b\<lparr>sb_Chunks := xs\<rparr>\<lparr>sb_Chunks := cs\<rparr> = b\<lparr>sb_Chunks := cs\<rparr>" by simp
  ultimately show ?case using Suc.prems Suc.IH [of "b\<lparr>sb_Chunks := xs\<rparr>"]
    by (cases "x = []") (simp_all add: GetChunk_next fun_upd_def)
qed auto

lemma chunk_loop_spins:
  "\<forall>x \<in> set (sb_Chunks b). x = [] \<Longrightarrow> sb_closed b \<Longrightarrow> sb_err b = None \<Longrightarrow> fst (chunk_loop n sid b st) = Looping"
proof (induction n arbitrary: b)
  case (Suc n)
  then show ?case by (cases "sb_Chunks b") (simp_all add: GetChunk_next GetChunk_over)
qed simp

lemma chunk_loop_waits:
  "\<forall>x \<in> set (sb_Chunks b). x = [] \<Longrightarrow> \<not> sb_closed b \<Longrightarrow> length (sb_Chunks b) < n \<Longrightarrow> fst (chunk_loop n sid b st) = Waiting"
proof (induction n arbitrary: b)
  case (Suc n)
  then show ?case by (cases "sb_Chunks b") (simp_all add: GetChunk_next GetChunk_def)
qed simp

lemma reader_leaves_no_error: "stream_step\<^sup>*\<^sup>* (stream_start cs err) s \<Longrightarrow> stream_inv cs s"
proof (induction rule: rtranclp_induct)
  case base
  show ?case by (simp add: stream_start_def stream_inv_def NewStreamBuffer_def)
qed (rule stream_step_inv)

text \<open>
  C27. What the application gets when it asks for the next piece of an answer, in every state the reader goroutine
  and the application can bring the stream into: the first piece that is not empty, after at most as many rounds as
  pieces wait; when none waits and the reader still runs, the call waits; and when the reader has finished, the call
  never returns: the buffer has dropped the reader's error, so the loop turns for ever and the end of an answer is
  not told.
\<close>

theorem chat_chunk_outcome:
  assumes "stream_step\<^sup>*\<^sup>* (stream_start cs err) s" and "st sid = Some (ss_buffer s)"
  shows "case dropWhile (\<lambda>x. x = []) (sb_Chunks (ss_buffer s)) of
      c # rest \<Rightarrow> \<forall>n \<ge> 100. GetChatChunk n sid st = (Chunk c, st(sid \<mapsto> (ss_buffer s)\<lparr>sb_Chunks := rest\<rparr>))
    | [] \<Rightarrow> if sb_closed (ss_buffer s) then \<forall>n. fst (GetChatChunk n sid st) = Looping
            else \<forall>n > 100. fst (GetChatChunk n sid st) = Waiting"
proof -
  let ?b = "ss_buffer s"
  from reader_leaves_no_error [OF assms(1)] have len: "length (sb_Chunks ?b) \<le> 100" and err: "sb_err ?b = None"
    by (auto simp: stream_inv_def sb_capacity_def)
  show ?thesis
  proof (cases "dropWhile (\<lambda>x. x = []) (sb_Chunks ?b)")
    case Nil
    then have "\<forall>x \<in> set (sb_Chunks ?b). x = []" by (simp add: dropWhile_eq_Nil_conv)
    with len err assms(2) have "if sb_closed ?b then \<forall>n. fst (GetChatChunk n sid st) = Looping
      else \<forall>n > 100. fst (GetChatChunk n sid st) = Waiting"
      by (simp add: GetChatChunk_def chunk_loop_spins chunk_loop_waits)
    then show ?thesis unfolding Nil list.case .
  next
    case (Cons c rest)
    with len assms(2) show ?thesis by (simp add: GetChatChunk_def chunk_loop_finds)
  qed
qed

theorem chat_chunk_outcome_witness:
  "\<forall>n. fst (GetChatChunk n ''id'' [''id'' \<mapsto> \<lparr>sb_Chunks = [], sb_closed = True, sb_err = None\<rparr>]) = Looping"
  using chat_chunk_outcome [OF cut_stream, of "[''id'' \<mapsto> \<lparr>sb_Chunks = [], sb_closed = True, sb_err = None\<rparr>]" "''id''"] by simp

section \<open>The stream iterator\<close>

text \<open>
  \<^verbatim>\<open>StreamIterator\<close>: \<^verbatim>\<open>HasNext\<close> takes a chunk out of the channel to look at it and starts a goroutine that puts it
  back, at the end. \<open>it_putting\<close> are the chunks in the hands of such goroutines; a send on a closed channel panics,
  which ends the program. The chunks the reader has still to add are \<open>it_todo\<close>, those the application got \<open>it_got\<close>,
  and \<open>it_zero\<close> counts the empty texts a closed channel handed to \<^verbatim>\<open>HasNext\<close>. A channel has no more than \<^const>\<open>sb_capacity\<close>
  elements.
\<close>

record iterator =
  it_buffer :: stream_buffer
  it_completed :: bool
  it_putting :: "string list"
  it_todo :: "string list"
  it_got :: "string list"
  it_zero :: nat
  it_panicked :: bool

definition HasNext :: "iterator \<Rightarrow> bool \<times> iterator" where
  "HasNext i =
     (if it_completed i then (False, i)
      else (case sb_Chunks (it_buffer i) of
              c # cs \<Rightarrow> (True, i\<lparr>it_buffer := (it_buffer i)\<lparr>sb_Chunks := cs\<rparr>, it_putting := it_putting i @ [c]\<rparr>)
            | [] \<Rightarrow> if sb_closed (it_buffer i) then (True, i\<lparr>it_putting := it_putting i @ [[]], it_zero := Suc (it_zero i)\<rparr>)
                    else (True, i)))"

datatype next_result = NextChunk string | NextEOF | NextTimeout

definition Next :: "iterator \<Rightarrow> next_result \<times> iterator" where
  "Next i =
     (case sb_Chunks (it_buffer i) of
        c # cs \<Rightarrow> (NextChunk c, i\<lparr>it_buffer := (it_buffer i)\<lparr>sb_Chunks := cs\<rparr>, it_got := it_got i @ [c]\<rparr>)
      | [] \<Rightarrow> if sb_closed (it_buffer i) then (NextEOF, i\<lparr>it_completed := True\<rparr>) else (NextTimeout, i))"

definition IsComplete :: "iterator \<Rightarrow> bool" where
  "IsComplete i \<longleftrightarrow> it_completed i \<or> sb_closed (it_buffer i) \<and> sb_Chunks (it_buffer i) = []"

definition Iterator_Close :: "iterator \<Rightarrow> iterator" where
  "Iterator_Close i = i\<lparr>it_buffer := CloseBuffer None (it_buffer i)\<rparr>"

text \<open>The \<open>k\<close>-th goroutine runs its send; \<^const>\<open>None\<close>: the channel is full.\<close>

definition put_back :: "nat \<Rightarrow> iterator \<Rightarrow> iterator option" where
  "put_back k i =
     (if length (it_putting i) \<le> k then None
      else if sb_closed (it_buffer i) then Some (i\<lparr>it_panicked := True\<rparr>)
      else if length (sb_Chunks (it_buffer i)) < sb_capacity
           then Some (i\<lparr>it_buffer := (it_buffer i)\<lparr>sb_Chunks := sb_Chunks (it_buffer i) @ [it_putting i ! k]\<rparr>,
                        it_putting := take k (it_putting i) @ drop (Suc k) (it_putting i)\<rparr>)
           else None)"

text \<open>The reader goroutine stops adding when the application has closed the buffer.\<close>

inductive iter_step :: "iterator \<Rightarrow> iterator \<Rightarrow> bool" where
  it_produce: "\<not> it_panicked i \<Longrightarrow> it_todo i = c # cs \<Longrightarrow> \<not> sb_closed (it_buffer i) \<Longrightarrow> AddChunk c (it_buffer i) = Some b \<Longrightarrow>
     iter_step i (i\<lparr>it_buffer := b, it_todo := cs\<rparr>)"
| it_finish: "\<not> it_panicked i \<Longrightarrow> it_todo i = [] \<Longrightarrow> iter_step i (i\<lparr>it_buffer := CloseBuffer None (it_buffer i)\<rparr>)"
| it_peek: "\<not> it_panicked i \<Longrightarrow> iter_step i (snd (HasNext i))"
| it_next: "\<not> it_panicked i \<Longrightarrow> iter_step i (snd (Next i))"
| it_close: "\<not> it_panicked i \<Longrightarrow> iter_step i (Iterator_Close i)"
| it_put: "\<not> it_panicked i \<Longrightarrow> put_back k i = Some i' \<Longrightarrow> iter_step i i'"

inductive_cases iter_stepE: "iter_step i i'"

definition iter_start :: "string list \<Rightarrow> iterator" where
  "iter_start cs = \<lparr>it_buffer = NewStreamBuffer, it_completed = False, it_putting = [], it_todo = cs, it_got = [], it_zero = 0,
     it_panicked = False\<rparr>"

definition iter_inv :: "string list \<Rightarrow> iterator \<Rightarrow> bool" where
  "iter_inv cs i \<longleftrightarrow>
     mset (it_got i) + mset (sb_Chunks (it_buffer i)) + mset (it_putting i) + mset (it_todo i) = mset cs + replicate_mset (it_zero i) []"

lemma put_back_mset: "k < length xs \<Longrightarrow> mset (take k xs) + mset (drop (Suc k) xs) + {#xs ! k#} = mset xs"
  by (metis add_mset_add_single id_take_nth_drop mset.simps(2) mset_append union_mset_add_mset_right)

lemma iter_inv_step: "iter_step i i' \<Longrightarrow> iter_inv cs i \<Longrightarrow> iter_inv cs i'"
proof (erule iter_stepE)
  fix c cs' b
  assume "i' = i\<lparr>it_buffer := b, it_todo := cs'\<rparr>" "it_todo i = c # cs'" "\<not> sb_closed (it_buffer i)" "AddChunk c (it_buffer i) = Some b"
    "iter_inv cs i"
  then show ?thesis by (auto simp: iter_inv_def AddChunk_def split: if_splits)
next
  fix k
  assume p: "put_back k i = Some i'" and inv: "iter_inv cs i"
  show ?thesis
  proof (cases "sb_closed (it_buffer i)")
    case True
    with p inv show ?thesis by (auto simp: put_back_def iter_inv_def split: if_splits)
  next
    case False
    with p have k: "k < length (it_putting i)" and
      i': "i' = i\<lparr>it_buffer := (it_buffer i)\<lparr>sb_Chunks := sb_Chunks (it_buffer i) @ [it_putting i ! k]\<rparr>,
        it_putting := take k (it_putting i) @ drop (Suc k) (it_putting i)\<rparr>" by (auto simp: put_back_def split: if_splits)
    from inv [unfolded iter_inv_def, folded put_back_mset [OF k]] show ?thesis by (simp add: iter_inv_def i' ac_simps)
  qed
qed (auto simp: iter_inv_def HasNext_def Next_def Iterator_Close_def CloseBuffer_def split: list.splits)

text \<open>
  What the iterator keeps of an answer: under every interleaving of the reader, the application and the
  goroutines of \<^verbatim>\<open>HasNext\<close> no chunk is lost or doubled, and \<^verbatim>\<open>HasNext\<close> says no only after \<^verbatim>\<open>Next\<close> has reported the end.
\<close>

lemma iterator_keeps_chunks:
  assumes "iter_step\<^sup>*\<^sup>* (iter_start cs) i"
  shows "mset (it_got i) + mset (sb_Chunks (it_buffer i)) + mset (it_putting i) + mset (it_todo i) =
    mset cs + replicate_mset (it_zero i) [] \<and> (fst (HasNext i) \<longleftrightarrow> \<not> it_completed i)"
proof -
  have "iter_inv cs i" using assms
  proof (induction rule: rtranclp_induct)
    case base
    show ?case by (simp add: iter_inv_def iter_start_def NewStreamBuffer_def)
  qed (rule iter_inv_step)
  then show ?thesis by (auto simp: iter_inv_def HasNext_def split: list.splits)
qed

text \<open>
  But not their order: looking at the first of two chunks puts it behind the second. And looking at a stream the reader
  has closed ends the program.
\<close>

lemma iterator_reorders:
  "\<exists>i. iter_step\<^sup>*\<^sup>* (iter_start [''a'', ''b'']) i \<and> it_got i = [''b'', ''a'']"
proof -
  let ?i = "\<lambda>q p t g. \<lparr>it_buffer = \<lparr>sb_Chunks = q, sb_closed = False, sb_err = None\<rparr>, it_completed = False, it_putting = p, it_todo = t,
      it_got = g, it_zero = 0, it_panicked = False\<rparr>"
  have "iter_step (?i [] [] [''a'', ''b''] []) (?i [''a''] [] [''b''] [])"
    using it_produce [of "?i [] [] [''a'', ''b''] []" "''a''" "[''b'']"] by (simp add: AddChunk_def sb_capacity_def)
  moreover have "iter_step (?i [''a''] [] [''b''] []) (?i [''a'', ''b''] [] [] [])"
    using it_produce [of "?i [''a''] [] [''b''] []" "''b''" "[]"] by (simp add: AddChunk_def sb_capacity_def)
  moreover have "iter_step (?i [''a'', ''b''] [] [] []) (?i [''b''] [''a''] [] [])"
    using it_peek [of "?i [''a'', ''b''] [] [] []"] by (simp add: HasNext_def)
  moreover have "iter_step (?i [''b''] [''a''] [] []) (?i [''b'', ''a''] [] [] [])"
    using it_put [of "?i [''b''] [''a''] [] []" 0] by (simp add: put_back_def sb_capacity_def)
  moreover have "iter_step (?i [''b'', ''a''] [] [] []) (?i [''a''] [] [] [''b''])"
    using it_next [of "?i [''b'', ''a''] [] [] []"] by (simp add: Next_def)
  moreover have "iter_step (?i [''a''] [] [] [''b'']) (?i [] [] [] [''b'', ''a''])"
    using it_next [of "?i [''a''] [] [] [''b'']"] by (simp add: Next_def)
  ultimately have "iter_step\<^sup>*\<^sup>* (?i [] [] [''a'', ''b''] []) (?i [] [] [] [''b'', ''a''])"
    by (meson converse_rtranclp_into_rtranclp rtranclp.rtrancl_refl)
  then show ?thesis by (intro exI [of _ "?i [] [] [] [''b'', ''a'']"]) (simp add: iter_start_def NewStreamBuffer_def)
qed

lemma iterator_panics: "\<exists>i. iter_step\<^sup>*\<^sup>* (iter_start []) i \<and> it_panicked i"
proof -
  let ?i = "\<lambda>c p z x. \<lparr>it_buffer = \<lparr>sb_Chunks = [], sb_closed = c, sb_err = None\<rparr>, it_completed = False, it_putting = p, it_todo = [],
      it_got = [], it_zero = z, it_panicked = x\<rparr>"
  have "iter_step (?i False [] 0 False) (?i True [] 0 False)"
    using it_finish [of "?i False [] 0 False"] by (simp add: CloseBuffer_def)
  moreover have "iter_step (?i True [] 0 False) (?i True [[]] 1 False)"
    using it_peek [of "?i True [] 0 False"] by (simp add: HasNext_def)
  moreover have "iter_step (?i True [[]] 1 False) (?i True [[]] 1 True)"
    using it_put [of "?i True [[]] 1 False" 0] by (simp add: put_back_def)
  ultimately have "iter_step\<^sup>*\<^sup>* (?i False [] 0 False) (?i True [[]] 1 True)"
    by (meson converse_rtranclp_into_rtranclp rtranclp.rtrancl_refl)
  then show ?thesis by (intro exI [of _ "?i True [[]] 1 True"]) (simp add: iter_start_def NewStreamBuffer_def)
qed

theorem iterator_keeps_chunks_witness:
  "\<exists>i. it_got i = [''b'', ''a''] \<and> fst (HasNext i) = (\<not> it_completed i)"
  using iterator_reorders iterator_keeps_chunks by blast

end
