(* ===== verification/DataExchange.thy ===== *)
theory DataExchange
  imports ApiRelay "HOL-Library.Multiset"
begin

text \<open>
  The exchange of blocks between peers (\<^verbatim>\<open>exchange/fx_exchange.go\<close>): who may push and pull, the temporary permission that a
  pull gives to the peer that is asked, the stored blocks, pushing with retries; and the publishers of stored links
  (\<^verbatim>\<open>hub_publisher.go\<close>, \<^verbatim>\<open>ipni_publisher.go\<close>, \<^verbatim>\<open>dht.go\<close>).

  IPLD is third-party code: \<open>fl_store\<close> decodes a body with the codec of a content id and stores the node, giving the content
  id under which it was stored and the stored bytes; \<open>fl_walk\<close> traverses the graph below a stored link with the selector that explores
  all, giving the link and the encoding of every node it visits and whether it got to the end. Content ids are
  their texts; \<open>fl_cid\<close> is \<^verbatim>\<open>cid.Decode\<close>, \<open>fl_cid_json\<close> the decoder of a content id in JSON.
\<close>

section \<open>State\<close>

abbreviation StatusMethodNotAllowed :: nat where "StatusMethodNotAllowed \<equiv> 405"

record ('b, 'w) fx_libs =
  fl_codecs :: codecs
  fl_cid :: "string \<Rightarrow> string option"
  fl_cid_json :: "json \<Rightarrow> string option"
  fl_store :: "string \<Rightarrow> 'b \<Rightarrow> (string \<times> 'b) option"
  fl_walk :: "(string \<rightharpoonup> 'b) \<Rightarrow> string \<Rightarrow> (string \<times> 'b) list \<times> bool"
  fl_updateConfig :: "(peerID set \<Rightarrow> bool) option"

record 'b exchange =
  fx_self :: peerID
  fx_authorizer :: peerID
  fx_peers :: "peerID set"
  fx_saved :: "peerID set"
  fx_tempAuths :: "string \<rightharpoonup> peerID \<times> int"
  fx_blocks :: "string \<rightharpoonup> 'b"

text \<open>The body of a request: a JSON document or an encoded block, or a failing read.\<close>

datatype 'b payload = Text_payload body | Block_payload 'b | Broken_payload

record 'b fx_request =
  fr_method :: string
  fr_path :: string
  fr_payload :: "'b payload"

datatype 'b fx_reply = FxStatus nat string | FxBlock 'b


section \<open>Permissions\<close>

definition actionPull :: string where "actionPull = ''pull''"
definition actionPush :: string where "actionPush = ''push''"
definition actionAuth :: string where "actionAuth = ''auth''"

lemmas fx_actions = actionPull_def actionPush_def actionAuth_def

definition fx_authorized :: "peerID \<Rightarrow> string \<Rightarrow> string \<Rightarrow> 'b exchange \<Rightarrow> bool \<times> 'b exchange" where
  "fx_authorized pid action c e =
     (if (fx_authorizer e = fx_self e \<or> fx_authorizer e = []) \<and> action \<noteq> actionAuth then (True, e)
      else if fx_authorizer e = [] \<and> action = actionAuth then (False, e)
      else if action = actionPush then
        (case fx_tempAuths e c of
           Some (p, t) \<Rightarrow> if p = pid then (True, e\<lparr>fx_tempAuths := (fx_tempAuths e)(c := None)\<rparr>) else (pid \<in> fx_peers e, e)
         | None \<Rightarrow> (pid \<in> fx_peers e, e))
      else if action = actionAuth then (pid = fx_authorizer e, e)
      else if action = actionPull then (True, e)
      else (False, e))"

text \<open>\<^verbatim>\<open>GetAuthorizedPeers\<close> also stores the list in the options; \<^verbatim>\<open>updateConfig\<close> may be unset.\<close>

definition fx_GetAuthorizedPeers :: "'b exchange \<Rightarrow> peerID set \<times> 'b exchange" where
  "fx_GetAuthorizedPeers e = (fx_peers e, e\<lparr>fx_saved := fx_peers e\<rparr>)"

definition updateAuthorizePeers :: "('b, 'w) fx_libs \<Rightarrow> 'b exchange \<Rightarrow> bool \<times> 'b exchange" where
  "updateAuthorizePeers lib e =
     (case fx_GetAuthorizedPeers e of
        (peers, e1) \<Rightarrow> (case fl_updateConfig lib of None \<Rightarrow> (True, e1) | Some f \<Rightarrow> (f peers, e1)))"

definition fx_set_auth :: "peerID \<Rightarrow> bool \<Rightarrow> 'b exchange \<Rightarrow> 'b exchange" where
  "fx_set_auth subject allow e = e\<lparr>fx_peers := (if allow then insert subject (fx_peers e) else fx_peers e - {subject})\<rparr>"

text \<open>\<^verbatim>\<open>SetAuth\<close> on the own host; \<open>remote\<close> is the request to another one.\<close>

definition fx_SetAuth :: "('b, 'w) fx_libs \<Rightarrow> (peerID \<Rightarrow> json \<Rightarrow> 'w \<Rightarrow> bool \<times> 'w) \<Rightarrow> peerID \<Rightarrow> peerID \<Rightarrow> bool \<Rightarrow> 'b exchange \<Rightarrow> 'w \<Rightarrow>
    (bool \<times> 'b exchange) \<times> 'w" where
  "fx_SetAuth lib remote on subject allow e w =
     (if on = fx_self e then (updateAuthorizePeers lib (fx_set_auth subject allow e), w)
      else (case remote on (auth_document (subject, allow)) w of (ok, w1) \<Rightarrow> ((ok, e), w1)))"

definition fx_handleAuthorization :: "('b, 'w) fx_libs \<Rightarrow> 'b payload \<Rightarrow> 'b exchange \<Rightarrow> 'b fx_reply \<times> 'b exchange" where
  "fx_handleAuthorization lib pl e =
     (case pl of
        Broken_payload \<Rightarrow> (FxStatus StatusInternalServerError [], e)
      | Block_payload _ \<Rightarrow> (FxStatus StatusBadRequest [], e)
      | Text_payload b \<Rightarrow>
          (case Option.bind (unmarshal b) (authorization_request (fl_codecs lib)) of
             None \<Rightarrow> (FxStatus StatusBadRequest [], e)
           | Some (subject, allow) \<Rightarrow>
               (case updateAuthorizePeers lib (fx_set_auth subject allow e) of
                  (ok, e1) \<Rightarrow> (FxStatus (if ok then StatusOK else StatusInternalServerError) [], e1))))"

text \<open>The access list of the exchange keeps the same contract as the one of the chain client.\<close>

interpretation exchange_auth: access_list "\<lambda>p b (e :: 'b exchange). fx_set_auth p b e" "\<lambda>e p. p \<in> fx_peers e"
  by unfold_locales (auto simp: fx_set_auth_def)


section \<open>Blocks\<close>

definition decodeAndStoreBlock :: "('b, 'w) fx_libs \<Rightarrow> 'b payload \<Rightarrow> string \<Rightarrow> 'b exchange \<Rightarrow> bool \<times> 'b exchange" where
  "decodeAndStoreBlock lib pl link e =
     (case pl of
        Block_payload b \<Rightarrow>
          (case fl_store lib link b of
             None \<Rightarrow> (False, e)
           | Some (storedLink, stored) \<Rightarrow> (True, e\<lparr>fx_blocks := (fx_blocks e)(storedLink \<mapsto> stored)\<rparr>))
      | _ \<Rightarrow> (False, e))"

definition handlePush :: "('b, 'w) fx_libs \<Rightarrow> string \<Rightarrow> 'b payload \<Rightarrow> string \<Rightarrow> 'b exchange \<Rightarrow> 'b fx_reply \<times> 'b exchange" where
  "handlePush lib meth pl c e =
     (if meth \<noteq> ''POST'' then (FxStatus StatusMethodNotAllowed [], e)
      else (case fl_cid lib c of
              None \<Rightarrow> (FxStatus StatusBadRequest ''invalid cid'', e)
            | Some cidInPath \<Rightarrow>
                (case decodeAndStoreBlock lib pl cidInPath e of
                   (True, e1) \<Rightarrow> (FxStatus StatusOK [], e1)
                 | (False, e1) \<Rightarrow> (FxStatus StatusBadRequest ''invalid cid'', e1))))"

definition pullRequest :: "('b, 'w) fx_libs \<Rightarrow> json \<Rightarrow> string option" where
  "pullRequest lib j = get_field (fl_cid_json lib) ''link'' [] j"

text \<open>
  \<^verbatim>\<open>handlePull\<close>: \<open>readable\<close> tells whether the store can be read. A POST is accepted and starts a push of the link to the
  sender, the third result.
\<close>

definition handlePull :: "('b, 'w) fx_libs \<Rightarrow> bool \<Rightarrow> string \<Rightarrow> 'b payload \<Rightarrow> string \<Rightarrow> 'b exchange \<Rightarrow> 'b fx_reply \<times> string option" where
  "handlePull lib readable meth pl c e =
     (if meth = ''GET'' then
        (case fl_cid lib c of
           None \<Rightarrow> (FxStatus StatusBadRequest [], None)
         | Some cc \<Rightarrow>
             (if \<not> readable then (FxStatus StatusInternalServerError [], None)
              else (case fx_blocks e cc of
                      None \<Rightarrow> (FxStatus StatusNotFound [], None)
                    | Some raw \<Rightarrow> (FxBlock raw, None))))
      else if meth \<noteq> ''POST'' then (FxStatus StatusMethodNotAllowed [], None)
      else (case pl of
              Text_payload b \<Rightarrow>
                (case Option.bind (unmarshal b) (pullRequest lib) of
                   None \<Rightarrow> (FxStatus StatusBadRequest [], None)
                 | Some link \<Rightarrow> (FxStatus StatusAccepted [], Some link))
            | _ \<Rightarrow> (FxStatus StatusBadRequest [], None)))"

text \<open>The first two segments of the path; splitting always gives at least one.\<close>

definition fx_segments :: "string \<Rightarrow> string \<times> string" where
  "fx_segments path =
     (case split_char (CHR ''/'') (TrimPrefix path ''/'') of
        [] \<Rightarrow> ([], [])
      | [a] \<Rightarrow> (a, [])
      | a # c # _ \<Rightarrow> (a, c))"

definition fx_serve :: "('b, 'w) fx_libs \<Rightarrow> bool \<Rightarrow> string \<Rightarrow> 'b fx_request \<Rightarrow> 'b exchange \<Rightarrow> ('b fx_reply \<times> (peerID \<times> string) option) \<times> 'b exchange" where
  "fx_serve lib readable remoteAddr r e =
     (case peer_Decode (fl_codecs lib) remoteAddr of
        None \<Rightarrow> ((FxStatus StatusBadRequest [], None), e)
      | Some from \<Rightarrow>
          (case fx_segments (fr_path r) of
             (action, c) \<Rightarrow>
               (case fx_authorized from action c e of
                  (False, e1) \<Rightarrow> ((FxStatus StatusUnauthorized ''not authorized'', None), e1)
                | (True, e1) \<Rightarrow>
                    if action = actionPull then
                      (case handlePull lib readable (fr_method r) (fr_payload r) c e1 of
                         (reply, link) \<Rightarrow> ((reply, map_option (Pair from) link), e1))
                    else if action = actionPush then
                      (case handlePush lib (fr_method r) (fr_payload r) c e1 of (reply, e2) \<Rightarrow> ((reply, None), e2))
                    else if action = actionAuth then
                      (case fx_handleAuthorization lib (fr_payload r) e1 of (reply, e2) \<Rightarrow> ((reply, None), e2))
                    else ((FxStatus StatusNotFound [], None), e1))))"

section \<open>Pulling\<close>

text \<open>What a request to a peer gives: no reply, or a status and a body.\<close>

datatype 'b fx_answer = NoAnswer | Answer nat "'b payload"

type_synonym ('b, 'w) fx_client = "peerID \<Rightarrow> string \<Rightarrow> string \<Rightarrow> 'b payload \<Rightarrow> 'w \<Rightarrow> 'b fx_answer \<times> 'w"

definition grant_temp :: "peerID \<Rightarrow> string \<Rightarrow> int \<Rightarrow> 'b exchange \<Rightarrow> 'b exchange" where
  "grant_temp from c now e = e\<lparr>fx_tempAuths := (fx_tempAuths e)(c \<mapsto> (from, now))\<rparr>"

definition pull_document :: "string \<Rightarrow> json" where
  "pull_document c = JObj [(''link'', JObj [(''/'', JStr c)])]"

definition fx_Pull :: "('b, 'w) fx_client \<Rightarrow> int \<Rightarrow> peerID \<Rightarrow> string \<Rightarrow> 'b exchange \<Rightarrow> 'w \<Rightarrow> (bool \<times> 'b exchange) \<times> 'w" where
  "fx_Pull client now from c e w =
     (case client from ''POST'' (CHR ''/'' # actionPull) (Text_payload (Doc (pull_document c))) w of
        (NoAnswer, w1) \<Rightarrow> ((False, grant_temp from c now e), w1)
      | (Answer st pl, w1) \<Rightarrow> ((pl \<noteq> Broken_payload \<and> st = StatusAccepted, grant_temp from c now e), w1))"

definition fx_PullBlock :: "('b, 'w) fx_libs \<Rightarrow> ('b, 'w) fx_client \<Rightarrow> int \<Rightarrow> peerID \<Rightarrow> string \<Rightarrow> 'b exchange \<Rightarrow> 'w \<Rightarrow> (bool \<times> 'b exchange) \<times> 'w" where
  "fx_PullBlock lib client now from c e w =
     (case client from ''GET'' (CHR ''/'' # actionPull @ CHR ''/'' # c) (Text_payload (Raw [])) w of
        (NoAnswer, w1) \<Rightarrow> ((False, grant_temp from c now e), w1)
      | (Answer st pl, w1) \<Rightarrow>
          if st \<noteq> StatusOK then ((False, grant_temp from c now e), w1)
          else (decodeAndStoreBlock lib pl c (grant_temp from c now e), w1))"

text \<open>Temporary permissions of five minutes and more are removed.\<close>

definition cleanupTempAuths :: "int \<Rightarrow> 'b exchange \<Rightarrow> 'b exchange" where
  "cleanupTempAuths now e =
     e\<lparr>fx_tempAuths := (\<lambda>c. case fx_tempAuths e c of None \<Rightarrow> None | Some (p, t) \<Rightarrow> if 5 * minute \<le> now - t then None else Some (p, t))\<rparr>"

text \<open>
  The times at which \<^verbatim>\<open>startTempAuthCleanup\<close> cleans, given the time its context is cancelled: the ticker fires every five
  minutes. \<^verbatim>\<open>Start\<close> cancels that context when it returns.
\<close>

definition cleanup_times :: "int \<Rightarrow> int \<Rightarrow> int set" where
  "cleanup_times started cancelled = {t. \<exists>k::nat. 0 < k \<and> t = started + 5 * minute * int k \<and> t < cancelled}"

lemma start_never_cleans: "returned \<le> started + minute \<Longrightarrow> cleanup_times started returned = {}"
  by (auto simp: cleanup_times_def)


section \<open>Histories\<close>

text \<open>
  What happens to an exchange: a request arrives from a peer (with the reading of the store working or not), a graph is asked for,
  a block is asked for and a body comes back or not, the cleaner runs, or the device itself sets a permission.
\<close>

datatype 'b fx_event =
    Incoming string bool "'b fx_request"
  | AsksGraph peerID string int
  | AsksBlock peerID string int "'b payload option"
  | Cleans int
  | SetsAuth peerID bool

fun fx_after :: "('b, 'w) fx_libs \<Rightarrow> 'b fx_event \<Rightarrow> 'b exchange \<Rightarrow> 'b exchange" where
  "fx_after lib (Incoming a rd r) e = snd (fx_serve lib rd a r e)"
| "fx_after lib (AsksGraph p c t) e = grant_temp p c t e"
| "fx_after lib (AsksBlock p c t pl) e =
     (let e1 = grant_temp p c t e in case pl of None \<Rightarrow> e1 | Some b \<Rightarrow> snd (decodeAndStoreBlock lib b c e1))"
| "fx_after lib (Cleans t) e = cleanupTempAuths t e"
| "fx_after lib (SetsAuth p b) e = snd (updateAuthorizePeers lib (fx_set_auth p b e))"

definition fx_run :: "('b, 'w) fx_libs \<Rightarrow> 'b fx_event list \<Rightarrow> 'b exchange \<Rightarrow> 'b exchange" where
  "fx_run lib evs e = fold (fx_after lib) evs e"

lemma fx_run_simps [simp]: "fx_run lib [] e = e" "fx_run lib (x # xs) e = fx_run lib xs (fx_after lib x e)"
  by (simp_all add: fx_run_def)

lemma pull_is_event: "snd (fst (fx_Pull client now from c e w)) = fx_after lib (AsksGraph from c now) e"
  by (simp add: fx_Pull_def split: prod.splits fx_answer.splits)

lemma pull_block_is_event: "\<exists>pl. snd (fst (fx_PullBlock lib client now from c e w)) = fx_after lib (AsksBlock from c now pl) e"
proof -
  obtain a w1 where a: "client from ''GET'' (CHR ''/'' # actionPull @ CHR ''/'' # c) (Text_payload (Raw [])) w = (a, w1)" by force
  define pl where "pl = (case a of Answer st pl \<Rightarrow> if st = StatusOK then Some pl else None | NoAnswer \<Rightarrow> None)"
  have "snd (fst (fx_PullBlock lib client now from c e w)) = fx_after lib (AsksBlock from c now pl) e"
    unfolding fx_PullBlock_def a by (cases a) (simp_all add: pl_def Let_def)
  then show ?thesis ..
qed


subsection \<open>What is stored\<close>

lemma fx_authorized_same:
  "fx_authorized p action c e = (ok, e') \<Longrightarrow>
   fx_blocks e' = fx_blocks e \<and> fx_peers e' = fx_peers e \<and> fx_self e' = fx_self e \<and> fx_authorizer e' = fx_authorizer e"
  by (auto simp: fx_authorized_def split: if_splits option.splits prod.splits)

lemma fx_set_auth_same [simp]:
  "fx_blocks (fx_set_auth p b e) = fx_blocks e" "fx_tempAuths (fx_set_auth p b e) = fx_tempAuths e"
  "fx_self (fx_set_auth p b e) = fx_self e" "fx_authorizer (fx_set_auth p b e) = fx_authorizer e"
  by (simp_all add: fx_set_auth_def)

lemma updateAuthorizePeers_same:
  "updateAuthorizePeers lib e = (ok, e') \<Longrightarrow>
   fx_blocks e' = fx_blocks e \<and> fx_peers e' = fx_peers e \<and> fx_tempAuths e' = fx_tempAuths e \<and> fx_self e' = fx_self e \<and>
   fx_authorizer e' = fx_authorizer e"
  by (auto simp: updateAuthorizePeers_def fx_GetAuthorizedPeers_def split: option.splits)

lemma fx_handleAuthorization_same:
  "fx_handleAuthorization lib pl e = (r, e') \<Longrightarrow>
   fx_blocks e' = fx_blocks e \<and> fx_tempAuths e' = fx_tempAuths e \<and> fx_self e' = fx_self e \<and> fx_authorizer e' = fx_authorizer e"
  by (auto simp: fx_handleAuthorization_def dest!: updateAuthorizePeers_same split: payload.splits option.splits prod.splits)

definition stored_only :: "('b, 'w) fx_libs \<Rightarrow> 'b exchange \<Rightarrow> 'b exchange \<Rightarrow> bool" where
  "stored_only lib e e' \<longleftrightarrow>
     fx_blocks e' = fx_blocks e \<or>
     (\<exists>c b c' b'. fl_store lib c b = Some (c', b') \<and> fx_blocks e' = (fx_blocks e)(c' \<mapsto> b'))"

lemma stored_onlyI:
  "fx_blocks e' = fx_blocks e \<Longrightarrow> stored_only lib e e'"
  "fl_store lib c b = Some (c', b') \<Longrightarrow> fx_blocks e' = (fx_blocks e)(c' \<mapsto> b') \<Longrightarrow> stored_only lib e e'"
  by (auto simp: stored_only_def)

lemma decodeAndStoreBlock_stored: "decodeAndStoreBlock lib pl c e = (ok, e') \<Longrightarrow> stored_only lib e e'"
  by (auto simp: decodeAndStoreBlock_def intro: stored_onlyI split: payload.splits option.splits)

lemma handlePush_stored: "handlePush lib m pl c e = (r, e') \<Longrightarrow> stored_only lib e e'"
  by (auto simp: handlePush_def dest!: decodeAndStoreBlock_stored split: if_splits option.splits prod.splits bool.splits)
    (simp_all add: stored_only_def)

lemma fx_serve_stored: "fx_serve lib rd a r e = (x, e') \<Longrightarrow> stored_only lib e e'"
  by (auto simp: fx_serve_def stored_only_def dest!: fx_authorized_same handlePush_stored fx_handleAuthorization_same
      split: option.splits prod.splits bool.splits if_splits)

lemma fx_after_stored: "stored_only lib e (fx_after lib x e)"
proof (cases x)
  case (Incoming a rd r)
  then show ?thesis by (cases "fx_serve lib rd a r e") (auto dest: fx_serve_stored)
next
  case (AsksBlock p c t pl)
  then show ?thesis
    by (cases pl) (auto simp: grant_temp_def Let_def decodeAndStoreBlock_def intro: stored_onlyI split: payload.splits option.splits)
next
  case (SetsAuth p b)
  then show ?thesis by (cases "updateAuthorizePeers lib (fx_set_auth p b e)") (auto simp: stored_only_def dest: updateAuthorizePeers_same)
qed (simp_all add: stored_only_def grant_temp_def cleanupTempAuths_def)

lemma stored_only_keeps:
  assumes "stored_only lib e e'" and store: "\<And>c b c' b'. fl_store lib c b = Some (c', b') \<Longrightarrow> addresses c' b'"
    and one: "\<And>c b b'. addresses c b \<Longrightarrow> addresses c b' \<Longrightarrow> b = b'" and all: "\<forall>c b. fx_blocks e c = Some b \<longrightarrow> addresses c b"
  shows "(\<forall>c b. fx_blocks e' c = Some b \<longrightarrow> addresses c b) \<and> fx_blocks e \<subseteq>\<^sub>m fx_blocks e'"
proof (cases "fx_blocks e' = fx_blocks e")
  case False
  with assms(1) obtain c b c' b' where s: "fl_store lib c b = Some (c', b')" "fx_blocks e' = (fx_blocks e)(c' \<mapsto> b')"
    by (auto simp: stored_only_def)
  have a: "addresses c' b'" by (rule store [OF s(1)])
  have "fx_blocks e c' = None \<or> fx_blocks e c' = Some b'" using all a one by (cases "fx_blocks e c'") blast+
  with a all show ?thesis unfolding s(2) by (auto simp: map_le_def)
qed (use all in auto)

text \<open>
  C20. No history of pushes and pulls, by whatever peers, puts a block under a name that is not its content id, and none removes
  or replaces a stored block: given that the link system names what it stores by its content and that no two contents have the
  same name.
\<close>

theorem blocks_content_addressed:
  assumes "\<And>c b c' b'. fl_store lib c b = Some (c', b') \<Longrightarrow> addresses c' b'"
    and "\<And>c b b'. addresses c b \<Longrightarrow> addresses c b' \<Longrightarrow> b = b'"
    and "\<forall>c b. fx_blocks e c = Some b \<longrightarrow> addresses c b"
  shows "(\<forall>c b. fx_blocks (fx_run lib evs e) c = Some b \<longrightarrow> addresses c b) \<and> fx_blocks e \<subseteq>\<^sub>m fx_blocks (fx_run lib evs e)"
  using assms(3)
proof (induction evs arbitrary: e)
  case (Cons x evs)
  have k: "(\<forall>c b. fx_blocks (fx_after lib x e) c = Some b \<longrightarrow> addresses c b) \<and> fx_blocks e \<subseteq>\<^sub>m fx_blocks (fx_after lib x e)"
    by (rule stored_only_keeps [of lib e "fx_after lib x e" addresses]) (use fx_after_stored assms(1,2) Cons.prems in auto)
  then have ok: "\<forall>c b. fx_blocks (fx_after lib x e) c = Some b \<longrightarrow> addresses c b" by blast
  show ?case using k Cons.IH [OF ok] map_le_trans by auto
qed simp

subsection \<open>Who may push\<close>

text \<open>A device with an owner that is not itself decides about pushes; every other one takes them from anybody.\<close>

definition guarded :: "'b exchange \<Rightarrow> bool" where
  "guarded e \<longleftrightarrow> fx_authorizer e \<noteq> [] \<and> fx_authorizer e \<noteq> fx_self e"

lemma unguarded_takes_all: "\<not> guarded e \<Longrightarrow> fx_authorized pid actionPush c e = (True, e)"
  by (auto simp: guarded_def fx_authorized_def fx_actions)

text \<open>The content ids for which a peer holds a temporary permission.\<close>

definition held :: "peerID \<Rightarrow> 'b exchange \<Rightarrow> string set" where
  "held p e = {c. \<exists>t. fx_tempAuths e c = Some (p, t)}"

text \<open>
  An event lets a push of the peer through the guard; it asks the peer; it gives the peer a permanent permission: the owner's
  authorisation request that allows this peer, or the device's own setting.
\<close>

definition allows :: "('b, 'w) fx_libs \<Rightarrow> peerID \<Rightarrow> 'b payload \<Rightarrow> bool" where
  "allows lib p pl \<longleftrightarrow>
     (case pl of Text_payload b \<Rightarrow> Option.bind (unmarshal b) (authorization_request (fl_codecs lib)) = Some (p, True) | _ \<Rightarrow> False)"

fun passes :: "('b, 'w) fx_libs \<Rightarrow> peerID \<Rightarrow> 'b fx_event \<Rightarrow> 'b exchange \<Rightarrow> bool" where
  "passes lib p (Incoming a rd r) e \<longleftrightarrow>
     peer_Decode (fl_codecs lib) a = Some p \<and> fst (fx_segments (fr_path r)) = actionPush \<and>
     fst (fx_authorized p actionPush (snd (fx_segments (fr_path r))) e)"
| "passes lib p _ e \<longleftrightarrow> False"

fun asks :: "peerID \<Rightarrow> 'b fx_event \<Rightarrow> bool" where
  "asks p (AsksGraph q c t) \<longleftrightarrow> q = p"
| "asks p (AsksBlock q c t pl) \<longleftrightarrow> q = p"
| "asks p _ \<longleftrightarrow> False"

fun permits :: "('b, 'w) fx_libs \<Rightarrow> peerID \<Rightarrow> peerID \<Rightarrow> 'b fx_event \<Rightarrow> bool" where
  "permits lib owner p (Incoming a rd r) \<longleftrightarrow>
     peer_Decode (fl_codecs lib) a = Some owner \<and> fst (fx_segments (fr_path r)) = actionAuth \<and> allows lib p (fr_payload r)"
| "permits lib owner p (SetsAuth q b) \<longleftrightarrow> q = p \<and> b"
| "permits lib owner p _ \<longleftrightarrow> False"

fun passed :: "('b, 'w) fx_libs \<Rightarrow> peerID \<Rightarrow> 'b fx_event list \<Rightarrow> 'b exchange \<Rightarrow> nat" where
  "passed lib p [] e = 0"
| "passed lib p (x # xs) e = (if passes lib p x e then 1 else 0) + passed lib p xs (fx_after lib x e)"

lemma handlePush_same:
  "handlePush lib m pl c e = (r, e') \<Longrightarrow>
   fx_tempAuths e' = fx_tempAuths e \<and> fx_peers e' = fx_peers e \<and> fx_self e' = fx_self e \<and> fx_authorizer e' = fx_authorizer e"
  by (auto simp: handlePush_def decodeAndStoreBlock_def split: if_splits option.splits prod.splits bool.splits payload.splits)

lemma handleAuthorization_allows:
  "fx_handleAuthorization lib pl e = (r, e') \<Longrightarrow>
   fx_tempAuths e' = fx_tempAuths e \<and> fx_self e' = fx_self e \<and> fx_authorizer e' = fx_authorizer e \<and> (\<forall>p. p \<in> fx_peers e' \<longrightarrow> p \<in> fx_peers e \<or> allows lib p pl)"
  by (auto simp: fx_handleAuthorization_def allows_def fx_set_auth_def dest!: updateAuthorizePeers_same
      split: payload.splits option.splits prod.splits if_splits)

lemma fx_serve_guard:
  assumes "peer_Decode (fl_codecs lib) a = Some from" and "fx_segments (fr_path r) = (action, c)"
  shows "fx_tempAuths (snd (fx_serve lib rd a r e)) = fx_tempAuths (snd (fx_authorized from action c e)) \<and>
    fx_self (snd (fx_serve lib rd a r e)) = fx_self e \<and> fx_authorizer (snd (fx_serve lib rd a r e)) = fx_authorizer e \<and>
    (\<not> (action = actionAuth \<and> from = fx_authorizer e \<and> allows lib p (fr_payload r)) \<longrightarrow> p \<notin> fx_peers e \<longrightarrow>
       p \<notin> fx_peers (snd (fx_serve lib rd a r e)))"
proof -
  obtain ok e1 where au: "fx_authorized from action c e = (ok, e1)" by force
  from au have "ok \<Longrightarrow> action = actionAuth \<Longrightarrow> from = fx_authorizer e"
    by (auto simp: fx_authorized_def fx_actions split: if_splits)
  with fx_authorized_same [OF au] assms show ?thesis
    by (auto simp: fx_serve_def au fx_actions dest!: handlePush_same handleAuthorization_allows split: prod.splits bool.splits)
qed

lemma fx_serve_undecoded: "peer_Decode (fl_codecs lib) a = None \<Longrightarrow> snd (fx_serve lib rd a r e) = e"
  by (simp add: fx_serve_def)

lemma held_authorized:
  assumes "guarded e" and "p \<notin> fx_peers e" and "finite (dom (fx_tempAuths e))"
  shows "card (held p (snd (fx_authorized from action c e))) + (if from = p \<and> action = actionPush \<and> fst (fx_authorized from action c e) then 1 else 0)
    \<le> card (held p e)"
proof -
  have "held p e \<subseteq> dom (fx_tempAuths e)" by (auto simp: held_def)
  then have fin: "finite (held p e)" using assms(3) finite_subset by blast
  show ?thesis
  proof (cases "action = actionPush \<and> (\<exists>t. fx_tempAuths e c = Some (from, t))")
    case True
    then have "snd (fx_authorized from action c e) = e\<lparr>fx_tempAuths := (fx_tempAuths e)(c := None)\<rparr>"
      using assms(1) by (auto simp: fx_authorized_def guarded_def fx_actions)
    then have h: "held p (snd (fx_authorized from action c e)) = held p e - {c}" by (auto simp: held_def)
    show ?thesis
    proof (cases "from = p")
      case p: True
      with True have "c \<in> held p e" by (auto simp: held_def)
      with fin have "card (held p e - {c}) + 1 = card (held p e)" by (metis Suc_eq_plus1 card_Suc_Diff1)
      then show ?thesis unfolding h by simp
    next
      case False
      then show ?thesis using h fin by (simp add: card_mono)
    qed
  next
    case False
    then have "snd (fx_authorized from action c e) = e" "\<not> (from = p \<and> action = actionPush \<and> fst (fx_authorized from action c e))"
      using assms(1,2) by (auto simp: fx_authorized_def guarded_def fx_actions split: option.splits)
    then show ?thesis by simp
  qed
qed

lemma held_grant:
  "finite (dom (fx_tempAuths e)) \<Longrightarrow> card (held p (grant_temp q c t e)) \<le> card (held p e) + (if q = p then 1 else 0)"
proof -
  assume "finite (dom (fx_tempAuths e))"
  then have fin: "finite (held p e)" by (rule rev_finite_subset) (auto simp: held_def)
  show ?thesis
  proof (cases "q = p")
    case True
    then have "held p (grant_temp q c t e) = insert c (held p e)" by (auto simp: held_def grant_temp_def)
    with fin True show ?thesis by (simp add: card_insert_if)
  next
    case False
    then have "held p (grant_temp q c t e) \<subseteq> held p e" by (auto simp: held_def grant_temp_def split: if_splits)
    with fin False show ?thesis by (simp add: card_mono)
  qed
qed

lemma decodeAndStoreBlock_same:
  "held p (snd (decodeAndStoreBlock lib pl c e)) = held p e" "fx_tempAuths (snd (decodeAndStoreBlock lib pl c e)) = fx_tempAuths e"
  "fx_peers (snd (decodeAndStoreBlock lib pl c e)) = fx_peers e" "fx_self (snd (decodeAndStoreBlock lib pl c e)) = fx_self e"
  "fx_authorizer (snd (decodeAndStoreBlock lib pl c e)) = fx_authorizer e"
  by (auto simp: decodeAndStoreBlock_def held_def split: payload.splits option.splits)

definition watched :: "peerID \<Rightarrow> peerID \<Rightarrow> 'b exchange \<Rightarrow> bool" where
  "watched owner p e \<longleftrightarrow> guarded e \<and> fx_authorizer e = owner \<and> p \<notin> fx_peers e \<and> finite (dom (fx_tempAuths e))"

lemma watched_grant: "watched owner p (grant_temp q c t e) \<longleftrightarrow> watched owner p e"
  by (auto simp: watched_def guarded_def grant_temp_def)

lemma watched_store: "watched owner p (snd (decodeAndStoreBlock lib pl c e)) \<longleftrightarrow> watched owner p e"
  by (simp add: watched_def guarded_def decodeAndStoreBlock_same)

lemma watched_finite: "watched owner p e \<Longrightarrow> finite (dom (fx_tempAuths e))"
  by (simp add: watched_def)

lemma watched_clean: "watched owner p e \<Longrightarrow> watched owner p (cleanupTempAuths t e) \<and> card (held p (cleanupTempAuths t e)) \<le> card (held p e)"
proof -
  assume w: "watched owner p e"
  have s: "held p (cleanupTempAuths t e) \<subseteq> held p e" "dom (fx_tempAuths (cleanupTempAuths t e)) \<subseteq> dom (fx_tempAuths e)"
    by (auto simp: held_def cleanupTempAuths_def split: option.splits if_splits)
  have "finite (held p e)" using watched_finite [OF w] by (rule rev_finite_subset) (auto simp: held_def)
  then have "card (held p (cleanupTempAuths t e)) \<le> card (held p e)" using s(1) by (rule card_mono)
  moreover have "finite (dom (fx_tempAuths (cleanupTempAuths t e)))" using watched_finite [OF w] s(2) by (rule rev_finite_subset)
  moreover have "fx_self (cleanupTempAuths t e) = fx_self e" "fx_authorizer (cleanupTempAuths t e) = fx_authorizer e"
    "fx_peers (cleanupTempAuths t e) = fx_peers e" by (simp_all add: cleanupTempAuths_def)
  ultimately show ?thesis using w unfolding watched_def guarded_def by metis
qed

lemma fx_authorized_dom: "dom (fx_tempAuths (snd (fx_authorized q action c e))) \<subseteq> dom (fx_tempAuths e)"
  by (auto simp: fx_authorized_def split: if_splits option.splits prod.splits)

lemma budget_incoming:
  assumes w: "watched owner p e" and np: "\<not> permits lib owner p (Incoming a rd r)"
  shows "watched owner p (snd (fx_serve lib rd a r e)) \<and>
    card (held p (snd (fx_serve lib rd a r e))) + (if passes lib p (Incoming a rd r) e then 1 else 0) \<le> card (held p e)"
proof (cases "peer_Decode (fl_codecs lib) a")
  case None
  with w show ?thesis by (simp add: fx_serve_undecoded)
next
  case (Some q)
  obtain action c where seg: "fx_segments (fr_path r) = (action, c)" by force
  note s = fx_serve_guard [OF Some seg, of rd e p]
  from w have g: "guarded e" "p \<notin> fx_peers e" "finite (dom (fx_tempAuths e))" by (auto simp: watched_def)
  from s have h: "held p (snd (fx_serve lib rd a r e)) = held p (snd (fx_authorized q action c e))" by (simp add: held_def)
  have "finite (dom (fx_tempAuths (snd (fx_authorized q action c e))))" using g(3) by (rule rev_finite_subset) (rule fx_authorized_dom)
  moreover have "\<not> (action = actionAuth \<and> q = fx_authorizer e \<and> allows lib p (fr_payload r))" using np Some seg w by (auto simp: watched_def)
  ultimately have "watched owner p (snd (fx_serve lib rd a r e))" using s w unfolding watched_def guarded_def by metis
  moreover have "passes lib p (Incoming a rd r) e \<longleftrightarrow> q = p \<and> action = actionPush \<and> fst (fx_authorized q action c e)"
    using Some seg by auto
  ultimately show ?thesis unfolding h using held_authorized [OF g, of q action c] by auto
qed

lemma budget_step:
  assumes w: "watched owner p e" and np: "\<not> permits lib owner p x"
  shows "watched owner p (fx_after lib x e) \<and>
    card (held p (fx_after lib x e)) + (if passes lib p x e then 1 else 0) \<le> card (held p e) + (if asks p x then 1 else 0)"
proof (cases x)
  case (Incoming a rd r)
  with budget_incoming [OF w] np show ?thesis by simp
next
  case (AsksGraph q c t)
  with w held_grant [OF watched_finite [OF w], of p q c t] show ?thesis by (simp add: watched_grant)
next
  case (AsksBlock q c t pl)
  with w held_grant [OF watched_finite [OF w], of p q c t] show ?thesis
    by (cases pl) (simp_all add: watched_grant watched_store decodeAndStoreBlock_same)
next
  case (Cleans t)
  with watched_clean [OF w] show ?thesis by simp
next
  case (SetsAuth q b)
  obtain ok e1 where u: "updateAuthorizePeers lib (fx_set_auth q b e) = (ok, e1)" by force
  from updateAuthorizePeers_same [OF u] have "held p e1 = held p e" by (simp add: held_def)
  with updateAuthorizePeers_same [OF u] w np SetsAuth u show ?thesis by (auto simp: watched_def guarded_def fx_set_auth_def)
qed

text \<open>
  C19. What an unauthorised peer may push to a device that has an owner other than itself: take a peer that is not on the
  list of permitted peers, and any history that does not put it there, neither by a request of the owner that allows this peer nor by
  the device's own setting, while others may be allowed and revoked; the guard then lets the peer push at most as often as the
  device itself asked it for something, plus the temporary permissions it already had. A permission is used up by the
  first push. (A device without an owner, or that is its own owner, takes pushes from anybody: \<^verbatim>\<open>unguarded_takes_all\<close>.)
\<close>

theorem push_budget:
  assumes "guarded e" and "p \<notin> fx_peers e" and "finite (dom (fx_tempAuths e))"
    and "\<forall>x \<in> set evs. \<not> permits lib (fx_authorizer e) p x"
  shows "passed lib p evs e \<le> length (filter (asks p) evs) + card (held p e)"
proof -
  have "watched owner p e' \<Longrightarrow> \<forall>x \<in> set evs. \<not> permits lib owner p x \<Longrightarrow>
    passed lib p evs e' \<le> length (filter (asks p) evs) + card (held p e')" for owner e'
  proof (induction evs arbitrary: e')
    case (Cons x evs)
    then have "watched owner p (fx_after lib x e') \<and>
        card (held p (fx_after lib x e')) + (if passes lib p x e' then 1 else 0) \<le> card (held p e') + (if asks p x then 1 else 0)"
      by (intro budget_step) auto
    moreover from this have "passed lib p evs (fx_after lib x e') \<le> length (filter (asks p) evs) + card (held p (fx_after lib x e'))"
      using Cons by auto
    ultimately show ?case by (cases "asks p x"; cases "passes lib p x e'") simp_all
  qed simp
  with assms show ?thesis by (simp add: watched_def)
qed

section \<open>Pushing\<close>

text \<open>
  The circuit breaker (\<^verbatim>\<open>gobreaker\<close>) may refuse to run an action and is told how it ended. An attempt to send a request
  answers and says whether it has read the body: what is left of the body is what the next attempt sends. \<open>px_wait\<close> is
  \<^verbatim>\<open>select\<close> between the timer and the context (\<^const>\<open>True\<close>: the time passed); \<open>px_jitter\<close> is the random part of a delay.
\<close>

datatype breaker = CbRun | CbOpen | CbTooMany

record ('b, 'w) push_libs =
  cb_allow :: "'w \<Rightarrow> breaker \<times> 'w"
  cb_record :: "bool \<Rightarrow> 'w \<Rightarrow> 'w"
  px_send :: "peerID \<Rightarrow> string \<Rightarrow> 'b option \<Rightarrow> 'w \<Rightarrow> ('b fx_answer \<times> bool) \<times> 'w"
  px_wait :: "int \<Rightarrow> 'w \<Rightarrow> bool \<times> 'w"
  px_jitter :: "int \<Rightarrow> 'w \<Rightarrow> int \<times> 'w"

datatype push_error = BreakerOpen | BreakerBusy | SendFailed | RetriesFailed | PushCancelled

text \<open>One run of the request under the breaker; the body is consumed by an attempt that reads it.\<close>

definition push_attempt :: "('b, 'w) push_libs \<Rightarrow> peerID \<Rightarrow> string \<Rightarrow> 'b option \<Rightarrow> 'w \<Rightarrow> (push_error option \<times> 'b option) \<times> 'w" where
  "push_attempt px to c left w =
     (case cb_allow px w of
        (CbOpen, w1) \<Rightarrow> ((Some BreakerOpen, left), w1)
      | (CbTooMany, w1) \<Rightarrow> ((Some BreakerBusy, left), w1)
      | (CbRun, w1) \<Rightarrow>
          (case px_send px to (CHR ''/'' # actionPush @ CHR ''/'' # c) left w1 of
             ((ans, consumed), w2) \<Rightarrow>
               (let ok = (case ans of NoAnswer \<Rightarrow> False | Answer st pl \<Rightarrow> pl \<noteq> Broken_payload \<and> st = StatusOK) in
                ((if ok then None else Some SendFailed, if consumed then None else left), cb_record px ok w2))))"

text \<open>
  \<^verbatim>\<open>retryWithBackoff\<close>: \<open>n\<close> attempts are left; the delay starts at one second and doubles, plus the jitter, and is waited for also after the
  last attempt. \<open>s\<close> is the state that the attempts share.
\<close>

fun retryWithBackoff :: "('b, 'w) push_libs \<Rightarrow> nat \<Rightarrow> int \<Rightarrow> ('s \<Rightarrow> 'w \<Rightarrow> (push_error option \<times> 's) \<times> 'w) \<Rightarrow> 's \<Rightarrow> 'w \<Rightarrow>
    push_error option \<times> 'w" where
  "retryWithBackoff px 0 delay fn s w = (Some RetriesFailed, w)"
| "retryWithBackoff px (Suc n) delay fn s w =
     (case fn s w of
        ((None, s1), w1) \<Rightarrow> (None, w1)
      | ((Some err, s1), w1) \<Rightarrow>
          (case px_jitter px delay w1 of
             (j, w2) \<Rightarrow>
               (case px_wait px (delay + j) w2 of
                  (False, w3) \<Rightarrow> (Some PushCancelled, w3)
                | (True, w3) \<Rightarrow> retryWithBackoff px n (2 * delay) fn s1 w3)))"

definition maxRetries_push :: nat where
  "maxRetries_push = 5"

text \<open>\<^verbatim>\<open>pushOneNode\<close>, of an encoded node.\<close>

definition pushOneNode :: "('b, 'w) push_libs \<Rightarrow> peerID \<Rightarrow> string \<times> 'b \<Rightarrow> 'w \<Rightarrow> push_error option \<times> 'w" where
  "pushOneNode px to cb w =
     (case push_attempt px to (fst cb) (Some (snd cb)) w of
        ((None, _), w1) \<Rightarrow> (None, w1)
      | ((Some BreakerOpen, _), w1) \<Rightarrow> (Some BreakerOpen, w1)
      | ((Some _, left), w1) \<Rightarrow>
          retryWithBackoff px maxRetries_push second (push_attempt px to (fst cb)) left w1)"

text \<open>
  \<^verbatim>\<open>Push\<close>: the nodes are pushed concurrently; they are taken here in the order of the traversal. An error of the traversal is returned
  without waiting for the pushes, otherwise the first error of a push.
\<close>

fun push_nodes :: "('b, 'w) push_libs \<Rightarrow> peerID \<Rightarrow> (string \<times> 'b) list \<Rightarrow> 'w \<Rightarrow> push_error option list \<times> 'w" where
  "push_nodes px to [] w = ([], w)"
| "push_nodes px to (x # xs) w = (case pushOneNode px to x w of (r, w1) \<Rightarrow> (case push_nodes px to xs w1 of (rs, w2) \<Rightarrow> (r # rs, w2)))"

datatype push_result = Pushed | LoadFailed | WalkFailed | NodeFailed push_error

definition fx_Push :: "('b, 'w) fx_libs \<Rightarrow> ('b, 'w) push_libs \<Rightarrow> peerID \<Rightarrow> string \<Rightarrow> 'b exchange \<Rightarrow> 'w \<Rightarrow> push_result \<times> 'w" where
  "fx_Push lib px to l e w =
     (if fx_blocks e l = None then (LoadFailed, w)
      else (case fl_walk lib (fx_blocks e) l of
              (nodes, complete) \<Rightarrow>
                (case push_nodes px to nodes w of
                   (rs, w1) \<Rightarrow>
                     (if \<not> complete then WalkFailed
                      else (case filter (\<lambda>r. r \<noteq> None) rs of [] \<Rightarrow> Pushed | r # _ \<Rightarrow> NodeFailed (the r)), w1))))"

text \<open>
  Two meters that the outside world may carry: \<open>sent\<close> counts the requests that were handed to the client, \<open>slept\<close> the time that
  the process waited between them. The jitter is a random part of the delay.
\<close>

definition push_meters :: "('b, 'w) push_libs \<Rightarrow> ('w \<Rightarrow> nat) \<Rightarrow> ('w \<Rightarrow> int) \<Rightarrow> bool" where
  "push_meters px sent slept \<longleftrightarrow>
     (\<forall>w. sent (snd (cb_allow px w)) = sent w \<and> slept (snd (cb_allow px w)) = slept w) \<and>
     (\<forall>ok w. sent (cb_record px ok w) = sent w \<and> slept (cb_record px ok w) = slept w) \<and>
     (\<forall>to path body w. sent (snd (px_send px to path body w)) = sent w + 1 \<and> slept (snd (px_send px to path body w)) = slept w) \<and>
     (\<forall>n w. 0 < n \<longrightarrow> sent (snd (px_wait px n w)) = sent w \<and> slept w \<le> slept (snd (px_wait px n w)) \<and>
        slept (snd (px_wait px n w)) \<le> slept w + n \<and> (fst (px_wait px n w) \<longrightarrow> slept (snd (px_wait px n w)) = slept w + n)) \<and>
     (\<forall>d w. 0 < d \<longrightarrow> sent (snd (px_jitter px d w)) = sent w \<and> slept (snd (px_jitter px d w)) = slept w \<and>
        0 \<le> fst (px_jitter px d w) \<and> fst (px_jitter px d w) \<le> d)"

lemma push_metersD:
  assumes "push_meters px sent slept"
  shows "cb_allow px w = (b, w') \<Longrightarrow> sent w' = sent w \<and> slept w' = slept w"
    and "sent (cb_record px ok w) = sent w" and "slept (cb_record px ok w) = slept w"
    and "px_send px to path body w = (x, w') \<Longrightarrow> sent w' = sent w + 1 \<and> slept w' = slept w"
    and "px_wait px n w = (t, w') \<Longrightarrow> 0 < n \<Longrightarrow> sent w' = sent w \<and> slept w \<le> slept w' \<and> slept w' \<le> slept w + n \<and> (t \<longrightarrow> slept w' = slept w + n)"
    and "px_jitter px d w = (j, w') \<Longrightarrow> 0 < d \<Longrightarrow> sent w' = sent w \<and> slept w' = slept w \<and> 0 \<le> j \<and> j \<le> d"
proof -
  note m = assms [unfolded push_meters_def]
  show "cb_allow px w = (b, w') \<Longrightarrow> sent w' = sent w \<and> slept w' = slept w" using m by (metis snd_conv)
  show "sent (cb_record px ok w) = sent w" "slept (cb_record px ok w) = slept w" using m by blast+
  show "px_send px to path body w = (x, w') \<Longrightarrow> sent w' = sent w + 1 \<and> slept w' = slept w" using m by (metis snd_conv)
  show "px_wait px n w = (t, w') \<Longrightarrow> 0 < n \<Longrightarrow> sent w' = sent w \<and> slept w \<le> slept w' \<and> slept w' \<le> slept w + n \<and> (t \<longrightarrow> slept w' = slept w + n)"
    using m by (metis fst_conv snd_conv)
  show "px_jitter px d w = (j, w') \<Longrightarrow> 0 < d \<Longrightarrow> sent w' = sent w \<and> slept w' = slept w \<and> 0 \<le> j \<and> j \<le> d"
    using m by (metis fst_conv snd_conv)
qed

lemma push_attempt_meters:
  assumes "push_meters px sent slept" and "push_attempt px to c left w = ((r, left'), w')"
  shows "slept w' = slept w \<and> (sent w' = sent w + 1 \<or> sent w' = sent w \<and> r \<noteq> None \<and> fst (cb_allow px w) \<noteq> CbRun)"
  using assms(2) push_metersD [OF assms(1)]
  by (auto simp: push_attempt_def Let_def split: prod.splits breaker.splits if_splits)

text \<open>What retrying costs, from any number of attempts and any first delay.\<close>

lemma retry_meters:
  assumes m: "push_meters px sent slept" and "retryWithBackoff px n delay (push_attempt px to c) left w = (r, w')" and "0 < delay"
  shows "sent w \<le> sent w' \<and> sent w' \<le> sent w + n \<and> slept w \<le> slept w' \<and> slept w' \<le> slept w + 2 * (2 ^ n - 1) * delay \<and>
    (r = None \<and> sent w < sent w' \<or> r = Some PushCancelled \<or>
     r = Some RetriesFailed \<and> slept w + (2 ^ n - 1) * delay \<le> slept w' \<and> ((\<forall>u. fst (cb_allow px u) = CbRun) \<longrightarrow> sent w' = sent w + n))"
  using assms(2,3)
proof (induction n arbitrary: delay left w)
  case (Suc n)
  obtain o1 l1 w1 where f: "push_attempt px to c left w = ((o1, l1), w1)" by (metis surj_pair)
  note a = push_attempt_meters [OF m f]
  have "1 \<le> (2 ^ n :: int)" by simp
  then have pos: "delay \<le> 2 ^ n * delay" using Suc.prems(2) by simp
  show ?case
  proof (cases o1)
    case None
    with Suc.prems f a have "r = None" "slept w' = slept w" "sent w' = sent w + 1" by auto
    moreover have "0 \<le> 2 * (2 ^ Suc n - 1) * delay" using Suc.prems(2) by (intro mult_nonneg_nonneg) (auto intro: one_le_power)
    ultimately show ?thesis by simp
  next
    case (Some err)
    obtain j w2 where j: "px_jitter px delay w1 = (j, w2)" by force
    obtain t w3 where t: "px_wait px (delay + j) w2 = (t, w3)" by force
    note jm = push_metersD(6) [OF m j Suc.prems(2)]
    then have "0 < delay + j" using Suc.prems(2) by linarith
    note tm = push_metersD(5) [OF m t this]
    show ?thesis
    proof (cases t)
      case False
      with Suc.prems f Some j t have "r = Some PushCancelled" "w' = w3" by auto
      with a jm tm pos show ?thesis by (auto simp: algebra_simps)
    next
      case True
      with Suc.prems f Some j t have "retryWithBackoff px n (2 * delay) (push_attempt px to c) l1 w3 = (r, w')" by simp
      from Suc.IH [OF this] Suc.prems(2) a jm tm True Some show ?thesis by (auto simp: algebra_simps)
    qed
  qed
qed auto

text \<open>
  C28. Pushing a node ends, and what it costs: whatever the peer and the breaker answer, the request is sent at most six
  times, once and then at most five times again, and the waits between take no more than 62 seconds together. The push
  succeeds only if a request was sent; it ends with an error only because the breaker was open at the first attempt, because it was cancelled, or
  after the five delays, which take at least 31 seconds, and, if the breaker refused nothing, after six requests.
\<close>

theorem retry_is_bounded:
  assumes "push_meters px sent slept" and "pushOneNode px to cb w = (r, w')"
  shows "sent w' \<le> sent w + 6 \<and> slept w \<le> slept w' \<and> slept w' \<le> slept w + 62 * second \<and>
    (r = None \<and> sent w < sent w' \<or>
     r = Some BreakerOpen \<and> sent w' = sent w \<and> slept w' = slept w \<or>
     r = Some PushCancelled \<or>
     r = Some RetriesFailed \<and> slept w + 31 * second \<le> slept w' \<and> ((\<forall>u. fst (cb_allow px u) = CbRun) \<longrightarrow> sent w' = sent w + 6))"
proof -
  obtain o1 l1 w1 where f: "push_attempt px to (fst cb) (Some (snd cb)) w = ((o1, l1), w1)" by (metis surj_pair)
  note a = push_attempt_meters [OF assms(1) f]
  have opened: "sent w1 = sent w" if "o1 = Some BreakerOpen"
    using f that push_metersD(1) [OF assms(1)] by (auto simp: push_attempt_def Let_def split: prod.splits breaker.splits if_splits)
  show ?thesis
  proof (cases "o1 = None \<or> o1 = Some BreakerOpen")
    case True
    with assms(2) f have "r = o1 \<and> w' = w1" by (auto simp: pushOneNode_def)
    with True a opened show ?thesis by auto
  next
    case False
    with assms(2) f have "retryWithBackoff px maxRetries_push second (push_attempt px to (fst cb)) l1 w1 = (r, w')"
      by (auto simp: pushOneNode_def split: option.splits push_error.splits)
    from retry_meters [OF assms(1) this] a show ?thesis by (auto simp: maxRetries_push_def)
  qed
qed

text \<open>
  A repetition sends the request that was used before, so once a peer has read the body and refused it, the repetitions carry no
  content: they fail if a request without its content is never accepted.
\<close>

lemma retry_without_content_fails:
  assumes "\<And>w ans consumed w'. px_send px to (CHR ''/'' # actionPush @ CHR ''/'' # c) None w = ((ans, consumed), w') \<Longrightarrow>
      (\<forall>pl. ans \<noteq> Answer StatusOK pl)"
  shows "fst (retryWithBackoff px n delay (push_attempt px to c) None w) \<noteq> None"
proof (induction n arbitrary: delay w)
  case (Suc n)
  obtain r left w1 where a: "push_attempt px to c None w = ((r, left), w1)" by (metis surj_pair)
  then have "r \<noteq> None \<and> left = None"
    by (auto simp: push_attempt_def Let_def split: prod.splits breaker.splits fx_answer.splits if_splits) (use assms in blast)
  then obtain err where r: "r = Some err" "left = None" by auto
  obtain j w2 where j: "px_jitter px delay w1 = (j, w2)" by force
  obtain t w3 where t: "px_wait px (delay + j) w2 = (t, w3)" by force
  show ?case using Suc.IH [of "2 * delay" w3] a r j t by (auto split: prod.splits bool.splits)
qed simp

text \<open>A peer that answers from the third request on; the world counts the requests and the time waited.\<close>

definition flaky_push :: "(string, nat \<times> int) push_libs" where
  "flaky_push = \<lparr>cb_allow = (\<lambda>w. (CbRun, w)), cb_record = (\<lambda>_ w. w),
     px_send = (\<lambda>_ _ _ w. (if fst w < 2 then (NoAnswer, False) else (Answer StatusOK (Text_payload (Raw [])), True), (Suc (fst w), snd w))),
     px_wait = (\<lambda>n w. (True, (fst w, snd w + n))), px_jitter = (\<lambda>d w. (d, w))\<rparr>"

theorem retry_is_bounded_witness:
  "\<exists>k t. pushOneNode flaky_push ''p'' (''c'', ''b'') (0, 0) = (None, (k, t)) \<and> 0 < k \<and> k \<le> 6 \<and> t \<le> 62 * second"
proof -
  have r: "pushOneNode flaky_push ''p'' (''c'', ''b'') (0, 0) = (None, (3, 2 * second))"
    by (simp add: pushOneNode_def maxRetries_push_def numeral_eq_Suc push_attempt_def flaky_push_def Let_def)
  have "push_meters flaky_push fst snd" by (simp add: push_meters_def flaky_push_def)
  from retry_is_bounded [OF this r] show ?thesis unfolding r by auto
qed


section \<open>Finding providers\<close>

definition MultihashResults :: gty where
  "MultihashResults = GStruct [(''MultihashResults'', GArr (GStruct [(''Multihash'', GStr, False),
     (''ProviderResults'', GArr (GStruct [(''ContextID'', GStr, False)]), False)]), False)]"

text \<open>A provider is kept when its context id is the base64 form of the text of a peer id.\<close>

definition provider_of :: "codecs \<Rightarrow> json \<Rightarrow> peerID option" where
  "provider_of cod p = Option.bind (b64_decode (text_of (entry ''ContextID'' p))) (\<lambda>bs. peer_Decode cod (bytes_to_string bs))"

definition FindProvidersIpni :: "'w env \<Rightarrow> (string \<Rightarrow> bool) \<Rightarrow> string \<Rightarrow> string \<Rightarrow> string list \<Rightarrow> 'w device \<Rightarrow> (peerID \<times> string list) list option \<times> 'w device" where
  "FindProvidersIpni env valid_addr ipniGetEndpoint c relays d =
     (case send env \<lparr>hq_method = ''GET'', hq_url = ipniGetEndpoint @ c, hq_body = Raw []\<rparr> d of
        (Reply st (Some b), d1) \<Rightarrow>
          (case Option.bind (unmarshal b) (decode_new MultihashResults) of
             None \<Rightarrow> (None, d1)
           | Some j \<Rightarrow>
               (Some (map (\<lambda>pid. (pid, filter valid_addr relays))
                  (List.map_filter (provider_of (codec env))
                    (concat (map (\<lambda>r. elements (entry ''ProviderResults'' r)) (elements (entry ''MultihashResults'' j)))))), d1))
      | (_, d1) \<Rightarrow> (None, d1))"

text \<open>\<^verbatim>\<open>Provide\<close> and \<^verbatim>\<open>FindProviders\<close> of the DHT are asked only about content ids that are defined and are no identity hashes.\<close>

definition dht_asked :: "(string \<Rightarrow> bool) \<Rightarrow> string option \<Rightarrow> (string \<Rightarrow> 'w \<Rightarrow> 'a option \<times> 'w) \<Rightarrow> 'w \<Rightarrow> 'a option \<times> 'w" where
  "dht_asked is_identity l ask w =
     (case l of None \<Rightarrow> (None, w) | Some c \<Rightarrow> if c \<noteq> [] \<and> \<not> is_identity c then ask c w else (None, w))"

text \<open>\<^verbatim>\<open>SearchValueDht\<close>: the last value that arrives is the answer.\<close>

definition SearchValueDht :: "string list option \<Rightarrow> string option" where
  "SearchValueDht vals = (case vals of None \<Rightarrow> None | Some [] \<Rightarrow> None | Some vs \<Rightarrow> Some (last vs))"


section \<open>Publishing links\<close>

text \<open>
  The loop of the publishers: the links not yet published, whether a publication runs, and the batches handed to it so far, with the links
  received.
\<close>

record publisher =
  pb_unpublished :: "string set"
  pb_publishing :: bool
  pb_batches :: "string set list"
  pb_received :: "string set"

definition maybePublish :: "publisher \<Rightarrow> publisher" where
  "maybePublish p =
     (if pb_unpublished p = {} \<or> pb_publishing p then p
      else p\<lparr>pb_unpublished := {}, pb_publishing := True, pb_batches := pb_batches p @ [pb_unpublished p]\<rparr>)"

datatype pub_event = PubTick | PubLink string | PubDone

fun pub_step :: "pub_event \<Rightarrow> publisher \<Rightarrow> publisher" where
  "pub_step PubTick p = maybePublish p"
| "pub_step (PubLink c) p = maybePublish (p\<lparr>pb_unpublished := insert c (pb_unpublished p), pb_received := insert c (pb_received p)\<rparr>)"
| "pub_step PubDone p = p\<lparr>pb_publishing := False\<rparr>"

definition pub_start :: publisher where
  "pub_start = \<lparr>pb_unpublished = {}, pb_publishing = False, pb_batches = [], pb_received = {}\<rparr>"

definition pub_run :: "pub_event list \<Rightarrow> publisher" where
  "pub_run evs = fold pub_step evs pub_start"

text \<open>
  What the two publishers pass on: the IPNI publisher every defined link that is no identity hash, the hub publisher, which is the
  one in use, none at all.
\<close>

definition ipni_notify :: "(string \<Rightarrow> bool) \<Rightarrow> string option \<Rightarrow> pub_event list" where
  "ipni_notify is_identity l = (case l of None \<Rightarrow> [] | Some c \<Rightarrow> if c \<noteq> [] \<and> \<not> is_identity c then [PubLink c] else [])"

definition hub_notify :: "string option \<Rightarrow> pub_event list" where
  "hub_notify l = []"

definition pub_inv :: "publisher \<Rightarrow> bool" where
  "pub_inv p \<longleftrightarrow> pb_received p = pb_unpublished p \<union> \<Union> (set (pb_batches p)) \<and> {} \<notin> set (pb_batches p)"

lemma maybePublish_inv: "pub_inv p \<Longrightarrow> pub_inv (maybePublish p)"
  by (auto simp: pub_inv_def maybePublish_def)

lemma pub_step_inv: "pub_inv p \<Longrightarrow> pub_inv (pub_step x p)"
  by (cases x) (auto simp: maybePublish_inv intro!: maybePublish_inv, auto simp: pub_inv_def)

lemma pub_run_inv: "pub_inv (pub_run evs)"
proof -
  have "pub_inv p \<Longrightarrow> pub_inv (fold pub_step evs p)" for p by (induction evs arbitrary: p) (auto intro: pub_step_inv)
  then show ?thesis by (simp add: pub_run_def pub_start_def pub_inv_def)
qed

text \<open>
  The publisher loses no link before it is handed over: at every moment the links received are those waiting and those in
  a batch, no batch is empty, and once the running publication is done the next tick hands over all that waits.
\<close>

lemma publisher_keeps_links:
  "pb_received (pub_run evs) = pb_unpublished (pub_run evs) \<union> \<Union> (set (pb_batches (pub_run evs))) \<and>
   {} \<notin> set (pb_batches (pub_run evs)) \<and>
   pb_received (pub_run (evs @ [PubDone, PubTick])) = \<Union> (set (pb_batches (pub_run (evs @ [PubDone, PubTick]))))"
proof -
  have "pb_unpublished (pub_run (evs @ [PubDone, PubTick])) = {}" by (simp add: pub_run_def maybePublish_def)
  with pub_run_inv [of evs] pub_run_inv [of "evs @ [PubDone, PubTick]"] show ?thesis by (simp add: pub_inv_def)
qed

text \<open>The hub publisher is never told of a link, so it never publishes anything.\<close>

lemma hub_never_publishes: "set evs \<subseteq> {PubTick, PubDone} \<union> set (hub_notify l) \<Longrightarrow> pb_batches (pub_run evs) = []"
proof -
  have "set evs \<subseteq> {PubTick, PubDone} \<Longrightarrow> pb_unpublished p = {} \<Longrightarrow> pb_batches (fold pub_step evs p) = pb_batches p" for p
    by (induction evs arbitrary: p) (auto simp: maybePublish_def)
  then show "set evs \<subseteq> {PubTick, PubDone} \<union> set (hub_notify l) \<Longrightarrow> pb_batches (pub_run evs) = []"
    by (simp add: hub_notify_def pub_run_def pub_start_def)
qed


section \<open>A small exchange\<close>

text \<open>Blocks are texts and their content id is the text itself in brackets.\<close>

definition text_libs :: "(string, nat) fx_libs" where
  "text_libs = \<lparr>fl_codecs = sample_codecs, fl_cid = Some, fl_cid_json = as_string, fl_store = (\<lambda>c b. Some (''['' @ b @ '']'', b)),
     fl_walk = (\<lambda>bs c. (case bs c of None \<Rightarrow> [] | Some b \<Rightarrow> [(c, b)], True)), fl_updateConfig = None\<rparr>"

definition text_exchange :: "string exchange" where
  "text_exchange = \<lparr>fx_self = ''dev'', fx_authorizer = ''own'', fx_peers = {''own''}, fx_saved = {}, fx_tempAuths = Map.empty,
     fx_blocks = Map.empty\<rparr>"

definition stranger_push :: "string fx_event" where
  "stranger_push = Incoming ''eve'' True \<lparr>fr_method = ''POST'', fr_path = ''/push/[a]'', fr_payload = Block_payload ''z''\<rparr>"

lemma stranger_segments: "fx_segments ''/push/[a]'' = (actionPush, ''[a]'')"
  by (simp add: fx_segments_def actionPush_def TrimPrefix_def)

theorem push_budget_witness:
  "passed text_libs ''eve'' [AsksGraph ''eve'' ''[a]'' 0, stranger_push, stranger_push] text_exchange \<le> 1"
proof -
  let ?evs = "[AsksGraph ''eve'' ''[a]'' 0, stranger_push, stranger_push]"
  have "passed text_libs ''eve'' ?evs text_exchange \<le> length (filter (asks ''eve'') ?evs) + card (held ''eve'' text_exchange)"
    by (rule push_budget) (auto simp: text_exchange_def guarded_def stranger_push_def text_libs_def sample_codecs_def)
  then show ?thesis by (simp add: held_def text_exchange_def stranger_push_def)
qed

theorem blocks_content_addressed_witness:
  "{c. \<exists>b. fx_blocks (fx_run text_libs [AsksGraph ''eve'' ''[a]'' 0, stranger_push] text_exchange) c = Some b \<and> c \<noteq> ''['' @ b @ '']''} = {}"
proof -
  let ?evs = "[AsksGraph ''eve'' ''[a]'' 0, stranger_push]"
  have "(\<forall>c b. fx_blocks (fx_run text_libs ?evs text_exchange) c = Some b \<longrightarrow> c = ''['' @ b @ '']'') \<and>
      fx_blocks text_exchange \<subseteq>\<^sub>m fx_blocks (fx_run text_libs ?evs text_exchange)"
  proof (rule blocks_content_addressed)
    show "c' = ''['' @ b' @ '']''" if "fl_store text_libs c b = Some (c', b')" for c b c' b' using that by (auto simp: text_libs_def)
  qed (simp_all add: text_exchange_def)
  then show ?thesis by blast
qed

text \<open>
  The permission of a pull is for a content id, but the pushed block is not compared with it: the answer to a request for one
  block can be another one, which is stored under its own name, and the caller is told that its block was pulled.
\<close>

lemma pull_block_takes_any_block:
  "\<exists>e. fst (fx_PullBlock text_libs (\<lambda>_ _ _ _ w. (Answer StatusOK (Block_payload ''z''), w)) 0 ''eve'' ''[a]'' text_exchange 0) = (True, e) \<and>
     fx_blocks e ''[a]'' = None \<and> fx_blocks e ''[z]'' = Some ''z''"
  by (simp add: fx_PullBlock_def decodeAndStoreBlock_def text_libs_def text_exchange_def grant_temp_def)

end
