(* ===== verification/PoolConfig.thy ===== *)
theory PoolConfig
  imports ApiRelay
begin

text \<open>
  Joining, leaving and reconciling the configured pool: the configuration file accessors of
  \<^verbatim>\<open>cmd/blox/main.go\<close>, the pool handlers and marker files of \<^verbatim>\<open>blockchain/bl_pool.go\<close>, and the pool part of
  \<^verbatim>\<open>blockchain/blockchain.go\<close>.
\<close>

section \<open>The configuration file\<close>

text \<open>
  \<^verbatim>\<open>yaml.Unmarshal\<close> into the configuration in memory: a setting missing from the file keeps the value
  it has there. \<^verbatim>\<open>yaml.Marshal\<close> writes every setting.
\<close>

definition yaml_Unmarshal :: "yaml_doc \<Rightarrow> blox_config \<Rightarrow> blox_config" where
  "yaml_Unmarshal y c =
     \<lparr>PoolName = (case y_poolName y of None \<Rightarrow> PoolName c | Some p \<Rightarrow> p),
      ChainName = (case y_chainName y of None \<Rightarrow> ChainName c | Some p \<Rightarrow> p),
      other_settings = other_settings c ++ y_others y\<rparr>"

definition yaml_Marshal :: "blox_config \<Rightarrow> yaml_doc" where
  "yaml_Marshal c = \<lparr>y_poolName = Some (PoolName c), y_chainName = Some (ChainName c), y_others = other_settings c\<rparr>"

text \<open>Reading the file at \<open>cp\<close> into the shared configuration; text that is no YAML mapping is an error.\<close>

definition load_config :: "string \<Rightarrow> 'w device \<Rightarrow> (blox_config \<times> 'w device) option" where
  "load_config cp d =
     (case ReadFile cp d of
        Ok (Conf y) \<Rightarrow> (let c = yaml_Unmarshal y (app_config d) in Some (c, d\<lparr>app_config := c\<rparr>))
      | _ \<Rightarrow> None)"

definition getPoolNameFromConfig :: "string \<Rightarrow> 'w device \<Rightarrow> string \<times> 'w device" where
  "getPoolNameFromConfig cp d =
     (case load_config cp d of None \<Rightarrow> (''0'', d) | Some (c, e) \<Rightarrow> (PoolName c, e))"

definition getChainNameFromConfig :: "string \<Rightarrow> 'w device \<Rightarrow> string \<times> 'w device" where
  "getChainNameFromConfig cp d =
     (case load_config cp d of None \<Rightarrow> ([], d) | Some (c, e) \<Rightarrow> (ChainName c, e))"

definition updateChainName_config :: "string \<Rightarrow> string \<Rightarrow> 'w device \<Rightarrow> bool \<times> 'w device" where
  "updateChainName_config cp newChainName d =
     (case load_config cp d of
        None \<Rightarrow> (False, d)
      | Some (c, e) \<Rightarrow>
          if ChainName c \<noteq> newChainName then
            (let c' = c\<lparr>ChainName := newChainName\<rparr>
             in WriteFile cp (Conf (yaml_Marshal c')) (e\<lparr>app_config := c'\<rparr>))
          else (True, e))"

definition updatePoolName_config :: "string \<Rightarrow> string \<Rightarrow> 'w device \<Rightarrow> bool \<times> 'w device" where
  "updatePoolName_config cp newPoolName d =
     (case load_config cp d of
        None \<Rightarrow> (False, d)
      | Some (c, e) \<Rightarrow>
          if PoolName c \<noteq> newPoolName then
            (let c' = c\<lparr>PoolName := newPoolName\<rparr>
             in WriteFile cp (Conf (yaml_Marshal c')) (e\<lparr>app_config := c'\<rparr>))
          else (True, e))"


section \<open>The contract of a pool store\<close>

text \<open>
  What the handlers rely on of the four callbacks: a read changes nothing but the copy in memory and
  is stable under everything local staying the same; a successful write is seen by the next read and
  leaves the other name alone; a write touches no file but its own and nothing on disk when it fails;
  repeating two successful writes does nothing.
\<close>

definition store_frame :: "string \<Rightarrow> bool \<Rightarrow> 'w device \<Rightarrow> 'w device \<Rightarrow> bool" where
  "store_frame cp ok d e \<longleftrightarrow>
     (\<exists>f c. e = d\<lparr>files := (files d)(cp := f), app_config := c\<rparr> \<and> (ok \<or> f = files d cp))"

locale pool_store =
  fixes set_pool set_chain :: "string \<Rightarrow> 'w device \<Rightarrow> bool \<times> 'w device"
    and get_pool get_chain :: "'w device \<Rightarrow> string \<times> 'w device"
    and store :: string
  assumes get_pool_local: "get_pool d = (p, e) \<Longrightarrow> \<exists>c. e = d\<lparr>app_config := c\<rparr>"
    and get_chain_local: "get_chain d = (p, e) \<Longrightarrow> \<exists>c. e = d\<lparr>app_config := c\<rparr>"
    and set_pool_frame: "set_pool v d = (ok, e) \<Longrightarrow> store_frame store ok d e"
    and set_chain_frame: "set_chain v d = (ok, e) \<Longrightarrow> store_frame store ok d e"
    and get_set_pool: "set_pool v d = (True, e) \<Longrightarrow> fst (get_pool e) = v \<and> fst (get_chain e) = fst (get_chain d)"
    and get_set_chain: "set_chain v d = (True, e) \<Longrightarrow> fst (get_chain e) = v \<and> fst (get_pool e) = fst (get_pool d)"
    and get_pool_stable: "app_config e = app_config d \<Longrightarrow> files e store = files d store \<Longrightarrow>
      unreadable e store = unreadable d store \<Longrightarrow> fst (get_pool e) = fst (get_pool d)"
    and get_chain_stable: "app_config e = app_config d \<Longrightarrow> files e store = files d store \<Longrightarrow>
      unreadable e store = unreadable d store \<Longrightarrow> fst (get_chain e) = fst (get_chain d)"
    and get_chain_after_get_pool: "fst (get_chain (snd (get_pool d))) = fst (get_chain d)"
    and get_pool_twice: "fst (get_pool (snd (get_pool d))) = fst (get_pool d)"
    and set_again: "set_pool v d = (True, d1) \<Longrightarrow> set_chain w d1 = (True, d2) \<Longrightarrow>
      set_pool v d2 = (True, d2) \<and> set_chain w d2 = (True, d2)"
begin

lemma get_pool_frame: "same_local d (snd (get_pool d))"
  using get_pool_local [of d "fst (get_pool d)" "snd (get_pool d)"] by auto

lemma get_chain_frame: "same_local d (snd (get_chain d))"
  using get_chain_local [of d "fst (get_chain d)" "snd (get_chain d)"] by auto

text \<open>Clearing both names in the order of the code.\<close>

lemma clear_both:
  assumes "set_pool ''0'' d = (True, d1)" and "set_chain [] d1 = (True, d2)"
  shows "fst (get_pool d2) = ''0''" and "fst (get_chain d2) = []"
  using assms get_set_pool get_set_chain by auto

end

lemma load_config_frame:
  "load_config cp d = Some (c, e) \<Longrightarrow> e = d\<lparr>app_config := c\<rparr> \<and>
     (\<exists>y. files d cp = Some (Conf y) \<and> \<not> unreadable d cp \<and> c = yaml_Unmarshal y (app_config d))"
  by (auto simp: load_config_def ReadFile_def Let_def split: outcome.splits fcontent.splits option.splits if_splits)

lemma yaml_Unmarshal_twice: "yaml_Unmarshal y (yaml_Unmarshal y c) = yaml_Unmarshal y c"
  by (auto simp: yaml_Unmarshal_def fun_eq_iff map_add_def split: option.splits)

lemma yaml_roundtrip: "yaml_Unmarshal (yaml_Marshal c) c = c"
  by (simp add: yaml_Unmarshal_def yaml_Marshal_def map_add_def fun_eq_iff split: option.splits)

lemma load_configI:
  "files d cp = Some (Conf y) \<Longrightarrow> \<not> unreadable d cp \<Longrightarrow>
     load_config cp d = Some (yaml_Unmarshal y (app_config d), d\<lparr>app_config := yaml_Unmarshal y (app_config d)\<rparr>)"
  by (simp add: load_config_def ReadFile_def Let_def)

lemma load_after_load: "load_config cp d = Some (c, e) \<Longrightarrow> load_config cp e = Some (c, e)"
  by (drule load_config_frame) (auto simp: yaml_Unmarshal_twice load_configI)

lemma load_after_write:
  assumes "load_config cp d = Some (c, e)" and "WriteFile cp (Conf (yaml_Marshal c')) (e\<lparr>app_config := c'\<rparr>) = (True, e')"
  shows "load_config cp e' = Some (c', e')"
  using assms(2) load_config_frame [OF assms(1)]
  by (auto simp: WriteFile_def yaml_roundtrip load_configI split: if_splits)

lemma store_frame_write: "WriteFile cp g (d\<lparr>app_config := c\<rparr>) = (ok, e) \<Longrightarrow> store_frame cp ok d e"
  unfolding store_frame_def
  by (cases "unwritable d cp")
    (auto simp: WriteFile_def intro!: exI [of _ c] exI [of _ "files d cp"] exI [of _ "Some g"])

lemma store_frame_config: "store_frame cp ok d (d\<lparr>app_config := c\<rparr>)"
  unfolding store_frame_def by (auto intro!: exI [of _ c] exI [of _ "files d cp"])

lemma store_frame_refl: "store_frame cp ok d d"
  unfolding store_frame_def by (auto intro!: exI [of _ "app_config d"] exI [of _ "files d cp"])

lemmas config_defs = getPoolNameFromConfig_def getChainNameFromConfig_def updatePoolName_config_def
  updateChainName_config_def

lemma update_pool_reload:
  assumes "updatePoolName_config cp v d = (True, e)"
  shows "\<exists>c d0. load_config cp d = Some (c, d0) \<and> load_config cp e = Some (c\<lparr>PoolName := v\<rparr>, e)"
proof -
  from assms obtain c d0 where l: "load_config cp d = Some (c, d0)"
    by (auto simp: config_defs split: option.splits)
  with assms show ?thesis
    using load_after_load [OF l] load_after_write [OF l, of "c\<lparr>PoolName := v\<rparr>" e]
    by (cases "PoolName c = v") (auto simp: config_defs Let_def)
qed

lemma update_chain_reload:
  assumes "updateChainName_config cp v d = (True, e)"
  shows "\<exists>c d0. load_config cp d = Some (c, d0) \<and> load_config cp e = Some (c\<lparr>ChainName := v\<rparr>, e)"
proof -
  from assms obtain c d0 where l: "load_config cp d = Some (c, d0)"
    by (auto simp: config_defs split: option.splits)
  with assms show ?thesis
    using load_after_load [OF l] load_after_write [OF l, of "c\<lparr>ChainName := v\<rparr>" e]
    by (cases "ChainName c = v") (auto simp: config_defs Let_def)
qed

text \<open>The accessors of the daemon fulfil the contract.\<close>

interpretation blox_store: pool_store "updatePoolName_config cp" "updateChainName_config cp"
  "getPoolNameFromConfig cp" "getChainNameFromConfig cp" cp
  for cp
proof
  fix d e :: "'a device" and p v ok
  show "getPoolNameFromConfig cp d = (p, e) \<Longrightarrow> \<exists>c. e = d\<lparr>app_config := c\<rparr>"
    by (auto simp: config_defs dest: load_config_frame split: option.splits intro: exI [of _ "app_config d"])
  show "getChainNameFromConfig cp d = (p, e) \<Longrightarrow> \<exists>c. e = d\<lparr>app_config := c\<rparr>"
    by (auto simp: config_defs dest: load_config_frame split: option.splits intro: exI [of _ "app_config d"])
  show "updatePoolName_config cp v d = (ok, e) \<Longrightarrow> store_frame cp ok d e"
    by (auto simp: config_defs Let_def dest!: load_config_frame
        intro: store_frame_write store_frame_config store_frame_refl split: option.splits if_splits)
  show "updateChainName_config cp v d = (ok, e) \<Longrightarrow> store_frame cp ok d e"
    by (auto simp: config_defs Let_def dest!: load_config_frame
        intro: store_frame_write store_frame_config store_frame_refl split: option.splits if_splits)
  show "updatePoolName_config cp v d = (True, e) \<Longrightarrow>
      fst (getPoolNameFromConfig cp e) = v \<and> fst (getChainNameFromConfig cp e) = fst (getChainNameFromConfig cp d)"
    by (auto simp: getPoolNameFromConfig_def getChainNameFromConfig_def dest!: update_pool_reload)
  show "updateChainName_config cp v d = (True, e) \<Longrightarrow>
      fst (getChainNameFromConfig cp e) = v \<and> fst (getPoolNameFromConfig cp e) = fst (getPoolNameFromConfig cp d)"
    by (auto simp: getPoolNameFromConfig_def getChainNameFromConfig_def dest!: update_chain_reload)
  show "app_config e = app_config d \<Longrightarrow> files e cp = files d cp \<Longrightarrow> unreadable e cp = unreadable d cp \<Longrightarrow>
      fst (getPoolNameFromConfig cp e) = fst (getPoolNameFromConfig cp d)"
    by (simp add: config_defs load_config_def ReadFile_def Let_def split: option.splits fcontent.splits)
  show "app_config e = app_config d \<Longrightarrow> files e cp = files d cp \<Longrightarrow> unreadable e cp = unreadable d cp \<Longrightarrow>
      fst (getChainNameFromConfig cp e) = fst (getChainNameFromConfig cp d)"
    by (simp add: config_defs load_config_def ReadFile_def Let_def split: option.splits fcontent.splits)
  show "fst (getChainNameFromConfig cp (snd (getPoolNameFromConfig cp d))) = fst (getChainNameFromConfig cp d)"
    by (auto simp: config_defs dest: load_after_load split: option.splits)
  show "fst (getPoolNameFromConfig cp (snd (getPoolNameFromConfig cp d))) = fst (getPoolNameFromConfig cp d)"
    by (auto simp: config_defs dest: load_after_load split: option.splits)
  fix d1 d2 :: "'a device" and w
  assume "updatePoolName_config cp v d = (True, d1)" and "updateChainName_config cp w d1 = (True, d2)"
  then obtain c where "load_config cp d2 = Some (c, d2)" "PoolName c = v" "ChainName c = w"
    by (auto dest!: update_pool_reload update_chain_reload)
  then show "updatePoolName_config cp v d2 = (True, d2) \<and> updateChainName_config cp w d2 = (True, d2)"
    by (simp add: config_defs)
qed

section \<open>Marker files\<close>

definition PoolMemberConfirmedFilePath :: string where
  "PoolMemberConfirmedFilePath = ''/internal/.tmp/pool_member_confirmed.tmp''"

definition PoolReconcileClearedAtFilePath :: string where
  "PoolReconcileClearedAtFilePath = ''/internal/.tmp/pool_reconcile_cleared_at.tmp''"

definition PoolReconcileDisabledFilePath :: string where
  "PoolReconcileDisabledFilePath = ''/internal/.disable_pool_reconcile''"

definition poolKey :: "string \<Rightarrow> string \<Rightarrow> string" where
  "poolKey chainName pool = chainName @ '':'' @ pool"

definition readPoolMemberConfirmed :: "'w device \<Rightarrow> string option" where
  "readPoolMemberConfirmed d =
     (case ReadFile PoolMemberConfirmedFilePath d of Ok f \<Rightarrow> Some (TrimSpace (file_text f)) | _ \<Rightarrow> None)"

definition recordPoolMemberConfirmed :: "string \<Rightarrow> string \<Rightarrow> 'w device \<Rightarrow> 'w device" where
  "recordPoolMemberConfirmed chainName pool d =
     (if readPoolMemberConfirmed d = Some (poolKey chainName pool) then d
      else snd (WriteFile PoolMemberConfirmedFilePath (Text (poolKey chainName pool)) d))"

definition clearPoolMemberConfirmed :: "'w device \<Rightarrow> 'w device" where
  "clearPoolMemberConfirmed d = RemoveFile PoolMemberConfirmedFilePath d"

text \<open>Times are written to the second.\<close>

definition readTimeMarker :: "string \<Rightarrow> 'w device \<Rightarrow> int option" where
  "readTimeMarker p d = (case ReadFile p d of Ok (Stamp t) \<Rightarrow> Some (t * second) | _ \<Rightarrow> None)"

definition writeTimeMarker :: "string \<Rightarrow> int \<Rightarrow> 'w device \<Rightarrow> bool \<times> 'w device" where
  "writeTimeMarker p t d = WriteFile p (Stamp (t div second)) d"

definition PoolReconcileMinInterval :: int where
  "PoolReconcileMinInterval = 24 * hour"

definition poolLeaveCheckAttempts :: nat where
  "poolLeaveCheckAttempts = 3"

definition poolLeaveCheckInterval :: int where
  "poolLeaveCheckInterval = 4 * second"

definition poolReconcileConfirmDelay :: int where
  "poolReconcileConfirmDelay = 30 * second"


section \<open>Clearing the configured pool\<close>

definition StopPingServer :: "'w env \<Rightarrow> 'w device \<Rightarrow> bool \<times> 'w device" where
  "StopPingServer env d =
     (if ping_up d then (case drain env (world d) of (ok, w) \<Rightarrow> (ok, d\<lparr>world := w, ping_up := False\<rparr>))
      else (True, d))"

definition clearPoolPeersFromPeerAddr :: "'w device \<Rightarrow> 'w device" where
  "clearPoolPeersFromPeerAddr d = d\<lparr>members := Map.empty\<rparr>"

text \<open>A callback that is only called when it is set.\<close>

definition call_set :: "(string \<Rightarrow> 'w device \<Rightarrow> bool \<times> 'w device) option \<Rightarrow> string \<Rightarrow> 'w device \<Rightarrow> bool \<times> 'w device" where
  "call_set f v d = (case f of None \<Rightarrow> (True, d) | Some g \<Rightarrow> g v d)"

text \<open>The channel that stops the fetching of users after a join is closed here as well; it is not part of the state.\<close>

definition cleanLeaveJoinPool :: "'w env \<Rightarrow> 'w options \<Rightarrow> 'w device \<Rightarrow> 'w device" where
  "cleanLeaveJoinPool env opts d =
     (let d1 = snd (call_set (updatePoolName opts) ''0'' d);
          d2 = snd (call_set (updateChainName opts) [] d1);
          d3 = clearPoolMemberConfirmed d2;
          d4 = snd (StopPingServer env d3)
      in clearPoolPeersFromPeerAddr d4)"

text \<open>\<^verbatim>\<open>clearPoolConfig\<close>; the boolean is a nil error.\<close>

definition clearPoolConfig :: "'w env \<Rightarrow> 'w options \<Rightarrow> 'w device \<Rightarrow> bool \<times> 'w device" where
  "clearPoolConfig env opts d =
     (case call_set (updatePoolName opts) ''0'' d of
        (False, d1) \<Rightarrow> (False, d1)
      | (True, d1) \<Rightarrow>
          (case call_set (updateChainName opts) [] d1 of
             (False, d2) \<Rightarrow> (False, d2)
           | (True, d2) \<Rightarrow>
               let d3 = cleanLeaveJoinPool env opts d2 in
               (case getPoolName opts of
                  None \<Rightarrow> (True, d3)
                | Some get \<Rightarrow> (case get d3 of (pool, d4) \<Rightarrow> (pool = [] \<or> pool = ''0'', d4)))))"

text \<open>The hook runs later in its own goroutine; here it is counted when it is scheduled.\<close>

definition signalPoolConfigCleared :: "'w options \<Rightarrow> 'w device \<Rightarrow> 'w device" where
  "signalPoolConfigCleared opts d = (if onPoolConfigCleared opts then d\<lparr>signals := Suc (signals d)\<rparr> else d)"


section \<open>Handlers\<close>

definition write_error :: "nat \<Rightarrow> string \<Rightarrow> string \<Rightarrow> http_resp option" where
  "write_error st message description = WriteHeader st (Doc (error_doc message description))"

definition HandlePoolJoin ::
  "'w env \<Rightarrow> 'w options \<Rightarrow> body \<Rightarrow> 'w device \<Rightarrow> http_resp option \<times> 'w device" where
  "HandlePoolJoin env opts rbody d =
     (case Option.bind (decode_first rbody) (decode_new PoolJoinRequest) of
        None \<Rightarrow> (Some (http_Error StatusBadRequest []), d)
      | Some rq \<Rightarrow>
          let poolID = int_of (entry ''pool_id'' rq); given = text_of (entry ''chain_name'' rq) in
          (case (if given \<noteq> [] then (Ok given, d)
                 else (case discoverPoolChain env opts (to_uint32 poolID) d of
                         (Ok c, d1) \<Rightarrow> (Ok c, d1)
                       | (Err _, d1) \<Rightarrow> (Ok ''skale'', d1)
                       | (Panic, d1) \<Rightarrow> (Panic :: (unit, string) outcome, d1))) of
             (Ok chainName, d1) \<Rightarrow>
               (case validatePoolOnChain env opts (to_uint32 poolID) chainName d1 of
                  (Panic, d2) \<Rightarrow> (None, d2)
                | (Err _, d2) \<Rightarrow> (write_error StatusBadRequest ''Pool validation failed'' [], d2)
                | (Ok _, d2) \<Rightarrow>
                    (case (updatePoolName opts, updateChainName opts) of
                       (None, _) \<Rightarrow> (None, d2)
                     | (Some setPool, setChainOpt) \<Rightarrow>
                         (case setPool (Itoa poolID) d2 of
                            (False, d3) \<Rightarrow>
                              (write_error StatusExpectationFailed ''Pool Join is submitted but Error in updating Pool Config'' [], d3)
                          | (True, d3) \<Rightarrow>
                              (case setChainOpt of
                                 None \<Rightarrow> (None, d3)
                               | Some setChain \<Rightarrow>
                                   (case setChain chainName d3 of
                                      (False, d4) \<Rightarrow>
                                        (write_error StatusExpectationFailed ''Pool Join is submitted but Error in updating Chain Config'' [], d4)
                                    | (True, d4) \<Rightarrow>
                                        (WriteHeader StatusAccepted (Doc (encode_go PoolJoinResponse
                                           (JObj [(''account'', JStr []), (''pool_id'', JNum poolID), (''chain_name'', JStr chainName)]))), d4))))))
           | (_, d1) \<Rightarrow> (None, d1)))"

text \<open>The membership check of \<^verbatim>\<open>HandlePoolLeave\<close>, with \<open>n\<close> attempts left.\<close>

datatype leave_check = Checked bool | CheckFailed | CheckCancelled | CheckPanic

fun leave_loop :: "'w env \<Rightarrow> 'w options \<Rightarrow> nat \<Rightarrow> string \<Rightarrow> nat \<Rightarrow> 'w device \<Rightarrow> leave_check \<times> 'w device" where
  "leave_loop env opts pool chainName 0 d = (Checked False, d)"
| "leave_loop env opts pool chainName (Suc n) d =
     (case ClusterPeerPoolStatus env opts pool chainName d of
        (Err _, d1) \<Rightarrow> (CheckFailed, d1)
      | (Panic, d1) \<Rightarrow> (CheckPanic, d1)
      | (Ok (member, pending), d1) \<Rightarrow>
          let stillListed = member \<or> pending in
          if \<not> stillListed \<or> n = 0 then (Checked stillListed, d1)
          else (case wait_for env poolLeaveCheckInterval d1 of
                  (False, d2) \<Rightarrow> (CheckCancelled, d2)
                | (True, d2) \<Rightarrow> leave_loop env opts pool chainName n d2))"

definition leave_response :: "int \<Rightarrow> string \<Rightarrow> http_resp option" where
  "leave_response poolID chainName = WriteHeader StatusAccepted (Doc (encode_go PoolLeaveResponse
     (JObj [(''account'', JStr []), (''pool_id'', JNum poolID), (''chain_name'', JStr chainName)])))"

text \<open>The second half of \<^verbatim>\<open>HandlePoolLeave\<close>, once pool and chain are settled.\<close>

definition leave_pool ::
  "'w env \<Rightarrow> 'w options \<Rightarrow> int \<Rightarrow> string \<Rightarrow> 'w device \<Rightarrow> http_resp option \<times> 'w device" where
  "leave_pool env opts poolID chainName d =
     (case leave_loop env opts (to_uint32 poolID) chainName poolLeaveCheckAttempts d of
        (CheckPanic, d1) \<Rightarrow> (None, d1)
      | (CheckFailed, d1) \<Rightarrow> (write_error StatusServiceUnavailable ''Could not verify pool membership'' [], d1)
      | (CheckCancelled, d1) \<Rightarrow> (write_error StatusServiceUnavailable ''Could not verify pool membership'' [], d1)
      | (Checked True, d1) \<Rightarrow>
          (write_error StatusConflict ''Still in the pool on-chain''
             (''This Blox is still a member of (or waiting to join) pool '' @ Itoa poolID @ '' on '' @ chainName
              @ ''; remove it on-chain first''), d1)
      | (Checked False, d1) \<Rightarrow>
          (case clearPoolConfig env opts d1 of
             (False, d2) \<Rightarrow> (write_error StatusInternalServerError ''Failed to update the Blox config'' [], d2)
           | (True, d2) \<Rightarrow> (leave_response poolID chainName, signalPoolConfigCleared opts d2)))"

definition HandlePoolLeave ::
  "'w env \<Rightarrow> 'w options \<Rightarrow> body \<Rightarrow> 'w device \<Rightarrow> http_resp option \<times> 'w device" where
  "HandlePoolLeave env opts rbody d =
     (case Option.bind (decode_first rbody) (decode_new PoolLeaveRequest) of
        None \<Rightarrow> (Some (http_Error StatusBadRequest []), d)
      | Some rq \<Rightarrow>
          let poolID = int_of (entry ''pool_id'' rq); given = text_of (entry ''chain_name'' rq) in
          if poolHost opts then (write_error StatusConflict ''Pool host'' ''A pool host does not leave its pool'', d)
          else (case (case getPoolName opts of None \<Rightarrow> (''0'', d) | Some get \<Rightarrow> get d) of (configuredPool, d1) \<Rightarrow>
            if configuredPool \<noteq> [] \<and> configuredPool \<noteq> ''0'' \<and> configuredPool \<noteq> Itoa poolID then
              (write_error StatusConflict ''Pool mismatch''
                 (''This Blox is configured for pool '' @ configuredPool @ '', not pool '' @ Itoa poolID), d1)
            else if configuredPool = [] \<or> configuredPool = ''0'' then (leave_response poolID given, d1)
            else (case (case getChainName opts of None \<Rightarrow> ([], d1) | Some get \<Rightarrow> get d1) of (configuredChain, d2) \<Rightarrow>
              (case (if given \<noteq> [] then (Ok given, d2)
                     else if configuredChain \<noteq> [] then (Ok configuredChain, d2)
                     else (case discoverPoolChain env opts (to_uint32 poolID) d2 of
                             (Ok c, d3) \<Rightarrow> (Ok c, d3)
                           | (Err _, d3) \<Rightarrow> (Ok ''skale'', d3)
                           | (Panic, d3) \<Rightarrow> (Panic :: (unit, string) outcome, d3))) of
                 (Ok chainName, d3) \<Rightarrow>
                   if configuredChain \<noteq> [] \<and> configuredChain \<noteq> chainName then
                     (write_error StatusConflict ''Chain mismatch''
                        (''This Blox is configured for pool '' @ configuredPool @ '' on '' @ configuredChain
                         @ '', not on '' @ chainName), d3)
                   else leave_pool env opts poolID chainName d3
               | (_, d3) \<Rightarrow> (None, d3)))))"

text \<open>
  \<^verbatim>\<open>checkIfUserHasOpenPoolRequests\<close>: the entry of this device in the users of the pool decides.
\<close>

definition open_request :: "peerID \<Rightarrow> string \<Rightarrow> json list \<Rightarrow> bool" where
  "open_request self topicString users =
     (case find (\<lambda>u. text_of (entry ''peer_id'' u) = self) users of
        None \<Rightarrow> False
      | Some u \<Rightarrow> (case entry ''request_pool_id'' u of JNum i \<Rightarrow> Itoa i = topicString | _ \<Rightarrow> False))"

definition checkIfUserHasOpenPoolRequests ::
  "'w env \<Rightarrow> 'w options \<Rightarrow> string \<Rightarrow> 'w device \<Rightarrow> (api_error, bool) outcome \<times> 'w device" where
  "checkIfUserHasOpenPoolRequests env opts topicString d =
     (case Atoi topicString of
        None \<Rightarrow> (Err BadPoolID, d)
      | Some topic \<Rightarrow>
          if topic \<le> 0 then (Err BadPoolID, d)
          else (case callBlockchain env opts ''POST'' ''fula-pool-users''
                       (StructVal PoolUserListRequest (JObj [(''pool_id'', JNum topic), (''request_pool_id'', JNum topic)])) d of
                  (c, d1) \<Rightarrow>
                    (and_then (expect_ok PoolUserListResponse c) (\<lambda>resp.
                       Ok (open_request (selfPeerID opts) topicString (elements (entry ''users'' resp)))), d1)))"

text \<open>
  The end of \<^verbatim>\<open>HandlePoolCancelJoin\<close>, given the status, the response (\<^const>\<open>None\<close>: nil) and whether \<^verbatim>\<open>err\<close> is
  set. With a response that is no object and no error, \<^verbatim>\<open>err.Error()\<close> dereferences nil.
\<close>

definition cancel_tail ::
  "'w env \<Rightarrow> 'w options \<Rightarrow> nat \<Rightarrow> body option \<Rightarrow> bool \<Rightarrow> 'w device \<Rightarrow> http_resp option \<times> 'w device" where
  "cancel_tail env opts statusCode0 response err d =
     (let statusCode = (if statusCode0 = StatusOK then StatusAccepted else statusCode0) in
      if statusCode \<noteq> StatusAccepted \<or> err then
        (case Option.bind response unmarshal of
           Some j \<Rightarrow>
             if as_map j \<noteq> None then (WriteHeader statusCode (Doc (reencode env j)), d)
             else if err then (WriteHeader statusCode (Doc (error_doc ''An error occurred'' [])), d)
             else (None, d)
         | None \<Rightarrow>
             if err then (WriteHeader statusCode (Doc (error_doc ''An error occurred'' [])), d) else (None, d))
      else
        (WriteHeader statusCode (Doc (encode_go PoolCancelJoinResponse
           (case Option.bind response unmarshal of
              None \<Rightarrow> zero_val PoolCancelJoinResponse
            | Some j \<Rightarrow> fill PoolCancelJoinResponse (zero_val PoolCancelJoinResponse) j))),
         cleanLeaveJoinPool env opts d))"

definition HandlePoolCancelJoin ::
  "'w env \<Rightarrow> 'w options \<Rightarrow> string \<Rightarrow> body \<Rightarrow> 'w device \<Rightarrow> http_resp option \<times> 'w device" where
  "HandlePoolCancelJoin env opts mth rbody d =
     (case Option.bind (decode_first rbody) (decode_new PoolCancelJoinRequest) of
        None \<Rightarrow> (Some (http_Error StatusBadRequest []), d)
      | Some rq \<Rightarrow>
          let poolID = int_of (entry ''pool_id'' rq) in
          (case callBlockchain env opts mth ''fula-pool-cancel_join'' (StructPtr PoolCancelJoinRequest rq) d of
             (Answer b st, d1) \<Rightarrow> cancel_tail env opts st (Some b) False d1
           | (Failed st, d1) \<Rightarrow>
               (case checkIfUserHasOpenPoolRequests env opts (Itoa poolID) d1 of
                  (Ok False, d2) \<Rightarrow>
                    (case (updatePoolName opts, updateChainName opts) of
                       (Some setPool, Some setChain) \<Rightarrow>
                         (case setPool ''0'' d2 of (okPool, d3) \<Rightarrow>
                          case setChain [] d3 of (okChain, d4) \<Rightarrow>
                          case StopPingServer env d4 of (okPing, d5) \<Rightarrow>
                            if okPool \<and> okChain \<and> okPing then
                              cancel_tail env opts StatusAccepted
                                (Some (Doc (JObj [(''account'', JStr []), (''pool_id'', JNum poolID)]))) True d5
                            else (write_error StatusExpectationFailed ''Pool Cancel Join is submitted but Error in cleanup'' [], d5))
                     | _ \<Rightarrow> (None, d2))
                | (_, d2) \<Rightarrow> cancel_tail env opts st None True d2)))"


section \<open>Reconciling\<close>

datatype reconcile_error = BadPoolName | StatusError | Interrupted | MarkerUnwritable | ClearFailed

text \<open>
  \<^verbatim>\<open>ReconcilePoolConfig\<close> in the two parts between which the confirmation delay falls: the guards and the
  first check, and the second check with the clear.
\<close>

definition reconcile_clear ::
  "'w env \<Rightarrow> 'w options \<Rightarrow> ('w device \<Rightarrow> string \<times> 'w device) \<Rightarrow> ('w device \<Rightarrow> string \<times> 'w device) \<Rightarrow>
   string \<Rightarrow> string \<Rightarrow> 'w device \<Rightarrow> (reconcile_error, bool) outcome \<times> 'w device" where
  "reconcile_clear env opts getPool getChain pool chainName d =
     (case getPool d of (pool2, d1) \<Rightarrow>
      if pool2 \<noteq> pool then (Ok False, d1)
      else (case getChain d1 of (chain2, d2) \<Rightarrow>
        if chain2 \<noteq> chainName then (Ok False, d2)
        else (case time_now env d2 of (now, d3) \<Rightarrow>
          (case writeTimeMarker PoolReconcileClearedAtFilePath now d3 of
             (False, d4) \<Rightarrow> (Err MarkerUnwritable, d4)
           | (True, d4) \<Rightarrow>
               (case clearPoolConfig env opts d4 of
                  (False, d5) \<Rightarrow> (Err ClearFailed, d5)
                | (True, d5) \<Rightarrow> (Ok True, signalPoolConfigCleared opts d5))))))"

definition reconcile_checks ::
  "'w env \<Rightarrow> 'w options \<Rightarrow> ('w device \<Rightarrow> string \<times> 'w device) \<Rightarrow> ('w device \<Rightarrow> string \<times> 'w device) \<Rightarrow>
   string \<Rightarrow> string \<Rightarrow> nat \<Rightarrow> 'w device \<Rightarrow> (reconcile_error, bool) outcome \<times> 'w device" where
  "reconcile_checks env opts getPool getChain pool chainName poolID d =
     (case ClusterPeerPoolStatus env opts poolID chainName d of
        (Panic, d1) \<Rightarrow> (Panic, d1)
      | (Err _, d1) \<Rightarrow> (Err StatusError, d1)
      | (Ok (member, pending), d1) \<Rightarrow>
          if member then (Ok False, recordPoolMemberConfirmed chainName pool d1)
          else if pending then (Ok False, d1)
          else if readPoolMemberConfirmed d1 \<noteq> Some (poolKey chainName pool) then (Ok False, d1)
          else (case wait_for env poolReconcileConfirmDelay d1 of
                  (False, d2) \<Rightarrow> (Err Interrupted, d2)
                | (True, d2) \<Rightarrow>
                    (case ClusterPeerPoolStatus env opts poolID chainName d2 of
                       (Panic, d3) \<Rightarrow> (Panic, d3)
                     | (Err _, d3) \<Rightarrow> (Err StatusError, d3)
                     | (Ok (member, pending), d3) \<Rightarrow>
                         if member then (Ok False, recordPoolMemberConfirmed chainName pool d3)
                         else if pending then (Ok False, d3)
                         else reconcile_clear env opts getPool getChain pool chainName d3)))"

definition ReconcilePoolConfig ::
  "'w env \<Rightarrow> 'w options \<Rightarrow> 'w device \<Rightarrow> (reconcile_error, bool) outcome \<times> 'w device" where
  "ReconcilePoolConfig env opts d =
     (if FileExists PoolReconcileDisabledFilePath d then (Ok False, d)
      else (case (poolHost opts, getPoolName opts, getChainName opts) of
        (False, Some getPool, Some getChain) \<Rightarrow>
          (case getPool d of (pool, d1) \<Rightarrow> case getChain d1 of (chainName, d2) \<Rightarrow>
           if pool = [] \<or> pool = ''0'' \<or> chainName = [] then (Ok False, d2)
           else (case readTimeMarker PoolReconcileClearedAtFilePath d2 of
             Some clearedAt \<Rightarrow>
               (case time_now env d2 of (now, d3) \<Rightarrow>
                if now - clearedAt < PoolReconcileMinInterval then (Ok False, d3)
                else (case ParseUint pool 10 32 of
                  None \<Rightarrow> (Err BadPoolName, d3)
                | Some poolID \<Rightarrow> reconcile_checks env opts getPool getChain pool chainName poolID d3))
           | None \<Rightarrow>
               (case ParseUint pool 10 32 of
                  None \<Rightarrow> (Err BadPoolName, d2)
                | Some poolID \<Rightarrow> reconcile_checks env opts getPool getChain pool chainName poolID d2)))
      | _ \<Rightarrow> (Ok False, d)))"


section \<open>Discovery and the member list\<close>

fun discover_on ::
  "'w env \<Rightarrow> 'w options \<Rightarrow> nat \<Rightarrow> string list \<Rightarrow> 'w device \<Rightarrow> (evm_error, unit) outcome \<times> 'w device" where
  "discover_on env opts poolID [] d = (Err NotOnAnyChain, d)"
| "discover_on env opts poolID (chainName # cs) d =
     (case HandleIsMemberOfPool env opts (clusterPeerID opts) poolID chainName d of
        (Panic, d1) \<Rightarrow> (Panic, d1)
      | (Err _, d1) \<Rightarrow> discover_on env opts poolID cs d1
      | (Ok resp, d1) \<Rightarrow>
          if ir_IsMember resp then
            (let d2 = snd (call_set (updatePoolName opts) (Itoa (int poolID)) d1);
                 d3 = snd (call_set (updateChainName opts) chainName d2)
             in (Ok (), d3))
          else discover_on env opts poolID cs d1)"

definition discoverPoolAndChain ::
  "'w env \<Rightarrow> 'w options \<Rightarrow> nat \<Rightarrow> 'w device \<Rightarrow> (evm_error, unit) outcome \<times> 'w device" where
  "discoverPoolAndChain env opts poolID d = discover_on env opts poolID [''skale'', ''base''] d"

text \<open>
  \<^verbatim>\<open>FetchUsersAndPopulateSets\<close> for a caller that finds no other fetch in progress; the result says
  whether the topic was valid.
\<close>

definition FetchUsersAndPopulateSets ::
  "'w env \<Rightarrow> 'w options \<Rightarrow> string \<Rightarrow> bool \<Rightarrow> 'w device \<Rightarrow> (api_error, unit) outcome \<times> 'w device" where
  "FetchUsersAndPopulateSets env opts topicString initiate d =
     (case Atoi topicString of
        None \<Rightarrow> (Err BadPoolID, d)
      | Some topic \<Rightarrow>
          if topic \<le> 0 \<or> \<not> initiate then (Ok (), d)
          else (case getChainName opts of
            None \<Rightarrow> (Panic, d)
          | Some get \<Rightarrow>
              (case get d of (currentChain, d1) \<Rightarrow>
               if currentChain = [] \<or> topicString = ''0'' then
                 (case discoverPoolAndChain env opts (to_uint32 topic) d1 of
                    (Panic, d2) \<Rightarrow> (Panic, d2)
                  | (_, d2) \<Rightarrow> (Ok (), d2))
               else (Ok (), d1))))"

definition GetMemberStatus :: "peerID \<Rightarrow> 'w device \<Rightarrow> member_status option" where
  "GetMemberStatus pid d = members d pid"

definition GetMembers :: "'w device \<Rightarrow> peerID \<rightharpoonup> member_status" where
  "GetMembers d = members d"

definition IsMembersEmpty :: "'w device \<Rightarrow> bool" where
  "IsMembersEmpty d \<longleftrightarrow> members d = Map.empty"

section \<open>Wiring\<close>

text \<open>
  The options with the four callbacks set, as \<^verbatim>\<open>blox.New\<close> passes them on, and the instance the daemon
  builds with its configuration file \<open>cp\<close>.
\<close>

definition wire ::
  "(string \<Rightarrow> 'w device \<Rightarrow> bool \<times> 'w device) \<Rightarrow> (string \<Rightarrow> 'w device \<Rightarrow> bool \<times> 'w device) \<Rightarrow>
   ('w device \<Rightarrow> string \<times> 'w device) \<Rightarrow> ('w device \<Rightarrow> string \<times> 'w device) \<Rightarrow> 'w options \<Rightarrow> 'w options" where
  "wire setPool setChain getPool getChain opts =
     opts\<lparr>updatePoolName := Some setPool, getPoolName := Some getPool, updateChainName := Some setChain,
          getChainName := Some getChain\<rparr>"

definition blox_opts :: "string \<Rightarrow> 'w options \<Rightarrow> 'w options" where
  "blox_opts cp opts =
     wire (updatePoolName_config cp) (updateChainName_config cp) (getPoolNameFromConfig cp) (getChainNameFromConfig cp) opts"

lemma wire_simps [simp]:
  "updatePoolName (wire a b c f opts) = Some a" "updateChainName (wire a b c f opts) = Some b"
  "getPoolName (wire a b c f opts) = Some c" "getChainName (wire a b c f opts) = Some f"
  "chainConfigs (wire a b c f opts) = chainConfigs opts" "clusterPeerID (wire a b c f opts) = clusterPeerID opts"
  "poolHost (wire a b c f opts) = poolHost opts" "selfPeerID (wire a b c f opts) = selfPeerID opts"
  "onPoolConfigCleared (wire a b c f opts) = onPoolConfigCleared opts"
  by (simp_all add: wire_def chainConfigs_def)

text \<open>The chains a device reads, with one truth per chain.\<close>

definition honest_chains ::
  "'w env \<Rightarrow> 'w options \<Rightarrow> (string \<Rightarrow> nat \<Rightarrow> string \<Rightarrow> bool) \<Rightarrow> (string \<Rightarrow> nat \<Rightarrow> string \<Rightarrow> nat) \<Rightarrow> bool" where
  "honest_chains env opts isM st \<longleftrightarrow>
     (\<forall>c cc. chainConfigs opts c = Some cc \<longrightarrow> honest_chain env cc (isM c) (st c))"

text \<open>This device is neither a member of the pool on the chain nor waiting to join it.\<close>

definition departed ::
  "'w env \<Rightarrow> 'w options \<Rightarrow> (string \<Rightarrow> nat \<Rightarrow> string \<Rightarrow> bool) \<Rightarrow> (string \<Rightarrow> nat \<Rightarrow> string \<Rightarrow> nat) \<Rightarrow> string \<Rightarrow> nat \<Rightarrow> bool" where
  "departed env opts isM st chain pool \<longleftrightarrow>
     (\<exists>k. peerIdToBytes32 (codec env) (clusterPeerID opts) = Ok k \<and> \<not> isM chain pool k \<and>
        st chain pool k \<noteq> joinRequestPending)"

lemma ClusterPeerPoolStatus_known_chain:
  "ClusterPeerPoolStatus env opts p c d = (Ok x, e) \<Longrightarrow> \<exists>cc. chainConfigs opts c = Some cc"
  by (auto simp: ClusterPeerPoolStatus_def strictEthCall_def split: if_splits outcome.splits prod.splits option.splits)

lemma status_departed:
  assumes "ClusterPeerPoolStatus env opts p c d = (Ok (False, False), e)" and "honest_chains env opts isM st"
  shows "departed env opts isM st c p"
proof -
  obtain cc where cc: "chainConfigs opts c = Some cc" using ClusterPeerPoolStatus_known_chain [OF assms(1)] by blast
  with assms(2) have "honest_chain env cc (isM c) (st c)" by (simp add: honest_chains_def)
  from status_definitive [OF assms(1) cc this] show ?thesis by (auto simp: departed_def)
qed

lemma leave_loop_local: "leave_loop env opts p c n d = (x, e) \<Longrightarrow> same_local d e"
  by (induction env opts p c n d rule: leave_loop.induct)
    (auto simp: Let_def dest!: ClusterPeerPoolStatus_local wait_for_local intro: same_local_trans
      split: prod.splits outcome.splits if_splits bool.splits)

lemma leave_loop_departed:
  "leave_loop env opts p c n d = (Checked False, e) \<Longrightarrow> 0 < n \<Longrightarrow> honest_chains env opts isM st \<Longrightarrow>
     departed env opts isM st c p"
proof (induction env opts p c n d rule: leave_loop.induct)
  case (2 env opts p c n d)
  then show ?case
    by (auto simp: Let_def split: prod.splits outcome.splits if_splits bool.splits
        intro: status_departed dest: ClusterPeerPoolStatus_local)
qed simp

section \<open>Clearing and leaving, for every lawful store\<close>

text \<open>
  The state after a successful clear: both names empty, the confirmation gone unless its file cannot
  be removed, the in-memory members and the ping server gone, every other file as before.
\<close>

definition cleared_files :: "string \<Rightarrow> 'w device \<Rightarrow> 'w device \<Rightarrow> bool" where
  "cleared_files store d e \<longleftrightarrow>
     (unwritable d PoolMemberConfirmedFilePath \<or> files e PoolMemberConfirmedFilePath = None) \<and>
     (\<forall>q. q \<noteq> store \<longrightarrow> q \<noteq> PoolMemberConfirmedFilePath \<longrightarrow> files e q = files d q) \<and>
     members e = Map.empty \<and> \<not> ping_up e \<and> authorizedPeers e = authorizedPeers d \<and>
     unreadable e = unreadable d \<and> unwritable e = unwritable d"

definition accepted :: "http_resp option \<Rightarrow> bool" where
  "accepted r \<longleftrightarrow> (\<exists>resp. r = Some resp \<and> rs_status resp = StatusAccepted)"

lemma StopPingServer_frame:
  "\<exists>w. snd (StopPingServer env d) = d\<lparr>world := w, ping_up := False\<rparr>"
proof (cases "ping_up d")
  case False
  then have "d = d\<lparr>world := world d, ping_up := False\<rparr>" by simp
  then have "snd (StopPingServer env d) = d\<lparr>world := world d, ping_up := False\<rparr>"
    using False by (metis StopPingServer_def snd_conv)
  then show ?thesis by blast
qed (auto simp: StopPingServer_def split: prod.splits)

lemma RemoveFile_eq: "\<exists>f. RemoveFile p d = d\<lparr>files := (files d)(p := f)\<rparr> \<and> (unwritable d p \<or> f = None) \<and> (f = None \<or> f = files d p)"
  by (cases "unwritable d p") (auto simp: RemoveFile_def intro: exI [of _ "files d p"])

context pool_store
begin

abbreviation wired :: "'w options \<Rightarrow> 'w options" where
  "wired opts \<equiv> wire set_pool set_chain get_pool get_chain opts"

lemma clean_after_clear:
  assumes "set_pool ''0'' d = (True, d1)" and "set_chain [] d1 = (True, d2)"
  shows "\<exists>f w. cleanLeaveJoinPool env (wired opts) d2 =
      d2\<lparr>files := (files d2)(PoolMemberConfirmedFilePath := f), world := w, ping_up := False, members := Map.empty\<rparr> \<and>
      (unwritable d2 PoolMemberConfirmedFilePath \<or> f = None)"
proof -
  note again = set_again [OF assms]
  obtain f where f: "RemoveFile PoolMemberConfirmedFilePath d2 = d2\<lparr>files := (files d2)(PoolMemberConfirmedFilePath := f)\<rparr>"
    "unwritable d2 PoolMemberConfirmedFilePath \<or> f = None"
    using RemoveFile_eq [of PoolMemberConfirmedFilePath d2] by blast
  obtain w where "snd (StopPingServer env (d2\<lparr>files := (files d2)(PoolMemberConfirmedFilePath := f)\<rparr>))
      = d2\<lparr>files := (files d2)(PoolMemberConfirmedFilePath := f), world := w, ping_up := False\<rparr>"
    using StopPingServer_frame [of env "d2\<lparr>files := (files d2)(PoolMemberConfirmedFilePath := f)\<rparr>"] by auto
  then show ?thesis using again f
    by (auto simp: cleanLeaveJoinPool_def call_set_def clearPoolMemberConfirmed_def clearPoolPeersFromPeerAddr_def)
qed

lemma set_pool_attrs:
  "set_pool v d = (ok, e) \<Longrightarrow> unreadable e = unreadable d \<and> unwritable e = unwritable d \<and> world e = world d \<and>
     members e = members d \<and> ping_up e = ping_up d \<and> authorizedPeers e = authorizedPeers d \<and> signals e = signals d \<and>
     (\<forall>q. q \<noteq> store \<longrightarrow> files e q = files d q)"
  by (auto dest!: set_pool_frame simp: store_frame_def)

lemma set_chain_attrs:
  "set_chain v d = (ok, e) \<Longrightarrow> unreadable e = unreadable d \<and> unwritable e = unwritable d \<and> world e = world d \<and>
     members e = members d \<and> ping_up e = ping_up d \<and> authorizedPeers e = authorizedPeers d \<and> signals e = signals d \<and>
     (\<forall>q. q \<noteq> store \<longrightarrow> files e q = files d q)"
  by (auto dest!: set_chain_frame simp: store_frame_def)

lemma clear_success:
  assumes "clearPoolConfig env (wired opts) d = (True, e)" and "store \<noteq> PoolMemberConfirmedFilePath"
  shows "fst (get_pool e) = ''0'' \<and> fst (get_chain e) = [] \<and> cleared_files store d e \<and> signals e = signals d"
proof -
  from assms(1) obtain d1 d2 where s1: "set_pool ''0'' d = (True, d1)" and s2: "set_chain [] d1 = (True, d2)"
    by (auto simp: clearPoolConfig_def call_set_def split: prod.splits bool.splits)
  obtain f w where clean: "cleanLeaveJoinPool env (wired opts) d2 =
      d2\<lparr>files := (files d2)(PoolMemberConfirmedFilePath := f), world := w, ping_up := False, members := Map.empty\<rparr>"
    and f: "unwritable d2 PoolMemberConfirmedFilePath \<or> f = None"
    using clean_after_clear [OF s1 s2] by blast
  define d3 where "d3 = cleanLeaveJoinPool env (wired opts) d2"
  have e: "e = snd (get_pool d3)"
    using assms(1) s1 s2 by (auto simp: clearPoolConfig_def call_set_def d3_def Let_def split: prod.splits)
  have "fst (get_pool d3) = fst (get_pool d2)" "fst (get_chain d3) = fst (get_chain d2)"
    unfolding d3_def clean using assms(2) by (auto intro: get_pool_stable get_chain_stable)
  then have names: "fst (get_pool e) = ''0''" "fst (get_chain e) = []"
    using clear_both [OF s1 s2] e get_pool_twice get_chain_after_get_pool by auto
  have "same_local d3 e" unfolding e by (rule get_pool_frame)
  from same_localD [OF this] have "cleared_files store d e" "signals e = signals d"
    using set_pool_attrs [OF s1] set_chain_attrs [OF s2] f by (auto simp: cleared_files_def d3_def clean)
  with names show ?thesis by simp
qed

lemma leave_pool_cases:
  assumes "leave_pool env (wired opts) pool chain d = (r, e)" and "store \<noteq> PoolMemberConfirmedFilePath"
    and "honest_chains env opts isM st"
  shows "same_local d e \<or> (departed env opts isM st chain (to_uint32 pool) \<and>
     (accepted r \<longrightarrow> fst (get_pool e) = ''0'' \<and> fst (get_chain e) = [] \<and> cleared_files store d e \<and>
        signals e = signals d + of_bool (onPoolConfigCleared opts)))"
proof -
  obtain x d1 where l: "leave_loop env (wired opts) (to_uint32 pool) chain poolLeaveCheckAttempts d = (x, d1)"
    by (cases "leave_loop env (wired opts) (to_uint32 pool) chain poolLeaveCheckAttempts d") auto
  have loc: "same_local d d1" using l by (rule leave_loop_local)
  show ?thesis
  proof (cases "x = Checked False")
    case False
    then have "e = d1" using assms(1) l
      by (auto simp: leave_pool_def split: leave_check.splits bool.splits)
    with loc show ?thesis by simp
  next
    case True
    have "honest_chains env (wired opts) isM st" using assms(3) by (simp add: honest_chains_def)
    from leave_loop_departed [OF l [unfolded True] _ this]
    have dep: "departed env opts isM st chain (to_uint32 pool)" by (simp add: poolLeaveCheckAttempts_def departed_def)
    obtain ok d2 where c: "clearPoolConfig env (wired opts) d1 = (ok, d2)" by (cases "clearPoolConfig env (wired opts) d1") auto
    show ?thesis
    proof (cases ok)
      case True
      with c have "clearPoolConfig env (wired opts) d1 = (True, d2)" by simp
      note s = clear_success [OF this assms(2)]
      have e: "e = signalPoolConfigCleared (wired opts) d2"
        using assms(1) l \<open>x = Checked False\<close> c True by (simp add: leave_pool_def)
      have "fst (get_pool e) = fst (get_pool d2)" "fst (get_chain e) = fst (get_chain d2)"
        unfolding e by (auto simp: signalPoolConfigCleared_def intro: get_pool_stable get_chain_stable)
      moreover have "cleared_files store d e" "signals e = signals d + of_bool (onPoolConfigCleared opts)"
        using s same_localD [OF loc] by (auto simp: e signalPoolConfigCleared_def cleared_files_def)
      ultimately show ?thesis using dep s by auto
    next
      case False
      then have "\<not> accepted r"
        using assms(1) l \<open>x = Checked False\<close> c
        by (auto simp: leave_pool_def write_error_def accepted_def)
      with dep show ?thesis by simp
    qed
  qed
qed

end

text \<open>What a device that changed its pool configuration because of a leave request had to know.\<close>

definition leave_justified ::
  "'w env \<Rightarrow> 'w options \<Rightarrow> string \<Rightarrow> string \<Rightarrow> body \<Rightarrow> (string \<Rightarrow> nat \<Rightarrow> string \<Rightarrow> bool) \<Rightarrow>
   (string \<Rightarrow> nat \<Rightarrow> string \<Rightarrow> nat) \<Rightarrow> int \<Rightarrow> string \<Rightarrow> bool" where
  "leave_justified env opts configuredPool configuredChain rbody isM st pool chain \<longleftrightarrow>
     (\<exists>rq. Option.bind (decode_first rbody) (decode_new PoolLeaveRequest) = Some rq \<and> pool = int_of (entry ''pool_id'' rq)) \<and>
     \<not> poolHost opts \<and> configuredPool = Itoa pool \<and> (configuredChain = [] \<or> configuredChain = chain) \<and>
     departed env opts isM st chain (to_uint32 pool)"

context pool_store
begin

lemma leave_cases:
  assumes h: "HandlePoolLeave env (wired opts) rbody d = (r, e)" and "store \<noteq> PoolMemberConfirmedFilePath"
    and "honest_chains env opts isM st"
  shows "same_local d e \<or> (\<exists>pool chain.
     leave_justified env opts (fst (get_pool d)) (fst (get_chain d)) rbody isM st pool chain \<and>
     (accepted r \<longrightarrow> fst (get_pool e) = ''0'' \<and> fst (get_chain e) = [] \<and> cleared_files store d e \<and>
        signals e = signals d + of_bool (onPoolConfigCleared opts)))"
proof (cases "same_local d e")
  case False
  from h False obtain rq where rq: "Option.bind (decode_first rbody) (decode_new PoolLeaveRequest) = Some rq"
    and host: "\<not> poolHost opts"
    by (auto simp: HandlePoolLeave_def Let_def split: option.splits if_splits)
  define pool where "pool = int_of (entry ''pool_id'' rq)"
  obtain cp d1 where gp: "get_pool d = (cp, d1)" by (cases "get_pool d") auto
  obtain cc d2 where gc: "get_chain d1 = (cc, d2)" by (cases "get_chain d1") auto
  have cc: "cc = fst (get_chain d)" using gp gc get_chain_after_get_pool [of d] by simp
  have l1: "same_local d d1" using get_pool_frame [of d] gp by simp
  moreover have "same_local d1 d2" using get_chain_frame [of d1] gc by simp
  ultimately have l2: "same_local d d2" by (rule same_local_trans)
  note start = h [unfolded HandlePoolLeave_def rq option.case Let_def pool_def [symmetric] wire_simps gp prod.case gc]
  from start host l1 False have cp: "cp = Itoa pool" by (auto split: if_splits)
  from start host cp l1 l2 False obtain chain d3 where leave: "leave_pool env (wired opts) pool chain d3 = (r, e)"
    and chain: "cc = [] \<or> cc = chain" and l3: "same_local d2 d3"
    by (auto dest!: discoverPoolChain_local split: if_splits prod.splits outcome.splits intro: same_local_trans)
  have l: "same_local d d3" using l2 l3 by (rule same_local_trans)
  with leave_pool_cases [OF leave assms(2,3)] False
  have c: "departed env opts isM st chain (to_uint32 pool)" "accepted r \<longrightarrow> fst (get_pool e) = ''0'' \<and>
      fst (get_chain e) = [] \<and> cleared_files store d3 e \<and> signals e = signals d3 + of_bool (onPoolConfigCleared opts)"
    by (auto dest: same_local_trans)
  have "leave_justified env opts (fst (get_pool d)) (fst (get_chain d)) rbody isM st pool chain"
    using rq host cp gp cc chain c(1) by (simp add: leave_justified_def pool_def)
  moreover have "cleared_files store d3 e \<Longrightarrow> cleared_files store d e" using same_localD [OF l] by (simp add: cleared_files_def)
  ultimately show ?thesis using c(2) same_localD [OF l] by auto
qed simp

end

text \<open>
  C5. A leave request makes the device change anything local only when the change is justified: the
  device is no pool host, the request names the configured pool, the chain is the configured one (or
  none was configured), and that chain says that this device's cluster peer is neither a member nor
  waiting to join. Refusals, read errors and cancellations leave files and memory as they were.
\<close>

theorem leave_only_after_departure:
  assumes "HandlePoolLeave env (blox_opts cp opts) rbody d = (r, e)" and "cp \<noteq> PoolMemberConfirmedFilePath"
    and "honest_chains env opts isM st" and "\<not> same_local d e"
  shows "\<exists>pool chain. leave_justified env opts (fst (getPoolNameFromConfig cp d)) (fst (getChainNameFromConfig cp d))
    rbody isM st pool chain"
  using blox_store.leave_cases [OF assms(1) [unfolded blox_opts_def] assms(2,3)] assms(4) by blast


subsection \<open>A concrete leave\<close>

abbreviation sample_config :: yaml_doc where
  "sample_config \<equiv> \<lparr>y_poolName = Some ''5'', y_chainName = Some ''skale'', y_others = Map.empty\<rparr>"

definition member_device :: "int device" where
  "member_device = (sample_device 0)\<lparr>files := [''c'' \<mapsto> Conf sample_config]\<rparr>"

definition leave_doc :: json where
  "leave_doc = JObj [(''pool_id'', JNum 5)]"

lemma leave_doc_decodes:
  "decode_new PoolLeaveRequest leave_doc = Some (JObj [(''pool_id'', JNum 5), (''chain_name'', JStr [])])"
  by (simp add: decode_new_def PoolLeaveRequest_def leave_doc_def entry_def fold_eq_def lower_char_def in_int64_def)

lemma Itoa_5 [simp]: "Itoa 5 = ''5''"
  by (simp add: Itoa_def digits_of.simps hex_digit_def char_of_def bit_0)

lemma honest_sample: "s < 256 \<Longrightarrow> honest_chains (sample_env (uniform_chain b s)) opts (\<lambda>_ _ _. b) (\<lambda>_ _ _. s)"
  by (simp add: honest_chains_def uniform_chain_honest)

lemma sample_status_blox:
  "s < 256 \<Longrightarrow> ClusterPeerPoolStatus (sample_env (uniform_chain b s)) (blox_opts cp sample_opts) p ''skale'' d
     = (Ok (b, \<not> b \<and> s = 1), d)"
  unfolding blox_opts_def wire_def by (rule sample_status)

lemma sample_leave_loop:
  "leave_loop (sample_env (uniform_chain False 0)) (blox_opts cp sample_opts) p ''skale'' (Suc n) d = (Checked False, d)"
  by (simp add: sample_status_blox)

lemmas sample_config_simps = config_defs load_config_def ReadFile_def WriteFile_def yaml_Unmarshal_def yaml_Marshal_def
  Let_def

lemma member_device_names:
  "getPoolNameFromConfig ''c'' member_device = (''5'', member_device\<lparr>app_config := \<lparr>PoolName = ''5'', ChainName = ''skale'', other_settings = Map.empty\<rparr>\<rparr>)"
  "getChainNameFromConfig ''c'' (member_device\<lparr>app_config := \<lparr>PoolName = ''5'', ChainName = ''skale'', other_settings = Map.empty\<rparr>\<rparr>)
   = (''skale'', member_device\<lparr>app_config := \<lparr>PoolName = ''5'', ChainName = ''skale'', other_settings = Map.empty\<rparr>\<rparr>)"
  by (simp_all add: sample_config_simps member_device_def sample_device_def)

lemma sample_clear:
  "\<exists>e. clearPoolConfig (sample_env f) (blox_opts ''c'' sample_opts)
      (member_device\<lparr>app_config := \<lparr>PoolName = ''5'', ChainName = ''skale'', other_settings = Map.empty\<rparr>\<rparr>) = (True, e) \<and>
     files e ''c'' = Some (Conf \<lparr>y_poolName = Some ''0'', y_chainName = Some [], y_others = Map.empty\<rparr>)"
  by (simp add: clearPoolConfig_def cleanLeaveJoinPool_def call_set_def blox_opts_def sample_config_simps
      member_device_def sample_device_def clearPoolMemberConfirmed_def RemoveFile_def StopPingServer_def
      clearPoolPeersFromPeerAddr_def PoolMemberConfirmedFilePath_def)

lemma leave_run:
  "\<exists>resp e. HandlePoolLeave (sample_env (uniform_chain False 0)) (blox_opts ''c'' sample_opts) (Doc leave_doc) member_device
     = (Some resp, e) \<and> rs_status resp = StatusAccepted \<and> \<not> same_local member_device e"
proof -
  let ?d = "member_device\<lparr>app_config := \<lparr>PoolName = ''5'', ChainName = ''skale'', other_settings = Map.empty\<rparr>\<rparr>"
  let ?o = "blox_opts ''c'' sample_opts"
  let ?env = "sample_env (uniform_chain False 0)"
  obtain e where clear: "clearPoolConfig ?env ?o ?d = (True, e)"
    and f: "files e ''c'' = Some (Conf \<lparr>y_poolName = Some ''0'', y_chainName = Some [], y_others = Map.empty\<rparr>)"
    using sample_clear [of "uniform_chain False 0"] by blast
  have opts: "getPoolName ?o = Some (getPoolNameFromConfig ''c'')" "getChainName ?o = Some (getChainNameFromConfig ''c'')"
    "\<not> poolHost ?o" by (simp_all add: blox_opts_def sample_opts_def)
  have "leave_pool ?env ?o 5 ''skale'' ?d = (leave_response 5 ''skale'', signalPoolConfigCleared ?o e)"
    by (simp add: leave_pool_def poolLeaveCheckAttempts_def numeral_3_eq_3 sample_leave_loop clear del: leave_loop.simps)
  then have "HandlePoolLeave ?env ?o (Doc leave_doc) member_device = (leave_response 5 ''skale'', signalPoolConfigCleared ?o e)"
    by (simp add: HandlePoolLeave_def leave_doc_decodes opts member_device_names int_of_def text_of_def entry_def Let_def)
  moreover have "\<not> same_local member_device (signalPoolConfigCleared ?o e)"
    using f by (auto simp: signalPoolConfigCleared_def member_device_def dest!: same_localD(1))
  ultimately show ?thesis by (simp add: leave_response_def)
qed

theorem leave_only_after_departure_witness:
  "\<exists>pool chain. leave_justified (sample_env (uniform_chain False 0)) sample_opts (fst (getPoolNameFromConfig ''c'' member_device))
     (fst (getChainNameFromConfig ''c'' member_device)) (Doc leave_doc) (\<lambda>_ _ _. False) (\<lambda>_ _ _. 0) pool chain"
proof -
  obtain resp e where r: "HandlePoolLeave (sample_env (uniform_chain False 0)) (blox_opts ''c'' sample_opts) (Doc leave_doc)
      member_device = (Some resp, e)" "\<not> same_local member_device e" using leave_run by blast
  show ?thesis
    by (rule leave_only_after_departure [OF r(1) _ honest_sample r(2)]) (simp_all add: PoolMemberConfirmedFilePath_def)
qed


end
