(* ===== verification/PingServer.thy ===== *)
theory PingServer
  imports PoolConfig
begin

text \<open>
  Answering and sending pings. \<^verbatim>\<open>ping/ping.go\<close> is the protocol between libp2p peers: a server that echoes a small document and
  limits how often a peer may ask, its start and stop under the lock \<^verbatim>\<open>mu\<close>, and the client with its statistics.
  \<^verbatim>\<open>blockchain/ping_server.go\<close> is the server behind kubo that reports the state of the node.

  An operation that waits for a lock nobody will release gives \<^const>\<open>None\<close>. Documents are values; \<open>rq_length\<close> is the length
  that the header of a request declares. Time and randomness are parameters; quotients of \<^verbatim>\<open>float64\<close> values are exact.
\<close>

section \<open>Functional options\<close>

text \<open>\<^verbatim>\<open>newOptions\<close> of every package: the options are applied in order and the first error ends the construction.\<close>

fun apply_options :: "('o \<Rightarrow> ('e, 'o) outcome) list \<Rightarrow> 'o \<Rightarrow> ('e, 'o) outcome" where
  "apply_options [] o0 = Ok o0"
| "apply_options (f # fs) o0 = and_then (f o0) (apply_options fs)"

record ping_options =
  po_allowTransientConnection :: bool
  po_timeout :: int
  po_count :: int

type_synonym ping_option = "ping_options \<Rightarrow> (unit, ping_options) outcome"

definition ping_newOptions :: "ping_option list \<Rightarrow> (unit, ping_options) outcome" where
  "ping_newOptions fs = apply_options fs \<lparr>po_allowTransientConnection = True, po_timeout = 30, po_count = 5\<rparr>"

definition ping_WithAllowTransientConnection :: "bool \<Rightarrow> ping_option" where
  "ping_WithAllowTransientConnection t o0 = Ok (o0\<lparr>po_allowTransientConnection := t\<rparr>)"

definition ping_WithTimeout :: "int \<Rightarrow> ping_option" where
  "ping_WithTimeout t o0 = Ok (o0\<lparr>po_timeout := t\<rparr>)"

definition ping_WithCount :: "int \<Rightarrow> ping_option" where
  "ping_WithCount n o0 = Ok (o0\<lparr>po_count := n\<rparr>)"


section \<open>The server of \<^verbatim>\<open>ping.go\<close>\<close>

text \<open>
  \<open>pn_locked\<close>: \<^verbatim>\<open>mu\<close> was locked by a call that returned without unlocking it; \<open>pn_closed\<close>: \<^verbatim>\<open>Shutdown\<close> of the HTTP server was
  called, after which \<^verbatim>\<open>Serve\<close> returns at once; \<open>pn_serving\<close>: it accepts requests.
\<close>

record fx_ping =
  pn_options :: ping_options
  pn_pingedPeers :: "peerID \<rightharpoonup> int"
  pn_started :: bool
  pn_locked :: bool
  pn_closed :: bool
  pn_serving :: bool

definition NewFxPing :: "ping_option list \<Rightarrow> (unit, fx_ping) outcome" where
  "NewFxPing fs = and_then (ping_newOptions fs) (\<lambda>opts. Ok
     \<lparr>pn_options = opts, pn_pingedPeers = Map.empty, pn_started = False, pn_locked = False, pn_closed = False, pn_serving = False\<rparr>)"

definition actionPing :: string where
  "actionPing = ''ping''"

definition PingRequest :: gty where
  "PingRequest = GStruct [(''id'', GStr, False), (''data'', GStr, False)]"

definition PingResponse :: gty where
  "PingResponse = GStruct [(''id'', GStr, False), (''data'', GStr, False)]"

definition ping_doc :: "string \<Rightarrow> string \<Rightarrow> json" where
  "ping_doc i dat = JObj [(''id'', JStr i), (''data'', JStr dat)]"

text \<open>\<open>listen\<close>: whether \<^verbatim>\<open>gostream.Listen\<close> succeeds. The result is \<^const>\<open>True\<close> for a nil error.\<close>

definition ping_Start :: "bool \<Rightarrow> fx_ping \<Rightarrow> (bool \<times> fx_ping) option" where
  "ping_Start listen pn =
     (if pn_locked pn then None
      else if pn_started pn then Some (False, pn)
      else if \<not> listen then Some (False, pn\<lparr>pn_locked := True\<rparr>)
      else Some (True, pn\<lparr>pn_started := True, pn_serving := \<not> pn_closed pn\<rparr>))"

definition ping_authorized :: "peerID \<Rightarrow> string \<Rightarrow> fx_ping \<Rightarrow> bool \<times> fx_ping" where
  "ping_authorized pid action pn =
     (if action = actionPing then
        (case pn_pingedPeers pn pid of
           None \<Rightarrow> (True, pn\<lparr>pn_pingedPeers := (pn_pingedPeers pn)(pid \<mapsto> 1)\<rparr>)
         | Some c \<Rightarrow> (c < wrap64 (po_count (pn_options pn) * 3), pn\<lparr>pn_pingedPeers := (pn_pingedPeers pn)(pid \<mapsto> wrap64 (c + 1))\<rparr>))
      else (False, pn))"

record ping_http =
  rq_remote :: string
  rq_url :: string
  rq_length :: int
  rq_content :: body

definition handlePing :: "ping_http \<Rightarrow> http_resp" where
  "handlePing r =
     (if 1024 < rq_length r then http_Error 413 ''Request Entity Too Large''
      else if rq_length r \<le> 0 then http_Error 411 ''Length Required''
      else (case Option.bind (decode_first (rq_content r)) (decode_new PingRequest) of
              None \<Rightarrow> http_Error StatusBadRequest ''Bad Request''
            | Some req \<Rightarrow>
                (case b64_decode (text_of (entry ''data'' req)) of
                   None \<Rightarrow> http_Error StatusBadRequest ''Bad Request''
                 | Some bs \<Rightarrow> respond StatusOK (ping_doc (text_of (entry ''id'' req)) (b64_encode bs)))))"

definition ping_serve :: "codecs \<Rightarrow> ping_http \<Rightarrow> fx_ping \<Rightarrow> http_resp \<times> fx_ping" where
  "ping_serve cd r pn =
     (case peer_Decode cd (rq_remote r) of
        None \<Rightarrow> (http_Error StatusBadRequest [], pn)
      | Some from \<Rightarrow>
          (let action = path_Base (rq_url r) in
           case ping_authorized from action pn of
             (False, pn1) \<Rightarrow> (http_Error StatusUnauthorized [], pn1)
           | (True, pn1) \<Rightarrow> if action = actionPing then (handlePing r, pn1) else (http_Error StatusNotFound [], pn1)))"

definition ping_Status :: "fx_ping \<Rightarrow> bool option" where
  "ping_Status pn = (if pn_locked pn then None else Some (pn_started pn))"

definition clearPingedPeers :: "fx_ping \<Rightarrow> fx_ping" where
  "clearPingedPeers pn = pn\<lparr>pn_pingedPeers := Map.empty\<rparr>"

text \<open>\<open>drained\<close>: whether the connections end before the context does.\<close>

definition ping_StopServer :: "bool \<Rightarrow> fx_ping \<Rightarrow> (bool \<times> fx_ping) option" where
  "ping_StopServer drained pn =
     (if pn_locked pn then None
      else Some (drained, (clearPingedPeers (pn\<lparr>pn_started := False\<rparr>))\<lparr>pn_closed := True, pn_serving := False\<rparr>))"

definition ping_Shutdown :: "bool \<Rightarrow> fx_ping \<Rightarrow> (bool \<times> fx_ping) option" where
  "ping_Shutdown drained pn =
     (if pn_locked pn then None
      else Some (drained, (clearPingedPeers pn)\<lparr>pn_started := False, pn_closed := True, pn_serving := False\<rparr>))"


section \<open>The client of \<^verbatim>\<open>ping.go\<close>\<close>

text \<open>
  \<open>pc_rand\<close> is \<^verbatim>\<open>rand.Int\<close> below 200, \<open>pc_bytes\<close> fills a slice with random bytes, \<open>pc_post\<close> sends the document to the peer.
\<close>

record 'w ping_client =
  pc_clock :: "'w \<Rightarrow> int \<times> 'w"
  pc_rand :: "'w \<Rightarrow> nat option \<times> 'w"
  pc_bytes :: "nat \<Rightarrow> 'w \<Rightarrow> nat list \<times> 'w"
  pc_post :: "peerID \<Rightarrow> json \<Rightarrow> 'w \<Rightarrow> net_reply \<times> 'w"

text \<open>The checks on an answer, in the order of the code: the status is looked at last.\<close>

definition good_answer :: "string \<Rightarrow> nat list \<Rightarrow> net_reply \<Rightarrow> bool" where
  "good_answer i sent rep =
     (case rep of
        Reply st (Some b) \<Rightarrow>
          (case Option.bind (unmarshal b) (decode_new PingResponse) of
             None \<Rightarrow> False
           | Some v \<Rightarrow>
               text_of (entry ''id'' v) = i \<and>
               (case b64_decode (text_of (entry ''data'' v)) of None \<Rightarrow> False | Some bs \<Rightarrow> length bs = length sent) \<and>
               st = StatusOK)
      | _ \<Rightarrow> False)"

text \<open>One round: the time it took, or \<^const>\<open>None\<close> for a round that is skipped.\<close>

definition ping_round :: "'w ping_client \<Rightarrow> peerID \<Rightarrow> 'w \<Rightarrow> int option \<times> 'w" where
  "ping_round pc to w =
     (case pc_clock pc w of (now, w0) \<Rightarrow>
      case pc_clock pc w0 of (startTime, w1) \<Rightarrow>
      case pc_rand pc w1 of
        (None, w2) \<Rightarrow> (None, w2)
      | (Some k, w2) \<Rightarrow>
          (case pc_bytes pc (k + 56) w2 of (sent, w3) \<Rightarrow>
           case pc_post pc to (ping_doc (to @ ''-'' @ Itoa now) (b64_encode sent)) w3 of (rep, w4) \<Rightarrow>
           if good_answer (to @ ''-'' @ Itoa now) sent rep
           then (case pc_clock pc w4 of (t, w5) \<Rightarrow> (Some (t - startTime), w5))
           else (None, w4)))"

fun ping_rounds :: "'w ping_client \<Rightarrow> peerID \<Rightarrow> nat \<Rightarrow> 'w \<Rightarrow> int list \<times> 'w" where
  "ping_rounds pc to 0 w = ([], w)"
| "ping_rounds pc to (Suc n) w =
     (case ping_round pc to w of
        (None, w1) \<Rightarrow> ping_rounds pc to n w1
      | (Some t, w1) \<Rightarrow> (case ping_rounds pc to n w1 of (ts, w2) \<Rightarrow> (t # ts, w2)))"

text \<open>The average in milliseconds and the number of answered rounds.\<close>

definition Ping :: "'w ping_client \<Rightarrow> ping_options \<Rightarrow> peerID \<Rightarrow> 'w \<Rightarrow> (int \<times> nat) \<times> 'w" where
  "Ping pc opts to w =
     (if po_count opts \<le> 0 then ((0, 0), w)
      else (case ping_rounds pc to (nat (po_count opts)) w of
              (ts, w1) \<Rightarrow>
                ((if ts = [] then 0 else (sum_list ts div 1000000) div int (length ts), length ts), w1)))"


section \<open>The server behind kubo (\<^verbatim>\<open>ping_server.go\<close>)\<close>

definition clusterAPIURL :: string where
  "clusterAPIURL = ''http://127.0.0.1:9094/id''"

definition cluster_id_doc :: gty where
  "cluster_id_doc = GStruct [(''id'', GStr, False)]"

definition PingServerResponse :: gty where
  "PingServerResponse = GStruct
     [(''success'', GBool, False), (''timestamp'', GInt, False), (''peer_id'', GStr, False), (''uptime_ms'', GInt, False),
      (''cluster_peer_id'', GStr, True), (''cluster_healthy'', GBool, False)]"

text \<open>The id that the cluster reports, if it answers 200 with one.\<close>

definition cluster_reports :: "net_reply \<Rightarrow> string option" where
  "cluster_reports rep =
     (case rep of
        Reply st (Some b) \<Rightarrow>
          (if st = StatusOK then
             (case Option.bind (decode_first b) (decode_new cluster_id_doc) of
                None \<Rightarrow> None
              | Some v \<Rightarrow> if text_of (entry ''id'' v) = [] then None else Some (text_of (entry ''id'' v)))
           else None)
      | _ \<Rightarrow> None)"

definition ping_proxy :: "'w env \<Rightarrow> 'w options \<Rightarrow> int \<Rightarrow> 'w device \<Rightarrow> http_resp \<times> 'w device" where
  "ping_proxy env opts startTime d =
     (case time_now env d of (t, d1) \<Rightarrow>
      case time_now env d1 of (now, d2) \<Rightarrow>
      case send env \<lparr>hq_method = ''GET'', hq_url = clusterAPIURL, hq_body = Raw []\<rparr> d2 of (rep, d3) \<Rightarrow>
      let cluster = cluster_reports rep in
      (respond StatusOK (encode_go PingServerResponse (JObj
         [(''success'', JBool True), (''timestamp'', JNum (t div 1000000)), (''peer_id'', JStr (selfPeerID opts)),
          (''uptime_ms'', JNum ((now - startTime) div 1000000)),
          (''cluster_peer_id'', JStr (case cluster of None \<Rightarrow> [] | Some i \<Rightarrow> i)), (''cluster_healthy'', JBool (cluster \<noteq> None))])), d3))"

text \<open>\<^verbatim>\<open>ShutdownPingProxy\<close> is \<^const>\<open>StopPingServer\<close>; \<open>listen\<close> says whether the address can be bound.\<close>

definition StartPingProxy :: "bool \<Rightarrow> 'w device \<Rightarrow> bool \<times> 'w device" where
  "StartPingProxy listen d = (if listen then (True, d\<lparr>ping_up := True\<rparr>) else (False, d))"

section \<open>The quota of a peer\<close>

definition pings :: "codecs \<Rightarrow> peerID \<Rightarrow> ping_http \<Rightarrow> bool" where
  "pings cd pid r \<longleftrightarrow> peer_Decode cd (rq_remote r) = Some pid \<and> path_Base (rq_url r) = actionPing"

fun ping_serve_all :: "codecs \<Rightarrow> ping_http list \<Rightarrow> fx_ping \<Rightarrow> (ping_http \<times> http_resp) list" where
  "ping_serve_all cd [] pn = []"
| "ping_serve_all cd (r # rs) pn = (case ping_serve cd r pn of (a, pn1) \<Rightarrow> (r, a) # ping_serve_all cd rs pn1)"

definition ping_served :: "codecs \<Rightarrow> peerID \<Rightarrow> (ping_http \<times> http_resp) list \<Rightarrow> nat" where
  "ping_served cd pid xs = length (filter (\<lambda>(r, a). pings cd pid r \<and> rs_status a \<noteq> StatusUnauthorized) xs)"

lemma handlePing_status: "rs_status (handlePing r) \<in> {200, 400, 411, 413}"
  by (auto simp: handlePing_def http_Error_def respond_def split: option.splits)

lemma handlePing_not_401 [simp]: "rs_status (handlePing r) \<noteq> 401"
  using handlePing_status [of r] by auto

lemma ping_serve_ping:
  assumes "pings cd pid r"
  shows "ping_serve cd r pn =
    (case ping_authorized pid actionPing pn of (ok, pn1) \<Rightarrow> (if ok then handlePing r else http_Error StatusUnauthorized [], pn1))"
  using assms by (simp add: ping_serve_def pings_def split: prod.splits bool.splits)

lemma ping_serve_other:
  assumes "\<not> pings cd pid r" and "ping_serve cd r pn = (a, pn1)"
  shows "pn_pingedPeers pn1 pid = pn_pingedPeers pn pid"
  using assms by (auto simp: ping_serve_def pings_def ping_authorized_def Let_def split: option.splits prod.splits bool.splits if_splits)

lemma ping_serve_options: "ping_serve cd r pn = (a, pn1) \<Longrightarrow> pn_options pn1 = pn_options pn"
  by (auto simp: ping_serve_def ping_authorized_def Let_def split: option.splits prod.splits bool.splits if_splits)

lemma ping_served_Cons:
  "ping_served cd pid ((r, a) # xs) = (if pings cd pid r \<and> rs_status a \<noteq> StatusUnauthorized then 1 else 0) + ping_served cd pid xs"
  by (simp add: ping_served_def)

lemma quota_from:
  assumes "pn_pingedPeers pn pid = Some c" and "0 \<le> c" and "c + int (length rs) < 2 ^ 63"
    and "po_count (pn_options pn) = k" and "0 \<le> k" and "k * 3 < 2 ^ 63"
  shows "int (ping_served cd pid (ping_serve_all cd rs pn)) = min (int (length (filter (pings cd pid) rs))) (max 0 (k * 3 - c))"
  using assms
proof (induction rs arbitrary: pn c)
  case (Cons r rs)
  obtain a pn1 where s: "ping_serve cd r pn = (a, pn1)" by (cases "ping_serve cd r pn")
  note opts = ping_serve_options [OF s]
  show ?case
  proof (cases "pings cd pid r")
    case True
    have w: "wrap64 (k * 3) = k * 3" "wrap64 (c + 1) = c + 1" using Cons.prems by (simp_all add: wrap64_id in_int64_def)
    from s Cons.prems(1,4) w have a: "a = (if c < k * 3 then handlePing r else http_Error StatusUnauthorized [])"
      and p: "pn_pingedPeers pn1 pid = Some (c + 1)"
      by (auto simp: ping_serve_ping [OF True] ping_authorized_def)
    from Cons.IH [OF p] Cons.prems opts
    have "int (ping_served cd pid (ping_serve_all cd rs pn1)) = min (int (length (filter (pings cd pid) rs))) (max 0 (k * 3 - (c + 1)))"
      by simp
    with s True a show ?thesis by (auto simp: ping_served_Cons http_Error_def)
  next
    case False
    from Cons.IH [of pn1 c] ping_serve_other [OF False s] opts Cons.prems
    have "int (ping_served cd pid (ping_serve_all cd rs pn1)) = min (int (length (filter (pings cd pid) rs))) (max 0 (k * 3 - c))"
      by simp
    with s False show ?thesis by (simp add: ping_served_Cons)
  qed
qed (simp add: ping_served_def)

text \<open>
  C32. Of the pings of one peer the server answers exactly the first three times the configured count, whatever it gets from
  other peers in between; the rest is refused with 401.
\<close>

theorem ping_quota:
  assumes "pn_pingedPeers pn pid = None" and "po_count (pn_options pn) = k" and "0 < k" and "k * 3 < 2 ^ 63"
    and "int (length rs) < 2 ^ 63 - 1"
  shows "int (ping_served cd pid (ping_serve_all cd rs pn)) = min (int (length (filter (pings cd pid) rs))) (k * 3)"
  using assms
proof (induction rs arbitrary: pn)
  case (Cons r rs)
  obtain a pn1 where s: "ping_serve cd r pn = (a, pn1)" by (cases "ping_serve cd r pn")
  note opts = ping_serve_options [OF s]
  show ?case
  proof (cases "pings cd pid r")
    case True
    from s Cons.prems(1) have a: "a = handlePing r" and p: "pn_pingedPeers pn1 pid = Some 1"
      by (auto simp: ping_serve_ping [OF True] ping_authorized_def)
    from quota_from [OF p, of rs k] Cons.prems opts
    have "int (ping_served cd pid (ping_serve_all cd rs pn1)) = min (int (length (filter (pings cd pid) rs))) (max 0 (k * 3 - 1))" by simp
    with s True a Cons.prems(3) show ?thesis by (simp add: ping_served_Cons)
  next
    case False
    from Cons.IH [of pn1] ping_serve_other [OF False s] opts Cons.prems
    have "int (ping_served cd pid (ping_serve_all cd rs pn1)) = min (int (length (filter (pings cd pid) rs))) (k * 3)" by simp
    with s False show ?thesis by (simp add: ping_served_Cons)
  qed
qed (simp add: ping_served_def)

section \<open>Client and server together\<close>

text \<open>The client with a server at the other end of the connection; \<open>me\<close> is the address under which the server sees it.\<close>

definition over_wire :: "codecs \<Rightarrow> string \<Rightarrow> (json \<Rightarrow> int) \<Rightarrow> 'v ping_client \<Rightarrow> (fx_ping \<times> 'v) ping_client" where
  "over_wire cd me len pc =
     \<lparr>pc_clock = (\<lambda>(s, v). case pc_clock pc v of (t, v1) \<Rightarrow> (t, s, v1)),
      pc_rand = (\<lambda>(s, v). case pc_rand pc v of (k, v1) \<Rightarrow> (k, s, v1)),
      pc_bytes = (\<lambda>n (s, v). case pc_bytes pc n v of (bs, v1) \<Rightarrow> (bs, s, v1)),
      pc_post = (\<lambda>to j (s, v).
        case ping_serve cd \<lparr>rq_remote = me, rq_url = ''/ping'', rq_length = len j, rq_content = Doc j\<rparr> s of
          (a, s1) \<Rightarrow> (Reply (rs_status a) (Some (rs_body a)), s1, v))\<rparr>"

text \<open>The documents of the client stay below the limit of the server, its clock counts in \<^verbatim>\<open>int64\<close> and its random numbers are what they should be.\<close>

definition fits :: "(json \<Rightarrow> int) \<Rightarrow> peerID \<Rightarrow> bool" where
  "fits len to \<longleftrightarrow> (\<forall>now sent. in_int64 now \<and> length sent \<le> 255 \<longrightarrow>
     0 < len (ping_doc (to @ ''-'' @ Itoa now) (b64_encode sent)) \<and> len (ping_doc (to @ ''-'' @ Itoa now) (b64_encode sent)) \<le> 1024)"

definition draws :: "'v ping_client \<Rightarrow> bool" where
  "draws pc \<longleftrightarrow> (\<forall>v. in_int64 (fst (pc_clock pc v))) \<and> (\<forall>v. \<exists>k v1. pc_rand pc v = (Some k, v1) \<and> k < 200) \<and>
     (\<forall>n v bs v1. pc_bytes pc n v = (bs, v1) \<longrightarrow> length bs = n \<and> (\<forall>b \<in> set bs. b < 256))"

definition used :: "peerID \<Rightarrow> fx_ping \<Rightarrow> int" where
  "used pid pn = (case pn_pingedPeers pn pid of None \<Rightarrow> 0 | Some c \<Rightarrow> c)"

lemma ping_doc_decodes [simp]: "decode_new PingRequest (ping_doc i x) = Some (ping_doc i x)"
  "decode_new PingResponse (ping_doc i x) = Some (ping_doc i x)"
  by (simp_all add: decode_new_def PingRequest_def PingResponse_def ping_doc_def fold_eq_def lower_char_def entry_def)

lemma echo_accepted:
  assumes "\<forall>n \<in> set sent. n < 256" and "0 < len" and "len \<le> 1024"
  shows "handlePing \<lparr>rq_remote = me, rq_url = u, rq_length = len, rq_content = Doc (ping_doc i (b64_encode sent))\<rparr> =
      respond StatusOK (ping_doc i (b64_encode sent))"
    "good_answer i sent (Reply StatusOK (Some (Doc (ping_doc i (b64_encode sent)))))"
  using assms b64_roundtrip [OF assms(1)] by (simp_all add: handlePing_def good_answer_def) (simp_all add: ping_doc_def entry_def text_of_def)

lemma wire_round:
  assumes "peer_Decode cd me = Some pid" and "used pid s < po_count (pn_options s) * 3" and "0 \<le> used pid s"
    and "po_count (pn_options s) * 3 < 2 ^ 63"
    and "fits len to" and "draws pc"
  shows "\<exists>t s1 v1. ping_round (over_wire cd me len pc) to (s, v) = (Some t, s1, v1) \<and>
    used pid s1 = used pid s + 1 \<and> pn_options s1 = pn_options s"
proof -
  obtain now v0 where c0: "pc_clock pc v = (now, v0)" by (cases "pc_clock pc v")
  obtain st v1 where c1: "pc_clock pc v0 = (st, v1)" by (cases "pc_clock pc v0")
  obtain k v2 where r: "pc_rand pc v1 = (Some k, v2)" and k: "k < 200" using assms(6) unfolding draws_def by blast
  obtain sent v3 where b: "pc_bytes pc (k + 56) v2 = (sent, v3)" by (cases "pc_bytes pc (k + 56) v2")
  obtain t v4 where c2: "pc_clock pc v3 = (t, v4)" by (cases "pc_clock pc v3")
  let ?i = "to @ ''-'' @ Itoa now"
  let ?r = "\<lparr>rq_remote = me, rq_url = ''/ping'', rq_length = len (ping_doc ?i (b64_encode sent)), rq_content = Doc (ping_doc ?i (b64_encode sent))\<rparr>"
  from assms(6) b have "length sent = k + 56 \<and> (\<forall>b \<in> set sent. b < 256)" unfolding draws_def by blast
  with k have sent: "length sent \<le> 255" "\<forall>b \<in> set sent. b < 256" by auto
  have "pings cd pid ?r" using assms(1) by (simp add: pings_def actionPing_def path_Base_def)
  moreover have "\<exists>s1. ping_authorized pid actionPing s = (True, s1) \<and> used pid s1 = used pid s + 1 \<and> pn_options s1 = pn_options s"
    using assms(2-4) by (auto simp: ping_authorized_def used_def wrap64_id in_int64_def split: option.splits)
  ultimately obtain s1 where s1: "ping_serve cd ?r s = (handlePing ?r, s1)" "used pid s1 = used pid s + 1" "pn_options s1 = pn_options s"
    by (auto simp: ping_serve_ping)
  from assms(6) c0 have "in_int64 now" unfolding draws_def by (metis fst_conv)
  with assms(5) sent(1) have "0 < len (ping_doc ?i (b64_encode sent))" "len (ping_doc ?i (b64_encode sent)) \<le> 1024" by (auto simp: fits_def)
  note e = echo_accepted [OF sent(2) this]
  have "ping_round (over_wire cd me len pc) to (s, v) = (Some (t - st), s1, v4)"
    using c0 c1 c2 r b s1(1) e(1) e(2) [of ?i] by (simp add: ping_round_def over_wire_def respond_def)
  with s1 show ?thesis by blast
qed

lemma wire_rounds:
  assumes "peer_Decode cd me = Some pid" and "0 \<le> used pid s" and "used pid s + int n \<le> po_count (pn_options s) * 3"
    and "po_count (pn_options s) * 3 < 2 ^ 63"
    and "fits len to" and "draws pc"
  shows "length (fst (ping_rounds (over_wire cd me len pc) to n (s, v))) = n"
  using assms(2-4)
proof (induction n arbitrary: s v)
  case (Suc n)
  have "used pid s < po_count (pn_options s) * 3" using Suc.prems by simp
  from wire_round [OF assms(1) this Suc.prems(1,3) assms(5,6)] obtain t s1 v1
    where r: "ping_round (over_wire cd me len pc) to (s, v) = (Some t, s1, v1)" "used pid s1 = used pid s + 1" "pn_options s1 = pn_options s"
    by blast
  have "length (fst (ping_rounds (over_wire cd me len pc) to n (s1, v1))) = n"
    by (rule Suc.IH) (use Suc.prems r(2,3) in simp_all)
  with r(1) show ?case by (auto split: prod.splits)
qed simp

text \<open>
  A peer that pings a server for the first time, or again within its quota, gets every round answered: the server accepts
  what the client sends, and the client accepts what the server echoes.
\<close>

lemma ping_all_answered:
  assumes "peer_Decode cd me = Some pid" and "0 \<le> used pid s" and "used pid s + po_count opts \<le> po_count (pn_options s) * 3"
    and "po_count (pn_options s) * 3 < 2 ^ 63" and "0 < po_count opts"
    and "fits len to" and "draws pc"
  shows "int (snd (fst (Ping (over_wire cd me len pc) opts to (s, v)))) = po_count opts"
proof -
  have "length (fst (ping_rounds (over_wire cd me len pc) to (nat (po_count opts)) (s, v))) = nat (po_count opts)"
    by (rule wire_rounds [OF assms(1,2) _ assms(4,6,7)]) (use assms(3,5) in simp)
  with assms(5) show ?thesis by (auto simp: Ping_def split: prod.splits)
qed


section \<open>Starting and stopping\<close>

text \<open>
  When the protocol cannot be listened on, \<^verbatim>\<open>Start\<close> returns with \<^verbatim>\<open>mu\<close> locked: every later start, stop, shutdown or status
  query waits for ever.
\<close>

lemma failed_start_deadlocks:
  assumes "ping_Start False pn = Some (ok, pn1)" and "\<not> pn_started pn"
  shows "\<not> ok" "ping_Start l pn1 = None" "ping_StopServer b pn1 = None" "ping_Shutdown b pn1 = None" "ping_Status pn1 = None"
  using assms by (auto simp: ping_Start_def ping_StopServer_def ping_Shutdown_def ping_Status_def split: if_splits)

text \<open>
  \<^verbatim>\<open>http.Server\<close> cannot be used again after \<^verbatim>\<open>Shutdown\<close>: a server that was stopped can be started, reports itself as
  started, and answers nothing.
\<close>

lemma restarted_server_is_deaf:
  assumes "ping_StopServer b pn = Some (r, pn1)"
  shows "\<exists>pn2. ping_Start True pn1 = Some (True, pn2) \<and> ping_Status pn2 = Some True \<and> \<not> pn_serving pn2"
  using assms by (auto simp: ping_StopServer_def clearPingedPeers_def ping_Start_def ping_Status_def split: if_splits)

text \<open>Stopping the server forgives every peer its earlier pings.\<close>

lemma stop_resets_quota: "ping_StopServer b pn = Some (r, pn1) \<Longrightarrow> used pid pn1 = 0"
  by (auto simp: ping_StopServer_def clearPingedPeers_def used_def split: if_splits)

text \<open>A later option for the same setting wins; the options of this package cannot fail.\<close>

lemma ping_count_option:
  "ping_newOptions (fs @ [ping_WithCount n]) = and_then (ping_newOptions fs) (\<lambda>o0. Ok (o0\<lparr>po_count := n\<rparr>))"
proof -
  have "apply_options (fs @ [ping_WithCount n]) o0 = and_then (apply_options fs o0) (\<lambda>o0. Ok (o0\<lparr>po_count := n\<rparr>))" for o0
  proof (induction fs arbitrary: o0)
    case (Cons f fs)
    then show ?case by (cases "f o0") simp_all
  qed (simp add: ping_WithCount_def)
  then show ?thesis by (simp add: ping_newOptions_def)
qed


section \<open>The report of \<^verbatim>\<open>ping_server.go\<close>\<close>

text \<open>
  The report always arrives with status 200 and names the node; the cluster is called healthy exactly when it answered 200
  with an id, and then with that id.
\<close>

lemma ping_report_cluster:
  assumes "ping_proxy env opts st d = (a, e)"
  shows "\<exists>rep w w1. net env \<lparr>hq_method = ''GET'', hq_url = clusterAPIURL, hq_body = Raw []\<rparr> w = (rep, w1) \<and> same_local d e \<and>
    rs_status a = StatusOK \<and>
    (case rs_body a of
       Doc j \<Rightarrow> entry ''peer_id'' j = JStr (selfPeerID opts) \<and> entry ''cluster_healthy'' j = JBool (cluster_reports rep \<noteq> None) \<and>
         (\<forall>i. cluster_reports rep = Some i \<longrightarrow> entry ''cluster_peer_id'' j = JStr i)
     | _ \<Rightarrow> False)"
proof -
  obtain t d1 now d2 rep d3 where s: "time_now env d = (t, d1)" "time_now env d1 = (now, d2)"
    "send env \<lparr>hq_method = ''GET'', hq_url = clusterAPIURL, hq_body = Raw []\<rparr> d2 = (rep, d3)" by (metis surj_pair)
  have id: "cluster_reports rep \<noteq> Some []" by (auto simp: cluster_reports_def split: net_reply.splits option.splits if_splits)
  from s have "same_local d d3" by (blast intro: same_local_trans time_now_local send_local)
  moreover from s(3) have "\<exists>w w1. net env \<lparr>hq_method = ''GET'', hq_url = clusterAPIURL, hq_body = Raw []\<rparr> w = (rep, w1)"
    by (auto simp: send_def split: prod.splits)
  ultimately show ?thesis using assms s id
    by (intro exI [of _ rep]) (auto simp: ping_proxy_def Let_def respond_def PingServerResponse_def entry_def is_empty_val_def split: prod.splits option.splits)
qed

section \<open>Witnesses\<close>

definition quiet_client :: "nat ping_client" where
  "quiet_client = \<lparr>pc_clock = (\<lambda>n. (int (n mod 1000), Suc n)), pc_rand = (\<lambda>n. (Some (n mod 200), n)), pc_bytes = (\<lambda>k n. (replicate k (n mod 256), n)),
     pc_post = (\<lambda>_ _ n. (NetErr, n))\<rparr>"

definition plain_codecs :: codecs where
  "plain_codecs = \<lparr>mb_Decode = (\<lambda>_. None), mb_Encode58 = (\<lambda>_. []), peer_Decode = Some\<rparr>"

definition fresh_ping :: fx_ping where
  "fresh_ping = \<lparr>pn_options = \<lparr>po_allowTransientConnection = True, po_timeout = 30, po_count = 5\<rparr>, pn_pingedPeers = Map.empty,
     pn_started = True, pn_locked = False, pn_closed = False, pn_serving = True\<rparr>"

theorem ping_quota_witness:
  "int (ping_served plain_codecs ''p'' (ping_serve_all plain_codecs
     (replicate 20 \<lparr>rq_remote = ''p'', rq_url = ''/ping'', rq_length = 0, rq_content = Raw []\<rparr>) fresh_ping)) = 15"
proof -
  have "pings plain_codecs ''p'' \<lparr>rq_remote = ''p'', rq_url = ''/ping'', rq_length = 0, rq_content = Raw []\<rparr>"
    by (simp add: pings_def plain_codecs_def path_Base_def actionPing_def)
  then show ?thesis
    by (subst ping_quota [where k = 5]) (simp_all add: fresh_ping_def filter_replicate)
qed

theorem ping_all_answered_witness:
  "int (snd (fst (Ping (over_wire plain_codecs ''me'' (\<lambda>_. 500) quiet_client) (pn_options fresh_ping) ''p'' (fresh_ping, 0)))) = 5"
proof -
  have "used ''me'' fresh_ping = 0" by (simp add: used_def fresh_ping_def)
  then have "int (snd (fst (Ping (over_wire plain_codecs ''me'' (\<lambda>_. 500) quiet_client) (pn_options fresh_ping) ''p'' (fresh_ping, 0)))) =
      po_count (pn_options fresh_ping)"
    by (intro ping_all_answered [where pid = "''me''"]) (auto simp: plain_codecs_def quiet_client_def fresh_ping_def fits_def draws_def in_int64_def)
  then show ?thesis by (simp add: fresh_ping_def)
qed

end
