(* ===== verification/ExchangeWiring.thy ===== *)
theory ExchangeWiring
  imports DataExchange PingServer
begin

text \<open>
  How an exchange is made, started and shut down: the options of \<^verbatim>\<open>exchange/options.go\<close>, \<^verbatim>\<open>NewFxExchange\<close>, \<^verbatim>\<open>Start\<close> and \<^verbatim>\<open>Shutdown\<close> of
  \<^verbatim>\<open>fx_exchange.go\<close>. Third-party objects that are only passed on (engine and DHT options, the IPFS API and node) and the wait group are
  left out; the publisher and the DHT show as the results of making them.
\<close>

section \<open>Options\<close>

record fx_options =
  xo_authorizer :: peerID
  xo_authorizedPeers :: "peerID list"
  xo_allowTransientConnection :: bool
  xo_ipniPublishDisabled :: bool
  xo_poolHostMode :: bool
  xo_ipniPublishTicker :: "int option"
  xo_ipniPublishChanBuffer :: int
  xo_ipniPublishMaxBatchSize :: int
  xo_ipniGetEndpoint :: string
  xo_updateConfig :: "(peerID set \<Rightarrow> bool) option"
  xo_pushRate :: int

type_synonym fx_option = "fx_options \<Rightarrow> (unit, fx_options) outcome"

definition fx_newOptions :: "fx_option list \<Rightarrow> (unit, fx_options) outcome" where
  "fx_newOptions fs = and_then
     (apply_options fs
        \<lparr>xo_authorizer = [], xo_authorizedPeers = [], xo_allowTransientConnection = False, xo_ipniPublishDisabled = False,
         xo_poolHostMode = False, xo_ipniPublishTicker = None, xo_ipniPublishChanBuffer = 1, xo_ipniPublishMaxBatchSize = 16384,
         xo_ipniGetEndpoint = [], xo_updateConfig = None, xo_pushRate = 1000\<rparr>)
     (\<lambda>o0. let o1 = (if xo_ipniPublishTicker o0 = None then o0\<lparr>xo_ipniPublishTicker := Some (10 * second)\<rparr> else o0) in
           Ok (if xo_ipniGetEndpoint o1 = [] then o1\<lparr>xo_ipniGetEndpoint := ''https://cid.contact/cid/''\<rparr> else o1))"

definition fx_WithUpdateConfig :: "(peerID set \<Rightarrow> bool) option \<Rightarrow> fx_option" where
  "fx_WithUpdateConfig v o0 = Ok (o0\<lparr>xo_updateConfig := v\<rparr>)"

definition fx_WithAuthorizer :: "peerID \<Rightarrow> fx_option" where
  "fx_WithAuthorizer v o0 = Ok (o0\<lparr>xo_authorizer := v\<rparr>)"

definition fx_WithAuthorizedPeers :: "peerID list \<Rightarrow> fx_option" where
  "fx_WithAuthorizedPeers v o0 = Ok (o0\<lparr>xo_authorizedPeers := v\<rparr>)"

definition fx_WithAllowTransientConnection :: "bool \<Rightarrow> fx_option" where
  "fx_WithAllowTransientConnection v o0 = Ok (o0\<lparr>xo_allowTransientConnection := v\<rparr>)"

definition fx_WithIpniPublishDisabled :: "bool \<Rightarrow> fx_option" where
  "fx_WithIpniPublishDisabled v o0 = Ok (o0\<lparr>xo_ipniPublishDisabled := v\<rparr>)"

definition fx_WithIpniGetEndPoint :: "string \<Rightarrow> fx_option" where
  "fx_WithIpniGetEndPoint v o0 = Ok (o0\<lparr>xo_ipniGetEndpoint := v\<rparr>)"

definition fx_WithPoolHostMode :: "bool \<Rightarrow> fx_option" where
  "fx_WithPoolHostMode v o0 = Ok (o0\<lparr>xo_poolHostMode := v\<rparr>)"

definition fx_WithIpniPublishChanBuffer :: "int \<Rightarrow> fx_option" where
  "fx_WithIpniPublishChanBuffer v o0 = Ok (o0\<lparr>xo_ipniPublishChanBuffer := v\<rparr>)"

definition fx_WithIpniPublishMaxBatchSize :: "int \<Rightarrow> fx_option" where
  "fx_WithIpniPublishMaxBatchSize v o0 = Ok (o0\<lparr>xo_ipniPublishMaxBatchSize := v\<rparr>)"

definition fx_WithMaxPushRate :: "int \<Rightarrow> fx_option" where
  "fx_WithMaxPushRate v o0 = Ok (o0\<lparr>xo_pushRate := v\<rparr>)"

text \<open>\<^verbatim>\<open>time.NewTicker\<close> panics on an interval that is not positive.\<close>

definition fx_WithIpniPublishInterval :: "int \<Rightarrow> fx_option" where
  "fx_WithIpniPublishInterval t o0 = (if t \<le> 0 then Panic else Ok (o0\<lparr>xo_ipniPublishTicker := Some t\<rparr>))"


section \<open>Life of an exchange\<close>

text \<open>
  \<open>lib\<close> carries the updater of the options. The owner is granted access on the own host; \<open>pub_ok\<close> and \<open>dht_ok\<close> say whether publisher and DHT could be made.
\<close>

definition NewFxExchange :: "('b, 'w) fx_libs \<Rightarrow> peerID \<Rightarrow> bool \<Rightarrow> bool \<Rightarrow> fx_option list \<Rightarrow> (string \<rightharpoonup> 'b) \<Rightarrow> (unit, fx_options \<times> 'b exchange) outcome" where
  "NewFxExchange lib self pub_ok dht_ok fs blocks =
     and_then (fx_newOptions fs) (\<lambda>opts.
       let e = \<lparr>fx_self = self, fx_authorizer = xo_authorizer opts, fx_peers = {}, fx_saved = set (xo_authorizedPeers opts),
                fx_tempAuths = Map.empty, fx_blocks = blocks\<rparr>;
           lib' = lib\<lparr>fl_updateConfig := xo_updateConfig opts\<rparr>;
           (ok, e1) = (if xo_authorizer opts \<noteq> [] then updateAuthorizePeers lib' (fx_set_auth (xo_authorizer opts) True e) else (True, e)) in
       if ok \<and> pub_ok \<and> dht_ok then Ok (opts, e1) else Err ())"

definition fx_GetAuth :: "'b exchange \<Rightarrow> peerID" where
  "fx_GetAuth e = fx_authorizer e"

text \<open>The servers and goroutines: the publisher, the HTTP server on libp2p, the cleaner of permissions.\<close>

record fx_life =
  xl_serving :: bool
  xl_closed :: bool
  xl_publisher :: bool
  xl_dht :: bool

definition fx_Start :: "bool \<Rightarrow> bool \<Rightarrow> fx_life \<Rightarrow> bool \<times> fx_life" where
  "fx_Start pub_ok listen l =
     (if \<not> pub_ok then (False, l)
      else if \<not> listen then (False, l\<lparr>xl_publisher := True\<rparr>)
      else (True, l\<lparr>xl_publisher := True, xl_serving := \<not> xl_closed l\<rparr>))"

definition fx_Shutdown :: "bool \<Rightarrow> fx_life \<Rightarrow> bool \<times> fx_life" where
  "fx_Shutdown drained l = (drained, l\<lparr>xl_publisher := False, xl_dht := False, xl_closed := True, xl_serving := False\<rparr>)"


section \<open>What a new exchange allows\<close>

lemma new_exchange_peers:
  assumes "NewFxExchange lib self pub_ok dht_ok fs blocks = Ok (opts, e)"
  shows "fx_peers e = (if xo_authorizer opts = [] then {} else {xo_authorizer opts})" "fx_self e = self" "fx_authorizer e = xo_authorizer opts"
    "fx_tempAuths e = Map.empty" "fx_blocks e = blocks"
  using assms by (auto simp: NewFxExchange_def outcome_simps Let_def updateAuthorizePeers_def fx_GetAuthorizedPeers_def fx_set_auth_def
      split: if_splits prod.splits option.splits)

text \<open>
  A new exchange with an owner other than itself lets nobody but the owner push: whoever else is named by the option
  \<^verbatim>\<open>WithAuthorizedPeers\<close> is not let in, the option is only stored. Without an owner, or with itself as the owner, everybody may push.
\<close>

lemma new_exchange_admits:
  assumes "NewFxExchange lib self pub_ok dht_ok fs blocks = Ok (opts, e)"
  shows "fst (fx_authorized p actionPush c e) \<longleftrightarrow> xo_authorizer opts = self \<or> xo_authorizer opts = [] \<or> p = xo_authorizer opts"
  using new_exchange_peers [OF assms] by (auto simp: fx_authorized_def fx_actions split: if_splits)

text \<open>Every exchange has a ticker that ticks and an indexer to ask.\<close>

lemma fx_newOptions_complete:
  assumes "fx_newOptions fs = Ok opts"
  shows "xo_ipniPublishTicker opts \<noteq> None" "xo_ipniGetEndpoint opts \<noteq> []"
proof -
  from assms obtain o0 o1 where o: "o1 = (if xo_ipniPublishTicker o0 = None then o0\<lparr>xo_ipniPublishTicker := Some (10 * second)\<rparr> else o0)"
    "opts = (if xo_ipniGetEndpoint o1 = [] then o1\<lparr>xo_ipniGetEndpoint := ''https://cid.contact/cid/''\<rparr> else o1)"
    by (auto simp: fx_newOptions_def outcome_simps Let_def)
  then have "xo_ipniPublishTicker o1 \<noteq> None" by simp
  then show "xo_ipniPublishTicker opts \<noteq> None" "xo_ipniGetEndpoint opts \<noteq> []" by (simp_all add: o(2))
qed

text \<open>A publish interval that is not positive crashes the construction instead of being reported.\<close>

lemma bad_interval_panics: "t \<le> 0 \<Longrightarrow> NewFxExchange lib self a b (fx_WithIpniPublishInterval t # fs) blocks = Panic"
  by (simp add: NewFxExchange_def fx_newOptions_def fx_WithIpniPublishInterval_def)

text \<open>An exchange that was shut down serves nothing after another start, although the start succeeds.\<close>

lemma restarted_exchange_is_deaf: "fx_Shutdown b l = (r, l1) \<Longrightarrow> \<exists>l2. fx_Start True True l1 = (True, l2) \<and> \<not> xl_serving l2"
  by (auto simp: fx_Shutdown_def fx_Start_def)

end
