(* ===== verification/PoolRequests.thy ===== *)
theory PoolRequests
  imports PoolConfig
begin

text \<open>
  What joining, cancelling a join and discovering a pool do to the configuration.
\<close>

section \<open>Joining\<close>

lemma join_chain_local:
  assumes "(if given \<noteq> [] then (Ok given, d)
      else (case discoverPoolChain env opts p d of
              (Ok c, d1) \<Rightarrow> (Ok c, d1)
            | (Err _, d1) \<Rightarrow> (Ok ''skale'', d1)
            | (Panic, d1) \<Rightarrow> (Panic :: (unit, string) outcome, d1))) = (x, e)"
  shows "same_local d e \<and> (given \<noteq> [] \<longrightarrow> x = Ok given)"
  using assms by (auto dest!: discoverPoolChain_local split: if_splits prod.splits outcome.splits)

text \<open>The outcome of a join that was not refused.\<close>

definition joined :: "'w env \<Rightarrow> 'w options \<Rightarrow> string \<Rightarrow> body \<Rightarrow> 'w device \<Rightarrow> 'w device \<Rightarrow> bool" where
  "joined env opts cp rbody d e \<longleftrightarrow>
     (\<exists>rq chain d1 d2.
        Option.bind (decode_first rbody) (decode_new PoolJoinRequest) = Some rq \<and>
        (text_of (entry ''chain_name'' rq) = [] \<or> text_of (entry ''chain_name'' rq) = chain) \<and>
        validatePoolOnChain env opts (to_uint32 (int_of (entry ''pool_id'' rq))) chain d1 = (Ok (), d2) \<and>
        fst (getPoolNameFromConfig cp e) = Itoa (int_of (entry ''pool_id'' rq)) \<and>
        fst (getChainNameFromConfig cp e) = chain \<and> (\<forall>q. q \<noteq> cp \<longrightarrow> files e q = files d q) \<and> members e = members d)"

context pool_store
begin

lemma set_both:
  assumes "set_pool p d = (True, d1)" and "set_chain c d1 = (True, d2)"
  shows "fst (get_pool d2) = p \<and> fst (get_chain d2) = c \<and> (\<forall>q. q \<noteq> store \<longrightarrow> files d2 q = files d q) \<and> members d2 = members d"
  using get_set_pool [OF assms(1)] get_set_chain [OF assms(2)] set_pool_attrs [OF assms(1)] set_chain_attrs [OF assms(2)]
  by simp

end

text \<open>
  C14. A join is accepted (202) only for a pool that the chosen chain confirmed to exist; afterwards
  the configuration names exactly that pool and that chain (the chain of the request when it gave
  one), and nothing else on the device changed.
\<close>

theorem join_configures_validated_pool:
  assumes h: "HandlePoolJoin env (blox_opts cp opts) rbody d = (Some resp, e)" and st: "rs_status resp = StatusAccepted"
  shows "joined env (blox_opts cp opts) cp rbody d e"
proof -
  from h st obtain rq where rq: "Option.bind (decode_first rbody) (decode_new PoolJoinRequest) = Some rq"
    by (auto simp: HandlePoolJoin_def http_Error_def split: option.splits)
  define pool where "pool = int_of (entry ''pool_id'' rq)"
  define given where "given = text_of (entry ''chain_name'' rq)"
  obtain x d1 where c: "(if given \<noteq> [] then (Ok given, d)
      else (case discoverPoolChain env (blox_opts cp opts) (to_uint32 pool) d of
              (Ok c, d1) \<Rightarrow> (Ok c, d1)
            | (Err _, d1) \<Rightarrow> (Ok ''skale'', d1)
            | (Panic, d1) \<Rightarrow> (Panic :: (unit, string) outcome, d1))) = (x, d1)" by fastforce
  note lc = join_chain_local [OF c]
  note start = h [unfolded HandlePoolJoin_def rq option.case Let_def pool_def [symmetric] given_def [symmetric] c prod.case]
  from start obtain chain where x: "x = Ok chain" by (auto split: outcome.splits)
  obtain y d2 where v: "validatePoolOnChain env (blox_opts cp opts) (to_uint32 pool) chain d1 = (y, d2)" by fastforce
  obtain ok3 d3 where s3: "updatePoolName_config cp (Itoa pool) d2 = (ok3, d3)" by fastforce
  obtain ok4 d4 where s4: "updateChainName_config cp chain d3 = (ok4, d4)" by fastforce
  have o: "updatePoolName (blox_opts cp opts) = Some (updatePoolName_config cp)"
    "updateChainName (blox_opts cp opts) = Some (updateChainName_config cp)" by (simp_all add: blox_opts_def)
  from start x v o s3 s4 st have ok: "y = Ok ()" "ok3" "ok4" "e = d4"
    by (auto simp: write_error_def split: outcome.splits bool.splits)
  have "same_local d d2" using lc validatePoolOnChain_local [OF v] same_local_trans by blast
  note fr = same_localD [OF this]
  have "fst (getPoolNameFromConfig cp e) = Itoa pool \<and> fst (getChainNameFromConfig cp e) = chain \<and>
      (\<forall>q. q \<noteq> cp \<longrightarrow> files e q = files d2 q) \<and> members e = members d2"
    using blox_store.set_both [of cp "Itoa pool" d2 d3 chain d4] s3 s4 ok by simp
  with rq v ok lc x fr show ?thesis
    unfolding joined_def pool_def given_def by auto
qed

section \<open>Cancelling a join\<close>

lemma cancel_tail_err:
  "cancel_tail env opts st r True d = (x, e) \<Longrightarrow> e = d"
  by (auto simp: cancel_tail_def Let_def split: if_splits option.splits)

lemma checkIfUserHasOpenPoolRequests_local [frame_intros]:
  "checkIfUserHasOpenPoolRequests env opts t d = (x, e) \<Longrightarrow> same_local d e"
  by (auto simp: checkIfUserHasOpenPoolRequests_def dest!: callBlockchain_local split: option.splits if_splits prod.splits)

lemma StopPingServer_attrs:
  "StopPingServer env d = (ok, e) \<Longrightarrow> files e = files d \<and> members e = members d"
  using StopPingServer_frame [of env d] by auto

text \<open>
  When the API call of a cancelled join fails, the cleanup never runs: the inner \<^verbatim>\<open>err\<close> shadows the
  outer one, so even the branch that resets the names and prepares a 202 answer ends in the error
  path. The member list and the membership confirmation survive whatever is answered.
\<close>

lemma cancel_join_without_cleanup:
  assumes h: "HandlePoolCancelJoin env (blox_opts cp opts) mth rbody d = (r, e)"
    and "Option.bind (decode_first rbody) (decode_new PoolCancelJoinRequest) = Some rq"
    and "callBlockchain env (blox_opts cp opts) mth ''fula-pool-cancel_join'' (StructPtr PoolCancelJoinRequest rq) d = (Failed st, d1)"
    and "cp \<noteq> PoolMemberConfirmedFilePath"
  shows "members e = members d \<and> files e PoolMemberConfirmedFilePath = files d PoolMemberConfirmedFilePath"
proof -
  define pool where "pool = int_of (entry ''pool_id'' rq)"
  obtain x d2 where c: "checkIfUserHasOpenPoolRequests env (blox_opts cp opts) (Itoa pool) d1 = (x, d2)" by fastforce
  obtain ok3 d3 where s3: "updatePoolName_config cp ''0'' d2 = (ok3, d3)" by fastforce
  obtain ok4 d4 where s4: "updateChainName_config cp [] d3 = (ok4, d4)" by fastforce
  obtain ok5 d5 where s5: "StopPingServer env d4 = (ok5, d5)" by fastforce
  have l: "same_local d d2"
    using same_local_trans [OF callBlockchain_local [OF assms(3)] checkIfUserHasOpenPoolRequests_local [OF c]] .
  have "e = d2 \<or> e = d5"
    using h assms(2,3) c s3 s4 s5
    by (auto simp: HandlePoolCancelJoin_def Let_def pool_def blox_opts_def write_error_def dest!: cancel_tail_err
        split: outcome.splits bool.splits if_splits)
  then show ?thesis
    using same_localD [OF l] blox_store.set_pool_attrs [OF s3] blox_store.set_chain_attrs [OF s4] StopPingServer_attrs [OF s5] assms(4)
    by auto
qed

text \<open>
  A cancelled join that the API refuses with a body that is no JSON object is not answered: the
  handler asks a nil error for its text and panics, so the phone sees a dropped connection.
\<close>

lemma cancel_join_drops_on_text:
  assumes "Option.bind (decode_first rbody) (decode_new PoolCancelJoinRequest) = Some rq"
    and "callBlockchain env opts mth ''fula-pool-cancel_join'' (StructPtr PoolCancelJoinRequest rq) d = (Answer b st, d1)"
    and "st \<noteq> StatusOK" and "st \<noteq> StatusAccepted" and "\<not> as_object b"
  shows "HandlePoolCancelJoin env opts mth rbody d = (None, d1)"
  using assms by (auto simp: HandlePoolCancelJoin_def cancel_tail_def as_object_def Let_def split: option.splits)


section \<open>Discovery\<close>

text \<open>
  \<open>is_member_here\<close>: the contract on \<open>chain\<close> lists this device's cluster peer in the pool.
\<close>

definition is_member_here ::
  "'w env \<Rightarrow> 'w options \<Rightarrow> (string \<Rightarrow> nat \<Rightarrow> string \<Rightarrow> bool) \<Rightarrow> string \<Rightarrow> nat \<Rightarrow> bool" where
  "is_member_here env opts isM chain pool \<longleftrightarrow>
     (\<exists>k. peerIdToBytes32 (codec env) (clusterPeerID opts) = Ok k \<and> isM chain pool k)"

lemma membership_positive:
  assumes h: "HandleIsMemberOfPool env opts (clusterPeerID opts) pool chain d = (Ok resp, e)" and m: "ir_IsMember resp"
    and hon: "honest_chains env opts isM st"
  shows "is_member_here env opts isM chain pool"
proof -
  from h m obtain cc k r where cc: "chainConfigs opts chain = Some cc"
    and k: "peerIdToBytes32 (codec env) (clusterPeerID opts) = Ok k"
    and r: "eth_call env opts chain cc (EncodeIsPeerIdMemberOfPoolCall pool k) 3 d = (Result r, e)"
    and dec: "\<exists>y. DecodeIsMemberOfPoolResult r = Ok y \<and> imr_IsMember y"
    by (auto simp: HandleIsMemberOfPool_def not_a_member_def
        split: if_splits option.splits outcome.splits prod.splits eth_answer.splits)
  have "honest_chain env cc (isM chain) (st chain)" using hon cc by (simp add: honest_chains_def)
  then obtain addr where "length addr = 40" "r = member_answer (isM chain pool k) addr"
    using eth_call_node [OF r cc] by (auto dest: honest_member)
  with dec have "isM chain pool k" using DecodeIsMember_answer [of addr "isM chain pool k"] by (auto simp: member_answer_def)
  with k show ?thesis by (auto simp: is_member_here_def)
qed

lemma discover_on_sound:
  "discover_on env opts pool cs d = (x, e) \<Longrightarrow> honest_chains env opts isM st \<Longrightarrow>
     same_local d e \<or> (\<exists>chain \<in> set cs. is_member_here env opts isM chain pool)"
proof (induction env opts pool cs d rule: discover_on.induct)
  case (2 env opts pool c cs d)
  obtain y d1 where h: "HandleIsMemberOfPool env opts (clusterPeerID opts) pool c d = (y, d1)" by fastforce
  note l = HandleIsMemberOfPool_local [OF h]
  show ?case
  proof (cases "\<exists>resp. y = Ok resp \<and> ir_IsMember resp")
    case True
    then show ?thesis using membership_positive h 2(4) by fastforce
  next
    case False
    then show ?thesis using 2 h l by (auto split: outcome.splits intro: same_local_trans)
  qed
qed simp

text \<open>
  Discovery configures a pool only where the device belongs: on honest chains it changes the
  configuration only if one of the two chains lists this device's cluster peer as a member of the
  pool. Failed calls, which the query reports as "not a member", never configure anything.
\<close>

lemma discovery_sound:
  assumes "discoverPoolAndChain env opts pool d = (x, e)" and "honest_chains env opts isM st" and "\<not> same_local d e"
  shows "\<exists>chain \<in> {''skale'', ''base''}. is_member_here env opts isM chain pool"
  using discover_on_sound [OF assms(1) [unfolded discoverPoolAndChain_def] assms(2)] assms(3) by auto

subsection \<open>Concrete requests\<close>

definition pools_chain :: "string \<rightharpoonup> string" where
  "pools_chain = [ms_Pools MethodSignatures \<mapsto> encode_pool sample_pool]"

definition join_doc :: json where
  "join_doc = JObj [(''pool_id'', JNum 5), (''chain_name'', JStr ''skale'')]"

lemma join_doc_decodes:
  "decode_new PoolJoinRequest join_doc = Some (JObj [(''pool_id'', JNum 5), (''peer_id'', JStr []), (''chain_name'', JStr ''skale'')])"
  by (simp add: decode_new_def PoolJoinRequest_def join_doc_def entry_def fold_eq_def lower_char_def in_int64_def)

definition unjoined_device :: "int device" where
  "unjoined_device = (sample_device 0)\<lparr>files := [''c'' \<mapsto> Conf \<lparr>y_poolName = Some ''0'', y_chainName = Some [], y_others = Map.empty\<rparr>]\<rparr>"

lemma blox_chainConfigs [simp]: "chainConfigs (blox_opts cp sample_opts) c = GetChainConfigs c"
  by (simp add: chainConfigs_def sample_opts_def blox_opts_def wire_def)

lemma pools_no_error: "ParseContractError (encode_pool sample_pool) = None"
proof -
  have "replicate 8 (CHR ''0'') = ''00000000''" by (simp add: numeral_eq_Suc)
  then show ?thesis
    by (simp add: ParseContractError_def encode_pool_def sample_pool_def pad_left_def TrimPrefix_def HasPrefix_def
        ContractErrorSignatures_def)
qed

lemma skale_config: "\<exists>cc. GetChainConfigs ''skale'' = Some cc"
  by (simp add: GetChainConfigs_def)

lemma pools_chain_valid:
  "validatePoolOnChain (sample_env pools_chain) (blox_opts cp sample_opts) p ''skale'' d = (Ok (), d)"
proof -
  obtain cc where cc: "GetChainConfigs ''skale'' = Some cc" using skale_config by blast
  have "pools_chain (take 10 (EncodePoolsCall p)) = Some (encode_pool sample_pool)"
    by (simp add: pools_chain_def EncodePoolsCall_def MethodSignatures_def)
  then have "eth_call (sample_env pools_chain) (blox_opts cp sample_opts) ''skale'' cc (EncodePoolsCall p) 2 d
      = (Result (encode_pool sample_pool), d)"
    unfolding numeral_2_eq_2 by (rule sample_call) (simp add: cc)
  then show ?thesis
    by (simp add: validatePoolOnChain_def cc strict_answer_def contract_ok_def decode_encode_pool [OF wf_sample_pool] pools_no_error)
qed

lemma join_run:
  "\<exists>e. HandlePoolJoin (sample_env pools_chain) (blox_opts ''c'' sample_opts) (Doc join_doc) unjoined_device =
     (Some \<lparr>rs_status = StatusAccepted, rs_body = Doc (encode_go PoolJoinResponse
        (JObj [(''account'', JStr []), (''pool_id'', JNum 5), (''chain_name'', JStr ''skale'')]))\<rparr>, e)"
  by (simp add: HandlePoolJoin_def join_doc_decodes int_of_def text_of_def entry_def Let_def pools_chain_valid)
    (simp add: blox_opts_def sample_config_simps unjoined_device_def sample_device_def)

theorem join_configures_validated_pool_witness:
  "\<exists>e. joined (sample_env pools_chain) (blox_opts ''c'' sample_opts) ''c'' (Doc join_doc) unjoined_device e"
proof -
  obtain e where r: "HandlePoolJoin (sample_env pools_chain) (blox_opts ''c'' sample_opts) (Doc join_doc) unjoined_device =
     (Some \<lparr>rs_status = StatusAccepted, rs_body = Doc (encode_go PoolJoinResponse
        (JObj [(''account'', JStr []), (''pool_id'', JNum 5), (''chain_name'', JStr ''skale'')]))\<rparr>, e)"
    using join_run by blast
  show ?thesis by (rule exI, rule join_configures_validated_pool [OF r]) simp
qed

lemma cancel_doc_decodes:
  "decode_new PoolCancelJoinRequest leave_doc = Some (JObj [(''pool_id'', JNum 5)])"
  by (simp add: decode_new_def PoolCancelJoinRequest_def leave_doc_def entry_def fold_eq_def lower_char_def in_int64_def)

definition confirmed_device :: "int device" where
  "confirmed_device = (sample_device 0)\<lparr>files := [''c'' \<mapsto> Conf sample_config, PoolMemberConfirmedFilePath \<mapsto> Text ''skale:5'']\<rparr>"

theorem cancel_join_without_cleanup_witness:
  "files (snd (HandlePoolCancelJoin (api_env (Reply StatusAccepted None)) (blox_opts ''c'' sample_opts) ''POST'' (Doc leave_doc)
     confirmed_device)) PoolMemberConfirmedFilePath = Some (Text ''skale:5'')"
proof -
  let ?env = "api_env (Reply StatusAccepted None)"
  obtain r e where h: "HandlePoolCancelJoin ?env (blox_opts ''c'' sample_opts) ''POST'' (Doc leave_doc) confirmed_device = (r, e)"
    by fastforce
  have "callBlockchain ?env (blox_opts ''c'' sample_opts) ''POST'' ''fula-pool-cancel_join''
      (StructPtr PoolCancelJoinRequest (JObj [(''pool_id'', JNum 5)])) confirmed_device
    = (Failed StatusAccepted, confirmed_device)" by (simp add: api_env_call read_all_def)
  from cancel_join_without_cleanup [OF h _ this] h show ?thesis
    by (simp add: cancel_doc_decodes PoolMemberConfirmedFilePath_def confirmed_device_def)
qed

theorem cancel_join_drops_on_text_witness:
  "HandlePoolCancelJoin (api_env (Reply StatusInternalServerError (Some (Raw ''busy'')))) sample_opts ''POST'' (Doc leave_doc)
     (sample_device 0) = (None, sample_device 0)"
  by (rule cancel_join_drops_on_text [OF _ _ _ _ , where st = StatusInternalServerError and b = "Raw ''busy''"])
    (simp_all add: cancel_doc_decodes api_env_call read_all_def as_object_def)

lemma member_answer_no_error: "ParseContractError (''0x'' @ fmt_064x (Suc 0) @ rest) = None"
proof -
  have "fmt_064x (Suc 0) = replicate 63 (CHR ''0'') @ ''1''"
    by (simp add: fmt_064x_def pad_left_def digits_of.simps hex_digit_def char_of_def bit_0)
  moreover have "replicate 8 (CHR ''0'') = ''00000000''" by (simp add: numeral_eq_Suc)
  ultimately show ?thesis
    by (simp add: ParseContractError_def HasPrefix_def ContractErrorSignatures_def)
qed

lemma discovery_run:
  "\<exists>x e. discoverPoolAndChain (sample_env (uniform_chain True 0)) (blox_opts ''c'' sample_opts) 5 unjoined_device = (x, e) \<and>
     \<not> same_local unjoined_device e"
proof -
  let ?o = "blox_opts ''c'' sample_opts" and ?env = "sample_env (uniform_chain True 0)"
  obtain cc where cc: "GetChainConfigs ''skale'' = Some cc" using skale_config by blast
  obtain k where k: "peerIdToBytes32 (codec ?env) (clusterPeerID ?o) = Ok k"
    using sample_conversion by (auto simp: sample_env_def sample_opts_def blox_opts_def)
  have call: "eth_call ?env ?o ''skale'' cc (EncodeIsPeerIdMemberOfPoolCall 5 k) 3 unjoined_device
      = (Result (member_answer True (replicate 40 (CHR ''a''))), unjoined_device)"
    unfolding numeral_3_eq_3 by (rule sample_call) (simp_all add: cc)
  have "\<exists>resp. HandleIsMemberOfPool ?env ?o (clusterPeerID ?o) 5 ''skale'' unjoined_device = (Ok resp, unjoined_device) \<and> ir_IsMember resp"
    using call k cc DecodeIsMember_answer [of "replicate 40 (CHR ''a'')" True]
    by (simp add: HandleIsMemberOfPool_def member_answer_def member_answer_no_error [simplified])
  then show ?thesis
    by (auto simp: discoverPoolAndChain_def call_set_def blox_opts_def sample_config_simps unjoined_device_def sample_device_def
        dest!: same_localD(1) map_upd_eqD1)
qed

theorem discovery_sound_witness:
  "\<exists>chain \<in> {''skale'', ''base''}. is_member_here (sample_env (uniform_chain True 0)) (blox_opts ''c'' sample_opts) (\<lambda>_ _ _. True) chain 5"
proof -
  obtain x e where r: "discoverPoolAndChain (sample_env (uniform_chain True 0)) (blox_opts ''c'' sample_opts) 5 unjoined_device = (x, e)"
    "\<not> same_local unjoined_device e" using discovery_run by blast
  show ?thesis by (rule discovery_sound [OF r(1) honest_sample r(2)]) simp
qed

end
