(* ===== verification/Plugins.thy ===== *)
theory Plugins
  imports PoolRequests "HOL-Library.List_Lexorder" "HOL-Library.Char_ord"
begin

text \<open>
  The plugin manager of \<^verbatim>\<open>blockchain/bl_plugins.go\<close>: the two name files \<^verbatim>\<open>active-plugins.txt\<close> and
  \<^verbatim>\<open>update-plugins.txt\<close>, the per-plugin parameter and status files, the \<^verbatim>\<open>*Impl\<close> operations and the
  handler \<^verbatim>\<open>handlePluginAction\<close>.

  Plugin and parameter names reach the file system inside paths, so paths are resolved here the way
  the kernel does: a write or read of the text \<open>p\<close> acts on the file \<open>resolve p\<close>. Whether it fails (a
  missing directory, a NUL byte, permissions) is decided by \<^const>\<open>unwritable\<close> and \<^const>\<open>unreadable\<close> on the text
  itself. Directories are not part of the state.
\<close>

section \<open>Paths\<close>

text \<open>Components are pushed on a stack; \<^verbatim>\<open>..\<close> pops one, and nothing at the root.\<close>

fun resolve_parts :: "string list \<Rightarrow> string list \<Rightarrow> string list" where
  "resolve_parts acc [] = rev acc"
| "resolve_parts acc (c # cs) =
     (if c = [] \<or> c = ''.'' then resolve_parts acc cs
      else if c = ''..'' then resolve_parts (tl acc) cs
      else resolve_parts (c # acc) cs)"

definition resolve :: "string \<Rightarrow> string" where
  "resolve p = concat (map (\<lambda>c. CHR ''/'' # c) (resolve_parts [] (split_char (CHR ''/'') p)))"

definition ReadAt :: "string \<Rightarrow> 'w device \<Rightarrow> (fs_error, fcontent) outcome" where
  "ReadAt p d =
     (if unreadable d p then Err FsFailure
      else (case files d (resolve p) of None \<Rightarrow> Err NotExist | Some f \<Rightarrow> Ok f))"

definition WriteAt :: "string \<Rightarrow> string \<Rightarrow> 'w device \<Rightarrow> bool \<times> 'w device" where
  "WriteAt p s d = (if unwritable d p then (False, d) else (True, d\<lparr>files := (files d)(resolve p \<mapsto> Text s)\<rparr>))"

definition MkdirAll :: "string \<Rightarrow> 'w device \<Rightarrow> bool" where
  "MkdirAll p d \<longleftrightarrow> \<not> unwritable d p"


section \<open>Splitting at longer separators\<close>

text \<open>\<^verbatim>\<open>strings.Cut\<close>: the text before and after the first occurrence of a non-empty separator.\<close>

fun Cut :: "string \<Rightarrow> string \<Rightarrow> (string \<times> string) option" where
  "Cut sep [] = None"
| "Cut sep (c # s) =
     (if HasPrefix (c # s) sep then Some ([], drop (length sep) (c # s))
      else (case Cut sep s of None \<Rightarrow> None | Some (a, b) \<Rightarrow> Some (c # a, b)))"

lemma Cut_shorter: "Cut sep s = Some (a, b) \<Longrightarrow> sep \<noteq> [] \<Longrightarrow> length b < length s"
  by (induction s arbitrary: a b) (auto split: if_splits option.splits)

function Split :: "string \<Rightarrow> string \<Rightarrow> string list" where
  "Split sep s =
     (case Cut sep s of
        None \<Rightarrow> [s]
      | Some (a, b) \<Rightarrow> if sep = [] then [s] else a # Split sep b)"
  by pat_completeness auto
termination
  by (relation "measure (\<lambda>(sep, s). length s)") (auto dest: Cut_shorter)

declare Split.simps [simp del]

text \<open>\<^verbatim>\<open>strings.SplitN(s, sep, 2)\<close>.\<close>

definition SplitN2 :: "string \<Rightarrow> string \<Rightarrow> string list" where
  "SplitN2 sep s = (case Cut sep s of None \<Rightarrow> [s] | Some (a, b) \<Rightarrow> [a, b])"


section \<open>The name files\<close>

definition pluginInternalDir :: string where
  "pluginInternalDir = ''/internal/plugins''"

definition activePluginsFile :: string where
  "activePluginsFile = pluginInternalDir @ ''/active-plugins.txt''"

definition updatePluginsFile :: string where
  "updatePluginsFile = pluginInternalDir @ ''/update-plugins.txt''"

definition readActivePlugins :: "'w device \<Rightarrow> string list option" where
  "readActivePlugins d =
     (case ReadAt activePluginsFile d of
        Err NotExist \<Rightarrow> Some []
      | Ok f \<Rightarrow> Some (split_char newline (TrimSpace (file_text f)))
      | _ \<Rightarrow> None)"

definition writeActivePlugins :: "string list \<Rightarrow> 'w device \<Rightarrow> bool \<times> 'w device" where
  "writeActivePlugins plugins d = WriteAt activePluginsFile (join_char newline plugins) d"

definition readUpdatePlugins :: "'w device \<Rightarrow> string list option" where
  "readUpdatePlugins d =
     (case ReadAt updatePluginsFile d of
        Err NotExist \<Rightarrow> Some []
      | Ok f \<Rightarrow> Some (split_char newline (TrimSpace (file_text f)))
      | _ \<Rightarrow> None)"

definition writeUpdatePlugins :: "string list \<Rightarrow> 'w device \<Rightarrow> bool \<times> 'w device" where
  "writeUpdatePlugins plugins d = WriteAt updatePluginsFile (join_char newline plugins) d"


section \<open>Operations\<close>

text \<open>
  The replies \<^verbatim>\<open>{"msg": ..., "status": ...}\<close>. The text of an operating system error inside a message is
  abstracted to the empty string.
\<close>

definition plugin_reply :: "json \<Rightarrow> bool \<Rightarrow> json" where
  "plugin_reply msg status = JObj [(''msg'', msg), (''status'', JBool status)]"

abbreviation say :: "string \<Rightarrow> bool \<Rightarrow> json" where
  "say msg status \<equiv> plugin_reply (JStr msg) status"

definition plugin_path :: "string \<Rightarrow> string \<Rightarrow> string" where
  "plugin_path pluginName name = ''/'' @ pluginInternalDir @ ''/'' @ pluginName @ ''/'' @ name @ ''.txt''"

definition plugin_dir :: "string \<Rightarrow> string" where
  "plugin_dir pluginName = ''/'' @ pluginInternalDir @ ''/'' @ pluginName"

text \<open>\<^verbatim>\<open>filepath.Dir\<close> cleans the path: the directory of the file that a write to it reaches.\<close>

definition path_Dir :: "string \<Rightarrow> string" where
  "path_Dir p = concat (map (\<lambda>c. CHR ''/'' # c) (resolve_parts [] (butlast (split_char (CHR ''/'') p))))"

definition setPluginStatus :: "string \<Rightarrow> string \<Rightarrow> 'w device \<Rightarrow> bool \<times> 'w device" where
  "setPluginStatus pluginName status d =
     (let filePath = plugin_path pluginName ''status'' in
      if \<not> MkdirAll (path_Dir filePath) d then (False, d)
      else WriteAt filePath (TrimSpace status) d)"

text \<open>The parameter loop of \<^verbatim>\<open>installPluginImpl\<close>: \<^const>\<open>Some\<close> is an early return.\<close>

fun write_params :: "string \<Rightarrow> string list \<Rightarrow> 'w device \<Rightarrow> json option \<times> 'w device" where
  "write_params pluginName [] d = (None, d)"
| "write_params pluginName (param # params) d =
     (case SplitN2 ''===='' param of
        [n, v] \<Rightarrow>
          if \<not> MkdirAll (plugin_dir pluginName) d then
            (Some (say (''Failed to create directory for plugin '' @ pluginName @ '': '') False), d)
          else (case WriteAt (plugin_path pluginName (TrimSpace n)) (TrimSpace v) d of
                  (False, d1) \<Rightarrow> (Some (say (''Failed to write parameter file for plugin '' @ pluginName @ '': '') False), d1)
                | (True, d1) \<Rightarrow> write_params pluginName params d1)
      | _ \<Rightarrow> (Some (say (''Invalid parameter format: '' @ param) False), d))"

definition installPluginImpl :: "bool \<Rightarrow> string \<Rightarrow> string \<Rightarrow> 'w device \<Rightarrow> json \<times> 'w device" where
  "installPluginImpl cancelled pluginName paramsString d =
     (if cancelled then (say ''Operation cancelled'' False, d)
      else (case readActivePlugins d of
        None \<Rightarrow> (say ''Failed to read active plugins: '' False, d)
      | Some plugins \<Rightarrow>
          if pluginName \<in> set plugins then
            (say ''Plugin already installed'' True, snd (setPluginStatus pluginName ''install plugin request: Processed'' d))
          else (case (if paramsString = [] then (None, d) else write_params pluginName (Split '',,,,'' paramsString) d) of
            (Some early, d1) \<Rightarrow> (early, d1)
          | (None, d1) \<Rightarrow>
              (case writeActivePlugins (plugins @ [pluginName]) d1 of
                 (False, d2) \<Rightarrow> (say ''Failed to write active plugins: '' False, d2)
               | (True, d2) \<Rightarrow>
                   (say ''Plugin installed successfully'' True,
                    snd (setPluginStatus pluginName ''install plugin request: Processed'' d2))))))"

definition uninstallPluginImpl :: "bool \<Rightarrow> string \<Rightarrow> 'w device \<Rightarrow> json \<times> 'w device" where
  "uninstallPluginImpl cancelled pluginName d =
     (if cancelled then (say ''Operation cancelled'' False, d)
      else (case readActivePlugins d of
        None \<Rightarrow> (say ''Failed to read active plugins: '' False, d)
      | Some plugins \<Rightarrow>
          let newPlugins = filter (\<lambda>p. p \<noteq> pluginName) plugins in
          if pluginName \<notin> set plugins then (say ''Plugin not found'' False, d)
          else (case writeActivePlugins newPlugins d of
            (False, d1) \<Rightarrow> (say ''Failed to write active plugins: '' False, d1)
          | (True, d1) \<Rightarrow> (say ''Plugin uninstalled successfully'' True, d1))))"

definition updatePluginImpl :: "bool \<Rightarrow> string \<Rightarrow> 'w device \<Rightarrow> json \<times> 'w device" where
  "updatePluginImpl cancelled pluginName d =
     (if cancelled then (say ''Operation cancelled'' False, d)
      else (case readUpdatePlugins d of
        None \<Rightarrow> (say ''Failed to read update plugins: '' False, d)
      | Some plugins \<Rightarrow>
          if pluginName \<in> set plugins then (say ''Plugin already in update queue'' True, d)
          else (case writeUpdatePlugins (plugins @ [pluginName]) d of
            (False, d1) \<Rightarrow> (say ''Failed to write update plugins: '' False, d1)
          | (True, d1) \<Rightarrow> (say ''Plugin update queued successfully'' True, d1))))"

definition listActivePluginsImpl :: "bool \<Rightarrow> 'w device \<Rightarrow> json" where
  "listActivePluginsImpl cancelled d =
     (if cancelled then say ''Operation cancelled'' False
      else (case readActivePlugins d of
        None \<Rightarrow> say ''Failed to read active plugins: '' False
      | Some plugins \<Rightarrow>
          let pluginNames = filter (\<lambda>p. p \<noteq> []) plugins in
          plugin_reply (if pluginNames = [] then JNull else JArr (map JStr pluginNames)) True))"

text \<open>
  A \<^verbatim>\<open>map[string]string\<close> is marshalled in the order of its keys; \<open>put\<close> keeps an association list in that
  order.
\<close>

fun put :: "string \<Rightarrow> string \<Rightarrow> (string \<times> string) list \<Rightarrow> (string \<times> string) list" where
  "put k v [] = [(k, v)]"
| "put k v ((k', v') # kvs) =
     (if k = k' then (k, v) # kvs else if k < k' then (k, v) # (k', v') # kvs else (k', v') # put k v kvs)"

text \<open>
  \<^verbatim>\<open>getInstallOutputImpl\<close> reads one file per parameter name; \<^const>\<open>None\<close> is the early return. An error value
  marshals to the empty object.
\<close>

fun read_params :: "string \<Rightarrow> string list \<Rightarrow> 'w device \<Rightarrow> (string \<times> string) list \<Rightarrow> (string \<times> string) list option" where
  "read_params pluginName [] d out = Some out"
| "read_params pluginName (name # rest) d out =
     (case ReadAt (plugin_path pluginName name) d of
        Err NotExist \<Rightarrow> read_params pluginName rest d (put name [] out)
      | Ok f \<Rightarrow> read_params pluginName rest d (put name (TrimSpace (file_text f)) out)
      | _ \<Rightarrow> None)"

definition getInstallOutputImpl :: "bool \<Rightarrow> string \<Rightarrow> string \<Rightarrow> 'w device \<Rightarrow> json" where
  "getInstallOutputImpl cancelled pluginName paramsString d =
     (if cancelled then say ''Operation cancelled'' False
      else (case read_params pluginName (Split '',,,,'' paramsString) d [] of
        None \<Rightarrow> plugin_reply (JObj []) False
      | Some out \<Rightarrow> plugin_reply (JObj (map (\<lambda>(k, v). (k, JStr v)) out)) True))"

definition getInstallStatusImpl :: "bool \<Rightarrow> string \<Rightarrow> 'w device \<Rightarrow> json" where
  "getInstallStatusImpl cancelled pluginName d =
     (if cancelled then say ''Operation cancelled'' False
      else (case ReadAt (plugin_path pluginName ''status'') d of
        Err NotExist \<Rightarrow> say ''No Status'' True
      | Ok f \<Rightarrow> say (TrimSpace (file_text f)) True
      | _ \<Rightarrow> plugin_reply (JObj []) False))"

text \<open>The catalogue: the documents behind \<^verbatim>\<open>PluginInfo\<close>, whose last fields hold string maps.\<close>

definition PluginInfo :: gty where
  "PluginInfo = GStruct [(''name'', GStr, False), (''description'', GStr, False), (''version'', GStr, False),
     (''usage'', GStruct [(''storage'', GStr, False), (''compute'', GStr, False), (''bandwidth'', GStr, False),
        (''ram'', GStr, False), (''gpu'', GStr, False)], False),
     (''approved'', GBool, False)]"

fun decode_str_map :: "(string \<times> json) list \<Rightarrow> (string \<times> string) list \<Rightarrow> (string \<times> string) list option" where
  "decode_str_map [] acc = Some acc"
| "decode_str_map ((k, v) # kvs) acc =
     (case v of
        JStr s \<Rightarrow> decode_str_map kvs (put k s acc)
      | JNull \<Rightarrow> decode_str_map kvs (put k [] acc)
      | _ \<Rightarrow> None)"

fun decode_map_item :: "json \<Rightarrow> json option" where
  "decode_map_item JNull = Some JNull"
| "decode_map_item (JObj kvs) = map_option (\<lambda>m. JObj (map (\<lambda>(k, v). (k, JStr v)) m)) (decode_str_map kvs [])"
| "decode_map_item _ = None"

fun decode_maps :: "json \<Rightarrow> json \<Rightarrow> json option" where
  "decode_maps old JNull = Some JNull"
| "decode_maps old (JArr vs) = map_option JArr (those (map decode_map_item vs))"
| "decode_maps old _ = None"

definition decode_PluginInfo :: "bool \<Rightarrow> json \<Rightarrow> json option" where
  "decode_PluginInfo installed v =
     (case (decode_new PluginInfo v, field_fold decode_maps ''rewards'' JNull (entries v), field_fold decode_maps ''socials'' JNull (entries v)) of
        (Some p, Some r, Some s) \<Rightarrow>
          Some (JObj [(''name'', entry ''name'' p), (''description'', entry ''description'' p), (''version'', entry ''version'' p),
            (''usage'', entry ''usage'' p), (''rewards'', r), (''socials'', s), (''approved'', entry ''approved'' p),
            (''installed'', JBool installed)])
      | _ \<Rightarrow> None)"

definition plugins_url :: string where
  "plugins_url = ''https://raw.githubusercontent.com/functionland/fula-ota/refs/heads/main/docker/fxsupport/linux/plugins/''"

text \<open>\<^verbatim>\<open>http.Get\<close> followed by decoding the first document of the body.\<close>

definition http_Get_json :: "'w env \<Rightarrow> string \<Rightarrow> string \<Rightarrow> string \<Rightarrow> (json \<Rightarrow> json option) \<Rightarrow> 'w device \<Rightarrow> (string, json) outcome \<times> 'w device" where
  "http_Get_json env url fetchErr decodeErr conv d =
     (case send env \<lparr>hq_method = ''GET'', hq_url = url, hq_body = Raw []\<rparr> d of
        (NetErr, d1) \<Rightarrow> (Err fetchErr, d1)
      | (Reply st b, d1) \<Rightarrow> (or_err decodeErr (Option.bind (Option.bind b decode_first) conv), d1))"

fun plugin_details :: "'w env \<Rightarrow> string list \<Rightarrow> string list \<Rightarrow> 'w device \<Rightarrow> (string, json list) outcome \<times> 'w device" where
  "plugin_details env activePlugins [] d = (Ok [], d)"
| "plugin_details env activePlugins (n # ns) d =
     (case http_Get_json env (plugins_url @ n @ ''/info.json'') (''failed to fetch details for plugin '' @ n @ '': '')
             (''failed to decode details for plugin '' @ n @ '': '') (decode_PluginInfo (n \<in> set activePlugins)) d of
        (Ok p, d1) \<Rightarrow>
          (case plugin_details env activePlugins ns d1 of (r, d2) \<Rightarrow> (and_then r (\<lambda>ps. Ok (p # ps)), d2))
      | (Err e, d1) \<Rightarrow> (Err e, d1)
      | (Panic, d1) \<Rightarrow> (Panic, d1))"

definition listPluginsImpl :: "'w env \<Rightarrow> bool \<Rightarrow> 'w device \<Rightarrow> (string, json) outcome \<times> 'w device" where
  "listPluginsImpl env cancelled d =
     (if cancelled then (Ok (say ''Operation cancelled'' False), d)
      else (case http_Get_json env (plugins_url @ ''info.json'') ''failed to fetch plugin list: '' ''failed to decode plugin list: ''
                   (decode_new (GArr (GStruct [(''name'', GStr, False)]))) d of
        (Ok pluginList, d1) \<Rightarrow>
          (case readActivePlugins d1 of
             None \<Rightarrow> (Err ''failed to read active plugins: '', d1)
           | Some activePlugins \<Rightarrow>
               (case plugin_details env activePlugins (map (\<lambda>p. text_of (entry ''name'' p)) (elements pluginList)) d1 of
                  (r, d2) \<Rightarrow> (and_then r (\<lambda>ps. Ok (if ps = [] then JNull else JArr ps)), d2)))
      | (Err e, d1) \<Rightarrow> (Err e, d1)
      | (Panic, d1) \<Rightarrow> (Panic, d1)))"

text \<open>
  \<^verbatim>\<open>docker logs\<close> is an argument: its output for a container and a line count, or failure. A cancelled
  context stops the loop over its lines.
\<close>

definition ShowPluginStatus ::
  "(string \<Rightarrow> int option \<Rightarrow> 'w \<Rightarrow> string option \<times> 'w) \<Rightarrow> bool \<Rightarrow> string \<Rightarrow> int \<Rightarrow> 'w device \<Rightarrow> (string, json) outcome \<times> 'w device" where
  "ShowPluginStatus docker cancelled pluginName n d =
     (case docker pluginName (if 0 < n then Some n else None) (world d) of
        (None, w) \<Rightarrow> (Err (''failed to get logs for plugin '' @ pluginName @ '': ''), d\<lparr>world := w\<rparr>)
      | (Some out, w) \<Rightarrow>
          (if cancelled then Err ''context canceled''
           else Ok (JArr (map JStr (split_char newline (TrimSpace out)))), d\<lparr>world := w\<rparr>))"

section \<open>The handler\<close>

definition plugin_request :: gty where
  "plugin_request = GStruct [(''plugin_name'', GStr, True), (''lines'', GInt, True), (''params'', GStr, True)]"

text \<open>An empty body, or one of blanks only, is accepted as the zero request (\<^verbatim>\<open>io.EOF\<close> is ignored).\<close>

definition json_blank :: "char \<Rightarrow> bool" where
  "json_blank c \<longleftrightarrow> c \<in> {CHR 0x20, CHR 0x09, CHR 0x0A, CHR 0x0D}"

definition read_plugin_request :: "body \<Rightarrow> json option" where
  "read_plugin_request b =
     (case b of
        Raw s \<Rightarrow> if list_all json_blank s then Some (zero_val plugin_request) else None
      | _ \<Rightarrow> Option.bind (decode_first b) (decode_new plugin_request))"

definition handlePluginAction ::
  "'w env \<Rightarrow> (string \<Rightarrow> int option \<Rightarrow> 'w \<Rightarrow> string option \<times> 'w) \<Rightarrow> bool \<Rightarrow> string \<Rightarrow> body \<Rightarrow> 'w device \<Rightarrow> http_resp option \<times> 'w device" where
  "handlePluginAction env docker cancelled action rbody d =
     (case read_plugin_request rbody of
        None \<Rightarrow> (Some (http_Error StatusBadRequest ''Invalid request body: ''), d)
      | Some req \<Rightarrow>
          let name = text_of (entry ''plugin_name'' req); params = text_of (entry ''params'' req) in
          if name = [] \<and> action \<noteq> ''list-plugins'' \<and> action \<noteq> ''list-active-plugins'' then
            (Some (http_Error StatusBadRequest ''Plugin name is required''), d)
          else
            let pure = (\<lambda>j. Some (Ok j, d)); state = (\<lambda>(j, e). Some (Ok j, e)) in
            (case (if action = ''list-plugins'' then Some (listPluginsImpl env cancelled d)
                   else if action = ''list-active-plugins'' then pure (listActivePluginsImpl cancelled d)
                   else if action = ''install-plugin'' then state (installPluginImpl cancelled name params d)
                   else if action = ''uninstall-plugin'' then state (uninstallPluginImpl cancelled name d)
                   else if action = ''show-plugin-status'' then
                     Some (ShowPluginStatus docker cancelled name (int_of (entry ''lines'' req)) d)
                   else if action = ''get-install-output'' then pure (getInstallOutputImpl cancelled name params d)
                   else if action = ''get-install-status'' then pure (getInstallStatusImpl cancelled name d)
                   else if action = ''update-plugin'' then state (updatePluginImpl cancelled name d)
                   else None) of
               None \<Rightarrow> (Some (http_Error StatusBadRequest ''Invalid action''), d)
             | Some (Ok j, e) \<Rightarrow> (Some \<lparr>rs_status = StatusOK, rs_body = Doc j\<rparr>, e)
             | Some (Err m, e) \<Rightarrow> (Some (http_Error StatusInternalServerError m), e)
             | Some (Panic, e) \<Rightarrow> (None, e)))"


section \<open>What the name files keep\<close>

text \<open>
  Lines of a name file: no newline inside, no white space at the ends. Empty lines occur: removing the
  last plugin leaves an empty file, which is read back as one empty line.
\<close>

definition line_ok :: "string \<Rightarrow> bool" where
  "line_ok p \<longleftrightarrow> newline \<notin> set p \<and> TrimSpace p = p"

lemma newline_space [simp]: "is_space newline"
  by (simp add: is_space_def newline_def)

lemma line_ok_ends: "line_ok p \<Longrightarrow> p \<noteq> [] \<Longrightarrow> \<not> is_space (hd p) \<and> \<not> is_space (last p)"
  using TrimSpace_ends [of p] by (auto simp: line_ok_def)

lemma drop_join_aux:
  assumes "\<forall>p \<in> set ps. p \<noteq> [] \<longrightarrow> \<not> is_space (hd p)"
  shows "dropWhile is_space (join_char newline ps) = join_char newline (dropWhile (\<lambda>p. p = []) ps)"
  using assms
proof (induction newline ps rule: join_char.induct)
  case (2 w)
  then show ?case by (cases w) auto
next
  case (3 w v ws)
  then show ?case by (cases w) auto
qed simp

lemma join_char_snoc: "ps \<noteq> [] \<Longrightarrow> join_char sep (ps @ [p]) = join_char sep ps @ sep # p"
  by (induction sep ps rule: join_char.induct) auto

lemma rev_join: "rev (join_char sep ps) = join_char sep (rev (map rev ps))"
proof (induction sep ps rule: join_char.induct)
  case (3 sep w v ws)
  then show ?case using join_char_snoc [of "rev (map rev ws) @ [rev v]" sep "rev w"] by simp
qed simp_all

definition strip :: "string list \<Rightarrow> string list" where
  "strip ps = rev (dropWhile (\<lambda>p. p = []) (rev (dropWhile (\<lambda>p. p = []) ps)))"

lemma dropWhile_map_rev: "dropWhile (\<lambda>p. p = []) (map rev ps) = map rev (dropWhile (\<lambda>p. p = []) ps)"
  by (induction ps) auto

lemma TrimSpace_join:
  assumes "\<forall>p \<in> set ps. line_ok p"
  shows "TrimSpace (join_char newline ps) = join_char newline (strip ps)"
proof -
  let ?qs = "dropWhile (\<lambda>p. p = []) ps"
  have h: "dropWhile is_space (join_char newline ps) = join_char newline ?qs"
    using assms line_ok_ends by (intro drop_join_aux) blast
  have "\<forall>p \<in> set (rev (map rev ?qs)). p \<noteq> [] \<longrightarrow> \<not> is_space (hd p)"
    using assms by (auto simp: hd_rev dest!: set_dropWhileD line_ok_ends)
  then have "dropWhile is_space (rev (join_char newline ?qs)) = join_char newline (map rev (dropWhile (\<lambda>p. p = []) (rev ?qs)))"
    by (simp add: rev_join drop_join_aux rev_map dropWhile_map_rev del: rev_map [symmetric])
  then show ?thesis by (simp add: TrimSpace_def h strip_def rev_join rev_map)
qed

lemma filter_dropWhile_Nil: "filter (\<lambda>p. p \<noteq> []) (dropWhile (\<lambda>p. p = []) ps) = filter (\<lambda>p. p \<noteq> []) ps"
  by (induction ps) auto

lemma filter_strip: "filter (\<lambda>p. p \<noteq> []) (strip ps) = filter (\<lambda>p. p \<noteq> []) ps"
  by (simp add: strip_def rev_filter [symmetric] filter_dropWhile_Nil)

lemma set_strip: "set (strip ps) \<subseteq> set ps"
  by (auto simp: strip_def dest!: set_dropWhileD)

text \<open>Reading back a written list gives the same lines, up to empty ones.\<close>

lemma lines_roundtrip:
  assumes "\<forall>p \<in> set ps. line_ok p"
  shows "filter (\<lambda>p. p \<noteq> []) (split_char newline (TrimSpace (join_char newline ps))) = filter (\<lambda>p. p \<noteq> []) ps"
    and "\<forall>p \<in> set (split_char newline (TrimSpace (join_char newline ps))). line_ok p"
proof -
  let ?qs = "split_char newline (TrimSpace (join_char newline ps))"
  have "?qs = (if strip ps = [] then [[]] else strip ps)"
    using assms set_strip [of ps] split_join [of "strip ps" newline]
    by (auto simp: TrimSpace_join line_ok_def)
  moreover have "line_ok []" by (simp add: line_ok_def TrimSpace_def)
  ultimately show "filter (\<lambda>p. p \<noteq> []) ?qs = filter (\<lambda>p. p \<noteq> []) ps" "\<forall>p \<in> set ?qs. line_ok p"
    using filter_strip [of ps] set_strip [of ps] assms by auto
qed

text \<open>The contract of a name file: what a read gives after a write, and what a write leaves alone.\<close>

locale name_file =
  fixes readN :: "'w device \<Rightarrow> string list option"
    and writeN :: "string list \<Rightarrow> 'w device \<Rightarrow> bool \<times> 'w device"
    and store :: string
  assumes read_written: "writeN ps d = (True, e) \<Longrightarrow> \<not> unreadable d store \<Longrightarrow>
      readN e = Some (split_char newline (TrimSpace (join_char newline ps)))"
    and read_depends: "files e store = files d store \<Longrightarrow> unreadable e = unreadable d \<Longrightarrow> readN e = readN d"
    and read_readable: "readN d = Some ps \<Longrightarrow> \<not> unreadable d store"
    and write_failed: "writeN ps d = (False, e) \<Longrightarrow> e = d"
    and write_frame: "writeN ps d = (ok, e) \<Longrightarrow>
      (\<forall>q. q \<noteq> store \<longrightarrow> files e q = files d q) \<and> unreadable e = unreadable d \<and> unwritable e = unwritable d"

text \<open>The names in a file, and the state in which every line of it can be read back.\<close>

definition listed :: "('w device \<Rightarrow> string list option) \<Rightarrow> 'w device \<Rightarrow> string list" where
  "listed readN d = (case readN d of None \<Rightarrow> [] | Some ps \<Rightarrow> filter (\<lambda>p. p \<noteq> []) ps)"

definition lines_ok :: "('w device \<Rightarrow> string list option) \<Rightarrow> 'w device \<Rightarrow> bool" where
  "lines_ok readN d \<longleftrightarrow> (case readN d of None \<Rightarrow> False | Some ps \<Rightarrow> (\<forall>p \<in> set ps. line_ok p)) \<and> distinct (listed readN d)"

context name_file
begin

lemma add_line:
  assumes "readN d = Some ps" and "lines_ok readN d" and "line_ok p" and "p \<noteq> []" and "p \<notin> set ps"
    and "files d' store = files d store" and "unreadable d' = unreadable d" and "writeN (ps @ [p]) d' = (True, e)"
  shows "lines_ok readN e \<and> listed readN e = listed readN d @ [p]"
proof -
  have "\<not> unreadable d' store" using read_readable [OF assms(1)] assms(7) by simp
  note r = read_written [OF assms(8) this]
  have l: "\<forall>q \<in> set (ps @ [p]). line_ok q" using assms(1-3) by (auto simp: lines_ok_def)
  then show ?thesis using r lines_roundtrip [OF l] assms(1,2,4,5) by (auto simp: lines_ok_def listed_def)
qed

lemma remove_line:
  assumes "readN d = Some ps" and "lines_ok readN d" and "writeN (filter (\<lambda>q. q \<noteq> p) ps) d = (True, e)"
  shows "lines_ok readN e \<and> listed readN e = filter (\<lambda>q. q \<noteq> p) (listed readN d)"
proof -
  note r = read_written [OF assms(3) read_readable [OF assms(1)]]
  have l: "\<forall>q \<in> set (filter (\<lambda>q. q \<noteq> p) ps). line_ok q" using assms(1,2) by (auto simp: lines_ok_def)
  have d: "distinct (filter (\<lambda>q. q \<noteq> p) (filter (\<lambda>q. q \<noteq> []) ps))"
    by (rule distinct_filter) (use assms(1,2) in \<open>simp add: lines_ok_def listed_def\<close>)
  have f: "filter (\<lambda>q. q \<noteq> []) (filter (\<lambda>q. q \<noteq> p) ps) = filter (\<lambda>q. q \<noteq> p) (filter (\<lambda>q. q \<noteq> []) ps)"
    by (induction ps) auto
  show ?thesis using r lines_roundtrip [OF l, unfolded f] d assms(1) by (simp add: lines_ok_def listed_def)
qed

lemma untouched:
  "files e store = files d store \<Longrightarrow> unreadable e = unreadable d \<Longrightarrow>
     listed readN e = listed readN d \<and> lines_ok readN e = lines_ok readN d"
  by (simp add: listed_def lines_ok_def read_depends [of e d])

lemma mem_listed: "readN d = Some ps \<Longrightarrow> p \<noteq> [] \<Longrightarrow> p \<in> set ps \<longleftrightarrow> p \<in> set (listed readN d)"
  by (auto simp: listed_def)

end

lemma resolve_name_files [simp]:
  "resolve activePluginsFile = activePluginsFile" "resolve updatePluginsFile = updatePluginsFile"
  by (simp_all add: resolve_def activePluginsFile_def updatePluginsFile_def pluginInternalDir_def)

interpretation active: name_file readActivePlugins writeActivePlugins activePluginsFile
  by unfold_locales
    (auto simp: readActivePlugins_def writeActivePlugins_def ReadAt_def WriteAt_def split: if_splits option.splits)

interpretation update: name_file readUpdatePlugins writeUpdatePlugins updatePluginsFile
  by unfold_locales
    (auto simp: readUpdatePlugins_def writeUpdatePlugins_def ReadAt_def WriteAt_def split: if_splits option.splits)


section \<open>Where the files of a plugin are\<close>

definition safe_name :: "string \<Rightarrow> bool" where
  "safe_name n \<longleftrightarrow> n \<notin> {[], ''.'', ''..''} \<and> CHR ''/'' \<notin> set n"

definition plugin_file :: "string \<Rightarrow> string \<Rightarrow> string" where
  "plugin_file pluginName n = pluginInternalDir @ ''/'' @ pluginName @ ''/'' @ n @ ''.txt''"

lemma resolve_plugin_path:
  assumes "safe_name pluginName" and "CHR ''/'' \<notin> set n"
  shows "resolve (plugin_path pluginName n) = plugin_file pluginName n"
proof -
  have "split_char (CHR ''/'') (n @ ''.txt'') = [n @ ''.txt'']" using assms(2) by (intro split_char_no_sep) auto
  moreover have "n @ ''.txt'' \<notin> {[], ''.'', ''..''}" by (cases n) auto
  ultimately show ?thesis
    using assms split_char_append [of "CHR ''/''" pluginName "n @ ''.txt''"]
    by (simp add: resolve_def plugin_path_def plugin_file_def pluginInternalDir_def safe_name_def)
qed

lemma plugin_file_not_list:
  assumes "safe_name pluginName"
  shows "plugin_file pluginName n \<noteq> activePluginsFile" "plugin_file pluginName n \<noteq> updatePluginsFile"
proof -
  have neq: "pluginName @ CHR ''/'' # n @ ''.txt'' \<noteq> s" if "CHR ''/'' \<notin> set s" for s
    using that by (metis in_set_conv_decomp)
  show "plugin_file pluginName n \<noteq> activePluginsFile" "plugin_file pluginName n \<noteq> updatePluginsFile"
    using neq [of "''active-plugins.txt''"] neq [of "''update-plugins.txt''"]
    by (simp_all add: plugin_file_def activePluginsFile_def updatePluginsFile_def)
qed

text \<open>Only files of the plugin change.\<close>

definition only_plugin :: "string \<Rightarrow> 'w device \<Rightarrow> 'w device \<Rightarrow> bool" where
  "only_plugin pluginName d e \<longleftrightarrow>
     (\<forall>q. (\<forall>n. CHR ''/'' \<notin> set n \<longrightarrow> q \<noteq> plugin_file pluginName n) \<longrightarrow> files e q = files d q) \<and>
     unreadable e = unreadable d \<and> unwritable e = unwritable d"

lemma only_plugin_refl [simp]: "only_plugin p d d"
  by (simp add: only_plugin_def)

lemma only_plugin_trans: "only_plugin p d e \<Longrightarrow> only_plugin p e f \<Longrightarrow> only_plugin p d f"
  by (auto simp: only_plugin_def)

lemma only_plugin_lists:
  "only_plugin p d e \<Longrightarrow> safe_name p \<Longrightarrow>
     files e activePluginsFile = files d activePluginsFile \<and> files e updatePluginsFile = files d updatePluginsFile"
  using plugin_file_not_list [of p] by (simp add: only_plugin_def) metis

lemma WriteAt_only_plugin:
  "WriteAt (plugin_path p n) s d = (ok, e) \<Longrightarrow> safe_name p \<Longrightarrow> CHR ''/'' \<notin> set n \<Longrightarrow> only_plugin p d e"
  by (auto simp: WriteAt_def only_plugin_def resolve_plugin_path split: if_splits)

lemma setPluginStatus_only_plugin:
  "safe_name p \<Longrightarrow> only_plugin p d (snd (setPluginStatus p st d))"
  using WriteAt_only_plugin [of p "''status''" "TrimSpace st" d]
  by (auto simp: setPluginStatus_def Let_def intro: surjective_pairing)

definition params_ok :: "string \<Rightarrow> bool" where
  "params_ok params \<longleftrightarrow> (\<forall>p \<in> set (Split '',,,,'' params). CHR ''/'' \<notin> set (hd (SplitN2 ''===='' p)))"

lemma set_TrimSpace: "set (TrimSpace s) \<subseteq> set s"
  by (auto simp: TrimSpace_def dest!: set_dropWhileD)

lemma write_params_only_plugin:
  "write_params p ps d = (r, e) \<Longrightarrow> safe_name p \<Longrightarrow> \<forall>q \<in> set ps. CHR ''/'' \<notin> set (hd (SplitN2 ''===='' q)) \<Longrightarrow>
     only_plugin p d e"
proof (induction p ps d rule: write_params.induct)
  case (2 p q ps d)
  show ?case
  proof (cases "\<exists>n v d1. SplitN2 ''===='' q = [n, v] \<and> MkdirAll (plugin_dir p) d \<and>
      WriteAt (plugin_path p (TrimSpace n)) (TrimSpace v) d = (True, d1)")
    case True
    then obtain n v d1 where n: "SplitN2 ''===='' q = [n, v]" "MkdirAll (plugin_dir p) d"
      "WriteAt (plugin_path p (TrimSpace n)) (TrimSpace v) d = (True, d1)" by blast
    have "only_plugin p d d1"
      using 2(3,4) n(1) set_TrimSpace [of n] by (intro WriteAt_only_plugin [OF n(3)]) auto
    moreover have "only_plugin p d1 e" using 2 n by auto
    ultimately show ?thesis by (rule only_plugin_trans)
  next
    case False
    with 2(2) have "e = d"
      by (auto simp: WriteAt_def SplitN2_def split: list.splits if_splits option.splits prod.splits bool.splits)
    then show ?thesis by simp
  qed
qed simp

section \<open>The two lists as an abstract data type\<close>

datatype plugin_op = Install string string | Uninstall string | Update string

fun run_plugin_op :: "bool \<Rightarrow> plugin_op \<Rightarrow> 'w device \<Rightarrow> json \<times> 'w device" where
  "run_plugin_op c (Install n ps) d = installPluginImpl c n ps d"
| "run_plugin_op c (Uninstall n) d = uninstallPluginImpl c n d"
| "run_plugin_op c (Update n) d = updatePluginImpl c n d"

text \<open>The active list and the update queue, each without duplicates, in the order of arrival.\<close>

fun plugin_spec :: "plugin_op \<Rightarrow> string list \<times> string list \<Rightarrow> string list \<times> string list" where
  "plugin_spec (Install n ps) (a, u) = (if n \<in> set a then a else a @ [n], u)"
| "plugin_spec (Uninstall n) (a, u) = (filter (\<lambda>p. p \<noteq> n) a, u)"
| "plugin_spec (Update n) (a, u) = (a, if n \<in> set u then u else u @ [n])"

definition plugin_lists :: "'w device \<Rightarrow> string list \<times> string list" where
  "plugin_lists d = (listed readActivePlugins d, listed readUpdatePlugins d)"

definition plugin_inv :: "'w device \<Rightarrow> bool" where
  "plugin_inv d \<longleftrightarrow> lines_ok readActivePlugins d \<and> lines_ok readUpdatePlugins d"

fun op_ok :: "plugin_op \<Rightarrow> bool" where
  "op_ok (Install n ps) = (line_ok n \<and> safe_name n \<and> params_ok ps)"
| "op_ok (Uninstall n) = (line_ok n \<and> n \<noteq> [])"
| "op_ok (Update n) = (line_ok n \<and> n \<noteq> [])"

definition succeeded :: "json \<Rightarrow> bool" where
  "succeeded r \<longleftrightarrow> entry ''status'' r = JBool True"

lemma succeeded_reply [simp]: "succeeded (plugin_reply m b) \<longleftrightarrow> b"
  by (simp add: succeeded_def plugin_reply_def entry_def)

lemma write_params_reply: "write_params p ps d = (Some r, e) \<Longrightarrow> \<not> succeeded r"
  by (induction p ps d rule: write_params.induct)
    (auto split: list.splits if_splits prod.splits bool.splits)

lemma lists_untouched:
  fixes d e :: "'w device"
  assumes "files e activePluginsFile = files d activePluginsFile" "files e updatePluginsFile = files d updatePluginsFile"
    "unreadable e = unreadable d"
  shows "plugin_lists e = plugin_lists d" "plugin_inv e = plugin_inv d"
  using assms active.untouched [of e d] update.untouched [of e d] by (simp_all add: plugin_lists_def plugin_inv_def)

lemma only_plugin_untouched:
  "only_plugin p d e \<Longrightarrow> safe_name p \<Longrightarrow> plugin_lists e = plugin_lists d \<and> plugin_inv e = plugin_inv d"
  using only_plugin_lists [of p d e] lists_untouched [of e d] by (auto simp: only_plugin_def)

lemma list_files_differ [simp]: "activePluginsFile \<noteq> updatePluginsFile" "updatePluginsFile \<noteq> activePluginsFile"
  by (simp_all add: activePluginsFile_def updatePluginsFile_def)

lemma install_refines:
  assumes h: "installPluginImpl c n ps d = (r, e)" and i: "plugin_inv d" and o: "op_ok (Install n ps)"
  shows "plugin_inv e \<and> plugin_lists e = (if succeeded r then plugin_spec (Install n ps) (plugin_lists d) else plugin_lists d)"
proof -
  have n: "safe_name n" "line_ok n" "n \<noteq> []" using o by (auto simp: safe_name_def)
  obtain qs where qs: "readActivePlugins d = Some qs" using i by (auto simp: plugin_inv_def lines_ok_def split: option.splits)
  obtain x d1 where w: "(if ps = [] then (None, d) else write_params n (Split '',,,,'' ps) d) = (x, d1)" by fastforce
  have "only_plugin n d d1" using w o n(1) by (auto simp: params_ok_def dest: write_params_only_plugin split: if_splits)
  note u1 = only_plugin_untouched [OF this n(1)] and f1 = only_plugin_lists [OF this n(1)] and o1 = this
  obtain ok d2 where wr: "writeActivePlugins (qs @ [n]) d1 = (ok, d2)" by fastforce
  note st = only_plugin_untouched [OF setPluginStatus_only_plugin [OF n(1)] n(1)]
  consider "c" | "\<not> c" "n \<in> set qs" | "\<not> c" "n \<notin> set qs" "x \<noteq> None" | "\<not> c" "n \<notin> set qs" "x = None" "\<not> ok" | "\<not> c" "n \<notin> set qs" "x = None" "ok"
    by blast
  then show ?thesis
  proof cases
    case 1
    with h i show ?thesis by (auto simp: installPluginImpl_def)
  next
    case 2
    then have "n \<in> set (listed readActivePlugins d)" using active.mem_listed [OF qs n(3)] by simp
    with 2 h i qs st show ?thesis by (auto simp: installPluginImpl_def plugin_lists_def)
  next
    case 3
    then obtain r' where "x = Some r'" by blast
    with 3 h i qs w u1 write_params_reply [of n "Split '',,,,'' ps" d r' d1] show ?thesis
      by (auto simp: installPluginImpl_def split: if_splits)
  next
    case 4
    then have "d2 = d1" using active.write_failed wr by simp
    with 4 h i qs w wr u1 show ?thesis by (auto simp: installPluginImpl_def split: if_splits)
  next
    case 5
    have up: "files d2 updatePluginsFile = files d updatePluginsFile" "unreadable d2 = unreadable d"
      using active.write_frame [OF wr] f1 o1 by (auto simp: only_plugin_def)
    have "lines_ok readActivePlugins d2 \<and> listed readActivePlugins d2 = listed readActivePlugins d @ [n]"
      using 5 wr i n f1 o1 by (intro active.add_line [OF qs]) (auto simp: plugin_inv_def only_plugin_def)
    moreover have "n \<notin> set (listed readActivePlugins d)" using active.mem_listed [OF qs n(3)] 5 by simp
    moreover have "e = snd (setPluginStatus n ''install plugin request: Processed'' d2)" "succeeded r"
      using 5 h qs w wr by (auto simp: installPluginImpl_def split: if_splits)
    ultimately show ?thesis using st update.untouched [OF up] i by (auto simp: plugin_lists_def plugin_inv_def)
  qed
qed

lemma uninstall_refines:
  assumes h: "uninstallPluginImpl c n d = (r, e)" and i: "plugin_inv d"
  shows "plugin_inv e \<and> plugin_lists e = (if succeeded r then plugin_spec (Uninstall n) (plugin_lists d) else plugin_lists d)"
proof -
  obtain qs where qs: "readActivePlugins d = Some qs" using i by (auto simp: plugin_inv_def lines_ok_def split: option.splits)
  obtain ok d1 where wr: "writeActivePlugins (filter (\<lambda>p. p \<noteq> n) qs) d = (ok, d1)" by fastforce
  show ?thesis
  proof (cases "\<not> c \<and> n \<in> set qs \<and> ok")
    case True
    then have e: "e = d1" "succeeded r" using h qs wr by (auto simp: uninstallPluginImpl_def)
    have up: "files d1 updatePluginsFile = files d updatePluginsFile" "unreadable d1 = unreadable d"
      using active.write_frame [OF wr] by auto
    have "lines_ok readActivePlugins d1 \<and> listed readActivePlugins d1 = filter (\<lambda>p. p \<noteq> n) (listed readActivePlugins d)"
      using True wr i by (intro active.remove_line [OF qs]) (auto simp: plugin_inv_def)
    with e update.untouched [OF up] i show ?thesis by (auto simp: plugin_lists_def plugin_inv_def)
  next
    case False
    with h qs wr i active.write_failed [of _ d d1] show ?thesis by (auto simp: uninstallPluginImpl_def split: if_splits bool.splits)
  qed
qed

lemma update_refines:
  assumes h: "updatePluginImpl c n d = (r, e)" and i: "plugin_inv d" and n: "line_ok n" "n \<noteq> []"
  shows "plugin_inv e \<and> plugin_lists e = (if succeeded r then plugin_spec (Update n) (plugin_lists d) else plugin_lists d)"
proof -
  obtain qs where qs: "readUpdatePlugins d = Some qs" using i by (auto simp: plugin_inv_def lines_ok_def split: option.splits)
  obtain ok d1 where wr: "writeUpdatePlugins (qs @ [n]) d = (ok, d1)" by fastforce
  note mem = update.mem_listed [OF qs n(2)]
  show ?thesis
  proof (cases "\<not> c \<and> n \<notin> set qs \<and> ok")
    case True
    then have e: "e = d1" "succeeded r" using h qs wr by (auto simp: updatePluginImpl_def)
    have up: "files d1 activePluginsFile = files d activePluginsFile" "unreadable d1 = unreadable d"
      using update.write_frame [OF wr] by auto
    have "lines_ok readUpdatePlugins d1 \<and> listed readUpdatePlugins d1 = listed readUpdatePlugins d @ [n]"
      using True wr i n by (intro update.add_line [OF qs]) (auto simp: plugin_inv_def)
    with e True mem active.untouched [OF up] i show ?thesis by (auto simp: plugin_lists_def plugin_inv_def)
  next
    case False
    with h qs wr i mem update.write_failed [of _ d d1] show ?thesis
      by (auto simp: updatePluginImpl_def plugin_lists_def split: if_splits bool.splits)
  qed
qed

lemma op_refines:
  "run_plugin_op c op d = (r, e) \<Longrightarrow> plugin_inv d \<Longrightarrow> op_ok op \<Longrightarrow>
     plugin_inv e \<and> plugin_lists e = (if succeeded r then plugin_spec op (plugin_lists d) else plugin_lists d)"
  by (cases op) (auto simp del: plugin_spec.simps dest: install_refines uninstall_refines update_refines)

text \<open>A run of operations and its log: which were reported successful.\<close>

fun run_plugin_ops :: "(bool \<times> plugin_op) list \<Rightarrow> 'w device \<Rightarrow> (plugin_op \<times> bool) list \<times> 'w device" where
  "run_plugin_ops [] d = ([], d)"
| "run_plugin_ops ((c, op) # ops) d =
     (case run_plugin_op c op d of
        (r, d1) \<Rightarrow> case run_plugin_ops ops d1 of (log, e) \<Rightarrow> ((op, succeeded r) # log, e))"

text \<open>
  C11. The plugin files implement two duplicate-free lists: after any sequence of installs, uninstalls
  and update requests, interrupted or failing ones included, the active plugins and the update queue
  read back from the files are what the operations reported as successful make of the initial lists,
  and the files stay well formed. (Plugin names are single path components without white space at the
  ends; parameter names hold no slash.)
\<close>

theorem plugin_lists_refine:
  assumes "run_plugin_ops ops d = (log, e)" and "plugin_inv d" and "\<forall>(c, op) \<in> set ops. op_ok op"
  shows "plugin_inv e \<and> plugin_lists e = fold plugin_spec (map fst (filter snd log)) (plugin_lists d)"
  using assms
proof (induction ops d arbitrary: log rule: run_plugin_ops.induct)
  case (2 c op ops d)
  obtain r d1 where r: "run_plugin_op c op d = (r, d1)" by fastforce
  obtain log' where l: "run_plugin_ops ops d1 = (log', e)" "log = (op, succeeded r) # log'"
    using 2(2) r by (auto split: prod.splits)
  have "plugin_inv d1" "plugin_lists d1 = (if succeeded r then plugin_spec op (plugin_lists d) else plugin_lists d)"
    using op_refines [OF r] 2(3,4) by auto
  moreover have "plugin_inv e \<and> plugin_lists e = fold plugin_spec (map fst (filter snd log')) (plugin_lists d1)"
    using 2 r l(1) calculation(1) by auto
  ultimately show ?case using l(2) by simp
qed simp

section \<open>Names that leave the plugin directory\<close>

text \<open>
  Parameter names are not confined to the plugin's directory: the "plugin" \<^verbatim>\<open>..\<close> with the parameter
  \<^verbatim>\<open>.secrets/secret_seed\<close> is the device's secret seed file, which only \<^verbatim>\<open>LoadKey\<close> is meant to read.
\<close>

lemma install_output_discloses_seed:
  assumes "secretsDir opts = ''/internal/.secrets''" and "LoadKey opts d = Ok seed"
    and "\<not> unreadable d (plugin_path ''..'' ''.secrets/secret_seed'')"
  shows "getInstallOutputImpl False ''..'' ''.secrets/secret_seed'' d =
     plugin_reply (JObj [(''.secrets/secret_seed'', JStr seed)]) True"
proof -
  have r: "resolve (plugin_path ''..'' ''.secrets/secret_seed'') = seed_path opts"
    by (simp add: assms(1) resolve_def plugin_path_def pluginInternalDir_def seed_path_def)
  have "\<exists>f. files d (seed_path opts) = Some f \<and> seed = TrimSpace (file_text f)"
    using assms(2) by (auto simp: LoadKey_def ReadFile_def outcome_simps split: if_splits option.splits)
  then show ?thesis
    using assms(3) r by (auto simp: getInstallOutputImpl_def ReadAt_def Split.simps)
qed

text \<open>
  Plugin parameters may leave the plugin's directory: installing any plugin with a parameter named
  \<^verbatim>\<open>../../.secrets/secret_seed\<close> replaces the device's seed by the parameter's value.
\<close>

lemma install_overwrites_seed:
  assumes "secretsDir opts = ''/internal/.secrets''" and "readActivePlugins d = Some []"
    and "\<forall>p. \<not> unwritable d p" and "\<not> unreadable d (seed_path opts)"
  shows "\<exists>e. installPluginImpl False ''x'' ''../../.secrets/secret_seed====evil'' d =
       (say ''Plugin installed successfully'' True, e) \<and> LoadKey opts e = Ok ''evil''"
proof -
  have r: "resolve (plugin_path ''x'' ''../../.secrets/secret_seed'') = seed_path opts"
    by (simp add: assms(1) resolve_def plugin_path_def pluginInternalDir_def seed_path_def)
  have n: "seed_path opts \<noteq> activePluginsFile" "resolve (plugin_path ''x'' ''status'') \<noteq> seed_path opts"
    by (simp_all add: assms(1) seed_path_def activePluginsFile_def pluginInternalDir_def resolve_def plugin_path_def)
  have t: "TrimSpace ''../../.secrets/secret_seed'' = ''../../.secrets/secret_seed''" "TrimSpace ''evil'' = ''evil''"
    by (simp_all add: TrimSpace_id is_space_def)
  show ?thesis
    using assms n
    by (simp add: installPluginImpl_def Split.simps SplitN2_def t MkdirAll_def WriteAt_def r writeActivePlugins_def
        setPluginStatus_def Let_def LoadKey_def ReadFile_def)
qed

subsection \<open>Concrete runs\<close>

abbreviation plugin_ops :: "(bool \<times> plugin_op) list" where
  "plugin_ops \<equiv> [(False, Install ''a'' []), (True, Install ''b'' []), (False, Update ''a''), (False, Uninstall ''b''), (False, Install ''c'' ''k====v'')]"

lemma plugin_ops_log:
  "fst (run_plugin_ops plugin_ops (sample_device (0 :: int))) =
     [(Install ''a'' [], True), (Install ''b'' [], False), (Update ''a'', True), (Uninstall ''b'', False), (Install ''c'' ''k====v'', True)]"
proof -
  have t: "TrimSpace ''a'' = ''a''" "TrimSpace ''k'' = ''k''" "TrimSpace ''v'' = ''v''" by (simp_all add: TrimSpace_def is_space_def)
  have r: "resolve (plugin_path ''a'' ''status'') = plugin_file ''a'' ''status''" "resolve (plugin_path ''c'' ''status'') = plugin_file ''c'' ''status''"
    "resolve (plugin_path ''c'' ''k'') = plugin_file ''c'' ''k''"
    by (simp_all add: resolve_plugin_path safe_name_def)
  have n: "plugin_file p q \<noteq> activePluginsFile" "plugin_file p q \<noteq> updatePluginsFile" if "p \<in> {''a'', ''c''}" for p q
    using that by (auto simp: plugin_file_not_list safe_name_def)
  show ?thesis
    by (simp add: installPluginImpl_def uninstallPluginImpl_def updatePluginImpl_def readActivePlugins_def readUpdatePlugins_def
        ReadAt_def WriteAt_def writeActivePlugins_def writeUpdatePlugins_def setPluginStatus_def MkdirAll_def Let_def sample_device_def
        t r n n [symmetric] Split.simps SplitN2_def split_char_no_sep newline_def)
qed

theorem plugin_lists_refine_witness:
  "plugin_lists (snd (run_plugin_ops plugin_ops (sample_device (0 :: int)))) = ([''a'', ''c''], [''a''])"
proof -
  obtain log e where r: "run_plugin_ops plugin_ops (sample_device (0 :: int)) = (log, e)" by fastforce
  then have log: "log = [(Install ''a'' [], True), (Install ''b'' [], False), (Update ''a'', True), (Uninstall ''b'', False), (Install ''c'' ''k====v'', True)]"
    using plugin_ops_log by simp
  have l: "line_ok ''a''" "line_ok ''b''" "line_ok ''c''" by (simp_all add: line_ok_def TrimSpace_def is_space_def newline_def)
  have i: "plugin_lists (sample_device (0 :: int)) = ([], [])" "plugin_inv (sample_device (0 :: int))"
    by (simp_all add: plugin_lists_def plugin_inv_def lines_ok_def listed_def readActivePlugins_def readUpdatePlugins_def
        ReadAt_def sample_device_def)
  have "\<forall>(c, op) \<in> set plugin_ops. op_ok op"
    using l by (simp add: safe_name_def params_ok_def Split.simps SplitN2_def)
  from plugin_lists_refine [OF r i(2) this] r show ?thesis by (simp add: log i(1))
qed

definition seeded_device :: "int device" where
  "seeded_device = (sample_device 0)\<lparr>files := [seed_path sample_opts \<mapsto> Text ''s3cret'']\<rparr>"

theorem install_overwrites_seed_witness:
  "\<exists>e. installPluginImpl False ''x'' ''../../.secrets/secret_seed====evil'' seeded_device =
       (say ''Plugin installed successfully'' True, e) \<and> LoadKey sample_opts e = Ok ''evil''"
  by (rule install_overwrites_seed)
    (simp_all add: sample_opts_def seeded_device_def sample_device_def readActivePlugins_def ReadAt_def seed_path_def
      activePluginsFile_def pluginInternalDir_def resolve_def)

end
