(* ===== verification/DeviceActions.thy ===== *)
theory DeviceActions
  imports Plugins
begin

text \<open>
  The requests a device answers from its own state: auto-pin pairing (\<^verbatim>\<open>blockchain/bl_autopin.go\<close> over the
  properties file of \<^verbatim>\<open>wap/pkg/config/properties.go\<close>), the NAS credentials (\<^verbatim>\<open>blockchain/bl_nas.go\<close>), and
  the hardware and log requests of \<^verbatim>\<open>blockchain/blockchain.go\<close> and \<^verbatim>\<open>blockchain/blox.go\<close>.

  What these reach outside the process is an argument, collected in a record: commands (\<open>exec\<close>, and
  \<open>docker_logs\<close> for \<^verbatim>\<open>docker logs\<close>), fresh UUIDs, the hardware id, the host name, and \<open>wifi_do f req\<close>, the
  result (\<^const>\<open>None\<close>: an error) of a function of \<^verbatim>\<open>wap/pkg/wifi\<close> that only inspects the system or erases
  the chain database, which lies outside the files of this model.
\<close>

text \<open>How a command ends: not started, exited (with success or not), or killed because the context ended.\<close>

datatype cmd_end = NotStarted | Exited bool string | Killed bool string

record 'w platform =
  exec :: "string list \<Rightarrow> 'w \<Rightarrow> cmd_end \<times> 'w"
  docker_logs :: "string \<Rightarrow> int option \<Rightarrow> 'w \<Rightarrow> string option \<times> 'w"
  new_uuid :: "'w \<Rightarrow> string \<times> 'w"
  GetHardwareID :: "'w \<Rightarrow> string option \<times> 'w"
  os_Hostname :: "'w \<Rightarrow> string \<times> 'w"
  wifi_do :: "string \<Rightarrow> json \<Rightarrow> (string \<rightharpoonup> fcontent) \<Rightarrow> 'w \<Rightarrow> json option \<times> 'w"

definition on_world :: "('w \<Rightarrow> 'a \<times> 'w) \<Rightarrow> 'w device \<Rightarrow> 'a \<times> 'w device" where
  "on_world f d = (case f (world d) of (x, w) \<Rightarrow> (x, d\<lparr>world := w\<rparr>))"

lemma on_world_local [frame_intros]: "on_world f d = (x, e) \<Longrightarrow> same_local d e"
  by (auto simp: on_world_def split: prod.splits)


section \<open>The properties file\<close>

text \<open>
  A Go map, nil being \<^const>\<open>None\<close>: decoding the document null gives nil, and assigning to a nil map panics.
\<close>

type_synonym props = "(string \<rightharpoonup> json) option"

definition CUSTOM_PROPERTIES_FILE :: string where
  "CUSTOM_PROPERTIES_FILE = ''/internal/box_props.json''"

fun as_props :: "fcontent \<Rightarrow> props option" where
  "as_props (Json (JObj kvs)) = Some (Some (map_of (rev kvs)))"
| "as_props (Json JNull) = Some None"
| "as_props (Props m) = Some (Some m)"
| "as_props _ = None"

definition ReadProperties :: "'w device \<Rightarrow> props option" where
  "ReadProperties d = (case ReadFile CUSTOM_PROPERTIES_FILE d of Ok f \<Rightarrow> as_props f | _ \<Rightarrow> None)"

definition WriteProperties :: "props \<Rightarrow> 'w device \<Rightarrow> bool \<times> 'w device" where
  "WriteProperties p d =
     WriteFile CUSTOM_PROPERTIES_FILE (case p of None \<Rightarrow> Json JNull | Some m \<Rightarrow> Props m) d"


section \<open>Auto-pin pairing\<close>

definition AutoPinPairRequest :: gty where
  "AutoPinPairRequest = GStruct [(''pinning_token'', GStr, False), (''pinning_endpoint'', GStr, False)]"

definition AutoPinPairResponse :: "string \<Rightarrow> string \<Rightarrow> string \<Rightarrow> json" where
  "AutoPinPairResponse status secret hardwareID =
     JObj [(''status'', JStr status), (''pairing_secret'', JStr secret), (''hardware_id'', JStr hardwareID)]"

definition AutoPinRefreshRequest :: gty where
  "AutoPinRefreshRequest = GStruct [(''pinning_token'', GStr, False)]"

definition AutoPinStatus :: "string \<Rightarrow> json" where
  "AutoPinStatus status = JObj [(''status'', JStr status)]"

text \<open>The end of a successful pairing: the reply with the hardware id, empty when it cannot be read.\<close>

definition pair_reply :: "'w platform \<Rightarrow> string \<Rightarrow> json \<Rightarrow> 'w device \<Rightarrow> http_resp option \<times> 'w device" where
  "pair_reply pf status secret d =
     (case on_world (GetHardwareID pf) d of
        (hw, d1) \<Rightarrow>
          (case secret of
             JStr s \<Rightarrow> (WriteHeader StatusOK (Doc (AutoPinPairResponse status s (case hw of None \<Rightarrow> [] | Some h \<Rightarrow> h))), d1)
           | _ \<Rightarrow> (None, d1)))"

definition pair_fresh :: "'w platform \<Rightarrow> (string \<rightharpoonup> json) \<Rightarrow> json \<Rightarrow> json \<Rightarrow> 'w device \<Rightarrow> http_resp option \<times> 'w device" where
  "pair_fresh pf props token endpoint d =
     (case on_world (new_uuid pf) d of
        (secret, d1) \<Rightarrow>
          (case WriteProperties (Some (props(''auto_pin_token'' \<mapsto> token, ''auto_pin_endpoint'' \<mapsto> endpoint,
                  ''auto_pin_pairing_secret'' \<mapsto> JStr secret))) d1 of
             (False, d2) \<Rightarrow> (Some (http_Error StatusInternalServerError ''{\"message\":\"failed to save pairing config\"}''), d2)
           | (True, d2) \<Rightarrow> pair_reply pf ''paired'' (JStr secret) d2))"

definition handleAutoPinPair :: "'w platform \<Rightarrow> body \<Rightarrow> 'w device \<Rightarrow> http_resp option \<times> 'w device" where
  "handleAutoPinPair pf rbody d =
     (case Option.bind (decode_first rbody) (decode_new AutoPinPairRequest) of
        None \<Rightarrow> (Some (http_Error StatusBadRequest []), d)
      | Some req \<Rightarrow>
          let token = entry ''pinning_token'' req; endpoint = entry ''pinning_endpoint'' req in
          if token = JStr [] \<or> endpoint = JStr [] then
            (Some (http_Error StatusBadRequest ''{\"message\":\"pinning_token and pinning_endpoint are required\"}''), d)
          else
            (case (case ReadProperties d of None \<Rightarrow> Some Map.empty | Some p \<Rightarrow> p) of
               None \<Rightarrow> (None, snd (on_world (new_uuid pf) d))
             | Some props \<Rightarrow>
                 (case props ''auto_pin_pairing_secret'' of
                    Some secret \<Rightarrow>
                      if secret \<noteq> JNull \<and> secret \<noteq> JStr [] then
                        (case WriteProperties (Some (props(''auto_pin_token'' \<mapsto> token, ''auto_pin_endpoint'' \<mapsto> endpoint))) d of
                           (False, d1) \<Rightarrow> (Some (http_Error StatusInternalServerError ''{\"message\":\"failed to update pairing config\"}''), d1)
                         | (True, d1) \<Rightarrow> pair_reply pf ''already_paired'' secret d1)
                      else pair_fresh pf props token endpoint d
                  | None \<Rightarrow> pair_fresh pf props token endpoint d)))"

definition handleAutoPinRefresh :: "body \<Rightarrow> 'w device \<Rightarrow> http_resp option \<times> 'w device" where
  "handleAutoPinRefresh rbody d =
     (case Option.bind (decode_first rbody) (decode_new AutoPinRefreshRequest) of
        None \<Rightarrow> (Some (http_Error StatusBadRequest []), d)
      | Some req \<Rightarrow>
          let token = entry ''pinning_token'' req in
          if token = JStr [] then (Some (http_Error StatusBadRequest ''{\"message\":\"pinning_token is required\"}''), d)
          else (case ReadProperties d of
                  Some (Some props) \<Rightarrow>
                    if props ''auto_pin_token'' = None then (Some (http_Error StatusNotFound ''{\"message\":\"not paired\"}''), d)
                    else (case WriteProperties (Some (props(''auto_pin_token'' \<mapsto> token))) d of
                            (False, d1) \<Rightarrow> (Some (http_Error StatusInternalServerError ''{\"message\":\"failed to update token\"}''), d1)
                          | (True, d1) \<Rightarrow> (WriteHeader StatusOK (Doc (AutoPinStatus ''refreshed'')), d1))
                | _ \<Rightarrow> (Some (http_Error StatusNotFound ''{\"message\":\"not paired\"}''), d)))"

definition handleAutoPinUnpair :: "'w device \<Rightarrow> http_resp option \<times> 'w device" where
  "handleAutoPinUnpair d =
     (case ReadProperties d of
        None \<Rightarrow> (Some (http_Error StatusNotFound ''{\"message\":\"not paired\"}''), d)
      | Some p \<Rightarrow>
          (case WriteProperties (map_option (\<lambda>m. m(''auto_pin_token'' := None, ''auto_pin_endpoint'' := None,
                  ''auto_pin_pairing_secret'' := None)) p) d of
             (False, d1) \<Rightarrow> (Some (http_Error StatusInternalServerError ''{\"message\":\"failed to remove pairing config\"}''), d1)
           | (True, d1) \<Rightarrow> (WriteHeader StatusOK (Doc (AutoPinStatus ''unpaired'')), d1)))"


section \<open>NAS credentials\<close>

definition nasCredentialsMaxBytes :: nat where
  "nasCredentialsMaxBytes = 4096"

definition nasCredentialsPath :: string where
  "nasCredentialsPath = ''/internal/nas/credentials.json''"

definition NasCredentialsRequest :: gty where
  "NasCredentialsRequest = GStruct [(''blox_peer_id'', GStr, False)]"

definition NasCredentialsResponse :: gty where
  "NasCredentialsResponse = GStruct [(''status'', GStr, False), (''username'', GStr, True), (''password'', GStr, True),
     (''share'', GStr, True), (''created_at'', GStr, True), (''hostname'', GStr, True)]"

definition nasCredentialsFile :: gty where
  "nasCredentialsFile = GStruct [(''username'', GStr, False), (''password'', GStr, False), (''share'', GStr, False),
     (''created_at'', GStr, False)]"

definition kubo_id_response :: gty where
  "kubo_id_response = GStruct [(''ID'', GStr, False)]"

definition kubo_config_identity :: gty where
  "kubo_config_identity = GStruct [(''Identity'', GStruct [(''PeerID'', GStr, False)], False)]"

fun file_json :: "fcontent \<Rightarrow> json option" where
  "file_json (Json j) = Some j"
| "file_json _ = None"

text \<open>The identity of the running kubo daemon, or else the one in its configuration file.\<close>

definition GetKuboPeerID :: "'w env \<Rightarrow> 'w device \<Rightarrow> string option \<times> 'w device" where
  "GetKuboPeerID env d =
     (case send env \<lparr>hq_method = ''POST'', hq_url = ''http://127.0.0.1:5001/api/v0/id'', hq_body = Raw []\<rparr> d of
        (r, d1) \<Rightarrow>
          (let live = (case r of Reply st (Some b) \<Rightarrow> (case Option.bind (decode_first b) (decode_new kubo_id_response) of
                                   Some j \<Rightarrow> text_of (entry ''ID'' j) | None \<Rightarrow> []) | _ \<Rightarrow> []) in
           if live \<noteq> [] then (Some live, d1)
           else (case ReadFile ''/internal/ipfs_data/config'' d1 of
                   Ok f \<Rightarrow>
                     (case Option.bind (file_json f) (decode_new kubo_config_identity) of
                        None \<Rightarrow> (None, d1)
                      | Some j \<Rightarrow>
                          (let i = text_of (entry ''PeerID'' (entry ''Identity'' j)) in (if i = [] then None else Some i, d1)))
                 | _ \<Rightarrow> (None, d1))))"

definition nas_status :: "nat \<Rightarrow> string \<Rightarrow> http_resp option" where
  "nas_status code status =
     WriteHeader code (Doc (encode_go NasCredentialsResponse (JObj [(''status'', JStr status), (''username'', JStr []),
       (''password'', JStr []), (''share'', JStr []), (''created_at'', JStr []), (''hostname'', JStr [])])))"

text \<open>
  Request and file are read through a limit of 4096 bytes: a request document that is longer is cut and
  does not decode, a longer file is refused. \<^const>\<open>raw_text\<close> gives the bytes of a document.
\<close>

definition nas_request :: "'w env \<Rightarrow> body \<Rightarrow> string" where
  "nas_request env rbody =
     (case decode_first rbody of
        None \<Rightarrow> []
      | Some j \<Rightarrow>
          if nasCredentialsMaxBytes < length (raw_text env (Doc j)) then []
          else (case decode_new NasCredentialsRequest j of None \<Rightarrow> [] | Some req \<Rightarrow> text_of (entry ''blox_peer_id'' req)))"

definition nas_file_bytes :: "'w env \<Rightarrow> fcontent \<Rightarrow> nat" where
  "nas_file_bytes env f = (case f of Json j \<Rightarrow> length (raw_text env (Doc j)) | _ \<Rightarrow> length (file_text f))"

definition handleNasCredentials :: "'w env \<Rightarrow> 'w platform \<Rightarrow> body \<Rightarrow> 'w device \<Rightarrow> http_resp option \<times> 'w device" where
  "handleNasCredentials env pf rbody d =
     (let target = nas_request env rbody in
      if target = [] then (nas_status StatusBadRequest ''bad_request'', d)
      else (case GetKuboPeerID env d of
        (None, d1) \<Rightarrow> (nas_status StatusServiceUnavailable ''unavailable'', d1)
      | (Some self, d1) \<Rightarrow>
          if target \<noteq> self then (nas_status StatusBadRequest ''blox_peer_mismatch'', d1)
          else (case ReadFile nasCredentialsPath d1 of
            Err NotExist \<Rightarrow> (nas_status StatusNotFound ''not_provisioned'', d1)
          | Ok f \<Rightarrow>
              if nasCredentialsMaxBytes < nas_file_bytes env f then (nas_status StatusInternalServerError ''error'', d1)
              else (case Option.bind (file_json f) (decode_new nasCredentialsFile) of
                None \<Rightarrow> (nas_status StatusInternalServerError ''malformed'', d1)
              | Some c \<Rightarrow>
                  if entry ''username'' c = JStr [] \<or> entry ''password'' c = JStr [] then
                    (nas_status StatusInternalServerError ''malformed'', d1)
                  else (case on_world (os_Hostname pf) d1 of
                    (host, d2) \<Rightarrow>
                      (WriteHeader StatusOK (Doc (encode_go NasCredentialsResponse (JObj [(''status'', JStr ''ok''),
                         (''username'', entry ''username'' c), (''password'', entry ''password'' c), (''share'', entry ''share'' c),
                         (''created_at'', entry ''created_at'' c), (''hostname'', JStr host)]))), d2)))
          | _ \<Rightarrow> (nas_status StatusInternalServerError ''error'', d1))))"


section \<open>Commands\<close>

text \<open>\<^verbatim>\<open>strings.Fields\<close>, and the lines \<^verbatim>\<open>bufio.Scanner\<close> finds.\<close>

definition Fields :: "string \<Rightarrow> string list" where
  "Fields s = filter (\<lambda>w. w \<noteq> []) (split_char (CHR '' '') (map (\<lambda>c. if is_space c then CHR '' '' else c) s))"

definition scan_lines :: "string \<Rightarrow> string list" where
  "scan_lines s =
     (let ls = split_char newline s; ls' = (if last ls = [] then butlast ls else ls) in
      map (\<lambda>l. if l \<noteq> [] \<and> last l = CHR 0x0D then butlast l else l) ls')"

text \<open>
  \<^verbatim>\<open>runCommand\<close> splits the text at white space and starts the program directly, without a shell. The
  result is the output and whether the error is nil; a command that was killed because the context
  ended is reported with a nil error.
\<close>

definition runCommand :: "'w platform \<Rightarrow> string \<Rightarrow> 'w device \<Rightarrow> (string \<times> bool) \<times> 'w device" where
  "runCommand pf commands d =
     (case on_world (exec pf (Fields commands)) d of
        (NotStarted, d1) \<Rightarrow> (([], False), d1)
      | (Exited ok out, d1) \<Rightarrow> ((out, ok), d1)
      | (Killed True out, d1) \<Rightarrow> (([], True), d1)
      | (Killed False out, d1) \<Rightarrow> ((out, False), d1))"

lemma runCommand_local [frame_intros]: "runCommand pf c d = (x, e) \<Longrightarrow> same_local d e"
  by (auto simp: runCommand_def dest!: on_world_local split: prod.splits cmd_end.splits bool.splits)

definition msg_status :: "string \<Rightarrow> bool \<Rightarrow> json" where
  "msg_status msg status = JObj [(''msg'', JStr msg), (''status'', JBool status)]"

definition DeleteWifi :: "'w platform \<Rightarrow> string \<Rightarrow> 'w device \<Rightarrow> json \<times> 'w device" where
  "DeleteWifi pf connectionName d =
     (case runCommand pf (''nmcli con delete '' @ [CHR 0x27] @ TrimSpace connectionName @ [CHR 0x27]) d of
        ((_, False), d1) \<Rightarrow> (msg_status (''Failed to delete connection '' @ connectionName @ '': '') False, d1)
      | ((_, True), d1) \<Rightarrow> (msg_status ''wifi connection removed successfully. '' True, d1))"

definition DisconnectNamedWifi :: "'w platform \<Rightarrow> string \<Rightarrow> 'w device \<Rightarrow> json \<times> 'w device" where
  "DisconnectNamedWifi pf connectionName d =
     (case runCommand pf (''nmcli con down '' @ TrimSpace connectionName) d of
        ((_, False), d1) \<Rightarrow> (msg_status (''Failed to disconnect connection '' @ connectionName @ '': '') False, d1)
      | ((_, True), d1) \<Rightarrow> (msg_status ''wifi connection disconnected successfully. '' True, d1))"

definition getWifiConnections :: "'w platform \<Rightarrow> 'w device \<Rightarrow> string list option \<times> 'w device" where
  "getWifiConnections pf d =
     (case runCommand pf ''nmcli --terse --fields TYPE,NAME connection'' d of
        ((_, False), d1) \<Rightarrow> (None, d1)
      | ((out, True), d1) \<Rightarrow>
          (Some (concat (map (\<lambda>l. case split_char (CHR '':'') l of
              [t, n] \<Rightarrow> if t = ''802-11-wireless'' \<and> n \<noteq> ''FxBlox'' then [n] else []
            | _ \<Rightarrow> []) (scan_lines out))), d1))"

fun delete_connections :: "'w platform \<Rightarrow> string list \<Rightarrow> 'w device \<Rightarrow> string list \<times> 'w device" where
  "delete_connections pf [] d = ([], d)"
| "delete_connections pf (c # cs) d =
     (case runCommand pf (''nmcli con delete '' @ [CHR 0x27] @ TrimSpace c @ [CHR 0x27]) d of
        ((_, ok), d1) \<Rightarrow>
          (case delete_connections pf cs d1 of
             (errs, d2) \<Rightarrow> (if ok then errs else (''Failed to delete connection '' @ c @ '': '') # errs, d2)))"

fun join_errors :: "string list \<Rightarrow> string" where
  "join_errors [] = []"
| "join_errors [e] = e"
| "join_errors (e # es) = e @ ''; '' @ join_errors es"

definition WifiRemoveall :: "'w platform \<Rightarrow> 'w device \<Rightarrow> json \<times> 'w device" where
  "WifiRemoveall pf d =
     (case getWifiConnections pf d of
        (None, d1) \<Rightarrow> (msg_status ''Failed to get connections: '' False, d1)
      | (Some connections, d1) \<Rightarrow>
          (case delete_connections pf connections d1 of
             (errs, d2) \<Rightarrow>
               (if errs \<noteq> [] then msg_status (join_errors errs) False
                else msg_status ''All wifi connections removed successfully. '' True, d2)))"

text \<open>Requests left as files for the host: \<^verbatim>\<open>os.OpenFile\<close> with \<^verbatim>\<open>O_CREATE|O_EXCL\<close>.\<close>

definition RESTART_NEEDED_PATH :: string where
  "RESTART_NEEDED_PATH = ''/home/commands/.command_reboot''"

definition PARTITION_NEEDED_PATH :: string where
  "PARTITION_NEEDED_PATH = ''/home/commands/.command_partition''"

definition FULA_CONFIG_PATH :: string where
  "FULA_CONFIG_PATH = ''/internal/config.yaml''"

definition create_exclusive :: "string \<Rightarrow> 'w device \<Rightarrow> json \<times> 'w device" where
  "create_exclusive p d =
     (if FileExists p d then (msg_status ''File already exists'' True, d)
      else (case WriteFile p (Text []) d of
              (True, d1) \<Rightarrow> (msg_status ''File created'' True, d1)
            | (False, d1) \<Rightarrow> (msg_status ''Failed to open file: '' False, d1)))"

definition Reboot :: "'w device \<Rightarrow> json \<times> 'w device" where
  "Reboot d = create_exclusive RESTART_NEEDED_PATH d"

definition Partition :: "'w device \<Rightarrow> json \<times> 'w device" where
  "Partition d = create_exclusive PARTITION_NEEDED_PATH d"

definition DeleteFulaConfig :: "'w device \<Rightarrow> json \<times> 'w device" where
  "DeleteFulaConfig d =
     (if FileExists FULA_CONFIG_PATH d then
        (if unwritable d FULA_CONFIG_PATH then (msg_status ''failed to delete config file: '' False, d)
         else (msg_status ''Config file deleted successfully.'' True, RemoveFile FULA_CONFIG_PATH d))
      else (msg_status ''Config file does not exist.'' True, d))"


section \<open>Hardware and logs\<close>

text \<open>A request type of \<^verbatim>\<open>wap/pkg/wifi\<close>, and a reply built from the result of one of its functions.\<close>

definition DeleteWifiRequest :: gty where
  "DeleteWifiRequest = GStruct [(''name'', GStr, False)]"

definition FetchContainerLogsRequest :: gty where
  "FetchContainerLogsRequest = GStruct [(''ContainerName'', GStr, False), (''TailCount'', GStr, False)]"

definition FindBestAndTargetInLogsRequest :: gty where
  "FindBestAndTargetInLogsRequest = GStruct [(''NodeContainerName'', GStr, False), (''TailCount'', GStr, False)]"

definition GetFolderSizeRequest :: gty where
  "GetFolderSizeRequest = GStruct [(''folder_path'', GStr, False)]"

definition GetDatastoreSizeRequest :: gty where
  "GetDatastoreSizeRequest = GStruct []"

definition wifi_reply ::
  "'w platform \<Rightarrow> string \<Rightarrow> nat \<Rightarrow> json \<Rightarrow> (json option \<Rightarrow> json) \<Rightarrow> 'w device \<Rightarrow> http_resp option \<times> 'w device" where
  "wifi_reply pf f status req out d =
     (case on_world (wifi_do pf f req (files d)) d of (r, d1) \<Rightarrow> (WriteHeader status (Doc (out r)), d1))"

definition or_doc :: "json \<Rightarrow> json option \<Rightarrow> json" where
  "or_doc x r = (case r of None \<Rightarrow> x | Some j \<Rightarrow> j)"

definition with_request ::
  "gty \<Rightarrow> body \<Rightarrow> 'w device \<Rightarrow> (json \<Rightarrow> http_resp option \<times> 'w device) \<Rightarrow> http_resp option \<times> 'w device" where
  "with_request t rbody d k =
     (case Option.bind (decode_first rbody) (decode_new t) of
        None \<Rightarrow> (Some (http_Error StatusBadRequest ''failed to decode request''), d)
      | Some req \<Rightarrow> k req)"

definition ok_reply :: "json \<times> 'w device \<Rightarrow> http_resp option \<times> 'w device" where
  "ok_reply r = (case r of (j, e) \<Rightarrow> (WriteHeader StatusOK (Doc j), e))"

definition handleBloxFreeSpace :: "'w platform \<Rightarrow> 'w device \<Rightarrow> http_resp option \<times> 'w device" where
  "handleBloxFreeSpace pf d =
     wifi_reply pf ''GetBloxFreeSpace'' StatusOK JNull
       (or_doc (JObj [(''device_count'', JNum 0), (''size'', JNum 0), (''used'', JNum 0), (''avail'', JNum 0), (''used_percentage'', JNum 0)])) d"

definition handleEraseBlData :: "'w platform \<Rightarrow> 'w device \<Rightarrow> http_resp option \<times> 'w device" where
  "handleEraseBlData pf d = wifi_reply pf ''EraseBlData'' StatusOK JNull (or_doc JNull) d"

definition handleWifiRemoveall :: "'w platform \<Rightarrow> 'w device \<Rightarrow> http_resp option \<times> 'w device" where
  "handleWifiRemoveall pf d = ok_reply (WifiRemoveall pf d)"

definition handleReboot :: "'w device \<Rightarrow> http_resp option \<times> 'w device" where
  "handleReboot d = ok_reply (Reboot d)"

definition handlePartition :: "'w device \<Rightarrow> http_resp option \<times> 'w device" where
  "handlePartition d = ok_reply (Partition d)"

definition handleDeleteFulaConfig :: "'w device \<Rightarrow> http_resp option \<times> 'w device" where
  "handleDeleteFulaConfig d = ok_reply (DeleteFulaConfig d)"

definition handleDeleteWifi :: "'w platform \<Rightarrow> body \<Rightarrow> 'w device \<Rightarrow> http_resp option \<times> 'w device" where
  "handleDeleteWifi pf rbody d =
     with_request DeleteWifiRequest rbody d (\<lambda>req. ok_reply (DeleteWifi pf (text_of (entry ''name'' req)) d))"

definition handleDisconnectWifi :: "'w platform \<Rightarrow> body \<Rightarrow> 'w device \<Rightarrow> http_resp option \<times> 'w device" where
  "handleDisconnectWifi pf rbody d =
     with_request DeleteWifiRequest rbody d (\<lambda>req. ok_reply (DisconnectNamedWifi pf (text_of (entry ''name'' req)) d))"

definition logs_reply :: "json option \<Rightarrow> json" where
  "logs_reply r = (case r of
      None \<Rightarrow> JObj [(''status'', JBool False), (''msg'', JStr [])]
    | Some m \<Rightarrow> JObj [(''status'', JBool True), (''msg'', m)])"

definition handleFetchContainerLogs :: "'w platform \<Rightarrow> body \<Rightarrow> 'w device \<Rightarrow> http_resp option \<times> 'w device" where
  "handleFetchContainerLogs pf rbody d =
     with_request FetchContainerLogsRequest rbody d (\<lambda>req. wifi_reply pf ''FetchContainerLogs'' StatusAccepted req logs_reply d)"

definition best_reply :: "json option \<Rightarrow> json" where
  "best_reply r = (case r of
      Some (JArr [b, t]) \<Rightarrow> JObj [(''best'', b), (''target'', t), (''err'', JStr [])]
    | _ \<Rightarrow> JObj [(''best'', JStr ''0''), (''target'', JStr ''0''), (''err'', JStr [])])"

definition handleFindBestAndTargetInLogs :: "'w platform \<Rightarrow> body \<Rightarrow> 'w device \<Rightarrow> http_resp option \<times> 'w device" where
  "handleFindBestAndTargetInLogs pf rbody d =
     with_request FindBestAndTargetInLogsRequest rbody d
       (\<lambda>req. wifi_reply pf ''FindBestAndTargetInLogs'' StatusAccepted req best_reply d)"

definition handleGetFolderSize :: "'w platform \<Rightarrow> body \<Rightarrow> 'w device \<Rightarrow> http_resp option \<times> 'w device" where
  "handleGetFolderSize pf rbody d =
     with_request GetFolderSizeRequest rbody d (\<lambda>req. wifi_reply pf ''GetFolderSize'' StatusAccepted req
       (or_doc (JObj [(''folder_path'', JStr []), (''size'', JStr [])])) d)"

definition handleGetDatastoreSize :: "'w platform \<Rightarrow> body \<Rightarrow> 'w device \<Rightarrow> http_resp option \<times> 'w device" where
  "handleGetDatastoreSize pf rbody d =
     with_request GetDatastoreSizeRequest rbody d (\<lambda>req. wifi_reply pf ''GetDatastoreSize'' StatusAccepted req
       (or_doc (JObj [(''size'', JStr []), (''storage_max'', JStr []), (''count'', JStr []), (''folder_path'', JStr []), (''version'', JStr [])])) d)"

definition handleGetDockerImageBuildDates :: "'w platform \<Rightarrow> 'w device \<Rightarrow> http_resp option \<times> 'w device" where
  "handleGetDockerImageBuildDates pf d =
     wifi_reply pf ''GetDockerImageBuildDates'' StatusOK JNull (or_doc (JObj [(''images'', JArr [])])) d"

definition handleGetClusterInfo :: "'w platform \<Rightarrow> 'w device \<Rightarrow> http_resp option \<times> 'w device" where
  "handleGetClusterInfo pf d =
     wifi_reply pf ''GetClusterInfo'' StatusOK JNull
       (or_doc (JObj [(''cluster_peer_id'', JStr []), (''cluster_peer_name'', JStr [])])) d"

section \<open>Who gets the NAS password\<close>

lemma GetKuboPeerID_local [frame_intros]: "GetKuboPeerID env d = (x, e) \<Longrightarrow> same_local d e"
  by (auto simp: GetKuboPeerID_def Let_def dest!: send_local split: prod.splits if_splits outcome.splits option.splits)

definition holds_password :: "http_resp \<Rightarrow> bool" where
  "holds_password resp \<longleftrightarrow> (case rs_body resp of Doc j \<Rightarrow> entry ''password'' j \<noteq> JNull | _ \<Rightarrow> False)"

lemma nas_status_no_password: "nas_status st m = Some resp \<Longrightarrow> \<not> holds_password resp"
  by (auto simp: nas_status_def WriteHeader_def holds_password_def NasCredentialsResponse_def entry_def is_empty_val_def
      split: if_splits)

lemma entry_skip: "m \<noteq> n \<Longrightarrow> entry n (JObj (if b then kvs else (m, v) # kvs)) = entry n (JObj kvs)"
  by (simp add: entry_def)

lemma nas_reply_password:
  "p \<noteq> [] \<Longrightarrow> entry ''password'' (encode_go NasCredentialsResponse (JObj [(''status'', a), (''username'', u),
     (''password'', JStr p), (''share'', sh), (''created_at'', cr), (''hostname'', ho)])) = JStr p"
  by (simp add: NasCredentialsResponse_def entry_Cons entry_skip is_empty_val_def split del: if_split)

lemma have_fields_lookup:
  "have_fields fs kvs \<Longrightarrow> map_of (map (\<lambda>(n, t, om). (n, t)) fs) n = Some t \<Longrightarrow> has_type t (entry n (JObj kvs))"
  by (induction fs arbitrary: kvs) (auto simp: entry_def split: list.splits if_splits)

lemma nas_file_password:
  assumes "Option.bind x (decode_new nasCredentialsFile) = Some c"
  shows "\<exists>p. entry ''password'' c = JStr p"
proof -
  have "distinct_names nasCredentialsFile" by (simp add: nasCredentialsFile_def lower_char_def)
  then have "has_type nasCredentialsFile c"
    using assms by (auto simp: decode_new_def bind_eq_Some_conv intro: decode_go_type zero_has_type(1))
  then obtain kvs where c: "c = JObj kvs" "have_fields [(''username'', GStr, False), (''password'', GStr, False),
      (''share'', GStr, False), (''created_at'', GStr, False)] kvs"
    by (auto simp: nasCredentialsFile_def simp del: have_fields.simps split: json.splits)
  have "has_type GStr (entry ''password'' c)" unfolding c(1) by (rule have_fields_lookup [OF c(2)]) simp
  then show ?thesis by (auto split: json.splits)
qed

text \<open>
  C36. A reply to a NAS credentials request contains a password only if the signed request names this
  very device (the peer id of its kubo daemon at that moment) and the credentials file is provisioned,
  at most 4096 bytes long and complete; the password is then the one in the file. No request changes
  anything on the device.
\<close>

theorem nas_password_bound_to_device:
  assumes "handleNasCredentials env pf rbody d = (Some resp, e)" and "holds_password resp"
  shows "rs_status resp = StatusOK \<and> same_local d e \<and>
    (\<exists>self d1 f c. GetKuboPeerID env d = (Some self, d1) \<and> nas_request env rbody = self \<and>
       files d nasCredentialsPath = Some f \<and> nas_file_bytes env f \<le> 4096 \<and>
       Option.bind (file_json f) (decode_new nasCredentialsFile) = Some c \<and>
       (\<exists>j. rs_body resp = Doc j \<and> entry ''password'' j = entry ''password'' c \<and> entry ''password'' c \<noteq> JStr []))"
proof -
  obtain r d1 where k: "GetKuboPeerID env d = (r, d1)" by fastforce
  obtain host d2 where h: "on_world (os_Hostname pf) d1 = (host, d2)" by fastforce
  have l: "same_local d d1" using GetKuboPeerID_local [OF k] .
  moreover have l2: "same_local d1 d2" using on_world_local [OF h] .
  ultimately have "same_local d d2" by (rule same_local_trans)
  note l3 = this
  note start = assms(1) [unfolded handleNasCredentials_def Let_def k prod.case]
  note refused = nas_status_no_password [THEN notE, OF _ assms(2)]
  have t: "nas_request env rbody \<noteq> []" using start refused by (auto split: if_splits)
  note start = start [unfolded if_not_P [OF t]]
  from start obtain self where self: "r = Some self" using refused by (cases r) auto
  note start = start [unfolded self option.case]
  have same: "nas_request env rbody = self" using start refused by (auto split: if_splits)
  note start = start [unfolded same, simplified]
  obtain f where f: "ReadFile nasCredentialsPath d1 = Ok f"
    using start refused by (cases "ReadFile nasCredentialsPath d1") (auto split: fs_error.splits)
  note start = start [unfolded f outcome.case]
  have len: "\<not> nasCredentialsMaxBytes < nas_file_bytes env f" using start refused by (auto split: if_splits)
  note start = start [unfolded if_not_P [OF len]]
  obtain c where c: "Option.bind (file_json f) (decode_new nasCredentialsFile) = Some c"
    using start refused by (cases "Option.bind (file_json f) (decode_new nasCredentialsFile)") auto
  note start = start [unfolded c option.case h prod.case]
  have ne: "\<not> (entry ''username'' c = JStr [] \<or> entry ''password'' c = JStr [])" using start refused by (auto split: if_splits)
  note start = start [unfolded if_not_P [OF ne]]
  have "files d nasCredentialsPath = Some f"
    using f same_localD(1) [OF l] by (auto simp: ReadFile_def split: if_splits option.splits)
  moreover obtain pw where pw: "entry ''password'' c = JStr pw" "pw \<noteq> []" using nas_file_password [OF c] ne by auto
  moreover have "entry ''password'' (encode_go NasCredentialsResponse (JObj [(''status'', JStr ''ok''),
      (''username'', entry ''username'' c), (''password'', entry ''password'' c), (''share'', entry ''share'' c),
      (''created_at'', entry ''created_at'' c), (''hostname'', JStr host)])) = entry ''password'' c"
    unfolding pw by (rule nas_reply_password [OF pw(2)])
  moreover have "nas_file_bytes env f \<le> 4096" using len by (simp add: nasCredentialsMaxBytes_def)
  moreover have "rs_status resp = StatusOK" "e = d2" "rs_body resp = Doc (encode_go NasCredentialsResponse (JObj [(''status'', JStr ''ok''),
      (''username'', entry ''username'' c), (''password'', entry ''password'' c), (''share'', entry ''share'' c),
      (''created_at'', entry ''created_at'' c), (''hostname'', JStr host)]))"
    using start by (auto simp del: encode_go.simps)
  ultimately show ?thesis using self k same c ne l3 by (simp del: encode_go.simps)
qed


section \<open>The pairing secret\<close>

datatype pin_request = PairReq body | RefreshReq body | UnpairReq

fun run_pin :: "'w platform \<Rightarrow> pin_request \<Rightarrow> 'w device \<Rightarrow> http_resp option \<times> 'w device" where
  "run_pin pf (PairReq b) d = handleAutoPinPair pf b d"
| "run_pin pf (RefreshReq b) d = handleAutoPinRefresh b d"
| "run_pin pf UnpairReq d = handleAutoPinUnpair d"

fun run_pins :: "'w platform \<Rightarrow> pin_request list \<Rightarrow> 'w device \<Rightarrow> http_resp option list \<times> 'w device" where
  "run_pins pf [] d = ([], d)"
| "run_pins pf (r # rs) d =
     (case run_pin pf r d of (x, d1) \<Rightarrow> case run_pins pf rs d1 of (xs, e) \<Rightarrow> (x # xs, e))"

definition property_of :: "string \<Rightarrow> 'w device \<Rightarrow> json option" where
  "property_of k d = (case ReadProperties d of Some (Some m) \<Rightarrow> m k | _ \<Rightarrow> None)"

definition paired_with :: "string \<Rightarrow> 'w device \<Rightarrow> bool" where
  "paired_with s d \<longleftrightarrow> s \<noteq> [] \<and> property_of ''auto_pin_pairing_secret'' d = Some (JStr s)"

text \<open>The secret a reply discloses, if any.\<close>

definition told_secret :: "http_resp option \<Rightarrow> string option" where
  "told_secret r = (case r of Some resp \<Rightarrow> (case rs_body resp of Doc j \<Rightarrow>
      (case entry ''pairing_secret'' j of JStr s \<Rightarrow> Some s | _ \<Rightarrow> None) | _ \<Rightarrow> None) | None \<Rightarrow> None)"

lemma ReadProperties_world [simp]: "ReadProperties (d\<lparr>world := w\<rparr>) = ReadProperties d"
  by (simp add: ReadProperties_def ReadFile_def)

lemma ReadProperties_on_world: "on_world f d = (x, e) \<Longrightarrow> ReadProperties e = ReadProperties d"
  by (auto simp: on_world_def split: prod.splits)

lemma ReadProperties_written:
  "WriteProperties p d = (True, e) \<Longrightarrow> \<not> unreadable d CUSTOM_PROPERTIES_FILE \<Longrightarrow> ReadProperties e = Some p"
  by (auto simp: WriteProperties_def WriteFile_def ReadProperties_def ReadFile_def split: if_splits option.splits)

lemma ReadProperties_readable: "ReadProperties d = Some p \<Longrightarrow> \<not> unreadable d CUSTOM_PROPERTIES_FILE"
  by (auto simp: ReadProperties_def ReadFile_def split: if_splits)

lemma WriteProperties_failed: "WriteProperties p d = (False, e) \<Longrightarrow> e = d"
  by (auto simp: WriteProperties_def WriteFile_def split: if_splits)

lemma WriteProperties_keeps:
  assumes "WriteProperties (Some (m(k \<mapsto> v))) d = (ok, e)" and "paired_with s d" and "ReadProperties d = Some (Some m)"
    and "k \<noteq> ''auto_pin_pairing_secret''"
  shows "paired_with s e"
  using assms ReadProperties_written [of "Some (m(k \<mapsto> v))" d e] ReadProperties_readable [OF assms(3)] WriteProperties_failed [of "Some (m(k \<mapsto> v))" d e]
  by (cases ok) (auto simp: paired_with_def property_of_def)

lemma pair_keeps_secret:
  assumes h: "handleAutoPinPair pf b d = (r, e)" and p: "paired_with s d"
  shows "paired_with s e \<and> (\<forall>t. told_secret r = Some t \<longrightarrow> t = s)"
proof -
  from p obtain m where m: "ReadProperties d = Some (Some m)" "m ''auto_pin_pairing_secret'' = Some (JStr s)" "s \<noteq> []"
    by (auto simp: paired_with_def property_of_def split: option.splits)
  note rd = ReadProperties_readable [OF m(1)]
  show ?thesis
  proof (cases "e = d")
    case True
    with h m p show ?thesis
      by (auto simp: handleAutoPinPair_def Let_def told_secret_def http_Error_def pair_reply_def AutoPinPairResponse_def entry_def
          split: option.splits if_splits prod.splits bool.splits)
  next
    case False
    then obtain req d1 where w: "WriteProperties (Some (m(''auto_pin_token'' \<mapsto> entry ''pinning_token'' req,
        ''auto_pin_endpoint'' \<mapsto> entry ''pinning_endpoint'' req))) d = (True, d1)"
      and re: "pair_reply pf ''already_paired'' (JStr s) d1 = (r, e)"
      using h m by (auto simp: handleAutoPinPair_def Let_def dest!: WriteProperties_failed split: option.splits if_splits prod.splits bool.splits)
    have "ReadProperties e = ReadProperties d1"
      using re by (auto simp: pair_reply_def dest!: ReadProperties_on_world split: prod.splits)
    with ReadProperties_written [OF w rd] m have "paired_with s e" by (simp add: paired_with_def property_of_def)
    moreover have "\<forall>t. told_secret r = Some t \<longrightarrow> t = s"
      using re by (auto simp: pair_reply_def told_secret_def AutoPinPairResponse_def entry_def split: prod.splits)
    ultimately show ?thesis by blast
  qed
qed

lemma refresh_keeps_secret:
  assumes h: "handleAutoPinRefresh b d = (r, e)" and p: "paired_with s d"
  shows "paired_with s e \<and> told_secret r = None"
proof -
  from p obtain m where m: "ReadProperties d = Some (Some m)" by (auto simp: paired_with_def property_of_def split: option.splits)
  have k: "''auto_pin_token'' \<noteq> ''auto_pin_pairing_secret''" by simp
  from h p m show ?thesis
    by (auto simp: handleAutoPinRefresh_def Let_def told_secret_def http_Error_def AutoPinStatus_def entry_def
        intro: WriteProperties_keeps [OF _ p m k] split: option.splits if_splits prod.splits bool.splits)
qed

text \<open>
  C37. Auto-pin requests do not change the pairing secret of a paired device: over any sequence of pairing and refresh
  requests without an unpairing, handled one after the other, with whatever tokens and with writes that are refused in between, the
  stored secret stays the same, and every reply that discloses a secret discloses this one. The sequence holds auto-pin requests
  only: \<^verbatim>\<open>/peer/exchange\<close> of the set-up server rewrites the properties and erases the secret, and a write that breaks off
  in the middle leaves a file for which the next pairing makes a new secret (\<^verbatim>\<open>pair_discards_unread_properties\<close>).
\<close>

theorem pairing_secret_stable:
  assumes "run_pins pf rs d = (xs, e)" and "paired_with s d" and "UnpairReq \<notin> set rs"
  shows "paired_with s e \<and> (\<forall>x \<in> set xs. told_secret x \<in> {None, Some s})"
  using assms
proof (induction pf rs d arbitrary: xs rule: run_pins.induct)
  case (2 pf r rs d)
  obtain x d1 where x: "run_pin pf r d = (x, d1)" by fastforce
  obtain ys where ys: "run_pins pf rs d1 = (ys, e)" "xs = x # ys" using 2(2) x by (auto split: prod.splits)
  have "paired_with s d1 \<and> told_secret x \<in> {None, Some s}"
    using x 2(3,4) pair_keeps_secret refresh_keeps_secret by (cases r) fastforce+
  then show ?case using 2(1) [OF x [symmetric] _ _] ys 2(4) x by auto
qed simp

text \<open>
  Pairing treats every failure to read the properties as "no file yet": when the file exists but does
  not decode or cannot be read at that moment, a successful pairing replaces it by one that holds the
  three auto-pin entries only, so all other properties of the device are lost.
\<close>

lemma pair_discards_unread_properties:
  assumes "ReadProperties d = None" and "handleAutoPinPair pf b d = (Some resp, e)" and "rs_status resp = StatusOK"
  shows "\<exists>token endpoint secret. files e CUSTOM_PROPERTIES_FILE =
    Some (Props [''auto_pin_token'' \<mapsto> token, ''auto_pin_endpoint'' \<mapsto> endpoint, ''auto_pin_pairing_secret'' \<mapsto> JStr secret])"
proof -
  from assms obtain token endpoint where f: "pair_fresh pf Map.empty token endpoint d = (Some resp, e)"
    by (auto simp: handleAutoPinPair_def Let_def http_Error_def split: option.splits if_splits)
  obtain secret d1 where u: "on_world (new_uuid pf) d = (secret, d1)" by fastforce
  obtain ok d2 where w: "WriteProperties (Some [''auto_pin_token'' \<mapsto> token, ''auto_pin_endpoint'' \<mapsto> endpoint,
      ''auto_pin_pairing_secret'' \<mapsto> JStr secret]) d1 = (ok, d2)" by fastforce
  with f u assms(3) have "ok" "pair_reply pf ''paired'' (JStr secret) d2 = (Some resp, e)"
    by (auto simp: pair_fresh_def http_Error_def split: bool.splits)
  then have "files e = files d2" by (auto simp: pair_reply_def dest!: on_world_local same_localD(1) split: prod.splits)
  with w \<open>ok\<close> have "files e CUSTOM_PROPERTIES_FILE = Some (Props [''auto_pin_token'' \<mapsto> token,
      ''auto_pin_endpoint'' \<mapsto> endpoint, ''auto_pin_pairing_secret'' \<mapsto> JStr secret])"
    by (auto simp: WriteProperties_def WriteFile_def split: if_splits)
  then show ?thesis by blast
qed


section \<open>Removing a network\<close>

definition word_ok :: "string \<Rightarrow> bool" where
  "word_ok w \<longleftrightarrow> w \<noteq> [] \<and> (\<forall>c \<in> set w. \<not> is_space c)"

lemma split_words:
  "word_ok w \<Longrightarrow> Fields (w @ CHR '' '' # s) = w # Fields s"
  "word_ok w \<Longrightarrow> Fields w = [w]"
proof -
  assume w: "word_ok w"
  then have m: "map (\<lambda>c. if is_space c then CHR '' '' else c) w = w" by (intro map_idI) (auto simp: word_ok_def)
  have n: "CHR '' '' \<notin> set w" using w by (auto simp: word_ok_def is_space_def)
  show "Fields (w @ CHR '' '' # s) = w # Fields s" "Fields w = [w]"
    using w m n by (simp_all add: Fields_def split_char_append split_char_no_sep word_ok_def is_space_def)
qed

lemma TrimSpace_word: "word_ok w \<Longrightarrow> TrimSpace w = w"
  by (rule TrimSpace_id) (auto simp: word_ok_def)

lemma delete_wifi_args:
  assumes "word_ok n"
  shows "Fields (''nmcli con delete '' @ [CHR 0x27] @ TrimSpace n @ [CHR 0x27]) =
    [''nmcli'', ''con'', ''delete'', CHR 0x27 # n @ [CHR 0x27]]"
proof -
  have w: "word_ok ''nmcli''" "word_ok ''con''" "word_ok ''delete''" "word_ok (CHR 0x27 # n @ [CHR 0x27])"
    using assms by (auto simp: word_ok_def is_space_def)
  have "''nmcli con delete '' @ [CHR 0x27] @ TrimSpace n @ [CHR 0x27] =
      ''nmcli'' @ CHR '' '' # ''con'' @ CHR '' '' # ''delete'' @ CHR '' '' # CHR 0x27 # n @ [CHR 0x27]"
    by (simp add: TrimSpace_word assms)
  then show ?thesis using split_words w by metis
qed

text \<open>
  A request to delete a Wi-Fi network never addresses that network: the command line is split at
  blanks and started without a shell, so \<^verbatim>\<open>nmcli\<close> receives the name with the quotation marks around it.
  The outcome is therefore the same whatever \<^verbatim>\<open>nmcli\<close> would do for the connection of that name.
\<close>

lemma delete_wifi_misses_network:
  assumes "word_ok n" and "\<And>argv. last argv \<noteq> n \<Longrightarrow> exec pf argv = exec pf' argv"
  shows "DeleteWifi pf n d = DeleteWifi pf' n d"
proof -
  have "CHR 0x27 # n @ [CHR 0x27] \<noteq> n" by (metis length_append_singleton length_Cons n_not_Suc_n not_less_eq lessI less_SucI)
  then have "exec pf [''nmcli'', ''con'', ''delete'', CHR 0x27 # n @ [CHR 0x27]] = exec pf' [''nmcli'', ''con'', ''delete'', CHR 0x27 # n @ [CHR 0x27]]"
    by (intro assms(2)) simp
  then show ?thesis by (simp only: DeleteWifi_def runCommand_def delete_wifi_args [OF assms(1)] on_world_def)
qed


subsection \<open>Concrete requests\<close>

definition sample_platform :: "(string list \<Rightarrow> bool) \<Rightarrow> int platform" where
  "sample_platform ok = \<lparr>exec = (\<lambda>argv w. (Exited (ok argv) [], w)), docker_logs = (\<lambda>_ _ w. (None, w)),
     new_uuid = (\<lambda>w. (''u1'', w + 1)), GetHardwareID = (\<lambda>w. (Some ''hw'', w)), os_Hostname = (\<lambda>w. (''blox'', w)),
     wifi_do = (\<lambda>_ _ _ w. (None, w))\<rparr>"

theorem delete_wifi_misses_network_witness:
  "DeleteWifi (sample_platform (\<lambda>argv. last argv = ''home'')) ''home'' (sample_device 0) =
   DeleteWifi (sample_platform (\<lambda>argv. False)) ''home'' (sample_device 0)"
  by (rule delete_wifi_misses_network) (auto simp: word_ok_def is_space_def sample_platform_def)

definition pair_doc :: json where
  "pair_doc = JObj [(''pinning_token'', JStr ''t''), (''pinning_endpoint'', JStr ''e'')]"

lemma pair_doc_decodes: "decode_new AutoPinPairRequest pair_doc = Some pair_doc"
  by (simp add: decode_new_def AutoPinPairRequest_def pair_doc_def entry_def fold_eq_def lower_char_def)

definition props_device :: "fcontent \<Rightarrow> int device" where
  "props_device f = (sample_device 0)\<lparr>files := [CUSTOM_PROPERTIES_FILE \<mapsto> f]\<rparr>"

theorem pair_discards_unread_properties_witness:
  "\<exists>resp e. handleAutoPinPair (sample_platform (\<lambda>_. True)) (Doc pair_doc) (props_device (Text ''{oops'')) = (Some resp, e) \<and>
     rs_status resp = StatusOK \<and> (\<exists>m. files e CUSTOM_PROPERTIES_FILE = Some (Props m))"
proof -
  have none: "ReadProperties (props_device (Text ''{oops'')) = None"
    by (simp add: ReadProperties_def ReadFile_def props_device_def sample_device_def)
  have te: "entry ''pinning_token'' pair_doc = JStr ''t''" "entry ''pinning_endpoint'' pair_doc = JStr ''e''"
    by (simp_all add: pair_doc_def entry_def)
  have "\<exists>resp e. handleAutoPinPair (sample_platform (\<lambda>_. True)) (Doc pair_doc) (props_device (Text ''{oops'')) = (Some resp, e) \<and>
      rs_status resp = StatusOK"
    by (simp add: handleAutoPinPair_def Let_def none pair_doc_decodes te)
      (simp add: pair_fresh_def on_world_def sample_platform_def
        WriteProperties_def WriteFile_def props_device_def sample_device_def pair_reply_def)
  then obtain resp e where r: "handleAutoPinPair (sample_platform (\<lambda>_. True)) (Doc pair_doc) (props_device (Text ''{oops'')) = (Some resp, e)"
    "rs_status resp = StatusOK" by blast
  with pair_discards_unread_properties [OF none r] show ?thesis by blast
qed

definition paired_device :: "int device" where
  "paired_device = props_device (Props [''auto_pin_token'' \<mapsto> JStr ''old'', ''auto_pin_pairing_secret'' \<mapsto> JStr ''s1''])"

theorem pairing_secret_stable_witness:
  "paired_with ''s1'' (snd (run_pins (sample_platform (\<lambda>_. True)) [PairReq (Doc pair_doc), RefreshReq (Doc pair_doc), PairReq (Raw [])] paired_device)) \<and>
   list_all (\<lambda>x. told_secret x \<in> {None, Some ''s1''})
     (fst (run_pins (sample_platform (\<lambda>_. True)) [PairReq (Doc pair_doc), RefreshReq (Doc pair_doc), PairReq (Raw [])] paired_device))"
proof -
  have "paired_with ''s1'' paired_device"
    by (simp add: paired_with_def property_of_def ReadProperties_def ReadFile_def paired_device_def props_device_def sample_device_def)
  then show ?thesis unfolding list_all_iff by (rule pairing_secret_stable [OF surjective_pairing]) simp
qed

definition nas_device :: "int device" where
  "nas_device = (sample_device 0)\<lparr>files := [nasCredentialsPath \<mapsto> Json (JObj [(''username'', JStr ''u''), (''password'', JStr ''pw'')]),
     ''/internal/ipfs_data/config'' \<mapsto> Json (JObj [(''Identity'', JObj [(''PeerID'', JStr ''k1'')])])]\<rparr>"

lemma nas_run:
  "\<exists>resp e. handleNasCredentials (sample_env Map.empty) (sample_platform (\<lambda>_. True)) (Doc (JObj [(''blox_peer_id'', JStr ''k1'')])) nas_device
     = (Some resp, e) \<and> holds_password resp"
proof -
  let ?env = "sample_env Map.empty"
  have k: "GetKuboPeerID ?env nas_device = (Some ''k1'', nas_device)"
    by (simp add: GetKuboPeerID_def send_def sample_env_def selector_node_def nas_device_def sample_device_def ReadFile_def
        kubo_config_identity_def decode_new_def entry_def fold_eq_def lower_char_def nasCredentialsPath_def text_of_def Let_def)
  have q: "nas_request ?env (Doc (JObj [(''blox_peer_id'', JStr ''k1'')])) = ''k1''"
    by (simp add: nas_request_def nasCredentialsMaxBytes_def sample_env_def decode_new_def NasCredentialsRequest_def entry_def
        fold_eq_def lower_char_def text_of_def)
  have f: "ReadFile nasCredentialsPath nas_device = Ok (Json (JObj [(''username'', JStr ''u''), (''password'', JStr ''pw'')]))"
    by (simp add: ReadFile_def nas_device_def sample_device_def nasCredentialsPath_def)
  have c: "decode_new nasCredentialsFile (JObj [(''username'', JStr ''u''), (''password'', JStr ''pw'')]) =
      Some (JObj [(''username'', JStr ''u''), (''password'', JStr ''pw''), (''share'', JStr []), (''created_at'', JStr [])])"
    by (simp add: decode_new_def nasCredentialsFile_def entry_def fold_eq_def lower_char_def)
  have b: "\<not> nasCredentialsMaxBytes < nas_file_bytes ?env (Json (JObj [(''username'', JStr ''u''), (''password'', JStr ''pw'')]))"
    by (simp add: nas_file_bytes_def nasCredentialsMaxBytes_def sample_env_def)
  show ?thesis
    by (simp add: handleNasCredentials_def Let_def k q f c b entry_Cons
        on_world_def sample_platform_def holds_password_def nas_reply_password del: encode_go.simps)
qed

theorem nas_password_bound_to_device_witness:
  "\<exists>resp. rs_status resp = StatusOK \<and> holds_password resp \<and>
     fst (handleNasCredentials (sample_env Map.empty) (sample_platform (\<lambda>_. True)) (Doc (JObj [(''blox_peer_id'', JStr ''k1'')])) nas_device) = Some resp"
proof -
  obtain resp e where r: "handleNasCredentials (sample_env Map.empty) (sample_platform (\<lambda>_. True)) (Doc (JObj [(''blox_peer_id'', JStr ''k1'')])) nas_device
     = (Some resp, e)" "holds_password resp" using nas_run by blast
  with nas_password_bound_to_device [OF r] show ?thesis by auto
qed

end
