(* ===== verification/WifiTools.thy ===== *)
theory WifiTools
  imports DeviceActions "HOL-Library.Multiset" "HOL-Library.AList"
begin

text \<open>
  The package \<^verbatim>\<open>wap/pkg/wifi\<close>: reading the list of networks (\<^verbatim>\<open>scan.go\<close>), the hotspot (\<^verbatim>\<open>hotspot.go\<close>),
  joining a network (\<^verbatim>\<open>wifi.go\<close>) and the functions that report on containers, disks and logs
  (\<^verbatim>\<open>properties.go\<close>). Commands go through \<^const>\<open>exec\<close> of the platform; the Docker client, the kubo client,
  the INI reader, the conversion of text to a 32-bit float and the names of temporary files are
  collected in a record of parameters. \<^verbatim>\<open>time.Sleep\<close> is \<^const>\<open>wait_for\<close> with its answer ignored.
\<close>

section \<open>Reading command output\<close>

definition ToLower :: "string \<Rightarrow> string" where
  "ToLower s = map lower_char s"

text \<open>
  \<^verbatim>\<open>bufio.Scanner\<close> stops with an error at a line that fills its buffer of 64 KiB: the lines before it, and
  whether the whole text was read.
\<close>

definition MaxScanTokenSize :: nat where
  "MaxScanTokenSize = 65536"

definition strip_cr :: "string \<Rightarrow> string" where
  "strip_cr l = (if l \<noteq> [] \<and> last l = CHR 0x0D then butlast l else l)"

definition scan_tokens :: "string \<Rightarrow> string list \<times> bool" where
  "scan_tokens s =
     (let ls = split_char newline s;
          raw = (if last ls = [] then butlast ls else ls);
          ok = takeWhile (\<lambda>l. length l < MaxScanTokenSize) raw
      in (map strip_cr ok, length ok = length raw))"

text \<open>Go's integer division by two truncates towards zero.\<close>

definition half :: "int \<Rightarrow> int" where
  "half i = (if i < 0 then - ((- i) div 2) else i div 2)"

text \<open>\<^verbatim>\<open>strings.Replace(s, "%", "", 1)\<close>.\<close>

fun drop_first :: "char \<Rightarrow> string \<Rightarrow> string" where
  "drop_first c [] = []"
| "drop_first c (x # s) = (if x = c then s else x # drop_first c s)"


section \<open>The list of networks\<close>

record wifi =
  ESSID :: string
  SSID :: string
  RSSI :: int

definition no_wifi :: wifi where
  "no_wifi = \<lparr>ESSID = [], SSID = [], RSSI = 0\<rparr>"

text \<open>The results: the networks found, and whether the error is nil.\<close>

fun windows_loop :: "string list \<Rightarrow> wifi \<Rightarrow> wifi list \<Rightarrow> wifi list \<times> bool" where
  "windows_loop [] w wifis = (wifis, True)"
| "windows_loop (line # ls) w wifis =
     (let fs = Fields line;
          emit = (\<lambda>w. if SSID w \<noteq> [] \<and> RSSI w \<noteq> 0 then windows_loop ls no_wifi (wifis @ [w]) else windows_loop ls w wifis) in
      if SSID w = [] then
        (if Contains line ''SSID'' \<and> \<not> Contains line ''BSSID''
         then emit (if length fs = 4 then w\<lparr>SSID := fs ! 3\<rparr> else w)
         else windows_loop ls w wifis)
      else if Contains line ''%'' \<and> length fs = 3 then
        (case Atoi (drop_first (CHR ''%'') (fs ! 2)) of
           None \<Rightarrow> (wifis, False)
         | Some n \<Rightarrow> emit (w\<lparr>RSSI := half n - 100\<rparr>))
      else emit w)"

definition parseWindows :: "string \<Rightarrow> wifi list \<times> bool" where
  "parseWindows output = windows_loop (fst (scan_tokens output)) no_wifi []"

definition darwin_line :: "string \<Rightarrow> wifi list" where
  "darwin_line line =
     (let fs = Fields line in
      if length fs < 6 then []
      else (case Atoi (fs ! 2) of
              None \<Rightarrow> []
            | Some rssi \<Rightarrow> if rssi > 0 then [] else [\<lparr>ESSID = [], SSID = ToLower (fs ! 1), RSSI = rssi\<rparr>]))"

definition parseDarwin :: "string \<Rightarrow> wifi list \<times> bool" where
  "parseDarwin output = (concat (map darwin_line (fst (scan_tokens output))), True)"

text \<open>One line of \<^verbatim>\<open>nmcli dev wifi list\<close>: the name and the strength it gives, if any.\<close>

definition linux_reading :: "string \<Rightarrow> (string \<times> int) option" where
  "linux_reading line =
     (let fields = Fields line in
      if length fields < 8 then None
      else (let startIndex = (if fields ! 0 = ''*'' then 1 else 0); ssid = fields ! (startIndex + 1) in
            if ssid = ''--'' then None
            else (case Atoi (fields ! (startIndex + 6)) of
                    None \<Rightarrow> None
                  | Some signal \<Rightarrow> Some (ssid, half signal - 100))))"

text \<open>The Go map \<^verbatim>\<open>uniqueWifi\<close> is an association list without repeated keys.\<close>

definition note_reading :: "string \<times> int \<Rightarrow> (string \<times> wifi) list \<Rightarrow> (string \<times> wifi) list" where
  "note_reading r uniqueWifi =
     (case r of (ssid, rssi) \<Rightarrow>
        (case map_of uniqueWifi ssid of
           Some existing \<Rightarrow>
             if rssi > RSSI existing then AList.update ssid \<lparr>ESSID = ssid, SSID = ssid, RSSI = rssi\<rparr> uniqueWifi
             else uniqueWifi
         | None \<Rightarrow> AList.update ssid \<lparr>ESSID = ssid, SSID = ssid, RSSI = rssi\<rparr> uniqueWifi))"

text \<open>
  \<open>ord\<close> is the order in which the loop over the map happens to visit it; with it every result of the
  unstable sort is the stable sort of some visiting order.
\<close>

definition parseLinux :: "(wifi list \<Rightarrow> wifi list) \<Rightarrow> string \<Rightarrow> wifi list option" where
  "parseLinux ord output =
     (case scan_tokens output of
        ([], _) \<Rightarrow> None
      | (header # lines, ok) \<Rightarrow>
          if \<not> ok then None
          else Some (take 6 (sort_key (\<lambda>w. - RSSI w)
                 (ord (map snd (fold note_reading (List.map_filter linux_reading lines) []))))))"

definition parse_wifis :: "(wifi list \<Rightarrow> wifi list) \<Rightarrow> string \<Rightarrow> string \<Rightarrow> wifi list \<times> bool" where
  "parse_wifis ord output os =
     (if os = ''windows'' then parseWindows output
      else if os = ''darwin'' then parseDarwin output
      else if os = ''linux'' then (case parseLinux ord output of None \<Rightarrow> ([], False) | Some ws \<Rightarrow> (ws, True))
      else ([], False))"

definition Scan :: "'w platform \<Rightarrow> (wifi list \<Rightarrow> wifi list) \<Rightarrow> 'w device \<Rightarrow> (wifi list \<times> bool) \<times> 'w device" where
  "Scan pf ord d =
     (case runCommand pf ''nmcli dev wifi list --rescan yes'' d of
        ((_, False), d1) \<Rightarrow> (([], False), d1)
      | ((stdout, True), d1) \<Rightarrow> (parse_wifis ord stdout ''linux'', d1))"


subsection \<open>What the list shows\<close>

text \<open>Every reading of the output, after the header line.\<close>

definition readings :: "string \<Rightarrow> (string \<times> int) list" where
  "readings output = List.map_filter linux_reading (drop 1 (fst (scan_tokens output)))"

definition strongest_of :: "(string \<times> int) list \<Rightarrow> wifi \<Rightarrow> bool" where
  "strongest_of rs w \<longleftrightarrow> (SSID w, RSSI w) \<in> set rs \<and> (\<forall>r. (SSID w, r) \<in> set rs \<longrightarrow> r \<le> RSSI w)"

definition tracks :: "(string \<times> int) list \<Rightarrow> (string \<times> wifi) list \<Rightarrow> bool" where
  "tracks rs m \<longleftrightarrow> distinct (map fst m) \<and> fst ` set m = fst ` set rs \<and>
     (\<forall>(k, w) \<in> set m. SSID w = k \<and> strongest_of rs w)"

lemma tracks_Nil [simp]: "tracks [] []"
  by (simp add: tracks_def)

lemma set_update_distinct:
  "distinct (map fst m) \<Longrightarrow> set (AList.update k v m) = insert (k, v) {p \<in> set m. fst p \<noteq> k}"
  by (induction m) (force simp: image_iff)+

lemma note_reading_tracks:
  assumes "tracks rs m"
  shows "tracks (rs @ [(s, r)]) (note_reading (s, r) m)"
proof (cases "map_of m s")
  case None
  then have k: "s \<notin> fst ` set rs" using assms by (auto simp: tracks_def map_of_eq_None_iff)
  have d: "distinct (map fst m)" using assms by (simp add: tracks_def)
  show ?thesis using assms k None
    by (auto simp: note_reading_def tracks_def distinct_update set_update_distinct strongest_of_def image_iff)
next
  case (Some w)
  have d: "distinct (map fst m)" using assms by (simp add: tracks_def)
  from Some have w: "(s, w) \<in> set m" by (rule map_of_SomeD)
  then have u: "(s, w') \<in> set m \<Longrightarrow> w' = w" for w' using d by (metis map_of_eq_Some_iff option.inject)
  have m: "\<And>k v. (k, v) \<in> set m \<Longrightarrow> SSID v = k \<and> strongest_of rs v" using assms by (auto simp: tracks_def)
  have i: "fst ` set m = fst ` set rs" using assms by (simp add: tracks_def)
  show ?thesis
  proof (cases "r > RSSI w")
    case True
    have "tracks (rs @ [(s, r)]) (AList.update s \<lparr>ESSID = s, SSID = s, RSSI = r\<rparr> m)"
      unfolding tracks_def
    proof (intro conjI ballI)
      show "distinct (map fst (AList.update s \<lparr>ESSID = s, SSID = s, RSSI = r\<rparr> m))" using d by (rule distinct_update)
      show "fst ` set (AList.update s \<lparr>ESSID = s, SSID = s, RSSI = r\<rparr> m) = fst ` set (rs @ [(s, r)])"
        using i by (auto simp: set_update_distinct [OF d])
      fix p assume p: "p \<in> set (AList.update s \<lparr>ESSID = s, SSID = s, RSSI = r\<rparr> m)"
      obtain k v where kv: "p = (k, v)" by (cases p)
      show "case p of (k, v) \<Rightarrow> SSID v = k \<and> strongest_of (rs @ [(s, r)]) v"
        using p kv m [of k v] m [OF w] True
        by (auto simp: set_update_distinct [OF d] strongest_of_def)
    qed
    with True Some show ?thesis by (simp add: note_reading_def)
  next
    case False
    have "tracks (rs @ [(s, r)]) m"
      unfolding tracks_def
    proof (intro conjI ballI)
      show "distinct (map fst m)" by (rule d)
      show "fst ` set m = fst ` set (rs @ [(s, r)])" using i w by force
      fix p assume p: "p \<in> set m"
      obtain k v where kv: "p = (k, v)" by (cases p)
      show "case p of (k, v) \<Rightarrow> SSID v = k \<and> strongest_of (rs @ [(s, r)]) v"
        using p kv m [of k v] u [of v] False by (auto simp: strongest_of_def)
    qed
    with False Some show ?thesis by (simp add: note_reading_def)
  qed
qed

lemma fold_tracks: "tracks rs m \<Longrightarrow> tracks (rs @ qs) (fold note_reading qs m)"
proof (induction qs arbitrary: rs m)
  case (Cons q qs)
  obtain s r where "q = (s, r)" by (cases q)
  with Cons.IH [of "rs @ [q]" "note_reading q m"] note_reading_tracks [OF Cons.prems, of s r] show ?case by simp
qed simp

text \<open>
  The list shown at set-up holds at most six networks, each name once and with its strongest
  reading, strongest first; a network that was read but is not shown is no stronger than any of the six
  that are. This holds for every order in which the map is visited.
\<close>

lemma scan_lists_strongest:
  assumes "\<And>xs. mset (ord xs) = mset xs" and "parseLinux ord output = Some ws"
  shows "length ws \<le> 6 \<and> sorted_wrt (\<lambda>a b. RSSI b \<le> RSSI a) ws \<and> distinct (map SSID ws) \<and>
    (\<forall>w \<in> set ws. strongest_of (readings output) w) \<and>
    (\<forall>s r. (s, r) \<in> set (readings output) \<and> s \<notin> SSID ` set ws \<longrightarrow> length ws = 6 \<and> (\<forall>w \<in> set ws. r \<le> RSSI w))"
proof -
  let ?rs = "readings output"
  define m where "m = fold note_reading ?rs []"
  define all where "all = sort_key (\<lambda>w. - RSSI w) (ord (map snd m))"
  have ws: "ws = take 6 all"
    using assms(2) by (auto simp: parseLinux_def readings_def m_def all_def split: prod.splits list.splits if_splits)
  have t: "tracks ?rs m" using fold_tracks [OF tracks_Nil, of ?rs] by (simp add: m_def)
  have ms: "mset all = mset (map snd m)" by (simp add: all_def assms(1))
  then have set_all: "set all = snd ` set m" by (metis set_mset_mset set_map)
  have key: "\<And>k w. (k, w) \<in> set m \<Longrightarrow> SSID w = k \<and> strongest_of ?rs w" using t by (auto simp: tracks_def)
  have "map SSID (map snd m) = map fst m" using key by (auto simp: case_prod_beta)
  then have "distinct (map SSID (map snd m))" using t by (simp only: tracks_def)
  moreover have "mset (map SSID all) = mset (map SSID (map snd m))" using ms by (simp add: mset_map del: map_map)
  ultimately have d: "distinct (map SSID all)" using mset_eq_imp_distinct_iff by blast
  have "sorted (map (\<lambda>w. - RSSI w) all)" by (simp add: all_def)
  then have s: "sorted_wrt (\<lambda>a b. RSSI b \<le> RSSI a) all" by (simp add: sorted_map)
  show ?thesis
  proof (intro conjI ballI allI impI)
    show "length ws \<le> 6" using ws by simp
    show "sorted_wrt (\<lambda>a b. RSSI b \<le> RSSI a) ws" unfolding ws using s by (rule sorted_wrt_take)
    show "distinct (map SSID ws)" using d by (simp add: ws flip: take_map)
    show "strongest_of ?rs w" if "w \<in> set ws" for w
      using in_set_takeD [OF that [unfolded ws]] set_all key by auto
    fix s' r assume a: "(s', r) \<in> set ?rs \<and> s' \<notin> SSID ` set ws"
    then have "s' \<in> fst ` set ?rs" by (metis fst_conv image_eqI)
    with t have "s' \<in> fst ` set m" by (simp only: tracks_def)
    then obtain v where v: "(s', v) \<in> set m" by (metis imageE prod.collapse)
    with key have sv: "SSID v = s'" "strongest_of ?rs v" by auto
    have "v \<in> set all" using v set_all by (metis image_eqI snd_conv)
    moreover have "v \<notin> set ws" using a sv by blast
    ultimately have dv: "v \<in> set (drop 6 all)" unfolding ws by (metis Un_iff append_take_drop_id set_append)
    then show "length ws = 6" using ws by (cases "length all \<le> 6") auto
    have "r \<le> RSSI v" using a sv by (auto simp: strongest_of_def)
    moreover have "sorted_wrt (\<lambda>a b. RSSI b \<le> RSSI a) (ws @ drop 6 all)" using s by (simp add: ws)
    then have "RSSI v \<le> RSSI w" if "w \<in> set ws" for w using dv that by (simp add: sorted_wrt_append)
    ultimately show "r \<le> RSSI w" if "w \<in> set ws" for w using that by fastforce
  qed
qed

text \<open>
  The fields are counted from the left, so the blanks of a network name shift the columns: a name with
  one blank is never listed, and of a name with two blanks the first word is listed, with the bit rate
  taken for the signal.
\<close>

lemma scan_misses_blank_names:
  assumes "Fields line = bssid # s1 # s2 # mode # chan # rate # ''Mbit/s'' # signal # rest" and "bssid \<noteq> ''*''"
  shows "linux_reading line = None"
  using assms by (simp add: linux_reading_def Let_def Atoi_def hex_val_def numeral_eq_Suc)

lemma scan_misreads_long_names:
  assumes "Fields line = bssid # s1 # s2 # s3 # mode # chan # rate # ''Mbit/s'' # signal # rest"
    and "bssid \<noteq> ''*''" and "s1 \<noteq> ''--''" and "Atoi rate = Some n"
  shows "linux_reading line = Some (s1, half n - 100)"
  using assms by (simp add: linux_reading_def Let_def numeral_eq_Suc)

section \<open>The hotspot\<close>

text \<open>What these functions need besides the platform, as arguments of the model.\<close>

record docker_container =
  dc_ID :: string
  dc_Names :: "string list"
  dc_Image :: string
  dc_ImageID :: string

record container_json =
  cj_ID :: string
  cj_Image :: string
  cj_ConfigImage :: string
  cj_Labels :: json
  cj_Created :: string

record image_json =
  ij_Created :: string
  ij_RepoDigests :: "string list"

record 'w tools =
  goos :: string
  ContainerList :: "'w \<Rightarrow> docker_container list option \<times> 'w"
  ContainerInspect :: "string \<Rightarrow> 'w \<Rightarrow> container_json option \<times> 'w"
  ImageInspect :: "string \<Rightarrow> 'w \<Rightarrow> image_json option \<times> 'w"
  ContainerLogs :: "string \<Rightarrow> string \<Rightarrow> 'w \<Rightarrow> string option \<times> 'w"
  repo_stat :: "'w \<Rightarrow> body option \<times> 'w"
  ParseFloat32 :: "string \<Rightarrow> json option"
  ini_psk :: "fcontent \<Rightarrow> string option"
  CreateTemp :: "'w \<Rightarrow> string option \<times> 'w"

text \<open>\<^verbatim>\<open>cmd.Run()\<close> and \<^verbatim>\<open>cmd.Output()\<close> of a command that is not split: \<^const>\<open>True\<close> is a nil error.\<close>

definition run_direct :: "'w platform \<Rightarrow> string list \<Rightarrow> 'w device \<Rightarrow> bool \<times> 'w device" where
  "run_direct pf argv d = (case on_world (exec pf argv) d of (Exited True _, d1) \<Rightarrow> (True, d1) | (_, d1) \<Rightarrow> (False, d1))"

definition run_output :: "'w platform \<Rightarrow> string list \<Rightarrow> 'w \<Rightarrow> string option \<times> 'w" where
  "run_output pf argv w = (case exec pf argv w of (Exited True out, w1) \<Rightarrow> (Some out, w1) | (_, w1) \<Rightarrow> (None, w1))"

definition parseHotspotWindows :: "string \<Rightarrow> bool" where
  "parseHotspotWindows output =
     list_ex (\<lambda>l. Contains l ''Hosted network supported'' \<and> length (Fields l) = 5 \<and> Fields l ! 4 = ''Yes'')
       (fst (scan_tokens output))"

definition parseHotspotDarwin :: "string \<Rightarrow> bool" where
  "parseHotspotDarwin output = list_ex (\<lambda>l. Contains l ''Wi-Fi'') (fst (scan_tokens output))"

definition parseHotspotLinux :: "string \<Rightarrow> bool" where
  "parseHotspotLinux output = list_ex (\<lambda>l. Contains (ToLower l) ''device supports ap'') (fst (scan_tokens output))"

definition parseHotspot :: "string \<Rightarrow> string \<Rightarrow> bool option" where
  "parseHotspot output os =
     (if os = ''windows'' then Some (parseHotspotWindows output)
      else if os = ''darwin'' then Some (parseHotspotDarwin output)
      else if os = ''linux'' then Some (parseHotspotLinux output)
      else None)"

definition CheckHotspotSupported :: "'w tools \<Rightarrow> 'w platform \<Rightarrow> 'w device \<Rightarrow> bool option \<times> 'w device" where
  "CheckHotspotSupported ts pf d =
     (let (os, command) =
        (if goos ts = ''windows'' then (''windows'', ''netsh wlan show drivers'')
         else if goos ts = ''darwin'' then (''darwin'', ''networksetup -listallhardwareports'')
         else (''linux'', ''iw list'')) in
      case runCommand pf command d of
        ((_, False), d1) \<Rightarrow> (None, d1)
      | ((stdout, True), d1) \<Rightarrow> (parseHotspot stdout os, d1))"

definition hotspot_file :: string where
  "hotspot_file = ''/etc/NetworkManager/system-connections/FxBlox.nmconnection''"

definition unlines :: "string list \<Rightarrow> string" where
  "unlines ls = concat (map (\<lambda>l. l @ [newline]) ls)"

definition writeHotspotConnectionFile :: "'w device \<Rightarrow> bool \<times> 'w device" where
  "writeHotspotConnectionFile d =
     WriteFile hotspot_file (Text (unlines [''[connection]'', ''id=FxBlox'', ''type=wifi'', ''autoconnect=false'', [],
       ''[wifi]'', ''mode=ap'', ''ssid=FxBlox'', [], ''[ipv4]'', ''method=shared'', [], ''[ipv6]'', ''method=shared''])) d"

definition go_sleep :: "'w env \<Rightarrow> int \<Rightarrow> 'w device \<Rightarrow> 'w device" where
  "go_sleep env ns d = snd (wait_for env ns d)"

text \<open>\<^const>\<open>True\<close> is a nil error.\<close>

definition startHotspotLinux :: "'w env \<Rightarrow> 'w platform \<Rightarrow> 'w device \<Rightarrow> bool \<times> 'w device" where
  "startHotspotLinux env pf d =
     (case runCommand pf ''nmcli connection delete FxBlox'' d of
        (_, d1) \<Rightarrow>
          let d2 = go_sleep env (2 * second) d1;
              activate = (\<lambda>d. let d' = go_sleep env (2 * second) d in
                case runCommand pf ''nmcli connection up FxBlox'' d' of ((_, ok), d'') \<Rightarrow> (ok, d'')) in
          case runCommand pf ''nmcli connection add type wifi con-name FxBlox autoconnect no wifi.mode ap wifi.ssid FxBlox ipv4.method shared ipv6.method shared'' d2 of
            ((_, True), d3) \<Rightarrow> activate d3
          | ((_, False), d3) \<Rightarrow>
              (case writeHotspotConnectionFile d3 of
                 (False, d4) \<Rightarrow> (False, d4)
               | (True, d4) \<Rightarrow>
                   (case runCommand pf ''nmcli connection reload'' d4 of
                      ((_, False), d5) \<Rightarrow> (False, d5)
                    | ((_, True), d5) \<Rightarrow> activate d5)))"

definition StartHotspot :: "'w env \<Rightarrow> 'w tools \<Rightarrow> 'w platform \<Rightarrow> bool \<Rightarrow> 'w device \<Rightarrow> bool \<times> 'w device" where
  "StartHotspot env ts pf forceReload d =
     (let start = (\<lambda>command d. case runCommand pf command d of ((_, ok), d1) \<Rightarrow> (ok, go_sleep env (2 * second) d1)) in
      if goos ts = ''windows'' then
        (let d1 = snd (runCommand pf ''netsh wlan set hostednetwork mode=allow ssid=FxBlox'' d);
             d2 = (if forceReload then
                     go_sleep env (3 * second)
                       (snd (runCommand pf ''netsh interface set interface name=Wi-Fi admin=enabled''
                         (snd (runCommand pf ''netsh interface set interface name=Wi-Fi admin=disabled'' d1))))
                   else d1) in
         start ''netsh wlan start hostednetwork'' d2)
      else if goos ts = ''darwin'' then
        start ''/System/Library/PrivateFrameworks/Apple80211.framework/Versions/Current/Resources/createbssid -n FxBlox'' d
      else startHotspotLinux env pf d)"

fun run_until_error :: "'w platform \<Rightarrow> string list \<Rightarrow> 'w device \<Rightarrow> bool \<times> 'w device" where
  "run_until_error pf [] d = (True, d)"
| "run_until_error pf (c # cs) d =
     (case runCommand pf c d of ((_, False), d1) \<Rightarrow> (False, d1) | ((_, True), d1) \<Rightarrow> run_until_error pf cs d1)"

definition StopHotspot :: "'w tools \<Rightarrow> 'w platform \<Rightarrow> 'w device \<Rightarrow> bool \<times> 'w device" where
  "StopHotspot ts pf d =
     run_until_error pf
       (if goos ts = ''windows'' then [''netsh wlan stop hostednetwork'']
        else if goos ts = ''darwin'' then
          [''/System/Library/PrivateFrameworks/Apple80211.framework/Versions/Current/Resources/createbssid -n FxBlox'']
        else [''nmcli r wifi off'', ''nmcli r wifi on'']) d"

text \<open>The text before and after the last occurrence of a character.\<close>

definition cut_last :: "char \<Rightarrow> string \<Rightarrow> (string \<times> string) option" where
  "cut_last c s =
     (if c \<in> set s then
        (let tail = takeWhile (\<lambda>x. x \<noteq> c) (rev s) in Some (take (length s - length tail - 1) s, rev tail))
      else None)"

fun bring_down :: "'w platform \<Rightarrow> string list \<Rightarrow> 'w device \<Rightarrow> 'w device" where
  "bring_down pf [] d = d"
| "bring_down pf (l # ls) d =
     (case cut_last (CHR '':'') (TrimSpace l) of
        Some (network, connType) \<Rightarrow>
          if network \<noteq> ''FxBlox'' \<and> connType = ''802-11-wireless''
          then bring_down pf ls (snd (run_direct pf [''nmcli'', ''connection'', ''down'', network] d))
          else bring_down pf ls d
      | None \<Rightarrow> bring_down pf ls d)"

definition DisconnectFromExternalWifi :: "'w tools \<Rightarrow> 'w platform \<Rightarrow> 'w device \<Rightarrow> bool \<times> 'w device" where
  "DisconnectFromExternalWifi ts pf d =
     (if goos ts = ''windows'' then (True, d)
      else (case runCommand pf ''nmcli --terse --fields NAME,TYPE connection show --active'' d of
              ((_, False), d1) \<Rightarrow> (False, d1)
            | ((output, True), d1) \<Rightarrow> (True, bring_down pf (split_char newline output) d1)))"

definition CheckConnection :: "'w platform \<Rightarrow> 'w device \<Rightarrow> bool \<times> 'w device" where
  "CheckConnection pf d =
     (case runCommand pf ''nmcli -t -f DEVICE,STATE device status'' d of
        ((_, False), d1) \<Rightarrow> (False, d1)
      | ((stdout, True), d1) \<Rightarrow> (Contains stdout ''wlan0:connected'', d1))"

section \<open>Joining a network\<close>

text \<open>\<^const>\<open>True\<close> is a nil error throughout; the interface name is empty for "any".\<close>

fun linked :: "'w platform \<Rightarrow> string list \<Rightarrow> 'w device \<Rightarrow> bool \<times> 'w device" where
  "linked pf [] d = (False, d)"
| "linked pf (iface # ifaces) d =
     (case runCommand pf (''iw dev '' @ iface @ '' link'') d of
        ((_, False), d1) \<Rightarrow> linked pf ifaces d1
      | ((stdout, True), d1) \<Rightarrow>
          if Contains stdout ''Not connected'' then linked pf ifaces d1
          else if Contains stdout ''Connected to'' \<and> \<not> Contains stdout ''FxBlox'' then (True, d1)
          else linked pf ifaces d1)"

definition iw_interfaces :: "string \<Rightarrow> string list" where
  "iw_interfaces stdout =
     concat (map (\<lambda>l. if Contains l ''Interface'' \<and> length (Fields l) > 1 then [Fields l ! 1] else []) (fst (scan_tokens stdout)))"

definition checkIfIsConnectedLinux :: "'w platform \<Rightarrow> string \<Rightarrow> 'w device \<Rightarrow> bool \<times> 'w device" where
  "checkIfIsConnectedLinux pf interfaceName d =
     (if interfaceName = [] then
        (case runCommand pf ''iw dev'' d of
           ((_, False), d1) \<Rightarrow> (False, d1)
         | ((stdout, True), d1) \<Rightarrow> linked pf (iw_interfaces stdout) d1)
      else linked pf [interfaceName] d)"

definition CheckIfIsConnectedWifi :: "'w tools \<Rightarrow> 'w platform \<Rightarrow> string \<Rightarrow> 'w device \<Rightarrow> bool \<times> 'w device" where
  "CheckIfIsConnectedWifi ts pf interfaceName d =
     (if goos ts = ''linux'' then checkIfIsConnectedLinux pf interfaceName d else (False, d))"

definition CheckIfIsConnected :: "'w tools \<Rightarrow> 'w platform \<Rightarrow> string \<Rightarrow> 'w device \<Rightarrow> bool \<times> 'w device" where
  "CheckIfIsConnected ts pf interfaceName d =
     (if goos ts \<noteq> ''linux'' then (False, d)
      else (case CheckIfIsConnectedWifi ts pf interfaceName d of
              (False, d1) \<Rightarrow> run_direct pf [''ping'', ''-c'', ''1'', ''-W'', ''5'', ''google.com''] d1
            | (True, d1) \<Rightarrow>
                (case runCommand pf ''nmcli -t -f NAME connection show --active'' d1 of
                   ((stdout, ok), d2) \<Rightarrow> (\<not> (ok \<and> Contains stdout ''FxBlox''), d2))))"

definition DeleteConnection :: "'w platform \<Rightarrow> string \<Rightarrow> 'w device \<Rightarrow> 'w device" where
  "DeleteConnection pf connectionName d =
     snd (runCommand pf (''nmcli con delete '' @ connectionName) (snd (runCommand pf (''nmcli con down '' @ connectionName) d)))"

definition connection_file :: "string \<Rightarrow> string" where
  "connection_file connectionName = ''/etc/NetworkManager/system-connections/'' @ connectionName @ ''.nmconnection''"

definition writeWifiConnectionFile :: "string \<Rightarrow> string \<Rightarrow> string \<Rightarrow> 'w device \<Rightarrow> bool \<times> 'w device" where
  "writeWifiConnectionFile connectionName ssid password d =
     WriteAt (connection_file connectionName)
       (unlines [''[connection]'', ''id='' @ connectionName, ''type=wifi'', ''interface-name=*'', [], ''[wifi]'', ''ssid='' @ ssid, [],
          ''[wifi-security]'', ''key-mgmt=wpa-psk'', ''psk='' @ password, [], ''[ipv4]'', ''method=auto'', [], ''[ipv6]'', ''method=auto'']) d"

definition createConnection :: "'w platform \<Rightarrow> string \<Rightarrow> string \<Rightarrow> string \<Rightarrow> 'w device \<Rightarrow> bool \<times> 'w device" where
  "createConnection pf connectionName ssid password d =
     (case run_direct pf [''nmcli'', ''con'', ''add'', ''type'', ''wifi'', ''ifname'', ''*'', ''con-name'', connectionName, ''ssid'', ssid] d of
        (False, d1) \<Rightarrow>
          (case writeWifiConnectionFile connectionName ssid password d1 of
             (False, d2) \<Rightarrow> (False, d2)
           | (True, d2) \<Rightarrow> (case runCommand pf ''nmcli connection reload'' d2 of ((_, ok), d3) \<Rightarrow> (ok, d3)))
      | (True, d1) \<Rightarrow>
          run_direct pf [''nmcli'', ''con'', ''modify'', connectionName, ''wifi-sec.key-mgmt'', ''wpa-psk'', ''wifi-sec.psk'', password] d1)"

definition getDeviceOfConnection :: "'w platform \<Rightarrow> string \<Rightarrow> 'w device \<Rightarrow> string option \<times> 'w device" where
  "getDeviceOfConnection pf connectionName d =
     (case runCommand pf (''nmcli -g GENERAL.DEVICES con show '' @ [CHR 0x22] @ connectionName @ [CHR 0x22]) d of
        ((_, False), d1) \<Rightarrow> (None, d1)
      | ((stdout, True), d1) \<Rightarrow> (Some (TrimSpace stdout), d1))"

definition connectToNetwork :: "'w env \<Rightarrow> 'w tools \<Rightarrow> 'w platform \<Rightarrow> string \<Rightarrow> 'w device \<Rightarrow> bool \<times> 'w device" where
  "connectToNetwork env ts pf connectionName d =
     (case run_direct pf [''nmcli'', ''con'', ''up'', connectionName, ''--ask''] d of
        (False, d1) \<Rightarrow> (False, d1)
      | (True, d1) \<Rightarrow>
          (case getDeviceOfConnection pf connectionName (go_sleep env (10 * second) d1) of
             (None, d2) \<Rightarrow> (False, d2)
           | (Some interfaceName, d2) \<Rightarrow>
               (case CheckIfIsConnected ts pf interfaceName d2 of
                  (False, d3) \<Rightarrow> (False, d3)
                | (True, d3) \<Rightarrow>
                    run_until_error pf [''nmcli connection modify '' @ connectionName @ '' connection.autoconnect yes'',
                      ''nmcli connection modify '' @ connectionName @ '' connection.autoconnect-priority 20''] d3)))"

definition activateHotspot :: "'w platform \<Rightarrow> 'w device \<Rightarrow> 'w device" where
  "activateHotspot pf d = snd (runCommand pf ''nmcli connection up FxBlox'' d)"

record credentials =
  cr_SSID :: string
  cr_Password :: string

definition connectLinux :: "'w env \<Rightarrow> 'w tools \<Rightarrow> 'w platform \<Rightarrow> credentials \<Rightarrow> 'w device \<Rightarrow> bool \<times> 'w device" where
  "connectLinux env ts pf creds d =
     (let connectionName = map (\<lambda>c. if c = CHR '' '' then CHR ''_'' else c) (cr_SSID creds) in
      case createConnection pf connectionName (cr_SSID creds) (cr_Password creds) (DeleteConnection pf connectionName d) of
        (False, d1) \<Rightarrow> (False, activateHotspot pf d1)
      | (True, d1) \<Rightarrow>
          (case connectToNetwork env ts pf connectionName d1 of
             (False, d2) \<Rightarrow> (False, activateHotspot pf (DeleteConnection pf connectionName d2))
           | (True, d2) \<Rightarrow> (True, DeleteConnection pf ''FxBlox'' d2)))"

definition ConnectWifi :: "'w env \<Rightarrow> 'w tools \<Rightarrow> 'w platform \<Rightarrow> credentials \<Rightarrow> 'w device \<Rightarrow> bool \<times> 'w device" where
  "ConnectWifi env ts pf creds d = (if goos ts = ''linux'' then connectLinux env ts pf creds d else (False, d))"

text \<open>
  \<^verbatim>\<open>runCommands\<close> tries the whole list up to five times and then reports success whatever happened.
  \<open>fin\<close> tells whether the context has ended.
\<close>

fun run_commands :: "'w platform \<Rightarrow> ('w \<Rightarrow> bool) \<Rightarrow> string list \<Rightarrow> 'w device \<Rightarrow> (bool \<times> bool) \<times> 'w device" where
  "run_commands pf fin [] d = ((True, False), d)"
| "run_commands pf fin (c # cs) d =
     (case runCommand pf c d of
        ((_, False), d1) \<Rightarrow> ((False, False), d1)
      | ((_, True), d1) \<Rightarrow> if fin (world d1) then ((True, True), d1) else run_commands pf fin cs d1)"

fun runCommands :: "'w platform \<Rightarrow> ('w \<Rightarrow> bool) \<Rightarrow> nat \<Rightarrow> string list \<Rightarrow> 'w device \<Rightarrow> bool \<times> 'w device" where
  "runCommands pf fin 0 cs d = (True, d)"
| "runCommands pf fin (Suc n) cs d =
     (case run_commands pf fin cs d of
        ((_, True), d1) \<Rightarrow> (False, d1)
      | ((True, False), d1) \<Rightarrow> (True, d1)
      | ((False, False), d1) \<Rightarrow> if fin (world d1) then (False, d1) else runCommands pf fin n cs d1)"

definition maxRetries :: nat where
  "maxRetries = 4"

definition disconnectLinux :: "'w tools \<Rightarrow> 'w platform \<Rightarrow> ('w \<Rightarrow> bool) \<Rightarrow> 'w device \<Rightarrow> bool \<times> 'w device" where
  "disconnectLinux ts pf fin d =
     (case runCommands pf fin (maxRetries + 1) [concat [''nmcli'', ''con'', ''down'', ''type'', ''wifi'']] d of
        (False, d1) \<Rightarrow> (False, d1)
      | (True, d1) \<Rightarrow> CheckIfIsConnected ts pf [] d1)"

definition DisconnectWifi_wifi :: "'w tools \<Rightarrow> 'w platform \<Rightarrow> ('w \<Rightarrow> bool) \<Rightarrow> 'w device \<Rightarrow> bool \<times> 'w device" where
  "DisconnectWifi_wifi ts pf fin d = (if goos ts = ''linux'' then disconnectLinux ts pf fin d else (False, d))"

text \<open>The password that a saved connection keeps.\<close>

definition readWiFiPasswordFromFile :: "'w tools \<Rightarrow> string \<Rightarrow> 'w device \<Rightarrow> string option" where
  "readWiFiPasswordFromFile ts connectionName d =
     (case ReadAt (connection_file connectionName) d of Ok f \<Rightarrow> ini_psk ts f | _ \<Rightarrow> None)"

definition getWiFiPassword :: "'w tools \<Rightarrow> 'w platform \<Rightarrow> string \<Rightarrow> 'w device \<Rightarrow> string option \<times> 'w device" where
  "getWiFiPassword ts pf connectionName d =
     (case runCommand pf (''nmcli -s -g 802-11-wireless-security.psk connection show '' @ connectionName @
         '' | tr -d '' @ [CHR 0x27, newline, CHR 0x27]) d of
        ((stdout, True), d1) \<Rightarrow> (Some (TrimSpace stdout), d1)
      | ((_, False), d1) \<Rightarrow> (map_option TrimSpace (readWiFiPasswordFromFile ts connectionName d1), d1))"

text \<open>The temporary file with the password is removed on every way out.\<close>

definition with_password_file ::
  "'w tools \<Rightarrow> string \<Rightarrow> 'w device \<Rightarrow> (string \<Rightarrow> 'w device \<Rightarrow> bool \<times> 'w device) \<Rightarrow> bool \<times> 'w device" where
  "with_password_file ts passwd d k =
     (case on_world (CreateTemp ts) d of
        (None, d1) \<Rightarrow> (False, d1)
      | (Some p, d1) \<Rightarrow>
          (case WriteFile p (Text (''802-11-wireless-security.psk:'' @ passwd)) d1 of
             (False, d2) \<Rightarrow> (False, RemoveFile p d2)
           | (True, d2) \<Rightarrow> (case k p d2 of (ok, d3) \<Rightarrow> (ok, RemoveFile p d3))))"

definition connectToFirstWifi :: "'w env \<Rightarrow> 'w tools \<Rightarrow> 'w platform \<Rightarrow> string list \<Rightarrow> 'w device \<Rightarrow> bool \<times> 'w device" where
  "connectToFirstWifi env ts pf connections d =
     (case connections of
        [] \<Rightarrow> (False, d)
      | connection # _ \<Rightarrow>
          (case runCommand pf (''nmcli connection up '' @ connection) d of
             ((_, True), d1) \<Rightarrow> (True, d1)
           | ((_, False), d1) \<Rightarrow>
               (case getWiFiPassword ts pf connection d1 of
                  (None, d2) \<Rightarrow> (False, d2)
                | (Some passwd, d2) \<Rightarrow>
                    if passwd = [] then (True, d2)
                    else with_password_file ts passwd d2 (\<lambda>p d3.
                      case runCommand pf (''nmcli connection up '' @ connection @ '' passwd-file '' @ p) d3 of
                        ((_, True), d4) \<Rightarrow> (True, d4)
                      | ((_, False), d4) \<Rightarrow>
                          connectToNetwork env ts pf connection
                            (snd (createConnection pf connection connection passwd (DeleteConnection pf connection d4)))))))"

definition ConnectToSavedWifi :: "'w env \<Rightarrow> 'w tools \<Rightarrow> 'w platform \<Rightarrow> 'w device \<Rightarrow> bool \<times> 'w device" where
  "ConnectToSavedWifi env ts pf d =
     (case getWifiConnections pf d of
        (None, d1) \<Rightarrow> (False, d1)
      | (Some connections, d1) \<Rightarrow> connectToFirstWifi env ts pf connections d1)"

definition EnsureHotspotActive :: "'w env \<Rightarrow> 'w tools \<Rightarrow> 'w platform \<Rightarrow> 'w device \<Rightarrow> bool \<times> 'w device" where
  "EnsureHotspotActive env ts pf d =
     (case runCommand pf ''nmcli -t -f NAME,STATE connection show --active'' d of
        ((stdout, ok), d1) \<Rightarrow>
          if ok \<and> Contains stdout ''FxBlox:activated'' then (True, d1)
          else (case runCommand pf ''nmcli connection up FxBlox'' d1 of
                  ((_, True), d2) \<Rightarrow> (True, d2)
                | ((_, False), d2) \<Rightarrow> StartHotspot env ts pf True d2))"

section \<open>Containers, disks and logs\<close>

definition GetDockerImageBuildDates_image :: "docker_container \<Rightarrow> image_json \<Rightarrow> json" where
  "GetDockerImageBuildDates_image c i =
     JObj [(''container_name'', JStr (case dc_Names c of [] \<Rightarrow> [] | n # _ \<Rightarrow> TrimPrefix n ''/'')),
           (''image_name'', JStr (dc_Image c)), (''image_created'', JStr (ij_Created i)),
           (''image_digest'', JStr (case ij_RepoDigests i of [] \<Rightarrow> [] | g # _ \<Rightarrow> g))]"

fun image_dates :: "'w tools \<Rightarrow> docker_container list \<Rightarrow> 'w \<Rightarrow> json list \<times> 'w" where
  "image_dates ts [] w = ([], w)"
| "image_dates ts (c # cs) w =
     (case ImageInspect ts (dc_ImageID c) w of
        (i, w1) \<Rightarrow>
          (case image_dates ts cs w1 of
             (js, w2) \<Rightarrow> ((case i of None \<Rightarrow> js | Some x \<Rightarrow> GetDockerImageBuildDates_image c x # js), w2)))"

definition GetDockerImageBuildDates_wifi :: "'w tools \<Rightarrow> 'w \<Rightarrow> json option \<times> 'w" where
  "GetDockerImageBuildDates_wifi ts w =
     (case ContainerList ts w of
        (None, w1) \<Rightarrow> (None, w1)
      | (Some cs, w1) \<Rightarrow>
          (case image_dates ts cs w1 of
             (js, w2) \<Rightarrow> (Some (JObj [(''images'', if js = [] then JNull else JArr js)]), w2)))"

definition DockerInfo :: "container_json \<Rightarrow> image_json \<Rightarrow> json" where
  "DockerInfo c i =
     JObj [(''image'', JStr (cj_ConfigImage c)), (''version'', JStr (cj_Image c)), (''id'', JStr (cj_ID c)), (''labels'', cj_Labels c),
           (''created'', JStr (cj_Created c)), (''repo_digests'', JArr (map JStr (ij_RepoDigests i)))]"

text \<open>The loop over the containers does not stop at a match: the last one with the name counts.\<close>

definition GetContainerInfo :: "'w tools \<Rightarrow> string \<Rightarrow> 'w \<Rightarrow> json option \<times> 'w" where
  "GetContainerInfo ts containerName w =
     (case ContainerList ts w of
        (None, w1) \<Rightarrow> (None, w1)
      | (Some cs, w1) \<Rightarrow>
          (let containerID = foldl (\<lambda>i c. if CHR ''/'' # containerName \<in> set (dc_Names c) then dc_ID c else i) [] cs in
           if containerID = [] then (None, w1)
           else (case ContainerInspect ts containerID w1 of
                   (None, w2) \<Rightarrow> (None, w2)
                 | (Some c, w2) \<Rightarrow>
                     (case ImageInspect ts (cj_Image c) w2 of
                        (None, w3) \<Rightarrow> (None, w3)
                      | (Some i, w3) \<Rightarrow> (Some (DockerInfo c i), w3)))))"

definition GetFolderSize_wifi :: "'w platform \<Rightarrow> json \<Rightarrow> 'w \<Rightarrow> json option \<times> 'w" where
  "GetFolderSize_wifi pf req w =
     (let folderPath = text_of (entry ''folder_path'' req) in
      case run_output pf [''sh'', ''-c'', ''du -sb '' @ folderPath @ '' | cut -f1''] w of
        (None, w1) \<Rightarrow> (None, w1)
      | (Some out, w1) \<Rightarrow>
          (case Atoi (TrimSpace out) of
             None \<Rightarrow> (None, w1)
           | Some n \<Rightarrow> (Some (JObj [(''folder_path'', JStr folderPath), (''size'', JStr (Itoa n))]), w1)))"

definition getDatastoreSizeResponseLocal :: gty where
  "getDatastoreSizeResponseLocal = GStruct [(''RepoSize'', GInt, False), (''StorageMax'', GInt, False), (''NumObjects'', GInt, False),
     (''RepoPath'', GStr, False), (''Version'', GStr, False)]"

fun num_of :: "json \<Rightarrow> int" where
  "num_of (JNum i) = i"
| "num_of _ = 0"

definition GetDatastoreSize_wifi :: "'w tools \<Rightarrow> 'w \<Rightarrow> json option \<times> 'w" where
  "GetDatastoreSize_wifi ts w =
     (case repo_stat ts w of
        (None, w1) \<Rightarrow> (None, w1)
      | (Some b, w1) \<Rightarrow>
          (case Option.bind (unmarshal b) (decode_new getDatastoreSizeResponseLocal) of
             None \<Rightarrow> (None, w1)
           | Some r \<Rightarrow>
               (Some (JObj [(''size'', JStr (Itoa (num_of (entry ''RepoSize'' r)))), (''storage_max'', JStr (Itoa (num_of (entry ''StorageMax'' r)))),
                  (''count'', JStr (Itoa (num_of (entry ''NumObjects'' r)))), (''folder_path'', entry ''RepoPath'' r),
                  (''version'', entry ''Version'' r)]), w1)))"

definition free_space_command :: string where
  "free_space_command = ''df -B1 2>/dev/null | grep -nE '' @ [CHR 0x27] @ ''/storage/(usb|sd[a-z]|nvme)'' @ [CHR 0x27] @
     '' | awk '' @ [CHR 0x27] @ ''{sum2+=$2; sum3+=$3; sum4+=$4; sum5+=$5} END { print NR \",\" sum2 \",\" sum3 \",\" sum4 \",\" sum5}'' @ [CHR 0x27]"

definition GetBloxFreeSpace :: "'w tools \<Rightarrow> 'w platform \<Rightarrow> 'w \<Rightarrow> json option \<times> 'w" where
  "GetBloxFreeSpace ts pf w =
     (case run_output pf [''sh'', ''-c'', free_space_command] w of
        (None, w1) \<Rightarrow> (None, w1)
      | (Some out, w1) \<Rightarrow>
          (case split_char (CHR '','') (TrimSpace out) of
             [n, all, used, avail, pct] \<Rightarrow>
               (let num = (\<lambda>s. ParseFloat32 ts (if s = [] then ''0'' else s)) in
                case (Atoi n, num all, num used, num avail, num pct) of
                  (Some c, Some s, Some u, Some a, Some p) \<Rightarrow>
                    (Some (JObj [(''device_count'', JNum c), (''size'', s), (''used'', u), (''avail'', a), (''used_percentage'', p)]), w1)
                | _ \<Rightarrow> (None, w1))
           | _ \<Rightarrow> (None, w1)))"

definition fetchLogsFromFile :: "'w platform \<Rightarrow> string \<Rightarrow> string \<Rightarrow> 'w \<Rightarrow> string option \<times> 'w" where
  "fetchLogsFromFile pf name tailCount w =
     (if name = ''MainService'' then run_output pf [''tail'', ''-n'', tailCount, ''/home/fula.sh.log''] w else (None, w))"

definition FetchContainerLogs_wifi :: "'w tools \<Rightarrow> 'w platform \<Rightarrow> json \<Rightarrow> 'w \<Rightarrow> json option \<times> 'w" where
  "FetchContainerLogs_wifi ts pf req w =
     (let name = text_of (entry ''ContainerName'' req); tailCount = text_of (entry ''TailCount'' req);
          (r, w1) = (if name = ''MainService'' then fetchLogsFromFile pf name tailCount w else ContainerLogs ts name tailCount w)
      in (map_option JStr r, w1))"

text \<open>The first match of \<^verbatim>\<open>prefix(\d+)\<close>: its digits.\<close>

definition is_digit :: "char \<Rightarrow> bool" where
  "is_digit c \<longleftrightarrow> (let n = of_char c :: nat in 48 \<le> n \<and> n \<le> 57)"

fun number_after :: "string \<Rightarrow> string \<Rightarrow> string option" where
  "number_after pre [] = None"
| "number_after pre (c # s) =
     (let ds = takeWhile is_digit (drop (length pre) (c # s)) in
      if HasPrefix (c # s) pre \<and> ds \<noteq> [] then Some ds else number_after pre s)"

definition sync_line :: "string \<Rightarrow> (string \<times> string) option" where
  "sync_line line =
     (if Contains line ''Syncing'' \<and> Contains line ''target'' \<and> Contains line ''best'' then
        (case (number_after ''best: #'' line, number_after ''target=#'' line) of
           (Some b, Some t) \<Rightarrow> Some (b, t)
         | _ \<Rightarrow> None)
      else None)"

definition FindBestAndTargetInLogs_wifi :: "'w tools \<Rightarrow> json \<Rightarrow> 'w \<Rightarrow> json option \<times> 'w" where
  "FindBestAndTargetInLogs_wifi ts req w =
     (case ContainerLogs ts (text_of (entry ''NodeContainerName'' req)) (text_of (entry ''TailCount'' req)) w of
        (None, w1) \<Rightarrow> (None, w1)
      | (Some logs, w1) \<Rightarrow>
          ((case List.map_filter sync_line (rev (split_char newline logs)) of
              [] \<Rightarrow> None
            | (b, t) # _ \<Rightarrow> Some (JArr [JStr b, JStr t])), w1))"

text \<open>
  These functions as the parameter \<^const>\<open>wifi_do\<close> of the request handlers; \<open>rest\<close> stands for the two
  remaining ones.
\<close>

definition wifi_functions ::
  "'w tools \<Rightarrow> 'w platform \<Rightarrow> (string \<Rightarrow> json \<Rightarrow> (string \<rightharpoonup> fcontent) \<Rightarrow> 'w \<Rightarrow> json option \<times> 'w) \<Rightarrow>
   string \<Rightarrow> json \<Rightarrow> (string \<rightharpoonup> fcontent) \<Rightarrow> 'w \<Rightarrow> json option \<times> 'w" where
  "wifi_functions ts pf rest f req fs w =
     (if f = ''GetFolderSize'' then GetFolderSize_wifi pf req w
      else if f = ''GetDatastoreSize'' then GetDatastoreSize_wifi ts w
      else if f = ''GetBloxFreeSpace'' then GetBloxFreeSpace ts pf w
      else if f = ''GetDockerImageBuildDates'' then GetDockerImageBuildDates_wifi ts w
      else if f = ''FetchContainerLogs'' then FetchContainerLogs_wifi ts pf req w
      else if f = ''FindBestAndTargetInLogs'' then FindBestAndTargetInLogs_wifi ts req w
      else rest f req fs w)"


subsection \<open>What a folder size request runs\<close>

text \<open>
  The path of the request becomes part of a shell command unchanged: whatever a peer that may ask for
  folder sizes puts behind a semicolon is run by the shell of the device.
\<close>

lemma folder_size_runs_request_text:
  assumes "decode_first rbody = Some (JObj [(''folder_path'', JStr (''/; '' @ payload @ '' #''))])"
  shows "world (snd (handleGetFolderSize (pf\<lparr>wifi_do := wifi_functions ts pf rest\<rparr>) rbody d)) =
    snd (exec pf [''sh'', ''-c'', ''du -sb /; '' @ payload @ '' # | cut -f1''] (world d))"
  using assms
  by (auto simp: handleGetFolderSize_def with_request_def decode_new_def GetFolderSizeRequest_def fold_eq_def lower_char_def entry_def text_of_def
      wifi_reply_def on_world_def wifi_functions_def GetFolderSize_wifi_def run_output_def Let_def
      split: prod.splits cmd_end.splits bool.splits option.splits)

lemma map_filter_head:
  "(\<exists>r. List.map_filter f xs = y # r) \<longleftrightarrow>
   (\<exists>us l vs. xs = us @ l # vs \<and> f l = Some y \<and> (\<forall>u \<in> set us. f u = None))"
proof (induction xs)
  case Nil
  show ?case by (simp add: List.map_filter_def)
next
  case (Cons x xs)
  show ?case
  proof (cases "f x")
    case None
    then have "List.map_filter f (x # xs) = List.map_filter f xs" by (simp add: List.map_filter_def)
    moreover have "(\<exists>us l vs. x # xs = us @ l # vs \<and> f l = Some y \<and> (\<forall>u \<in> set us. f u = None)) \<longleftrightarrow>
        (\<exists>us l vs. xs = us @ l # vs \<and> f l = Some y \<and> (\<forall>u \<in> set us. f u = None))" (is "?L \<longleftrightarrow> ?R")
    proof
      assume ?L
      then obtain us l vs where "x # xs = us @ l # vs" "f l = Some y" "\<forall>u \<in> set us. f u = None" by blast
      with None show ?R by (intro exI [of _ "tl us"] exI [of _ l] exI [of _ vs]) (cases us; simp)
    next
      assume ?R
      then obtain us l vs where "xs = us @ l # vs" "f l = Some y" "\<forall>u \<in> set us. f u = None" by blast
      with None show ?L by (intro exI [of _ "x # us"] exI [of _ l] exI [of _ vs]) simp
    qed
    ultimately show ?thesis using Cons.IH by simp
  next
    case (Some p)
    then have "List.map_filter f (x # xs) = p # List.map_filter f xs" by (simp add: List.map_filter_def)
    moreover have "(\<exists>us l vs. x # xs = us @ l # vs \<and> f l = Some y \<and> (\<forall>u \<in> set us. f u = None)) \<longleftrightarrow> p = y"
      using Some by (auto simp: Cons_eq_append_conv intro: exI [of _ "[]"])
    ultimately show ?thesis by auto
  qed
qed

text \<open>
  The progress of the chain is read from the newest line that carries both numbers: no later line of
  the log has them, and what is reported are the digits of that line.
\<close>

lemma sync_progress_is_newest:
  assumes "ContainerLogs ts name n w = (Some (join_char newline ls), w')" and "ls \<noteq> []" and "\<forall>l \<in> set ls. newline \<notin> set l"
  shows "FindBestAndTargetInLogs_wifi ts (JObj [(''NodeContainerName'', JStr name), (''TailCount'', JStr n)]) w =
    (Some (JArr [JStr b, JStr t]), w') \<longleftrightarrow>
    (\<exists>before line after. ls = before @ line # after \<and> sync_line line = Some (b, t) \<and> (\<forall>l \<in> set after. sync_line l = None))"
proof -
  have "FindBestAndTargetInLogs_wifi ts (JObj [(''NodeContainerName'', JStr name), (''TailCount'', JStr n)]) w =
      (Some (JArr [JStr b, JStr t]), w') \<longleftrightarrow> (\<exists>r. List.map_filter sync_line (rev ls) = (b, t) # r)"
    using assms by (auto simp: FindBestAndTargetInLogs_wifi_def entry_def text_of_def split_join split: list.splits)
  also have "\<dots> \<longleftrightarrow> (\<exists>us l vs. rev ls = us @ l # vs \<and> sync_line l = Some (b, t) \<and> (\<forall>u \<in> set us. sync_line u = None))"
    by (rule map_filter_head)
  also have "\<dots> \<longleftrightarrow> (\<exists>before line after. ls = before @ line # after \<and> sync_line line = Some (b, t) \<and> (\<forall>l \<in> set after. sync_line l = None))"
    by (auto simp: rev_eq_append_conv) (metis rev_rev_ident set_rev)+
  finally show ?thesis .
qed

section \<open>Frames\<close>

lemma run_direct_local [frame_intros]: "run_direct pf c d = (x, e) \<Longrightarrow> same_local d e"
  by (auto simp: run_direct_def dest!: on_world_local split: prod.splits cmd_end.splits bool.splits)

lemma go_sleep_local: "same_local d (go_sleep env ns d)"
  by (metis go_sleep_def prod.collapse wait_for_local)

text \<open>Operations that reach the device through commands alone change none of its files.\<close>

lemma files_runCommand [simp]: "files (snd (runCommand pf c d)) = files d"
  using runCommand_local [of pf c d] by (metis prod.collapse same_localD(1))

lemma files_run_direct [simp]: "files (snd (run_direct pf c d)) = files d"
  using run_direct_local [of pf c d] by (metis prod.collapse same_localD(1))

lemma files_go_sleep [simp]: "files (go_sleep env ns d) = files d"
  using go_sleep_local by (metis same_localD(1))

lemma files_runCommandD: "runCommand pf c d = (x, e) \<Longrightarrow> files e = files d"
  using files_runCommand [of pf c d] by simp

lemma files_run_directD: "run_direct pf c d = (x, e) \<Longrightarrow> files e = files d"
  using files_run_direct [of pf c d] by simp

lemma files_DeleteConnection [simp]: "files (DeleteConnection pf c d) = files d"
  by (simp add: DeleteConnection_def)

lemma files_activateHotspot [simp]: "files (activateHotspot pf d) = files d"
  by (simp add: activateHotspot_def)

lemma files_run_until_error: "run_until_error pf cs d = (ok, e) \<Longrightarrow> files e = files d"
  by (induction pf cs d rule: run_until_error.induct)
    (auto split: prod.splits bool.splits dest!: files_runCommandD)

lemma files_linked: "linked pf is d = (ok, e) \<Longrightarrow> files e = files d"
  by (induction pf "is" d rule: linked.induct)
    (auto split: prod.splits bool.splits if_splits dest!: files_runCommandD)

lemma files_CheckIfIsConnected: "CheckIfIsConnected ts pf i d = (ok, e) \<Longrightarrow> files e = files d"
  by (auto simp: CheckIfIsConnected_def CheckIfIsConnectedWifi_def checkIfIsConnectedLinux_def
      split: prod.splits bool.splits if_splits dest!: files_linked files_runCommandD files_run_directD)

lemma files_Scan: "Scan pf ord d = (r, e) \<Longrightarrow> files e = files d"
  by (auto simp: Scan_def split: prod.splits bool.splits dest!: files_runCommandD)

lemma files_StopHotspot: "StopHotspot ts pf d = (ok, e) \<Longrightarrow> files e = files d"
  by (auto simp: StopHotspot_def dest!: files_run_until_error)


section \<open>Ten seconds\<close>

text \<open>
  \<open>expires env pf over\<close>: after a wait of ten seconds the deadline of the caller's context has passed
  (\<open>over\<close>), and from then on \<^verbatim>\<open>exec.CommandContext\<close> starts nothing, as its documentation says for a context
  that is already done.
\<close>

definition expires :: "'w env \<Rightarrow> 'w platform \<Rightarrow> ('w \<Rightarrow> bool) \<Rightarrow> bool" where
  "expires env pf over \<longleftrightarrow> (\<forall>w. over (snd (wait env (10 * second) w))) \<and> (\<forall>argv w. over w \<longrightarrow> exec pf argv w = (NotStarted, w))"

lemma expired_runCommand: "expires env pf over \<Longrightarrow> over (world d) \<Longrightarrow> runCommand pf c d = (([], False), d)"
  by (simp add: expires_def runCommand_def on_world_def)

lemma expired_connectToNetwork: "expires env pf over \<Longrightarrow> fst (connectToNetwork env ts pf n d) = False"
proof -
  assume ex: "expires env pf over"
  have "over (world (go_sleep env (10 * second) e))" for e
    using ex by (auto simp: expires_def go_sleep_def wait_for_def split: prod.splits) (metis snd_conv)
  with ex have "getDeviceOfConnection pf n (go_sleep env (10 * second) e) = (None, go_sleep env (10 * second) e)" for e
    by (simp add: getDeviceOfConnection_def expired_runCommand)
  then show ?thesis by (auto simp: connectToNetwork_def split: prod.splits bool.splits)
qed

lemma expired_ConnectWifi: "expires env pf over \<Longrightarrow> fst (ConnectWifi env ts pf creds d) = False"
  using expired_connectToNetwork [of env pf over]
  by (auto simp: ConnectWifi_def connectLinux_def Let_def split: prod.splits bool.splits) (metis fst_conv)+


section \<open>Concrete output\<close>

definition scan_rows :: "string list" where
  "scan_rows = [''   AA:01  home  Infra  6  130 Mbit/s  60  ***  WPA2'', ''*  AA:02  home  Infra  11  130 Mbit/s  80  ***  WPA2'',
     ''   AA:03  cafe  Infra  1  65 Mbit/s  70  **  WPA2'']"

definition sample_scan :: string where
  "sample_scan = join_char newline (''IN-USE'' # scan_rows)"

lemma sample_scan_tokens: "scan_tokens sample_scan = (''IN-USE'' # scan_rows, True)"
proof -
  have "split_char newline sample_scan = ''IN-USE'' # scan_rows"
    unfolding sample_scan_def by (rule split_join) (simp_all add: scan_rows_def newline_def)
  then show ?thesis by (simp add: scan_tokens_def Let_def scan_rows_def MaxScanTokenSize_def strip_cr_def)
qed

lemma scan_rows_readings: "List.map_filter linux_reading scan_rows = [(''home'', - 70), (''home'', - 60), (''cafe'', - 65)]"
  by code_simp

lemma sample_scan_parses:
  "parseLinux id sample_scan = Some [\<lparr>ESSID = ''home'', SSID = ''home'', RSSI = - 60\<rparr>, \<lparr>ESSID = ''cafe'', SSID = ''cafe'', RSSI = - 65\<rparr>]"
  by (simp add: parseLinux_def sample_scan_tokens scan_rows_readings note_reading_def)

theorem scan_lists_strongest_witness:
  "\<exists>ws. parseLinux id sample_scan = Some ws \<and> length ws \<le> 6 \<and> (\<forall>w \<in> set ws. strongest_of (readings sample_scan) w)"
  using scan_lists_strongest [of id, OF _ sample_scan_parses] sample_scan_parses by simp

definition sample_tools :: "string \<Rightarrow> int tools" where
  "sample_tools log = \<lparr>goos = ''linux'', ContainerList = (\<lambda>w. (Some [], w)), ContainerInspect = (\<lambda>_ w. (None, w)),
     ImageInspect = (\<lambda>_ w. (None, w)), ContainerLogs = (\<lambda>_ _ w. (Some log, w)), repo_stat = (\<lambda>w. (None, w)),
     ParseFloat32 = (\<lambda>_. Some (JNum 0)), ini_psk = (\<lambda>_. None), CreateTemp = (\<lambda>w. (None, w))\<rparr>"

definition sample_log :: "string list" where
  "sample_log = [''Syncing 1.0 bps, target=#90 (4 peers), best: #80 (0x)'', ''Syncing 1.0 bps, target=#91 (4 peers), best: #85 (0x)'', ''Idle'']"

theorem sync_progress_is_newest_witness:
  "FindBestAndTargetInLogs_wifi (sample_tools (join_char newline sample_log))
     (JObj [(''NodeContainerName'', JStr ''node''), (''TailCount'', JStr ''3'')]) 0 = (Some (JArr [JStr ''85'', JStr ''91'']), 0)"
proof -
  have logs: "ContainerLogs (sample_tools (join_char newline sample_log)) ''node'' ''3'' 0 = (Some (join_char newline sample_log), 0)"
    by (simp add: sample_tools_def)
  have nl: "sample_log \<noteq> []" "\<forall>l \<in> set sample_log. newline \<notin> set l" by (simp_all add: sample_log_def newline_def)
  have "sync_line (sample_log ! 1) = Some (''85'', ''91'')" "sync_line (sample_log ! 2) = None" by code_simp+
  then have "\<exists>before line after. sample_log = before @ line # after \<and> sync_line line = Some (''85'', ''91'') \<and> (\<forall>l \<in> set after. sync_line l = None)"
    by (intro exI [of _ "take 1 sample_log"] exI [of _ "sample_log ! 1"] exI [of _ "[sample_log ! 2]"]) (simp add: sample_log_def)
  with sync_progress_is_newest [OF logs nl] show ?thesis by blast
qed

end
