(* ===== verification/NodeKeys.thy ===== *)
theory NodeKeys
  imports DeviceActions
begin

text \<open>
  The identities of a device and the start of its daemon: the keys derived from the \<^verbatim>\<open>identity\<close> setting
  (\<^verbatim>\<open>cmd/blox/main.go\<close>, \<^verbatim>\<open>wap/pkg/wifi/properties.go\<close>), the command line (\<^verbatim>\<open>before\<close> and \<^verbatim>\<open>action\<close> of
  \<^verbatim>\<open>cmd/blox/main.go\<close>), the block transfer with kubo, what mDNS announces (\<^verbatim>\<open>wap/cmd/mdns/mdns.go\<close>) and the
  set-up command of the access point (\<^verbatim>\<open>wap/cmd/blox/blox_command.go\<close>).

  Parameters are the libp2p key functions and hashes (a record), the conversion of a YAML node to a Go
  type (\<open>conv\<close>), and the flag library, given as the value each flag ends up with.
\<close>

section \<open>YAML files read into a structure\<close>

text \<open>
  The fields of a structure with their YAML names. A missing field keeps its zero value, a node that
  does not convert is an error. The empty text is the empty document.
\<close>

definition yaml_get :: "yaml_doc \<Rightarrow> string \<Rightarrow> json option" where
  "yaml_get y k =
     (if k = ''poolName'' then map_option JStr (y_poolName y)
      else if k = ''chainName'' then map_option JStr (y_chainName y)
      else y_others y k)"

definition empty_yaml :: yaml_doc where
  "empty_yaml = \<lparr>y_poolName = None, y_chainName = None, y_others = Map.empty\<rparr>"

definition as_yaml :: "fcontent \<Rightarrow> yaml_doc option" where
  "as_yaml f = (case f of Conf y \<Rightarrow> Some y | Text s \<Rightarrow> if TrimSpace s = [] then Some empty_yaml else None | _ \<Rightarrow> None)"

type_synonym yaml_conv = "gty \<Rightarrow> json \<Rightarrow> json option"

definition yaml_field :: "yaml_conv \<Rightarrow> yaml_doc \<Rightarrow> string \<times> gty \<Rightarrow> json option" where
  "yaml_field conv y f = (case yaml_get y (fst f) of None \<Rightarrow> Some (zero_val (snd f)) | Some v \<Rightarrow> conv (snd f) v)"

definition yaml_struct :: "yaml_conv \<Rightarrow> (string \<times> gty) list \<Rightarrow> yaml_doc \<Rightarrow> (string \<rightharpoonup> json) option" where
  "yaml_struct conv fs y =
     (if list_all (\<lambda>f. yaml_field conv y f \<noteq> None) fs
      then Some (\<lambda>k. case map_of fs k of None \<Rightarrow> None | Some t \<Rightarrow> yaml_field conv y (k, t))
      else None)"

definition load_yaml :: "yaml_conv \<Rightarrow> (string \<times> gty) list \<Rightarrow> string \<Rightarrow> 'w device \<Rightarrow> (string \<rightharpoonup> json) option" where
  "load_yaml conv fs p d =
     (case ReadFile p d of Ok f \<Rightarrow> Option.bind (as_yaml f) (yaml_struct conv fs) | _ \<Rightarrow> None)"

definition setting :: "(string \<rightharpoonup> json) \<Rightarrow> string \<Rightarrow> string" where
  "setting c k = (case c k of None \<Rightarrow> [] | Some v \<Rightarrow> text_of v)"

text \<open>The documented behaviour of \<^verbatim>\<open>yaml.v3\<close> that proofs use: a value of the field's type converts to itself.\<close>

definition yaml_ok :: "yaml_conv \<Rightarrow> bool" where
  "yaml_ok conv \<longleftrightarrow> (\<forall>s. conv GStr (JStr s) = Some (JStr s))"


section \<open>Keys\<close>

record 'k keylib =
  UnmarshalPrivateKey :: "nat list \<Rightarrow> 'k option"
  MarshalPrivateKey :: "'k \<Rightarrow> nat list option"
  key_Raw :: "'k \<Rightarrow> nat list option"
  Ed25519FromSeed :: "nat list \<Rightarrow> 'k option"
  IDFromPrivateKey :: "'k \<Rightarrow> peerID option"
  key_sha256 :: "nat list \<Rightarrow> nat list"
  hmac_sha256 :: "nat list \<Rightarrow> nat list \<Rightarrow> nat list"

datatype key_error = DecodingFailed | UnmarshalingFailed | RawFailed | GeneratingFailed | PeerIDFailed

text \<open>The private key inside an identity, and the peer id that belongs to it.\<close>

definition identity_key :: "'k keylib \<Rightarrow> string \<Rightarrow> (key_error, 'k) outcome" where
  "identity_key lib identity =
     and_then (or_err DecodingFailed (b64_decode identity)) (\<lambda>km. or_err UnmarshalingFailed (UnmarshalPrivateKey lib km))"

definition cluster_id :: "'k keylib \<Rightarrow> string \<Rightarrow> (key_error, peerID) outcome" where
  "cluster_id lib identity =
     and_then (identity_key lib identity) (\<lambda>k. or_err PeerIDFailed (IDFromPrivateKey lib k))"

text \<open>Slicing the first 32 bytes of a shorter key panics.\<close>

definition first32 :: "nat list \<Rightarrow> (key_error, nat list) outcome" where
  "first32 raw = (if length raw < 32 then Panic else Ok (take 32 raw))"

definition ConvertBase64PrivateKeyToHexNodeKey :: "'k keylib \<Rightarrow> string \<Rightarrow> (key_error, string) outcome" where
  "ConvertBase64PrivateKeyToHexNodeKey lib base64PrivKey =
     and_then (identity_key lib base64PrivKey) (\<lambda>priv.
     and_then (or_err RawFailed (key_Raw lib priv)) (\<lambda>raw.
     and_then (first32 raw) (\<lambda>seed. Ok (hex_EncodeToString seed))))"

definition kubo_domain :: "nat list" where
  "kubo_domain = string_to_bytes ''fula-kubo-identity-v1''"

definition deriveKuboKey :: "'k keylib \<Rightarrow> string \<Rightarrow> (key_error, 'k \<times> peerID) outcome" where
  "deriveKuboKey lib originalIdentity =
     and_then (identity_key lib originalIdentity) (\<lambda>priv.
     and_then (or_err RawFailed (key_Raw lib priv)) (\<lambda>rawKey.
     and_then (first32 rawKey) (\<lambda>originalSeed.
     let derivedSeed = hmac_sha256 lib kubo_domain originalSeed in
     and_then (or_err GeneratingFailed (Ed25519FromSeed lib derivedSeed)) (\<lambda>kuboPriv.
     and_then (or_err PeerIDFailed (IDFromPrivateKey lib kuboPriv)) (\<lambda>kuboPeerID.
     Ok (kuboPriv, kuboPeerID))))))"

text \<open>Failing to build the key from 32 bytes, or to marshal it, panics.\<close>

definition GeneratePrivateKeyFromSeed :: "'k keylib \<Rightarrow> string \<Rightarrow> string option" where
  "GeneratePrivateKeyFromSeed lib seed =
     Option.bind (Ed25519FromSeed lib (key_sha256 lib (string_to_bytes seed))) (\<lambda>privKey.
     map_option b64_encode (MarshalPrivateKey lib privKey))"

text \<open>The documented behaviour of the key library: marshalled keys are bytes and unmarshal to themselves.\<close>

definition keys_ok :: "'k keylib \<Rightarrow> bool" where
  "keys_ok lib \<longleftrightarrow> (\<forall>k b. MarshalPrivateKey lib k = Some b \<longrightarrow> (\<forall>x \<in> set b. x < 256) \<and> UnmarshalPrivateKey lib b = Some k)"


section \<open>Who the device is\<close>

definition GetKuboConfiguredPeerID :: "'w device \<Rightarrow> string option" where
  "GetKuboConfiguredPeerID d =
     (case ReadFile ''/internal/ipfs_data/config'' d of
        Ok f \<Rightarrow>
          (case Option.bind (file_json f) (decode_new kubo_config_identity) of
             None \<Rightarrow> None
           | Some j \<Rightarrow> (let i = text_of (entry ''PeerID'' (entry ''Identity'' j)) in if i = [] then None else Some i))
      | _ \<Rightarrow> None)"

definition identity_fields :: "(string \<times> gty) list" where
  "identity_fields = [(''identity'', GStr)]"

definition GetClusterPeerIDFromIdentity :: "yaml_conv \<Rightarrow> 'k keylib \<Rightarrow> 'w device \<Rightarrow> peerID option" where
  "GetClusterPeerIDFromIdentity conv lib d =
     (case load_yaml conv identity_fields FULA_CONFIG_PATH d of
        None \<Rightarrow> None
      | Some c \<Rightarrow>
          if setting c ''identity'' = [] then None
          else (case cluster_id lib (setting c ''identity'') of Ok pid \<Rightarrow> Some pid | _ \<Rightarrow> None))"

definition cluster_id_response :: gty where
  "cluster_id_response = GStruct [(''id'', GStr, False)]"

text \<open>
  The cluster's own answer, its identity file, the properties file and the configuration are asked in
  this order; the answer is given with an error when kubo has no peer id.
\<close>

definition GetClusterInfo_wifi ::
  "'w env \<Rightarrow> yaml_conv \<Rightarrow> 'k keylib \<Rightarrow> 'w device \<Rightarrow> ((string \<times> string) \<times> bool) \<times> 'w device" where
  "GetClusterInfo_wifi env conv lib d =
     (case send env \<lparr>hq_method = ''GET'', hq_url = ''http://127.0.0.1:9094/id'', hq_body = Raw []\<rparr> d of
        (r, d1) \<Rightarrow>
          (let live = (case r of Reply st (Some b) \<Rightarrow> (case Option.bind (decode_first b) (decode_new cluster_id_response) of
                                   Some j \<Rightarrow> text_of (entry ''id'' j) | None \<Rightarrow> []) | _ \<Rightarrow> []);
               file = (if live \<noteq> [] then live
                       else (case ReadFile ''/uniondrive/ipfs-cluster/identity.json'' d1 of
                               Ok f \<Rightarrow> (case Option.bind (file_json f) (decode_new cluster_id_response) of
                                          Some j \<Rightarrow> text_of (entry ''id'' j) | None \<Rightarrow> [])
                             | _ \<Rightarrow> []));
               props = (if file \<noteq> [] then file
                        else (case ReadProperties d1 of
                                Some (Some m) \<Rightarrow> (case m ''ipfs_cluster_peer_id'' of Some (JStr i) \<Rightarrow> i | _ \<Rightarrow> [])
                              | _ \<Rightarrow> []));
               cid = (if props \<noteq> [] then props
                      else (case GetClusterPeerIDFromIdentity conv lib d1 of Some i \<Rightarrow> i | None \<Rightarrow> [])) in
           case GetKuboPeerID env d1 of
             (None, d2) \<Rightarrow> (((cid, []), False), d2)
           | (Some kubo, d2) \<Rightarrow> (((cid, kubo), True), d2)))"


section \<open>The command line\<close>

text \<open>
  \<open>flag y name\<close> is the value of a flag after the command line, the environment and the YAML file \<open>y\<close> (if
  there is one) have been read by the flag library. The settings that no flag writes are \<^verbatim>\<open>chainName\<close> and
  \<^verbatim>\<open>authorizedPeers\<close>.
\<close>

type_synonym flag_values = "yaml_doc option \<Rightarrow> string \<Rightarrow> json"

definition flag_destinations :: "(string \<times> string) list" where
  "flag_destinations =
     [(''identity'', ''identity''), (''storeDir'', ''storeDir''), (''logLevel'', ''logLevel''), (''authorizer'', ''authorizer''),
      (''listenAddrs'', ''listenAddr''), (''staticRelays'', ''staticRelays''), (''ipfsBootstrapNodes'', ''ipfsBootstrapNodes''),
      (''forceReachabilityPrivate'', ''forceReachabilityPrivate''), (''allowTransientConnection'', ''allowTransientConnection''),
      (''disableResourceManger'', ''disableResourceManger''), (''maxCIDPushRate'', ''maxCIDPushRate''),
      (''ipniPublishDisabled'', ''ipniPublisherDisabled''), (''ipniPublishInterval'', ''ipniPublishInterval''),
      (''IpniPublishDirectAnnounce'', ''ipniPublishDirectAnnounce''), (''ipniPublisherIdentity'', ''ipniPublisherIdentity'')]"

definition flag_config :: "flag_values \<Rightarrow> yaml_doc option \<Rightarrow> blox_config" where
  "flag_config flag y =
     \<lparr>PoolName = text_of (flag y ''poolName''), ChainName = [],
      other_settings = (map_of (map (\<lambda>(k, n). (k, flag y n)) flag_destinations))(''authorizedPeers'' \<mapsto> JArr [])\<rparr>"

definition other :: "string \<Rightarrow> blox_config \<Rightarrow> string" where
  "other k c = setting (other_settings c) k"

definition set_other :: "string \<Rightarrow> string \<Rightarrow> blox_config \<Rightarrow> blox_config" where
  "set_other k v c = c\<lparr>other_settings := (other_settings c)(k \<mapsto> JStr v)\<rparr>"

text \<open>A fresh identity; \<^const>\<open>None\<close> when the key cannot be made.\<close>

definition new_identity :: "'k keylib \<Rightarrow> ('w \<Rightarrow> 'k option \<times> 'w) \<Rightarrow> 'w device \<Rightarrow> string option \<times> 'w device" where
  "new_identity lib gen d =
     (case on_world gen d of (k, d1) \<Rightarrow> (map_option b64_encode (Option.bind k (MarshalPrivateKey lib)), d1))"

text \<open>Where the files are: directories, the home directory, and whether a directory can be made.\<close>

record places =
  home :: string
  is_dir :: "string \<Rightarrow> bool"
  is_file :: "string \<Rightarrow> bool"
  can_mkdir :: "string \<Rightarrow> bool"

datatype start_error = KeyError | ConfigIsDirectory | ConfigUnreadable | FlagError | StoreDirFailed | WriteFailed

definition fill_identity ::
  "'k keylib \<Rightarrow> ('w \<Rightarrow> 'k option \<times> 'w) \<Rightarrow> string \<Rightarrow> blox_config \<Rightarrow> 'w device \<Rightarrow> (start_error, blox_config) outcome \<times> 'w device" where
  "fill_identity lib gen k c d =
     (if other k c \<noteq> [] then (Ok c, d)
      else (case new_identity lib gen d of
              (None, d1) \<Rightarrow> (Err KeyError, d1)
            | (Some i, d1) \<Rightarrow> (Ok (set_other k i c), d1)))"

definition fill_authorizer :: "'k keylib \<Rightarrow> blox_config \<Rightarrow> (start_error, blox_config) outcome" where
  "fill_authorizer lib c =
     (if other ''authorizer'' c \<noteq> [] then Ok c
      else (case cluster_id lib (other ''identity'' c) of
              Ok pid \<Rightarrow> Ok (set_other ''authorizer'' pid c)
            | Panic \<Rightarrow> Panic
            | Err _ \<Rightarrow> Err KeyError))"

definition fill_store :: "places \<Rightarrow> blox_config \<Rightarrow> (start_error, blox_config) outcome" where
  "fill_store pl c =
     (let c1 = (if other ''storeDir'' c = [] then set_other ''storeDir'' (home pl @ ''/.fula/blox/store'') c else c);
          dir = other ''storeDir'' c1 in
      if is_dir pl dir then Ok c1
      else if is_file pl dir then Err StoreDirFailed
      else if can_mkdir pl dir then Ok c1 else Err StoreDirFailed)"

text \<open>Reading the configuration file through the flags; a file that does not exist is skipped.\<close>

definition read_flags ::
  "places \<Rightarrow> (yaml_doc option \<Rightarrow> bool) \<Rightarrow> flag_values \<Rightarrow> string \<Rightarrow> 'w device \<Rightarrow> (start_error, blox_config) outcome" where
  "read_flags pl flags_ok flag configPath d =
     (if is_dir pl configPath then Err ConfigIsDirectory
      else (case ReadFile configPath d of
              Err NotExist \<Rightarrow> if can_mkdir pl configPath then Ok (flag_config flag None) else Err ConfigUnreadable
            | Ok f \<Rightarrow>
                (case as_yaml f of
                   None \<Rightarrow> Err FlagError
                 | Some y \<Rightarrow> if flags_ok (Some y) then Ok (flag_config flag (Some y)) else Err FlagError)
            | _ \<Rightarrow> Err ConfigUnreadable))"

definition before_config ::
  "'k keylib \<Rightarrow> ('w \<Rightarrow> 'k option \<times> 'w) \<Rightarrow> places \<Rightarrow> blox_config \<Rightarrow> 'w device \<Rightarrow> (start_error, blox_config) outcome \<times> 'w device" where
  "before_config lib gen pl c d =
     (case fill_identity lib gen ''identity'' c d of
        (Ok c1, d1) \<Rightarrow>
          (case fill_authorizer lib c1 of
             Ok c2 \<Rightarrow>
               (case fill_identity lib gen ''ipniPublisherIdentity'' c2 d1 of
                  (Ok c3, d2) \<Rightarrow> (fill_store pl c3, d2)
                | r \<Rightarrow> r)
           | r \<Rightarrow> (r, d1))
      | r \<Rightarrow> r)"

definition before ::
  "'k keylib \<Rightarrow> ('w \<Rightarrow> 'k option \<times> 'w) \<Rightarrow> places \<Rightarrow> (yaml_doc option \<Rightarrow> bool) \<Rightarrow> flag_values \<Rightarrow> string \<Rightarrow> 'w device \<Rightarrow>
   (start_error, string) outcome \<times> 'w device" where
  "before lib gen pl flags_ok flag config_flag d =
     (let configPath = (if config_flag = [] then home pl @ ''/.fula/blox/config.yaml'' else config_flag) in
      case read_flags pl flags_ok flag configPath d of
        Ok c0 \<Rightarrow>
          (case before_config lib gen pl c0 d of
             (Ok c, d1) \<Rightarrow>
               (let d2 = d1\<lparr>app_config := c\<rparr> in
                case WriteFile configPath (Conf \<lparr>y_poolName = Some (PoolName c), y_chainName = Some (ChainName c), y_others = other_settings c\<rparr>) d2 of
                  (True, d3) \<Rightarrow> (Ok configPath, d3)
                | (False, d3) \<Rightarrow> (Err WriteFailed, d3))
           | (Err e, d1) \<Rightarrow> (Err e, d1)
           | (Panic, d1) \<Rightarrow> (Panic, d1))
      | Err e \<Rightarrow> (Err e, d)
      | Panic \<Rightarrow> (Panic, d))"

text \<open>
  What \<^verbatim>\<open>action\<close> does with its flags before it builds the node: print a key, a phrase or the peer id, or go
  on with the three peer ids the node is built with.
\<close>

record modes =
  generateNodeKey :: bool
  generateSecretPhrase :: bool
  initOnly :: bool

datatype start_end =
    Printed string
  | Running peerID peerID peerID
  | Failed
  | Crashed

definition init_output :: "string \<Rightarrow> peerID \<Rightarrow> string" where
  "init_output configPath pid =
     ''Application config initialised at: '' @ configPath @ [newline] @ ''   blox peer ID: '' @ pid @ [newline]"

text \<open>The two branches that derive the key of kubo, for the initialisation and for the start of the daemon, share one call here.\<close>

definition action ::
  "'k keylib \<Rightarrow> (nat list \<Rightarrow> string option) \<Rightarrow> (string \<Rightarrow> peerID option) \<Rightarrow> modes \<Rightarrow> string \<Rightarrow> blox_config \<Rightarrow> start_end" where
  "action lib new_mnemonic peer_decode m configPath c =
     (let identity = other ''identity'' c in
      if generateNodeKey m then
        (case ConvertBase64PrivateKeyToHexNodeKey lib identity of Ok k \<Rightarrow> Printed k | Err _ \<Rightarrow> Failed | Panic \<Rightarrow> Crashed)
      else if generateSecretPhrase m then
        (case new_mnemonic (take 16 (key_sha256 lib (string_to_bytes identity))) of Some w \<Rightarrow> Printed w | None \<Rightarrow> Failed)
      else
        (case deriveKuboKey lib identity of
           Panic \<Rightarrow> Crashed
         | Err _ \<Rightarrow> Failed
         | Ok (_, self) \<Rightarrow>
             if initOnly m then Printed (init_output configPath self)
             else (case cluster_id lib identity of
                     Panic \<Rightarrow> Crashed
                   | Err _ \<Rightarrow> Failed
                   | Ok cluster \<Rightarrow>
                       Running self cluster
                         (case peer_decode (other ''authorizer'' c) of Some a \<Rightarrow> a | None \<Rightarrow> self))))"

section \<open>Blocks in kubo\<close>

text \<open>
  The link system of the daemon keeps blocks in kubo over its HTTP API. \<open>codes c\<close> gives the names of the
  codec and of the hash of a content id; \<^const>\<open>None\<close> is a link that is no content id. The form data of the
  upload is represented by the block itself.
\<close>

definition baseURL :: string where
  "baseURL = ''http://localhost:5001''"

datatype block_error = RequestFailed | BadStatus nat | NotCidLink | BadReply | MismatchedCIDs

definition CustomStorageReadOpenerNone :: "'w env \<Rightarrow> string \<Rightarrow> 'w device \<Rightarrow> (block_error, body option) outcome \<times> 'w device" where
  "CustomStorageReadOpenerNone env cidStr d =
     (case send env \<lparr>hq_method = ''POST'', hq_url = baseURL @ ''/api/v0/block/get?arg='' @ cidStr, hq_body = Raw []\<rparr> d of
        (NetErr, d1) \<Rightarrow> (Err RequestFailed, d1)
      | (Reply st b, d1) \<Rightarrow> (if st \<noteq> StatusOK then Err (BadStatus st) else Ok b, d1))"

definition block_put_response :: gty where
  "block_put_response = GStruct [(''Key'', GStr, False), (''Size'', GInt, False)]"

definition block_put_url :: "bool \<Rightarrow> string \<times> string \<Rightarrow> string" where
  "block_put_url hosting code =
     baseURL @ ''/api/v0/block/put?cid-codec='' @ fst code @ ''&mhtype='' @ snd code @ ''&mhlen=-1&pin='' @
     (if hosting then ''false'' else ''true'') @ ''&allow-big-block=false''"

definition CustomStorageWriteOpenerNone ::
  "'w env \<Rightarrow> (string \<Rightarrow> string \<times> string) \<Rightarrow> bool \<Rightarrow> string \<Rightarrow> string option \<Rightarrow> 'w device \<Rightarrow> (block_error, unit) outcome \<times> 'w device" where
  "CustomStorageWriteOpenerNone env codes hosting data lnk d =
     (case lnk of
        None \<Rightarrow> (Err NotCidLink, d)
      | Some c \<Rightarrow>
          (case send env \<lparr>hq_method = ''POST'', hq_url = block_put_url hosting (codes c), hq_body = Raw data\<rparr> d of
             (NetErr, d1) \<Rightarrow> (Err RequestFailed, d1)
           | (Reply st b, d1) \<Rightarrow>
               (if st \<noteq> StatusOK then Err (BadStatus st)
                else (case Option.bind (Option.bind b decode_first) (decode_new block_put_response) of
                        None \<Rightarrow> Err BadReply
                      | Some r \<Rightarrow> if entry ''Key'' r \<noteq> JStr c then Err MismatchedCIDs else Ok ()), d1)))"


section \<open>What mDNS announces\<close>

record meta =
  BloxPeerIdString :: string
  IpfsClusterID :: string
  meta_PoolName :: string
  meta_Authorizer :: string
  meta_HardwareID :: string

definition mdns_fields :: "(string \<times> gty) list" where
  "mdns_fields = [(''identity'', GStr), (''poolName'', GStr), (''authorizer'', GStr)]"

definition mdns_ids :: "'k keylib \<Rightarrow> string \<Rightarrow> meta \<Rightarrow> (key_error, meta) outcome" where
  "mdns_ids lib identity m =
     (case Option.bind (b64_decode identity) (UnmarshalPrivateKey lib) of
        None \<Rightarrow> Ok m
      | Some key \<Rightarrow>
          (let m1 = (case IDFromPrivateKey lib key of None \<Rightarrow> m | Some p \<Rightarrow> m\<lparr>IpfsClusterID := p\<rparr>) in
           case key_Raw lib key of
             None \<Rightarrow> Ok m1
           | Some raw \<Rightarrow>
               and_then (first32 raw) (\<lambda>seed.
                 case Option.bind (Ed25519FromSeed lib (hmac_sha256 lib kubo_domain seed)) (IDFromPrivateKey lib) of
                   None \<Rightarrow> Ok m1
                 | Some p \<Rightarrow> Ok (m1\<lparr>BloxPeerIdString := p\<rparr>))))"

definition LoadConfig ::
  "'w env \<Rightarrow> 'w platform \<Rightarrow> yaml_conv \<Rightarrow> 'k keylib \<Rightarrow> 'w device \<Rightarrow> (key_error, meta) outcome \<times> 'w device" where
  "LoadConfig env pf conv lib d =
     (case on_world (GetHardwareID pf) d of
        (hw, d1) \<Rightarrow>
          (let m0 = \<lparr>BloxPeerIdString = ''NA'', IpfsClusterID = ''NA'', meta_PoolName = ''NA'', meta_Authorizer = ''NA'',
                     meta_HardwareID = (case hw of None \<Rightarrow> ''NA'' | Some h \<Rightarrow> h)\<rparr> in
           case load_yaml conv mdns_fields FULA_CONFIG_PATH d1 of
             None \<Rightarrow> (Ok m0, d1)
           | Some c \<Rightarrow>
               (case mdns_ids lib (setting c ''identity'') m0 of
                  Err e \<Rightarrow> (Err e, d1)
                | Panic \<Rightarrow> (Panic, d1)
                | Ok m1 \<Rightarrow>
                    (let (m2, d2) =
                       (if BloxPeerIdString m1 = ''NA'' then
                          (case GetKuboPeerID env d1 of
                             (None, d2) \<Rightarrow> (m1, d2)
                           | (Some p, d2) \<Rightarrow> (m1\<lparr>BloxPeerIdString := p\<rparr>, d2))
                        else (m1, d1)) in
                     (Ok (m2\<lparr>meta_PoolName := (if setting c ''poolName'' \<noteq> [] then setting c ''poolName'' else meta_PoolName m2),
                             meta_Authorizer := (if setting c ''authorizer'' \<noteq> [] then setting c ''authorizer'' else meta_Authorizer m2)\<rparr>), d2)))))"

definition createInfo :: "meta option \<Rightarrow> string list" where
  "createInfo globalConfig =
     (case globalConfig of
        None \<Rightarrow> []
      | Some m \<Rightarrow>
          [''bloxPeerIdString='' @ BloxPeerIdString m, ''ipfsClusterID='' @ IpfsClusterID m, ''poolName='' @ meta_PoolName m,
           ''authorizer='' @ meta_Authorizer m, ''hardwareID='' @ meta_HardwareID m, ''gatewayPort=8080'', ''autoPinPort=3501'', ''s3Port=9000''])"

definition instanceName :: "meta option \<Rightarrow> string" where
  "instanceName globalConfig =
     (case globalConfig of
        None \<Rightarrow> ''fulatower_NEW''
      | Some m \<Rightarrow>
          (let i = BloxPeerIdString m in
           if i = [] \<or> i = ''NA'' then ''fulatower_NEW''
           else ''fulatower_'' @ (if length i > 5 then drop (length i - 5) i else i)))"

text \<open>The interfaces mDNS uses; \<^const>\<open>None\<close> lets the library use all of them.\<close>

record nic =
  nic_name :: string
  nic_up :: bool
  nic_loopback :: bool

definition getLANInterfaces :: "nic list option \<Rightarrow> nic list option" where
  "getLANInterfaces ifaces =
     (case ifaces of
        None \<Rightarrow> None
      | Some is \<Rightarrow>
          (let filtered = filter (\<lambda>i. nic_up i \<and> \<not> nic_loopback i \<and>
                 \<not> (nic_name i = ''docker0'' \<or> HasPrefix (nic_name i) ''br-'' \<or> HasPrefix (nic_name i) ''veth'')) is
           in if filtered = [] then None else Some filtered))"


section \<open>The set-up command\<close>

definition BLOX_COMMAND :: "string \<Rightarrow> string \<Rightarrow> string" where
  "BLOX_COMMAND clientPeerId bloxSeed =
     ''/app --authorizer '' @ clientPeerId @ '' --identity '' @ bloxSeed @ '' --initOnly --config '' @ FULA_CONFIG_PATH @
     '' --storeDir /uniondrive --disableResourceManger true --maxCIDPushRate 100 --logLevel info''"

definition BloxCommandInitOnly ::
  "'w platform \<Rightarrow> string \<Rightarrow> string \<Rightarrow> 'w device \<Rightarrow> (unit, string) outcome \<times> 'w device" where
  "BloxCommandInitOnly pf clientPeerId bloxSeed d =
     (case runCommand pf (BLOX_COMMAND clientPeerId bloxSeed) d of
        ((_, False), d1) \<Rightarrow> (Err (), d1)
      | ((stdout, True), d1) \<Rightarrow>
          (case Split ''blox peer ID:'' stdout of
             _ # s # _ \<Rightarrow> (let bloxPeerId = TrimSpace s in if bloxPeerId = [] then Err () else Ok bloxPeerId, d1)
           | _ \<Rightarrow> (Panic, d1)))"

section \<open>What the parts agree on\<close>

lemma cluster_id_no_panic [simp]: "cluster_id lib i \<noteq> Panic"
  by (auto simp: cluster_id_def identity_key_def outcome_simps)

text \<open>The derivation in its parts: every way through it ends in the same key.\<close>

lemma deriveKuboKey_Ok:
  assumes "deriveKuboKey lib identity = Ok (k, pid)"
  obtains km priv raw where "b64_decode identity = Some km" and "UnmarshalPrivateKey lib km = Some priv"
    and "key_Raw lib priv = Some raw" and "32 \<le> length raw"
    and "Ed25519FromSeed lib (hmac_sha256 lib kubo_domain (take 32 raw)) = Some k" and "IDFromPrivateKey lib k = Some pid"
  using assms by (auto simp: deriveKuboKey_def identity_key_def first32_def Let_def outcome_simps split: if_splits)

lemma mdns_ids_kubo:
  assumes "deriveKuboKey lib identity = Ok (k, pid)"
  shows "\<exists>m'. mdns_ids lib identity m = Ok m' \<and> BloxPeerIdString m' = pid"
proof -
  from assms obtain km priv raw where "b64_decode identity = Some km" "UnmarshalPrivateKey lib km = Some priv"
    "key_Raw lib priv = Some raw" "32 \<le> length raw"
    "Ed25519FromSeed lib (hmac_sha256 lib kubo_domain (take 32 raw)) = Some k" "IDFromPrivateKey lib k = Some pid"
    by (rule deriveKuboKey_Ok)
  then show ?thesis by (auto simp: mdns_ids_def first32_def Let_def split: option.splits)
qed

lemma mdns_ids_cluster:
  assumes "cluster_id lib identity = Ok pid" and "mdns_ids lib identity m = Ok m'"
  shows "IpfsClusterID m' = pid"
proof -
  from assms(1) obtain km priv where "b64_decode identity = Some km" "UnmarshalPrivateKey lib km = Some priv"
    "IDFromPrivateKey lib priv = Some pid"
    by (auto simp: cluster_id_def identity_key_def outcome_simps)
  with assms(2) show ?thesis by (auto simp: mdns_ids_def Let_def outcome_simps split: option.splits)
qed

lemma Split_two:
  assumes "Cut sep s = Some (a, b)" and "sep \<noteq> []" and "Cut sep b = None"
  shows "Split sep s = [a, b]"
  using assms by (simp add: Split.simps [of sep s] Split.simps [of sep b])

lemma Cut_occurs: "Cut sep s = Some (a, b) \<Longrightarrow> s = a @ sep @ b"
  by (induction s arbitrary: a b) (auto simp: HasPrefix_iff split: if_splits option.splits)

lemma Cut_first: "sep \<noteq> [] \<Longrightarrow> hd sep \<notin> set s \<Longrightarrow> Cut sep (s @ sep @ t) = Some (s, t)"
proof (induction s)
  case Nil
  then show ?case by (cases sep) (simp_all add: HasPrefix_def)
next
  case (Cons c s)
  have "\<not> HasPrefix (c # s @ sep @ t) sep" using Cons.prems by (cases sep) auto
  with Cons show ?case by simp
qed

text \<open>Peer ids that are one printable word; libp2p prints them in base58.\<close>

lemma peer_id_parsed:
  assumes "word_ok pid" and "CHR ''b'' \<notin> set configPath"
  shows "Split ''blox peer ID:'' (init_output configPath pid) =
      [''Application config initialised at: '' @ configPath @ [newline] @ ''   '', CHR '' '' # pid @ [newline]] \<and>
    TrimSpace (CHR '' '' # pid @ [newline]) = pid"
proof
  have out: "init_output configPath pid =
      (''Application config initialised at: '' @ configPath @ [newline] @ ''   '') @ ''blox peer ID:'' @ (CHR '' '' # pid @ [newline])"
    by (simp add: init_output_def)
  have "Cut ''blox peer ID:'' (init_output configPath pid) =
      Some (''Application config initialised at: '' @ configPath @ [newline] @ ''   '', CHR '' '' # pid @ [newline])"
    unfolding out by (rule Cut_first) (use assms(2) in \<open>auto simp: newline_def\<close>)
  moreover have "Cut ''blox peer ID:'' (CHR '' '' # pid @ [newline]) = None"
  proof (rule ccontr)
    assume "Cut ''blox peer ID:'' (CHR '' '' # pid @ [newline]) \<noteq> None"
    then obtain a b where "CHR '' '' # pid @ [newline] = a @ ''blox peer ID:'' @ b" using Cut_occurs by fast
    then have "CHR '' '' \<in> set (pid @ [newline])" by (cases a) auto
    then show False using assms(1) by (auto simp: word_ok_def is_space_def newline_def)
  qed
  ultimately show "Split ''blox peer ID:'' (init_output configPath pid) =
      [''Application config initialised at: '' @ configPath @ [newline] @ ''   '', CHR '' '' # pid @ [newline]]"
    by (intro Split_two) auto
  have sp: "is_space (CHR '' '')" "is_space newline" by (simp_all add: is_space_def newline_def)
  have ends: "\<not> is_space (hd pid)" "\<not> is_space (last pid)" "pid \<noteq> []" using assms(1) by (auto simp: word_ok_def)
  have "dropWhile is_space (CHR '' '' # pid @ [newline]) = pid @ [newline]" using sp ends by (cases pid) auto
  moreover have "dropWhile is_space (rev (pid @ [newline])) = rev pid"
  proof -
    obtain c cs where c: "rev pid = c # cs" using ends by (cases "rev pid") auto
    then have "c = last pid" using ends by (metis hd_rev list.sel(1))
    moreover have "rev (pid @ [newline]) = newline # c # cs" using c by simp
    ultimately show ?thesis using c sp ends by (simp only: dropWhile.simps if_True) simp
  qed
  ultimately show "TrimSpace (CHR '' '' # pid @ [newline]) = pid" by (simp add: TrimSpace_def)
qed

text \<open>
  C24. The set-up command returns exactly the peer id under which the daemon will run: when the program it
  starts answers with what \<^verbatim>\<open>--initOnly\<close> prints for an identity, the id handed to the phone is the one
  derived for kubo, and the daemon started with the same identity runs under it.
\<close>

theorem setup_reports_daemon_id:
  assumes "deriveKuboKey lib identity = Ok (k, pid)" and "cluster_id lib identity = Ok cluster" and "word_ok pid"
    and "other ''identity'' c = identity" and "CHR ''b'' \<notin> set configPath"
    and "action lib mnemonic pd \<lparr>generateNodeKey = False, generateSecretPhrase = False, initOnly = True\<rparr> configPath c = Printed out"
    and "runCommand pf (BLOX_COMMAND client seed) d = ((out, True), e)"
  shows "BloxCommandInitOnly pf client seed d = (Ok pid, e) \<and>
    (\<exists>owner. action lib mnemonic pd \<lparr>generateNodeKey = False, generateSecretPhrase = False, initOnly = False\<rparr> configPath c = Running pid cluster owner)"
proof
  have out: "out = init_output configPath pid" using assms(1,4,6) by (simp add: action_def Let_def)
  show "BloxCommandInitOnly pf client seed d = (Ok pid, e)"
    using assms(7) peer_id_parsed [OF assms(3,5)] assms(3)
    by (auto simp: BloxCommandInitOnly_def out Let_def word_ok_def)
  show "\<exists>owner. action lib mnemonic pd \<lparr>generateNodeKey = False, generateSecretPhrase = False, initOnly = False\<rparr> configPath c = Running pid cluster owner"
    using assms(1,2,4) by (simp add: action_def Let_def)
qed

text \<open>
  A command that has not answered within its ten seconds is killed and reported as a success with no
  output; the set-up request then fails with an index out of range.
\<close>

lemma init_only_timeout_panics:
  assumes "exec pf (Fields (BLOX_COMMAND client seed)) (world d) = (Killed True out, w)"
  shows "BloxCommandInitOnly pf client seed d = (Panic, d\<lparr>world := w\<rparr>)"
  using assms by (simp add: BloxCommandInitOnly_def runCommand_def on_world_def Split.simps [of _ "[]"])


section \<open>A restart\<close>

text \<open>
  The documented behaviour of the flag library: a flag that is given on the command line has that value;
  otherwise a value of the same name in the YAML file, otherwise its default.
\<close>

definition altsrc_law :: "(string \<rightharpoonup> json) \<Rightarrow> (string \<Rightarrow> json) \<Rightarrow> flag_values \<Rightarrow> bool" where
  "altsrc_law given dflt flag \<longleftrightarrow>
     (\<forall>y n. flag y n = (case given n of
        Some v \<Rightarrow> v
      | None \<Rightarrow> (case Option.bind y (\<lambda>y. yaml_get y n) of Some v \<Rightarrow> v | None \<Rightarrow> dflt n)))"

text \<open>Each step of the start fills in empty settings only; \<open>kept c c'\<close>: the others stay.\<close>

definition kept :: "blox_config \<Rightarrow> blox_config \<Rightarrow> bool" where
  "kept c c' \<longleftrightarrow> PoolName c' = PoolName c \<and> ChainName c' = ChainName c \<and>
     (\<forall>k. k \<notin> {''identity'', ''authorizer'', ''ipniPublisherIdentity'', ''storeDir''} \<or> other k c \<noteq> [] \<longrightarrow>
       other_settings c' k = other_settings c k)"

lemma kept_refl [simp]: "kept c c"
  by (simp add: kept_def)

lemma kept_trans: "kept a b \<Longrightarrow> kept b c \<Longrightarrow> kept a c"
  by (simp add: kept_def other_def setting_def)

lemma kept_set_other:
  "k \<in> {''identity'', ''authorizer'', ''ipniPublisherIdentity'', ''storeDir''} \<Longrightarrow> other k c = [] \<Longrightarrow> kept c (set_other k v c)"
  by (auto simp: kept_def set_other_def)

lemma fill_identity_frame:
  "fill_identity lib gen k c d = (Ok c', d') \<Longrightarrow> k \<in> {''identity'', ''ipniPublisherIdentity''} \<Longrightarrow> kept c c'"
  by (auto simp: fill_identity_def intro!: kept_set_other split: if_splits prod.splits option.splits)

lemma fill_authorizer_frame: "fill_authorizer lib c = Ok c' \<Longrightarrow> kept c c'"
  by (auto simp: fill_authorizer_def intro!: kept_set_other split: if_splits outcome.splits)

lemma fill_store_frame: "fill_store pl c = Ok c' \<Longrightarrow> kept c c'"
  by (auto simp: fill_store_def Let_def intro!: kept_set_other split: if_splits)

lemma before_config_frame:
  assumes "before_config lib gen pl c d = (Ok c', d')"
  shows "kept c c'"
proof -
  from assms obtain c1 d1 c2 c3 d2 where s: "fill_identity lib gen ''identity'' c d = (Ok c1, d1)" "fill_authorizer lib c1 = Ok c2"
    "fill_identity lib gen ''ipniPublisherIdentity'' c2 d1 = (Ok c3, d2)" "fill_store pl c3 = Ok c'"
    by (auto simp: before_config_def split: prod.splits outcome.splits)
  have "kept c c1" "kept c1 c2" "kept c2 c3" "kept c3 c'"
    using s fill_identity_frame fill_authorizer_frame fill_store_frame by blast+
  then show ?thesis using kept_trans by blast
qed

text \<open>
  Every start rewrites the configuration file from the flags. What survives a restart without flags
  is the pool, the identity and the owner; the chain and the authorised peers are lost, whatever the file
  held, because no flag carries them.
\<close>

lemma restart_rewrites_config:
  assumes "before lib gen pl flags_ok flag path d = (Ok path', e)" and "path \<noteq> []"
    and "altsrc_law Map.empty dflt flag" and "ReadFile path d = Ok (Conf y)"
    and "y_poolName y = Some pool" and "y_others y ''identity'' = Some (JStr identity)" and "identity \<noteq> []"
    and "y_others y ''authorizer'' = Some (JStr owner)" and "owner \<noteq> []"
  shows "\<exists>y'. files e path = Some (Conf y') \<and> y_poolName y' = Some pool \<and> y_others y' ''identity'' = Some (JStr identity) \<and>
    y_others y' ''authorizer'' = Some (JStr owner) \<and> y_chainName y' = Some [] \<and> y_others y' ''authorizedPeers'' = Some (JArr [])"
proof -
  have flag: "flag (Some y) n = (case yaml_get y n of Some v \<Rightarrow> v | None \<Rightarrow> dflt n)" for n
    using assms(3) by (simp add: altsrc_law_def)
  let ?c0 = "flag_config flag (Some y)"
  have c0: "PoolName ?c0 = pool" "ChainName ?c0 = []" "other_settings ?c0 ''authorizedPeers'' = Some (JArr [])"
    "other_settings ?c0 ''identity'' = Some (JStr identity)" "other_settings ?c0 ''authorizer'' = Some (JStr owner)"
    using assms(5,6,8) by (simp_all add: flag_config_def flag yaml_get_def text_of_def flag_destinations_def)
  then have o0: "other ''identity'' ?c0 = identity" "other ''authorizer'' ?c0 = owner"
    by (simp_all add: other_def setting_def text_of_def)
  have rf: "read_flags pl flags_ok flag path d \<in> {Ok ?c0, Err ConfigIsDirectory, Err FlagError}"
    using assms(4) by (simp add: read_flags_def as_yaml_def)
  with assms(1,2) obtain c d1 where c: "before_config lib gen pl ?c0 d = (Ok c, d1)"
    and w: "WriteFile path (Conf \<lparr>y_poolName = Some (PoolName c), y_chainName = Some (ChainName c), y_others = other_settings c\<rparr>)
      (d1\<lparr>app_config := c\<rparr>) = (True, e)"
    by (auto simp: before_def Let_def split: outcome.splits prod.splits bool.splits if_splits)
  note fr = before_config_frame [OF c]
  have "files e path = Some (Conf \<lparr>y_poolName = Some (PoolName c), y_chainName = Some (ChainName c), y_others = other_settings c\<rparr>)"
    using WriteFile_frame [OF w] by simp
  moreover have "other_settings c ''identity'' = Some (JStr identity)" "other_settings c ''authorizer'' = Some (JStr owner)"
    "other_settings c ''authorizedPeers'' = Some (JArr [])" "PoolName c = pool" "ChainName c = []"
    using fr c0 o0 assms(7,9) by (simp_all add: kept_def)
  ultimately show ?thesis by simp
qed

text \<open>
  A block counts as written only if kubo answered with status 200 and the content id of the link:
  a missing answer, another status, an unreadable answer and another content id are all errors, and
  nothing but the answer decides.
\<close>

lemma block_write_verified:
  "fst (CustomStorageWriteOpenerNone env codes hosting data (Some c) d) = Ok () \<longleftrightarrow>
   (\<exists>b j. fst (net env \<lparr>hq_method = ''POST'', hq_url = block_put_url hosting (codes c), hq_body = Raw data\<rparr> (world d)) = Reply StatusOK (Some b) \<and>
      Option.bind (decode_first b) (decode_new block_put_response) = Some j \<and> entry ''Key'' j = JStr c)"
  by (auto simp: CustomStorageWriteOpenerNone_def send_def split: prod.splits net_reply.splits option.splits if_splits bind_splits)

section \<open>Concrete starts\<close>

definition sample_keys :: "(nat list) keylib" where
  "sample_keys = \<lparr>UnmarshalPrivateKey = Some, MarshalPrivateKey = (\<lambda>k. if \<forall>x \<in> set k. x < 256 then Some k else None), key_Raw = Some, Ed25519FromSeed = Some,
     IDFromPrivateKey = (\<lambda>k. Some (if k = replicate 32 7 then ''QmCluster'' else ''QmKubo'')), key_sha256 = (\<lambda>m. take 32 m),
     hmac_sha256 = (\<lambda>k m. replicate 32 9)\<rparr>"

lemma sample_keys_ok: "keys_ok sample_keys"
  by (auto simp: keys_ok_def sample_keys_def split: if_splits)

definition sample_identity :: string where
  "sample_identity = b64_encode (replicate 32 7)"

lemma sample_identity_decodes: "b64_decode sample_identity = Some (replicate 32 7)"
  by (simp add: sample_identity_def b64_roundtrip)

lemma sample_identity_key: "identity_key sample_keys sample_identity = Ok (replicate 32 7)"
  by (simp add: identity_key_def sample_identity_decodes sample_keys_def)

lemma sample_kubo: "deriveKuboKey sample_keys sample_identity = Ok (replicate 32 9, ''QmKubo'')"
  unfolding deriveKuboKey_def sample_identity_key by (simp add: sample_keys_def first32_def numeral_eq_Suc)

lemma sample_cluster: "cluster_id sample_keys sample_identity = Ok ''QmCluster''"
  unfolding cluster_id_def sample_identity_key by (simp add: sample_keys_def)

definition start_config :: blox_config where
  "start_config = \<lparr>PoolName = ''5'', ChainName = ''base'', other_settings = [''identity'' \<mapsto> JStr sample_identity, ''authorizer'' \<mapsto> JStr ''QmOwner'']\<rparr>"

theorem setup_reports_daemon_id_witness:
  "BloxCommandInitOnly ((sample_platform (\<lambda>_. True))\<lparr>exec := \<lambda>argv w. (Exited True (init_output FULA_CONFIG_PATH ''QmKubo''), w)\<rparr>)
     ''QmPhone'' ''seed'' (sample_device 0) = (Ok ''QmKubo'', sample_device 0) \<and>
   (\<exists>owner. action sample_keys (\<lambda>_. None) (\<lambda>_. None) \<lparr>generateNodeKey = False, generateSecretPhrase = False, initOnly = False\<rparr>
     FULA_CONFIG_PATH start_config = Running ''QmKubo'' ''QmCluster'' owner)"
  by (rule setup_reports_daemon_id [OF sample_kubo sample_cluster])
    (auto simp: word_ok_def is_space_def start_config_def other_def setting_def text_of_def FULA_CONFIG_PATH_def action_def sample_kubo Let_def
      runCommand_def on_world_def sample_platform_def)

definition start_doc :: yaml_doc where
  "start_doc = \<lparr>y_poolName = Some ''5'', y_chainName = Some ''base'',
     y_others = [''identity'' \<mapsto> JStr sample_identity, ''authorizer'' \<mapsto> JStr ''QmOwner'', ''authorizedPeers'' \<mapsto> JArr [JStr ''QmFriend'']]\<rparr>"

definition start_device :: "int device" where
  "start_device = (sample_device 0)\<lparr>files := [''/c'' \<mapsto> Conf start_doc]\<rparr>"

definition sample_flag :: flag_values where
  "sample_flag y n = (case Option.bind y (\<lambda>y. yaml_get y n) of Some v \<Rightarrow> v | None \<Rightarrow> JStr ''x'')"

definition sample_places :: places where
  "sample_places = \<lparr>home = ''/root'', is_dir = (\<lambda>p. p = ''x''), is_file = (\<lambda>_. False), can_mkdir = (\<lambda>_. True)\<rparr>"

lemma sample_start:
  "sample_identity \<noteq> []" "altsrc_law Map.empty (\<lambda>_. JStr ''x'') sample_flag" "ReadFile ''/c'' start_device = Ok (Conf start_doc)"
  using sample_identity_decodes
  by (auto simp: b64_decode_def altsrc_law_def sample_flag_def ReadFile_def start_device_def sample_device_def)

lemma sample_start_runs:
  "\<exists>e. before sample_keys (\<lambda>w. (None, w)) sample_places (\<lambda>_. True) sample_flag ''/c'' start_device = (Ok ''/c'', e) \<and> \<not> unreadable e ''/c''"
proof -
  let ?c = "flag_config sample_flag (Some start_doc)"
  have "other_settings ?c ''identity'' = Some (JStr sample_identity)" "other_settings ?c ''authorizer'' = Some (JStr ''QmOwner'')"
    "other_settings ?c ''ipniPublisherIdentity'' = Some (JStr ''x'')" "other_settings ?c ''storeDir'' = Some (JStr ''x'')"
    by (simp_all add: flag_config_def flag_destinations_def sample_flag_def yaml_get_def start_doc_def)
  then have o: "other ''identity'' ?c = sample_identity" "other ''authorizer'' ?c = ''QmOwner''"
    "other ''ipniPublisherIdentity'' ?c = ''x''" "other ''storeDir'' ?c = ''x''"
    by (simp_all add: other_def setting_def text_of_def)
  have "before_config sample_keys (\<lambda>w. (None, w)) sample_places ?c start_device = (Ok ?c, start_device)"
    using sample_start(1) by (simp add: before_config_def fill_identity_def fill_authorizer_def fill_store_def Let_def o sample_places_def)
  moreover have "read_flags sample_places (\<lambda>_. True) sample_flag ''/c'' start_device = Ok ?c"
    by (simp add: read_flags_def sample_start(3) as_yaml_def sample_places_def)
  ultimately show ?thesis by (simp add: before_def Let_def WriteFile_def start_device_def sample_device_def)
qed

end
