(* ===== verification/SetupApi.thy ===== *)
theory SetupApi
  imports WifiTools NodeKeys
begin

text \<open>
  The HTTP server through which a device is set up (\<^verbatim>\<open>wap/pkg/server\<close>): the handlers of \<^verbatim>\<open>server.go\<close> with the
  routes of \<^verbatim>\<open>Serve\<close>, the guard against foreign web pages (\<^verbatim>\<open>cors.go\<close>) and the guard of the listeners on the
  local network (\<^verbatim>\<open>lanbind.go\<close>). The listeners themselves are in the theory \<^verbatim>\<open>SetupListeners\<close>.

  Of a response the status, the body and the headers that the guard sets are modelled; the target of a
  redirect and the content type are not. A context with a deadline shows in the behaviour of the platform:
  a command under an expired context does not start.
\<close>

section \<open>Requests and the routing of \<^verbatim>\<open>net/http\<close>\<close>

text \<open>
  \<open>rq_path\<close> is the path of the request line, in valid percent-encoding (the server refuses others), from
  which \<^verbatim>\<open>r.URL.Path\<close> is decoded; \<open>rq_form\<close> is \<^verbatim>\<open>r.FormValue\<close>; a missing header is the empty text.
\<close>

record wap_request =
  rq_method :: string
  rq_path :: string
  rq_origin :: string
  rq_fetch_site :: string
  rq_private_network :: string
  rq_content_type :: string
  rq_form :: "string \<Rightarrow> string"
  rq_body :: body

fun unescape :: "string \<Rightarrow> string" where
  "unescape (c # a # b # t) =
     (case (hex_val a, hex_val b) of
        (Some x, Some y) \<Rightarrow> if c = CHR ''%'' then char_of (16 * x + y) # unescape t else c # unescape (a # b # t)
      | _ \<Rightarrow> c # unescape (a # b # t))"
| "unescape s = s"

definition URL_Path :: "wap_request \<Rightarrow> string" where
  "URL_Path r = unescape (rq_path r)"

text \<open>\<^verbatim>\<open>path.Clean\<close> of a rooted path, and \<^verbatim>\<open>cleanPath\<close> of \<^verbatim>\<open>net/http\<close>, which keeps a trailing slash.\<close>

definition clean_segments :: "string \<Rightarrow> string list" where
  "clean_segments p =
     foldl (\<lambda>acc s. if s = [] \<or> s = ''.'' then acc else if s = ''..'' then butlast acc else acc @ [s]) [] (split_char (CHR ''/'') p)"

definition cleanPath :: "string \<Rightarrow> string" where
  "cleanPath p =
     (if p = [] then ''/''
      else (let p = (if hd p = CHR ''/'' then p else CHR ''/'' # p);
                np = CHR ''/'' # join_char (CHR ''/'') (clean_segments p) in
            if last p = CHR ''/'' \<and> np \<noteq> ''/'' then np @ ''/'' else np))"

text \<open>An answer: the status and the body of \<^typ>\<open>http_resp\<close>, or a Go map encoded as a document.\<close>

datatype wap_answer = Answer http_resp | AnswerMap nat "string \<rightharpoonup> json"

text \<open>A handler; the answer \<^const>\<open>None\<close> is a panic, after which the connection is dropped.\<close>

type_synonym 'w wap_handler = "wap_request \<Rightarrow> 'w device \<Rightarrow> wap_answer option \<times> 'w device"

abbreviation fail :: "nat \<Rightarrow> string \<Rightarrow> wap_answer option" where
  "fail st msg \<equiv> Some (Answer (http_Error st msg))"

abbreviation reply_doc :: "nat \<Rightarrow> json \<Rightarrow> wap_answer option" where
  "reply_doc st j \<equiv> Some (Answer (respond st j))"

abbreviation StatusCreated :: nat where "StatusCreated \<equiv> 201"
abbreviation StatusMovedPermanently :: nat where "StatusMovedPermanently \<equiv> 301"
abbreviation StatusForbidden :: nat where "StatusForbidden \<equiv> 403"
abbreviation StatusMethodNotAllowed :: nat where "StatusMethodNotAllowed \<equiv> 405"

text \<open>
  \<^verbatim>\<open>http.ServeMux\<close> with patterns that name no method and no wildcard: the path is cleaned first, except
  for \<^verbatim>\<open>CONNECT\<close>; a path that is not clean is redirected; then the decoded segments have to be those of a
  pattern.
\<close>

definition matches :: "string \<Rightarrow> string \<Rightarrow> bool" where
  "matches p pat \<longleftrightarrow> map unescape (split_char (CHR ''/'') p) = split_char (CHR ''/'') pat"

definition ServeMux :: "(string \<times> 'w wap_handler) list \<Rightarrow> 'w wap_handler" where
  "ServeMux routes r d =
     (let p = (if rq_method r = ''CONNECT'' then rq_path r else cleanPath (rq_path r)) in
      if rq_path r = ''*'' then (Some (Answer \<lparr>rs_status = StatusBadRequest, rs_body = Raw []\<rparr>), d)
      else if p \<noteq> rq_path r then (Some (Answer \<lparr>rs_status = StatusMovedPermanently, rs_body = Raw []\<rparr>), d)
      else (case find (\<lambda>(pat, h). matches p pat) routes of
              None \<Rightarrow> (fail StatusNotFound ''404 page not found'', d)
            | Some (pat, h) \<Rightarrow> h r d))"


section \<open>Foreign web pages (\<^verbatim>\<open>cors.go\<close>)\<close>

definition defaultCORSOrigins :: "string list" where
  "defaultCORSOrigins = [''https://blox.fx.land'', ''https://docs.fx.land'', ''https://functionland.github.io'']"

text \<open>The regular expression \<^verbatim>\<open>^http://(localhost|127\.0\.0\.1)(:\d+)?$\<close>.\<close>

definition localDevOrigin :: "string \<Rightarrow> bool" where
  "localDevOrigin origin \<longleftrightarrow>
     list_ex (\<lambda>h. HasPrefix origin h \<and>
         (case drop (length h) origin of
            [] \<Rightarrow> True
          | c # ds \<Rightarrow> c = CHR '':'' \<and> ds \<noteq> [] \<and> list_all is_digit ds))
       [''http://localhost'', ''http://127.0.0.1'']"

definition mutatingGETPaths :: "string list" where
  "mutatingGETPaths = [''/ap/enable'', ''/ap/disable'', ''/pools/join'', ''/pools/leave'', ''/pools/cancel'']"

text \<open>The first argument is the variable \<^verbatim>\<open>WAP_CORS_ORIGINS\<close>, empty when it is not set.\<close>

definition allowedCORSOrigins :: "string \<Rightarrow> string list" where
  "allowedCORSOrigins var =
     (let raw = TrimSpace var in
      if raw = [] then defaultCORSOrigins
      else filter (\<lambda>u. u \<noteq> []) (map TrimSpace (split_char (CHR '','') raw)))"

definition originAllowed :: "string \<Rightarrow> string \<Rightarrow> bool" where
  "originAllowed var origin \<longleftrightarrow>
     origin \<noteq> [] \<and> (list_ex (\<lambda>u. fold_eq u origin) (allowedCORSOrigins var) \<or> localDevOrigin origin)"

record reply =
  reply_headers :: "(string \<times> string) list"
  reply_answer :: "wap_answer option"

definition crossSiteFetch :: "wap_request \<Rightarrow> bool" where
  "crossSiteFetch r \<longleftrightarrow> (let sfs = ToLower (rq_fetch_site r) in sfs \<noteq> [] \<and> sfs \<noteq> ''same-origin'' \<and> sfs \<noteq> ''none'')"

definition mutating :: "wap_request \<Rightarrow> bool" where
  "mutating r \<longleftrightarrow> rq_method r \<noteq> ''GET'' \<and> rq_method r \<noteq> ''HEAD'' \<or> URL_Path r \<in> set mutatingGETPaths"

definition cors_headers :: "string \<Rightarrow> wap_request \<Rightarrow> (string \<times> string) list" where
  "cors_headers var r =
     (if rq_origin r = [] then []
      else (''Vary'', ''Origin'') #
        (if originAllowed var (rq_origin r) then
           [(''Access-Control-Allow-Origin'', rq_origin r), (''Access-Control-Allow-Methods'', ''GET, POST, OPTIONS''),
            (''Access-Control-Allow-Headers'', ''content-type''), (''Access-Control-Max-Age'', ''600'')] @
           (if fold_eq (rq_private_network r) ''true'' then [(''Access-Control-Allow-Private-Network'', ''true'')] else [])
         else []))"

definition withCORS :: "string \<Rightarrow> 'w wap_handler \<Rightarrow> wap_request \<Rightarrow> 'w device \<Rightarrow> reply \<times> 'w device" where
  "withCORS var next_handler r d =
     (let run = (\<lambda>hs. case next_handler r d of (a, e) \<Rightarrow> (\<lparr>reply_headers = hs, reply_answer = a\<rparr>, e));
          allowed = originAllowed var (rq_origin r); hs = cors_headers var r in
      if rq_origin r = [] \<and> \<not> crossSiteFetch r then run []
      else if rq_origin r \<noteq> [] \<and> rq_method r = ''OPTIONS'' then
        (\<lparr>reply_headers = hs,
          reply_answer = (if allowed then Some (Answer \<lparr>rs_status = StatusNoContent, rs_body = Raw []\<rparr>)
                          else fail StatusForbidden ''origin not allowed'')\<rparr>, d)
      else if mutating r \<and> \<not> allowed then (\<lparr>reply_headers = hs, reply_answer = fail StatusForbidden ''origin not allowed''\<rparr>, d)
      else run hs)"

section \<open>What the server is built on\<close>

text \<open>
  \<open>su_peerFunction\<close> is the function given to \<^verbatim>\<open>Serve\<close>, \<open>su_rand\<close> is \<^verbatim>\<open>rand.Read\<close> of a number of bytes, \<open>su_notify\<close> the
  send on \<^verbatim>\<open>connectedCh\<close>, \<open>su_origins\<close> the variable \<^verbatim>\<open>WAP_CORS_ORIGINS\<close>, \<open>su_order\<close> the order in which a scan visits
  its map and \<open>su_is_dir\<close> tells whether \<^verbatim>\<open>os.Stat\<close> finds a directory.
\<close>

record ('w, 'k) wap_setup =
  su_env :: "'w env"
  su_tools :: "'w tools"
  su_platform :: "'w platform"
  su_keys :: "'k keylib"
  su_conv :: yaml_conv
  su_peerFunction :: "string \<Rightarrow> string \<Rightarrow> 'w device \<Rightarrow> (unit, string) outcome \<times> 'w device"
  su_rand :: "nat \<Rightarrow> 'w \<Rightarrow> nat list option \<times> 'w"
  su_notify :: "'w \<Rightarrow> 'w"
  su_origins :: string
  su_order :: "wifi list \<Rightarrow> wifi list"
  su_is_dir :: "string \<Rightarrow> bool"

definition PROJECT_NAME :: string where
  "PROJECT_NAME = ''Box Firmware''"

definition OTA_VERSION :: string where
  "OTA_VERSION = ''6''"

definition server_Config :: "(string \<times> gty) list" where
  "server_Config =
     [(''identity'', GStr), (''storeDir'', GStr), (''poolName'', GStr), (''logLevel'', GStr), (''listenAddrs'', GArr GStr),
      (''authorizer'', GStr), (''authorizedPeers'', GArr GStr), (''ipfsBootstrapNodes'', GArr GStr), (''staticRelays'', GArr GStr),
      (''forceReachabilityPrivate'', GBool), (''allowTransientConnection'', GBool), (''disableResourceManager'', GBool),
      (''maxCIDPushRate'', GInt), (''ipniPublishDisabled'', GBool), (''ipniPublishInterval'', GStr),
      (''IpniPublishDirectAnnounce'', GArr GStr), (''ipniPublisherIdentity'', GStr)]"

text \<open>\<^verbatim>\<open>yaml.Marshal\<close> writes every field of the structure, a nil slice as the empty sequence.\<close>

definition marshal_setting :: "gty \<Rightarrow> json \<Rightarrow> json" where
  "marshal_setting t v = (case t of GArr _ \<Rightarrow> if v = JNull then JArr [] else v | _ \<Rightarrow> v)"

definition marshal_Config :: "(string \<rightharpoonup> json) \<Rightarrow> yaml_doc" where
  "marshal_Config c =
     \<lparr>y_poolName = Some (setting c ''poolName''), y_chainName = None,
      y_others = (\<lambda>k. if k = ''poolName'' then None
                      else (case map_of server_Config k of
                              None \<Rightarrow> None
                            | Some t \<Rightarrow> map_option (marshal_setting t) (c k)))\<rparr>"


section \<open>The handlers of \<^verbatim>\<open>server.go\<close>\<close>

definition bloxHasOwner :: "yaml_conv \<Rightarrow> 'w device \<Rightarrow> bool" where
  "bloxHasOwner conv d \<longleftrightarrow>
     (case load_yaml conv server_Config FULA_CONFIG_PATH d of
        None \<Rightarrow> False
      | Some c \<Rightarrow> TrimSpace (setting c ''authorizer'') \<noteq> [])"

definition addKuboIdentityState :: "(string \<rightharpoonup> json) \<Rightarrow> string \<Rightarrow> 'w device \<Rightarrow> string \<rightharpoonup> json" where
  "addKuboIdentityState out livePeerID d =
     (case GetKuboConfiguredPeerID d of
        None \<Rightarrow> out
      | Some configured \<Rightarrow>
          if configured = [] \<or> livePeerID = [] \<or> configured = livePeerID then out
          else out(''kubo_configured_peer_id'' \<mapsto> JStr configured, ''kubo_identity_pending'' \<mapsto> JBool True))"

definition dir_of :: "string \<Rightarrow> string" where
  "dir_of p = rev (tl (dropWhile (\<lambda>c. c \<noteq> CHR ''/'') (rev p)))"

definition checkPathExistAndFileNotExist :: "(string \<Rightarrow> bool) \<Rightarrow> string \<Rightarrow> 'w device \<Rightarrow> string" where
  "checkPathExistAndFileNotExist isdir p d =
     (if \<not> isdir (dir_of p) then ''true''
      else if \<not> FileExists p d \<and> \<not> unreadable d p then ''false''
      else ''true'')"

text \<open>The check of path and method with which most handlers begin.\<close>

definition only_at :: "string \<Rightarrow> string \<Rightarrow> 'w wap_handler \<Rightarrow> 'w wap_handler" where
  "only_at path method h r d =
     (if URL_Path r \<noteq> path then (fail StatusNotFound ''404 not found.'', d)
      else if rq_method r \<noteq> method then (fail StatusMethodNotAllowed ''Unsupported method type.'', d)
      else h r d)"

definition no_space :: json where
  "no_space = JObj [(''device_count'', JNum 0), (''size'', JNum 0), (''used'', JNum 0), (''avail'', JNum 0), (''used_percentage'', JNum 0)]"

definition docker_doc :: "json \<Rightarrow> json \<Rightarrow> json" where
  "docker_doc labels digests =
     JObj [(''image'', JStr []), (''version'', JStr []), (''id'', JStr []), (''labels'', labels), (''created'', JStr []), (''repo_digests'', digests)]"

text \<open>
  The answers of the three container queries. When the second one fails it is the first answer that is
  replaced, and the second stays the zero value with nil labels and digests.
\<close>

definition container_infos :: "json option \<Rightarrow> json option \<Rightarrow> json option \<Rightarrow> json \<times> json \<times> json" where
  "container_infos fula fxsupport node =
     (let none = docker_doc (JObj []) (JArr []) in
      (case fxsupport of None \<Rightarrow> none | Some _ \<Rightarrow> (case fula of None \<Rightarrow> none | Some i \<Rightarrow> i),
       case fxsupport of None \<Rightarrow> docker_doc JNull JNull | Some i \<Rightarrow> i,
       case node of None \<Rightarrow> none | Some i \<Rightarrow> i))"

definition with_authorizer :: "yaml_conv \<Rightarrow> (string \<rightharpoonup> json) \<Rightarrow> 'w device \<Rightarrow> string \<rightharpoonup> json" where
  "with_authorizer conv resp d =
     (if resp ''authorizer'' \<in> {None, Some JNull, Some (JStr [])} then
        (case load_yaml conv server_Config FULA_CONFIG_PATH d of
           None \<Rightarrow> resp
         | Some c \<Rightarrow> if setting c ''authorizer'' = [] then resp else resp(''authorizer'' \<mapsto> JStr (setting c ''authorizer'')))
      else resp)"

definition collect_properties :: "('w, 'k) wap_setup \<Rightarrow> 'w device \<Rightarrow> (string \<rightharpoonup> json) option \<times> 'w device" where
  "collect_properties su d =
     (case on_world (GetHardwareID (su_platform su)) d of (hw, d1) \<Rightarrow>
      case on_world (GetBloxFreeSpace (su_tools su) (su_platform su)) d1 of (sp, d2) \<Rightarrow>
      case on_world (GetContainerInfo (su_tools su) ''fula_go'') d2 of (fula, d3) \<Rightarrow>
      case on_world (GetContainerInfo (su_tools su) ''fula_fxsupport'') d3 of (fxsupport, d4) \<Rightarrow>
      case on_world (GetContainerInfo (su_tools su) ''fula_node'') d4 of (node, d5) \<Rightarrow>
      case container_infos fula fxsupport node of (i1, i2, i3) \<Rightarrow>
      case (case ReadProperties d5 of
              None \<Rightarrow> Some Map.empty
            | Some None \<Rightarrow> None
            | Some (Some m) \<Rightarrow> Some (m(''name'' \<mapsto> JStr PROJECT_NAME))) of
        None \<Rightarrow> (None, d5)
      | Some m \<Rightarrow>
          (let m1 = m(''hardwareID'' \<mapsto> JStr (case hw of None \<Rightarrow> [] | Some h \<Rightarrow> h),
                      ''bloxFreeSpace'' \<mapsto> (case sp of None \<Rightarrow> no_space | Some s \<Rightarrow> s),
                      ''containerInfo_fula'' \<mapsto> i1, ''containerInfo_fxsupport'' \<mapsto> i2, ''containerInfo_node'' \<mapsto> i3,
                      ''restartNeeded'' \<mapsto> JStr (checkPathExistAndFileNotExist (su_is_dir su) RESTART_NEEDED_PATH d5),
                      ''ota_version'' \<mapsto> JStr OTA_VERSION) in
           case GetKuboPeerID (su_env su) d5 of (kubo, d6) \<Rightarrow>
           let m2 = (case kubo of None \<Rightarrow> m1 | Some k \<Rightarrow> m1(''kubo_peer_id'' \<mapsto> JStr k));
               m3 = addKuboIdentityState m2 (case kubo of None \<Rightarrow> [] | Some k \<Rightarrow> k) d6 in
           case GetClusterInfo_wifi (su_env su) (su_conv su) (su_keys su) d6 of (((cid, _), ok), d7) \<Rightarrow>
           let m4 = (if ok then m3(''ipfs_cluster_peer_id'' \<mapsto> JStr cid) else m3) in
           (Some (with_authorizer (su_conv su) m4 d7), d7)))"

definition propertiesHandler :: "('w, 'k) wap_setup \<Rightarrow> 'w wap_handler" where
  "propertiesHandler su r d =
     (if URL_Path r \<noteq> ''/properties'' then (fail StatusNotFound ''404 not found.'', d)
      else if rq_method r = ''GET'' then
        (case collect_properties su d of (None, e) \<Rightarrow> (None, e) | (Some m, e) \<Rightarrow> (Some (AnswerMap StatusOK m), e))
      else if rq_method r = ''POST'' then (reply_doc StatusCreated (JObj [(''success'', JBool True)]), d)
      else (Some (Answer \<lparr>rs_status = StatusOK, rs_body = Raw []\<rparr>), d))"

definition wifiStatusHandler :: "('w, 'k) wap_setup \<Rightarrow> 'w wap_handler" where
  "wifiStatusHandler su = only_at ''/wifi/status'' ''GET'' (\<lambda>r d.
     case CheckIfIsConnected (su_tools su) (su_platform su) [] d of
       (connected, e) \<Rightarrow> (reply_doc StatusOK (JObj [(''status'', JBool connected)]), e))"

text \<open>The answers of \<^verbatim>\<open>Partition\<close> and \<^verbatim>\<open>DeleteFulaConfig\<close> under the names \<^verbatim>\<open>message\<close> and \<^verbatim>\<open>status\<close>.\<close>

definition status_doc :: "json \<Rightarrow> json" where
  "status_doc res = JObj [(''message'', entry ''msg'' res), (''status'', entry ''status'' res)]"

definition partitionHandler :: "'w wap_handler" where
  "partitionHandler = only_at ''/partition'' ''POST'' (\<lambda>r d.
     case Partition d of (res, e) \<Rightarrow> (reply_doc StatusOK (status_doc res), e))"

definition deleteFulaConfigHandler :: "'w wap_handler" where
  "deleteFulaConfigHandler = only_at ''/delete-fula-config'' ''POST'' (\<lambda>r d.
     case DeleteFulaConfig d of (res, e) \<Rightarrow> (reply_doc StatusOK (status_doc res), e))"

definition readinessHandler :: "('w, 'k) wap_setup \<Rightarrow> 'w wap_handler" where
  "readinessHandler su = only_at ''/readiness'' ''GET'' (\<lambda>r d.
     case ReadProperties d of
       None \<Rightarrow> (fail StatusInternalServerError ''error building the response, '', d)
     | Some None \<Rightarrow> (None, d)
     | Some (Some m) \<Rightarrow>
         (case GetKuboPeerID (su_env su) d of (kubo, e) \<Rightarrow>
          let m1 = m(''name'' \<mapsto> JStr PROJECT_NAME);
              m2 = (case kubo of None \<Rightarrow> m1 | Some k \<Rightarrow> m1(''kubo_peer_id'' \<mapsto> JStr k)) in
          (Some (AnswerMap StatusOK (addKuboIdentityState m2 (case kubo of None \<Rightarrow> [] | Some k \<Rightarrow> k) e)), e)))"

definition wifi_doc :: "wifi \<Rightarrow> json" where
  "wifi_doc w = JObj [(''essid'', JStr (ESSID w)), (''ssid'', JStr (SSID w)), (''rssi'', JNum (RSSI w))]"

definition listWifiHandler :: "('w, 'k) wap_setup \<Rightarrow> 'w wap_handler" where
  "listWifiHandler su = only_at ''/wifi/list'' ''GET'' (\<lambda>r d.
     case Scan (su_platform su) (su_order su) d of
       ((ws, ok), e) \<Rightarrow> (reply_doc StatusCreated (if ok then JArr (map wifi_doc ws) else JNull), e))"

definition connectWifiHandler :: "('w, 'k) wap_setup \<Rightarrow> 'w wap_handler" where
  "connectWifiHandler su = only_at ''/wifi/connect'' ''POST'' (\<lambda>r d.
     let ssid = rq_form r ''ssid''; password = rq_form r ''password'' in
     if ssid = [] then (fail StatusBadRequest ''missing ssid'', d)
     else if password = [] then (fail StatusBadRequest ''missing password'', d)
     else (case ConnectWifi (su_env su) (su_tools su) (su_platform su) \<lparr>cr_SSID = ssid, cr_Password = password\<rparr> d of
             (False, e) \<Rightarrow> (fail StatusBadRequest ''couldn't connect'', e)
           | (True, e) \<Rightarrow> (reply_doc StatusCreated (JStr ''Wifi connected!''), e\<lparr>world := su_notify su (world e)\<rparr>)))"

text \<open>\<^verbatim>\<open>base64.URLEncoding\<close> differs from the standard alphabet in two characters.\<close>

definition GenerateRandomString :: "('w, 'k) wap_setup \<Rightarrow> nat \<Rightarrow> 'w \<Rightarrow> string option \<times> 'w" where
  "GenerateRandomString su n w =
     (case su_rand su n w of
        (None, w1) \<Rightarrow> (None, w1)
      | (Some bs, w1) \<Rightarrow>
          (Some (map (\<lambda>c. if c = CHR ''+'' then CHR ''-'' else if c = CHR ''/'' then CHR ''_'' else c) (b64_encode bs)), w1))"

definition hardware_seed :: "('w, 'k) wap_setup \<Rightarrow> 'w device \<Rightarrow> string \<times> 'w device" where
  "hardware_seed su d =
     (case on_world (GetHardwareID (su_platform su)) d of
        (hw, d1) \<Rightarrow>
          (case hw of
             Some h \<Rightarrow> if h \<noteq> [] then (h, d1) else (case on_world (GenerateRandomString su 32) d1 of (x, d2) \<Rightarrow> (case x of None \<Rightarrow> [] | Some y \<Rightarrow> y, d2))
           | None \<Rightarrow> (case on_world (GenerateRandomString su 32) d1 of (x, d2) \<Rightarrow> (case x of None \<Rightarrow> [] | Some y \<Rightarrow> y, d2))))"

definition exchange_properties :: "'k keylib \<Rightarrow> string \<Rightarrow> string \<Rightarrow> string \<Rightarrow> string \<rightharpoonup> json" where
  "exchange_properties lib peerId bloxPeerID bloxPrivKey =
     [''client_peer_id'' \<mapsto> JStr peerId, ''blox_peer_id'' \<mapsto> JStr bloxPeerID, ''blox_seed'' \<mapsto> JStr bloxPrivKey,
      ''ipfs_cluster_peer_id'' \<mapsto> JStr (case cluster_id lib bloxPrivKey of Ok pid \<Rightarrow> pid | _ \<Rightarrow> [])]"

definition exchangePeersHandler :: "('w, 'k) wap_setup \<Rightarrow> 'w wap_handler" where
  "exchangePeersHandler su = only_at ''/peer/exchange'' ''POST'' (\<lambda>r d.
     let peerId = rq_form r ''peer_id''; seed = rq_form r ''seed'' in
     if peerId = [] then (fail StatusBadRequest ''missing peer_id'', d)
     else if seed = [] then (fail StatusBadRequest ''missing seed'', d)
     else
       (case hardware_seed su d of
          (hardwareID, d1) \<Rightarrow>
            if hardwareID = [] then (fail StatusBadRequest ''failed to create a random ID or get hardwareID'', d1)
            else
              (case GeneratePrivateKeyFromSeed (su_keys su) (hardwareID @ seed) of
                 None \<Rightarrow> (None, d1)
               | Some bloxPrivKey \<Rightarrow>
                   (case su_peerFunction su peerId bloxPrivKey d1 of
                      (Err _, d2) \<Rightarrow> (fail StatusBadRequest ''error while exchanging peers'', d2)
                    | (Panic, d2) \<Rightarrow> (None, d2)
                    | (Ok bloxPeerID, d2) \<Rightarrow>
                        (case WriteProperties (Some (exchange_properties (su_keys su) peerId bloxPeerID bloxPrivKey)) d2 of
                           (False, d3) \<Rightarrow> (fail StatusBadRequest ''failed to write the properties'', d3)
                         | (True, d3) \<Rightarrow> (reply_doc StatusCreated (JObj [(''peer_id'', JStr bloxPeerID)]), d3))))))"

definition generateIdentityHandler :: "('w, 'k) wap_setup \<Rightarrow> 'w wap_handler" where
  "generateIdentityHandler su = only_at ''/peer/generate-identity'' ''POST'' (\<lambda>r d.
     let seed = rq_form r ''seed'' in
     if seed = [] then (fail StatusBadRequest ''missing seed'', d)
     else (case GeneratePrivateKeyFromSeed (su_keys su) seed of
             None \<Rightarrow> (None, d)
           | Some privKeyString \<Rightarrow>
               (case cluster_id (su_keys su) privKeyString of
                  Ok pid \<Rightarrow> (reply_doc StatusCreated (JObj [(''peer_id'', JStr pid), (''seed'', JStr privKeyString)]), d)
                | Err DecodingFailed \<Rightarrow> (fail StatusBadRequest ''failed to StdEncoding.DecodeString'', d)
                | Err UnmarshalingFailed \<Rightarrow> (fail StatusBadRequest ''failed to UnmarshalPrivateKey'', d)
                | Err _ \<Rightarrow> (fail StatusBadRequest ''failed to create peer id'', d)
                | Panic \<Rightarrow> (None, d))))"

definition enableAccessPointHandler :: "('w, 'k) wap_setup \<Rightarrow> 'w wap_handler" where
  "enableAccessPointHandler su = only_at ''/ap/enable'' ''GET'' (\<lambda>r d.
     case StartHotspot (su_env su) (su_tools su) (su_platform su) True d of
       (_, e) \<Rightarrow> (reply_doc StatusCreated (JObj [(''status'', JStr ''enabled'')]), e))"

definition disableAccessPointHandler :: "('w, 'k) wap_setup \<Rightarrow> 'w wap_handler" where
  "disableAccessPointHandler su = only_at ''/ap/disable'' ''GET'' (\<lambda>r d.
     case StopHotspot (su_tools su) (su_platform su) d of
       (_, e) \<Rightarrow> (reply_doc StatusCreated (JObj [(''status'', JStr ''disable'')]), e))"

definition pool_request :: gty where
  "pool_request = GStruct [(''poolID'', GStr, False)]"

definition requested_pool :: "wap_request \<Rightarrow> string option" where
  "requested_pool r =
     (if Contains (rq_content_type r) ''application/json''
      then map_option (\<lambda>j. text_of (entry ''poolID'' j)) (Option.bind (decode_first (rq_body r)) (decode_new pool_request))
      else Some (rq_form r ''poolID''))"

definition pool_status :: "string \<Rightarrow> string \<Rightarrow> json" where
  "pool_status status poolID = JObj [(''poolID'', JStr poolID), (''status'', JStr status)]"

definition joinPoolHandler :: "('w, 'k) wap_setup \<Rightarrow> 'w wap_handler" where
  "joinPoolHandler su r d =
     (case requested_pool r of
        None \<Rightarrow> (fail StatusBadRequest ''Invalid JSON: '', d)
      | Some poolID \<Rightarrow>
          (case ReadFile FULA_CONFIG_PATH d of
             Ok f \<Rightarrow>
               (case Option.bind (as_yaml f) (yaml_struct (su_conv su) server_Config) of
                  None \<Rightarrow> (fail StatusInternalServerError ''Failed to parse config file: '', d)
                | Some c \<Rightarrow>
                    (case WriteFile FULA_CONFIG_PATH (Conf (marshal_Config (c(''poolName'' \<mapsto> JStr poolID)))) d of
                       (False, e) \<Rightarrow> (fail StatusInternalServerError ''Failed to write updated config file: '', e)
                     | (True, e) \<Rightarrow> (reply_doc StatusOK (pool_status ''joined'' poolID), e)))
           | _ \<Rightarrow> (fail StatusInternalServerError ''Failed to read config file: '', d)))"

definition leavePoolHandler :: "'w wap_handler" where
  "leavePoolHandler r d =
     (case requested_pool r of
        None \<Rightarrow> (fail StatusBadRequest ''Invalid JSON: '', d)
      | Some poolID \<Rightarrow> (reply_doc StatusOK (pool_status ''left'' poolID), d))"

definition cancelJoinPoolHandler :: "'w wap_handler" where
  "cancelJoinPoolHandler r d =
     (case requested_pool r of
        None \<Rightarrow> (fail StatusBadRequest ''Invalid JSON: '', d)
      | Some poolID \<Rightarrow> (reply_doc StatusOK (pool_status ''cancelled'' poolID), d))"

definition chainStatusHandler :: "'w wap_handler" where
  "chainStatusHandler r d = (reply_doc StatusOK (JObj [(''isSynced'', JBool True), (''syncProgress'', JNum 100)]), d)"

definition accountIdHandler :: "'w wap_handler" where
  "accountIdHandler r d =
     (let filePath = ''/internal/.secrets/account.txt'' in
      if \<not> FileExists filePath d \<and> \<not> unreadable d filePath then (fail StatusNotFound ''Account file not found'', d)
      else (case ReadFile filePath d of
              Ok f \<Rightarrow> (reply_doc StatusOK (JObj [(''accountId'', JStr (TrimSpace (file_text f)))]), d)
            | _ \<Rightarrow> (fail StatusInternalServerError ''Failed to read account file'', d)))"

definition accountSeedHandler :: "'w wap_handler" where
  "accountSeedHandler r d =
     (let filePath = ''/internal/.secrets/secret_seed.txt'' in
      if \<not> FileExists filePath d \<and> \<not> unreadable d filePath then (fail StatusNotFound ''Account Seed file not found'', d)
      else (case ReadFile filePath d of
              Ok f \<Rightarrow> (reply_doc StatusOK (JObj [(''accountSeed'', JStr (TrimSpace (file_text f)))]), d)
            | _ \<Rightarrow> (fail StatusInternalServerError ''Failed to read account seed file'', d)))"


section \<open>The server\<close>

definition setup_routes :: "('w, 'k) wap_setup \<Rightarrow> (string \<times> 'w wap_handler) list" where
  "setup_routes su =
     [(''/readiness'', readinessHandler su), (''/wifi/list'', listWifiHandler su), (''/wifi/status'', wifiStatusHandler su),
      (''/wifi/connect'', connectWifiHandler su), (''/ap/enable'', enableAccessPointHandler su),
      (''/ap/disable'', disableAccessPointHandler su), (''/properties'', propertiesHandler su), (''/partition'', partitionHandler),
      (''/delete-fula-config'', deleteFulaConfigHandler), (''/peer/exchange'', exchangePeersHandler su),
      (''/peer/generate-identity'', generateIdentityHandler su), (''/pools/join'', joinPoolHandler su),
      (''/pools/leave'', leavePoolHandler), (''/pools/cancel'', cancelJoinPoolHandler), (''/chain/status'', chainStatusHandler),
      (''/account/id'', accountIdHandler), (''/account/seed'', accountSeedHandler)]"

text \<open>What the listeners on the hotspot and on the loopback interface serve, and what those on the local network do.\<close>

definition serve_hotspot :: "('w, 'k) wap_setup \<Rightarrow> wap_request \<Rightarrow> 'w device \<Rightarrow> reply \<times> 'w device" where
  "serve_hotspot su = withCORS (su_origins su) (ServeMux (setup_routes su))"

definition lanSetupGuard :: "yaml_conv \<Rightarrow> (wap_request \<Rightarrow> 'w device \<Rightarrow> reply \<times> 'w device) \<Rightarrow> wap_request \<Rightarrow> 'w device \<Rightarrow> reply \<times> 'w device" where
  "lanSetupGuard conv next_handler r d =
     (if bloxHasOwner conv d
      then (\<lparr>reply_headers = [],
             reply_answer = fail StatusForbidden ''this Blox is already set up; manage it over the hotspot or Bluetooth''\<rparr>, d)
      else next_handler r d)"

definition serve_lan :: "('w, 'k) wap_setup \<Rightarrow> wap_request \<Rightarrow> 'w device \<Rightarrow> reply \<times> 'w device" where
  "serve_lan su = lanSetupGuard (su_conv su) (serve_hotspot su)"

section \<open>Routing sees the decoded path\<close>

lemma hex_val_slash [simp]: "hex_val (CHR ''/'') = None"
  by (simp add: hex_val_def)

lemma unescape_plain: "c \<noteq> CHR ''%'' \<Longrightarrow> unescape (c # s) = c # unescape s"
proof (cases s)
  case (Cons a t)
  assume "c \<noteq> CHR ''%''"
  with Cons show ?thesis by (cases t) (auto split: option.splits)
qed simp

lemma unescape_before_slash: "unescape (c # CHR ''/'' # s) = c # CHR ''/'' # unescape s"
  by (cases s) (auto simp: unescape_plain split: option.splits)

lemma unescape_slash: "unescape (a @ CHR ''/'' # b) = unescape a @ CHR ''/'' # unescape b"
proof (induction a rule: unescape.induct)
  case (1 c p q t)
  then show ?case by (auto split: option.splits)
next
  case "2_3"
  then show ?case by (auto simp: unescape_before_slash split: option.splits)
qed (simp_all add: unescape_plain unescape_before_slash)

lemma unescape_join: "ws \<noteq> [] \<Longrightarrow> unescape (join_char (CHR ''/'') ws) = join_char (CHR ''/'') (map unescape ws)"
  by (induction "CHR ''/''" ws rule: join_char.induct) (auto simp: unescape_slash)

lemma matches_path: "matches p pat \<Longrightarrow> unescape p = pat"
  by (metis join_split matches_def split_char_not_Nil unescape_join)

lemma ServeMux_cases:
  assumes "ServeMux routes r d = (a, e)"
  obtains (refused) "e = d" | (routed) pat h where "(pat, h) \<in> set routes" "URL_Path r = pat" "h r d = (a, e)"
proof -
  from assms consider "e = d" | pat h where "find (\<lambda>(pat, h). matches (rq_path r) pat) routes = Some (pat, h)" "h r d = (a, e)"
    by (auto simp: ServeMux_def Let_def split: if_splits option.splits)
  then show ?thesis
  proof cases
    case 2
    then have "(pat, h) \<in> set routes" "matches (rq_path r) pat" by (auto simp: find_Some_iff) (metis nth_mem)
    with 2 routed show ?thesis by (simp add: URL_Path_def matches_path)
  qed (rule refused)
qed


section \<open>Requests that only read\<close>

lemma linked_step:
  "linked pf (i # is) d = (ok, e) \<Longrightarrow> \<exists>x d1. runCommand pf (''iw dev '' @ i @ '' link'') d = (x, d1) \<and> (e = d1 \<or> linked pf is d1 = (ok, e))"
  by (auto simp del: append_Cons split: prod.splits bool.splits if_splits)

lemma linked_local [frame_intros]: "linked pf is d = (ok, e) \<Longrightarrow> same_local d e"
proof (induction "is" arbitrary: d)
  case (Cons i "is")
  from linked_step [OF Cons.prems] obtain x d1
    where "runCommand pf (''iw dev '' @ i @ '' link'') d = (x, d1)" "e = d1 \<or> linked pf is d1 = (ok, e)" by blast
  then have "same_local d d1" "e = d1 \<or> same_local d1 e" using Cons.IH by (blast dest: runCommand_local)+
  then show ?case by (auto intro: same_local_trans)
qed simp

lemma checkIfIsConnectedLinux_local: "checkIfIsConnectedLinux pf i d = (ok, e) \<Longrightarrow> same_local d e"
  by (auto simp: checkIfIsConnectedLinux_def split: prod.splits bool.splits if_splits
      dest!: runCommand_local linked_local intro: same_local_trans)

lemma CheckIfIsConnected_local [frame_intros]: "CheckIfIsConnected ts pf i d = (ok, e) \<Longrightarrow> same_local d e"
  by (auto simp: CheckIfIsConnected_def CheckIfIsConnectedWifi_def split: prod.splits bool.splits if_splits
      dest!: checkIfIsConnectedLinux_local run_direct_local runCommand_local dest: same_local_trans)

lemma Scan_local [frame_intros]: "Scan pf ord d = (x, e) \<Longrightarrow> same_local d e"
  by (auto simp: Scan_def split: prod.splits bool.splits dest!: runCommand_local)

lemma GetClusterInfo_wifi_local [frame_intros]:
  assumes "GetClusterInfo_wifi env conv lib d = (x, e)"
  shows "same_local d e"
proof -
  obtain r d1 where s: "send env \<lparr>hq_method = ''GET'', hq_url = ''http://127.0.0.1:9094/id'', hq_body = Raw []\<rparr> d = (r, d1)" by fastforce
  obtain k d2 where k: "GetKuboPeerID env d1 = (k, d2)" by fastforce
  with assms s have "e = d2" unfolding GetClusterInfo_wifi_def Let_def by (auto split: option.splits)
  with send_local [OF s] GetKuboPeerID_local [OF k] show ?thesis by (metis same_local_trans)
qed

lemma collect_properties_local [frame_intros]:
  assumes "collect_properties su d = (x, e)"
  shows "same_local d e"
proof -
  obtain hw d1 where 1: "on_world (GetHardwareID (su_platform su)) d = (hw, d1)" by fastforce
  obtain sp d2 where 2: "on_world (GetBloxFreeSpace (su_tools su) (su_platform su)) d1 = (sp, d2)" by fastforce
  obtain a d3 where 3: "on_world (GetContainerInfo (su_tools su) ''fula_go'') d2 = (a, d3)" by fastforce
  obtain b d4 where 4: "on_world (GetContainerInfo (su_tools su) ''fula_fxsupport'') d3 = (b, d4)" by fastforce
  obtain c d5 where 5: "on_world (GetContainerInfo (su_tools su) ''fula_node'') d4 = (c, d5)" by fastforce
  obtain k d6 where 6: "GetKuboPeerID (su_env su) d5 = (k, d6)" by fastforce
  obtain g d7 where 7: "GetClusterInfo_wifi (su_env su) (su_conv su) (su_keys su) d6 = (g, d7)" by fastforce
  have "e = d5 \<or> e = d7"
    using assms by (cases g) (auto simp: collect_properties_def 1 2 3 4 5 6 7 Let_def split: prod.splits option.splits)
  moreover have "same_local d d5"
    using on_world_local [OF 1] on_world_local [OF 2] on_world_local [OF 3] on_world_local [OF 4] on_world_local [OF 5]
    by (meson same_local_trans)
  ultimately show ?thesis
    using GetKuboPeerID_local [OF 6] GetClusterInfo_wifi_local [OF 7] by (metis same_local_trans)
qed

lemma only_at_local:
  "(\<And>a e. h r d = (a, e) \<Longrightarrow> same_local d e) \<Longrightarrow> only_at p m h r d = (a, e) \<Longrightarrow> same_local d e"
  by (auto simp: only_at_def split: if_splits)

lemma only_at_method: "rq_method r \<noteq> m \<Longrightarrow> only_at p m h r d = (a, e) \<Longrightarrow> e = d"
  by (auto simp: only_at_def split: if_splits)

text \<open>The handlers of the routes that a \<^verbatim>\<open>GET\<close> or \<^verbatim>\<open>HEAD\<close> request of a foreign page can reach.\<close>

lemma read_handlers_local:
  "readinessHandler su r d = (a, e) \<Longrightarrow> same_local d e"
  "listWifiHandler su r d = (a, e) \<Longrightarrow> same_local d e"
  "wifiStatusHandler su r d = (a, e) \<Longrightarrow> same_local d e"
  "propertiesHandler su r d = (a, e) \<Longrightarrow> same_local d e"
  "chainStatusHandler r d = (a, e) \<Longrightarrow> same_local d e"
  "accountIdHandler r d = (a, e) \<Longrightarrow> same_local d e"
  "accountSeedHandler r d = (a, e) \<Longrightarrow> same_local d e"
  by (auto simp: readinessHandler_def listWifiHandler_def wifiStatusHandler_def propertiesHandler_def chainStatusHandler_def
      accountIdHandler_def accountSeedHandler_def Let_def only_at_def dest!: GetKuboPeerID_local Scan_local CheckIfIsConnected_local
      collect_properties_local split: if_splits option.splits prod.splits outcome.splits)

lemma post_handlers_same:
  assumes "rq_method r = ''GET'' \<or> rq_method r = ''HEAD''"
  shows "connectWifiHandler su r d = (a, e) \<Longrightarrow> e = d" "partitionHandler r d = (a, e) \<Longrightarrow> e = d"
    "deleteFulaConfigHandler r d = (a, e) \<Longrightarrow> e = d" "exchangePeersHandler su r d = (a, e) \<Longrightarrow> e = d"
    "generateIdentityHandler su r d = (a, e) \<Longrightarrow> e = d"
  using assms
  by (auto simp: connectWifiHandler_def partitionHandler_def deleteFulaConfigHandler_def exchangePeersHandler_def generateIdentityHandler_def
      dest!: only_at_method [rotated])

definition reading_handlers :: "('w, 'k) wap_setup \<Rightarrow> 'w wap_handler list" where
  "reading_handlers su = [readinessHandler su, listWifiHandler su, wifiStatusHandler su, propertiesHandler su, chainStatusHandler,
     accountIdHandler, accountSeedHandler]"

definition posting_handlers :: "('w, 'k) wap_setup \<Rightarrow> 'w wap_handler list" where
  "posting_handlers su = [connectWifiHandler su, partitionHandler, deleteFulaConfigHandler, exchangePeersHandler su, generateIdentityHandler su]"

lemma unlisted_routes:
  "list_all (\<lambda>(pat, h). pat \<in> set mutatingGETPaths \<or> h \<in> set (reading_handlers su) \<or> h \<in> set (posting_handlers su)) (setup_routes su)"
  by (simp add: setup_routes_def mutatingGETPaths_def reading_handlers_def posting_handlers_def)

lemma reading_route_local:
  assumes "(pat, h) \<in> set (setup_routes su)" and "pat \<notin> set mutatingGETPaths" and "rq_method r = ''GET'' \<or> rq_method r = ''HEAD''"
    and "h r d = (a, e)"
  shows "same_local d e"
proof -
  from unlisted_routes [of su] assms(1,2) have "h \<in> set (reading_handlers su) \<or> h \<in> set (posting_handlers su)"
    by (auto simp: list_all_iff)
  then show ?thesis
  proof
    assume "h \<in> set (reading_handlers su)"
    then have "list_ex (\<lambda>f. h = f) (reading_handlers su)" by (simp add: list_ex_iff)
    with assms(4) show ?thesis unfolding reading_handlers_def list_ex_Cons_iff list_ex_Nil_iff by (elim disjE) (simp_all only: read_handlers_local)
  next
    assume "h \<in> set (posting_handlers su)"
    then have "list_ex (\<lambda>f. h = f) (posting_handlers su)" by (simp add: list_ex_iff)
    with assms(4) have "e = d" unfolding posting_handlers_def list_ex_Cons_iff list_ex_Nil_iff by (elim disjE) (simp_all only: post_handlers_same [OF assms(3)])
    then show ?thesis by simp
  qed
qed



section \<open>What a foreign web page can do\<close>

text \<open>
  A request of a page that is not allow-listed: a browser sends its origin, or at least says that the fetch
  is cross-site.
\<close>

definition foreign :: "('w, 'k) wap_setup \<Rightarrow> wap_request \<Rightarrow> bool" where
  "foreign su r \<longleftrightarrow> (rq_origin r \<noteq> [] \<or> crossSiteFetch r) \<and> \<not> originAllowed (su_origins su) (rq_origin r)"

lemma foreign_reads_only: "foreign su r \<Longrightarrow> serve_hotspot su r d = (x, e) \<Longrightarrow> same_local d e"
proof -
  assume f: "foreign su r" and s: "serve_hotspot su r d = (x, e)"
  show ?thesis
  proof (cases "mutating r \<or> rq_origin r \<noteq> [] \<and> rq_method r = ''OPTIONS''")
    case True
    with f s show ?thesis by (auto simp: serve_hotspot_def withCORS_def foreign_def Let_def split: if_splits)
  next
    case False
    with f s obtain a where m: "ServeMux (setup_routes su) r d = (a, e)"
      by (auto simp: serve_hotspot_def withCORS_def foreign_def Let_def split: if_splits prod.splits)
    from False have g: "rq_method r = ''GET'' \<or> rq_method r = ''HEAD''" "URL_Path r \<notin> set mutatingGETPaths"
      by (auto simp: mutating_def)
    from m show ?thesis by (cases rule: ServeMux_cases) (use g reading_route_local in blast)+
  qed
qed

text \<open>
  C17. A web page that is not allow-listed cannot change the device: whatever request it makes the browser
  send, through any route and in any spelling of the path, files, members and permissions stay as they are;
  a request that could change something is answered 403; and no answer lets the page read it.
\<close>

theorem foreign_page_changes_nothing:
  assumes "foreign su r"
  shows "same_local d (snd (serve_hotspot su r d)) \<and>
    (mutating r \<longrightarrow> snd (serve_hotspot su r d) = d \<and>
      reply_answer (fst (serve_hotspot su r d)) = Some (Answer (http_Error StatusForbidden ''origin not allowed''))) \<and>
    map_of (reply_headers (fst (serve_hotspot su r d))) ''Access-Control-Allow-Origin'' = None"
proof (intro conjI)
  show "same_local d (snd (serve_hotspot su r d))"
    using foreign_reads_only [OF assms, of d] by (metis prod.collapse)
  show "mutating r \<longrightarrow> snd (serve_hotspot su r d) = d \<and>
      reply_answer (fst (serve_hotspot su r d)) = Some (Answer (http_Error StatusForbidden ''origin not allowed''))"
    using assms by (auto simp: serve_hotspot_def withCORS_def foreign_def Let_def)
  show "map_of (reply_headers (fst (serve_hotspot su r d))) ''Access-Control-Allow-Origin'' = None"
    using assms by (auto simp: serve_hotspot_def withCORS_def foreign_def cors_headers_def Let_def split: prod.splits)
qed

text \<open>Clients that are no browsers are served as if there were no guard.\<close>

lemma bare_requests_pass:
  "rq_origin r = [] \<Longrightarrow> rq_fetch_site r = [] \<Longrightarrow>
   serve_hotspot su r d = (let (a, e) = ServeMux (setup_routes su) r d in (\<lparr>reply_headers = [], reply_answer = a\<rparr>, e))"
  by (simp add: serve_hotspot_def withCORS_def crossSiteFetch_def ToLower_def Let_def case_prod_unfold)


section \<open>An owned device\<close>

lemma load_yaml_local: "same_local d e \<Longrightarrow> load_yaml conv fs p e = load_yaml conv fs p d"
  by (simp add: load_yaml_def ReadFile_same_local)

lemma owner_local: "same_local d e \<Longrightarrow> bloxHasOwner conv e = bloxHasOwner conv d"
  by (simp add: bloxHasOwner_def load_yaml_local)

datatype visit = ViaLan wap_request | ViaHotspot wap_request

fun run_visits :: "('w, 'k) wap_setup \<Rightarrow> visit list \<Rightarrow> 'w device \<Rightarrow> reply list \<times> 'w device" where
  "run_visits su [] d = ([], d)"
| "run_visits su (v # vs) d =
     (case (case v of ViaLan r \<Rightarrow> serve_lan su r d | ViaHotspot r \<Rightarrow> serve_hotspot su r d) of
        (x, d1) \<Rightarrow> (case run_visits su vs d1 of (xs, d2) \<Rightarrow> (x # xs, d2)))"

lemma owned_lan: "bloxHasOwner (su_conv su) d \<Longrightarrow> snd (serve_lan su r d) = d"
  by (simp add: serve_lan_def lanSetupGuard_def)

text \<open>
  C18. Once the device has an owner, nobody on the local network and no foreign web page can claim or change
  it: any history of requests over the local network, of any kind, and of requests of foreign pages over the
  other listeners leaves files, members and permissions as they were, and so the owner in the configuration.
\<close>

theorem owned_device_is_closed:
  assumes "bloxHasOwner (su_conv su) d" and "\<forall>r. ViaHotspot r \<in> set vs \<longrightarrow> foreign su r"
  shows "same_local d (snd (run_visits su vs d)) \<and> bloxHasOwner (su_conv su) (snd (run_visits su vs d))"
proof -
  have "same_local d (snd (run_visits su vs d))" using assms
  proof (induction su vs d rule: run_visits.induct)
    case (2 su v vs d)
    obtain x d1 where v: "(case v of ViaLan r \<Rightarrow> serve_lan su r d | ViaHotspot r \<Rightarrow> serve_hotspot su r d) = (x, d1)" by fastforce
    have "same_local d d1"
    proof (cases v)
      case (ViaLan r)
      with v 2(2) owned_lan [of su d r] show ?thesis by auto
    next
      case (ViaHotspot r)
      with v 2(3) foreign_reads_only [of su r d x d1] show ?thesis by auto
    qed
    moreover from this 2 v have "same_local d1 (snd (run_visits su vs d1))" by (auto simp: owner_local)
    ultimately show ?case using v by (auto simp: case_prod_unfold intro: same_local_trans)
  qed simp
  then show ?thesis using assms(1) owner_local by blast
qed

text \<open>
  The set-up page can never connect a device to Wi-Fi: the handler gives the whole connection ten seconds,
  the connection waits ten seconds for the network before it looks whether it is there, and no command starts
  under a context that has ended. Every such request is answered 400, and the application is never told.
\<close>

lemma wifi_connect_always_fails:
  assumes "expires (su_env su) (su_platform su) over"
  shows "\<exists>msg. fst (connectWifiHandler su r d) = Some (Answer msg) \<and> rs_status msg \<in> {StatusBadRequest, StatusNotFound, StatusMethodNotAllowed}"
proof -
  have "fst (ConnectWifi (su_env su) (su_tools su) (su_platform su) c d) = False" for c
    by (rule expired_ConnectWifi [OF assms])
  then show ?thesis
    by (auto simp: connectWifiHandler_def only_at_def Let_def http_Error_def split: prod.splits bool.splits) (metis fst_conv)+
qed

text \<open>
  Joining a pool from the set-up page rewrites the configuration through a structure without the chain name:
  the chain the device had chosen is forgotten.
\<close>

lemma setup_join_drops_chain:
  assumes "joinPoolHandler su r d = (Some (Answer (respond StatusOK (pool_status ''joined'' p))), e)"
  shows "\<exists>y. files e FULA_CONFIG_PATH = Some (Conf y) \<and> y_poolName y = Some p \<and> y_chainName y = None"
  using assms
  by (auto simp: joinPoolHandler_def http_Error_def respond_def pool_status_def marshal_Config_def setting_def text_of_def WriteFile_def
      split: option.splits outcome.splits prod.splits bool.splits if_splits)


section \<open>A concrete server\<close>

definition sample_setup :: "(int, nat list) wap_setup" where
  "sample_setup = \<lparr>su_env = (sample_env Map.empty)\<lparr>wait := \<lambda>ns w. (True, 1)\<rparr>,
     su_tools = sample_tools [],
     su_platform = (sample_platform (\<lambda>_. True))\<lparr>exec := \<lambda>argv w. if 0 < w then (NotStarted, w) else (Exited True [], w)\<rparr>,
     su_keys = sample_keys, su_conv = (\<lambda>t v. if has_type t v then Some v else None),
     su_peerFunction = (\<lambda>p k d. (Ok ''QmKubo'', d)), su_rand = (\<lambda>n w. (Some (replicate n 0), w)), su_notify = (\<lambda>w. w + 1),
     su_origins = [], su_order = id, su_is_dir = (\<lambda>_. True)\<rparr>"

definition evil_request :: wap_request where
  "evil_request = \<lparr>rq_method = ''GET'', rq_path = ''/%70ools/join'', rq_origin = [], rq_fetch_site = ''cross-site'', rq_private_network = [],
     rq_content_type = [], rq_form = (\<lambda>_. ''9''), rq_body = Raw []\<rparr>"

definition owned_device :: "int device" where
  "owned_device = (sample_device 0)\<lparr>files := [FULA_CONFIG_PATH \<mapsto> Conf start_doc]\<rparr>"

lemma evil_foreign: "foreign sample_setup evil_request" "mutating evil_request"
  by (simp_all add: foreign_def evil_request_def crossSiteFetch_def ToLower_def lower_char_def originAllowed_def mutating_def URL_Path_def
      mutatingGETPaths_def hex_val_def char_of_def bit_Suc_0_iff)

theorem foreign_page_changes_nothing_witness:
  "snd (serve_hotspot sample_setup evil_request owned_device) = owned_device \<and>
   reply_answer (fst (serve_hotspot sample_setup evil_request owned_device)) = Some (Answer (http_Error StatusForbidden ''origin not allowed''))"
  using foreign_page_changes_nothing [OF evil_foreign(1), of owned_device] evil_foreign(2) by simp

lemma owned_sample: "bloxHasOwner (su_conv sample_setup) owned_device"
  by (simp add: bloxHasOwner_def load_yaml_def ReadFile_def owned_device_def sample_device_def as_yaml_def yaml_struct_def yaml_field_def
      server_Config_def yaml_get_def start_doc_def sample_setup_def setting_def text_of_def TrimSpace_def is_space_def)

theorem owned_device_is_closed_witness:
  "bloxHasOwner (su_conv sample_setup)
     (snd (run_visits sample_setup [ViaLan (evil_request\<lparr>rq_method := ''POST'', rq_path := ''/peer/exchange''\<rparr>), ViaHotspot evil_request] owned_device))"
  using owned_device_is_closed [OF owned_sample, of "[ViaLan (evil_request\<lparr>rq_method := ''POST'', rq_path := ''/peer/exchange''\<rparr>), ViaHotspot evil_request]"]
    evil_foreign by simp

theorem wifi_connect_always_fails_witness:
  "\<exists>msg. fst (connectWifiHandler sample_setup (evil_request\<lparr>rq_method := ''POST'', rq_path := ''/wifi/connect''\<rparr>) (sample_device 0)) = Some (Answer msg) \<and>
     rs_status msg \<in> {StatusBadRequest, StatusNotFound, StatusMethodNotAllowed}"
proof -
  have "expires (su_env sample_setup) (su_platform sample_setup) (\<lambda>w. 0 < w)" by (simp add: expires_def sample_setup_def)
  then show ?thesis by (rule wifi_connect_always_fails)
qed

end
