(* ===== verification/IpfsRpc.thy ===== *)
theory IpfsRpc
  imports SetupApi
begin

text \<open>
  The embedded IPFS interface of the node (\<^verbatim>\<open>blox/ipfs.go\<close>) and the block store behind it (\<^verbatim>\<open>blox/store.go\<close>): every route
  of \<^verbatim>\<open>ServeIpfsRpc\<close>, and writing, reading and looking up blocks. The datastore, content ids and keys are third-party code:
  \<open>ds_NewKey\<close> is \<^verbatim>\<open>datastore.NewKey\<close>, \<open>ds_Query\<close> a query of keys with an optional prefix filter and a limit (0 for none),
  \<open>cc_Decode\<close>, \<open>cc_Cast\<close>, \<open>cc_Bytes\<close> and \<open>cc_String\<close> are the functions of the package \<^verbatim>\<open>cid\<close>, bytes being characters.
  A handler that panics answers \<^const>\<open>None\<close>.
\<close>

section \<open>Datastore and content ids\<close>

datatype ds_error = DsNotFound | DsFailure

datatype ds_result = DsEntry (de_key: string) (de_size: int) | DsError

record 'w block_ds =
  ds_NewKey :: "string \<Rightarrow> string"
  ds_Query :: "string option \<Rightarrow> nat \<Rightarrow> 'w \<Rightarrow> ds_result list option \<times> 'w"
  ds_Get :: "string \<Rightarrow> 'w \<Rightarrow> (ds_error, string) outcome \<times> 'w"
  ds_Put :: "string \<Rightarrow> string \<Rightarrow> 'w \<Rightarrow> bool \<times> 'w"
  ds_Has :: "string \<Rightarrow> 'w \<Rightarrow> bool option \<times> 'w"

record 'c cid_lib =
  cc_Decode :: "string \<Rightarrow> 'c option"
  cc_Cast :: "string \<Rightarrow> 'c option"
  cc_Bytes :: "'c \<Rightarrow> string"
  cc_String :: "'c \<Rightarrow> string"

text \<open>
  The node: \<open>rp_pubkey\<close> gives the raw public key inside a peer id, \<open>rp_uint64\<close> converts a \<^verbatim>\<open>float32\<close> to \<^verbatim>\<open>uint64\<close>.
\<close>

record ('w, 'c) rpc_node =
  rp_ds :: "'w block_ds"
  rp_cid :: "'c cid_lib"
  rp_selfPeerID :: peerID
  rp_pubkey :: "peerID \<Rightarrow> nat list option"
  rp_authorizedPeers :: "peerID list"
  rp_storeDir :: string
  rp_uint64 :: "json \<Rightarrow> int"
  rp_tools :: "'w tools"
  rp_platform :: "'w platform"


section \<open>Blocks (\<^verbatim>\<open>store.go\<close>)\<close>

definition toDatastoreKey :: "('w, 'c) rpc_node \<Rightarrow> 'c \<Rightarrow> string" where
  "toDatastoreKey p l = ds_NewKey (rp_ds p) (cc_Bytes (rp_cid p) l)"

definition blockWriteOpener :: "('w, 'c) rpc_node \<Rightarrow> string \<Rightarrow> 'c \<Rightarrow> 'w \<Rightarrow> bool \<times> 'w" where
  "blockWriteOpener p buf l w = ds_Put (rp_ds p) (toDatastoreKey p l) buf w"

definition blockReadOpener :: "('w, 'c) rpc_node \<Rightarrow> 'c \<Rightarrow> 'w \<Rightarrow> (ds_error, string) outcome \<times> 'w" where
  "blockReadOpener p l w = ds_Get (rp_ds p) (toDatastoreKey p l) w"

definition Has_block :: "('w, 'c) rpc_node \<Rightarrow> 'c \<Rightarrow> 'w \<Rightarrow> bool option \<times> 'w" where
  "Has_block p l w = ds_Has (rp_ds p) (toDatastoreKey p l) w"


section \<open>Documents of the answers\<close>

text \<open>\<^verbatim>\<open>encoding/json\<close> writes the keys of a map in the order of their bytes.\<close>

fun bytes_less :: "string \<Rightarrow> string \<Rightarrow> bool" where
  "bytes_less _ [] \<longleftrightarrow> False"
| "bytes_less [] _ \<longleftrightarrow> True"
| "bytes_less (a # s) (b # t) \<longleftrightarrow> (of_char a :: nat) < of_char b \<or> a = b \<and> bytes_less s t"

fun insert_key :: "string \<Rightarrow> string list \<Rightarrow> string list" where
  "insert_key k [] = [k]"
| "insert_key k (x # xs) = (if k = x then x # xs else if bytes_less k x then k # x # xs else x # insert_key k xs)"

definition version0 :: string where
  "version0 = ''0''"

definition pin_list_doc :: "string list \<Rightarrow> json" where
  "pin_list_doc keys =
     JObj (if keys = [] then []
           else [(''Keys'', JObj (map (\<lambda>k. (k, JObj [(''Type'', JStr ''recursive'')])) (foldr insert_key keys [])))])"

definition RepoInfo :: "int \<Rightarrow> string \<Rightarrow> int \<Rightarrow> int \<Rightarrow> json" where
  "RepoInfo numObjects path sz storageMax =
     JObj [(''NumObjects'', JNum numObjects), (''RepoPath'', JStr path),
           (''SizeStat'', JObj [(''RepoSize'', JNum sz), (''StorageMax'', JNum storageMax)]),
           (''Version'', JStr (''fx-repo@'' @ version0)), (''RepoSize'', JNum sz)]"

definition FilesStat :: "int \<Rightarrow> int \<Rightarrow> json" where
  "FilesStat blocks sz =
     JObj [(''Blocks'', JNum blocks), (''CumulativeSize'', JNum sz), (''Hash'', JStr []), (''Size'', JNum sz), (''Type'', JStr ''directory'')]"

definition StatsBitswap :: "int \<Rightarrow> peerID list \<Rightarrow> json" where
  "StatsBitswap n peers =
     JObj [(''BlocksReceived'', JNum n), (''BlocksSent'', JNum 0), (''DataReceived'', JNum 0), (''DataSent'', JNum 0),
           (''DupBlksReceived'', JNum 0), (''DupDataReceived'', JNum 0), (''MessagesReceived'', JNum n), (''Peers'', JArr (map JStr peers)),
           (''ProvideBufLen'', JNum 0), (''Wantlist'', JArr [])]"

definition StatsBw :: "int \<Rightarrow> json" where
  "StatsBw n = JObj [(''RateIn'', JNum 0), (''RateOut'', JNum 0), (''TotalIn'', JNum n), (''TotalOut'', JNum 0)]"

definition PeerStats :: "peerID \<Rightarrow> json" where
  "PeerStats pid = JObj [(''Exchanged'', JNum 0), (''Peer'', JStr pid), (''Recv'', JNum 0), (''Sent'', JNum 0), (''Value'', JNum 0)]"


section \<open>The handlers of \<^verbatim>\<open>ServeIpfsRpc\<close>\<close>

text \<open>The query of the URL is read through \<^const>\<open>rq_form\<close>.\<close>

definition query_arg :: "wap_request \<Rightarrow> string" where
  "query_arg r = rq_form r ''arg''"

definition notFoundHandler :: "'w wap_handler" where
  "notFoundHandler r d = (fail StatusNotFound ''404 page not found'', d)"

text \<open>
  The loop over the results, with the wrap-around of \<^verbatim>\<open>int\<close>. On a result with an error the handler describes the
  variable \<^verbatim>\<open>err\<close> of the query, which is nil there, and panics: \<^const>\<open>None\<close>.
\<close>

fun count_results :: "int \<Rightarrow> int \<Rightarrow> ds_result list \<Rightarrow> (int \<times> int) option" where
  "count_results sz n [] = Some (sz, n)"
| "count_results sz n (DsError # rs) = None"
| "count_results sz n (DsEntry k s # rs) = count_results (wrap64 (sz + s)) (wrap64 (n + 1)) rs"

fun pinned_keys :: "'c cid_lib \<Rightarrow> ds_result list \<Rightarrow> string list option" where
  "pinned_keys cc [] = Some []"
| "pinned_keys cc (DsError # rs) = None"
| "pinned_keys cc (DsEntry k s # rs) =
     (case (if 1 < length k then cc_Cast cc (drop 1 k) else None) of
        None \<Rightarrow> pinned_keys cc rs
      | Some c \<Rightarrow> map_option (Cons (cc_String cc c)) (pinned_keys cc rs))"

definition query_failed :: "wap_answer option" where
  "query_failed = fail StatusInternalServerError ''internal error while querying datastore: ''"

definition pin_ls :: "('w, 'c) rpc_node \<Rightarrow> 'w wap_handler" where
  "pin_ls p r d =
     (let cidStr = query_arg r;
          run = (\<lambda>flt limit.
            case on_world (ds_Query (rp_ds p) flt limit) d of
              (None, e) \<Rightarrow> (query_failed, e)
            | (Some rs, e) \<Rightarrow>
                (case pinned_keys (rp_cid p) rs of
                   None \<Rightarrow> (None, e)
                 | Some keys \<Rightarrow> (reply_doc StatusOK (pin_list_doc keys), e))) in
      if cidStr = [] then run None 0
      else (case cc_Decode (rp_cid p) cidStr of
              None \<Rightarrow> (fail StatusBadRequest ''invalid cid: '', d)
            | Some c \<Rightarrow> run (Some (CHR ''/'' # cc_Bytes (rp_cid p) c)) 1))"

definition block_stat :: "('w, 'c) rpc_node \<Rightarrow> 'w wap_handler" where
  "block_stat p r d =
     (let c = query_arg r in
      if c = [] then (fail StatusBadRequest ''no cid specified'', d)
      else (case cc_Decode (rp_cid p) c of
              None \<Rightarrow> (fail StatusBadRequest ''invalid cid: '', d)
            | Some cd \<Rightarrow>
                (case on_world (ds_Get (rp_ds p) (toDatastoreKey p cd)) d of
                   (Ok value, e) \<Rightarrow>
                     (reply_doc StatusOK (JObj [(''Key'', JStr (cc_String (rp_cid p) cd)), (''Size'', JNum (int (length value)))]), e)
                 | (Err DsNotFound, e) \<Rightarrow> (fail StatusNotFound ''404 page not found'', e)
                 | (Err DsFailure, e) \<Rightarrow> (fail StatusInternalServerError ''internal error: '', e)
                 | (Panic, e) \<Rightarrow> (None, e))))"

definition ipfs_id :: "('w, 'c) rpc_node \<Rightarrow> 'w wap_handler" where
  "ipfs_id p r d =
     (let key = (if rp_selfPeerID p = [] then []
                 else (case rp_pubkey p (rp_selfPeerID p) of None \<Rightarrow> [] | Some raw \<Rightarrow> b64_encode raw)) in
      (reply_doc StatusOK (JObj
         [(''Addresses'', JArr []), (''AgentVersion'', JStr version0), (''ID'', JStr (rp_selfPeerID p)),
          (''ProtocolVersion'', JStr (''fx_exchange/'' @ version0)), (''Protocols'', JArr [JStr ''fx_exchange'']),
          (''PublicKey'', JStr key)]), d))"

definition log_level :: "'w wap_handler" where
  "log_level r d = (reply_doc StatusOK (JObj [(''Message'', JStr ''ignored'')]), d)"

text \<open>The counting that four handlers repeat, and the answer made from the size and the number of objects.\<close>

definition counted :: "('w, 'c) rpc_node \<Rightarrow> (int \<Rightarrow> int \<Rightarrow> json) \<Rightarrow> 'w device \<Rightarrow> wap_answer option \<times> 'w device" where
  "counted p mk d =
     (case on_world (ds_Query (rp_ds p) None 0) d of
        (None, e) \<Rightarrow> (query_failed, e)
      | (Some rs, e) \<Rightarrow>
          (case count_results 0 0 rs of
             None \<Rightarrow> (None, e)
           | Some (sz, n) \<Rightarrow> (reply_doc StatusOK (mk sz n), e)))"

definition as_uint64 :: "int \<Rightarrow> int" where
  "as_uint64 i = i mod 2 ^ 64"

definition stats_repo :: "('w, 'c) rpc_node \<Rightarrow> 'w wap_handler" where
  "stats_repo p r d =
     (case on_world (GetBloxFreeSpace (rp_tools p) (rp_platform p)) d of
        (None, e) \<Rightarrow> (fail StatusInternalServerError ''internal error while getting storage stats: '', e)
      | (Some storage, e) \<Rightarrow>
          counted p (\<lambda>sz n. RepoInfo (as_uint64 n) (rp_storeDir p) (as_uint64 sz) (rp_uint64 p (entry ''size'' storage))) e)"

definition files_stat :: "('w, 'c) rpc_node \<Rightarrow> 'w wap_handler" where
  "files_stat p r d = counted p (\<lambda>sz n. FilesStat n (as_uint64 sz)) d"

definition stats_bitswap :: "('w, 'c) rpc_node \<Rightarrow> 'w wap_handler" where
  "stats_bitswap p r d = counted p (\<lambda>sz n. StatsBitswap (as_uint64 n) (rp_authorizedPeers p)) d"

definition stats_bw :: "('w, 'c) rpc_node \<Rightarrow> 'w wap_handler" where
  "stats_bw p r d = counted p (\<lambda>sz n. StatsBw n) d"

definition bitswap_ledger :: "('w, 'c) rpc_node \<Rightarrow> 'w wap_handler" where
  "bitswap_ledger p r d = (reply_doc StatusOK (PeerStats (rp_selfPeerID p)), d)"

text \<open>\<^const>\<open>ServeMux\<close> answers a path without a route the way \<^const>\<open>notFoundHandler\<close> does, which stands for every such path.\<close>

definition ServeIpfsRpc :: "('w, 'c) rpc_node \<Rightarrow> 'w wap_handler" where
  "ServeIpfsRpc p = ServeMux
     [(''/api/v0/pin/ls'', pin_ls p), (''/api/v0/block/stat'', block_stat p), (''/api/v0/id'', ipfs_id p),
      (''/api/v0/log/level'', log_level), (''/api/v0/stats/repo'', stats_repo p), (''/api/v0/files/stat'', files_stat p),
      (''/api/v0/stats/bitswap'', stats_bitswap p), (''/api/v0/stats/bw'', stats_bw p), (''/api/v0/bitswap/ledger'', bitswap_ledger p),
      (''/'', notFoundHandler)]"


section \<open>Counting and listing\<close>

lemma wrap64_add_wrap: "wrap64 (wrap64 a + b) = wrap64 (a + b)"
  unfolding wrap64_def by (simp add: mod_simps algebra_simps)

lemma wrap64_wrap [simp]: "wrap64 (wrap64 a) = wrap64 a"
  using wrap64_add_wrap [of a 0] by simp

text \<open>The two totals are those of all results, modulo the width of \<^verbatim>\<open>int\<close>; a single failing result panics.\<close>

lemma count_results_from:
  "wrap64 a = a \<Longrightarrow> wrap64 n = n \<Longrightarrow>
   count_results a n rs =
     (if DsError \<in> set rs then None else Some (wrap64 (a + sum_list (map de_size rs)), wrap64 (n + int (length rs))))"
proof (induction a n rs rule: count_results.induct)
  case (3 sz n k s rs)
  then show ?case by (auto simp: wrap64_add_wrap add.assoc)
qed auto

lemma count_results_eq:
  "count_results 0 0 rs =
     (if DsError \<in> set rs then None else Some (wrap64 (sum_list (map de_size rs)), wrap64 (int (length rs))))"
  by (subst count_results_from) (simp_all add: wrap64_def)

definition spelled :: "'c cid_lib \<Rightarrow> string \<Rightarrow> string option" where
  "spelled cc k = (if 1 < length k then map_option (cc_String cc) (cc_Cast cc (drop 1 k)) else None)"

lemma pinned_keys_eq:
  "pinned_keys cc rs = (if DsError \<in> set rs then None else Some (List.map_filter (\<lambda>r. spelled cc (de_key r)) rs))"
  by (induction cc rs rule: pinned_keys.induct) (auto simp: spelled_def List.map_filter_simps split: option.splits)

lemma bytes_less_total: "s \<noteq> t \<Longrightarrow> \<not> bytes_less s t \<Longrightarrow> bytes_less t s"
  by (induction s t rule: bytes_less.induct) (auto simp: not_less le_less neq_Nil_conv)

lemma bytes_less_irrefl [simp]: "\<not> bytes_less s s"
  by (induction s) auto

lemma bytes_less_trans: "bytes_less s t \<Longrightarrow> bytes_less t u \<Longrightarrow> bytes_less s u"
  by (induction s t arbitrary: u rule: bytes_less.induct) (case_tac u; auto)+

lemma set_insert_key [simp]: "set (insert_key k xs) = insert k (set xs)"
  by (induction xs) auto

lemma insert_key_sorted: "sorted_wrt bytes_less xs \<Longrightarrow> sorted_wrt bytes_less (insert_key k xs)"
  by (induction xs) (auto intro: bytes_less_trans bytes_less_total)

lemma insert_keys_sorted: "sorted_wrt bytes_less (foldr insert_key xs [])"
  by (induction xs) (auto intro: insert_key_sorted)

lemma set_insert_keys [simp]: "set (foldr insert_key xs []) = set xs"
  by (induction xs) auto


section \<open>What the interface promises\<close>

lemma on_world_eq: "on_world f d = (let (x, w) = f (world d) in (x, d\<lparr>world := w\<rparr>))"
  by (simp add: on_world_def)

lemma counted_local: "same_local d (snd (counted p mk d))"
  by (auto simp: counted_def on_world_eq Let_def split: prod.splits option.splits)

lemma rpc_handlers_local:
  "same_local d (snd (pin_ls p r d))" "same_local d (snd (block_stat p r d))" "same_local d (snd (ipfs_id p r d))"
  "same_local d (snd (log_level r d))" "same_local d (snd (stats_repo p r d))" "same_local d (snd (files_stat p r d))"
  "same_local d (snd (stats_bitswap p r d))" "same_local d (snd (stats_bw p r d))" "same_local d (snd (bitswap_ledger p r d))"
  "same_local d (snd (notFoundHandler r d))"
  by (auto simp: pin_ls_def block_stat_def ipfs_id_def log_level_def stats_repo_def files_stat_def stats_bitswap_def stats_bw_def
      bitswap_ledger_def notFoundHandler_def on_world_eq Let_def split: prod.splits option.splits outcome.splits ds_error.splits
      intro: counted_local same_local_trans [OF same_local_world counted_local])

lemma ServeMux_local:
  assumes "\<And>pat h. (pat, h) \<in> set routes \<Longrightarrow> same_local d (snd (h r d))"
  shows "same_local d (snd (ServeMux routes r d))"
proof -
  obtain a e where ae: "ServeMux routes r d = (a, e)" by (cases "ServeMux routes r d")
  then have "same_local d e"
    by (cases rule: ServeMux_cases) (use assms in \<open>force+\<close>)
  with ae show ?thesis by simp
qed

text \<open>
  The interface only reads: whatever is asked, by whatever method, files, permissions and configuration of the device stay
  as they are.
\<close>

lemma rpc_reads_only: "same_local d (snd (ServeIpfsRpc p r d))"
  unfolding ServeIpfsRpc_def by (rule ServeMux_local) (auto simp: rpc_handlers_local)

text \<open>
  What \<^verbatim>\<open>pin/ls\<close> lists: exactly the content ids that the keys of the datastore spell, each once and in order. A query that meets an
  error panics instead of answering 500, here and in the four counting routes.
\<close>

lemma pin_ls_exact:
  assumes "query_arg r = []" and "ds_Query (rp_ds p) None 0 (world d) = (Some rs, w)"
  shows "\<exists>keys. set keys = {c. \<exists>e \<in> set rs. spelled (rp_cid p) (de_key e) = Some c} \<and> sorted_wrt bytes_less keys \<and>
    pin_ls p r d =
      (if DsError \<in> set rs then None
       else reply_doc StatusOK (JObj (if keys = [] then [] else [(''Keys'', JObj (map (\<lambda>k. (k, JObj [(''Type'', JStr ''recursive'')])) keys))])),
       d\<lparr>world := w\<rparr>)"
proof -
  let ?all = "List.map_filter (\<lambda>e. spelled (rp_cid p) (de_key e)) rs"
  have all: "set ?all = {c. \<exists>e \<in> set rs. spelled (rp_cid p) (de_key e) = Some c}"
    by (force simp: List.map_filter_def)
  have empty: "foldr insert_key ?all [] = [] \<longleftrightarrow> ?all = []" by (metis set_empty set_insert_keys)
  show ?thesis
    by (rule exI [of _ "foldr insert_key ?all []"])
      (simp only: set_insert_keys all insert_keys_sorted empty, use assms in \<open>simp add: pin_ls_def on_world_eq pinned_keys_eq pin_list_doc_def\<close>)
qed

lemma traversal_error_drops:
  assumes "ds_Query (rp_ds p) None 0 (world d) = (Some rs, w)" and "DsError \<in> set rs"
  shows "fst (files_stat p r d) = None" "fst (stats_bitswap p r d) = None" "fst (stats_bw p r d) = None"
    "query_arg r = [] \<Longrightarrow> fst (pin_ls p r d) = None"
  using assms by (simp_all add: files_stat_def stats_bitswap_def stats_bw_def pin_ls_def counted_def on_world_eq count_results_eq pinned_keys_eq)

lemma stats_count_blocks:
  assumes "ds_Query (rp_ds p) None 0 (world d) = (Some rs, w)" and "DsError \<notin> set rs" and "length rs < 2 ^ 63"
  shows "stats_bw p r d = (reply_doc StatusOK (StatsBw (int (length rs))), d\<lparr>world := w\<rparr>)"
proof -
  have "wrap64 (int (length rs)) = int (length rs)" using assms(3) by (simp add: wrap64_def)
  with assms show ?thesis by (simp add: stats_bw_def counted_def on_world_eq count_results_eq)
qed

text \<open>
  A written block is found under the text of its content id with its size, given that the datastore returns what was put.
\<close>

lemma written_block_has_stat:
  assumes "\<And>k v w0 w1. ds_Put (rp_ds p) k v w0 = (True, w1) \<Longrightarrow> fst (ds_Get (rp_ds p) k w1) = Ok v"
    and "cc_Decode (rp_cid p) (query_arg r) = Some c" and "query_arg r \<noteq> []"
    and "blockWriteOpener p buf c (world d) = (True, w)"
  shows "fst (block_stat p r (d\<lparr>world := w\<rparr>)) =
    reply_doc StatusOK (JObj [(''Key'', JStr (cc_String (rp_cid p) c)), (''Size'', JNum (int (length buf)))])"
proof -
  from assms(1,4) have "fst (ds_Get (rp_ds p) (toDatastoreKey p c) w) = Ok buf" by (auto simp: blockWriteOpener_def)
  with assms(2,3) show ?thesis by (auto simp: block_stat_def on_world_eq split: prod.splits)
qed

text \<open>
  \<^verbatim>\<open>datastore.NewKey\<close> cleans the key as a path, so it drops a final slash. The bytes of one content id in 256 end in one; the
  key of such a block spells no content id (the digest is too short), and \<^verbatim>\<open>pin/ls\<close> does not list the block, while
  \<^verbatim>\<open>block/stat\<close>, which cleans the same way, finds it.
\<close>

lemma pin_ls_misses_slash:
  assumes "ds_NewKey (rp_ds p) (cc_Bytes (rp_cid p) c) = CHR ''/'' # b" and "cc_Cast (rp_cid p) b = None"
    and "ds_Query (rp_ds p) None 0 (world d) = (Some [DsEntry (toDatastoreKey p c) s], w)" and "query_arg r = []"
  shows "fst (pin_ls p r d) = reply_doc StatusOK (JObj [])"
  using assms by (simp add: pin_ls_def on_world_eq toDatastoreKey_def pin_list_doc_def)

end
