(* ===== verification/KuboSetup.thy ===== *)
theory KuboSetup
  imports NodeKeys
begin

text \<open>
  The two programs that prepare the external daemons before they start: \<^verbatim>\<open>modules/initipfs/main.go\<close> writes
  the configuration of kubo, \<^verbatim>\<open>modules/initipfscluster/main.go\<close> the identity of the cluster. Both take the
  identity of the device from its configuration file.

  A \<open>disk\<close> is the device with the set of paths that are directories. A panic is \<^const>\<open>Panic\<close>, \<^verbatim>\<open>os.Exit(1)\<close>
  is \<^const>\<open>Err\<close>.
\<close>

record 'w kubo_disk =
  dev :: "'w device"
  dirs :: "string set"

definition path_exists :: "string \<Rightarrow> 'w kubo_disk \<Rightarrow> bool" where
  "path_exists p dk \<longleftrightarrow> p \<in> dirs dk \<or> FileExists p (dev dk)"

text \<open>\<^verbatim>\<open>os.WriteFile\<close> and \<^verbatim>\<open>os.ReadFile\<close> fail on a directory; \<^verbatim>\<open>os.RemoveAll\<close> takes everything below the path along.\<close>

definition disk_write :: "string \<Rightarrow> fcontent \<Rightarrow> 'w kubo_disk \<Rightarrow> bool \<times> 'w kubo_disk" where
  "disk_write p f dk =
     (if p \<in> dirs dk then (False, dk)
      else (case WriteFile p f (dev dk) of (ok, d) \<Rightarrow> (ok, dk\<lparr>dev := d\<rparr>)))"

definition disk_read :: "string \<Rightarrow> 'w kubo_disk \<Rightarrow> fcontent option" where
  "disk_read p dk = (if p \<in> dirs dk then None else (case ReadFile p (dev dk) of Ok f \<Rightarrow> Some f | _ \<Rightarrow> None))"

definition below :: "string \<Rightarrow> string \<Rightarrow> bool" where
  "below p q \<longleftrightarrow> q = p \<or> HasPrefix q (p @ ''/'')"

definition RemoveAll :: "string \<Rightarrow> 'w kubo_disk \<Rightarrow> 'w kubo_disk option" where
  "RemoveAll p dk =
     (if unwritable (dev dk) p then None
      else Some \<lparr>dev = (dev dk)\<lparr>files := (\<lambda>q. if below p q then None else files (dev dk) q)\<rparr>, dirs = {q \<in> dirs dk. \<not> below p q}\<rparr>)"

definition make_dir :: "string \<Rightarrow> 'w kubo_disk \<Rightarrow> 'w kubo_disk option" where
  "make_dir p dk =
     (if FileExists p (dev dk) \<or> unwritable (dev dk) p then None else Some (dk\<lparr>dirs := insert p (dirs dk)\<rparr>))"


section \<open>Updating a structure\<close>

text \<open>Applying a function to the value of each field.\<close>

definition map_fields :: "(string \<Rightarrow> json \<Rightarrow> json) \<Rightarrow> json \<Rightarrow> json" where
  "map_fields F v = (case v of JObj kvs \<Rightarrow> JObj (map (\<lambda>(k, x). (k, F k x)) kvs) | _ \<Rightarrow> v)"

definition at_field :: "string \<Rightarrow> (json \<Rightarrow> json) \<Rightarrow> json \<Rightarrow> json" where
  "at_field n f = map_fields (\<lambda>k x. if k = n then f x else x)"

lemma map_fields_comp: "map_fields F (map_fields G v) = map_fields (\<lambda>k x. F k (G k x)) v"
  by (auto simp: map_fields_def split: json.splits)

lemma at_field_comp: "at_field n f (at_field n g v) = at_field n (f \<circ> g) v"
  unfolding at_field_def map_fields_comp by (intro arg_cong [where f = "\<lambda>F. map_fields F v"] ext) auto

lemma at_field_commute: "n \<noteq> m \<Longrightarrow> at_field n f (at_field m g v) = at_field m g (at_field n f v)"
  unfolding at_field_def map_fields_comp by (intro arg_cong [where f = "\<lambda>F. map_fields F v"] ext) auto

lemma entry_at_field:
  "entry m (at_field n f v) = (if m = n \<and> m \<in> fst ` set (entries v) then f (entry m v) else entry m v)"
proof (cases v)
  case (JObj kvs)
  have "map_of (map (\<lambda>(k, x). (k, if k = n then f x else x)) kvs) m =
      map_option (\<lambda>x. if m = n then f x else x) (map_of kvs m)"
    by (induction kvs) auto
  then show ?thesis using JObj map_of_eq_None_iff [of kvs m]
    by (auto simp: at_field_def map_fields_def entry_def split: option.splits)
qed (simp_all add: at_field_def map_fields_def entry_def)

lemma have_fields_map_fields:
  "have_fields fs kvs \<Longrightarrow> (\<And>n t om x. (n, t, om) \<in> set fs \<Longrightarrow> has_type t x \<Longrightarrow> has_type t (F n x)) \<Longrightarrow>
   have_fields fs (map (\<lambda>(k, x). (k, F k x)) kvs)"
proof (induction fs arbitrary: kvs)
  case (Cons f fs)
  obtain n t om where f: "f = (n, t, om)" by (cases f) auto
  with Cons.prems(1) obtain v r where kvs: "kvs = (n, v) # r" "has_type t v" "have_fields fs r"
    by (auto split: list.splits prod.splits)
  have "have_fields fs (map (\<lambda>(k, x). (k, F k x)) r)"
    by (rule Cons.IH [OF kvs(3)]) (use Cons.prems(2) in \<open>meson list.set_intros(2)\<close>)
  moreover have "has_type t (F n v)" using Cons.prems(2) [of n t om v] f kvs by simp
  ultimately show ?case using f kvs by simp
qed simp

lemma at_field_type:
  assumes "has_type (GStruct fs) v" and "\<And>t om x. (n, t, om) \<in> set fs \<Longrightarrow> has_type t x \<Longrightarrow> has_type t (f x)"
  shows "has_type (GStruct fs) (at_field n f v)"
proof -
  from assms(1) obtain kvs where v: "v = JObj kvs" "have_fields fs kvs" by (cases v) auto
  have "have_fields fs (map (\<lambda>(k, x). (k, if k = n then f x else x)) kvs)"
    by (rule have_fields_map_fields [OF v(2)]) (use assms(2) in auto)
  with v show ?thesis by (simp add: at_field_def map_fields_def)
qed


lemma struct_keys: "has_type (GStruct fs) v \<Longrightarrow> fst ` set (entries v) = fst ` set fs"
proof (cases v)
  case (JObj kvs)
  assume "has_type (GStruct fs) v"
  with JObj have "have_fields fs kvs" by simp
  then have "map fst kvs = map fst fs"
    by (induction fs arbitrary: kvs) (auto split: list.splits prod.splits)
  with JObj show ?thesis by (metis entries.simps(1) list.set_map)
qed auto


section \<open>The configuration of kubo\<close>

definition Child :: gty where
  "Child = GStruct [(''path'', GStr, False), (''shardFunc'', GStr, True), (''sync'', GBool, True), (''type'', GStr, False), (''compression'', GStr, True)]"

definition Mount :: gty where
  "Mount = GStruct [(''child'', Child, False), (''mountpoint'', GStr, False), (''prefix'', GStr, False), (''type'', GStr, False)]"

definition DatastoreSpec :: gty where
  "DatastoreSpec = GStruct [(''mounts'', GArr Mount, False), (''type'', GStr, False)]"

definition ipfs_addresses :: gty where
  "ipfs_addresses = GStruct [(''API'', GStr, False), (''Announce'', GArr GStr, False), (''AppendAnnounce'', GArr GStr, False),
     (''Gateway'', GStr, False), (''NoAnnounce'', GArr GStr, False), (''Swarm'', GArr GStr, False)]"

definition ipfs_datastore :: gty where
  "ipfs_datastore = GStruct [(''BloomFilterSize'', GInt, False), (''GCPeriod'', GStr, False), (''HashOnRead'', GBool, False),
     (''Spec'', DatastoreSpec, False), (''StorageGCWatermark'', GInt, False), (''StorageMax'', GStr, False)]"

definition ipfs_experimental :: gty where
  "ipfs_experimental = GStruct [(''FilestoreEnabled'', GBool, False), (''Libp2pStreamMounting'', GBool, False), (''OptimisticProvide'', GBool, False),
     (''OptimisticProvideJobsPoolSize'', GInt, False), (''P2pHttpProxy'', GBool, False), (''StrategicProviding'', GBool, False), (''UrlstoreEnabled'', GBool, False)]"

definition ipfs_gateway :: gty where
  "ipfs_gateway = GStruct [(''DeserializedResponses'', GAny, False), (''DisableHTMLErrors'', GAny, False), (''ExposeRoutingAPI'', GAny, False),
     (''HTTPHeaders'', GMap, False), (''NoDNSLink'', GBool, False), (''NoFetch'', GBool, False), (''PublicGateways'', GAny, False), (''RootRedirect'', GStr, False)]"

definition ipfs_identity :: gty where
  "ipfs_identity = GStruct [(''PeerID'', GStr, False), (''PrivKey'', GStr, False)]"

definition relay_client :: gty where
  "relay_client = GStruct [(''Enabled'', GBool, True), (''StaticRelays'', GArr GStr, True)]"

definition swarm_fields :: "(string \<times> gty \<times> bool) list" where
  "swarm_fields = [(''AddrFilters'', GAny, False),
     (''ConnMgr'', GStruct [(''HighWater'', GInt, False), (''LowWater'', GInt, False), (''GracePeriod'', GStr, False)], False),
     (''DisableBandwidthMetrics'', GBool, False), (''DisableNatPortMap'', GBool, False),
     (''RelayClient'', relay_client, False), (''RelayService'', GStruct [], False), (''ResourceMgr'', GStruct [], False),
     (''Transports'', GStruct [(''Multiplexers'', GMap, False), (''Network'', GMap, False), (''Security'', GMap, False)], False)]"

definition ipfs_swarm :: gty where
  "ipfs_swarm = GStruct swarm_fields"

definition ipfs_fields :: "(string \<times> gty \<times> bool) list" where
  "ipfs_fields = [(''API'', GStruct [(''HTTPHeaders'', GMap, False)], False), (''Addresses'', ipfs_addresses, False), (''AutoNAT'', GStruct [], False),
     (''Bootstrap'', GArr GStr, False), (''DNS'', GStruct [(''Resolvers'', GMap, False)], False), (''Datastore'', ipfs_datastore, False),
     (''Discovery'', GStruct [(''MDNS'', GStruct [(''Enabled'', GBool, False)], False)], False), (''Experimental'', ipfs_experimental, False),
     (''Gateway'', ipfs_gateway, False), (''Identity'', ipfs_identity, False), (''Internal'', GMap, False),
     (''Ipns'', GStruct [(''RecordLifetime'', GStr, False), (''RepublishPeriod'', GStr, False), (''ResolveCacheSize'', GInt, False)], False),
     (''Migration'', GStruct [(''DownloadSources'', GArr GAny, False), (''Keep'', GStr, False)], False),
     (''Mounts'', GStruct [(''FuseAllowOther'', GBool, False), (''IPFS'', GStr, False), (''IPNS'', GStr, False)], False),
     (''Peering'', GStruct [(''Peers'', GAny, False)], False), (''Pinning'', GStruct [(''RemoteServices'', GMap, False)], False),
     (''Plugins'', GStruct [(''Plugins'', GAny, False)], False), (''Provider'', GStruct [(''Strategy'', GStr, False)], False),
     (''Pubsub'', GStruct [(''DisableSigning'', GBool, False), (''Router'', GStr, False)], False), (''Reprovider'', GStruct [], False),
     (''Routing'', GStruct [(''AcceleratedDHTClient'', GBool, False), (''Methods'', GAny, False), (''Routers'', GAny, False)], False),
     (''Swarm'', ipfs_swarm, False)]"

definition IPFSConfig :: gty where
  "IPFSConfig = GStruct ipfs_fields"

lemmas ipfs_types = IPFSConfig_def ipfs_fields_def ipfs_swarm_def swarm_fields_def relay_client_def ipfs_identity_def ipfs_gateway_def ipfs_experimental_def ipfs_datastore_def
  ipfs_addresses_def DatastoreSpec_def Mount_def Child_def

lemma IPFSConfig_distinct [simp]: "distinct_names IPFSConfig"
  by (simp add: ipfs_types lower_char_def)

definition ConfigYAML :: "(string \<times> gty) list" where
  "ConfigYAML = [(''identity'', GStr), (''poolName'', GStr), (''staticRelays'', GArr GStr), (''ipfsBootstrapNodes'', GArr GStr),
     (''ipniPublisherIdentity'', GStr), (''IpniPublishDirectAnnounce'', GArr GStr)]"

section \<open>Preparing kubo\<close>

fun ensureDirectories :: "string list \<Rightarrow> 'w kubo_disk \<Rightarrow> 'w kubo_disk option" where
  "ensureDirectories [] dk = Some dk"
| "ensureDirectories (p # ps) dk =
     (if path_exists p dk then ensureDirectories ps dk
      else (case make_dir p dk of None \<Rightarrow> None | Some dk1 \<Rightarrow> ensureDirectories ps dk1))"

definition readConfigYAML :: "yaml_conv \<Rightarrow> string \<Rightarrow> 'w kubo_disk \<Rightarrow> (string \<rightharpoonup> json) option" where
  "readConfigYAML conv p dk = Option.bind (Option.bind (disk_read p dk) as_yaml) (yaml_struct conv ConfigYAML)"

definition copyDefaultIPFSConfig :: "string \<Rightarrow> string \<Rightarrow> 'w kubo_disk \<Rightarrow> bool \<times> 'w kubo_disk" where
  "copyDefaultIPFSConfig sourcePath p dk =
     (case disk_read sourcePath dk of None \<Rightarrow> (False, dk) | Some f \<Rightarrow> disk_write p f dk)"

text \<open>Decoding a file into the structure; after an error the structure holds what was decoded.\<close>

definition decode_file :: "json \<Rightarrow> fcontent \<Rightarrow> json \<times> bool" where
  "decode_file cfg f =
     (case file_json f of
        None \<Rightarrow> (cfg, False)
      | Some v \<Rightarrow> (case decode_go IPFSConfig cfg v of Some y \<Rightarrow> (y, True) | None \<Rightarrow> (fill IPFSConfig cfg v, False)))"

datatype config_read = ConfigMissing | ConfigFailed | ConfigPanic | ConfigIs json

definition read_template :: "string \<Rightarrow> string \<Rightarrow> json \<Rightarrow> 'w kubo_disk \<Rightarrow> config_read \<times> 'w kubo_disk" where
  "read_template source p cfg dk =
     (case disk_read source dk of
        None \<Rightarrow> (ConfigPanic, dk)
      | Some f \<Rightarrow>
          if f = Text [] then (ConfigIs cfg, dk)
          else (case decode_file cfg f of
                  (y, True) \<Rightarrow> (ConfigIs y, dk)
                | (y, False) \<Rightarrow>
                    (case disk_write p (Text []) dk of
                       (True, dk1) \<Rightarrow> (ConfigIs y, dk1)
                     | (False, dk1) \<Rightarrow> (ConfigFailed, dk1))))"

definition readIPFSConfig :: "string \<Rightarrow> string \<Rightarrow> 'w kubo_disk \<Rightarrow> config_read \<times> 'w kubo_disk" where
  "readIPFSConfig source p dk =
     (if \<not> path_exists p dk then (ConfigMissing, dk)
      else
        (case (if p \<in> dirs dk then
                 (case RemoveAll p dk of
                    None \<Rightarrow> Inl (ConfigFailed, dk)
                  | Some dk1 \<Rightarrow> (case copyDefaultIPFSConfig source p dk1 of (True, dk2) \<Rightarrow> Inr dk2 | (False, dk2) \<Rightarrow> Inl (ConfigPanic, dk2)))
               else Inr dk) of
           Inl r \<Rightarrow> r
         | Inr dk1 \<Rightarrow>
             (case disk_read p dk1 of
                None \<Rightarrow> read_template source p (zero_val IPFSConfig) dk1
              | Some f \<Rightarrow>
                  if f = Text [] then read_template source p (zero_val IPFSConfig) dk1
                  else (case decode_file (zero_val IPFSConfig) f of
                          (y, True) \<Rightarrow> (ConfigIs y, dk1)
                        | (y, False) \<Rightarrow> read_template source p y dk1))))"

definition initipfs_deriveKuboKey :: "'k keylib \<Rightarrow> string \<Rightarrow> (key_error, 'k \<times> peerID) outcome" where
  "initipfs_deriveKuboKey lib originalIdentity =
     and_then (or_err DecodingFailed (b64_decode originalIdentity)) (\<lambda>privKeyBytes.
     and_then (or_err UnmarshalingFailed (UnmarshalPrivateKey lib privKeyBytes)) (\<lambda>priv.
     and_then (or_err RawFailed (key_Raw lib priv)) (\<lambda>rawKey.
     and_then (first32 rawKey) (\<lambda>originalSeed.
     and_then (or_err GeneratingFailed (Ed25519FromSeed lib (hmac_sha256 lib (string_to_bytes ''fula-kubo-identity-v1'') originalSeed))) (\<lambda>kuboPriv.
     and_then (or_err PeerIDFailed (IDFromPrivateKey lib kuboPriv)) (\<lambda>kuboPeerID.
     Ok (kuboPriv, kuboPeerID)))))))"

definition updateIPFSConfigIdentity :: "'k keylib \<Rightarrow> string \<Rightarrow> json \<Rightarrow> json option" where
  "updateIPFSConfigIdentity lib identity cfg =
     (case initipfs_deriveKuboKey lib identity of
        Ok (kuboPriv, kuboPeerID) \<Rightarrow>
          (case MarshalPrivateKey lib kuboPriv of
             None \<Rightarrow> None
           | Some b \<Rightarrow>
               Some (at_field ''Identity'' (\<lambda>i. at_field ''PeerID'' (\<lambda>_. JStr kuboPeerID) (at_field ''PrivKey'' (\<lambda>_. JStr (b64_encode b)) i)) cfg))
      | _ \<Rightarrow> None)"

definition set_mount_path :: "string \<Rightarrow> json \<Rightarrow> json" where
  "set_mount_path newPath mount =
     (let t = entry ''type'' (entry ''child'' mount) in
      if t = JStr ''flatfs'' then at_field ''child'' (at_field ''path'' (\<lambda>_. JStr (newPath @ ''/blocks''))) mount
      else if t = JStr ''pebbleds'' then at_field ''child'' (at_field ''path'' (\<lambda>_. JStr (newPath @ ''/datastore''))) mount
      else mount)"

fun map_array :: "(json \<Rightarrow> json) \<Rightarrow> json \<Rightarrow> json" where
  "map_array f (JArr vs) = JArr (map f vs)"
| "map_array f v = v"

definition updateDatastorePath :: "string \<Rightarrow> string \<Rightarrow> json \<Rightarrow> json" where
  "updateDatastorePath newPath apiIp cfg =
     at_field ''Addresses'' (\<lambda>a. at_field ''API'' (\<lambda>_. JStr (''/ip4/'' @ apiIp @ ''/tcp/5001''))
                                  (at_field ''Gateway'' (\<lambda>_. JStr ''/ip4/127.0.0.1/tcp/8081'') a))
       (at_field ''Datastore'' (at_field ''Spec'' (at_field ''mounts'' (map_array (set_mount_path newPath)))) cfg)"

definition if_nil :: "json \<Rightarrow> json \<Rightarrow> json" where
  "if_nil d v = (if v = JNull then d else v)"

definition written_config :: "json \<Rightarrow> json" where
  "written_config cfg = at_field ''Internal'' (if_nil (JObj [])) (at_field ''Bootstrap'' (if_nil (JArr [])) cfg)"

definition writeIPFSConfig :: "string \<Rightarrow> json \<Rightarrow> 'w kubo_disk \<Rightarrow> bool \<times> 'w kubo_disk" where
  "writeIPFSConfig p cfg dk = disk_write p (Json (encode_go IPFSConfig (written_config cfg))) dk"

definition missingOrEmpty :: "string \<Rightarrow> 'w kubo_disk \<Rightarrow> bool" where
  "missingOrEmpty p dk \<longleftrightarrow> p \<notin> dirs dk \<and> (case files (dev dk) p of None \<Rightarrow> True | Some f \<Rightarrow> f = Text [])"

definition datastore_spec :: "string \<Rightarrow> json" where
  "datastore_spec ipfsDatastorePath =
     JObj [(''mounts'', JArr
       [JObj [(''mountpoint'', JStr ''/blocks''), (''path'', JStr (ipfsDatastorePath @ ''/blocks'')),
              (''shardFunc'', JStr ''/repo/flatfs/shard/v1/next-to-last/2''), (''type'', JStr ''flatfs'')],
        JObj [(''mountpoint'', JStr ''/''), (''path'', JStr (ipfsDatastorePath @ ''/datastore'')), (''type'', JStr ''pebbleds'')]]),
      (''type'', JStr ''mount'')]"

definition write_if_missing :: "string \<Rightarrow> fcontent \<Rightarrow> 'w kubo_disk \<Rightarrow> bool \<times> 'w kubo_disk" where
  "write_if_missing p f dk = (if missingOrEmpty p dk then disk_write p f dk else (True, dk))"

definition writePredefinedFiles :: "string \<Rightarrow> string \<Rightarrow> 'w kubo_disk \<Rightarrow> bool \<times> 'w kubo_disk" where
  "writePredefinedFiles ipfsDataPath ipfsDatastorePath dk =
     (case write_if_missing (ipfsDataPath @ ''/version'') (Text ''18'') dk of
        (False, dk1) \<Rightarrow> (False, dk1)
      | (True, dk1) \<Rightarrow> write_if_missing (ipfsDataPath @ ''/datastore_spec'') (Json (datastore_spec ipfsDatastorePath)) dk1)"

record init_flags =
  internalPath :: string
  externalPath :: string
  defaultIpfsConfig :: string
  apiIpAddr :: string

definition kubo_config_path :: "init_flags \<Rightarrow> string" where
  "kubo_config_path fl = internalPath fl @ ''/ipfs_data/config''"

definition new_config :: "'k keylib \<Rightarrow> init_flags \<Rightarrow> string \<Rightarrow> json \<Rightarrow> json option" where
  "new_config lib fl identity cfg =
     map_option (\<lambda>c. at_field ''Experimental'' (at_field ''Libp2pStreamMounting'' (\<lambda>_. JBool True))
                      (updateDatastorePath (externalPath fl @ ''/ipfs_datastore'') (apiIpAddr fl) c))
       (updateIPFSConfigIdentity lib identity cfg)"

text \<open>The template is copied and read again when there is no configuration yet.\<close>

definition load_kubo_config :: "init_flags \<Rightarrow> 'w kubo_disk \<Rightarrow> (json \<times> 'w kubo_disk) option" where
  "load_kubo_config fl dk =
     (let source = defaultIpfsConfig fl; p = kubo_config_path fl in
      case readIPFSConfig source p dk of
        (ConfigIs cfg, dk1) \<Rightarrow> Some (cfg, dk1)
      | (ConfigMissing, dk1) \<Rightarrow>
          (case copyDefaultIPFSConfig source p dk1 of
             (False, dk2) \<Rightarrow> None
           | (True, dk2) \<Rightarrow> (case readIPFSConfig source p dk2 of (ConfigIs cfg, dk3) \<Rightarrow> Some (cfg, dk3) | _ \<Rightarrow> None))
      | _ \<Rightarrow> None)"

definition initipfs :: "yaml_conv \<Rightarrow> 'k keylib \<Rightarrow> init_flags \<Rightarrow> 'w kubo_disk \<Rightarrow> (unit, 'w kubo_disk) outcome" where
  "initipfs conv lib fl dk =
     (let ipfsDataPath = internalPath fl @ ''/ipfs_data''; ipfsDatastorePath = externalPath fl @ ''/ipfs_datastore'' in
      case ensureDirectories [internalPath fl, ipfsDataPath, ipfsDatastorePath] dk of
        None \<Rightarrow> Panic
      | Some dk1 \<Rightarrow>
          (case readConfigYAML conv (internalPath fl @ ''/config.yaml'') dk1 of
             None \<Rightarrow> Panic
           | Some c \<Rightarrow>
               (case load_kubo_config fl dk1 of
                  None \<Rightarrow> Panic
                | Some (cfg, dk2) \<Rightarrow>
                    (case new_config lib fl (setting c ''identity'') cfg of
                       None \<Rightarrow> Panic
                     | Some cfg' \<Rightarrow>
                         (case writeIPFSConfig (kubo_config_path fl) cfg' dk2 of
                            (False, dk3) \<Rightarrow> Panic
                          | (True, dk3) \<Rightarrow>
                              (case writePredefinedFiles ipfsDataPath ipfsDatastorePath dk3 of
                                 (True, dk4) \<Rightarrow> Ok dk4
                               | (False, dk4) \<Rightarrow> Err ()))))))"


section \<open>Preparing the cluster\<close>

definition string_map :: "json \<Rightarrow> (string \<rightharpoonup> string) option" where
  "string_map j =
     (case j of
        JNull \<Rightarrow> Some Map.empty
      | JObj kvs \<Rightarrow> if list_all (\<lambda>(k, v). v = JNull \<or> as_string v \<noteq> None) kvs then Some (map_of (rev (map (\<lambda>(k, v). (k, text_of v)) kvs))) else None
      | _ \<Rightarrow> None)"

text \<open>A state that belongs to another key is wiped; a directory in the place of the file is removed.\<close>

definition write_cluster_identity :: "string \<Rightarrow> peerID \<Rightarrow> string \<Rightarrow> 'w kubo_disk \<Rightarrow> (unit, 'w kubo_disk) outcome" where
  "write_cluster_identity clusterDir pid identity dk =
     (let identityPath = clusterDir @ ''/identity.json'';
          differs = (case Option.bind (Option.bind (disk_read identityPath dk) file_json) string_map of
                       Some m \<Rightarrow> (case m ''private_key'' of None \<Rightarrow> [] | Some k \<Rightarrow> k) \<noteq> identity
                     | None \<Rightarrow> False) in
      case (if differs then RemoveAll clusterDir dk else Some dk) of
        None \<Rightarrow> Panic
      | Some dk1 \<Rightarrow>
          (case (if identityPath \<in> dirs dk1 then RemoveAll identityPath dk1 else Some dk1) of
             None \<Rightarrow> Panic
           | Some dk2 \<Rightarrow>
               (case (if clusterDir \<in> dirs dk2 then Some dk2 else make_dir clusterDir dk2) of
                  None \<Rightarrow> Panic
                | Some dk3 \<Rightarrow>
                    (case disk_write identityPath (Json (JObj [(''id'', JStr pid), (''private_key'', JStr identity)])) dk3 of
                       (True, dk4) \<Rightarrow> Ok dk4
                     | (False, dk4) \<Rightarrow> Panic))))"

definition initipfscluster :: "yaml_conv \<Rightarrow> 'k keylib \<Rightarrow> init_flags \<Rightarrow> 'w kubo_disk \<Rightarrow> (unit, 'w kubo_disk) outcome" where
  "initipfscluster conv lib fl dk =
     (case Option.bind (Option.bind (disk_read (internalPath fl @ ''/config.yaml'') dk) as_yaml) (yaml_struct conv identity_fields) of
        None \<Rightarrow> Panic
      | Some c \<Rightarrow>
          (case cluster_id lib (setting c ''identity'') of
             Ok pid \<Rightarrow> write_cluster_identity (externalPath fl @ ''/ipfs-cluster'') pid (setting c ''identity'') dk
           | _ \<Rightarrow> Panic))"


section \<open>The configuration stays well typed\<close>

lemma field_last_type: "(\<And>x v. P x \<Longrightarrow> P (conv x v)) \<Longrightarrow> P x \<Longrightarrow> P (field_last conv n x kvs)"
  by (induction conv n x kvs rule: field_last.induct) auto

lemma fill_fields_type:
  "(\<And>n t om x v. (n, t, om) \<in> set fs \<Longrightarrow> has_type t x \<Longrightarrow> has_type t (fill t x v)) \<Longrightarrow>
   (\<And>n t om. (n, t, om) \<in> set fs \<Longrightarrow> has_type t (entry n old)) \<Longrightarrow> have_fields fs (fill_fields fs old kvs)"
proof (induction fs)
  case (Cons f fs)
  obtain n t om where f: "f = (n, t, om)" by (cases f) auto
  have "has_type t (field_last (fill t) n (entry n old) kvs)"
    by (rule field_last_type [where P = "has_type t"]) (use Cons.prems f in \<open>meson list.set_intros(1)\<close>)+
  moreover have "have_fields fs (fill_fields fs old kvs)"
    by (rule Cons.IH) (use Cons.prems in \<open>meson list.set_intros(2)\<close>)+
  ultimately show ?case using f by simp
qed simp

lemma fill_type: "has_type t old \<Longrightarrow> distinct_names t \<Longrightarrow> has_type t (fill t old v)"
proof (induction t arbitrary: old v)
  case (GArr t)
  then show ?case using zero_has_type(1) [of t] by (cases v) auto
next
  case (GStruct fs)
  from GStruct.prems(1) obtain ovs where old: "old = JObj ovs" "have_fields fs ovs" by (cases old) auto
  show ?case
  proof (cases v)
    case (JObj kvs)
    have "have_fields fs (fill_fields fs old kvs)"
    proof (rule fill_fields_type)
      fix n t om x v
      assume "(n, t, om) \<in> set fs" "has_type t x"
      moreover from this(1) GStruct.prems(2) have "distinct_names t" by (auto simp: distinct_fields_all)
      ultimately show "has_type t (fill t x v)" using GStruct.IH [of "(n, t, om)" "(t, om)" t x v] by auto
    next
      fix n t om
      assume "(n, t, om) \<in> set fs"
      then show "has_type t (entry n old)" using have_fields_entry old GStruct.prems(2) by auto
    qed
    with JObj show ?thesis by simp
  qed (use GStruct.prems in auto)
qed (auto split: json.splits option.splits dest: decode_go_type)

lemma decode_file_type: "decode_file cfg f = (y, ok) \<Longrightarrow> has_type IPFSConfig cfg \<Longrightarrow> has_type IPFSConfig y"
  by (auto simp: decode_file_def split: option.splits intro: fill_type dest: decode_go_type)

lemma read_template_type:
  "read_template source p cfg dk = (ConfigIs y, dk') \<Longrightarrow> has_type IPFSConfig cfg \<Longrightarrow> has_type IPFSConfig y"
  by (auto simp: read_template_def split: option.splits if_splits prod.splits bool.splits dest: decode_file_type)

lemma readIPFSConfig_type: "readIPFSConfig source p dk = (ConfigIs y, dk') \<Longrightarrow> has_type IPFSConfig y"
  using zero_has_type(1) [of IPFSConfig]
  by (auto simp: readIPFSConfig_def split: option.splits if_splits prod.splits bool.splits sum.splits
      dest: decode_file_type read_template_type)

lemma load_kubo_config_type: "load_kubo_config fl dk = Some (cfg, dk') \<Longrightarrow> has_type IPFSConfig cfg"
  by (auto simp: load_kubo_config_def Let_def split: prod.splits config_read.splits bool.splits dest: readIPFSConfig_type)

lemma at_field_struct:
  assumes "has_type (GStruct fs) v" and "distinct (map fst fs)" and "(n, t, om) \<in> set fs" and "\<And>x. has_type t x \<Longrightarrow> has_type t (f x)"
  shows "has_type (GStruct fs) (at_field n f v)"
proof (rule at_field_type [OF assms(1)])
  fix t' om' x
  assume "(n, t', om') \<in> set fs" "has_type t' x"
  moreover from this(1) assms(2,3) have "t' = t" by (metis eq_key_imp_eq_value fst_conv)
  ultimately show "has_type t' (f x)" using assms(4) by simp
qed

lemma child_path_type: "has_type Child x \<Longrightarrow> has_type Child (at_field ''path'' (\<lambda>_. JStr s) x)"
  unfolding Child_def by (rule at_field_struct [where t = GStr and om = False], assumption) simp_all

lemma mount_child_type: "has_type Mount m \<Longrightarrow> has_type Mount (at_field ''child'' (at_field ''path'' (\<lambda>_. JStr s)) m)"
  unfolding Mount_def by (rule at_field_struct [where t = Child and om = False], assumption) (simp_all add: child_path_type del: has_type.simps)

lemma set_mount_path_type: "has_type Mount m \<Longrightarrow> has_type Mount (set_mount_path p m)"
  by (simp add: set_mount_path_def Let_def mount_child_type)

lemma map_array_type: "(\<And>x. has_type t x \<Longrightarrow> has_type t (f x)) \<Longrightarrow> has_type (GArr t) v \<Longrightarrow> has_type (GArr t) (map_array f v)"
  by (cases v) auto

lemma ipfs_field_type:
  assumes "has_type IPFSConfig cfg" and "(n, t, om) \<in> set ipfs_fields" and "\<And>x. has_type t x \<Longrightarrow> has_type t (f x)"
  shows "has_type IPFSConfig (at_field n f cfg)"
  using assms(1) unfolding IPFSConfig_def
  by (rule at_field_struct [where t = t and om = om]) (use assms(2,3) in \<open>simp_all add: ipfs_fields_def\<close>)

lemma identity_type:
  "has_type ipfs_identity i \<Longrightarrow> has_type ipfs_identity (at_field ''PeerID'' (\<lambda>_. JStr p) (at_field ''PrivKey'' (\<lambda>_. JStr k) i))"
  unfolding ipfs_identity_def
  by (rule at_field_struct [where t = GStr and om = False], rule at_field_struct [where t = GStr and om = False], assumption) simp_all

lemma addresses_type:
  "has_type ipfs_addresses a \<Longrightarrow> has_type ipfs_addresses (at_field ''API'' (\<lambda>_. JStr p) (at_field ''Gateway'' (\<lambda>_. JStr k) a))"
  unfolding ipfs_addresses_def
  by (rule at_field_struct [where t = GStr and om = False], rule at_field_struct [where t = GStr and om = False], assumption) simp_all

lemma spec_type: "has_type DatastoreSpec s \<Longrightarrow> has_type DatastoreSpec (at_field ''mounts'' (map_array (set_mount_path p)) s)"
  unfolding DatastoreSpec_def
  by (rule at_field_struct [where t = "GArr Mount" and om = False], assumption)
    (simp_all add: map_array_type set_mount_path_type del: has_type.simps)

lemma datastore_type:
  "has_type ipfs_datastore d \<Longrightarrow> has_type ipfs_datastore (at_field ''Spec'' (at_field ''mounts'' (map_array (set_mount_path p))) d)"
  unfolding ipfs_datastore_def
  by (rule at_field_struct [where t = DatastoreSpec and om = False], assumption) (simp_all add: spec_type del: has_type.simps)

lemma experimental_type: "has_type ipfs_experimental e \<Longrightarrow> has_type ipfs_experimental (at_field ''Libp2pStreamMounting'' (\<lambda>_. JBool b) e)"
  unfolding ipfs_experimental_def by (rule at_field_struct [where t = GBool and om = False], assumption) simp_all

text \<open>The update as one function of the identity and the marshalled key.\<close>

definition final_config :: "init_flags \<Rightarrow> peerID \<Rightarrow> string \<Rightarrow> json \<Rightarrow> json" where
  "final_config fl pid key cfg =
     written_config (at_field ''Experimental'' (at_field ''Libp2pStreamMounting'' (\<lambda>_. JBool True))
       (updateDatastorePath (externalPath fl @ ''/ipfs_datastore'') (apiIpAddr fl)
         (at_field ''Identity'' (\<lambda>i. at_field ''PeerID'' (\<lambda>_. JStr pid) (at_field ''PrivKey'' (\<lambda>_. JStr key) i)) cfg)))"

lemma final_config_type:
  assumes "has_type IPFSConfig cfg"
  shows "has_type IPFSConfig (final_config fl pid key cfg)"
proof -
  note f = ipfs_field_type
  have 1: "has_type IPFSConfig (at_field ''Identity'' (\<lambda>i. at_field ''PeerID'' (\<lambda>_. JStr pid) (at_field ''PrivKey'' (\<lambda>_. JStr key) i)) cfg)" (is "has_type _ ?a")
    by (rule f [OF assms, where t = ipfs_identity and om = False]) (simp_all add: ipfs_fields_def identity_type del: has_type.simps)
  have 2: "has_type IPFSConfig (updateDatastorePath p i ?a)" for p i
    unfolding updateDatastorePath_def
    by (rule f [where t = ipfs_addresses and om = False], rule f [OF 1, where t = ipfs_datastore and om = False])
      (simp_all add: ipfs_fields_def addresses_type datastore_type del: has_type.simps)
  have 3: "has_type IPFSConfig (at_field ''Experimental'' (at_field ''Libp2pStreamMounting'' (\<lambda>_. JBool True)) (updateDatastorePath p i ?a))" for p i
    by (rule f [OF 2, where t = ipfs_experimental and om = False]) (simp_all add: ipfs_fields_def experimental_type del: has_type.simps)
  show ?thesis unfolding final_config_def written_config_def
    by (rule f [where t = GMap and om = False], rule f [OF 3, where t = "GArr GStr" and om = False]) (auto simp: ipfs_fields_def if_nil_def)
qed

lemma new_config_final:
  "new_config lib fl identity cfg = Some c \<Longrightarrow>
   \<exists>k pid b. initipfs_deriveKuboKey lib identity = Ok (k, pid) \<and> MarshalPrivateKey lib k = Some b \<and> written_config c = final_config fl pid (b64_encode b) cfg"
  by (auto simp: new_config_def updateIPFSConfigIdentity_def final_config_def split: outcome.splits option.splits)

section \<open>One identity everywhere\<close>

lemma and_then_assoc: "and_then (and_then r f) g = and_then r (\<lambda>v. and_then (f v) g)"
  by (cases r) auto

lemma initipfs_derives_same: "initipfs_deriveKuboKey lib i = deriveKuboKey lib i"
  by (simp add: initipfs_deriveKuboKey_def deriveKuboKey_def identity_key_def and_then_assoc kubo_domain_def Let_def)

lemma keys_at_field [simp]: "fst ` set (entries (at_field n f v)) = fst ` set (entries v)"
  by (cases v) (auto simp: at_field_def map_fields_def image_image case_prod_beta)

lemma entry_other [simp]: "m \<noteq> n \<Longrightarrow> entry m (at_field n f v) = entry m v"
  by (simp add: entry_at_field)

lemma entry_final_Identity:
  assumes "has_type IPFSConfig cfg"
  shows "entry ''Identity'' (final_config fl pid key cfg) =
    at_field ''PeerID'' (\<lambda>_. JStr pid) (at_field ''PrivKey'' (\<lambda>_. JStr key) (entry ''Identity'' cfg))"
proof -
  have "''Identity'' \<in> fst ` set (entries cfg)"
    using struct_keys [OF assms [unfolded IPFSConfig_def]] by (simp add: ipfs_fields_def)
  then show ?thesis by (simp add: final_config_def written_config_def updateDatastorePath_def entry_at_field)
qed

lemma ipfs_entry_type: "has_type IPFSConfig cfg \<Longrightarrow> (n, t, om) \<in> set ipfs_fields \<Longrightarrow> has_type t (entry n cfg)"
  using have_fields_entry [of ipfs_fields _ n t om] IPFSConfig_distinct
  by (cases cfg) (auto simp: IPFSConfig_def)

lemma final_config_keys:
  assumes "has_type IPFSConfig cfg"
  shows "entry ''PeerID'' (entry ''Identity'' (final_config fl pid key cfg)) = JStr pid"
    and "entry ''PrivKey'' (entry ''Identity'' (final_config fl pid key cfg)) = JStr key"
proof -
  have "has_type ipfs_identity (entry ''Identity'' cfg)"
    by (rule ipfs_entry_type [OF assms, where om = False]) (simp add: ipfs_fields_def)
  then have "fst ` set (entries (entry ''Identity'' cfg)) = {''PeerID'', ''PrivKey''}"
    using struct_keys [of _ "entry ''Identity'' cfg"] by (simp add: ipfs_identity_def del: has_type.simps)
  then show "entry ''PeerID'' (entry ''Identity'' (final_config fl pid key cfg)) = JStr pid"
    "entry ''PrivKey'' (entry ''Identity'' (final_config fl pid key cfg)) = JStr key"
    by (simp_all add: entry_final_Identity [OF assms] entry_at_field)
qed

text \<open>What a reader of the identity sees in a written configuration.\<close>

lemma written_identity_read:
  assumes "has_type IPFSConfig x" and "entry ''PeerID'' (entry ''Identity'' x) = JStr pid"
  shows "\<exists>j. decode_new kubo_config_identity (encode_go IPFSConfig x) = Some j \<and> entry ''PeerID'' (entry ''Identity'' j) = JStr pid"
proof -
  have dis: "distinct (names ipfs_fields)" using IPFSConfig_distinct by (simp add: IPFSConfig_def)
  have mem: "(''Identity'', ipfs_identity, False) \<in> set ipfs_fields" by (simp add: ipfs_fields_def)
  have enc: "encode_go ipfs_identity (entry ''Identity'' x) =
      JObj [(''PeerID'', JStr pid), (''PrivKey'', entry ''PrivKey'' (entry ''Identity'' x))]"
    using assms(2) by (simp add: ipfs_identity_def)
  let ?t = "GStruct [(''PeerID'', GStr, False)]"
  have "field_fold (decode_go ?t) ''Identity'' (zero_val ?t) (encode_fields ipfs_fields x) =
      decode_go ?t (zero_val ?t) (encode_go ipfs_identity (entry ''Identity'' x))"
    using field_fold_encode [OF dis mem] by simp
  also have "\<dots> = Some (JObj [(''PeerID'', JStr pid)])"
    unfolding enc by (simp add: entry_def fold_eq_def lower_char_def)
  finally have ff: "field_fold (decode_go ?t) ''Identity'' (JObj [(''PeerID'', JStr [])]) (encode_fields ipfs_fields x) =
      Some (JObj [(''PeerID'', JStr pid)])" by simp
  then have "decode_new kubo_config_identity (encode_go IPFSConfig x) = Some (JObj [(''Identity'', JObj [(''PeerID'', JStr pid)])])"
    by (simp add: decode_new_def kubo_config_identity_def IPFSConfig_def entry_Cons)
  then show ?thesis by (simp add: entry_def)
qed

subsection \<open>Which files change\<close>

definition only_below :: "string \<Rightarrow> 'w kubo_disk \<Rightarrow> 'w kubo_disk \<Rightarrow> bool" where
  "only_below p dk dk' \<longleftrightarrow> unreadable (dev dk') = unreadable (dev dk) \<and> unwritable (dev dk') = unwritable (dev dk) \<and> world (dev dk') = world (dev dk) \<and>
     (\<forall>q. \<not> below p q \<longrightarrow> files (dev dk') q = files (dev dk) q \<and> (q \<in> dirs dk' \<longleftrightarrow> q \<in> dirs dk))"

lemma only_below_refl [simp]: "only_below p dk dk"
  by (simp add: only_below_def)

lemma only_below_trans: "only_below p a b \<Longrightarrow> only_below p b c \<Longrightarrow> only_below p a c"
  by (simp add: only_below_def)

lemma below_refl [simp]: "below p p"
  by (simp add: below_def)

lemma disk_write_below: "disk_write p f dk = (ok, dk') \<Longrightarrow> only_below p dk dk' \<and> dirs dk' = dirs dk \<and> (ok \<longrightarrow> files (dev dk') p = Some f)"
  by (cases "WriteFile p f (dev dk)")
    (auto simp: disk_write_def only_below_def below_def WriteFile_def split: if_splits)

lemma RemoveAll_below: "RemoveAll p dk = Some dk' \<Longrightarrow> only_below p dk dk'"
  by (auto simp: RemoveAll_def only_below_def split: if_splits)

lemma copyDefault_below: "copyDefaultIPFSConfig s p dk = (ok, dk') \<Longrightarrow> only_below p dk dk'"
  by (auto simp: copyDefaultIPFSConfig_def split: option.splits dest!: disk_write_below)

lemma read_template_below: "read_template s p cfg dk = (r, dk') \<Longrightarrow> only_below p dk dk'"
  by (auto simp: read_template_def split: option.splits if_splits prod.splits bool.splits dest!: disk_write_below)

lemma readIPFSConfig_below: "readIPFSConfig s p dk = (r, dk') \<Longrightarrow> only_below p dk dk'"
  by (auto simp: readIPFSConfig_def split: option.splits if_splits prod.splits bool.splits sum.splits
      dest!: RemoveAll_below copyDefault_below read_template_below intro: only_below_trans)

lemma load_kubo_config_below: "load_kubo_config fl dk = Some (cfg, dk') \<Longrightarrow> only_below (kubo_config_path fl) dk dk'"
  by (auto simp: load_kubo_config_def Let_def split: prod.splits config_read.splits bool.splits
      dest!: readIPFSConfig_below copyDefault_below intro: only_below_trans)

lemma ensureDirectories_dev: "ensureDirectories ps dk = Some dk' \<Longrightarrow> dev dk' = dev dk"
  by (induction ps dk rule: ensureDirectories.induct) (auto simp: make_dir_def split: if_splits option.splits)

lemma write_if_missing_below: "write_if_missing p f dk = (ok, dk') \<Longrightarrow> only_below p dk dk' \<and> dirs dk' = dirs dk"
  by (auto simp: write_if_missing_def split: if_splits dest!: disk_write_below)

lemma writePredefinedFiles_keeps:
  assumes "writePredefinedFiles dp sp dk = (ok, dk')"
    and "\<not> below (dp @ ''/version'') q" and "\<not> below (dp @ ''/datastore_spec'') q"
  shows "files (dev dk') q = files (dev dk) q \<and> unreadable (dev dk') = unreadable (dev dk) \<and> unwritable (dev dk') = unwritable (dev dk) \<and>
    world (dev dk') = world (dev dk) \<and> dirs dk' = dirs dk"
  using assms by (auto simp: writePredefinedFiles_def only_below_def split: prod.splits bool.splits dest!: write_if_missing_below)

text \<open>A successful run in its steps.\<close>

lemma initipfs_steps:
  assumes "initipfs conv lib fl dk = Ok dk'"
  obtains dk1 c cfg dk2 k pid b dk3 where
    "ensureDirectories [internalPath fl, internalPath fl @ ''/ipfs_data'', externalPath fl @ ''/ipfs_datastore''] dk = Some dk1"
    and "readConfigYAML conv (internalPath fl @ ''/config.yaml'') dk1 = Some c"
    and "load_kubo_config fl dk1 = Some (cfg, dk2)"
    and "deriveKuboKey lib (setting c ''identity'') = Ok (k, pid)" and "MarshalPrivateKey lib k = Some b"
    and "disk_write (kubo_config_path fl) (Json (encode_go IPFSConfig (final_config fl pid (b64_encode b) cfg))) dk2 = (True, dk3)"
    and "writePredefinedFiles (internalPath fl @ ''/ipfs_data'') (externalPath fl @ ''/ipfs_datastore'') dk3 = (True, dk')"
proof -
  from assms obtain dk1 c cfg dk2 cfg' dk3 where s:
    "ensureDirectories [internalPath fl, internalPath fl @ ''/ipfs_data'', externalPath fl @ ''/ipfs_datastore''] dk = Some dk1"
    "readConfigYAML conv (internalPath fl @ ''/config.yaml'') dk1 = Some c" "load_kubo_config fl dk1 = Some (cfg, dk2)"
    "new_config lib fl (setting c ''identity'') cfg = Some cfg'" "writeIPFSConfig (kubo_config_path fl) cfg' dk2 = (True, dk3)"
    "writePredefinedFiles (internalPath fl @ ''/ipfs_data'') (externalPath fl @ ''/ipfs_datastore'') dk3 = (True, dk')"
    by (auto simp: initipfs_def Let_def simp del: ensureDirectories.simps split: option.splits prod.splits bool.splits)
  from new_config_final [OF s(4)] obtain k pid b where
    "deriveKuboKey lib (setting c ''identity'') = Ok (k, pid)" "MarshalPrivateKey lib k = Some b"
    "written_config cfg' = final_config fl pid (b64_encode b) cfg"
    by (auto simp: initipfs_derives_same)
  with s that show thesis by (simp add: writeIPFSConfig_def)
qed

lemma not_below_config:
  "\<not> below (p @ ''/ipfs_data/config'') (p @ ''/config.yaml'')" "\<not> below (p @ ''/ipfs_data/version'') (p @ ''/config.yaml'')"
  "\<not> below (p @ ''/ipfs_data/datastore_spec'') (p @ ''/config.yaml'')" "\<not> below (p @ ''/ipfs_data/version'') (p @ ''/ipfs_data/config'')"
  "\<not> below (p @ ''/ipfs_data/datastore_spec'') (p @ ''/ipfs_data/config'')"
  by (simp_all add: below_def HasPrefix_iff)

text \<open>What the run leaves: the configuration it wrote and the untouched settings of the device.\<close>

lemma initipfs_result:
  assumes "initipfs conv lib fl dk = Ok dk'"
  obtains c cfg k pid b where "readConfigYAML conv (internalPath fl @ ''/config.yaml'') dk' = Some c"
    and "has_type IPFSConfig cfg" and "deriveKuboKey lib (setting c ''identity'') = Ok (k, pid)" and "MarshalPrivateKey lib k = Some b"
    and "files (dev dk') (kubo_config_path fl) = Some (Json (encode_go IPFSConfig (final_config fl pid (b64_encode b) cfg)))"
    and "files (dev dk') (internalPath fl @ ''/config.yaml'') = files (dev dk) (internalPath fl @ ''/config.yaml'')"
    and "unreadable (dev dk') = unreadable (dev dk)" and "world (dev dk') = world (dev dk)"
proof -
  from assms obtain dk1 c cfg dk2 k pid b dk3 where s:
    "ensureDirectories [internalPath fl, internalPath fl @ ''/ipfs_data'', externalPath fl @ ''/ipfs_datastore''] dk = Some dk1"
    "readConfigYAML conv (internalPath fl @ ''/config.yaml'') dk1 = Some c" "load_kubo_config fl dk1 = Some (cfg, dk2)"
    "deriveKuboKey lib (setting c ''identity'') = Ok (k, pid)" "MarshalPrivateKey lib k = Some b"
    "disk_write (kubo_config_path fl) (Json (encode_go IPFSConfig (final_config fl pid (b64_encode b) cfg))) dk2 = (True, dk3)"
    "writePredefinedFiles (internalPath fl @ ''/ipfs_data'') (externalPath fl @ ''/ipfs_datastore'') dk3 = (True, dk')"
    by (rule initipfs_steps)
  let ?y = "internalPath fl @ ''/config.yaml''" and ?k = "kubo_config_path fl"
  have nb: "\<not> below ?k ?y" by (simp add: kubo_config_path_def not_below_config)
  have 1: "dev dk1 = dev dk" by (rule ensureDirectories_dev [OF s(1)])
  have 2: "only_below ?k dk1 dk2" by (rule load_kubo_config_below [OF s(3)])
  have 3: "only_below ?k dk2 dk3" "files (dev dk3) ?k = Some (Json (encode_go IPFSConfig (final_config fl pid (b64_encode b) cfg)))"
    using disk_write_below [OF s(6)] by auto
  have 4: "files (dev dk') q = files (dev dk3) q \<and> unreadable (dev dk') = unreadable (dev dk3) \<and> world (dev dk') = world (dev dk3) \<and> dirs dk' = dirs dk3"
    if "q = ?y \<or> q = ?k" for q
    using writePredefinedFiles_keeps [OF s(7), of q] that by (auto simp: kubo_config_path_def not_below_config)
  have 5: "only_below ?k dk1 dk3" using 2 3 only_below_trans by blast
  have y: "files (dev dk') ?y = files (dev dk1) ?y" "?y \<in> dirs dk' \<longleftrightarrow> ?y \<in> dirs dk1" "unreadable (dev dk') = unreadable (dev dk1)"
    "world (dev dk') = world (dev dk1)"
    using 4 [of ?y] 5 nb by (auto simp: only_below_def)
  then have "readConfigYAML conv ?y dk' = readConfigYAML conv ?y dk1"
    by (simp add: readConfigYAML_def disk_read_def ReadFile_def)
  with s that load_kubo_config_type [OF s(3)] 3 4 [of ?k] y 1 show thesis by auto
qed

text \<open>
  C21. After kubo has been prepared there is one identity everywhere: the peer id and the key in kubo's
  configuration are the ones derived from the device's identity (under which the daemon runs), the
  configured peer id that set-up clients are shown is that id, and so is the one that mDNS announces.
\<close>

theorem kubo_identity_agrees:
  assumes "initipfs conv lib fl dk = Ok dk'" and "internalPath fl = ''/internal''" and "keys_ok lib"
    and "load_yaml conv mdns_fields FULA_CONFIG_PATH (dev dk) = Some c" and "\<not> unreadable (dev dk) ''/internal/ipfs_data/config''"
  shows "\<exists>k pid. deriveKuboKey lib (setting c ''identity'') = Ok (k, pid) \<and>
    (pid \<noteq> [] \<longrightarrow> GetKuboConfiguredPeerID (dev dk') = Some pid) \<and>
    (\<exists>cfg s. files (dev dk') ''/internal/ipfs_data/config'' = Some (Json (encode_go IPFSConfig cfg)) \<and>
       entry ''PrivKey'' (entry ''Identity'' cfg) = JStr s \<and> Option.bind (b64_decode s) (UnmarshalPrivateKey lib) = Some k) \<and>
    (pid \<noteq> ''NA'' \<longrightarrow> (\<exists>m e. LoadConfig env pf conv lib (dev dk') = (Ok m, e) \<and> BloxPeerIdString m = pid))"
proof -
  from assms(1) obtain c' cfg k pid b where r: "readConfigYAML conv (internalPath fl @ ''/config.yaml'') dk' = Some c'"
    "has_type IPFSConfig cfg" "deriveKuboKey lib (setting c' ''identity'') = Ok (k, pid)" "MarshalPrivateKey lib k = Some b"
    "files (dev dk') (kubo_config_path fl) = Some (Json (encode_go IPFSConfig (final_config fl pid (b64_encode b) cfg)))"
    "files (dev dk') (internalPath fl @ ''/config.yaml'') = files (dev dk) (internalPath fl @ ''/config.yaml'')"
    "unreadable (dev dk') = unreadable (dev dk)" "world (dev dk') = world (dev dk)"
    by (rule initipfs_result)
  let ?x = "final_config fl pid (b64_encode b) cfg"
  have fula: "internalPath fl @ ''/config.yaml'' = FULA_CONFIG_PATH" "kubo_config_path fl = ''/internal/ipfs_data/config''"
    using assms(2) by (simp_all add: FULA_CONFIG_PATH_def kubo_config_path_def)
  have same: "ReadFile FULA_CONFIG_PATH (dev dk') = ReadFile FULA_CONFIG_PATH (dev dk)"
    using r(6,7) fula by (simp add: ReadFile_def)
  then have ly: "load_yaml conv mdns_fields FULA_CONFIG_PATH (dev dk') = Some c" using assms(4) by (simp add: load_yaml_def)
  have ident: "setting c' ''identity'' = setting c ''identity''"
    using r(1) ly fula
    by (auto simp: readConfigYAML_def disk_read_def load_yaml_def yaml_struct_def ConfigYAML_def mdns_fields_def setting_def
        split: outcome.splits if_splits bind_splits)
  have key: "Option.bind (b64_decode (b64_encode b)) (UnmarshalPrivateKey lib) = Some k"
    using assms(3) r(4) by (simp add: keys_ok_def b64_roundtrip)
  have kubo: "pid \<noteq> [] \<longrightarrow> GetKuboConfiguredPeerID (dev dk') = Some pid"
    using written_identity_read [OF final_config_type [OF r(2)] final_config_keys(1) [OF r(2)], of fl pid "b64_encode b"]
      r(5,7) assms(5) fula
    by (auto simp: GetKuboConfiguredPeerID_def ReadFile_def text_of_def Let_def)
  have "\<exists>m e. LoadConfig env pf conv lib (dev dk') = (Ok m, e) \<and> BloxPeerIdString m = pid" if "pid \<noteq> ''NA''"
  proof -
    obtain hw d1 where d1: "on_world (GetHardwareID pf) (dev dk') = (hw, d1)" by (cases "on_world (GetHardwareID pf) (dev dk')")
    then have "load_yaml conv mdns_fields FULA_CONFIG_PATH d1 = Some c"
      using ly ReadFile_same_local [OF on_world_local [OF d1]] by (simp add: load_yaml_def)
    moreover from mdns_ids_kubo [OF r(3) [unfolded ident]] obtain m' where
      "mdns_ids lib (setting c ''identity'') \<lparr>BloxPeerIdString = ''NA'', IpfsClusterID = ''NA'', meta_PoolName = ''NA'', meta_Authorizer = ''NA'',
         meta_HardwareID = (case hw of None \<Rightarrow> ''NA'' | Some h \<Rightarrow> h)\<rparr> = Ok m'" "BloxPeerIdString m' = pid" by blast
    ultimately show ?thesis using d1 that by (simp add: LoadConfig_def Let_def)
  qed
  with r(3,5) ident key kubo final_config_keys(2) [OF r(2)] fula show ?thesis by auto
qed

section \<open>Running it again\<close>

lemma at_field_idem: "(\<And>x. f (f x) = f x) \<Longrightarrow> at_field n f (at_field n f v) = at_field n f v"
  by (simp add: at_field_comp comp_def)

lemma set_mount_path_type_kept: "entry ''type'' (entry ''child'' (set_mount_path p m)) = entry ''type'' (entry ''child'' m)"
  by (simp add: set_mount_path_def Let_def entry_at_field)

lemma set_mount_path_idem: "set_mount_path p (set_mount_path p m) = set_mount_path p m"
proof -
  have "set_mount_path p (set_mount_path p m) =
      (let t = entry ''type'' (entry ''child'' m) in
       if t = JStr ''flatfs'' then at_field ''child'' (at_field ''path'' (\<lambda>_. JStr (p @ ''/blocks''))) (set_mount_path p m)
       else if t = JStr ''pebbleds'' then at_field ''child'' (at_field ''path'' (\<lambda>_. JStr (p @ ''/datastore''))) (set_mount_path p m)
       else set_mount_path p m)"
    by (subst (1) set_mount_path_def) (simp add: set_mount_path_type_kept)
  then show ?thesis by (simp add: set_mount_path_def Let_def at_field_idem)
qed

lemma map_array_idem: "(\<And>x. f (f x) = f x) \<Longrightarrow> map_array f (map_array f v) = map_array f v"
  by (cases v) (simp_all add: comp_def)

lemma final_config_idem: "final_config fl pid key (final_config fl pid key cfg) = final_config fl pid key cfg"
proof -
  have mounts: "at_field ''Spec'' (at_field ''mounts'' (map_array (set_mount_path p))) (at_field ''Spec'' (at_field ''mounts'' (map_array (set_mount_path p))) v) =
      at_field ''Spec'' (at_field ''mounts'' (map_array (set_mount_path p))) v" for p v
    by (intro at_field_idem map_array_idem set_mount_path_idem)
  have two: "at_field a (\<lambda>_. x) (at_field b (\<lambda>_. y) (at_field a (\<lambda>_. x) (at_field b (\<lambda>_. y) v))) = at_field a (\<lambda>_. x) (at_field b (\<lambda>_. y) v)"
    if "a \<noteq> b" for a b x y v
    using that by (simp add: at_field_commute [of b a] at_field_comp comp_def)
  have one: "at_field a (\<lambda>_. x) (at_field a (\<lambda>_. x) v) = at_field a (\<lambda>_. x) v" for a x v by (simp add: at_field_idem)
  show ?thesis
    unfolding final_config_def written_config_def updateDatastorePath_def
    unfolding at_field_def [of "''Identity''"] at_field_def [of "''Experimental''"] at_field_def [of "''Addresses''"]
      at_field_def [of "''Datastore''"] at_field_def [of "''Internal''"] at_field_def [of "''Bootstrap''"] map_fields_comp
    by (intro arg_cong [where f = "\<lambda>F. map_fields F cfg"] ext) (auto simp: mounts two one if_nil_def)
qed

lemma entry_final_Swarm [simp]: "entry ''Swarm'' (final_config fl pid key cfg) = entry ''Swarm'' cfg"
  by (simp add: final_config_def written_config_def updateDatastorePath_def)

text \<open>The only optional list is the one of the static relays.\<close>

definition relays_of :: "json \<Rightarrow> json" where
  "relays_of cfg = entry ''StaticRelays'' (entry ''RelayClient'' (entry ''Swarm'' cfg))"

lemma swarm_relay_type:
  assumes "has_type ipfs_swarm sw"
  shows "has_type relay_client (entry ''RelayClient'' sw)"
proof -
  from assms obtain kvs where "sw = JObj kvs" "have_fields swarm_fields kvs" by (cases sw) (auto simp: ipfs_swarm_def)
  moreover have "distinct (names swarm_fields)" by (simp add: swarm_fields_def lower_char_def)
  moreover have "(''RelayClient'', relay_client, False) \<in> set swarm_fields" by (simp add: swarm_fields_def)
  ultimately show ?thesis using have_fields_entry by blast
qed

lemma ipfs_omit_zero:
  assumes "has_type IPFSConfig cfg" and "relays_of cfg \<noteq> JArr []"
  shows "omit_zero IPFSConfig cfg"
proof -
  have plain: "plain_omits t \<Longrightarrow> (n, t, om) \<in> set ipfs_fields \<Longrightarrow> omit_zero t (entry n cfg)" for n t om
    by (rule plain_omits_zero) (use assms(1) IPFSConfig_distinct in \<open>auto simp: IPFSConfig_def distinct_fields_all intro!: ipfs_entry_type\<close>)
  have sw: "has_type ipfs_swarm (entry ''Swarm'' cfg)"
    by (rule ipfs_entry_type [OF assms(1), where om = False]) (simp add: ipfs_fields_def)
  then have "has_type relay_client (entry ''RelayClient'' (entry ''Swarm'' cfg))" by (rule swarm_relay_type)
  then obtain e r where rc: "entry ''RelayClient'' (entry ''Swarm'' cfg) = JObj [(''Enabled'', e), (''StaticRelays'', r)]"
    and ty: "has_type GBool e" "has_type (GArr GStr) r"
    by (cases "entry ''RelayClient'' (entry ''Swarm'' cfg)") (auto simp: relay_client_def split: list.splits)
  have "is_empty_val r \<longrightarrow> r = JNull" "is_empty_val e \<longrightarrow> e = JBool False"
    using assms(2) ty rc by (auto simp: relays_of_def entry_def is_empty_val_def split: json.splits)
  moreover have "omit_zero (GArr GStr) r" by (cases r) simp_all
  ultimately have "omit_zero relay_client (entry ''RelayClient'' (entry ''Swarm'' cfg))"
    unfolding rc by (simp add: relay_client_def entry_Cons del: omit_zero.simps(1))
  then have "omit_zero ipfs_swarm (entry ''Swarm'' cfg)" by (simp add: ipfs_swarm_def swarm_fields_def)
  moreover have "plain_omits t" if "(n, t, om) \<in> set ipfs_fields" "n \<noteq> ''Swarm''" for n t om
    using that by (auto simp: ipfs_types)
  moreover have "om = False \<and> (n = ''Swarm'' \<longrightarrow> t = ipfs_swarm)" if "(n, t, om) \<in> set ipfs_fields" for n t om
    using that by (auto simp: ipfs_fields_def)
  ultimately have "(om \<and> is_empty_val (entry n cfg) \<longrightarrow> entry n cfg = zero_val t) \<and> omit_zero t (entry n cfg)"
    if "(n, t, om) \<in> set ipfs_fields" for n t om using plain that by blast
  then show ?thesis by (auto simp: IPFSConfig_def omit_zero_fields_all)
qed

lemma ensureDirectories_all:
  "ensureDirectories ps dk = Some dk' \<Longrightarrow> dirs dk \<subseteq> dirs dk' \<and> (\<forall>p \<in> set ps. path_exists p dk')"
proof (induction ps dk arbitrary: dk' rule: ensureDirectories.induct)
  case (2 p ps dk)
  show ?case
  proof (cases "path_exists p dk")
    case True
    with 2 have i: "dirs dk \<subseteq> dirs dk'" "\<forall>q \<in> set ps. path_exists q dk'" by auto
    moreover have "dev dk' = dev dk" using ensureDirectories_dev [OF 2(3)] .
    ultimately show ?thesis using True by (auto simp: path_exists_def)
  next
    case False
    with 2(3) obtain dk1 where m: "make_dir p dk = Some dk1" "ensureDirectories ps dk1 = Some dk'" by (auto split: option.splits)
    then have "dirs dk1 = insert p (dirs dk)" by (auto simp: make_dir_def split: if_splits)
    with 2(2) [OF False m(1) m(2)] show ?thesis by (auto simp: path_exists_def)
  qed
qed simp

lemma ensureDirectories_present: "\<forall>p \<in> set ps. path_exists p dk \<Longrightarrow> ensureDirectories ps dk = Some dk"
  by (induction ps) auto

lemma disk_write_same: "files (dev dk) p = Some f \<Longrightarrow> p \<notin> dirs dk \<Longrightarrow> \<not> unwritable (dev dk) p \<Longrightarrow> disk_write p f dk = (True, dk)"
  by (simp add: disk_write_def WriteFile_def fun_upd_idem)

lemma disk_write_ok: "disk_write p f dk = (True, dk') \<Longrightarrow> p \<notin> dirs dk \<and> \<not> unwritable (dev dk) p"
  by (auto simp: disk_write_def WriteFile_def split: if_splits)

lemma write_if_missing_done: "write_if_missing p f dk = (True, dk') \<Longrightarrow> f \<noteq> Text [] \<Longrightarrow> \<not> missingOrEmpty p dk'"
  using disk_write_below [of p f dk True dk'] by (auto simp: write_if_missing_def missingOrEmpty_def split: if_splits)

lemma predefined_again:
  assumes "writePredefinedFiles dp sp dk = (True, dk')"
  shows "writePredefinedFiles dp sp dk' = (True, dk')"
proof -
  from assms obtain dk1 where w: "write_if_missing (dp @ ''/version'') (Text ''18'') dk = (True, dk1)"
    "write_if_missing (dp @ ''/datastore_spec'') (Json (datastore_spec sp)) dk1 = (True, dk')"
    by (auto simp: writePredefinedFiles_def split: prod.splits bool.splits)
  have "\<not> below (dp @ ''/datastore_spec'') (dp @ ''/version'')" by (simp add: below_def HasPrefix_iff)
  then have "files (dev dk') (dp @ ''/version'') = files (dev dk1) (dp @ ''/version'')" "dirs dk' = dirs dk1"
    using write_if_missing_below [OF w(2)] by (auto simp: only_below_def)
  then have "\<not> missingOrEmpty (dp @ ''/version'') dk'"
    using write_if_missing_done [OF w(1)] by (simp add: missingOrEmpty_def)
  moreover have "\<not> missingOrEmpty (dp @ ''/datastore_spec'') dk'" using write_if_missing_done [OF w(2)] by simp
  ultimately show ?thesis by (simp add: writePredefinedFiles_def write_if_missing_def)
qed

lemma new_config_Some:
  "deriveKuboKey lib i = Ok (k, pid) \<Longrightarrow> MarshalPrivateKey lib k = Some b \<Longrightarrow>
   \<exists>c. new_config lib fl i cfg = Some c \<and> written_config c = final_config fl pid (b64_encode b) cfg"
  by (simp add: new_config_def updateIPFSConfigIdentity_def initipfs_derives_same final_config_def)

lemma load_present:
  assumes "files (dev dk) (kubo_config_path fl) = Some (Json j)" and "decode_new IPFSConfig j = Some cfg"
    and "kubo_config_path fl \<notin> dirs dk" and "\<not> unreadable (dev dk) (kubo_config_path fl)"
  shows "load_kubo_config fl dk = Some (cfg, dk)"
  using assms by (simp add: load_kubo_config_def Let_def readIPFSConfig_def path_exists_def FileExists_def disk_read_def ReadFile_def
      decode_file_def decode_new_def)


lemma disk_write_exists: "disk_write p f dk = (ok, dk') \<Longrightarrow> path_exists q dk \<Longrightarrow> path_exists q dk'"
  by (auto simp: disk_write_def WriteFile_def path_exists_def FileExists_def split: if_splits)

lemma predefined_exists: "writePredefinedFiles dp sp dk = (ok, dk') \<Longrightarrow> path_exists q dk \<Longrightarrow> path_exists q dk'"
  by (auto simp: writePredefinedFiles_def write_if_missing_def split: prod.splits bool.splits if_splits dest!: disk_write_exists)

subsection \<open>The list of relays\<close>

text \<open>
  An empty list of relays is dropped when the configuration is written and read back as no list: the one value that does not survive the
  file. It is written in the same way.
\<close>

definition nil_relays :: "json \<Rightarrow> json" where
  "nil_relays r = (if r = JArr [] then JNull else r)"

definition norm_relays :: "json \<Rightarrow> json" where
  "norm_relays cfg = at_field ''Swarm'' (at_field ''RelayClient'' (at_field ''StaticRelays'' nil_relays)) cfg"

lemma relay_client_norm: "has_type relay_client r \<Longrightarrow> has_type relay_client (at_field ''StaticRelays'' nil_relays r)"
  unfolding relay_client_def
  by (rule at_field_struct [where t = "GArr GStr" and om = True], assumption) (auto simp: nil_relays_def)

lemma swarm_norm: "has_type ipfs_swarm w \<Longrightarrow> has_type ipfs_swarm (at_field ''RelayClient'' (at_field ''StaticRelays'' nil_relays) w)"
  unfolding ipfs_swarm_def
  by (rule at_field_struct [where t = relay_client and om = False], assumption)
    (simp_all add: swarm_fields_def relay_client_norm del: has_type.simps)

lemma norm_relays_type: "has_type IPFSConfig cfg \<Longrightarrow> has_type IPFSConfig (norm_relays cfg)"
  unfolding norm_relays_def
  by (rule ipfs_field_type [where t = ipfs_swarm and om = False], assumption) (simp_all add: ipfs_fields_def swarm_norm del: has_type.simps)

lemma norm_relays_of: "relays_of (norm_relays cfg) \<noteq> JArr []"
proof -
  have absent: "n \<notin> fst ` set (entries v) \<Longrightarrow> entry n v = JNull" for n v
    by (cases v) (auto simp: entry_def split: option.splits dest: map_of_SomeD intro: rev_image_eqI)
  have empty: "entry n JNull = JNull" for n by (simp add: entry_def)
  show ?thesis
    by (auto simp: relays_of_def norm_relays_def entry_at_field absent empty nil_relays_def split: if_splits)
qed

lemma encode_at_field:
  "(\<And>t om. (n, t, om) \<in> set fs \<Longrightarrow>
      om \<and> is_empty_val (entry n v) \<and> is_empty_val (f (entry n v)) \<or>
      f (entry n v) = entry n v \<or> \<not> om \<and> encode_go t (f (entry n v)) = encode_go t (entry n v)) \<Longrightarrow>
   encode_fields fs (at_field n f v) = encode_fields fs v"
proof (induction fs)
  case (Cons h fs)
  obtain m t om where h: "h = (m, t, om)" by (cases h) auto
  have IH: "encode_fields fs (at_field n f v) = encode_fields fs v" by (rule Cons.IH) (use Cons.prems in auto)
  show ?case
  proof (cases "m = n")
    case True
    with Cons.prems [of t om] h IH show ?thesis by (auto simp: entry_at_field)
  qed (simp add: h IH)
qed simp

lemma encode_norm_relays: "encode_go IPFSConfig (norm_relays cfg) = encode_go IPFSConfig cfg"
proof -
  let ?g = "at_field ''StaticRelays'' nil_relays"
  have r: "encode_go relay_client (?g v) = encode_go relay_client v" for v
    unfolding relay_client_def encode_go.simps
    by (rule arg_cong [where f = JObj], rule encode_at_field) (auto simp: nil_relays_def is_empty_val_def)
  have w: "encode_go ipfs_swarm (at_field ''RelayClient'' ?g v) = encode_go ipfs_swarm v" for v
    unfolding ipfs_swarm_def encode_go.simps
    by (rule arg_cong [where f = JObj], rule encode_at_field) (auto simp: swarm_fields_def r)
  show ?thesis
    unfolding norm_relays_def IPFSConfig_def encode_go.simps
    by (rule arg_cong [where f = JObj], rule encode_at_field) (auto simp: ipfs_fields_def w)
qed

lemma final_norm_relays: "final_config fl pid key (norm_relays cfg) = norm_relays (final_config fl pid key cfg)"
  by (simp add: final_config_def written_config_def updateDatastorePath_def norm_relays_def
      at_field_commute [of "''Swarm''" "''Internal''"] at_field_commute [of "''Swarm''" "''Bootstrap''"]
      at_field_commute [of "''Swarm''" "''Experimental''"] at_field_commute [of "''Swarm''" "''Addresses''"]
      at_field_commute [of "''Swarm''" "''Datastore''"] at_field_commute [of "''Swarm''" "''Identity''"])

text \<open>
  C22. Preparing kubo a second time changes nothing, whatever the first run found: no configuration, a directory in its place, an
  empty or damaged file that had to be completed from the template, or a configuration of any content. After every
  run that succeeded, the next one reads back what was written and succeeds with all files and directories as they are. (The
  configuration file is assumed to be readable, and the directory of the datastore not to lie inside the path of the
  configuration file.)
\<close>

theorem initipfs_idempotent:
  assumes "initipfs conv lib fl dk = Ok dk'" and "\<not> unreadable (dev dk) (kubo_config_path fl)"
    and "\<not> below (kubo_config_path fl) (externalPath fl @ ''/ipfs_datastore'')"
  shows "initipfs conv lib fl dk' = Ok dk'"
proof -
  let ?ps = "[internalPath fl, internalPath fl @ ''/ipfs_data'', externalPath fl @ ''/ipfs_datastore'']"
  let ?p = "kubo_config_path fl" and ?y = "internalPath fl @ ''/config.yaml''"
  from assms(1) obtain dk1 c cfg dk2 k pid b dk3 where s:
    "ensureDirectories ?ps dk = Some dk1" "readConfigYAML conv ?y dk1 = Some c" "load_kubo_config fl dk1 = Some (cfg, dk2)"
    "deriveKuboKey lib (setting c ''identity'') = Ok (k, pid)" "MarshalPrivateKey lib k = Some b"
    "disk_write ?p (Json (encode_go IPFSConfig (final_config fl pid (b64_encode b) cfg))) dk2 = (True, dk3)"
    "writePredefinedFiles (internalPath fl @ ''/ipfs_data'') (externalPath fl @ ''/ipfs_datastore'') dk3 = (True, dk')"
    by (rule initipfs_steps)
  let ?x = "final_config fl pid (b64_encode b) cfg"
  let ?n = "norm_relays ?x"
  have d1: "dev dk1 = dev dk" by (rule ensureDirectories_dev [OF s(1)])
  have b2: "only_below ?p dk1 dk2" by (rule load_kubo_config_below [OF s(3)])
  have w: "only_below ?p dk2 dk3" "dirs dk3 = dirs dk2" "files (dev dk3) ?p = Some (Json (encode_go IPFSConfig ?x))"
    using disk_write_below [OF s(6)] by auto
  have pw: "?p \<notin> dirs dk2" "\<not> unwritable (dev dk2) ?p" using disk_write_ok [OF s(6)] by auto
  have keeps: "files (dev dk') q = files (dev dk3) q" "unreadable (dev dk') = unreadable (dev dk3)" "unwritable (dev dk') = unwritable (dev dk3)"
    "dirs dk' = dirs dk3" if "q = ?y \<or> q = ?p" for q
    using writePredefinedFiles_keeps [OF s(7), of q] that by (auto simp: kubo_config_path_def not_below_config)
  have p': "files (dev dk') ?p = Some (Json (encode_go IPFSConfig ?n))" "?p \<notin> dirs dk'" "\<not> unreadable (dev dk') ?p" "\<not> unwritable (dev dk') ?p"
    using keeps [of ?p] w b2 pw d1 assms(2) by (auto simp: only_below_def encode_norm_relays)
  have ty: "has_type IPFSConfig ?n" by (intro norm_relays_type final_config_type load_kubo_config_type [OF s(3)])
  then have "decode_new IPFSConfig (encode_go IPFSConfig ?n) = Some ?n"
    unfolding decode_new_def by (intro decode_encode_zero ipfs_omit_zero norm_relays_of) simp_all
  then have load: "load_kubo_config fl dk' = Some (?n, dk')" by (rule load_present [OF p'(1) _ p'(2,3)])
  have b3: "only_below ?p dk1 dk3" using b2 w(1) only_below_trans by blast
  have ny: "\<not> below ?p ?y" by (simp add: kubo_config_path_def not_below_config)
  then have "files (dev dk') ?y = files (dev dk1) ?y" "?y \<in> dirs dk' \<longleftrightarrow> ?y \<in> dirs dk1" "unreadable (dev dk') = unreadable (dev dk1)"
    using keeps [of ?y] b3 by (auto simp: only_below_def)
  then have "readConfigYAML conv ?y dk' = readConfigYAML conv ?y dk1" by (simp add: readConfigYAML_def disk_read_def ReadFile_def)
  with s(2) have yaml: "readConfigYAML conv ?y dk' = Some c" by simp
  have nps: "\<not> below ?p q" if "q \<in> set ?ps" for q
    using that assms(3) by (auto simp: below_def kubo_config_path_def HasPrefix_iff)
  then have "path_exists q dk2" if "q \<in> set ?ps" for q
    using that ensureDirectories_all [OF s(1)] b2 unfolding only_below_def path_exists_def FileExists_def by metis
  then have "\<forall>q \<in> set ?ps. path_exists q dk'" using disk_write_exists [OF s(6)] predefined_exists [OF s(7)] by blast
  then have ens: "ensureDirectories ?ps dk' = Some dk'" by (rule ensureDirectories_present)
  from new_config_Some [OF s(4,5), of fl ?n] obtain c2 where c2: "new_config lib fl (setting c ''identity'') ?n = Some c2"
    "written_config c2 = ?n" by (auto simp: final_norm_relays final_config_idem)
  have "writeIPFSConfig ?p c2 dk' = (True, dk')"
    unfolding writeIPFSConfig_def c2(2) by (rule disk_write_same [OF p'(1,2,4)])
  with ens yaml load c2(1) predefined_again [OF s(7)] show ?thesis
    by (simp add: initipfs_def Let_def del: ensureDirectories.simps)
qed

subsection \<open>What is written\<close>
















lemma write_cluster_identity_file:
  assumes "write_cluster_identity cd pid i dk = Ok dk'"
  shows "files (dev dk') (cd @ ''/identity.json'') = Some (Json (JObj [(''id'', JStr pid), (''private_key'', JStr i)]))"
proof -
  from assms obtain dk3 where "disk_write (cd @ ''/identity.json'') (Json (JObj [(''id'', JStr pid), (''private_key'', JStr i)])) dk3 = (True, dk')"
    unfolding write_cluster_identity_def Let_def by (auto split: option.splits prod.splits bool.splits)
  then show ?thesis using disk_write_below by fast
qed

text \<open>
  The cluster gets the original identity of the device: after a successful run the identity file holds
  that key and the peer id that belongs to it, the id that the node and mDNS use for the cluster.
\<close>

lemma cluster_identity_agrees:
  assumes "initipfscluster conv lib fl dk = Ok dk'" and "internalPath fl = ''/internal''"
    and "load_yaml conv identity_fields FULA_CONFIG_PATH (dev dk) = Some c"
  shows "\<exists>pid. cluster_id lib (setting c ''identity'') = Ok pid \<and>
    files (dev dk') (externalPath fl @ ''/ipfs-cluster/identity.json'') = Some (Json (JObj [(''id'', JStr pid), (''private_key'', JStr (setting c ''identity''))])) \<and>
    (\<forall>m m'. mdns_ids lib (setting c ''identity'') m = Ok m' \<longrightarrow> IpfsClusterID m' = pid)"
proof -
  have fula: "internalPath fl @ ''/config.yaml'' = FULA_CONFIG_PATH" by (simp add: FULA_CONFIG_PATH_def assms(2))
  from assms(1) obtain c' pid where c': "Option.bind (Option.bind (disk_read FULA_CONFIG_PATH dk) as_yaml) (yaml_struct conv identity_fields) = Some c'"
    and pid: "cluster_id lib (setting c' ''identity'') = Ok pid"
    and w: "write_cluster_identity (externalPath fl @ ''/ipfs-cluster'') pid (setting c' ''identity'') dk = Ok dk'"
    by (auto simp: initipfscluster_def fula split: option.splits outcome.splits)
  from c' assms(3) have [simp]: "c' = c"
    by (auto simp: disk_read_def load_yaml_def split: if_splits outcome.splits)
  from write_cluster_identity_file [OF w] pid mdns_ids_cluster [OF pid] show ?thesis by auto
qed

section \<open>A concrete device\<close>

definition plain_conv :: yaml_conv where
  "plain_conv t v = (if has_type t v then Some v else None)"

definition sample_disk :: "int kubo_disk" where
  "sample_disk = \<lparr>dev = (sample_device 0)\<lparr>files := [FULA_CONFIG_PATH \<mapsto> Conf start_doc, ''/internal/ipfs_data/config'' \<mapsto> Json (JObj [])]\<rparr>,
     dirs = {''/internal'', ''/internal/ipfs_data'', ''/u/ipfs_datastore''}\<rparr>"

definition sample_init :: init_flags where
  "sample_init = \<lparr>internalPath = ''/internal'', externalPath = ''/u'', defaultIpfsConfig = ''/t'', apiIpAddr = ''0.0.0.0''\<rparr>"

lemma decode_empty: "decode_new IPFSConfig (JObj []) = Some (zero_val IPFSConfig)"
proof -
  have dis: "distinct (names ipfs_fields)" using IPFSConfig_distinct by (simp add: IPFSConfig_def)
  have "decode_fields ipfs_fields (JObj (zero_fields ipfs_fields)) [] =
      Some (map (\<lambda>f. (fst f, entry (fst f) (JObj (zero_fields ipfs_fields)))) ipfs_fields)"
    by (rule decode_fields_map) simp
  also have "\<dots> = Some (zero_fields ipfs_fields)" using have_fields_map [OF zero_has_type(2) dis] by simp
  finally show ?thesis by (simp add: decode_new_def IPFSConfig_def)
qed

lemma sample_paths: "kubo_config_path sample_init = ''/internal/ipfs_data/config''" "internalPath sample_init = ''/internal''"
  "externalPath sample_init = ''/u''"
  by (simp_all add: kubo_config_path_def sample_init_def)

lemma sample_read:
  "files (dev sample_disk) ''/internal/ipfs_data/config'' = Some (Json (JObj []))" "files (dev sample_disk) FULA_CONFIG_PATH = Some (Conf start_doc)"
  "unreadable (dev sample_disk) p = False" "unwritable (dev sample_disk) p = False" "FULA_CONFIG_PATH \<notin> dirs sample_disk"
  "''/internal/ipfs_data/config'' \<notin> dirs sample_disk"
  by (simp_all add: sample_disk_def FULA_CONFIG_PATH_def sample_device_def)

lemma sample_yaml:
  "\<exists>c. readConfigYAML plain_conv FULA_CONFIG_PATH sample_disk = Some c \<and> setting c ''identity'' = sample_identity"
  "\<exists>c. load_yaml plain_conv mdns_fields FULA_CONFIG_PATH (dev sample_disk) = Some c \<and> setting c ''identity'' = sample_identity"
  "\<exists>c. load_yaml plain_conv identity_fields FULA_CONFIG_PATH (dev sample_disk) = Some c \<and> setting c ''identity'' = sample_identity"
  by (simp_all add: readConfigYAML_def disk_read_def load_yaml_def ReadFile_def sample_read as_yaml_def yaml_struct_def ConfigYAML_def mdns_fields_def
      identity_fields_def yaml_field_def yaml_get_def start_doc_def plain_conv_def setting_def text_of_def)

lemma disk_write_sample: "p \<notin> dirs dk \<Longrightarrow> \<not> unwritable (dev dk) p \<Longrightarrow> \<exists>dk'. disk_write p f dk = (True, dk') \<and> dirs dk' = dirs dk \<and> unwritable (dev dk') = unwritable (dev dk)"
  by (simp add: disk_write_def WriteFile_def)

lemma sample_runs: "\<exists>dk'. initipfs plain_conv sample_keys sample_init sample_disk = Ok dk'"
proof -
  have ens: "ensureDirectories [''/internal'', ''/internal/ipfs_data'', ''/u/ipfs_datastore''] sample_disk = Some sample_disk"
    by (rule ensureDirectories_present) (simp add: path_exists_def sample_disk_def)
  from sample_yaml(1) obtain c where c: "readConfigYAML plain_conv FULA_CONFIG_PATH sample_disk = Some c" "setting c ''identity'' = sample_identity" by blast
  have load: "load_kubo_config sample_init sample_disk = Some (zero_val IPFSConfig, sample_disk)"
    by (rule load_present [where j = "JObj []"]) (simp_all add: sample_paths sample_read decode_empty)
  obtain b where "MarshalPrivateKey sample_keys (replicate 32 9) = Some b" by (simp add: sample_keys_def)
  from new_config_Some [OF sample_kubo this, of sample_init "zero_val IPFSConfig"]
  obtain cfg where cfg: "new_config sample_keys sample_init sample_identity (zero_val IPFSConfig) = Some cfg" by blast
  obtain dk3 where w: "writeIPFSConfig ''/internal/ipfs_data/config'' cfg sample_disk = (True, dk3)" "dirs dk3 = dirs sample_disk"
    "unwritable (dev dk3) = unwritable (dev sample_disk)"
    unfolding writeIPFSConfig_def using disk_write_sample sample_read by meson
  have wr: "\<exists>dk'. write_if_missing p f dk = (True, dk') \<and> dirs dk' = dirs dk \<and> unwritable (dev dk') = unwritable (dev dk)"
    if "p \<notin> dirs dk" "\<not> unwritable (dev dk) p" for p f and dk :: "int kubo_disk"
    using disk_write_sample [OF that] by (simp add: write_if_missing_def)
  have v: "''/internal/ipfs_data/version'' \<notin> dirs sample_disk" "''/internal/ipfs_data/datastore_spec'' \<notin> dirs sample_disk"
    by (simp_all add: sample_disk_def)
  obtain dk4 where w4: "write_if_missing ''/internal/ipfs_data/version'' (Text ''18'') dk3 = (True, dk4)" "dirs dk4 = dirs sample_disk"
    "unwritable (dev dk4) = unwritable (dev sample_disk)"
    using wr [of "''/internal/ipfs_data/version''" dk3 "Text ''18''"] v w sample_read(4) by auto
  obtain dk5 where w5: "write_if_missing ''/internal/ipfs_data/datastore_spec'' (Json (datastore_spec ''/u/ipfs_datastore'')) dk4 = (True, dk5)"
    using wr [of "''/internal/ipfs_data/datastore_spec''" dk4 "Json (datastore_spec ''/u/ipfs_datastore'')"] v w4 sample_read(4) by auto
  have "initipfs plain_conv sample_keys sample_init sample_disk = Ok dk5"
    using ens c load cfg w(1) w4(1) w5 by (simp add: initipfs_def Let_def sample_paths writePredefinedFiles_def FULA_CONFIG_PATH_def del: ensureDirectories.simps)
  then show ?thesis ..
qed

theorem kubo_identity_agrees_witness:
  "\<exists>dk'. initipfs plain_conv sample_keys sample_init sample_disk = Ok dk' \<and> GetKuboConfiguredPeerID (dev dk') = Some ''QmKubo'' \<and>
     (\<forall>env pf. \<exists>m e. LoadConfig env pf plain_conv sample_keys (dev dk') = (Ok m, e) \<and> BloxPeerIdString m = ''QmKubo'')"
proof -
  from sample_runs obtain dk' where r: "initipfs plain_conv sample_keys sample_init sample_disk = Ok dk'" ..
  from sample_yaml(2) obtain c where c: "load_yaml plain_conv mdns_fields FULA_CONFIG_PATH (dev sample_disk) = Some c" "setting c ''identity'' = sample_identity"
    by blast
  have "GetKuboConfiguredPeerID (dev dk') = Some ''QmKubo'' \<and>
      (\<exists>m e. LoadConfig env pf plain_conv sample_keys (dev dk') = (Ok m, e) \<and> BloxPeerIdString m = ''QmKubo'')" for env pf
    using kubo_identity_agrees [OF r sample_paths(2) sample_keys_ok c(1), where env = env and pf = pf]
    by (simp add: c(2) sample_kubo sample_read)
  with r show ?thesis by blast
qed


theorem initipfs_idempotent_witness:
  "\<exists>dk'. initipfs plain_conv sample_keys sample_init sample_disk = Ok dk' \<and> initipfs plain_conv sample_keys sample_init dk' = Ok dk'"
proof -
  from sample_runs obtain dk' where r: "initipfs plain_conv sample_keys sample_init sample_disk = Ok dk'" ..
  from initipfs_idempotent [OF r] r show ?thesis by (auto simp: sample_paths sample_read below_def HasPrefix_iff)
qed

theorem cluster_identity_agrees_witness:
  "\<exists>dk'. initipfscluster plain_conv sample_keys sample_init sample_disk = Ok dk' \<and>
     files (dev dk') ''/u/ipfs-cluster/identity.json'' =
       Some (Json (JObj [(''id'', JStr ''QmCluster''), (''private_key'', JStr sample_identity)]))"
proof -
  from sample_yaml(3) obtain c where c: "load_yaml plain_conv identity_fields FULA_CONFIG_PATH (dev sample_disk) = Some c" "setting c ''identity'' = sample_identity"
    by blast
  then have rd: "Option.bind (Option.bind (disk_read FULA_CONFIG_PATH sample_disk) as_yaml) (yaml_struct plain_conv identity_fields) = Some c"
    by (simp add: disk_read_def load_yaml_def sample_read split: outcome.splits)
  have "\<exists>dk'. write_cluster_identity ''/u/ipfs-cluster'' ''QmCluster'' sample_identity sample_disk = Ok dk'"
    by (simp add: write_cluster_identity_def disk_read_def disk_write_def ReadFile_def WriteFile_def make_dir_def FileExists_def sample_disk_def
        sample_device_def FULA_CONFIG_PATH_def)
  then obtain dk' where w: "write_cluster_identity ''/u/ipfs-cluster'' ''QmCluster'' sample_identity sample_disk = Ok dk'" ..
  have r: "initipfscluster plain_conv sample_keys sample_init sample_disk = Ok dk'"
    using rd w by (simp add: initipfscluster_def sample_paths FULA_CONFIG_PATH_def c(2) sample_cluster)
  from cluster_identity_agrees [OF r sample_paths(2) c(1)] r show ?thesis by (simp add: c(2) sample_cluster sample_paths)
qed

end
