(* ===== verification/PoolReconcile.thy ===== *)
theory PoolReconcile
  imports PoolConfig
begin

text \<open>
  When \<^verbatim>\<open>ReconcilePoolConfig\<close> may clear the configured pool, how often, and what it leaves alone.
\<close>

section \<open>Time\<close>

text \<open>
  A clock that never runs backwards: \<open>tt\<close> is the true time of the outside world, which every call and
  every wait leaves the same or moves forward.
\<close>

definition clocked :: "'w env \<Rightarrow> ('w \<Rightarrow> int) \<Rightarrow> bool" where
  "clocked env tt \<longleftrightarrow>
     (\<forall>w. fst (clock env w) = tt w \<and> tt w \<le> tt (snd (clock env w))) \<and>
     (\<forall>r w. tt w \<le> tt (snd (net env r w))) \<and> (\<forall>n w. tt w \<le> tt (snd (wait env n w)))"

definition later :: "('w \<Rightarrow> int) \<Rightarrow> 'w device \<Rightarrow> 'w device \<Rightarrow> bool" where
  "later tt d e \<longleftrightarrow> tt (world d) \<le> tt (world e)"

lemma later_refl [simp]: "later tt d d"
  by (simp add: later_def)

lemma later_trans: "later tt d e \<Longrightarrow> later tt e f \<Longrightarrow> later tt d f"
  by (simp add: later_def)

lemma later_local: "\<exists>c. e = d\<lparr>app_config := c\<rparr> \<Longrightarrow> later tt d e"
  by (auto simp: later_def)

lemma clockedD:
  assumes "clocked env tt"
  shows "send env r d = (x, e) \<Longrightarrow> later tt d e" "wait_for env n d = (b, e) \<Longrightarrow> later tt d e"
    "time_now env d = (now, e) \<Longrightarrow> now = tt (world d) \<and> later tt d e"
  using assms
  by (auto simp: clocked_def later_def send_def wait_for_def time_now_def split: prod.splits dest: spec)
    (metis fst_conv snd_conv)+

lemma callEVMChain_later:
  assumes "clocked env tt"
  shows "callEVMChain env opts c m p d = (x, e) \<Longrightarrow> later tt d e"
  by (auto simp: callEVMChain_def Let_def dest!: clockedD(1) [OF assms] intro: later_trans
      split: option.splits prod.splits net_reply.splits if_splits)

lemma retry_loop_later:
  assumes "clocked env tt"
  shows "retry_loop env opts c m p k n d = (x, e) \<Longrightarrow> later tt d e"
proof (induction n arbitrary: k d)
  case (Suc n)
  then show ?case
    by (auto dest!: callEVMChain_later [OF assms] clockedD(2) [OF assms] intro: later_trans
        split: prod.splits call.splits if_splits bool.splits)
qed simp

lemma strictEthCall_later:
  "clocked env tt \<Longrightarrow> strictEthCall env opts c data d = (x, e) \<Longrightarrow> later tt d e"
  by (auto simp: strictEthCall_def eth_call_def callEVMChainWithRetry_def split: option.splits prod.splits
      dest: retry_loop_later)

lemma ClusterPeerPoolStatus_later:
  assumes "clocked env tt"
  shows "ClusterPeerPoolStatus env opts p c d = (x, e) \<Longrightarrow> later tt d e"
  by (auto simp: ClusterPeerPoolStatus_def dest!: strictEthCall_later [OF assms] intro: later_trans
      split: outcome.splits prod.splits if_splits)

text \<open>The only effects of a pass: none to speak of, a new confirmation, or a recorded clear.\<close>

definition quiet :: "'w device \<Rightarrow> 'w device \<Rightarrow> bool" where
  "quiet d e \<longleftrightarrow>
     (\<forall>q. q \<noteq> PoolMemberConfirmedFilePath \<longrightarrow> files e q = files d q) \<and> signals e = signals d \<and> members e = members d \<and>
     unreadable e = unreadable d \<and> unwritable e = unwritable d"

lemma quiet_local: "same_local d e \<Longrightarrow> quiet d e"
  by (simp add: quiet_def same_localD)

lemma quiet_trans: "quiet d e \<Longrightarrow> quiet e f \<Longrightarrow> quiet d f"
  by (simp add: quiet_def)

lemma quiet_record: "quiet d (recordPoolMemberConfirmed c p d)"
  by (auto simp: quiet_def recordPoolMemberConfirmed_def WriteFile_def)

context pool_store
begin

lemma clear_frame:
  assumes "clearPoolConfig env (wired opts) d = (ok, e)" and "q \<noteq> store" and "q \<noteq> PoolMemberConfirmedFilePath"
  shows "files e q = files d q \<and> unreadable e = unreadable d \<and> signals e = signals d"
proof -
  obtain ok1 d1 where s1: "set_pool ''0'' d = (ok1, d1)" by (cases "set_pool ''0'' d") auto
  obtain ok2 d2 where s2: "set_chain [] d1 = (ok2, d2)" by (cases "set_chain [] d1") auto
  note a1 = set_pool_attrs [OF s1] and a2 = set_chain_attrs [OF s2]
  show ?thesis
  proof (cases "ok1 \<and> ok2")
    case True
    with s1 s2 have "set_pool ''0'' d = (True, d1)" "set_chain [] d1 = (True, d2)" by simp_all
    then obtain f w where "cleanLeaveJoinPool env (wired opts) d2 =
        d2\<lparr>files := (files d2)(PoolMemberConfirmedFilePath := f), world := w, ping_up := False, members := Map.empty\<rparr>"
      using clean_after_clear by blast
    moreover from True s1 s2 assms(1) have "e = snd (get_pool (cleanLeaveJoinPool env (wired opts) d2))"
      by (auto simp: clearPoolConfig_def call_set_def Let_def split: prod.splits)
    ultimately show ?thesis
      using a1 a2 assms(2,3) same_localD [OF get_pool_frame [of "cleanLeaveJoinPool env (wired opts) d2"]] by simp
  next
    case False
    with s1 s2 assms(1) have "e = d1 \<or> e = d2" by (auto simp: clearPoolConfig_def call_set_def split: bool.splits prod.splits)
    with a1 a2 assms(2,3) show ?thesis by auto
  qed
qed

text \<open>The clearing half of a pass.\<close>

definition clears :: "('w \<Rightarrow> int) \<Rightarrow> 'w options \<Rightarrow> (reconcile_error, bool) outcome \<Rightarrow> 'w device \<Rightarrow> 'w device \<Rightarrow> bool" where
  "clears tt opts x d e \<longleftrightarrow>
     (\<exists>now. tt (world d) \<le> now \<and> files e PoolReconcileClearedAtFilePath = Some (Stamp (now div second))) \<and>
     unreadable e = unreadable d \<and>
     (x = Ok True \<longrightarrow> fst (get_pool e) = ''0'' \<and> fst (get_chain e) = [] \<and>
        signals e = signals d + of_bool (onPoolConfigCleared opts)) \<and>
     (x \<noteq> Ok True \<longrightarrow> is_err x \<and> signals e = signals d)"

lemma reconcile_clear_cases:
  assumes "reconcile_clear env (wired opts) get_pool get_chain pool chain d = (x, e)" and "clocked env tt"
    and "store \<noteq> PoolMemberConfirmedFilePath" and "store \<noteq> PoolReconcileClearedAtFilePath"
  shows "(quiet d e \<and> x \<noteq> Ok True) \<or> clears tt opts x d e"
proof -
  obtain p1 d1 where g1: "get_pool d = (p1, d1)" by (cases "get_pool d") auto
  obtain c1 d2 where g2: "get_chain d1 = (c1, d2)" by (cases "get_chain d1") auto
  obtain now d3 where n: "time_now env d2 = (now, d3)" by (cases "time_now env d2") auto
  obtain ok d4 where w: "writeTimeMarker PoolReconcileClearedAtFilePath now d3 = (ok, d4)"
    by (cases "writeTimeMarker PoolReconcileClearedAtFilePath now d3") auto
  obtain ok2 d5 where c: "clearPoolConfig env (wired opts) d4 = (ok2, d5)" by (cases "clearPoolConfig env (wired opts) d4") auto
  have l1: "same_local d d1" using get_pool_frame [of d] g1 by simp
  have l2: "same_local d d2" using same_local_trans [OF l1 get_chain_frame [of d1, unfolded g2]] by simp
  have l3: "same_local d d3" using same_local_trans [OF l2 time_now_local [OF n]] .
  have time: "tt (world d) \<le> now"
    using get_pool_local [OF g1] get_chain_local [OF g2] clockedD(3) [OF assms(2) n] by (auto simp: later_def)
  show ?thesis
  proof (cases "p1 = pool \<and> c1 = chain \<and> ok")
    case False
    with assms(1) g1 g2 n w l1 l2 l3 WriteFile_frame [OF w [unfolded writeTimeMarker_def]]
    have "x \<noteq> Ok True \<and> (e = d1 \<or> e = d2 \<or> e = d3)"
      by (auto simp: reconcile_clear_def split: if_splits bool.splits)
    with l1 l2 l3 show ?thesis using quiet_local by blast
  next
    case True
    have wr: "files d4 PoolReconcileClearedAtFilePath = Some (Stamp (now div second))" "unreadable d4 = unreadable d"
      "signals d4 = signals d"
      using WriteFile_frame [OF w [unfolded writeTimeMarker_def]] True same_localD [OF l3] by auto
    have fr: "files d5 PoolReconcileClearedAtFilePath = files d4 PoolReconcileClearedAtFilePath"
      "unreadable d5 = unreadable d4" "signals d5 = signals d4"
      using clear_frame [OF c] assms(4) by (auto simp: PoolMemberConfirmedFilePath_def PoolReconcileClearedAtFilePath_def)
    have xe: "(ok2 \<and> x = Ok True \<and> e = signalPoolConfigCleared (wired opts) d5) \<or> (\<not> ok2 \<and> x = Err ClearFailed \<and> e = d5)"
      using assms(1) g1 g2 n w c True by (cases ok2) (auto simp: reconcile_clear_def)
    have "fst (get_pool e) = ''0'' \<and> fst (get_chain e) = []" if "x = Ok True"
    proof -
      from that xe have ok2: ok2 and e: "e = signalPoolConfigCleared (wired opts) d5" by auto
      have "fst (get_pool e) = fst (get_pool d5)" "fst (get_chain e) = fst (get_chain d5)"
        unfolding e by (auto simp: signalPoolConfigCleared_def intro: get_pool_stable get_chain_stable)
      with clear_success [OF c [simplified ok2] assms(3)] ok2 show ?thesis by simp
    qed
    then have "clears tt opts x d e"
      using xe wr fr time unfolding clears_def by (auto simp: signalPoolConfigCleared_def)
    then show ?thesis by simp
  qed
qed

end

section \<open>A pass\<close>

text \<open>
  What a device that cleared its pool in a pass had to know. A definitive negative answer is one in
  which the status query said: neither a member nor waiting to join. \<open>denied_twice\<close> says that a pass got two of them: the
  first one in \<open>d0\<close>, where the checks start, then a wait of the confirmation delay that ran to its end, then the
  second one, asked in the state the wait left behind; \<open>d3\<close> is the state after it.
\<close>

definition denied_twice :: "'w env \<Rightarrow> 'w options \<Rightarrow> string \<Rightarrow> nat \<Rightarrow> 'w device \<Rightarrow> 'w device \<Rightarrow> bool" where
  "denied_twice env opts chain pid d0 d3 \<longleftrightarrow>
     (\<exists>d1 d2. ClusterPeerPoolStatus env opts pid chain d0 = (Ok (False, False), d1) \<and>
        wait_for env poolReconcileConfirmDelay d1 = (True, d2) \<and>
        ClusterPeerPoolStatus env opts pid chain d2 = (Ok (False, False), d3))"

text \<open>The checks start where the pass does, but for at most one reading of the clock (the rate limit).\<close>

definition checks_from :: "'w env \<Rightarrow> 'w device \<Rightarrow> 'w device \<Rightarrow> bool" where
  "checks_from env d d0 \<longleftrightarrow> same_local d d0 \<and> (world d0 = world d \<or> world d0 = snd (clock env (world d)))"

definition reconcile_justified ::
  "'w env \<Rightarrow> 'w options \<Rightarrow> string \<Rightarrow> string \<Rightarrow> 'w device \<Rightarrow> 'w device \<Rightarrow> bool" where
  "reconcile_justified env opts pool chain d d3 \<longleftrightarrow>
     \<not> FileExists PoolReconcileDisabledFilePath d \<and> \<not> poolHost opts \<and> pool \<noteq> [] \<and> pool \<noteq> ''0'' \<and> chain \<noteq> [] \<and>
     readPoolMemberConfirmed d = Some (poolKey chain pool) \<and>
     (\<exists>pid d0. ParseUint pool 10 32 = Some pid \<and> checks_from env d d0 \<and> denied_twice env opts chain pid d0 d3)"

lemma readPoolMemberConfirmed_local: "same_local d e \<Longrightarrow> readPoolMemberConfirmed e = readPoolMemberConfirmed d"
  by (simp add: readPoolMemberConfirmed_def ReadFile_same_local)

lemma readTimeMarker_local: "same_local d e \<Longrightarrow> readTimeMarker p e = readTimeMarker p d"
  by (simp add: readTimeMarker_def ReadFile_same_local)

context pool_store
begin

lemma reconcile_checks_cases:
  assumes r: "reconcile_checks env (wired opts) get_pool get_chain pool chain pid d = (x, e)" and ck: "clocked env tt"
    and st: "store \<noteq> PoolMemberConfirmedFilePath" "store \<noteq> PoolReconcileClearedAtFilePath"
  shows "(quiet d e \<and> x \<noteq> Ok True) \<or>
    (readPoolMemberConfirmed d = Some (poolKey chain pool) \<and>
       (\<exists>d3. denied_twice env (wired opts) chain pid d d3 \<and> same_local d d3 \<and> later tt d d3 \<and> clears tt opts x d3 e))"
proof -
  obtain y d1 where s1: "ClusterPeerPoolStatus env (wired opts) pid chain d = (y, d1)"
    by (cases "ClusterPeerPoolStatus env (wired opts) pid chain d") auto
  have l1: "same_local d d1" and t1: "later tt d d1"
    using ClusterPeerPoolStatus_local [OF s1] ClusterPeerPoolStatus_later [OF ck s1] .
  obtain b d2 where w: "wait_for env poolReconcileConfirmDelay d1 = (b, d2)"
    by (cases "wait_for env poolReconcileConfirmDelay d1") auto
  have l2: "same_local d d2" and t2: "later tt d d2"
    using same_local_trans [OF l1 wait_for_local [OF w]] later_trans [OF t1 clockedD(2) [OF ck w]] .
  obtain z d3 where s2: "ClusterPeerPoolStatus env (wired opts) pid chain d2 = (z, d3)"
    by (cases "ClusterPeerPoolStatus env (wired opts) pid chain d2") auto
  have l3: "same_local d d3" and t3: "later tt d d3"
    using same_local_trans [OF l2 ClusterPeerPoolStatus_local [OF s2]] later_trans [OF t2 ClusterPeerPoolStatus_later [OF ck s2]] .
  show ?thesis
  proof (cases "y = Ok (False, False) \<and> readPoolMemberConfirmed d1 = Some (poolKey chain pool) \<and> b \<and> z = Ok (False, False)")
    case True
    then have rc: "reconcile_clear env (wired opts) get_pool get_chain pool chain d3 = (x, e)"
      using r s1 w s2 by (simp add: reconcile_checks_def)
    have dep: "denied_twice env (wired opts) chain pid d d3" using s1 w s2 True by (auto simp: denied_twice_def)
    have "readPoolMemberConfirmed d = Some (poolKey chain pool)" using True readPoolMemberConfirmed_local [OF l1] by simp
    with dep reconcile_clear_cases [OF rc ck st] l3 t3 show ?thesis using quiet_local quiet_trans by blast
  next
    case False
    have "x \<noteq> Ok True \<and> (e \<in> {d1, d2, d3} \<or> e = recordPoolMemberConfirmed chain pool d1 \<or> e = recordPoolMemberConfirmed chain pool d3)"
      using False r s1 w s2 ClusterPeerPoolStatus_total [OF s1] ClusterPeerPoolStatus_total [OF s2]
      by (auto simp: reconcile_checks_def split: outcome.splits prod.splits if_splits bool.splits)
    then show ?thesis
      using quiet_local [OF l1] quiet_local [OF l2] quiet_local [OF l3] quiet_record quiet_trans by blast
  qed
qed

text \<open>The guards of a pass: it ends there, or goes on to the checks past the rate limit.\<close>

lemma reconcile_gate:
  assumes r: "ReconcilePoolConfig env (wired opts) d = (x, e)" and ck: "clocked env tt"
  shows "(same_local d e \<and> x \<noteq> Ok True) \<or>
    (\<not> FileExists PoolReconcileDisabledFilePath d \<and> \<not> poolHost opts \<and>
     fst (get_pool d) \<noteq> [] \<and> fst (get_pool d) \<noteq> ''0'' \<and> fst (get_chain d) \<noteq> [] \<and>
     (\<exists>pid d3. ParseUint (fst (get_pool d)) 10 32 = Some pid \<and> checks_from env d d3 \<and>
        reconcile_checks env (wired opts) get_pool get_chain (fst (get_pool d)) (fst (get_chain d)) pid d3 = (x, e) \<and>
        (\<forall>t. readTimeMarker PoolReconcileClearedAtFilePath d = Some t \<longrightarrow> PoolReconcileMinInterval \<le> tt (world d3) - t)))"
proof -
  obtain pool d1 where g1: "get_pool d = (pool, d1)" by (cases "get_pool d") auto
  obtain chain d2 where g2: "get_chain d1 = (chain, d2)" by (cases "get_chain d1") auto
  obtain now d3 where n: "time_now env d2 = (now, d3)" by (cases "time_now env d2") auto
  have names: "fst (get_pool d) = pool" "fst (get_chain d) = chain"
    using g1 g2 get_chain_after_get_pool [of d] by simp_all
  have l2: "same_local d d2"
    using same_local_trans [OF get_pool_frame [of d] get_chain_frame [of "snd (get_pool d)"]] g1 g2 by simp
  have l3: "same_local d d3" using same_local_trans [OF l2 time_now_local [OF n]] .
  have now: "now \<le> tt (world d3)" using clockedD(3) [OF ck n] by (auto simp: later_def)
  have t: "readTimeMarker PoolReconcileClearedAtFilePath d2 = readTimeMarker PoolReconcileClearedAtFilePath d"
    by (rule readTimeMarker_local [OF l2])
  have sd: "same_local d d" by simp
  have w2: "world d2 = world d" using get_pool_local [OF g1] get_chain_local [OF g2] by auto
  then have c2: "checks_from env d d2" and c3: "checks_from env d d3"
    using l2 l3 n by (auto simp: checks_from_def time_now_def split: prod.splits)
  from r show ?thesis
    unfolding ReconcilePoolConfig_def wire_simps names
    using g1 g2 n l2 l3 now t sd c2 c3
    by (auto split: if_splits option.splits bool.splits)
qed

lemma reconcile_cases:
  assumes r: "ReconcilePoolConfig env (wired opts) d = (x, e)" and ck: "clocked env tt"
    and st: "store \<noteq> PoolMemberConfirmedFilePath" "store \<noteq> PoolReconcileClearedAtFilePath"
  shows "(quiet d e \<and> x \<noteq> Ok True) \<or>
    (\<exists>d3. reconcile_justified env (wired opts) (fst (get_pool d)) (fst (get_chain d)) d d3 \<and>
       (same_local d d3 \<and> clears tt opts x d3 e \<and>
          (\<forall>t. readTimeMarker PoolReconcileClearedAtFilePath d = Some t \<longrightarrow> PoolReconcileMinInterval \<le> tt (world d3) - t)))"
proof (rule disjE [OF reconcile_gate [OF r ck]])
  assume "same_local d e \<and> x \<noteq> Ok True"
  then show ?thesis using quiet_local by blast
next
  let ?pool = "fst (get_pool d)" and ?chain = "fst (get_chain d)"
  assume a: "\<not> FileExists PoolReconcileDisabledFilePath d \<and> \<not> poolHost opts \<and> ?pool \<noteq> [] \<and> ?pool \<noteq> ''0'' \<and> ?chain \<noteq> [] \<and>
     (\<exists>pid d3. ParseUint ?pool 10 32 = Some pid \<and> checks_from env d d3 \<and>
        reconcile_checks env (wired opts) get_pool get_chain ?pool ?chain pid d3 = (x, e) \<and>
        (\<forall>t. readTimeMarker PoolReconcileClearedAtFilePath d = Some t \<longrightarrow> PoolReconcileMinInterval \<le> tt (world d3) - t))"
  then obtain pid d3 where pid: "ParseUint ?pool 10 32 = Some pid" and cf: "checks_from env d d3"
    and c: "reconcile_checks env (wired opts) get_pool get_chain ?pool ?chain pid d3 = (x, e)"
    and gate: "\<And>t. readTimeMarker PoolReconcileClearedAtFilePath d = Some t \<Longrightarrow> PoolReconcileMinInterval \<le> tt (world d3) - t"
    by blast
  have l3: "same_local d d3" using cf by (simp add: checks_from_def)
  show ?thesis
  proof (rule disjE [OF reconcile_checks_cases [OF c ck st]])
    assume "quiet d3 e \<and> x \<noteq> Ok True"
    then show ?thesis using quiet_trans [OF quiet_local [OF l3]] by blast
  next
    assume b: "readPoolMemberConfirmed d3 = Some (poolKey ?chain ?pool) \<and>
       (\<exists>d4. denied_twice env (wired opts) ?chain pid d3 d4 \<and> same_local d3 d4 \<and> later tt d3 d4 \<and> clears tt opts x d4 e)"
    then obtain d4 where dep: "denied_twice env (wired opts) ?chain pid d3 d4"
      and d4: "same_local d3 d4" "later tt d3 d4" "clears tt opts x d4 e" by blast
    have "reconcile_justified env (wired opts) ?pool ?chain d d4"
      using a b pid cf dep readPoolMemberConfirmed_local [OF l3] by (auto simp: reconcile_justified_def)
    moreover have "PoolReconcileMinInterval \<le> tt (world d4) - t"
      if "readTimeMarker PoolReconcileClearedAtFilePath d = Some t" for t
      using gate [OF that] d4(2) by (simp add: later_def)
    ultimately show ?thesis using d4 same_local_trans [OF l3] by blast
  qed
qed

end

text \<open>
  C6. A reconcile pass touches the configuration, or asks for a restart, only when the clear is
  justified: passes are not disabled, the device is no pool host, a pool and a chain are configured,
  this firmware had confirmed exactly that membership, and the strict status query said twice within this pass, first where
  the checks start and again after a full wait of the confirmation delay, that the device's cluster peer is neither a
  member nor waiting to join; the marker that dates the clear is written after the second answer. On an honest chain the
  device has then really departed. A reported clear has emptied both names and asked for one restart.
\<close>

theorem reconcile_only_after_departure:
  assumes "ReconcilePoolConfig env (blox_opts cp opts) d = (x, e)" and "clocked env tt"
    and "cp \<noteq> PoolMemberConfirmedFilePath" and "cp \<noteq> PoolReconcileClearedAtFilePath"
    and "files e cp \<noteq> files d cp \<or> signals e \<noteq> signals d \<or> x = Ok True"
  shows "(\<exists>d3. reconcile_justified env (blox_opts cp opts) (fst (getPoolNameFromConfig cp d)) (fst (getChainNameFromConfig cp d)) d d3 \<and>
      (\<exists>now. tt (world d3) \<le> now \<and> files e PoolReconcileClearedAtFilePath = Some (Stamp (now div second)))) \<and>
    (\<forall>isM st. honest_chains env opts isM st \<longrightarrow> (\<exists>pid. ParseUint (fst (getPoolNameFromConfig cp d)) 10 32 = Some pid \<and>
       departed env opts isM st (fst (getChainNameFromConfig cp d)) pid)) \<and>
    (x = Ok True \<longrightarrow> fst (getPoolNameFromConfig cp e) = ''0'' \<and> fst (getChainNameFromConfig cp e) = [] \<and>
       signals e = signals d + of_bool (onPoolConfigCleared opts))"
proof -
  have res: "(\<exists>d3. reconcile_justified env (blox_opts cp opts) (fst (getPoolNameFromConfig cp d)) (fst (getChainNameFromConfig cp d)) d d3 \<and>
      (\<exists>now. tt (world d3) \<le> now \<and> files e PoolReconcileClearedAtFilePath = Some (Stamp (now div second)))) \<and>
    (x = Ok True \<longrightarrow> fst (getPoolNameFromConfig cp e) = ''0'' \<and> fst (getChainNameFromConfig cp e) = [] \<and>
       signals e = signals d + of_bool (onPoolConfigCleared opts))"
    using blox_store.reconcile_cases [OF assms(1) [unfolded blox_opts_def] assms(2,3,4)] assms(3,5)
    unfolding blox_opts_def [symmetric]
    by (auto simp: quiet_def blox_store.clears_def dest: same_localD)
  moreover have "departed env opts isM st chain pid"
    if "honest_chains env opts isM st" "denied_twice env (blox_opts cp opts) chain pid d0 d3" for isM st chain pid d0 d3
    using that status_departed [of env "blox_opts cp opts" pid chain _ _ isM st]
    by (auto simp: denied_twice_def honest_chains_def departed_def blox_opts_def)
  ultimately show ?thesis by (fastforce simp: reconcile_justified_def)
qed

section \<open>Histories\<close>

text \<open>
  A history of a device: passes, and between them anything that keeps the time marker (joins, leaves,
  reboots, other requests). The list holds the times, in seconds, at which passes cleared the pool.
\<close>

inductive reconcile_history :: "'w env \<Rightarrow> 'w options \<Rightarrow> 'w device \<Rightarrow> int list \<Rightarrow> 'w device \<Rightarrow> bool"
  for env opts d where
  start: "reconcile_history env opts d [] d"
| other: "reconcile_history env opts d ts e \<Longrightarrow>
     files e' PoolReconcileClearedAtFilePath = files e PoolReconcileClearedAtFilePath \<Longrightarrow>
     unreadable e' PoolReconcileClearedAtFilePath = unreadable e PoolReconcileClearedAtFilePath \<Longrightarrow>
     reconcile_history env opts d ts e'"
| pass: "reconcile_history env opts d ts e \<Longrightarrow> ReconcilePoolConfig env opts e = (x, e') \<Longrightarrow> x \<noteq> Ok True \<Longrightarrow>
     reconcile_history env opts d ts e'"
| clear: "reconcile_history env opts d ts e \<Longrightarrow> ReconcilePoolConfig env opts e = (Ok True, e') \<Longrightarrow>
     files e' PoolReconcileClearedAtFilePath = Some (Stamp t) \<Longrightarrow> reconcile_history env opts d (ts @ [t]) e'"

text \<open>The marker bounds every clear so far from above.\<close>

definition marker_bounds :: "int list \<Rightarrow> 'w device \<Rightarrow> bool" where
  "marker_bounds ts e \<longleftrightarrow>
     \<not> unreadable e PoolReconcileClearedAtFilePath \<and>
     (ts = [] \<or> (\<exists>m. files e PoolReconcileClearedAtFilePath = Some (Stamp m) \<and> (\<forall>t \<in> set ts. t \<le> m)))"

lemma readTimeMarker_Stamp:
  "files d p = Some (Stamp m) \<Longrightarrow> \<not> unreadable d p \<Longrightarrow> readTimeMarker p d = Some (m * second)"
  by (simp add: readTimeMarker_def ReadFile_def)

lemma pass_advances:
  assumes "ReconcilePoolConfig env (blox_opts cp opts) d = (x, e)" and "clocked env tt"
    and "cp \<noteq> PoolMemberConfirmedFilePath" and "cp \<noteq> PoolReconcileClearedAtFilePath"
    and "\<not> unreadable d PoolReconcileClearedAtFilePath"
  shows "\<not> unreadable e PoolReconcileClearedAtFilePath \<and>
    (x \<noteq> Ok True \<and> files e PoolReconcileClearedAtFilePath = files d PoolReconcileClearedAtFilePath \<or>
     (\<exists>t. files e PoolReconcileClearedAtFilePath = Some (Stamp t) \<and>
        (\<forall>m. files d PoolReconcileClearedAtFilePath = Some (Stamp m) \<longrightarrow> m + 86400 \<le> t)))"
proof -
  from blox_store.reconcile_cases [OF assms(1) [unfolded blox_opts_def] assms(2,3,4), folded blox_opts_def]
  show ?thesis
  proof
    assume "quiet d e \<and> x \<noteq> Ok True"
    with assms(5) show ?thesis
      by (simp add: quiet_def PoolMemberConfirmedFilePath_def PoolReconcileClearedAtFilePath_def)
  next
    assume "\<exists>d3. reconcile_justified env (blox_opts cp opts) (fst (getPoolNameFromConfig cp d)) (fst (getChainNameFromConfig cp d)) d d3 \<and>
       (same_local d d3 \<and> blox_store.clears cp tt opts x d3 e \<and>
          (\<forall>t. readTimeMarker PoolReconcileClearedAtFilePath d = Some t \<longrightarrow> PoolReconcileMinInterval \<le> tt (world d3) - t))"
    then obtain d3 now where l: "same_local d d3" and now: "tt (world d3) \<le> now" "unreadable e = unreadable d3"
      and f: "files e PoolReconcileClearedAtFilePath = Some (Stamp (now div second))"
      and gate: "\<And>t. readTimeMarker PoolReconcileClearedAtFilePath d = Some t \<Longrightarrow> PoolReconcileMinInterval \<le> tt (world d3) - t"
      by (auto simp: blox_store.clears_def)
    have "m + 86400 \<le> now div second" if "files d PoolReconcileClearedAtFilePath = Some (Stamp m)" for m
      using gate [OF readTimeMarker_Stamp [OF that assms(5)]] now by (simp add: PoolReconcileMinInterval_def)
    with f now same_localD [OF l] assms(5) show ?thesis by simp
  qed
qed

lemma history_bounds:
  assumes "reconcile_history env (blox_opts cp opts) d ts e" and "clocked env tt"
    and "cp \<noteq> PoolMemberConfirmedFilePath" and "cp \<noteq> PoolReconcileClearedAtFilePath"
    and "\<not> unreadable d PoolReconcileClearedAtFilePath"
  shows "marker_bounds ts e \<and> sorted_wrt (\<lambda>a b. a + 86400 \<le> b) ts"
  using assms(1)
proof induction
  case start
  then show ?case using assms(5) by (simp add: marker_bounds_def)
next
  case (other ts e e')
  then show ?case by (auto simp: marker_bounds_def)
next
  case (pass ts e x e')
  then have "\<not> unreadable e PoolReconcileClearedAtFilePath" by (simp add: marker_bounds_def)
  from pass_advances [OF pass(2) assms(2-4) this] pass.IH show ?case by (fastforce simp: marker_bounds_def)
next
  case (clear ts e e' t)
  then have "\<not> unreadable e PoolReconcileClearedAtFilePath" by (simp add: marker_bounds_def)
  from pass_advances [OF clear(2) assms(2-4) this] clear have
    "\<not> unreadable e' PoolReconcileClearedAtFilePath" "\<forall>a \<in> set ts. a + 86400 \<le> t"
    by (fastforce simp: marker_bounds_def)+
  with clear show ?case by (fastforce simp: marker_bounds_def sorted_wrt_append)
qed

text \<open>
  C7. However often passes run and whatever happens between them, any two clears are at least 24
  hours (86400 seconds) apart, as long as the clock does not run backwards and nothing else changes
  the time marker: no combination of chain answers makes a restart loop.
\<close>

theorem reconcile_rate_limited:
  assumes "reconcile_history env (blox_opts cp opts) d ts e" and "clocked env tt"
    and "cp \<noteq> PoolMemberConfirmedFilePath" and "cp \<noteq> PoolReconcileClearedAtFilePath"
    and "\<not> unreadable d PoolReconcileClearedAtFilePath"
  shows "sorted_wrt (\<lambda>a b. a + 86400 \<le> b) ts"
  using history_bounds [OF assms] by simp

subsection \<open>A concrete clear\<close>

lemma sample_clocked: "clocked (sample_env f) (\<lambda>w. w)"
  by (simp add: clocked_def sample_env_def)

abbreviation left_env :: "int env" where
  "left_env \<equiv> sample_env (uniform_chain False 0)"

text \<open>
  A device at \<open>t\<close> seconds whose pool left it: configured for pool 5, confirmed once, with the marker of
  an earlier clear, if any.
\<close>

definition left_device :: "int \<Rightarrow> int option \<Rightarrow> int device" where
  "left_device t mk = (sample_device (t * second))\<lparr>files := ([''c'' \<mapsto> Conf sample_config,
     PoolMemberConfirmedFilePath \<mapsto> Text ''skale:5''])(PoolReconcileClearedAtFilePath := map_option Stamp mk)\<rparr>"

lemma left_run:
  assumes "case mk of None \<Rightarrow> True | Some m \<Rightarrow> m + 86400 \<le> t"
  shows "\<exists>e. ReconcilePoolConfig left_env (blox_opts ''c'' sample_opts) (left_device t mk) = (Ok True, e) \<and>
    files e PoolReconcileClearedAtFilePath = Some (Stamp (t + 30)) \<and> \<not> unreadable e PoolReconcileClearedAtFilePath"
proof -
  note paths = PoolMemberConfirmedFilePath_def PoolReconcileClearedAtFilePath_def PoolReconcileDisabledFilePath_def
  let ?o = "blox_opts ''c'' sample_opts"
  let ?fresh = "left_device t mk"
  let ?d = "?fresh\<lparr>app_config := \<lparr>PoolName = ''5'', ChainName = ''skale'', other_settings = Map.empty\<rparr>\<rparr>"
  have p5: "ParseUint ''5'' 10 32 = Some 5" by (simp add: ParseUint_def hex_val_def)
  have g: "getPoolNameFromConfig ''c'' ?fresh = (''5'', ?d)" "getPoolNameFromConfig ''c'' ?d = (''5'', ?d)"
    "getChainNameFromConfig ''c'' ?d = (''skale'', ?d)"
    "getPoolNameFromConfig ''c'' (?d\<lparr>world := w\<rparr>) = (''5'', ?d\<lparr>world := w\<rparr>)"
    "getChainNameFromConfig ''c'' (?d\<lparr>world := w\<rparr>) = (''skale'', ?d\<lparr>world := w\<rparr>)" for w
    by (simp_all add: sample_config_simps left_device_def sample_device_def paths)
  have o: "getPoolName ?o = Some (getPoolNameFromConfig ''c'')" "getChainName ?o = Some (getChainNameFromConfig ''c'')"
    "\<not> poolHost ?o" by (simp_all add: blox_opts_def sample_opts_def)
  have m: "readTimeMarker PoolReconcileClearedAtFilePath ?d = map_option (\<lambda>m. m * second) mk" "\<not> FileExists PoolReconcileDisabledFilePath ?fresh"
    "readPoolMemberConfirmed ?d = Some (poolKey ''skale'' ''5'')"
    by (simp_all add: readTimeMarker_def ReadFile_def left_device_def sample_device_def paths FileExists_def
        readPoolMemberConfirmed_def poolKey_def TrimSpace_def is_space_def split: option.splits)
  have w: "wait_for left_env poolReconcileConfirmDelay ?d = (True, ?d\<lparr>world := (t + 30) * second\<rparr>)"
    by (simp add: wait_for_def sample_env_def poolReconcileConfirmDelay_def left_device_def sample_device_def algebra_simps)
  have n: "time_now left_env ?d = (t * second, ?d)"
    by (simp add: time_now_def sample_env_def left_device_def sample_device_def)
  let ?clear = "reconcile_clear left_env ?o (getPoolNameFromConfig ''c'') (getChainNameFromConfig ''c'') ''5'' ''skale''
      (?d\<lparr>world := (t + 30) * second\<rparr>)"
  have c: "reconcile_checks left_env ?o (getPoolNameFromConfig ''c'') (getChainNameFromConfig ''c'') ''5'' ''skale'' 5 ?d = ?clear"
    by (simp add: reconcile_checks_def m w sample_status_blox)
  have run: "ReconcilePoolConfig left_env ?o ?fresh = ?clear"
    unfolding c [symmetric]
    using assms g(1-3) m(1,2) n by (cases mk) (simp_all add: ReconcilePoolConfig_def o p5 PoolReconcileMinInterval_def)
  show ?thesis
    unfolding run reconcile_clear_def g prod.case
    by (simp add: time_now_def sample_env_def writeTimeMarker_def WriteFile_def left_device_def sample_device_def
        clearPoolConfig_def call_set_def blox_opts_def cleanLeaveJoinPool_def clearPoolMemberConfirmed_def RemoveFile_def
        StopPingServer_def clearPoolPeersFromPeerAddr_def signalPoolConfigCleared_def paths sample_config_simps)
qed

theorem reconcile_only_after_departure_witness:
  "\<exists>d3. reconcile_justified left_env (blox_opts ''c'' sample_opts) (fst (getPoolNameFromConfig ''c'' (left_device 100 None)))
     (fst (getChainNameFromConfig ''c'' (left_device 100 None))) (left_device 100 None) d3"
proof -
  obtain e where r: "ReconcilePoolConfig left_env (blox_opts ''c'' sample_opts) (left_device 100 None) = (Ok True, e)"
    using left_run [where mk = None and t = 100] by auto
  from reconcile_only_after_departure [OF r sample_clocked] show ?thesis
    by (auto simp: PoolMemberConfirmedFilePath_def PoolReconcileClearedAtFilePath_def)
qed

theorem reconcile_rate_limited_witness:
  "\<exists>e. reconcile_history left_env (blox_opts ''c'' sample_opts) (left_device 100 None) [130, 90030] e \<and>
     sorted_wrt (\<lambda>a b. a + 86400 \<le> b) [130 :: int, 90030]"
proof -
  let ?H = "reconcile_history left_env (blox_opts ''c'' sample_opts) (left_device 100 None)"
  let ?d = "left_device 90000 (Some 130)"
  obtain e where r: "ReconcilePoolConfig left_env (blox_opts ''c'' sample_opts) (left_device 100 None) = (Ok True, e)"
    "files e PoolReconcileClearedAtFilePath = Some (Stamp 130)" "\<not> unreadable e PoolReconcileClearedAtFilePath"
    using left_run [where mk = None and t = 100] by auto
  obtain e2 where r2: "ReconcilePoolConfig left_env (blox_opts ''c'' sample_opts) ?d = (Ok True, e2)"
    "files e2 PoolReconcileClearedAtFilePath = Some (Stamp 90030)"
    using left_run [where mk = "Some 130" and t = 90000] by auto
  have "?H ([] @ [130]) e" by (rule reconcile_history.clear [OF reconcile_history.start r(1,2)])
  then have "?H ([] @ [130]) ?d"
    by (rule reconcile_history.other) (simp_all add: r left_device_def sample_device_def)
  then have "?H (([] @ [130]) @ [90030]) e2" by (rule reconcile_history.clear [OF _ r2])
  then have h: "?H [130, 90030] e2" by simp
  have "sorted_wrt (\<lambda>a b. a + 86400 \<le> b) [130 :: int, 90030]"
    by (rule reconcile_rate_limited [OF h sample_clocked])
      (simp_all add: PoolMemberConfirmedFilePath_def PoolReconcileClearedAtFilePath_def left_device_def sample_device_def)
  with h show ?thesis by blast
qed

end
