(* ===== verification/Proxy.thy ===== *)
theory Proxy
  imports DeviceActions Chat PoolReconcile
begin

text \<open>
  The door of the device: \<^verbatim>\<open>serveProxy\<close> of \<^verbatim>\<open>blockchain/proxy.go\<close> verifies the signature of a request,
  checks the authorisation and hands it to the table of \<^verbatim>\<open>dispatch\<close> in \<^verbatim>\<open>blockchain/blockchain.go\<close>, which
  calls the handlers of the other theories. The theorems here are about the composition.
\<close>

section \<open>The dispatch table\<close>

text \<open>What the handlers use of the host: the outside, the platform, the chat model, the request's context.\<close>

record 'w host =
  h_env :: "'w env"
  h_platform :: "'w platform"
  h_parse :: "string \<Rightarrow> json option"
  h_print :: "json \<Rightarrow> string"
  h_fetch_ai :: "string \<Rightarrow> string \<Rightarrow> 'w \<Rightarrow> string list option \<times> 'w"
  h_cancelled :: bool

type_synonym 'w handler = "body \<Rightarrow> 'w device \<Rightarrow> http_resp option \<times> 'w device"

abbreviation relay :: "'w host \<Rightarrow> 'w options \<Rightarrow> string \<Rightarrow> string \<Rightarrow> string \<times> 'w handler" where
  "relay h opts mth action \<equiv> (action, handleAction (h_env h) opts mth action)"

abbreviation plugin :: "'w host \<Rightarrow> string \<Rightarrow> string \<times> 'w handler" where
  "plugin h action \<equiv> (action, handlePluginAction (h_env h) (docker_logs (h_platform h)) (h_cancelled h) action)"

text \<open>The entry \<^verbatim>\<open>get-account\<close> does nothing: the server then answers 200 with an empty body.\<close>

definition action_map :: "'w host \<Rightarrow> 'w options \<Rightarrow> peerID \<Rightarrow> (string \<times> 'w handler) list" where
  "action_map h opts from =
     [relay h opts ''POST'' ''account-seeded'',
      relay h opts ''POST'' ''account-exists'',
      relay h opts ''POST'' ''asset-balance'',
      relay h opts ''POST'' ''fula-goerli-convert_tokens'',
      relay h opts ''POST'' ''fula-mumbai-convert_tokens'',
      relay h opts ''POST'' ''fula-pool-create'',
      (''fula-pool-join'', HandlePoolJoin (h_env h) opts),
      (''fula-pool-cancel_join'', HandlePoolCancelJoin (h_env h) opts ''POST''),
      relay h opts ''GET'' ''fula-pool-poolrequests'',
      relay h opts ''GET'' ''fula-pool'',
      relay h opts ''POST'' ''fula-pool-vote'',
      (''fula-pool-leave'', HandlePoolLeave (h_env h) opts),
      relay h opts ''POST'' ''fula-manifest-upload'',
      relay h opts ''POST'' ''fula-manifest-storage'',
      relay h opts ''POST'' ''fula-manifest-available'',
      relay h opts ''POST'' ''fula-manifest-batch_storage'',
      (''fula-manifest-batch_upload'', batch_upload_action (h_env h) opts),
      relay h opts ''POST'' ''fula-manifest-remove'',
      relay h opts ''POST'' ''fula-manifest-remove_storer'',
      relay h opts ''POST'' ''fula-manifest-remove_storing_manifest'',
      (''replicate'', handleReplicateInPool (h_env h) opts ''POST''),
      (''auth'', \<lambda>b d. case handleAuthorization (codec (h_env h)) from (Some b) d of (r, e) \<Rightarrow> (Some r, e)),
      (''blox-free-space'', \<lambda>b. handleBloxFreeSpace (h_platform h)),
      (''wifi-removeall'', \<lambda>b. handleWifiRemoveall (h_platform h)),
      (''reboot'', \<lambda>b. handleReboot),
      (''partition'', \<lambda>b. handlePartition),
      (''delete-fula-config'', \<lambda>b. handleDeleteFulaConfig),
      (''delete-wifi'', handleDeleteWifi (h_platform h)),
      (''disconnect-wifi'', handleDisconnectWifi (h_platform h)),
      (''get-account'', \<lambda>b d. (Some \<lparr>rs_status = StatusOK, rs_body = Raw []\<rparr>, d)),
      (''erase-blockchain-data'', \<lambda>b. handleEraseBlData (h_platform h)),
      (''fetch-container-logs'', handleFetchContainerLogs (h_platform h)),
      (''chat-ai'', handleChatWithAI (h_parse h) (h_print h) (h_fetch_ai h)),
      (''find-bestandtarget-inlogs'', handleFindBestAndTargetInLogs (h_platform h)),
      (''get-folder-size'', handleGetFolderSize (h_platform h)),
      (''get-datastore-size'', handleGetDatastoreSize (h_platform h)),
      (''get-docker-image-build-dates'', \<lambda>b. handleGetDockerImageBuildDates (h_platform h)),
      (''get-cluster-info'', \<lambda>b. handleGetClusterInfo (h_platform h)),
      plugin h ''list-plugins'',
      plugin h ''list-active-plugins'',
      plugin h ''install-plugin'',
      plugin h ''uninstall-plugin'',
      plugin h ''show-plugin-status'',
      plugin h ''get-install-output'',
      plugin h ''get-install-status'',
      plugin h ''update-plugin'',
      (''auto-pin-pair'', handleAutoPinPair (h_platform h)),
      (''auto-pin-refresh'', handleAutoPinRefresh),
      (''auto-pin-unpair'', \<lambda>b. handleAutoPinUnpair),
      (''nas-credentials'', handleNasCredentials (h_env h) (h_platform h))]"

definition dispatch :: "'w host \<Rightarrow> 'w options \<Rightarrow> peerID \<Rightarrow> string \<Rightarrow> 'w handler" where
  "dispatch h opts from action rbody d =
     (case map_of (action_map h opts from) action of
        None \<Rightarrow> (Some (http_Error StatusNotFound []), d)
      | Some handle \<Rightarrow> handle rbody d)"

text \<open>The clock is read before the headers are checked, not between; the reading is used only for a request that has them.\<close>

definition serveProxy ::
  "('pk, 'sk) crypto \<Rightarrow> 'w host \<Rightarrow> 'w options \<Rightarrow> signed_req \<Rightarrow> 'w device \<Rightarrow> http_resp option \<times> 'w device" where
  "serveProxy cr h opts r d =
     (case time_now (h_env h) d of
        (now, d1) \<Rightarrow>
          (case verifySignedRequest cr (now div second) r of
             Ok (from, body) \<Rightarrow>
               let action = path_Base (sq_path r) in
               if \<not> authorized opts (authorizedPeers d1) from action then (Some (http_Error StatusUnauthorized []), d1)
               else dispatch h opts from action body d1
           | Err _ \<Rightarrow> (Some (http_Error StatusUnauthorized []), d1)
           | Panic \<Rightarrow> (None, d1)))"


section \<open>Nothing happens without permission\<close>

definition admitted :: "('pk, 'sk) crypto \<Rightarrow> 'w host \<Rightarrow> 'w options \<Rightarrow> signed_req \<Rightarrow> 'w device \<Rightarrow> peerID \<Rightarrow> body \<Rightarrow> bool" where
  "admitted cr h opts r d pid b \<longleftrightarrow>
     verifySignedRequest cr (fst (time_now (h_env h) d) div second) r = Ok (pid, b) \<and>
     authorized opts (authorizedPeers d) pid (path_Base (sq_path r))"

lemma verify_no_panic: "verifySignedRequest cr now r \<noteq> Panic"
  by (auto simp: verifySignedRequest_def outcome_simps Let_def split: if_splits)

lemma serveProxy_cases:
  assumes "serveProxy cr h opts r d = (x, e)"
  obtains (refused) "x = Some (http_Error StatusUnauthorized [])" "same_local d e" "\<nexists>pid b. admitted cr h opts r d pid b"
  | (served) pid b d1 where "admitted cr h opts r d pid b" "same_local d d1" "dispatch h opts pid (path_Base (sq_path r)) b d1 = (x, e)"
proof -
  obtain now d1 where t: "time_now (h_env h) d = (now, d1)" by fastforce
  have l: "same_local d d1" using time_now_local [OF t] .
  note a = same_localD(5) [OF l]
  show ?thesis
  proof (cases "\<exists>pid b. admitted cr h opts r d pid b")
    case True
    then obtain pid b where "admitted cr h opts r d pid b" by blast
    with assms t a l show ?thesis by (intro served [of pid b d1]) (auto simp: serveProxy_def admitted_def Let_def)
  next
    case False
    with assms t a l show ?thesis
      by (intro refused) (auto simp: serveProxy_def admitted_def Let_def verify_no_panic split: outcome.splits if_splits)
  qed
qed

text \<open>
  C1. Without a fresh, correctly signed request of a peer that is authorised for the action, the proxy
  answers 401 and the device stays as it was. Conversely everything else it does is the dispatch of
  such a request on behalf of the signer.
\<close>

theorem proxy_serves_only_admitted:
  assumes "serveProxy cr h opts r d = (x, e)"
  shows "(x = Some (http_Error StatusUnauthorized []) \<and> same_local d e) \<or>
    (\<exists>pid b d1. admitted cr h opts r d pid b \<and> same_local d d1 \<and> dispatch h opts pid (path_Base (sq_path r)) b d1 = (x, e))"
  using assms by (rule serveProxy_cases) blast+


section \<open>The table and the permissions\<close>

definition dispatched_actions :: "string list" where
  "dispatched_actions = map fst (action_map (undefined :: unit host) undefined [])"

lemma dispatched_actions: "map fst (action_map h opts from) = dispatched_actions"
  by (simp add: action_map_def dispatched_actions_def)

lemmas dispatched_names = dispatched_actions_def action_map_def list.map fst_conv

definition grantable :: "string list" where
  "grantable = ''replicate'' # member_actions @ owner_actions"

lemma grantable_iff: "(\<exists>ids peers pid. authorized (ids :: identity) peers pid a) \<longleftrightarrow> a \<in> set grantable"
proof
  assume "a \<in> set grantable"
  moreover have "authorized \<lparr>selfPeerID = ''x'', authorizer = ''x''\<rparr> {''x''} ''x'' a" if "a \<in> set grantable"
    using that by (auto simp: authorized_def grantable_def)
  ultimately show "\<exists>ids peers pid. authorized (ids :: identity) peers pid a" by blast
qed (auto simp: authorized_def grantable_def split: if_splits)

lemma table_differences:
  "filter (\<lambda>a. a \<notin> set grantable) dispatched_actions = [''fula-goerli-convert_tokens'', ''fula-manifest-batch_storage'', ''show-plugin-status'']"
  "filter (\<lambda>a. a \<notin> set dispatched_actions) grantable = [''account-fund'']"
  unfolding dispatched_names grantable_def member_actions_def owner_actions_def by code_simp+

text \<open>
  The dispatch table and the permission switch disagree on exactly four actions: three requests have
  a handler that no peer, not even the owner, is ever allowed to reach (the plugin status among them),
  and \<^verbatim>\<open>account-fund\<close> may be granted but has no handler, so it is answered 404.
\<close>

lemma unreachable_handlers:
  "(a \<in> fst ` set (action_map h opts from) \<and> (\<nexists>ids peers pid. authorized (ids :: identity) peers pid a) \<longleftrightarrow>
      a \<in> {''fula-goerli-convert_tokens'', ''fula-manifest-batch_storage'', ''show-plugin-status''}) \<and>
   (a \<notin> fst ` set (action_map h opts from) \<and> (\<exists>ids peers pid. authorized (ids :: identity) peers pid a) \<longleftrightarrow>
      a = ''account-fund'') \<and>
   dispatch h opts from ''account-fund'' b d = (Some (http_Error StatusNotFound []), d)"
proof -
  have m: "fst ` set (action_map h opts from) = set dispatched_actions"
    using dispatched_actions [of h opts "from"] by (metis list.set_map)
  have d1: "a \<in> set dispatched_actions \<and> a \<notin> set grantable \<longleftrightarrow>
      a \<in> {''fula-goerli-convert_tokens'', ''fula-manifest-batch_storage'', ''show-plugin-status''}" for a
    using arg_cong [OF table_differences(1), of set] by auto
  have d2: "a \<notin> set dispatched_actions \<and> a \<in> set grantable \<longleftrightarrow> a = ''account-fund''" for a
    using arg_cong [OF table_differences(2), of set] by auto
  have "map_of (action_map h opts from) ''account-fund'' = None"
    using d2 [of "''account-fund''"] m by (simp add: map_of_eq_None_iff)
  then show ?thesis using d1 [of a] d2 [of a] unfolding m grantable_iff dispatch_def by simp
qed


section \<open>Only the owner changes permissions\<close>

definition keeps_auth :: "'w handler \<Rightarrow> bool" where
  "keeps_auth f \<longleftrightarrow> (\<forall>b d r e. f b d = (r, e) \<longrightarrow> authorizedPeers e = authorizedPeers d)"

lemma keeps_authI: "(\<And>b d r e. f b d = (r, e) \<Longrightarrow> authorizedPeers e = authorizedPeers d) \<Longrightarrow> keeps_auth f"
  by (simp add: keeps_auth_def)

lemma keeps_auth_local: "(\<And>b d r e. f b d = (r, e) \<Longrightarrow> same_local d e) \<Longrightarrow> keeps_auth f"
  by (rule keeps_authI) (blast dest: same_localD(5))

lemma handleAction_local: "handleAction env opts m a b d = (r, e) \<Longrightarrow> same_local d e"
  by (auto simp: handleAction_def dest!: callBlockchain_local split: option.splits prod.splits)

lemma WriteAt_auth: "WriteAt p s d = (ok, e) \<Longrightarrow> authorizedPeers e = authorizedPeers d"
  by (auto simp: WriteAt_def split: if_splits)

lemma WriteFile_auth: "WriteFile p f d = (ok, e) \<Longrightarrow> authorizedPeers e = authorizedPeers d"
  by (auto simp: WriteFile_def split: if_splits)

lemma setPluginStatus_auth: "authorizedPeers (snd (setPluginStatus p s d)) = authorizedPeers d"
  by (auto simp: setPluginStatus_def WriteAt_def Let_def)

lemma write_params_auth: "write_params p ps d = (r, e) \<Longrightarrow> authorizedPeers e = authorizedPeers d"
  by (induction p ps d rule: write_params.induct)
    (auto simp: SplitN2_def dest!: WriteAt_auth split: list.splits if_splits prod.splits bool.splits option.splits)

lemma installPluginImpl_auth:
  assumes "installPluginImpl c n ps d = (r, e)"
  shows "authorizedPeers e = authorizedPeers d"
proof -
  obtain x d1 where w: "(if ps = [] then (None, d) else write_params n (Split '',,,,'' ps) d) = (x, d1)" by fastforce
  have a: "authorizedPeers d1 = authorizedPeers d" using w by (auto dest!: write_params_auth split: if_splits)
  have wr: "authorizedPeers d2 = authorizedPeers d" if "writeActivePlugins (qs @ [n]) d1 = (ok, d2)" for qs ok d2
    using that a by (auto simp: writeActivePlugins_def dest!: WriteAt_auth)
  show ?thesis
  proof (cases "readActivePlugins d")
    case (Some qs)
    obtain ok d2 where w2: "writeActivePlugins (qs @ [n]) d1 = (ok, d2)" by fastforce
    note b = wr [OF w2]
    have "e = d \<or> e = snd (setPluginStatus n ''install plugin request: Processed'' d) \<or> e = d1 \<or> e = d2 \<or>
        e = snd (setPluginStatus n ''install plugin request: Processed'' d2)"
      using assms [unfolded installPluginImpl_def Some option.case w prod.case] w2 by (auto split: if_splits option.splits bool.splits)
    then show ?thesis using a b by (auto simp: setPluginStatus_auth)
  qed (use assms in \<open>auto simp: installPluginImpl_def split: if_splits\<close>)
qed

lemma uninstallPluginImpl_auth: "uninstallPluginImpl c n d = (r, e) \<Longrightarrow> authorizedPeers e = authorizedPeers d"
  by (auto simp: uninstallPluginImpl_def writeActivePlugins_def Let_def dest!: WriteAt_auth
      split: if_splits option.splits prod.splits bool.splits)

lemma updatePluginImpl_auth: "updatePluginImpl c n d = (r, e) \<Longrightarrow> authorizedPeers e = authorizedPeers d"
  by (auto simp: updatePluginImpl_def writeUpdatePlugins_def dest!: WriteAt_auth
      split: if_splits option.splits prod.splits bool.splits)

lemma http_Get_json_local: "http_Get_json env u f g c d = (r, e) \<Longrightarrow> same_local d e"
  by (auto simp: http_Get_json_def dest!: send_local split: prod.splits net_reply.splits)

lemma plugin_details_local: "plugin_details env a ns d = (r, e) \<Longrightarrow> same_local d e"
  by (induction env a ns d arbitrary: r rule: plugin_details.induct)
    (auto dest!: http_Get_json_local split: prod.splits outcome.splits intro: same_local_trans)

lemma listPluginsImpl_local:
  assumes "listPluginsImpl env c d = (r, e)"
  shows "same_local d e"
proof -
  obtain x d1 where g: "http_Get_json env (plugins_url @ ''info.json'') ''failed to fetch plugin list: '' ''failed to decode plugin list: ''
      (decode_new (GArr (GStruct [(''name'', GStr, False)]))) d = (x, d1)" by fastforce
  have l: "same_local d d1" using http_Get_json_local [OF g] .
  have "e = d \<or> e = d1 \<or> (\<exists>as ns y. plugin_details env as ns d1 = (y, e))"
    using assms g by (auto simp: listPluginsImpl_def split: if_splits outcome.splits option.splits prod.splits)
  then show ?thesis using l plugin_details_local same_local_trans by blast
qed

lemma ShowPluginStatus_local: "ShowPluginStatus f c n k d = (r, e) \<Longrightarrow> same_local d e"
  by (auto simp: ShowPluginStatus_def split: prod.splits option.splits)

lemma handlePluginAction_auth: "keeps_auth (handlePluginAction env f c a)"
proof (rule keeps_authI)
  fix b d r e
  assume h: "handlePluginAction env f c a b d = (r, e)"
  note rules = listPluginsImpl_local [THEN same_localD(5)] ShowPluginStatus_local [THEN same_localD(5)]
    installPluginImpl_auth uninstallPluginImpl_auth updatePluginImpl_auth
  from h show "authorizedPeers e = authorizedPeers d"
    by (auto simp: handlePluginAction_def Let_def dest!: rules split: option.splits if_splits prod.splits outcome.splits)
qed

lemma set_config_auth:
  "authorizedPeers (snd (call_set (updatePoolName (blox_opts cp opts)) v d)) = authorizedPeers d"
  "authorizedPeers (snd (call_set (updateChainName (blox_opts cp opts)) v d)) = authorizedPeers d"
  using blox_store.set_pool_attrs [of cp v d "fst (updatePoolName_config cp v d)" "snd (updatePoolName_config cp v d)"]
    blox_store.set_chain_attrs [of cp v d "fst (updateChainName_config cp v d)" "snd (updateChainName_config cp v d)"]
  by (simp_all add: call_set_def blox_opts_def)

lemma StopPingServer_auth: "authorizedPeers (snd (StopPingServer env d)) = authorizedPeers d"
  using StopPingServer_frame [of env d] by auto

lemma cleanLeaveJoinPool_auth: "authorizedPeers (cleanLeaveJoinPool env (blox_opts cp opts) d) = authorizedPeers d"
  by (simp add: cleanLeaveJoinPool_def Let_def clearPoolPeersFromPeerAddr_def StopPingServer_auth clearPoolMemberConfirmed_def
      set_config_auth)

lemma getPool_auth: "authorizedPeers (snd (getPoolNameFromConfig cp d)) = authorizedPeers d"
  using same_localD(5) [OF blox_store.get_pool_frame [of d cp]] .

lemma clearPoolConfig_auth:
  assumes "clearPoolConfig env (blox_opts cp opts) d = (ok, e)"
  shows "authorizedPeers e = authorizedPeers d"
proof -
  obtain ok1 d1 where 1: "call_set (updatePoolName (blox_opts cp opts)) ''0'' d = (ok1, d1)" by fastforce
  obtain ok2 d2 where 2: "call_set (updateChainName (blox_opts cp opts)) [] d1 = (ok2, d2)" by fastforce
  let ?d3 = "cleanLeaveJoinPool env (blox_opts cp opts) d2"
  have a: "authorizedPeers d1 = authorizedPeers d" "authorizedPeers d2 = authorizedPeers d" "authorizedPeers ?d3 = authorizedPeers d"
    using set_config_auth(1) [of cp opts "''0''" d] set_config_auth(2) [of cp opts "[]" d1] 1 2 by (simp_all add: cleanLeaveJoinPool_auth)
  have "e = d1 \<or> e = d2 \<or> e = snd (getPoolNameFromConfig cp ?d3)"
    using assms 1 2 by (auto simp: clearPoolConfig_def Let_def blox_opts_def split: bool.splits prod.splits)
  then show ?thesis using a by (auto simp: getPool_auth)
qed

lemma leave_pool_auth:
  assumes "leave_pool env (blox_opts cp opts) p c d = (r, e)"
  shows "authorizedPeers e = authorizedPeers d"
proof -
  obtain x d1 where l: "leave_loop env (blox_opts cp opts) (to_uint32 p) c poolLeaveCheckAttempts d = (x, d1)" by fastforce
  have a: "authorizedPeers d1 = authorizedPeers d" using same_localD(5) [OF leave_loop_local [OF l]] .
  obtain ok d2 where c: "clearPoolConfig env (blox_opts cp opts) d1 = (ok, d2)" by fastforce
  have "e = d1 \<or> e = d2 \<or> e = signalPoolConfigCleared (blox_opts cp opts) d2"
    using assms [unfolded leave_pool_def l prod.case] c by (auto split: leave_check.splits bool.splits)
  then show ?thesis using a clearPoolConfig_auth [OF c] by (auto simp: signalPoolConfigCleared_def split: if_splits)
qed

lemma HandlePoolLeave_auth: "keeps_auth (HandlePoolLeave env (blox_opts cp opts))"
proof (rule keeps_authI)
  fix b d r e
  assume h: "HandlePoolLeave env (blox_opts cp opts) b d = (r, e)"
  obtain pool d1 where p: "getPoolNameFromConfig cp d = (pool, d1)" by fastforce
  obtain chain d2 where c: "getChainNameFromConfig cp d1 = (chain, d2)" by fastforce
  have o: "getPoolName (blox_opts cp opts) = Some (getPoolNameFromConfig cp)" "getChainName (blox_opts cp opts) = Some (getChainNameFromConfig cp)"
    by (simp_all add: blox_opts_def)
  have l1: "same_local d d1" using blox_store.get_pool_frame [of d cp] p by simp
  have l2: "same_local d d2" using same_local_trans [OF l1] blox_store.get_chain_frame [of d1 cp] c by simp
  have "e = d \<or> e = d1 \<or> (\<exists>d3. same_local d2 d3 \<and> (e = d3 \<or> (\<exists>q n. leave_pool env (blox_opts cp opts) q n d3 = (r, e))))"
    using h [unfolded HandlePoolLeave_def Let_def o option.case p prod.case c]
    by (auto dest!: discoverPoolChain_local split: option.splits if_splits prod.splits outcome.splits)
  then show "authorizedPeers e = authorizedPeers d"
    using same_localD(5) [OF l1] same_localD(5) [OF l2] by (auto dest!: same_localD(5) leave_pool_auth)
qed

lemma HandlePoolJoin_auth: "keeps_auth (HandlePoolJoin env (blox_opts cp opts))"
proof (rule keeps_authI)
  fix b d r e
  assume h: "HandlePoolJoin env (blox_opts cp opts) b d = (r, e)"
  have o: "updatePoolName (blox_opts cp opts) = Some (updatePoolName_config cp)"
    "updateChainName (blox_opts cp opts) = Some (updateChainName_config cp)" by (simp_all add: blox_opts_def)
  have "(\<exists>d2. same_local d d2 \<and> (e = d2 \<or> (\<exists>v ok d3. updatePoolName_config cp v d2 = (ok, d3) \<and> (e = d3 \<or>
      (\<exists>v' ok'. updateChainName_config cp v' d3 = (ok', e))))))"
    using h [unfolded HandlePoolJoin_def Let_def o]
    by (auto dest!: discoverPoolChain_local validatePoolOnChain_local intro: same_local_trans
        split: option.splits if_splits prod.splits outcome.splits bool.splits)
  then show "authorizedPeers e = authorizedPeers d"
    by (auto dest!: same_localD(5) blox_store.set_pool_attrs blox_store.set_chain_attrs)
qed

lemma HandlePoolCancelJoin_auth: "keeps_auth (HandlePoolCancelJoin env (blox_opts cp opts) m)"
proof (rule keeps_authI)
  fix b d r e
  assume h: "HandlePoolCancelJoin env (blox_opts cp opts) m b d = (r, e)"
  have o: "updatePoolName (blox_opts cp opts) = Some (updatePoolName_config cp)"
    "updateChainName (blox_opts cp opts) = Some (updateChainName_config cp)" by (simp_all add: blox_opts_def)
  have tail: "authorizedPeers e' = authorizedPeers d'" if "cancel_tail env (blox_opts cp opts) st x err d' = (r', e')" for st x err d' r' e'
    using that by (auto simp: cancel_tail_def Let_def cleanLeaveJoinPool_auth split: if_splits option.splits)
  have "(\<exists>d1. same_local d d1 \<and> (e = d1 \<or> (\<exists>st x err. cancel_tail env (blox_opts cp opts) st x err d1 = (r, e)) \<or>
      (\<exists>ok3 d3 ok4 d4 ok5 d5. updatePoolName_config cp ''0'' d1 = (ok3, d3) \<and> updateChainName_config cp [] d3 = (ok4, d4) \<and>
        StopPingServer env d4 = (ok5, d5) \<and> (e = d5 \<or> (\<exists>st x err. cancel_tail env (blox_opts cp opts) st x err d5 = (r, e))))))"
  proof (cases "Option.bind (decode_first b) (decode_new PoolCancelJoinRequest)")
    case (Some rq)
    obtain x d1 where c: "callBlockchain env (blox_opts cp opts) m ''fula-pool-cancel_join'' (StructPtr PoolCancelJoinRequest rq) d = (x, d1)"
      by fastforce
    note l = callBlockchain_local [OF c]
    obtain y d2 where k: "checkIfUserHasOpenPoolRequests env (blox_opts cp opts) (Itoa (int_of (entry ''pool_id'' rq))) d1 = (y, d2)"
      by fastforce
    have l2: "same_local d d2" using same_local_trans [OF l checkIfUserHasOpenPoolRequests_local [OF k]] .
    show ?thesis
    proof (cases x)
      case (Answer p st)
      with h Some c l show ?thesis by (auto simp: HandlePoolCancelJoin_def Let_def)
    next
      case (Failed st)
      obtain ok3 d3 where s3: "updatePoolName_config cp ''0'' d2 = (ok3, d3)" by fastforce
      obtain ok4 d4 where s4: "updateChainName_config cp [] d3 = (ok4, d4)" by fastforce
      obtain ok5 d5 where s5: "StopPingServer env d4 = (ok5, d5)" by fastforce
      have "(\<exists>st x err. cancel_tail env (blox_opts cp opts) st x err d2 = (r, e)) \<or> e = d5 \<or>
          (\<exists>st x err. cancel_tail env (blox_opts cp opts) st x err d5 = (r, e))"
        using h [unfolded HandlePoolCancelJoin_def Some option.case Let_def c prod.case Failed call.case k o s3 s4 s5]
        by (auto split: outcome.splits bool.splits if_splits)
      then show ?thesis using l2 s3 s4 s5 by blast
    qed
  qed (use h in \<open>auto simp: HandlePoolCancelJoin_def\<close>)
  then show "authorizedPeers e = authorizedPeers d"
    using StopPingServer_auth [of env]
    by (auto dest!: same_localD(5) tail blox_store.set_pool_attrs blox_store.set_chain_attrs) (metis snd_conv)+
qed

lemma saveCreatorPeerID_auth: "authorizedPeers (snd (saveCreatorPeerID p q d)) = authorizedPeers d"
  by (simp add: saveCreatorPeerID_def WriteFile_def)

lemma on_world_auth: "authorizedPeers (snd (on_world f d)) = authorizedPeers d"
  using on_world_local [of f d "fst (on_world f d)" "snd (on_world f d)", THEN same_localD(5)] by simp

lemma updateChainName_auth: "authorizedPeers (snd (updateChainName_config cp v d)) = authorizedPeers d"
  using blox_store.set_chain_attrs [of cp v d "fst (updateChainName_config cp v d)" "snd (updateChainName_config cp v d)"] by simp

lemma getClusterEndpoint_auth:
  assumes "getClusterEndpoint env (blox_opts cp opts) p d = (x, e)"
  shows "authorizedPeers e = authorizedPeers d"
proof -
  obtain n d0 where g: "getChainNameFromConfig cp d = (n, d0)" by fastforce
  have l0: "same_local d d0" using blox_store.get_chain_frame [of d cp] g by simp
  have o: "getChainName (blox_opts cp opts) = Some (getChainNameFromConfig cp)"
    "updateChainName (blox_opts cp opts) = Some (updateChainName_config cp)" by (simp_all add: blox_opts_def)
  have "e = d \<or> (\<exists>d2. same_local d0 d2 \<and> (e = d2 \<or> (\<exists>q. e = snd (saveCreatorPeerID p q d2) \<or>
      (\<exists>v. e = snd (saveCreatorPeerID p q (snd (updateChainName_config cp v d2)))))))"
    using assms [unfolded getClusterEndpoint_def o option.case g prod.case Let_def]
    by (auto dest!: GetPoolCreatorPeerID_local split: outcome.splits list.splits prod.splits intro: same_local_trans)
  then show ?thesis
    using same_localD(5) [OF l0] by (auto simp: saveCreatorPeerID_auth updateChainName_auth dest!: same_localD(5))
qed

lemma batch_upload_auth: "keeps_auth (batch_upload_action env (blox_opts cp opts))"
proof (rule keeps_authI)
  fix b d r e
  assume h: "batch_upload_action env (blox_opts cp opts) b d = (r, e)"
  have "e = d \<or> (\<exists>p x d1. getClusterEndpoint env (blox_opts cp opts) p d = (x, d1) \<and> same_local d1 e)"
    using h
    by (auto simp: batch_upload_action_def handleActionManifestBatchUpload_def Let_def http_Post_def dest!: send_local
        split: option.splits if_splits outcome.splits prod.splits net_reply.splits)
  then show "authorizedPeers e = authorizedPeers d" by (auto dest!: same_localD(5) getClusterEndpoint_auth)
qed

lemma handleReplicateInPool_auth: "keeps_auth (handleReplicateInPool env opts m)"
proof (rule keeps_authI)
  fix b d r e
  assume h: "handleReplicateInPool env opts m b d = (r, e)"
  have "e = d \<or> (\<exists>d1. same_local d d1 \<and> (e = d1 \<or> (\<exists>cs ps. pin_all env cs d1 = (ps, e))))"
    using h by (auto simp: handleReplicateInPool_def Let_def dest!: callBlockchain_local
        split: option.splits call.splits if_splits prod.splits)
  then show "authorizedPeers e = authorizedPeers d" by (auto dest!: same_localD(5) pin_all_local)
qed

lemma wifi_reply_local: "wifi_reply pf f st req out d = (r, e) \<Longrightarrow> same_local d e"
  by (auto simp: wifi_reply_def dest!: on_world_local split: prod.splits)

lemma delete_connections_local: "delete_connections pf cs d = (x, e) \<Longrightarrow> same_local d e"
  by (induction pf cs d arbitrary: x rule: delete_connections.induct)
    (auto dest!: runCommand_local split: prod.splits intro: same_local_trans)

lemma getWifiConnections_local: "getWifiConnections pf d = (x, e) \<Longrightarrow> same_local d e"
  by (auto simp: getWifiConnections_def dest!: runCommand_local split: prod.splits bool.splits)

lemma create_exclusive_auth: "create_exclusive p d = (x, e) \<Longrightarrow> authorizedPeers e = authorizedPeers d"
  by (auto simp: create_exclusive_def WriteFile_def split: if_splits)

lemma hardware_auth:
  "keeps_auth (\<lambda>b. handleBloxFreeSpace pf)" "keeps_auth (\<lambda>b. handleEraseBlData pf)"
  "keeps_auth (\<lambda>b. handleGetDockerImageBuildDates pf)" "keeps_auth (\<lambda>b. handleGetClusterInfo pf)"
  "keeps_auth (\<lambda>b. handleReboot)" "keeps_auth (\<lambda>b. handlePartition)" "keeps_auth (\<lambda>b. handleDeleteFulaConfig)"
  by (rule keeps_authI;
      auto simp: handleBloxFreeSpace_def handleEraseBlData_def handleGetDockerImageBuildDates_def handleGetClusterInfo_def
        handleReboot_def Reboot_def handlePartition_def Partition_def handleDeleteFulaConfig_def DeleteFulaConfig_def ok_reply_def
      dest!: wifi_reply_local [THEN same_localD(5)] create_exclusive_auth
      split: if_splits prod.splits)+

lemma with_request_auth:
  "(\<And>req r e. k req = (r, e) \<Longrightarrow> authorizedPeers e = authorizedPeers d) \<Longrightarrow> with_request t b d k = (r, e) \<Longrightarrow>
     authorizedPeers e = authorizedPeers d"
  by (auto simp: with_request_def split: option.splits)

lemma DeleteWifi_local: "DeleteWifi pf n d = (x, e) \<Longrightarrow> same_local d e"
  by (auto simp: DeleteWifi_def dest!: runCommand_local split: prod.splits bool.splits)

lemma DisconnectNamedWifi_local: "DisconnectNamedWifi pf n d = (x, e) \<Longrightarrow> same_local d e"
  by (auto simp: DisconnectNamedWifi_def dest!: runCommand_local split: prod.splits bool.splits)

lemma WifiRemoveall_local: "WifiRemoveall pf d = (x, e) \<Longrightarrow> same_local d e"
  by (auto simp: WifiRemoveall_def dest!: getWifiConnections_local delete_connections_local
      split: prod.splits option.splits intro: same_local_trans)

lemmas request_defs = handleDeleteWifi_def handleDisconnectWifi_def handleFetchContainerLogs_def
  handleFindBestAndTargetInLogs_def handleGetFolderSize_def handleGetDatastoreSize_def handleWifiRemoveall_def ok_reply_def

lemma request_auth:
  "keeps_auth (handleDeleteWifi pf)" "keeps_auth (handleDisconnectWifi pf)" "keeps_auth (handleFetchContainerLogs pf)"
  "keeps_auth (handleFindBestAndTargetInLogs pf)" "keeps_auth (handleGetFolderSize pf)" "keeps_auth (handleGetDatastoreSize pf)"
  "keeps_auth (\<lambda>b. handleWifiRemoveall pf)"
  by (rule keeps_authI;
      auto simp: request_defs dest!: wifi_reply_local [THEN same_localD(5)] DeleteWifi_local [THEN same_localD(5)]
        DisconnectNamedWifi_local [THEN same_localD(5)] WifiRemoveall_local [THEN same_localD(5)]
      elim!: with_request_auth [rotated] split: prod.splits)+

lemma WriteProperties_auth: "WriteProperties p d = (ok, e) \<Longrightarrow> authorizedPeers e = authorizedPeers d"
  by (auto simp: WriteProperties_def dest!: WriteFile_auth)

lemma pair_reply_auth: "pair_reply pf st s d = (r, e) \<Longrightarrow> authorizedPeers e = authorizedPeers d"
  by (auto simp: pair_reply_def dest!: on_world_local [THEN same_localD(5)] split: prod.splits json.splits)

lemma pair_fresh_auth: "pair_fresh pf p t u d = (r, e) \<Longrightarrow> authorizedPeers e = authorizedPeers d"
  by (auto simp: pair_fresh_def dest!: on_world_local [THEN same_localD(5)] WriteProperties_auth pair_reply_auth
      split: prod.splits bool.splits)

lemma autopin_auth:
  "keeps_auth (handleAutoPinPair pf)" "keeps_auth handleAutoPinRefresh" "keeps_auth (\<lambda>b. handleAutoPinUnpair)"
proof -
  show "keeps_auth (handleAutoPinPair pf)"
  proof (rule keeps_authI)
    fix b d r e
    assume h: "handleAutoPinPair pf b d = (r, e)"
    then show "authorizedPeers e = authorizedPeers d"
      by (auto simp: handleAutoPinPair_def Let_def on_world_auth dest!: pair_fresh_auth pair_reply_auth WriteProperties_auth
          on_world_local [THEN same_localD(5)] split: option.splits if_splits prod.splits bool.splits)
  qed
  show "keeps_auth handleAutoPinRefresh"
    by (rule keeps_authI) (auto simp: handleAutoPinRefresh_def Let_def dest!: WriteProperties_auth
        split: option.splits if_splits prod.splits bool.splits)
  show "keeps_auth (\<lambda>b. handleAutoPinUnpair)"
    by (rule keeps_authI) (auto simp: handleAutoPinUnpair_def dest!: WriteProperties_auth
        split: option.splits prod.splits bool.splits)
qed

lemma nas_auth: "keeps_auth (handleNasCredentials env pf)"
proof (rule keeps_authI)
  fix b d r e
  assume h: "handleNasCredentials env pf b d = (r, e)"
  obtain k d1 where g: "GetKuboPeerID env d = (k, d1)" by fastforce
  obtain host d2 where o: "on_world (os_Hostname pf) d1 = (host, d2)" by fastforce
  have "e = d \<or> e = d1 \<or> e = d2"
    using h [unfolded handleNasCredentials_def Let_def g prod.case o]
    by (auto split: if_splits option.splits outcome.splits fs_error.splits)
  then show "authorizedPeers e = authorizedPeers d"
    using same_localD(5) [OF GetKuboPeerID_local [OF g]] same_localD(5) [OF on_world_local [OF o]] by auto
qed

lemma chat_auth: "keeps_auth (handleChatWithAI p q f)"
  by (rule keeps_authI) (auto simp: handleChatWithAI_def split: option.splits prod.splits)

lemma handleAction_auth: "keeps_auth (handleAction env opts m a)"
  by (rule keeps_auth_local) (rule handleAction_local)

lemma get_account_auth: "keeps_auth (\<lambda>b d. (x, d))"
  by (simp add: keeps_auth_def)

lemmas handlers_auth = handleAction_auth get_account_auth chat_auth nas_auth autopin_auth request_auth hardware_auth
  handleReplicateInPool_auth batch_upload_auth HandlePoolCancelJoin_auth HandlePoolJoin_auth HandlePoolLeave_auth
  handlePluginAction_auth

lemma table_auth: "list_all (\<lambda>x. fst x = ''auth'' \<or> keeps_auth (snd x)) (action_map h (blox_opts cp opts) from)"
  unfolding action_map_def list.pred_inject fst_conv snd_conv by (intro conjI TrueI disjI1 [OF refl] disjI2 handlers_auth list.pred_inject(1))

lemma dispatch_auth:
  assumes "dispatch h (blox_opts cp opts) from a b d = (x, e)" and "a \<noteq> ''auth''"
  shows "authorizedPeers e = authorizedPeers d"
proof (cases "map_of (action_map h (blox_opts cp opts) from) a")
  case (Some f)
  then have "(a, f) \<in> set (action_map h (blox_opts cp opts) from)" by (rule map_of_SomeD)
  then have "keeps_auth f" using table_auth [of h cp opts "from"] assms(2) by (auto simp: list_all_iff)
  with assms(1) Some show ?thesis by (simp add: dispatch_def keeps_auth_def)
qed (use assms in \<open>simp add: dispatch_def\<close>)

text \<open>
  C3. Whatever request is served, whoever sent it and whatever the outside answers: when the set of
  authorised peers changed, the request was an \<^verbatim>\<open>auth\<close> request that the configured owner signed freshly.
  No other handler of the table touches the permissions.
\<close>

theorem only_owner_changes_permissions:
  assumes "serveProxy cr h (blox_opts cp opts) r d = (x, e)" and "authorizedPeers e \<noteq> authorizedPeers d"
  shows "path_Base (sq_path r) = ''auth'' \<and>
    (\<exists>b. verifySignedRequest cr (fst (time_now (h_env h) d) div second) r = Ok (authorizer opts, b)) \<and> authorizer opts \<noteq> []"
  using assms(1)
proof (cases rule: serveProxy_cases)
  case refused
  with assms(2) same_localD(5) show ?thesis by blast
next
  case (served pid b d1)
  have "authorizedPeers e \<noteq> authorizedPeers d1" using served(2) assms(2) by (auto dest: same_localD(5))
  with dispatch_auth served(3) have a: "path_Base (sq_path r) = ''auth''" by blast
  have "''auth'' \<notin> set member_actions" by (simp add: member_actions_def)
  with served(1) a have "pid = authorizer (blox_opts cp opts)" "authorizer (blox_opts cp opts) \<noteq> []"
    by (simp_all add: admitted_def authorized_def owner_actions_def)
  then show ?thesis using served(1) a by (auto simp: admitted_def blox_opts_def wire_def)
qed

lemma dispatch_get_install_output:
  "dispatch h opts from ''get-install-output'' b d =
     handlePluginAction (h_env h) (docker_logs (h_platform h)) (h_cancelled h) ''get-install-output'' b d"
  by (simp add: dispatch_def action_map_def)

text \<open>
  C40. The seed leak is remote: every delegate, owner or not, that is in the authorised set obtains the
  device's secret seed with one signed \<^verbatim>\<open>get-install-output\<close> request, although even the NAS password
  is reserved to the owner.
\<close>

theorem seed_disclosed_to_delegates:
  assumes "verifySignedRequest cr (fst (time_now (h_env h) d) div second) r = Ok (pid, b)"
    and "pid \<in> authorizedPeers d" and "path_Base (sq_path r) = ''get-install-output''"
    and "b = Doc (JObj [(''plugin_name'', JStr ''..''), (''params'', JStr ''.secrets/secret_seed'')])"
    and "secretsDir opts = ''/internal/.secrets''" and "LoadKey opts d = Ok seed"
    and "\<not> unreadable d (plugin_path ''..'' ''.secrets/secret_seed'')" and "\<not> h_cancelled h"
  shows "\<exists>e. serveProxy cr h opts r d = (Some \<lparr>rs_status = StatusOK,
      rs_body = Doc (plugin_reply (JObj [(''.secrets/secret_seed'', JStr seed)]) True)\<rparr>, e)"
proof -
  obtain now d1 where t: "time_now (h_env h) d = (now, d1)" by fastforce
  note l = same_localD [OF time_now_local [OF t]]
  have k: "LoadKey opts d1 = Ok seed" using assms(6) unfolding LoadKey_def ReadFile_def l(1,2) .
  have "authorized opts (authorizedPeers d) pid ''get-install-output''"
    using assms(2) by (simp add: authorized_def member_actions_def)
  moreover have "read_plugin_request b = Some (JObj [(''plugin_name'', JStr ''..''), (''lines'', JNum 0), (''params'', JStr ''.secrets/secret_seed'')])"
    by (simp add: assms(4) read_plugin_request_def decode_new_def plugin_request_def entry_def fold_eq_def lower_char_def)
  ultimately show ?thesis
    using assms l t install_output_discloses_seed [OF assms(5) k]
    by (simp add: serveProxy_def dispatch_get_install_output handlePluginAction_def entry_def text_of_def)
qed

subsection \<open>Concrete requests\<close>

definition sample_host :: "int host" where
  "sample_host = \<lparr>h_env = (sample_env Map.empty)\<lparr>codec := sample_codecs\<rparr>, h_platform = sample_platform (\<lambda>_. True),
     h_parse = (\<lambda>_. None), h_print = (\<lambda>_. []), h_fetch_ai = (\<lambda>_ _ w. (None, w)), h_cancelled = False\<rparr>"

definition owner_opts :: "int options" where
  "owner_opts = sample_opts\<lparr>authorizer := ''12D3''\<rparr>"

definition proxy_device :: "peerID set \<Rightarrow> int device" where
  "proxy_device ps = seeded_device\<lparr>world := 1000 * second, authorizedPeers := ps\<rparr>"

definition proxy_request :: "string \<Rightarrow> json \<Rightarrow> signed_req" where
  "proxy_request path doc = (let r = \<lparr>sq_path = path, sq_peer = [], sq_timestamp = [], sq_signature = [], sq_body = Some (Doc doc)\<rparr> in
     case signRequest sample_crypto 7 ''12D3'' 1000 r of Ok q \<Rightarrow> q | _ \<Rightarrow> r)"

lemma time_now_sample: "time_now (h_env sample_host) (proxy_device ps) = (1000 * second, proxy_device ps)"
  by (simp add: time_now_def sample_host_def sample_env_def proxy_device_def)

lemma proxy_request_path: "sq_path (proxy_request path doc) = path"
  by (auto simp: proxy_request_def Let_def signRequest_def outcome_simps split: outcome.splits option.splits)

lemma proxy_request_ok:
  "verifySignedRequest sample_crypto 1000 (proxy_request ''/get-install-output'' doc) = Ok (''12D3'', Doc doc)"
  "verifySignedRequest sample_crypto 1000 (proxy_request ''/auth'' doc) = Ok (''12D3'', Doc doc)"
  by (simp_all add: proxy_request_def Let_def sample_defs)

theorem seed_disclosed_to_delegates_witness:
  "\<exists>e. serveProxy sample_crypto sample_host sample_opts
      (proxy_request ''/get-install-output'' (JObj [(''plugin_name'', JStr ''..''), (''params'', JStr ''.secrets/secret_seed'')]))
      (proxy_device {''12D3''}) =
    (Some \<lparr>rs_status = StatusOK, rs_body = Doc (plugin_reply (JObj [(''.secrets/secret_seed'', JStr ''s3cret'')]) True)\<rparr>, e)"
proof (rule seed_disclosed_to_delegates)
  show "LoadKey sample_opts (proxy_device {''12D3''}) = Ok ''s3cret''"
    by (simp add: proxy_device_def seeded_device_def LoadKey_def ReadFile_def sample_device_def TrimSpace_def is_space_def outcome_simps)
qed (simp_all add: time_now_sample proxy_request_ok proxy_request_path path_Base_def, simp_all add: proxy_device_def sample_opts_def
    seeded_device_def sample_device_def sample_host_def)

abbreviation grant_request :: signed_req where
  "grant_request \<equiv> proxy_request ''/auth'' (auth_document (''phone'', True))"

lemma grant_served:
  "serveProxy sample_crypto sample_host (blox_opts ''/c'' owner_opts) grant_request (proxy_device {}) =
     (Some \<lparr>rs_status = StatusOK, rs_body = Raw []\<rparr>, proxy_device {''phone''})"
proof -
  have a: "authorized (blox_opts ''/c'' owner_opts) {} ''12D3'' ''auth''"
    by (simp add: authorized_def blox_opts_def wire_def owner_opts_def owner_actions_def member_actions_def)
  have "dispatch sample_host (blox_opts ''/c'' owner_opts) ''12D3'' ''auth'' (Doc (auth_document (''phone'', True))) (proxy_device {}) =
      (Some \<lparr>rs_status = StatusOK, rs_body = Raw []\<rparr>, proxy_device {''phone''})"
    using auth_document_decodes [of sample_codecs "''phone''" True]
    by (simp add: dispatch_def action_map_def handleAuthorization_def sample_host_def sample_codecs_def proxy_device_def)
  moreover have "authorizedPeers (proxy_device {}) = {}" by (simp add: proxy_device_def)
  ultimately show ?thesis
    using a by (simp add: serveProxy_def time_now_sample proxy_request_ok proxy_request_path path_Base_def)
qed

theorem proxy_serves_only_admitted_witness:
  "\<exists>pid b. admitted sample_crypto sample_host (blox_opts ''/c'' owner_opts) grant_request (proxy_device {}) pid b"
  using proxy_serves_only_admitted [OF grant_served] by (auto simp: http_Error_def)

theorem only_owner_changes_permissions_witness:
  "authorizedPeers (snd (serveProxy sample_crypto sample_host (blox_opts ''/c'' owner_opts) grant_request (proxy_device {}))) = {''phone''} \<and>
   (\<exists>b. verifySignedRequest sample_crypto 1000 grant_request = Ok (''12D3'', b))"
proof -
  have p: "authorizedPeers (proxy_device ps) = ps" for ps by (simp add: proxy_device_def)
  have o: "authorizer owner_opts = ''12D3''" by (simp add: owner_opts_def)
  show ?thesis using only_owner_changes_permissions [OF grant_served] by (simp add: grant_served time_now_sample p o)
qed

end
