(* ===== verification/P2PClient.thy ===== *)
theory P2PClient
  imports Proxy
begin

text \<open>
  The phone's side of \<^verbatim>\<open>FxBlockchain\<close>: the calls of \<^verbatim>\<open>bl_pool.go\<close>, \<^verbatim>\<open>bl_account.go\<close>, \<^verbatim>\<open>bl_manifest.go\<close>,
  \<^verbatim>\<open>bl_plugins.go\<close>, \<^verbatim>\<open>bl_autopin.go\<close>, \<^verbatim>\<open>bl_nas.go\<close> and \<^verbatim>\<open>blox.go\<close> that marshal a request, send it signed to a
  device and judge the answer. Composed with the proxy they give the remote calls of the system; the
  theorems say when such a call is the handler of the device, and which calls cannot succeed.
\<close>

section \<open>Sending\<close>

text \<open>
  The transport below the client, given the method, the addressed peer and the request; the tunnel
  through kubo is one. \<open>phone\<close> is the state of the client: the network it talks to and the package
  variable \<^verbatim>\<open>apiError\<close>, into which error documents are decoded.
\<close>

type_synonym 'n transport = "string \<Rightarrow> peerID \<Rightarrow> signed_req \<Rightarrow> 'n \<Rightarrow> net_reply \<times> 'n"

record ('sk, 'n) client =
  signingKey :: "'sk option"
  ownPeerID :: peerID
  p2p :: "'n transport option"
  phone_clock :: "'n \<Rightarrow> int \<times> 'n"

record 'n phone =
  network :: 'n
  apiError :: json

datatype client_error =
    NotConfigured
  | SigningFailed auth_error
  | TransportFailed
  | BodyLost
  | Unexpected nat body
  | UnexpectedApi nat string string
  | ChainNotSupported

definition apiError_type :: gty where
  "apiError_type = GStruct [(''message'', GStr, False), (''description'', GStr, False)]"

text \<open>
  \<^verbatim>\<open>SetP2PClient\<close> wraps the transport so that every request is signed when there is a key; \<^verbatim>\<open>doP2PRequest\<close>
  fails without a client. Times are in nanoseconds, the signature carries seconds.
\<close>

definition SetP2PClient :: "'n transport option \<Rightarrow> ('sk, 'n) client \<Rightarrow> ('sk, 'n) client" where
  "SetP2PClient c cl = cl\<lparr>p2p := c\<rparr>"

definition doP2PRequest ::
  "('pk, 'sk) crypto \<Rightarrow> ('sk, 'n) client \<Rightarrow> string \<Rightarrow> peerID \<Rightarrow> signed_req \<Rightarrow> 'n \<Rightarrow> (client_error, net_reply) outcome \<times> 'n" where
  "doP2PRequest cr cl meth to r n =
     (case p2p cl of
        None \<Rightarrow> (Err NotConfigured, n)
      | Some base \<Rightarrow>
          (case signingKey cl of
             None \<Rightarrow> (case base meth to r n of (x, m) \<Rightarrow> (Ok x, m))
           | Some key \<Rightarrow>
               (case phone_clock cl n of (now, n1) \<Rightarrow>
                (case signingTransport_RoundTrip cr key (ownPeerID cl) (now div second) (\<lambda>q. Ok (base meth to q n1)) r of
                   Ok (x, m) \<Rightarrow> (Ok x, m)
                 | Err e \<Rightarrow> (Err (SigningFailed e), n1)
                 | Panic \<Rightarrow> (Panic, n1)))))"

text \<open>A request to an action: the path is the action, the headers are set by the signing transport.\<close>

definition action_request :: "string \<Rightarrow> body \<Rightarrow> signed_req" where
  "action_request action b = \<lparr>sq_path = ''/'' @ action, sq_peer = [], sq_timestamp = [], sq_signature = [], sq_body = Some b\<rparr>"


section \<open>Judging the answer\<close>

text \<open>
  The three ways the calls judge an answer: an error document is decoded into \<^verbatim>\<open>apiError\<close> (what decodes is
  stored even when the whole does not), its text is reported as it is, or nothing is checked.
\<close>

datatype error_style = ApiStyle | TextStyle

definition judge :: "error_style \<Rightarrow> nat \<Rightarrow> net_reply \<Rightarrow> 'n phone \<Rightarrow> (client_error, body) outcome \<times> 'n phone" where
  "judge style expected r ph =
     (case r of
        NetErr \<Rightarrow> (Err TransportFailed, ph)
      | Reply st None \<Rightarrow> (Err BodyLost, ph)
      | Reply st (Some x) \<Rightarrow>
          if st = expected then (Ok x, ph)
          else (case style of
                  TextStyle \<Rightarrow> (Err (Unexpected st x), ph)
                | ApiStyle \<Rightarrow>
                    (case unmarshal x of
                       None \<Rightarrow> (Err (Unexpected st x), ph)
                     | Some v \<Rightarrow>
                         let ph1 = ph\<lparr>apiError := fill apiError_type (apiError ph) v\<rparr> in
                         (case decode_go apiError_type (apiError ph) v of
                            None \<Rightarrow> (Err (Unexpected st x), ph1)
                          | Some j \<Rightarrow>
                              (Err (UnexpectedApi st (text_of (entry ''message'' j)) (text_of (entry ''description'' j))), ph1)))))"

definition p2p_call ::
  "('pk, 'sk) crypto \<Rightarrow> ('sk, 'n) client \<Rightarrow> error_style \<Rightarrow> nat \<Rightarrow> string \<Rightarrow> string \<Rightarrow> body \<Rightarrow> peerID \<Rightarrow> 'n phone \<Rightarrow>
   (client_error, body) outcome \<times> 'n phone" where
  "p2p_call cr cl style expected meth action b to ph =
     (case doP2PRequest cr cl meth to (action_request action b) (network ph) of
        (Err e, n) \<Rightarrow> (Err e, ph\<lparr>network := n\<rparr>)
      | (Panic, n) \<Rightarrow> (Panic, ph\<lparr>network := n\<rparr>)
      | (Ok r, n) \<Rightarrow> judge style expected r (ph\<lparr>network := n\<rparr>))"

text \<open>The plugin calls return the body whatever the status.\<close>

definition unchecked_call ::
  "('pk, 'sk) crypto \<Rightarrow> ('sk, 'n) client \<Rightarrow> string \<Rightarrow> string \<Rightarrow> body \<Rightarrow> peerID \<Rightarrow> 'n phone \<Rightarrow>
   (client_error, body) outcome \<times> 'n phone" where
  "unchecked_call cr cl meth action b to ph =
     (case doP2PRequest cr cl meth to (action_request action b) (network ph) of
        (Err e, n) \<Rightarrow> (Err e, ph\<lparr>network := n\<rparr>)
      | (Panic, n) \<Rightarrow> (Panic, ph\<lparr>network := n\<rparr>)
      | (Ok NetErr, n) \<Rightarrow> (Err TransportFailed, ph\<lparr>network := n\<rparr>)
      | (Ok (Reply st None), n) \<Rightarrow> (Err BodyLost, ph\<lparr>network := n\<rparr>)
      | (Ok (Reply st (Some x)), n) \<Rightarrow> (Ok x, ph\<lparr>network := n\<rparr>))"


section \<open>The calls\<close>

type_synonym ('pk, 'sk, 'n) remote =
  "('pk, 'sk) crypto \<Rightarrow> ('sk, 'n) client \<Rightarrow> peerID \<Rightarrow> 'n phone \<Rightarrow> (client_error, body) outcome \<times> 'n phone"

definition AccountBalanceRequest :: gty where
  "AccountBalanceRequest = GStruct [(''account'', GStr, False)]"

subsection \<open>Pools\<close>

definition PoolCreate :: "json \<Rightarrow> ('pk, 'sk, 'n) remote" where
  "PoolCreate r cr cl = p2p_call cr cl ApiStyle StatusAccepted ''GET'' ''fula-pool-create'' (Doc (encode_go PoolCreateRequest r))"

definition PoolJoin :: "json \<Rightarrow> ('pk, 'sk, 'n) remote" where
  "PoolJoin r cr cl = p2p_call cr cl ApiStyle StatusAccepted ''GET'' ''fula-pool-join'' (Doc (encode_go PoolJoinRequest r))"

definition PoolCancelJoin :: "json \<Rightarrow> ('pk, 'sk, 'n) remote" where
  "PoolCancelJoin r cr cl = p2p_call cr cl ApiStyle StatusAccepted ''GET'' ''fula-pool-cancel_join'' (Doc (encode_go PoolCancelJoinRequest r))"

definition PoolRequests_client :: "json \<Rightarrow> ('pk, 'sk, 'n) remote" where
  "PoolRequests_client r cr cl = p2p_call cr cl ApiStyle StatusAccepted ''GET'' ''fula-pool-poolrequests'' (Doc (encode_go PoolRequestsRequest r))"

definition PoolList :: "json \<Rightarrow> ('pk, 'sk, 'n) remote" where
  "PoolList r cr cl = p2p_call cr cl ApiStyle StatusAccepted ''GET'' ''fula-pool'' (Doc (encode_go PoolListRequest r))"

definition ReplicateInPool :: "json \<Rightarrow> ('pk, 'sk, 'n) remote" where
  "ReplicateInPool r cr cl = p2p_call cr cl ApiStyle StatusAccepted ''GET'' ''replicate'' (Doc (encode_go ReplicateRequest r))"

definition PoolUserList :: "json \<Rightarrow> ('pk, 'sk, 'n) remote" where
  "PoolUserList r cr cl = p2p_call cr cl ApiStyle StatusAccepted ''GET'' ''fula-pool-users'' (Doc (encode_go PoolUserListRequest r))"

definition PoolVote :: "json \<Rightarrow> ('pk, 'sk, 'n) remote" where
  "PoolVote r cr cl = p2p_call cr cl ApiStyle StatusAccepted ''GET'' ''fula-pool-vote'' (Doc (encode_go PoolVoteRequest r))"

definition PoolLeave :: "json \<Rightarrow> ('pk, 'sk, 'n) remote" where
  "PoolLeave r cr cl = p2p_call cr cl ApiStyle StatusAccepted ''GET'' ''fula-pool-leave'' (Doc (encode_go PoolLeaveRequest r))"

subsection \<open>Accounts\<close>

definition Seeded :: "json \<Rightarrow> ('pk, 'sk, 'n) remote" where
  "Seeded r cr cl = p2p_call cr cl TextStyle StatusAccepted ''GET'' ''account-seeded'' (Doc (encode_go SeededRequest r))"

definition AccountCreate :: "('pk, 'sk, 'n) remote" where
  "AccountCreate cr cl = p2p_call cr cl TextStyle StatusAccepted ''GET'' ''account-create'' (Raw [])"

definition AccountFund :: "json \<Rightarrow> ('pk, 'sk, 'n) remote" where
  "AccountFund r cr cl = p2p_call cr cl TextStyle StatusAccepted ''GET'' ''account-fund'' (Doc (encode_go AccountFundRequest r))"

definition AccountExists :: "json \<Rightarrow> ('pk, 'sk, 'n) remote" where
  "AccountExists r cr cl = p2p_call cr cl TextStyle StatusAccepted ''GET'' ''account-exists'' (Doc (encode_go AccountExistsRequest r))"

definition AccountBalance :: "json \<Rightarrow> ('pk, 'sk, 'n) remote" where
  "AccountBalance r cr cl = p2p_call cr cl TextStyle StatusAccepted ''GET'' ''account-balance'' (Doc (encode_go AccountBalanceRequest r))"

definition AssetsBalance :: "json \<Rightarrow> ('pk, 'sk, 'n) remote" where
  "AssetsBalance r cr cl = p2p_call cr cl TextStyle StatusAccepted ''GET'' ''asset-balance'' (Doc (encode_go AssetsBalanceRequest r))"

text \<open>The chain of the request selects the action.\<close>

definition TransferToFula :: "json \<Rightarrow> ('pk, 'sk, 'n) remote" where
  "TransferToFula r cr cl to ph =
     (let action = (if entry ''chain'' r = JStr ''mumbai'' then ''fula-mumbai-convert_tokens''
                    else if entry ''chain'' r = JStr ''goerli'' then ''fula-goerli-convert_tokens'' else [])
      in if action \<noteq> [] then p2p_call cr cl TextStyle StatusAccepted ''GET'' action (Doc (encode_go TransferToFulaRequest r)) to ph
         else (Err ChainNotSupported, ph))"

subsection \<open>Manifests\<close>

definition ManifestUpload :: "json \<Rightarrow> ('pk, 'sk, 'n) remote" where
  "ManifestUpload r cr cl = p2p_call cr cl ApiStyle StatusAccepted ''GET'' ''fula-manifest-upload'' (Doc (encode_go ManifestUploadRequest r))"

definition ManifestStore :: "json \<Rightarrow> ('pk, 'sk, 'n) remote" where
  "ManifestStore r cr cl = p2p_call cr cl TextStyle StatusAccepted ''GET'' ''fula-manifest-storage'' (Doc (encode_go ManifestStoreRequest r))"

definition ManifestAvailable :: "json \<Rightarrow> ('pk, 'sk, 'n) remote" where
  "ManifestAvailable r cr cl = p2p_call cr cl TextStyle StatusAccepted ''GET'' ''fula-manifest-available'' (Doc (encode_go ManifestAvailableRequest r))"

definition ManifestBatchStore :: "json \<Rightarrow> ('pk, 'sk, 'n) remote" where
  "ManifestBatchStore r cr cl = p2p_call cr cl TextStyle StatusAccepted ''GET'' ''fula-manifest-batch_storage'' (Doc (encode_go ManifestBatchStoreRequest r))"

definition ManifestBatchUpload :: "json \<Rightarrow> ('pk, 'sk, 'n) remote" where
  "ManifestBatchUpload r cr cl = p2p_call cr cl TextStyle StatusAccepted ''GET'' ''fula-manifest-batch_upload'' (Doc (encode_go ManifestBatchUploadMobileRequest r))"

definition ManifestRemove :: "json \<Rightarrow> ('pk, 'sk, 'n) remote" where
  "ManifestRemove r cr cl = p2p_call cr cl ApiStyle StatusAccepted ''GET'' ''fula-manifest-remove'' (Doc (encode_go ManifestRemoveRequest r))"

definition ManifestRemoveStorer :: "json \<Rightarrow> ('pk, 'sk, 'n) remote" where
  "ManifestRemoveStorer r cr cl = p2p_call cr cl ApiStyle StatusAccepted ''GET'' ''fula-manifest-remove_storer'' (Doc (encode_go ManifestRemoveStorerRequest r))"

definition ManifestRemoveStored :: "json \<Rightarrow> ('pk, 'sk, 'n) remote" where
  "ManifestRemoveStored r cr cl = p2p_call cr cl ApiStyle StatusAccepted ''GET'' ''fula-manifest-remove_storing_manifest'' (Doc (encode_go ManifestRemoveStoredRequest r))"

subsection \<open>The device\<close>

definition BloxFreeSpace :: "('pk, 'sk, 'n) remote" where
  "BloxFreeSpace cr cl = p2p_call cr cl TextStyle StatusOK ''GET'' ''blox-free-space'' (Raw [])"

definition EraseBlData :: "('pk, 'sk, 'n) remote" where
  "EraseBlData cr cl = p2p_call cr cl TextStyle StatusOK ''GET'' ''erase-blockchain-data'' (Raw [])"

definition WifiRemoveall_client :: "('pk, 'sk, 'n) remote" where
  "WifiRemoveall_client cr cl = p2p_call cr cl TextStyle StatusOK ''GET'' ''wifi-removeall'' (Raw [])"

definition Reboot_client :: "('pk, 'sk, 'n) remote" where
  "Reboot_client cr cl = p2p_call cr cl TextStyle StatusOK ''GET'' ''reboot'' (Raw [])"

definition Partition_client :: "('pk, 'sk, 'n) remote" where
  "Partition_client cr cl = p2p_call cr cl TextStyle StatusOK ''GET'' ''partition'' (Raw [])"

definition DeleteFulaConfig_client :: "('pk, 'sk, 'n) remote" where
  "DeleteFulaConfig_client cr cl = p2p_call cr cl TextStyle StatusOK ''GET'' ''delete-fula-config'' (Raw [])"

definition GetAccount :: "('pk, 'sk, 'n) remote" where
  "GetAccount cr cl = p2p_call cr cl TextStyle StatusOK ''GET'' ''get-account'' (Raw [])"

definition FetchContainerLogs :: "json \<Rightarrow> ('pk, 'sk, 'n) remote" where
  "FetchContainerLogs r cr cl = p2p_call cr cl ApiStyle StatusAccepted ''GET'' ''fetch-container-logs'' (Doc (encode_go FetchContainerLogsRequest r))"

definition FindBestAndTargetInLogs :: "json \<Rightarrow> ('pk, 'sk, 'n) remote" where
  "FindBestAndTargetInLogs r cr cl = p2p_call cr cl ApiStyle StatusAccepted ''GET'' ''find-bestandtarget-inlogs'' (Doc (encode_go FindBestAndTargetInLogsRequest r))"

definition GetFolderSize :: "json \<Rightarrow> ('pk, 'sk, 'n) remote" where
  "GetFolderSize r cr cl = p2p_call cr cl ApiStyle StatusAccepted ''GET'' ''get-folder-size'' (Doc (encode_go GetFolderSizeRequest r))"

definition GetDatastoreSize :: "json \<Rightarrow> ('pk, 'sk, 'n) remote" where
  "GetDatastoreSize r cr cl = p2p_call cr cl ApiStyle StatusAccepted ''GET'' ''get-datastore-size'' (Doc (encode_go GetDatastoreSizeRequest r))"

definition GetDockerImageBuildDates :: "('pk, 'sk, 'n) remote" where
  "GetDockerImageBuildDates cr cl = p2p_call cr cl TextStyle StatusOK ''GET'' ''get-docker-image-build-dates'' (Raw [])"

definition GetClusterInfo :: "('pk, 'sk, 'n) remote" where
  "GetClusterInfo cr cl = p2p_call cr cl TextStyle StatusOK ''GET'' ''get-cluster-info'' (Raw [])"

definition DeleteWifi_client :: "json \<Rightarrow> ('pk, 'sk, 'n) remote" where
  "DeleteWifi_client r cr cl = p2p_call cr cl ApiStyle StatusAccepted ''GET'' ''delete-wifi'' (Doc (encode_go DeleteWifiRequest r))"

definition DisconnectWifi :: "json \<Rightarrow> ('pk, 'sk, 'n) remote" where
  "DisconnectWifi r cr cl = p2p_call cr cl ApiStyle StatusAccepted ''GET'' ''disconnect-wifi'' (Doc (encode_go DeleteWifiRequest r))"

subsection \<open>Pinning\<close>

definition AutoPinPair :: "json \<Rightarrow> ('pk, 'sk, 'n) remote" where
  "AutoPinPair r cr cl = p2p_call cr cl TextStyle StatusOK ''POST'' ''auto-pin-pair'' (Doc (encode_go AutoPinPairRequest r))"

definition AutoPinRefresh :: "json \<Rightarrow> ('pk, 'sk, 'n) remote" where
  "AutoPinRefresh r cr cl = p2p_call cr cl TextStyle StatusOK ''POST'' ''auto-pin-refresh'' (Doc (encode_go AutoPinRefreshRequest r))"

definition AutoPinUnpair :: "('pk, 'sk, 'n) remote" where
  "AutoPinUnpair cr cl = p2p_call cr cl TextStyle StatusOK ''POST'' ''auto-pin-unpair'' (Raw [])"

subsection \<open>Storage\<close>

definition NasCredentials :: "json \<Rightarrow> ('pk, 'sk, 'n) remote" where
  "NasCredentials r cr cl = p2p_call cr cl TextStyle StatusOK ''POST'' ''nas-credentials'' (Doc (encode_go NasCredentialsRequest r))"

subsection \<open>Plugins\<close>

definition ListPlugins :: "('pk, 'sk, 'n) remote" where
  "ListPlugins cr cl = unchecked_call cr cl ''GET'' ''list-plugins'' (Raw [])"

definition InstallPlugin :: "string \<Rightarrow> string \<Rightarrow> ('pk, 'sk, 'n) remote" where
  "InstallPlugin pluginName paramsString cr cl = unchecked_call cr cl ''POST'' ''install-plugin'' (Doc (JObj [(''params'', JStr paramsString), (''plugin_name'', JStr pluginName)]))"

definition UninstallPlugin :: "string \<Rightarrow> ('pk, 'sk, 'n) remote" where
  "UninstallPlugin pluginName cr cl = unchecked_call cr cl ''POST'' ''uninstall-plugin'' (Doc (JObj [(''plugin_name'', JStr pluginName)]))"

definition ListActivePlugins :: "('pk, 'sk, 'n) remote" where
  "ListActivePlugins cr cl = unchecked_call cr cl ''GET'' ''list-active-plugins'' (Raw [])"

definition GetInstallOutput :: "string \<Rightarrow> string \<Rightarrow> ('pk, 'sk, 'n) remote" where
  "GetInstallOutput pluginName paramsString cr cl = unchecked_call cr cl ''POST'' ''get-install-output'' (Doc (JObj [(''params'', JStr paramsString), (''plugin_name'', JStr pluginName)]))"

definition GetInstallStatus :: "string \<Rightarrow> ('pk, 'sk, 'n) remote" where
  "GetInstallStatus pluginName cr cl = unchecked_call cr cl ''POST'' ''get-install-status'' (Doc (JObj [(''plugin_name'', JStr pluginName)]))"

definition UpdatePlugin :: "string \<Rightarrow> ('pk, 'sk, 'n) remote" where
  "UpdatePlugin pluginName cr cl = unchecked_call cr cl ''POST'' ''update-plugin'' (Doc (JObj [(''plugin_name'', JStr pluginName)]))"

section \<open>Through the tunnel\<close>

text \<open>
  Kubo forwards the stream of a phone to the proxy of the device: the transport of a call to the device
  is the proxy. A handler that panics closes the connection.
\<close>

definition tunnel :: "('pk, 'sk) crypto \<Rightarrow> 'w host \<Rightarrow> 'w options \<Rightarrow> 'w device transport" where
  "tunnel cr h opts meth to r d =
     (case serveProxy cr h opts r d of
        (Some resp, e) \<Rightarrow> (Reply (rs_status resp) (Some (rs_body resp)), e)
      | (None, e) \<Rightarrow> (NetErr, e))"

definition action_name :: "string \<Rightarrow> bool" where
  "action_name a \<longleftrightarrow> a \<noteq> [] \<and> CHR ''/'' \<notin> set a"

lemma path_Base_action: "action_name a \<Longrightarrow> path_Base (''/'' @ a) = a"
proof -
  assume a: "action_name a"
  then have "rev a \<noteq> []" "hd (rev a) \<noteq> CHR ''/''" by (auto simp: action_name_def hd_rev dest: last_in_set)
  then have d: "dropWhile (\<lambda>c. c = CHR ''/'') (rev a @ [CHR ''/'']) = rev a @ [CHR ''/'']" by (cases "rev a") auto
  have "takeWhile (\<lambda>c. c \<noteq> CHR ''/'') (rev a @ [CHR ''/'']) = rev a"
    using a by (subst takeWhile_append2) (auto simp: action_name_def)
  with d show ?thesis by (simp add: path_Base_def)
qed

lemma signRequest_path: "signRequest cr k p now r = Ok q \<Longrightarrow> sq_path q = sq_path r"
  by (auto simp: signRequest_def Let_def outcome_simps)

text \<open>A reply comes from the proxy, for some request to the action.\<close>

lemma doP2PRequest_tunnel:
  assumes "doP2PRequest cr cl meth to r n = (Ok x, m)" and "p2p cl = Some (tunnel cr' h opts)"
  shows "\<exists>q d. sq_path q = sq_path r \<and> tunnel cr' h opts meth to q d = (x, m)"
proof (cases "signingKey cl")
  case None
  with assms show ?thesis by (auto simp: doP2PRequest_def split: prod.splits)
next
  case (Some key)
  obtain now n1 where n: "phone_clock cl n = (now, n1)" by fastforce
  with assms Some show ?thesis
    by (auto simp: doP2PRequest_def signingTransport_RoundTrip_def outcome_simps dest: signRequest_path
        split: outcome.splits prod.splits)
qed

lemma p2p_call_served:
  assumes "p2p_call cr cl style expected meth action b to ph = (Ok x, ph')" and "p2p cl = Some (tunnel cr' h opts)"
    and "action_name action" and "expected \<noteq> StatusUnauthorized"
  shows "\<exists>pid peers b' d1 e. authorized opts peers pid action \<and>
    dispatch h opts pid action b' d1 = (Some \<lparr>rs_status = expected, rs_body = x\<rparr>, e)"
proof -
  obtain r n where r: "doP2PRequest cr cl meth to (action_request action b) (network ph) = (Ok r, n)" "r = Reply expected (Some x)"
    using assms(1)
    by (auto simp: p2p_call_def judge_def Let_def split: prod.splits outcome.splits net_reply.splits option.splits if_splits error_style.splits)
  obtain q d where q: "sq_path q = ''/'' @ action" "tunnel cr' h opts meth to q d = (r, n)"
    using doP2PRequest_tunnel [OF r(1) assms(2)] by (auto simp: action_request_def)
  then have s: "serveProxy cr' h opts q d = (Some \<lparr>rs_status = expected, rs_body = x\<rparr>, n)"
    using r(2) by (auto simp: tunnel_def split: prod.splits option.splits)
  then show ?thesis
  proof (cases rule: serveProxy_cases)
    case (served pid b' d1)
    then show ?thesis using q(1) path_Base_action [OF assms(3)] by (auto simp: admitted_def)
  qed (use assms(4) in \<open>simp add: http_Error_def\<close>)
qed

lemma grantable_action: "authorized (opts :: 'w options) peers pid a \<Longrightarrow> a \<in> set grantable"
  by (auto simp: authorized_def grantable_def split: if_splits)

lemma delete_wifi_status:
  "dispatch h opts pid ''delete-wifi'' b d = (Some \<lparr>rs_status = StatusAccepted, rs_body = x\<rparr>, e) \<Longrightarrow> False"
  "dispatch h opts pid ''disconnect-wifi'' b d = (Some \<lparr>rs_status = StatusAccepted, rs_body = x\<rparr>, e) \<Longrightarrow> False"
  by (auto simp: dispatch_def action_map_def handleDeleteWifi_def handleDisconnectWifi_def with_request_def ok_reply_def
      http_Error_def split: option.splits prod.splits)

text \<open>
  Eight calls of the client cannot succeed against any device, whoever makes them and in whatever
  state the device is: five actions are authorised for nobody, \<^verbatim>\<open>account-fund\<close> has no handler, and the
  Wi-Fi calls wait for status 202 while their handlers answer 200, so a network that was deleted is
  reported to the phone as a failure.
\<close>

lemma dead_client_calls:
  assumes "p2p cl = Some (tunnel cr' h opts)" and "entry ''chain'' t \<noteq> JStr ''mumbai''"
  shows "\<forall>call \<in> {AccountCreate, AccountBalance r, AccountFund r, PoolUserList r, ManifestBatchStore r, TransferToFula t,
      DeleteWifi_client r, DisconnectWifi r}. \<not> is_ok (fst (call cr cl to ph))"
proof -
  have f: "\<not> is_ok (fst (p2p_call cr cl style StatusAccepted meth action b to ph))"
    if "action_name action" "action \<notin> set grantable \<or>
      (\<forall>pid b d x e. dispatch h opts pid action b d \<noteq> (Some \<lparr>rs_status = StatusAccepted, rs_body = x\<rparr>, e))" for style meth action b
  proof
    assume "is_ok (fst (p2p_call cr cl style StatusAccepted meth action b to ph))"
    then obtain x ph' where "p2p_call cr cl style StatusAccepted meth action b to ph = (Ok x, ph')"
      by (cases "p2p_call cr cl style StatusAccepted meth action b to ph"; cases "fst (p2p_call cr cl style StatusAccepted meth action b to ph)")
        auto
    from p2p_call_served [OF this assms(1) that(1)] that(2) show False by (auto dest: grantable_action)
  qed
  have n: "''account-create'' \<notin> set grantable" "''account-balance'' \<notin> set grantable" "''fula-pool-users'' \<notin> set grantable"
    "''fula-manifest-batch_storage'' \<notin> set grantable" "''fula-goerli-convert_tokens'' \<notin> set grantable"
    by (simp_all add: grantable_def member_actions_def owner_actions_def)
  have fund: "dispatch h opts pid ''account-fund'' b d \<noteq> (Some \<lparr>rs_status = StatusAccepted, rs_body = x\<rparr>, e)" for pid b d x e
    by (simp add: dispatch_def action_map_def http_Error_def)
  have "\<not> is_ok (fst (p2p_call cr cl style StatusAccepted meth a b to ph))"
    if "a \<in> {''account-create'', ''account-balance'', ''fula-pool-users'', ''fula-manifest-batch_storage'', ''fula-goerli-convert_tokens'',
      ''account-fund'', ''delete-wifi'', ''disconnect-wifi''}" for a style meth b
  proof (rule f)
    show "action_name a" using that by (auto simp: action_name_def)
    show "a \<notin> set grantable \<or> (\<forall>pid b d x e. dispatch h opts pid a b d \<noteq> (Some \<lparr>rs_status = StatusAccepted, rs_body = x\<rparr>, e))"
      using that n fund delete_wifi_status [of h opts] by blast
  qed
  then show ?thesis
    using assms(2) by (simp add: AccountCreate_def AccountBalance_def AccountFund_def PoolUserList_def ManifestBatchStore_def
        TransferToFula_def DeleteWifi_client_def DisconnectWifi_def Let_def)
qed

section \<open>A remote call is the handler\<close>

text \<open>
  A client that is set up to talk to the device: it signs with a key whose signatures its own peer id
  verifies, and the clocks of phone and device, in seconds, differ by at most the allowed skew.
\<close>

definition connected ::
  "('pk, 'sk) crypto \<Rightarrow> ('sk, 'w device) client \<Rightarrow> 'w host \<Rightarrow> 'w options \<Rightarrow> 'w device \<Rightarrow> 'w device \<Rightarrow> bool" where
  "connected cr cl h opts d d2 \<longleftrightarrow>
     p2p cl = Some (tunnel cr h opts) \<and>
     ownPeerID cl \<noteq> [] \<and> decode_peer cr (ownPeerID cl) = Some (ownPeerID cl) \<and>
     (\<exists>key pk. signingKey cl = Some key \<and> extract_key cr (ownPeerID cl) = Some pk \<and>
        (\<forall>m. \<exists>sig. sign_msg cr key m = Some sig \<and> sig \<noteq> [] \<and> (\<forall>n \<in> set sig. n < 256) \<and> verify_sig cr pk m sig = Some True)) \<and>
     (\<exists>t d1 t'. phone_clock cl d = (t, d1) \<and> time_now (h_env h) d1 = (t', d2) \<and>
        0 \<le> t div second \<and> t div second < 2 ^ 62 \<and> 0 \<le> t' div second \<and> t' div second < 2 ^ 62 \<and>
        \<bar>t' div second - t div second\<bar> \<le> 300)"

definition as_reply :: "http_resp option \<Rightarrow> net_reply" where
  "as_reply r = (case r of Some resp \<Rightarrow> Reply (rs_status resp) (Some (rs_body resp)) | None \<Rightarrow> NetErr)"

text \<open>
  C4. From the phone to the handler and back: a call of an authorised peer runs exactly the handler of the
  action on the device, with the body the phone marshalled and the phone's peer id as its sender, and
  what the call returns is that handler's answer, judged by the status the call expects. Signing,
  forwarding, verification and dispatch add and lose nothing.
\<close>

theorem remote_call_is_dispatch:
  assumes "connected cr cl h opts (network ph) d2" and "action_name action"
    and "authorized opts (authorizedPeers d2) (ownPeerID cl) action"
    and "dispatch h opts (ownPeerID cl) action b d2 = (r, e)"
  shows "p2p_call cr cl style expected meth action b to ph = judge style expected (as_reply r) (ph\<lparr>network := e\<rparr>)"
proof -
  obtain key pk t d1 t' where c: "p2p cl = Some (tunnel cr h opts)" "signingKey cl = Some key" "ownPeerID cl \<noteq> []"
    "decode_peer cr (ownPeerID cl) = Some (ownPeerID cl)" "extract_key cr (ownPeerID cl) = Some pk"
    and scheme: "\<And>m. \<exists>sig. sign_msg cr key m = Some sig \<and> sig \<noteq> [] \<and> (\<forall>n \<in> set sig. n < 256) \<and> verify_sig cr pk m sig = Some True"
    and clk: "phone_clock cl (network ph) = (t, d1)" "time_now (h_env h) d1 = (t', d2)"
    and skew: "0 \<le> t div second" "0 \<le> t' div second" "t div second < 2 ^ 62" "t' div second < 2 ^ 62" "\<bar>t' div second - t div second\<bar> \<le> 300"
    using assms(1) unfolding connected_def by blast
  let ?r = "action_request action b"
  obtain q where q: "signRequest cr key (ownPeerID cl) (t div second) ?r = Ok q"
    using scheme by (force simp: signRequest_def action_request_def Let_def outcome_simps)
  have v: "verifySignedRequest cr (t' div second) q = Ok (ownPeerID cl, b)"
  proof -
    have "\<exists>b'. sq_body ?r = Some b' \<and> verifySignedRequest cr (t' div second) q = Ok (ownPeerID cl, b')"
      by (rule signed_then_verified [OF q _ c(3,4,5) skew]) (use scheme in \<open>metis option.inject\<close>)
    then show ?thesis by (simp add: action_request_def)
  qed
  have p: "path_Base (sq_path q) = action"
    using signRequest_path [OF q] path_Base_action [OF assms(2)] by (simp add: action_request_def)
  have "serveProxy cr h opts q d1 = (r, e)"
    using v p clk(2) assms(3,4) by (simp add: serveProxy_def Let_def)
  then have "doP2PRequest cr cl meth to ?r (network ph) = (Ok (as_reply r), e)"
    using c clk(1) q
    by (auto simp: doP2PRequest_def signingTransport_RoundTrip_def outcome_simps tunnel_def as_reply_def split: option.splits)
  then show ?thesis by (simp add: p2p_call_def)
qed

text \<open>
  The variable into which error documents are decoded is shared by all calls and never reset: when a
  device refuses with a JSON document that names no message and no description, the call reports those
  of whichever call failed before, on this device or another.
\<close>

lemma stale_error_details:
  assumes "doP2PRequest cr cl meth to (action_request action b) (network ph) = (Ok (Reply st (Some (Doc (JObj kvs)))), n)"
    and "st \<noteq> expected" and "\<forall>(k, v) \<in> set kvs. \<not> fold_eq k ''message'' \<and> \<not> fold_eq k ''description''"
    and "apiError ph = JObj [(''message'', JStr m), (''description'', JStr t)]"
  shows "p2p_call cr cl ApiStyle expected meth action b to ph = (Err (UnexpectedApi st m t), ph\<lparr>network := n\<rparr>)"
proof -
  have "field_fold conv name x kvs = Some x" if "name \<in> {''message'', ''description''}" for conv name x
    using assms(3) that by (induction kvs) auto
  then have d: "decode_go apiError_type (apiError ph) (JObj kvs) = Some (apiError ph)"
    by (simp add: apiError_type_def assms(4) entry_def)
  have f: "fill apiError_type (apiError ph) (JObj kvs) = apiError ph" using fill_decode [OF d] .
  show ?thesis
    using assms(1,2,4) d f by (simp add: p2p_call_def judge_def Let_def entry_def text_of_def)
qed

subsection \<open>Concrete calls\<close>

definition sample_phone :: "(nat, int device) client" where
  "sample_phone = \<lparr>signingKey = Some 7, ownPeerID = ''12D3'', p2p = Some (tunnel sample_crypto sample_host owner_opts),
     phone_clock = (\<lambda>d. (world d + 5 * second, d))\<rparr>"

definition phone_at :: "peerID set \<Rightarrow> int device phone" where
  "phone_at ps = \<lparr>network = proxy_device ps, apiError = JObj [(''message'', JStr ''old''), (''description'', JStr ''before'')]\<rparr>"

lemma sample_connected: "connected sample_crypto sample_phone sample_host owner_opts (proxy_device ps) (proxy_device ps)"
  by (simp add: connected_def sample_phone_def sample_crypto_def time_now_sample [simplified]) (simp add: proxy_device_def)

theorem remote_call_is_dispatch_witness:
  "AutoPinUnpair sample_crypto sample_phone ''dev'' (phone_at {''12D3''}) =
     (Err (Unexpected StatusNotFound (Raw (''{\"message\":\"not paired\"}'' @ [newline]))), phone_at {''12D3''})"
proof -
  have a: "authorized owner_opts (authorizedPeers (proxy_device {''12D3''})) (ownPeerID sample_phone) ''auto-pin-unpair''"
    by (simp add: authorized_def member_actions_def sample_phone_def proxy_device_def)
  have d: "dispatch sample_host owner_opts (ownPeerID sample_phone) ''auto-pin-unpair'' (Raw []) (proxy_device {''12D3''}) =
      (Some (http_Error StatusNotFound ''{\"message\":\"not paired\"}''), proxy_device {''12D3''})"
    by (simp add: dispatch_def action_map_def handleAutoPinUnpair_def ReadProperties_def ReadFile_def proxy_device_def
        seeded_device_def sample_device_def CUSTOM_PROPERTIES_FILE_def seed_path_def sample_opts_def)
  have c: "connected sample_crypto sample_phone sample_host owner_opts (network (phone_at {''12D3''})) (proxy_device {''12D3''})"
    by (simp add: phone_at_def sample_connected)
  have "action_name ''auto-pin-unpair''" by (simp add: action_name_def)
  from remote_call_is_dispatch [OF c this a d] show ?thesis
    by (simp add: AutoPinUnpair_def judge_def as_reply_def http_Error_def) (simp add: phone_at_def)
qed

theorem dead_client_calls_witness:
  "\<not> is_ok (fst (DeleteWifi_client (JObj [(''name'', JStr ''home'')]) sample_crypto sample_phone ''dev'' (phone_at {''12D3''})))"
proof -
  have c: "p2p sample_phone = Some (tunnel sample_crypto sample_host owner_opts)" "entry ''chain'' JNull \<noteq> JStr ''mumbai''"
    by (simp_all add: sample_phone_def entry_def)
  show ?thesis by (rule bspec [OF dead_client_calls [OF c, where r = "JObj [(''name'', JStr ''home'')]"]]) simp
qed

theorem stale_error_details_witness:
  "p2p_call sample_crypto \<lparr>signingKey = None, ownPeerID = [], p2p = Some (\<lambda>meth to r n. (Reply 500 (Some (Doc (JObj []))), n)),
      phone_clock = (\<lambda>n. (0, n))\<rparr> ApiStyle StatusAccepted ''GET'' ''fula-pool-leave'' (Raw []) ''dev'' (phone_at {}) =
    (Err (UnexpectedApi 500 ''old'' ''before''), phone_at {})"
  by (subst stale_error_details [where n = "proxy_device {}"]) (auto simp: doP2PRequest_def phone_at_def)

end
