(* ===== verification/MobileClient.thy ===== *)
theory MobileClient
  imports P2PClient NodeKeys
begin

text \<open>
  The library the phone application is built on (\<^verbatim>\<open>mobile\<close>): its calls of a device (\<^verbatim>\<open>blockchain.go\<close>), the
  admission of calls and the shutdown of the client (\<^verbatim>\<open>client.go\<close>), reaching a device through the DHT, the
  connection test, the start of a client (\<^verbatim>\<open>config.go\<close>) and the keys of a phone (\<^verbatim>\<open>keygen.go\<close>). The libp2p host is a record of functions.
\<close>

section \<open>Calls\<close>

text \<open>
  A client as its calls see it: \<open>mob_bl\<close> is the blockchain client, which is nil for the exchange \<^verbatim>\<open>noop\<close>;
  \<open>mob_closed\<close> is set by \<^verbatim>\<open>Shutdown\<close>.
\<close>

record ('pk, 'sk, 'n) mobile =
  mob_crypto :: "('pk, 'sk) crypto"
  mob_bl :: "('sk, 'n) client option"
  mob_bloxPid :: peerID
  mob_closed :: bool

datatype mobile_error = ErrClientClosed | InvalidAmount | BadResponse | CallFailed client_error

type_synonym ('pk, 'sk, 'n) phone_call = "('pk, 'sk, 'n) mobile \<Rightarrow> 'n phone \<Rightarrow> (mobile_error, body) outcome \<times> 'n phone"

fun call_outcome :: "(client_error, 'a) outcome \<Rightarrow> (mobile_error, 'a) outcome" where
  "call_outcome (Ok x) = Ok x"
| "call_outcome (Err e) = Err (CallFailed e)"
| "call_outcome Panic = Panic"

text \<open>Every call is admitted by \<^verbatim>\<open>beginOp\<close>; a method of a nil client panics.\<close>

definition gated :: "('pk, 'sk, 'n) remote \<Rightarrow> ('pk, 'sk, 'n) phone_call" where
  "gated remote m ph =
     (if mob_closed m then (Err ErrClientClosed, ph)
      else (case mob_bl m of
              None \<Rightarrow> (Panic, ph)
            | Some cl \<Rightarrow> (case remote (mob_crypto m) cl (mob_bloxPid m) ph of (r, ph1) \<Rightarrow> (call_outcome r, ph1))))"

text \<open>A Go structure literal: the fields that are not named have their zero value.\<close>

fun literal :: "gty \<Rightarrow> (string \<times> json) list \<Rightarrow> json" where
  "literal (GStruct fs) kvs = JObj (map (\<lambda>(n, t, om). (n, case map_of kvs n of None \<Rightarrow> zero_val t | Some v \<Rightarrow> v)) fs)"
| "literal t kvs = zero_val t"

definition Client_AccountExists :: "string \<Rightarrow> ('pk, 'sk, 'n) phone_call" where
  "Client_AccountExists account = gated (AccountExists (literal AccountExistsRequest [(''account'', JStr account)]))"

definition Client_AccountCreate :: "('pk, 'sk, 'n) phone_call" where
  "Client_AccountCreate = gated AccountCreate"

definition Client_AccountBalance :: "string \<Rightarrow> ('pk, 'sk, 'n) phone_call" where
  "Client_AccountBalance account = gated (AccountBalance (literal AccountBalanceRequest [(''account'', JStr account)]))"

text \<open>\<^verbatim>\<open>uint64(n)\<close> of a 64-bit integer wraps.\<close>

definition to_uint64 :: "int \<Rightarrow> int" where
  "to_uint64 i = i mod 2 ^ 64"

text \<open>The amount comes as a number and is given to the application as decimal text.\<close>

definition amount_text :: "body \<Rightarrow> (mobile_error, body) outcome" where
  "amount_text b =
     (case Option.bind (unmarshal b) (decode_new AssetsBalanceResponse) of
        None \<Rightarrow> Err BadResponse
      | Some j \<Rightarrow> (case entry ''amount'' j of JNum n \<Rightarrow> Ok (Doc (JObj [(''amount'', JStr (Itoa n))])) | _ \<Rightarrow> Err BadResponse))"

definition Client_AssetsBalance :: "string \<Rightarrow> int \<Rightarrow> int \<Rightarrow> ('pk, 'sk, 'n) phone_call" where
  "Client_AssetsBalance account assetId classId m ph =
     (case gated (AssetsBalance (literal AssetsBalanceRequest
          [(''account'', JStr account), (''asset_id'', JNum (to_uint64 assetId)), (''class_id'', JNum (to_uint64 classId))])) m ph of
        (Ok b, ph1) \<Rightarrow> (amount_text b, ph1)
      | (r, ph1) \<Rightarrow> (r, ph1))"

definition Client_AccountFund :: "string \<Rightarrow> ('pk, 'sk, 'n) phone_call" where
  "Client_AccountFund account =
     gated (AccountFund (literal AccountFundRequest [(''amount'', JNum 1000000000000000000), (''to'', JStr account)]))"

definition Client_TransferToFula :: "string \<Rightarrow> string \<Rightarrow> string \<Rightarrow> ('pk, 'sk, 'n) phone_call" where
  "Client_TransferToFula amountStr walletAccount chain m ph =
     (if mob_closed m then (Err ErrClientClosed, ph)
      else (case ParseUint amountStr 10 64 of
              None \<Rightarrow> (Err InvalidAmount, ph)
            | Some amount \<Rightarrow>
                gated (TransferToFula (literal TransferToFulaRequest
                  [(''wallet_account'', JStr walletAccount), (''amount'', JNum (int amount)), (''chain'', JStr chain)])) m ph))"

definition Client_PoolJoin :: "int \<Rightarrow> ('pk, 'sk, 'n) phone_call" where
  "Client_PoolJoin poolID m =
     gated (PoolJoin (literal PoolJoinRequest [(''pool_id'', JNum poolID), (''peer_id'', JStr (mob_bloxPid m))])) m"

definition Client_PoolJoinWithChain :: "int \<Rightarrow> string \<Rightarrow> ('pk, 'sk, 'n) phone_call" where
  "Client_PoolJoinWithChain poolID chainName m =
     gated (PoolJoin (literal PoolJoinRequest
       [(''pool_id'', JNum poolID), (''peer_id'', JStr (mob_bloxPid m)), (''chain_name'', JStr chainName)])) m"

definition Client_PoolCancelJoin :: "int \<Rightarrow> ('pk, 'sk, 'n) phone_call" where
  "Client_PoolCancelJoin poolID = gated (PoolCancelJoin (literal PoolCancelJoinRequest [(''pool_id'', JNum poolID)]))"

definition Client_PoolRequests :: "int \<Rightarrow> ('pk, 'sk, 'n) phone_call" where
  "Client_PoolRequests poolID = gated (PoolRequests_client (literal PoolRequestsRequest [(''pool_id'', JNum poolID)]))"

definition Client_PoolList :: "('pk, 'sk, 'n) phone_call" where
  "Client_PoolList = gated (PoolList (literal PoolListRequest []))"

definition Client_PoolUserList :: "int \<Rightarrow> ('pk, 'sk, 'n) phone_call" where
  "Client_PoolUserList poolID = gated (PoolUserList (literal PoolUserListRequest [(''pool_id'', JNum poolID)]))"

definition Client_PoolLeave :: "int \<Rightarrow> ('pk, 'sk, 'n) phone_call" where
  "Client_PoolLeave poolID = gated (PoolLeave (literal PoolLeaveRequest [(''pool_id'', JNum poolID)]))"

definition Client_PoolLeaveWithChain :: "int \<Rightarrow> string \<Rightarrow> ('pk, 'sk, 'n) phone_call" where
  "Client_PoolLeaveWithChain poolID chainName =
     gated (PoolLeave (literal PoolLeaveRequest [(''pool_id'', JNum poolID), (''chain_name'', JStr chainName)]))"

definition Client_ManifestAvailable :: "int \<Rightarrow> ('pk, 'sk, 'n) phone_call" where
  "Client_ManifestAvailable poolID = gated (ManifestAvailable (literal ManifestAvailableRequest [(''pool_id'', JNum poolID)]))"

text \<open>The application passes content ids as one text, separated by bars.\<close>

definition cid_array :: "string \<Rightarrow> json" where
  "cid_array cidsBytes = JArr (map JStr (split_char (CHR ''|'') cidsBytes))"

definition Client_BatchUploadManifest :: "string \<Rightarrow> int \<Rightarrow> int \<Rightarrow> ('pk, 'sk, 'n) phone_call" where
  "Client_BatchUploadManifest cidsBytes poolID replicationFactor =
     gated (ManifestBatchUpload (literal ManifestBatchUploadMobileRequest
       [(''cid'', cid_array cidsBytes), (''pool_id'', JNum poolID), (''replication_factor'', JNum replicationFactor)]))"

text \<open>Errors are returned as a document; their text is not represented.\<close>

definition Client_ReplicateInPool :: "string \<Rightarrow> string \<Rightarrow> int \<Rightarrow> ('pk, 'sk, 'n) phone_call" where
  "Client_ReplicateInPool cidsBytes account poolID m ph =
     (case gated (ReplicateInPool (literal ReplicateRequest
          [(''cids'', cid_array cidsBytes), (''uploader'', JStr account), (''pool_id'', JNum poolID)])) m ph of
        (Err e, ph1) \<Rightarrow> (Ok (Doc (JObj [(''error'', JStr [])])), ph1)
      | (r, ph1) \<Rightarrow> (r, ph1))"

definition Client_BloxFreeSpace :: "('pk, 'sk, 'n) phone_call" where
  "Client_BloxFreeSpace = gated BloxFreeSpace"

definition Client_EraseBlData :: "('pk, 'sk, 'n) phone_call" where
  "Client_EraseBlData = gated EraseBlData"

definition Client_WifiRemoveall :: "('pk, 'sk, 'n) phone_call" where
  "Client_WifiRemoveall = gated WifiRemoveall_client"

definition Client_Reboot :: "('pk, 'sk, 'n) phone_call" where
  "Client_Reboot = gated Reboot_client"

definition Client_DeleteWifi :: "string \<Rightarrow> ('pk, 'sk, 'n) phone_call" where
  "Client_DeleteWifi name = gated (DeleteWifi_client (literal DeleteWifiRequest [(''name'', JStr name)]))"

definition Client_DisconnectWifi :: "string \<Rightarrow> ('pk, 'sk, 'n) phone_call" where
  "Client_DisconnectWifi name = gated (DisconnectWifi (literal DeleteWifiRequest [(''name'', JStr name)]))"

definition Client_Partition :: "('pk, 'sk, 'n) phone_call" where
  "Client_Partition = gated Partition_client"

definition Client_DeleteFulaConfig :: "('pk, 'sk, 'n) phone_call" where
  "Client_DeleteFulaConfig = gated DeleteFulaConfig_client"

definition Client_GetAccount :: "('pk, 'sk, 'n) phone_call" where
  "Client_GetAccount = gated GetAccount"

definition Client_FetchContainerLogs :: "string \<Rightarrow> string \<Rightarrow> ('pk, 'sk, 'n) phone_call" where
  "Client_FetchContainerLogs containerName tailCount =
     gated (FetchContainerLogs (literal FetchContainerLogsRequest [(''ContainerName'', JStr containerName), (''TailCount'', JStr tailCount)]))"

definition Client_FindBestAndTargetInLogs :: "string \<Rightarrow> string \<Rightarrow> ('pk, 'sk, 'n) phone_call" where
  "Client_FindBestAndTargetInLogs containerName tailCount =
     gated (FindBestAndTargetInLogs (literal FindBestAndTargetInLogsRequest
       [(''NodeContainerName'', JStr containerName), (''TailCount'', JStr tailCount)]))"

definition Client_GetFolderSize :: "string \<Rightarrow> ('pk, 'sk, 'n) phone_call" where
  "Client_GetFolderSize folderPath = gated (GetFolderSize (literal GetFolderSizeRequest [(''folder_path'', JStr folderPath)]))"

definition Client_GetDatastoreSize :: "('pk, 'sk, 'n) phone_call" where
  "Client_GetDatastoreSize = gated (GetDatastoreSize (literal GetDatastoreSizeRequest []))"

definition Client_GetDockerImageBuildDates :: "('pk, 'sk, 'n) phone_call" where
  "Client_GetDockerImageBuildDates = gated GetDockerImageBuildDates"

definition Client_GetClusterInfo :: "('pk, 'sk, 'n) phone_call" where
  "Client_GetClusterInfo = gated GetClusterInfo"

definition Client_ListPlugins :: "('pk, 'sk, 'n) phone_call" where
  "Client_ListPlugins = gated ListPlugins"

definition Client_ListActivePlugins :: "('pk, 'sk, 'n) phone_call" where
  "Client_ListActivePlugins = gated ListActivePlugins"

definition Client_InstallPlugin :: "string \<Rightarrow> string \<Rightarrow> ('pk, 'sk, 'n) phone_call" where
  "Client_InstallPlugin pluginName params = gated (InstallPlugin pluginName params)"

definition Client_UninstallPlugin :: "string \<Rightarrow> ('pk, 'sk, 'n) phone_call" where
  "Client_UninstallPlugin pluginName = gated (UninstallPlugin pluginName)"

definition Client_GetInstallOutput :: "string \<Rightarrow> string \<Rightarrow> ('pk, 'sk, 'n) phone_call" where
  "Client_GetInstallOutput pluginName params = gated (GetInstallOutput pluginName params)"

definition Client_GetInstallStatus :: "string \<Rightarrow> ('pk, 'sk, 'n) phone_call" where
  "Client_GetInstallStatus pluginName = gated (GetInstallStatus pluginName)"

definition Client_UpdatePlugin :: "string \<Rightarrow> ('pk, 'sk, 'n) phone_call" where
  "Client_UpdatePlugin pluginName = gated (UpdatePlugin pluginName)"

definition Client_AutoPinPair :: "string \<Rightarrow> string \<Rightarrow> ('pk, 'sk, 'n) phone_call" where
  "Client_AutoPinPair token endpoint =
     gated (AutoPinPair (literal AutoPinPairRequest [(''pinning_token'', JStr token), (''pinning_endpoint'', JStr endpoint)]))"

definition Client_AutoPinRefresh :: "string \<Rightarrow> ('pk, 'sk, 'n) phone_call" where
  "Client_AutoPinRefresh token = gated (AutoPinRefresh (literal AutoPinRefreshRequest [(''pinning_token'', JStr token)]))"

definition Client_AutoPinUnpair :: "('pk, 'sk, 'n) phone_call" where
  "Client_AutoPinUnpair = gated AutoPinUnpair"

text \<open>The content ids the device reads are those the application joined with bars; no ids at all become one empty id.\<close>

lemma cids_roundtrip:
  "\<forall>x \<in> set xs. CHR ''|'' \<notin> set x \<Longrightarrow> cid_array (join_char (CHR ''|'') xs) = JArr (map JStr (if xs = [] then [[]] else xs))"
  by (induction "CHR ''|''" xs rule: join_char.induct) (auto simp: cid_array_def split_char_append split_char_no_sep)


section \<open>Admission and shutdown\<close>

text \<open>
  \<open>lc_inflight\<close> counts the admitted calls; \<open>lc_open\<close> says whether the libp2p host and the datastore are open;
  \<open>lc_misused\<close> records that an admitted call used them after they were closed, \<open>lc_stray\<close> that a method without
  admission did.
\<close>

datatype shutdown_pc = Running | Draining | Freed

record lifecycle =
  lc_closed :: bool
  lc_cancelled :: bool
  lc_inflight :: nat
  lc_open :: bool
  lc_shutdown :: shutdown_pc
  lc_misused :: bool
  lc_stray :: bool

definition life_start :: lifecycle where
  "life_start = \<lparr>lc_closed = False, lc_cancelled = False, lc_inflight = 0, lc_open = True, lc_shutdown = Running,
     lc_misused = False, lc_stray = False\<rparr>"

definition beginOp :: "lifecycle \<Rightarrow> lifecycle option" where
  "beginOp c = (if lc_closed c then None else Some (c\<lparr>lc_inflight := lc_inflight c + 1\<rparr>))"

text \<open>\<^verbatim>\<open>Shutdown\<close> up to the wait: \<^const>\<open>None\<close> when the client was closed before.\<close>

definition Shutdown_lock :: "lifecycle \<Rightarrow> lifecycle option" where
  "Shutdown_lock c = (if lc_closed c then None else Some (c\<lparr>lc_closed := True, lc_cancelled := True, lc_shutdown := Draining\<rparr>))"

definition Shutdown_free :: "lifecycle \<Rightarrow> lifecycle option" where
  "Shutdown_free c = (if lc_shutdown c = Draining \<and> lc_inflight c = 0 then Some (c\<lparr>lc_open := False, lc_shutdown := Freed\<rparr>) else None)"

inductive life_step :: "lifecycle \<Rightarrow> lifecycle \<Rightarrow> bool" where
  admitted: "beginOp c = Some c' \<Longrightarrow> life_step c c'"
| uses_host: "0 < lc_inflight c \<Longrightarrow> life_step c (c\<lparr>lc_misused := lc_misused c \<or> \<not> lc_open c\<rparr>)"
| finished: "0 < lc_inflight c \<Longrightarrow> life_step c (c\<lparr>lc_inflight := lc_inflight c - 1\<rparr>)"
| locks: "Shutdown_lock c = Some c' \<Longrightarrow> life_step c c'"
| frees: "Shutdown_free c = Some c' \<Longrightarrow> life_step c c'"
| ungated: "life_step c (c\<lparr>lc_stray := lc_stray c \<or> \<not> lc_open c\<rparr>)"

inductive_cases life_stepE: "life_step c c'"

definition life_inv :: "lifecycle \<Rightarrow> bool" where
  "life_inv c \<longleftrightarrow> \<not> lc_misused c \<and> (lc_open c \<longleftrightarrow> lc_shutdown c \<noteq> Freed) \<and> (lc_closed c \<longleftrightarrow> lc_shutdown c \<noteq> Running) \<and>
     (lc_shutdown c = Freed \<longrightarrow> lc_inflight c = 0)"

lemma life_inv_step: "life_step c c' \<Longrightarrow> life_inv c \<Longrightarrow> life_inv c'"
  by (erule life_stepE) (auto simp: life_inv_def beginOp_def Shutdown_lock_def Shutdown_free_def split: if_splits)

lemma life_inv_run: "life_step\<^sup>*\<^sup>* life_start c \<Longrightarrow> life_inv c"
proof (induction rule: rtranclp_induct)
  case base
  show ?case by (simp add: life_inv_def life_start_def)
qed (rule life_inv_step)

lemma drained: "lc_inflight c = n \<Longrightarrow> life_step\<^sup>*\<^sup>* c (c\<lparr>lc_inflight := 0\<rparr>)"
proof (induction n arbitrary: c)
  case 0
  then have "c\<lparr>lc_inflight := 0\<rparr> = c" by simp
  then show ?case by simp
next
  case (Suc n)
  then have "life_step c (c\<lparr>lc_inflight := n\<rparr>)" using finished [of c] by simp
  moreover have "life_step\<^sup>*\<^sup>* (c\<lparr>lc_inflight := n\<rparr>) (c\<lparr>lc_inflight := n\<rparr>\<lparr>lc_inflight := 0\<rparr>)" by (rule Suc.IH) simp
  ultimately show ?case by simp
qed

text \<open>
  C25. No call touches the libp2p host or the datastore after \<^verbatim>\<open>Shutdown\<close> has closed them, under every interleaving
  of calls and shutdowns; and a shutdown can always finish once its calls do.
\<close>

theorem no_use_after_shutdown:
  assumes "life_step\<^sup>*\<^sup>* life_start c"
  shows "\<not> lc_misused c \<and> (\<not> lc_open c \<longrightarrow> lc_inflight c = 0 \<and> beginOp c = None) \<and>
    (lc_shutdown c = Draining \<longrightarrow> (\<exists>c'. life_step\<^sup>*\<^sup>* c c' \<and> lc_shutdown c' = Freed))"
proof -
  have inv: "life_inv c" by (rule life_inv_run [OF assms])
  have "\<exists>c'. life_step\<^sup>*\<^sup>* c c' \<and> lc_shutdown c' = Freed" if d: "lc_shutdown c = Draining"
  proof -
    let ?c0 = "c\<lparr>lc_inflight := 0\<rparr>"
    from d have "Shutdown_free ?c0 = Some (?c0\<lparr>lc_open := False, lc_shutdown := Freed\<rparr>)" by (simp add: Shutdown_free_def)
    with drained [OF refl, of c] frees have "life_step\<^sup>*\<^sup>* c (?c0\<lparr>lc_open := False, lc_shutdown := Freed\<rparr>)"
      by (metis rtranclp.rtrancl_into_rtrancl)
    then show ?thesis by (intro exI [of _ "?c0\<lparr>lc_open := False, lc_shutdown := Freed\<rparr>"]) simp
  qed
  with inv show ?thesis by (auto simp: life_inv_def beginOp_def)
qed

text \<open>\<^verbatim>\<open>Flush\<close>, \<^verbatim>\<open>SetAuth\<close> and \<^verbatim>\<open>ID\<close> are not admitted, so they can meet a closed host.\<close>

lemma ungated_use_after_shutdown: "\<exists>c. life_step\<^sup>*\<^sup>* life_start c \<and> lc_stray c"
proof -
  let ?c1 = "life_start\<lparr>lc_closed := True, lc_cancelled := True, lc_shutdown := Draining\<rparr>"
  let ?c2 = "?c1\<lparr>lc_open := False, lc_shutdown := Freed\<rparr>"
  have "life_step life_start ?c1" by (rule locks) (simp add: Shutdown_lock_def life_start_def)
  moreover have "life_step ?c1 ?c2" by (rule frees) (simp add: Shutdown_free_def life_start_def)
  moreover have "life_step ?c2 (?c2\<lparr>lc_stray := lc_stray ?c2 \<or> \<not> lc_open ?c2\<rparr>)" by (rule ungated)
  ultimately have "life_step\<^sup>*\<^sup>* life_start (?c2\<lparr>lc_stray := lc_stray ?c2 \<or> \<not> lc_open ?c2\<rparr>)"
    by (meson converse_rtranclp_into_rtranclp r_into_rtranclp)
  moreover have "lc_stray (?c2\<lparr>lc_stray := lc_stray ?c2 \<or> \<not> lc_open ?c2\<rparr>)" by simp
  ultimately show ?thesis by blast
qed

theorem no_use_after_shutdown_witness:
  "\<not> lc_misused (life_start\<lparr>lc_inflight := 1\<rparr>)"
proof -
  have "life_step life_start (life_start\<lparr>lc_inflight := 1\<rparr>)"
    by (rule admitted) (simp add: beginOp_def life_start_def)
  then have "life_step\<^sup>*\<^sup>* life_start (life_start\<lparr>lc_inflight := 1\<rparr>)" by (rule r_into_rtranclp)
  from no_use_after_shutdown [OF this] show ?thesis by simp
qed



section \<open>Reaching a device\<close>

text \<open>
  The libp2p host and the IPFS DHT: \<open>h_connect\<close> and \<open>h_dial\<close> try the addresses of the peer store, \<open>dht_ready\<close> waits up to
  15 seconds for the bootstrap, \<open>dht_FindPeer\<close> asks for up to 30 seconds; \<open>h_ping\<close> gives the round trip in
  nanoseconds.
\<close>

record 'w phone_host =
  h_connected :: "peerID \<Rightarrow> 'w \<Rightarrow> bool \<times> 'w"
  h_ClosePeer :: "peerID \<Rightarrow> 'w \<Rightarrow> 'w"
  h_AddAddrs :: "peerID \<Rightarrow> string list \<Rightarrow> 'w \<Rightarrow> 'w"
  h_connect :: "peerID \<Rightarrow> 'w \<Rightarrow> bool \<times> 'w"
  h_dial :: "peerID \<Rightarrow> 'w \<Rightarrow> bool \<times> 'w"
  h_ping :: "peerID \<Rightarrow> 'w \<Rightarrow> int option \<times> 'w"
  dht_ready :: "'w \<Rightarrow> bool \<times> 'w"
  dht_FindPeer :: "peerID \<Rightarrow> 'w \<Rightarrow> string list option \<times> 'w"

datatype reach = Reached | DirectFailed | DhtNotReady | DhtFindFailed | DhtNoAddresses | RetryFailed | BadPeer

definition ask_dht :: "'w phone_host \<Rightarrow> (peerID \<Rightarrow> 'w \<Rightarrow> bool \<times> 'w) \<Rightarrow> peerID \<Rightarrow> 'w \<Rightarrow> reach \<times> 'w" where
  "ask_dht h attempt pid w =
     (case dht_ready h w of
        (False, w1) \<Rightarrow> (DhtNotReady, w1)
      | (True, w1) \<Rightarrow>
          (case dht_FindPeer h pid w1 of
             (None, w2) \<Rightarrow> (DhtFindFailed, w2)
           | (Some addrs, w2) \<Rightarrow>
               if addrs = [] then (DhtNoAddresses, w2)
               else (case attempt pid (h_AddAddrs h pid addrs w2) of
                       (True, w3) \<Rightarrow> (Reached, w3)
                     | (False, w3) \<Rightarrow> (RetryFailed, w3))))"

definition reach_peer :: "'w phone_host \<Rightarrow> bool \<Rightarrow> (peerID \<Rightarrow> 'w \<Rightarrow> bool \<times> 'w) \<Rightarrow> peerID \<Rightarrow> 'w \<Rightarrow> reach \<times> 'w" where
  "reach_peer h ipfsDHT attempt pid w =
     (case h_connected h pid w of
        (c, w0) \<Rightarrow>
          (case attempt pid (if c then w0 else h_ClosePeer h pid w0) of
             (True, w1) \<Rightarrow> (Reached, w1)
           | (False, w1) \<Rightarrow>
               (let w2 = h_ClosePeer h pid w1 in
                if \<not> ipfsDHT then (DirectFailed, w2) else ask_dht h attempt pid w2)))"

definition ensureConnected :: "'w phone_host \<Rightarrow> bool \<Rightarrow> peerID \<Rightarrow> 'w \<Rightarrow> reach \<times> 'w" where
  "ensureConnected h ipfsDHT = reach_peer h ipfsDHT (h_connect h)"

definition drop_suffix :: "string \<Rightarrow> string \<Rightarrow> string" where
  "drop_suffix s suf = rev (TrimPrefix (rev s) (rev suf))"

definition DialContext :: "(string \<Rightarrow> peerID option) \<Rightarrow> 'w phone_host \<Rightarrow> bool \<Rightarrow> string \<Rightarrow> 'w \<Rightarrow> reach \<times> 'w" where
  "DialContext decode h ipfsDHT addr w =
     (case decode (drop_suffix addr ''.invalid:80'') of
        None \<Rightarrow> (BadPeer, w)
      | Some pid \<Rightarrow> reach_peer h ipfsDHT (h_dial h) pid w)"

text \<open>\<^verbatim>\<open>noop\<close> says whether the exchange is the one for tests.\<close>

definition ConnectToBlox :: "'w phone_host \<Rightarrow> bool \<Rightarrow> bool \<Rightarrow> ('pk, 'sk, 'n) mobile \<Rightarrow> 'w \<Rightarrow> (mobile_error, reach) outcome \<times> 'w" where
  "ConnectToBlox h ipfsDHT noop m w =
     (if mob_closed m then (Err ErrClientClosed, w)
      else if noop then (Ok Reached, w)
      else (case ensureConnected h ipfsDHT (mob_bloxPid m) w of (r, w1) \<Rightarrow> (Ok r, w1)))"

lemma reach_peer_Reached:
  "reach_peer h ipfsDHT attempt pid w = (Reached, w') \<Longrightarrow> \<exists>v. attempt pid v = (True, w')"
  by (auto simp: reach_peer_def ask_dht_def Let_def split: prod.splits bool.splits option.splits if_splits)


section \<open>The connection test\<close>

text \<open>\<^verbatim>\<open>time.Duration\<close> division and \<^verbatim>\<open>Milliseconds\<close> truncate; round trips are not negative.\<close>

fun ping_loop :: "'w phone_host \<Rightarrow> peerID \<Rightarrow> nat \<Rightarrow> 'w \<Rightarrow> (int option list) \<times> 'w" where
  "ping_loop h pid 0 w = ([], w)"
| "ping_loop h pid (Suc n) w =
     (case h_ping h pid w of (r, w1) \<Rightarrow> (case ping_loop h pid n w1 of (rs, w2) \<Rightarrow> (r # rs, w2)))"

definition ping_errors :: "int option list \<Rightarrow> string list" where
  "ping_errors rs = map (\<lambda>i. ''ping '' @ Itoa (int (Suc i)) @ '': '') (filter (\<lambda>i. rs ! i = None) [0..<length rs])"

definition ping_result :: "bool \<Rightarrow> int \<Rightarrow> int \<Rightarrow> string list \<Rightarrow> json" where
  "ping_result success successes avg errs =
     JObj [(''success'', JBool success), (''successes'', JNum successes), (''avg_rtt_ms'', JNum avg),
           (''errors'', if errs = [] then JNull else JArr (map JStr errs))]"

definition ping_report :: "int option list \<Rightarrow> json" where
  "ping_report rs =
     (let rtts = List.map_filter id rs; successes = length rtts;
          avgRtt = (if 0 < successes then sum_list rtts div int successes div 1000000 else 0) in
      ping_result (0 < successes) (int successes) avgRtt (ping_errors rs))"

definition Client_Ping :: "'w phone_host \<Rightarrow> bool \<Rightarrow> ('pk, 'sk, 'n) mobile \<Rightarrow> 'w \<Rightarrow> (mobile_error, json) outcome \<times> 'w" where
  "Client_Ping h ipfsDHT m w =
     (if mob_closed m then (Err ErrClientClosed, w)
      else (case ensureConnected h ipfsDHT (mob_bloxPid m) w of
              (Reached, w1) \<Rightarrow> (case ping_loop h (mob_bloxPid m) 3 w1 of (rs, w2) \<Rightarrow> (Ok (ping_report rs), w2))
            | (_, w1) \<Rightarrow> (Ok (ping_result False 0 0 [''connection failed: '']), w1)))"

lemma ping_loop_length: "ping_loop h pid n w = (rs, w') \<Longrightarrow> length rs = n"
  by (induction n arbitrary: w rs) (auto split: prod.splits)

lemma average_bounds:
  "xs \<noteq> [] \<Longrightarrow> \<forall>x \<in> set xs. lo \<le> x \<and> x \<le> hi \<Longrightarrow> lo \<le> sum_list xs div int (length xs) \<and> sum_list xs div int (length xs) \<le> hi"
proof -
  assume ne: "xs \<noteq> []" and b: "\<forall>x \<in> set xs. lo \<le> x \<and> x \<le> hi"
  have "lo * int (length xs) \<le> sum_list xs \<and> sum_list xs \<le> hi * int (length xs)" using b
    by (induction xs) (auto simp: algebra_simps)
  moreover from ne have n: "0 < int (length xs)" by simp
  ultimately have "lo * int (length xs) div int (length xs) \<le> sum_list xs div int (length xs)"
    "sum_list xs div int (length xs) \<le> hi * int (length xs) div int (length xs)" using zdiv_mono1 [OF _ n] by blast+
  with n show ?thesis by simp
qed

lemma map_filter_id: "List.map_filter id (x # rs) = (case x of None \<Rightarrow> List.map_filter id rs | Some r \<Rightarrow> r # List.map_filter id rs)"
  by (simp add: List.map_filter_def split: option.splits)

lemma in_map_filter_id: "x \<in> set (List.map_filter id rs) \<longleftrightarrow> Some x \<in> set rs"
  by (induction rs) (auto simp: map_filter_id List.map_filter_def)

lemma ping_counts: "length (List.map_filter id rs) + length (ping_errors rs) = length rs"
proof -
  have "length (List.map_filter id rs) = length (filter (\<lambda>x. x \<noteq> None) rs)" by (simp add: List.map_filter_def)
  moreover have "length (ping_errors rs) = length (filter (\<lambda>x. x = None) rs)"
    by (simp add: ping_errors_def length_filter_conv_card) (metis (lifting) add_0 nth_upt)
  ultimately show ?thesis using sum_length_filter_compl [of "\<lambda>x. x \<noteq> None" rs] by simp
qed

lemma ping_loop_answers:
  "ping_loop h pid n w = (rs, w') \<Longrightarrow> Some r \<in> set rs \<Longrightarrow> \<exists>v v'. h_ping h pid v = (Some r, v')"
  by (induction n arbitrary: w rs) (auto split: prod.splits, blast)

text \<open>
  The connection test counts right: of a device that could be reached every one of the three pings is
  either counted or reported as an error, success means at least one of them, and the average lies between the
  shortest and the longest round trip.
\<close>

lemma ping_report_right:
  assumes "Client_Ping h ipfsDHT m w = (Ok j, w')" and "\<And>pid v r v'. h_ping h pid v = (Some r, v') \<Longrightarrow> lo \<le> r \<and> r \<le> hi"
  shows "\<exists>s avg errs. j = ping_result (0 < s) s avg errs \<and> 0 \<le> s \<and>
    (errs = [''connection failed: ''] \<and> s = 0 \<or> s + int (length errs) = 3) \<and>
    (0 < s \<longrightarrow> lo div 1000000 \<le> avg \<and> avg \<le> hi div 1000000)"
proof (cases "fst (ensureConnected h ipfsDHT (mob_bloxPid m) w) = Reached")
  case False
  with assms(1) have "j = ping_result False 0 0 [''connection failed: '']"
    by (auto simp: Client_Ping_def split: if_splits prod.splits reach.splits)
  then have "j = ping_result (0 < (0::int)) 0 0 [''connection failed: '']" by simp
  then show ?thesis by (intro exI [of _ 0] exI [of _ "[''connection failed: '']"]) simp
next
  case True
  with assms(1) obtain w1 rs where p: "ping_loop h (mob_bloxPid m) 3 w1 = (rs, w')" and j: "j = ping_report rs"
    by (auto simp: Client_Ping_def split: if_splits prod.splits reach.splits)
  let ?x = "List.map_filter id rs"
  let ?avg = "if 0 < length ?x then sum_list ?x div int (length ?x) div 1000000 else 0"
  have "lo \<le> x \<and> x \<le> hi" if "x \<in> set ?x" for x
    using that ping_loop_answers [OF p, of x] assms(2) by (auto simp: in_map_filter_id)
  then have "lo div 1000000 \<le> ?avg \<and> ?avg \<le> hi div 1000000" if "0 < length ?x"
    using that average_bounds [of ?x lo hi] zdiv_mono1 [of _ _ "1000000"] by simp
  moreover have "int (length ?x) + int (length (ping_errors rs)) = 3"
    using ping_counts [of rs] ping_loop_length [OF p] by linarith
  moreover have "j = ping_result (0 < int (length ?x)) (int (length ?x)) ?avg (ping_errors rs)"
    by (simp add: j ping_report_def Let_def)
  ultimately show ?thesis by (intro exI [of _ "int (length ?x)"] exI [of _ ?avg] exI [of _ "ping_errors rs"]) simp
qed

definition quiet_host :: "nat phone_host" where
  "quiet_host = \<lparr>h_connected = (\<lambda>_ w. (True, w)), h_ClosePeer = (\<lambda>_ w. w), h_AddAddrs = (\<lambda>_ _ w. w), h_connect = (\<lambda>_ w. (True, w)),
     h_dial = (\<lambda>_ w. (True, w)), h_ping = (\<lambda>_ n. (if n < 3 then (if n = 1 then None else Some (int n)) else Some 2, Suc n)),
     dht_ready = (\<lambda>w. (True, w)), dht_FindPeer = (\<lambda>_ w. (None, w))\<rparr>"

lemma quiet_ping:
  "mob_closed m = False \<Longrightarrow> Client_Ping quiet_host True m 0 = (Ok (ping_result True 2 0 [''ping 2: '']), 3)"
proof -
  assume op: "mob_closed m = False"
  have "[0..<3] = [0, 1, 2]" by (simp add: upt_rec)
  moreover have "Itoa 2 = ''2''" by code_simp
  ultimately have "ping_errors [Some 0, None, Some 2] = [''ping 2: '']" by (simp add: ping_errors_def)
  then have "ping_report [Some 0, None, Some 2] = ping_result True 2 0 [''ping 2: '']"
    by (simp add: ping_report_def map_filter_id List.map_filter_def)
  moreover have "ping_loop quiet_host pid 3 0 = ([Some 0, None, Some 2], 3)" for pid by (simp add: quiet_host_def numeral_3_eq_3)
  moreover have "ensureConnected quiet_host True pid 0 = (Reached, 0)" for pid
    by (simp add: ensureConnected_def reach_peer_def quiet_host_def)
  ultimately show ?thesis using op by (simp add: Client_Ping_def)
qed

theorem ping_report_right_witness:
  "\<exists>s avg errs. ping_result True 2 0 [''ping 2: ''] = ping_result (0 < s) s avg errs \<and> 0 \<le> s \<and>
    (errs = [''connection failed: ''] \<and> s = 0 \<or> s + int (length errs) = 3) \<and>
    (0 < s \<longrightarrow> 0 div 1000000 \<le> avg \<and> avg \<le> 2 div 1000000)"
proof -
  let ?m = "\<lparr>mob_crypto = undefined, mob_bl = None, mob_bloxPid = [], mob_closed = False\<rparr> :: (unit, unit, unit) mobile"
  have "0 \<le> r \<and> r \<le> 2" if "h_ping quiet_host pid v = (Some r, v')" for pid v r v'
    using that by (auto simp: quiet_host_def split: if_splits)
  with ping_report_right [OF quiet_ping [of ?m], of 0 2] show ?thesis by simp
qed


section \<open>Keys of a phone\<close>

text \<open>\<open>gen\<close> is the source of random keys.\<close>

definition GenerateEd25519Key :: "'k keylib \<Rightarrow> ('w \<Rightarrow> 'k option \<times> 'w) \<Rightarrow> 'w \<Rightarrow> nat list option \<times> 'w" where
  "GenerateEd25519Key lib gen w = (case gen w of (k, w1) \<Rightarrow> (Option.bind k (MarshalPrivateKey lib), w1))"

definition GenerateEd25519KeyFromString :: "'k keylib \<Rightarrow> string \<Rightarrow> nat list option" where
  "GenerateEd25519KeyFromString lib secret =
     Option.bind (Ed25519FromSeed lib (key_sha256 lib (string_to_bytes secret))) (MarshalPrivateKey lib)"


section \<open>Starting a client\<close>

text \<open>The fields of \<^verbatim>\<open>Config\<close>; \<^const>\<open>None\<close> is the nil list of relays.\<close>

record phone_config =
  pf_Identity :: "nat list"
  pf_StorePath :: string
  pf_Exchange :: string
  pf_BloxAddr :: string
  pf_StaticRelays :: "string list option"
  pf_ForceReachabilityPrivate :: bool
  pf_DisableResourceManger :: bool
  pf_SyncWrites :: bool
  pf_AllowTransientConnection :: bool
  pf_PoolName :: string
  pf_BlockchainEndpoint :: string
  pf_IpfsDHTLookupDisabled :: bool

definition devRelays :: "string list" where
  "devRelays = [''/dns/relay.dev.fx.land/tcp/4001/p2p/12D3KooWDRrBaAfPwsGJivBoUw5fE7ZpDiyfUjqgiURq2DEcL835'']"

definition NewConfig :: phone_config where
  "NewConfig = \<lparr>pf_Identity = [], pf_StorePath = [], pf_Exchange = [], pf_BloxAddr = [], pf_StaticRelays = Some devRelays,
     pf_ForceReachabilityPrivate = True, pf_DisableResourceManger = True, pf_SyncWrites = False, pf_AllowTransientConnection = True,
     pf_PoolName = ''0'', pf_BlockchainEndpoint = ''api.node3.functionyard.fula.network'', pf_IpfsDHTLookupDisabled = False\<rparr>"

text \<open>
  The libraries: multiaddresses (\<open>addr_info\<close> gives the peer and the address in front of it), the key library, and the
  constructors of the host (with the identity and the static relays), the exchange, the chain client and the DHT,
  which may fail.
\<close>

record ('k, 'w) phone_libs =
  addr_info :: "string \<Rightarrow> (peerID \<times> string list) option"
  valid_multiaddr :: "string \<Rightarrow> bool"
  phone_keys :: "'k keylib"
  lib_Decode :: "string \<Rightarrow> peerID option"
  libp2p_New :: "'k option \<Rightarrow> peerID list \<Rightarrow> bool \<Rightarrow> 'w \<Rightarrow> peerID option \<times> 'w"
  new_exchange :: "peerID \<Rightarrow> string \<Rightarrow> 'w \<Rightarrow> bool \<times> 'w"
  new_chain :: "peerID \<Rightarrow> 'k option \<Rightarrow> phone_config \<Rightarrow> 'w \<Rightarrow> bool \<times> 'w"
  dht_New :: "'w \<Rightarrow> bool \<times> 'w"
  ex_SetAuth :: "peerID \<Rightarrow> peerID \<Rightarrow> bool \<Rightarrow> 'w \<Rightarrow> bool \<times> 'w"
  ex_Start :: "'w \<Rightarrow> bool \<times> 'w"

datatype init_error = BadRelay | BadIdentity | HostFailed | NoBloxAddr | BadBloxAddr | ExchangeFailed | ChainFailed | AuthFailed | StartFailed

text \<open>What \<^verbatim>\<open>init\<close> has filled in of the client; \<open>pc_addrs\<close> are the addresses it put into the peer store, and for how long.\<close>

datatype ttl = PermanentTTL | OneHour

record 'k phone_client =
  pc_relays :: "string list"
  pc_host :: "peerID option"
  pc_bloxPid :: peerID
  pc_addrs :: "(peerID \<times> string \<times> ttl) list"
  pc_noop :: bool
  pc_bl :: "(peerID \<times> 'k option) option"
  pc_dht :: bool

definition no_client :: "'k phone_client" where
  "no_client = \<lparr>pc_relays = [], pc_host = None, pc_bloxPid = [], pc_addrs = [], pc_noop = False, pc_bl = None, pc_dht = False\<rparr>"

definition noopExchange :: string where
  "noopExchange = ''noop''"

text \<open>\<^verbatim>\<open>SetAuth\<close> of the client.\<close>

definition Client_SetAuth :: "('k, 'w) phone_libs \<Rightarrow> string \<Rightarrow> string \<Rightarrow> bool \<Rightarrow> 'w \<Rightarrow> bool \<times> 'w" where
  "Client_SetAuth L on subject allow w =
     (case (lib_Decode L on, lib_Decode L subject) of
        (Some onp, Some subp) \<Rightarrow> ex_SetAuth L onp subp allow w
      | _ \<Rightarrow> (False, w))"

definition phone_key :: "'k keylib \<Rightarrow> nat list \<Rightarrow> (init_error, 'k option) outcome" where
  "phone_key lib identity =
     (if identity = [] then Ok None else and_then (or_err BadIdentity (UnmarshalPrivateKey lib identity)) (\<lambda>pk. Ok (Some pk)))"

text \<open>The address of the device, and a circuit through every relay unless the address is a circuit already.\<close>

definition add_blox_addrs :: "('k, 'w) phone_libs \<Rightarrow> phone_config \<Rightarrow> string list \<Rightarrow> 'k phone_client \<Rightarrow> (init_error, 'k phone_client) outcome" where
  "add_blox_addrs L cfg relays mc =
     (if pf_BloxAddr cfg = [] then (if pf_Exchange cfg \<noteq> noopExchange then Err NoBloxAddr else Ok mc)
      else and_then (or_err BadBloxAddr (addr_info L (pf_BloxAddr cfg))) (\<lambda>(pid, addrs).
        Ok (mc\<lparr>pc_bloxPid := pid,
               pc_addrs := map (\<lambda>a. (pid, a, PermanentTTL)) addrs @
                 (if \<not> Contains (pf_BloxAddr cfg) ''p2p-circuit''
                  then map (\<lambda>r. (pid, r, OneHour)) (filter (valid_multiaddr L) (map (\<lambda>r. r @ ''/p2p-circuit'') relays)) else [])\<rparr>)))"

text \<open>The default branch on \<^verbatim>\<open>Exchange\<close> (the exchange for tests starts without doing anything); a DHT that cannot be made is left out.\<close>

definition init_exchange :: "('k, 'w) phone_libs \<Rightarrow> phone_config \<Rightarrow> peerID \<Rightarrow> 'k option \<Rightarrow> 'k phone_client \<Rightarrow> 'w \<Rightarrow>
    (init_error option \<times> 'k phone_client) \<times> 'w" where
  "init_exchange L cfg hid pk mc w =
     (case new_exchange L hid (pf_PoolName cfg) w of
        (False, w1) \<Rightarrow> ((Some ExchangeFailed, mc), w1)
      | (True, w1) \<Rightarrow>
          (case new_chain L hid pk cfg w1 of
             (False, w2) \<Rightarrow> ((Some ChainFailed, mc), w2)
           | (True, w2) \<Rightarrow>
               (case (if \<not> pf_IpfsDHTLookupDisabled cfg \<and> pc_bloxPid mc \<noteq> [] then dht_New L w2 else (False, w2)) of
                  (dht, w3) \<Rightarrow>
                    (let mc1 = mc\<lparr>pc_dht := dht, pc_bl := Some (hid, pk)\<rparr> in
                     if pc_bloxPid mc = [] then ((None, mc1), w3)
                     else (case Client_SetAuth L hid (pc_bloxPid mc) True w3 of
                             (True, w4) \<Rightarrow> ((None, mc1), w4)
                           | (False, w4) \<Rightarrow> ((Some AuthFailed, mc1), w4))))))"

definition init_started :: "('k, 'w) phone_libs \<Rightarrow> (init_error option \<times> 'k phone_client) \<times> 'w \<Rightarrow> (init_error option \<times> 'k phone_client) \<times> 'w" where
  "init_started L r =
     (case r of
        ((Some e, mc), w) \<Rightarrow> ((Some e, mc), w)
      | ((None, mc), w) \<Rightarrow> (case ex_Start L w of (True, w1) \<Rightarrow> ((None, mc), w1) | (False, w1) \<Rightarrow> ((Some StartFailed, mc), w1)))"

definition Config_init :: "('k, 'w) phone_libs \<Rightarrow> phone_config \<Rightarrow> 'w \<Rightarrow> (init_error option \<times> 'k phone_client) \<times> 'w" where
  "Config_init L cfg w =
     (let relays = (case pf_StaticRelays cfg of None \<Rightarrow> devRelays | Some rs \<Rightarrow> rs);
          mc = no_client\<lparr>pc_relays := relays\<rparr> in
      if list_ex (\<lambda>r. addr_info L r = None) relays then ((Some BadRelay, mc), w)
      else (case phone_key (phone_keys L) (pf_Identity cfg) of
              Ok pk \<Rightarrow>
                (case libp2p_New L pk (map (\<lambda>r. fst (the (addr_info L r))) relays) (pf_ForceReachabilityPrivate cfg) w of
                   (None, w1) \<Rightarrow> ((Some HostFailed, mc), w1)
                 | (Some hid, w1) \<Rightarrow>
                     (let mc1 = mc\<lparr>pc_host := Some hid\<rparr> in
                      case add_blox_addrs L cfg relays mc1 of
                        Ok mc2 \<Rightarrow>
                          if pf_Exchange cfg = noopExchange then ((None, mc2\<lparr>pc_noop := True\<rparr>), w1)
                          else init_started L (init_exchange L cfg hid pk mc2 w1)
                      | _ \<Rightarrow> ((Some (if pf_BloxAddr cfg = [] then NoBloxAddr else BadBloxAddr), mc1), w1)))
            | _ \<Rightarrow> ((Some BadIdentity, mc), w)))"

text \<open>\<^verbatim>\<open>NewClient\<close>: on an error the half-made client is dropped.\<close>

definition NewClient :: "('k, 'w) phone_libs \<Rightarrow> phone_config \<Rightarrow> 'w \<Rightarrow> (init_error, 'k phone_client) outcome \<times> 'w" where
  "NewClient L cfg w = (case Config_init L cfg w of ((None, mc), w1) \<Rightarrow> (Ok mc, w1) | ((Some e, mc), w1) \<Rightarrow> (Err e, w1))"

lemma phone_key_None: "phone_key lib identity = Ok pk \<Longrightarrow> pk = None \<longleftrightarrow> identity = []"
  by (auto simp: phone_key_def outcome_simps split: if_splits)

lemma add_blox_addrs_Ok:
  "add_blox_addrs L cfg relays mc = Ok mc' \<Longrightarrow> pc_addrs mc = [] \<Longrightarrow>
   pc_host mc' = pc_host mc \<and> pc_bl mc' = pc_bl mc \<and> (\<forall>(pid, a, t) \<in> set (pc_addrs mc'). pid = pc_bloxPid mc')"
  by (auto simp: add_blox_addrs_def outcome_simps split: if_splits)

lemma init_exchange_Ok:
  "init_exchange L cfg hid pk mc w = ((None, mc'), w') \<Longrightarrow>
   pc_host mc' = pc_host mc \<and> pc_bl mc' = Some (hid, pk) \<and> pc_addrs mc' = pc_addrs mc \<and> pc_bloxPid mc' = pc_bloxPid mc"
  by (auto simp: init_exchange_def Let_def split: prod.splits bool.splits if_splits)

text \<open>
  A client that could be started signs its requests with the key of its configured identity, and does not sign
  at all exactly when no identity was configured; it names the peer id of its own host as their sender, and the peer
  store holds addresses of the configured device only.
\<close>

lemma client_signs_with_identity:
  assumes "NewClient L cfg w = (Ok mc, w')" and "pf_Exchange cfg \<noteq> noopExchange"
  shows "\<exists>hid pk. pc_host mc = Some hid \<and> pc_bl mc = Some (hid, pk) \<and> phone_key (phone_keys L) (pf_Identity cfg) = Ok pk \<and>
    (pk = None \<longleftrightarrow> pf_Identity cfg = []) \<and> (\<forall>(pid, a, t) \<in> set (pc_addrs mc). pid = pc_bloxPid mc)"
proof -
  from assms obtain pk hid w1 mc2 relays where pk: "phone_key (phone_keys L) (pf_Identity cfg) = Ok pk"
    and blox: "add_blox_addrs L cfg relays (no_client\<lparr>pc_relays := relays, pc_host := Some hid\<rparr>) = Ok mc2"
    and start: "init_started L (init_exchange L cfg hid pk mc2 w1) = ((None, mc), w')"
    by (auto simp: NewClient_def Config_init_def Let_def split: prod.splits option.splits if_splits outcome.splits)
  from start obtain w2 where "init_exchange L cfg hid pk mc2 w1 = ((None, mc), w2)"
    by (auto simp: init_started_def split: prod.splits option.splits bool.splits)
  from init_exchange_Ok [OF this] add_blox_addrs_Ok [OF blox] phone_key_None [OF pk] pk show ?thesis
    by (auto simp: no_client_def)
qed

text \<open>A client for tests has no chain client: every call of it panics.\<close>

lemma noop_client_panics: "mob_bl m = None \<Longrightarrow> \<not> mob_closed m \<Longrightarrow> gated remote m ph = (Panic, ph)"
  by (simp add: gated_def)

text \<open>A phone and a device made from the same secret are the same peer.\<close>

lemma shared_secret_is_shared_identity:
  "GeneratePrivateKeyFromSeed lib secret = map_option b64_encode (GenerateEd25519KeyFromString lib secret)"
  by (simp add: GeneratePrivateKeyFromSeed_def GenerateEd25519KeyFromString_def map_option_bind comp_def)

definition sample_libs :: "(nat list, nat) phone_libs" where
  "sample_libs = \<lparr>addr_info = (\<lambda>a. Some (a, [a])), valid_multiaddr = (\<lambda>_. True), phone_keys = sample_keys, lib_Decode = Some,
     libp2p_New = (\<lambda>pk rs p w. (Some ''phone'', w)), new_exchange = (\<lambda>h n w. (True, w)), new_chain = (\<lambda>h k c w. (True, w)),
     dht_New = (\<lambda>w. (True, w)), ex_SetAuth = (\<lambda>a b c w. (True, w)), ex_Start = (\<lambda>w. (True, w))\<rparr>"

lemma sample_started:
  "NewClient sample_libs (NewConfig\<lparr>pf_Identity := [1, 2], pf_BloxAddr := ''b'', pf_StaticRelays := Some []\<rparr>) 0 =
   (Ok \<lparr>pc_relays = [], pc_host = Some ''phone'', pc_bloxPid = ''b'', pc_addrs = [(''b'', ''b'', PermanentTTL)], pc_noop = False,
        pc_bl = Some (''phone'', Some [1, 2]), pc_dht = True\<rparr>, 0)"
  by (simp add: NewClient_def Config_init_def sample_libs_def NewConfig_def no_client_def phone_key_def sample_keys_def add_blox_addrs_def
      init_started_def init_exchange_def Client_SetAuth_def noopExchange_def Let_def)

theorem client_signs_with_identity_witness:
  "\<exists>hid pk. Some ''phone'' = Some hid \<and> Some (''phone'', Some [1, 2]) = Some (hid, pk) \<and>
    phone_key sample_keys [1, 2] = Ok pk \<and> (pk = None \<longleftrightarrow> [1, 2::nat] = [])"
  using client_signs_with_identity [OF sample_started] by (auto simp: NewConfig_def noopExchange_def sample_libs_def)

text \<open>A client whose device address is missing has opened its host, and nobody closes it.\<close>

lemma failed_start_leaks_host:
  "\<exists>mc. Config_init sample_libs NewConfig 0 = ((Some NoBloxAddr, mc), 0) \<and> pc_host mc = Some ''phone''"
  by (simp add: Config_init_def sample_libs_def NewConfig_def phone_key_def no_client_def add_blox_addrs_def noopExchange_def Let_def
      devRelays_def)

end
