(* ===== verification/Watchdog.thy ===== *)
theory Watchdog
  imports PoolReconcile
begin

text \<open>
  The link between the device and its IPFS daemon (kubo), \<^verbatim>\<open>blox/kubo_proxy.go\<close>: registration of the
  stream protocols through kubo's HTTP API, the tunnel to the pool's cluster, and the watchdog that asks
  the host for a restart of the services when the device is no longer reachable through its relay. One
  tick of the watchdog is a function from its variables to its variables; a run is a sequence of ticks
  between which anything may happen to the device and to kubo.
\<close>

section \<open>Constants\<close>

definition defaultKuboAPIAddr :: string where "defaultKuboAPIAddr = ''127.0.0.1:5001''"

definition fulaBlockchainProtocol :: string where "fulaBlockchainProtocol = ''/x/fula-blockchain''"
definition fulaPingProtocol :: string where "fulaPingProtocol = ''/x/fula-ping''"
definition fulaClusterProtocol :: string where "fulaClusterProtocol = ''/x/fula-cluster''"

definition staticRelayPeerID :: string where
  "staticRelayPeerID = ''12D3KooWDRrBaAfPwsGJivBoUw5fE7ZpDiyfUjqgiURq2DEcL835''"

definition relayCircuitMissingThreshold :: nat where "relayCircuitMissingThreshold = 2"
definition minTimeBetweenFulaRestarts :: int where "minTimeBetweenFulaRestarts = 5 * minute"
definition maxRestartsPerWindow :: nat where "maxRestartsPerWindow = 3"
definition restartRateWindow :: int where "restartRateWindow = 1 * hour"
definition bounceVerifyGracePeriod :: int where "bounceVerifyGracePeriod = 3 * minute"
definition maxConsecutiveFailedRestarts :: nat where "maxConsecutiveFailedRestarts = 3"
definition longCooldownAfterFailures :: int where "longCooldownAfterFailures = 1 * hour"
definition bootstrapGracePeriod :: int where "bootstrapGracePeriod = 5 * minute"

definition fulaRestartCommandPath :: string where
  "fulaRestartCommandPath = ''/home/commands/.command_restart_fula''"


section \<open>Where kubo reaches the device\<close>

text \<open>
  The network interfaces as the operating system reports them: the names (\<^const>\<open>None\<close> when listing
  fails; listing is tried twice), and the addresses of an interface. Only IPv4 addresses matter.
\<close>

datatype net_addr = IPv4 string | OtherAddr

record interfaces =
  nics :: "string list option"
  nics_again :: "string list option"
  nic_addrs :: "string \<Rightarrow> net_addr list option"

fun first_ipv4 :: "net_addr list \<Rightarrow> string" where
  "first_ipv4 [] = []"
| "first_ipv4 (IPv4 ip # as) = ip"
| "first_ipv4 (OtherAddr # as) = first_ipv4 as"

definition getIPv4FromInterface :: "interfaces \<Rightarrow> string \<Rightarrow> string" where
  "getIPv4FromInterface nf name = (case nic_addrs nf name of None \<Rightarrow> [] | Some as \<Rightarrow> first_ipv4 as)"

fun first_nonempty :: "string list \<Rightarrow> string option" where
  "first_nonempty [] = None"
| "first_nonempty (x # xs) = (if x \<noteq> [] then Some x else first_nonempty xs)"

definition resolveProxyTargetIP :: "interfaces \<Rightarrow> string" where
  "resolveProxyTargetIP nf =
     (let docker0 = getIPv4FromInterface nf ''docker0'' in
      if docker0 \<noteq> [] then docker0
      else
        let names = (case nics nf of None \<Rightarrow> [] | Some ns \<Rightarrow> ns) in
        (case first_nonempty (map (getIPv4FromInterface nf) (filter (\<lambda>n. HasPrefix n ''br-'') names)) of
           Some ip \<Rightarrow> ip
         | None \<Rightarrow>
             let again = (if names = [] then (case nics_again nf of None \<Rightarrow> [] | Some ns \<Rightarrow> ns) else names);
                 own = filter (\<lambda>n. \<not> (n = ''lo'' \<or> HasPrefix n ''docker'' \<or> HasPrefix n ''br-'' \<or> HasPrefix n ''veth'')) again
             in (case first_nonempty (map (getIPv4FromInterface nf) own) of Some ip \<Rightarrow> ip | None \<Rightarrow> ''127.0.0.1'')))"

definition getProtocols :: "interfaces \<Rightarrow> (string \<times> string) list" where
  "getProtocols nf =
     (let ip = resolveProxyTargetIP nf; target = (\<lambda>port. ''/ip4/'' @ ip @ ''/tcp/'' @ port) in
      [(fulaBlockchainProtocol, target ''4020''), (fulaPingProtocol, target ''4021''), (fulaClusterProtocol, target ''9096'')])"


section \<open>Calls of kubo\<close>

definition kubo_call :: "'w env \<Rightarrow> string \<Rightarrow> string \<Rightarrow> 'w device \<Rightarrow> net_reply \<times> 'w device" where
  "kubo_call env kuboAPI path d = http_Post env (''http://'' @ kuboAPI @ ''/api/v0/'' @ path) (Raw []) d"

text \<open>The document of a 200 answer, decoded into a structure.\<close>

definition ok_doc :: "gty \<Rightarrow> net_reply \<Rightarrow> json option" where
  "ok_doc t r =
     (case r of
        Reply st (Some b) \<Rightarrow> if st = StatusOK then Option.bind (decode_first b) (decode_new t) else None
      | _ \<Rightarrow> None)"

definition checkKuboAlive :: "'w env \<Rightarrow> string \<Rightarrow> 'w device \<Rightarrow> bool \<times> 'w device" where
  "checkKuboAlive env kuboAPI d =
     (case kubo_call env kuboAPI ''id'' d of
        (NetErr, e) \<Rightarrow> (False, e)
      | (Reply st b, e) \<Rightarrow> (st = StatusOK, e))"

text \<open>
  A refusal counts as success when its text (at most 512 bytes of it are read) says that the entry is
  there already.
\<close>

definition refusal_says :: "'w env \<Rightarrow> string list \<Rightarrow> body option \<Rightarrow> bool" where
  "refusal_says env texts b =
     (let bodyStr = (case b of None \<Rightarrow> [] | Some x \<Rightarrow> take 512 (raw_text env x)) in \<exists>t \<in> set texts. Contains bodyStr t)"

definition registerSingleProtocol :: "'w env \<Rightarrow> string \<Rightarrow> string \<Rightarrow> string \<Rightarrow> 'w device \<Rightarrow> bool \<times> 'w device" where
  "registerSingleProtocol env kuboAPI protocol target d =
     (case kubo_call env kuboAPI (''p2p/listen?arg='' @ protocol @ ''&arg='' @ target @ ''&allow-custom-protocol=true'') d of
        (NetErr, e) \<Rightarrow> (False, e)
      | (Reply st b, e) \<Rightarrow> (st = StatusOK \<or> refusal_says env [''listener already registered''] b, e))"

fun register_all :: "'w env \<Rightarrow> string \<Rightarrow> (string \<times> string) list \<Rightarrow> 'w device \<Rightarrow> bool \<times> 'w device" where
  "register_all env kuboAPI [] d = (True, d)"
| "register_all env kuboAPI ((name, target) # ps) d =
     (case registerSingleProtocol env kuboAPI name target d of
        (False, e) \<Rightarrow> (False, e)
      | (True, e) \<Rightarrow> register_all env kuboAPI ps e)"

definition registerKuboProtocols :: "'w env \<Rightarrow> interfaces \<Rightarrow> string \<Rightarrow> 'w device \<Rightarrow> bool \<times> 'w device" where
  "registerKuboProtocols env nf kuboAPI d =
     (case kubo_call env kuboAPI ''p2p/close?all=true'' d of (_, d1) \<Rightarrow> register_all env kuboAPI (getProtocols nf) d1)"

definition kubo_listeners :: gty where
  "kubo_listeners = GStruct [(''Listeners'', GArr (GStruct [(''Protocol'', GStr, False), (''ListenAddress'', GStr, False)]), False)]"

definition checkKuboP2PListeners :: "'w env \<Rightarrow> interfaces \<Rightarrow> string \<Rightarrow> 'w device \<Rightarrow> bool \<times> 'w device" where
  "checkKuboP2PListeners env nf kuboAPI d =
     (case kubo_call env kuboAPI ''p2p/ls'' d of
        (r, e) \<Rightarrow>
          (case ok_doc kubo_listeners r of
             None \<Rightarrow> (False, e)
           | Some j \<Rightarrow>
               let registered = map (\<lambda>l. text_of (entry ''Protocol'' l))
                     (filter (\<lambda>l. HasPrefix (text_of (entry ''ListenAddress'' l)) ''/p2p/'') (elements (entry ''Listeners'' j)))
               in (\<forall>p \<in> set (getProtocols nf). fst p \<in> set registered, e)))"

text \<open>
  \<^verbatim>\<open>waitForKuboAndRegister\<close>: a tick every two seconds until registration succeeds or the context ends.
  The loop is bounded by \<open>fuel\<close> ticks; \<^const>\<open>None\<close> is a loop that is still running.
\<close>

fun waitForKuboAndRegister :: "'w env \<Rightarrow> interfaces \<Rightarrow> string \<Rightarrow> nat \<Rightarrow> 'w device \<Rightarrow> (bool \<times> 'w device) option" where
  "waitForKuboAndRegister env nf kuboAPI 0 d = None"
| "waitForKuboAndRegister env nf kuboAPI (Suc fuel) d =
     (case wait_for env (2 * second) d of
        (False, d1) \<Rightarrow> Some (False, d1)
      | (True, d1) \<Rightarrow>
          (case checkKuboAlive env kuboAPI d1 of
             (False, d2) \<Rightarrow> waitForKuboAndRegister env nf kuboAPI fuel d2
           | (True, d2) \<Rightarrow>
               (case registerKuboProtocols env nf kuboAPI d2 of
                  (False, d3) \<Rightarrow> waitForKuboAndRegister env nf kuboAPI fuel d3
                | (True, d3) \<Rightarrow> Some (True, d3))))"

section \<open>The tunnel to the cluster\<close>

definition getKuboAPIAddr :: "string \<Rightarrow> string" where
  "getKuboAPIAddr addr = (if addr = [] then defaultKuboAPIAddr else TrimPrefix addr ''http://'')"

definition serverKuboPeerIDCachePath :: "string \<Rightarrow> string" where
  "serverKuboPeerIDCachePath poolID = ''/internal/.tmp/pool_'' @ poolID @ ''_server_kubo.tmp''"

definition pool_info :: gty where
  "pool_info = GStruct [(''kubo-peerid'', GStr, False)]"

definition fetchServerKuboPeerID :: "'w env \<Rightarrow> string \<Rightarrow> 'w device \<Rightarrow> string option \<times> 'w device" where
  "fetchServerKuboPeerID env poolID d =
     (let cachePath = serverKuboPeerIDCachePath poolID;
          cached = (case ReadFile cachePath d of Ok f \<Rightarrow> TrimSpace (file_text f) | _ \<Rightarrow> [])
      in
      if cached \<noteq> [] then (Some cached, d)
      else (case send env \<lparr>hq_method = ''GET'', hq_url = ''https://pools.fx.land/pools/'' @ poolID, hq_body = Raw []\<rparr> d of
        (r, d1) \<Rightarrow>
          (case ok_doc pool_info r of
             None \<Rightarrow> (None, d1)
           | Some j \<Rightarrow>
               let peer = text_of (entry ''kubo-peerid'' j) in
               if peer = [] then (None, d1) else (Some peer, snd (WriteFile cachePath (Text peer) d1)))))"

definition registerClusterForward :: "'w env \<Rightarrow> string \<Rightarrow> string \<Rightarrow> 'w device \<Rightarrow> bool \<times> 'w device" where
  "registerClusterForward env kuboAPI serverKuboPeerID d =
     (case kubo_call env kuboAPI (''p2p/forward?arg='' @ fulaClusterProtocol @ ''&arg=/ip4/127.0.0.1/tcp/19096&arg=/p2p/''
             @ serverKuboPeerID @ ''&allow-custom-protocol=true'') d of
        (NetErr, e) \<Rightarrow> (False, e)
      | (Reply st b, e) \<Rightarrow>
          (st = StatusOK \<or> refusal_says env [''already forwarding'', ''listener already registered''] b, e))"

definition kubo_forwards :: gty where
  "kubo_forwards = GStruct [(''Listeners'', GArr (GStruct [(''Protocol'', GStr, False), (''TargetAddress'', GStr, False)]), False)]"

definition checkClusterForward :: "'w env \<Rightarrow> string \<Rightarrow> 'w device \<Rightarrow> bool \<times> 'w device" where
  "checkClusterForward env kuboAPI d =
     (case kubo_call env kuboAPI ''p2p/ls'' d of
        (r, e) \<Rightarrow>
          (case ok_doc kubo_forwards r of
             None \<Rightarrow> (False, e)
           | Some j \<Rightarrow>
               (\<exists>l \<in> set (elements (entry ''Listeners'' j)).
                  text_of (entry ''Protocol'' l) = fulaClusterProtocol \<and> HasPrefix (text_of (entry ''TargetAddress'' l)) ''/p2p/'', e)))"


section \<open>Reachability\<close>

definition kubo_addresses :: gty where
  "kubo_addresses = GStruct [(''Addresses'', GArr GStr, False)]"

definition checkKuboHasCircuitAddress :: "'w env \<Rightarrow> string \<Rightarrow> 'w device \<Rightarrow> bool \<times> 'w device" where
  "checkKuboHasCircuitAddress env kuboAPI d =
     (case kubo_call env kuboAPI ''id'' d of
        (r, e) \<Rightarrow>
          (case ok_doc kubo_addresses r of
             None \<Rightarrow> (False, e)
           | Some j \<Rightarrow> (\<exists>a \<in> set (elements (entry ''Addresses'' j)). Contains (text_of a) ''/p2p-circuit/'', e)))"

definition kubo_peers :: gty where
  "kubo_peers = GStruct [(''Peers'', GArr (GStruct [(''Peer'', GStr, False)]), False)]"

definition checkRelayPeerConnected :: "'w env \<Rightarrow> string \<Rightarrow> string \<Rightarrow> 'w device \<Rightarrow> bool \<times> 'w device" where
  "checkRelayPeerConnected env kuboAPI relayPeerID d =
     (case kubo_call env kuboAPI ''swarm/peers'' d of
        (r, e) \<Rightarrow>
          (case ok_doc kubo_peers r of
             None \<Rightarrow> (False, e)
           | Some j \<Rightarrow> (\<exists>p \<in> set (elements (entry ''Peers'' j)). text_of (entry ''Peer'' p) = relayPeerID, e)))"

text \<open>
  The marker file that asks the host for a restart: a stale one is removed first, so that creating it is
  noticed. A directory that cannot be created shows in the failing write.
\<close>

definition signalFulaRestart :: "'w device \<Rightarrow> bool \<times> 'w device" where
  "signalFulaRestart d = WriteFile fulaRestartCommandPath (Text []) (RemoveFile fulaRestartCommandPath d)"

definition cleanupStaleRestartMarker :: "'w device \<Rightarrow> 'w device" where
  "cleanupStaleRestartMarker d = RemoveFile fulaRestartCommandPath d"


section \<open>The watchdog\<close>

text \<open>The variables of \<^verbatim>\<open>watchKuboP2P\<close>; a zero time is \<^const>\<open>None\<close>.\<close>

record watch =
  consecutiveCircuitMissing :: nat
  lastRestartAt :: "int option"
  consecutiveFailedRestarts :: nat
  longCooldownUntil :: "int option"
  restartHistory :: "int list"
  hasSeenCircuit :: bool
  startupAt :: int

definition watch_start :: "int \<Rightarrow> watch" where
  "watch_start now = \<lparr>consecutiveCircuitMissing = 0, lastRestartAt = None, consecutiveFailedRestarts = 0,
     longCooldownUntil = None, restartHistory = [], hasSeenCircuit = False, startupAt = now\<rparr>"

text \<open>How a tick ends, one constructor per way through the loop body (the code logs each of them).\<close>

datatype tick_end =
    KuboDown
  | CircuitPresent
  | Bootstrapping
  | BelowThreshold
  | RelayDown
  | InLongCooldown
  | InShortCooldown
  | RateLimited
  | EntersLongCooldown
  | SignalFailed
  | Restarted int

definition signal_restart :: "int \<Rightarrow> watch \<Rightarrow> 'w device \<Rightarrow> tick_end \<times> watch \<times> 'w device" where
  "signal_restart now st d =
     (case signalFulaRestart d of
        (False, e) \<Rightarrow> (SignalFailed, st, e)
      | (True, e) \<Rightarrow>
          (Restarted now, st\<lparr>lastRestartAt := Some now, restartHistory := restartHistory st @ [now], consecutiveCircuitMissing := 0\<rparr>, e))"

text \<open>All gates passed: judge the previous restart, then signal.\<close>

definition bounce :: "'w env \<Rightarrow> int \<Rightarrow> watch \<Rightarrow> 'w device \<Rightarrow> tick_end \<times> watch \<times> 'w device" where
  "bounce env now st d =
     (case lastRestartAt st of
        None \<Rightarrow> signal_restart now st d
      | Some t \<Rightarrow>
          (case time_now env d of (now', d1) \<Rightarrow>
           if bounceVerifyGracePeriod \<le> now' - t then
             let st1 = st\<lparr>consecutiveFailedRestarts := Suc (consecutiveFailedRestarts st)\<rparr> in
             if maxConsecutiveFailedRestarts \<le> consecutiveFailedRestarts st1
             then (EntersLongCooldown,
                   st1\<lparr>longCooldownUntil := Some (now + longCooldownAfterFailures), consecutiveCircuitMissing := 0\<rparr>, d1)
             else signal_restart now st1 d1
           else signal_restart now st d1))"

definition cooling :: "'w env \<Rightarrow> watch \<Rightarrow> 'w device \<Rightarrow> bool \<times> 'w device" where
  "cooling env st d =
     (case longCooldownUntil st of
        None \<Rightarrow> (False, d)
      | Some u \<Rightarrow> (case time_now env d of (now, e) \<Rightarrow> (now < u, e)))"

definition restart_gates :: "'w env \<Rightarrow> string \<Rightarrow> watch \<Rightarrow> 'w device \<Rightarrow> tick_end \<times> watch \<times> 'w device" where
  "restart_gates env kuboAPI st d =
     (case checkRelayPeerConnected env kuboAPI staticRelayPeerID d of
        (False, d1) \<Rightarrow> (RelayDown, st\<lparr>consecutiveCircuitMissing := 0\<rparr>, d1)
      | (True, d1) \<Rightarrow>
          (case cooling env st d1 of
             (True, d2) \<Rightarrow> (InLongCooldown, st, d2)
           | (False, d2) \<Rightarrow>
               (case time_now env d2 of (t3, d3) \<Rightarrow>
                if (case lastRestartAt st of None \<Rightarrow> False | Some t \<Rightarrow> t3 - t < minTimeBetweenFulaRestarts)
                then (InShortCooldown, st, d3)
                else (case time_now env d3 of (now, d4) \<Rightarrow>
                  let st1 = st\<lparr>restartHistory := filter (\<lambda>t. now - restartRateWindow < t) (restartHistory st)\<rparr> in
                  if maxRestartsPerWindow \<le> length (restartHistory st1) then (RateLimited, st1, d4)
                  else bounce env now st1 d4))))"

definition count_miss :: "'w env \<Rightarrow> string \<Rightarrow> watch \<Rightarrow> 'w device \<Rightarrow> tick_end \<times> watch \<times> 'w device" where
  "count_miss env kuboAPI st d =
     (let st1 = st\<lparr>consecutiveCircuitMissing := Suc (consecutiveCircuitMissing st)\<rparr> in
      if consecutiveCircuitMissing st1 < relayCircuitMissingThreshold then (BelowThreshold, st1, d)
      else restart_gates env kuboAPI st1 d)"

definition circuit_missing :: "'w env \<Rightarrow> string \<Rightarrow> watch \<Rightarrow> 'w device \<Rightarrow> tick_end \<times> watch \<times> 'w device" where
  "circuit_missing env kuboAPI st d =
     (if hasSeenCircuit st then count_miss env kuboAPI st d
      else (case time_now env d of (now, d1) \<Rightarrow>
        if now - startupAt st < bootstrapGracePeriod then (Bootstrapping, st\<lparr>consecutiveCircuitMissing := 0\<rparr>, d1)
        else count_miss env kuboAPI st d1))"

definition circuit_present :: "'w env \<Rightarrow> watch \<Rightarrow> 'w device \<Rightarrow> tick_end \<times> watch \<times> 'w device" where
  "circuit_present env st d =
     (let st1 = st\<lparr>hasSeenCircuit := True, consecutiveCircuitMissing := 0\<rparr> in
      (case lastRestartAt st of
         None \<Rightarrow> (CircuitPresent, st1, d)
       | Some t \<Rightarrow>
           (case time_now env d of (now, e) \<Rightarrow>
            (CircuitPresent, if now - t < bounceVerifyGracePeriod then st1\<lparr>consecutiveFailedRestarts := 0\<rparr> else st1, e))))"

text \<open>Registrations: all of them when a listener is missing, else the tunnel alone when it is missing.\<close>

definition refresh_registrations :: "'w env \<Rightarrow> interfaces \<Rightarrow> string \<Rightarrow> string \<Rightarrow> 'w device \<Rightarrow> 'w device" where
  "refresh_registrations env nf kuboAPI serverPeerID d =
     (case checkKuboP2PListeners env nf kuboAPI d of
        (False, d1) \<Rightarrow>
          let d2 = snd (registerKuboProtocols env nf kuboAPI d1) in
          if serverPeerID \<noteq> [] then snd (registerClusterForward env kuboAPI serverPeerID d2) else d2
      | (True, d1) \<Rightarrow>
          if serverPeerID = [] then d1
          else (case checkClusterForward env kuboAPI d1 of
                  (True, d2) \<Rightarrow> d2
                | (False, d2) \<Rightarrow> snd (registerClusterForward env kuboAPI serverPeerID d2)))"

definition watch_tick ::
  "'w env \<Rightarrow> interfaces \<Rightarrow> string \<Rightarrow> string \<Rightarrow> watch \<Rightarrow> 'w device \<Rightarrow> tick_end \<times> watch \<times> 'w device" where
  "watch_tick env nf kuboAPI serverPeerID st d =
     (case checkKuboAlive env kuboAPI d of
        (False, d1) \<Rightarrow> (KuboDown, st\<lparr>consecutiveCircuitMissing := 0\<rparr>, d1)
      | (True, d1) \<Rightarrow>
          (case checkKuboHasCircuitAddress env kuboAPI (refresh_registrations env nf kuboAPI serverPeerID d1) of
             (True, d2) \<Rightarrow> circuit_present env st d2
           | (False, d2) \<Rightarrow> circuit_missing env kuboAPI st d2))"

text \<open>
  A run from given variables: before each tick the device, kubo and the interfaces may have changed in
  any way, only the time does not run backwards. The list holds how the ticks ended.
\<close>

inductive watch_from ::
  "'w env \<Rightarrow> ('w \<Rightarrow> int) \<Rightarrow> string \<Rightarrow> watch \<Rightarrow> 'w device \<Rightarrow> tick_end list \<Rightarrow> watch \<Rightarrow> 'w device \<Rightarrow> bool"
  for env tt kuboAPI st d where
  idle: "watch_from env tt kuboAPI st d [] st d"
| tick: "watch_from env tt kuboAPI st d evs st1 d1 \<Longrightarrow> later tt d1 d2 \<Longrightarrow>
     watch_tick env nf kuboAPI serverPeerID st1 d2 = (ev, st2, e) \<Longrightarrow> watch_from env tt kuboAPI st d (evs @ [ev]) st2 e"

text \<open>\<^verbatim>\<open>watchKuboP2P\<close>: the variables as they are initialised, then ticks until the context ends.\<close>

definition watchKuboP2P :: "'w env \<Rightarrow> ('w \<Rightarrow> int) \<Rightarrow> string \<Rightarrow> 'w device \<Rightarrow> tick_end list \<Rightarrow> watch \<Rightarrow> 'w device \<Rightarrow> bool" where
  "watchKuboP2P env tt kuboAPIAddr d evs st e \<longleftrightarrow>
     (case time_now env d of (now, d1) \<Rightarrow>
        watch_from env tt (if kuboAPIAddr = [] then defaultKuboAPIAddr else kuboAPIAddr) (watch_start now) d1 evs st e)"

section \<open>What a tick changes\<close>

lemma kubo_call_later: "clocked env tt \<Longrightarrow> kubo_call env api p d = (r, e) \<Longrightarrow> later tt d e"
  by (auto simp: kubo_call_def http_Post_def dest: clockedD(1) split: if_splits)

lemma check_later:
  assumes "clocked env tt"
  shows "checkKuboAlive env api d = (b, e) \<Longrightarrow> later tt d e" "checkKuboP2PListeners env nf api d = (b, e) \<Longrightarrow> later tt d e"
    "checkClusterForward env api d = (b, e) \<Longrightarrow> later tt d e" "checkKuboHasCircuitAddress env api d = (b, e) \<Longrightarrow> later tt d e"
    "checkRelayPeerConnected env api p d = (b, e) \<Longrightarrow> later tt d e" "registerClusterForward env api q d = (b, e) \<Longrightarrow> later tt d e"
    "registerSingleProtocol env api n t d = (b, e) \<Longrightarrow> later tt d e"
  by (auto simp: checkKuboAlive_def checkKuboP2PListeners_def checkClusterForward_def checkKuboHasCircuitAddress_def
      checkRelayPeerConnected_def registerClusterForward_def registerSingleProtocol_def Let_def
      dest!: kubo_call_later [OF assms] split: prod.splits net_reply.splits option.splits)

lemma register_all_later: "clocked env tt \<Longrightarrow> register_all env api ps d = (b, e) \<Longrightarrow> later tt d e"
  by (induction env api ps d rule: register_all.induct)
    (auto dest!: check_later(7) intro: later_trans split: prod.splits bool.splits)

lemma registerKuboProtocols_later:
  assumes "clocked env tt"
  shows "registerKuboProtocols env nf api d = (b, e) \<Longrightarrow> later tt d e"
  by (auto simp: registerKuboProtocols_def dest!: register_all_later [OF assms] kubo_call_later [OF assms] intro: later_trans
      split: prod.splits)

lemma refresh_later:
  assumes "clocked env tt"
  shows "later tt d (refresh_registrations env nf api s d)"
proof -
  have "later tt d (snd (registerKuboProtocols env nf api d))" "later tt d (snd (registerClusterForward env api s d))" for d
    using registerKuboProtocols_later [OF assms] check_later(6) [OF assms] surjective_pairing by blast+
  then show ?thesis
    by (auto simp: refresh_registrations_def Let_def dest!: check_later(2,3) [OF assms] intro: later_trans
        split: prod.splits bool.splits) (meson later_trans)
qed

text \<open>The restart of a tick, and everything else a tick may do to the times the watchdog keeps.\<close>

definition restarts_at :: "watch \<Rightarrow> int \<Rightarrow> watch \<Rightarrow> bool" where
  "restarts_at st t st' \<longleftrightarrow>
     (\<forall>l. lastRestartAt st = Some l \<longrightarrow> minTimeBetweenFulaRestarts \<le> t - l \<and> Suc (consecutiveFailedRestarts st) < maxConsecutiveFailedRestarts) \<and>
     length (filter (\<lambda>u. t - restartRateWindow < u) (restartHistory st)) < maxRestartsPerWindow \<and>
     lastRestartAt st' = Some t \<and> restartHistory st' = filter (\<lambda>u. t - restartRateWindow < u) (restartHistory st) @ [t]"

definition keeps_times :: "watch \<Rightarrow> int \<Rightarrow> watch \<Rightarrow> bool" where
  "keeps_times st t st' \<longleftrightarrow>
     lastRestartAt st' = lastRestartAt st \<and>
     (restartHistory st' = restartHistory st \<or>
      (\<exists>now \<le> t. restartHistory st' = filter (\<lambda>u. now - restartRateWindow < u) (restartHistory st)))"

lemma signal_restart_cases:
  assumes "signal_restart now st d = (ev, st', e)"
  shows "world e = world d \<and>
    (ev = SignalFailed \<and> st' = st \<or>
     ev = Restarted now \<and> lastRestartAt st' = Some now \<and> restartHistory st' = restartHistory st @ [now] \<and>
       consecutiveCircuitMissing st' = 0 \<and> consecutiveFailedRestarts st' = consecutiveFailedRestarts st)"
  using assms by (auto simp: signal_restart_def signalFulaRestart_def WriteFile_def split: prod.splits bool.splits if_splits)

lemma bounce_cases:
  assumes b: "bounce env now st d = (ev, st', e)" and ck: "clocked env tt"
  shows "later tt d e \<and>
    (ev = Restarted now \<and> lastRestartAt st' = Some now \<and> restartHistory st' = restartHistory st @ [now] \<and>
       consecutiveCircuitMissing st' = 0 \<and>
       (\<forall>l. lastRestartAt st = Some l \<and> bounceVerifyGracePeriod \<le> tt (world d) - l \<longrightarrow>
          Suc (consecutiveFailedRestarts st) < maxConsecutiveFailedRestarts) \<or>
     ev \<in> {SignalFailed, EntersLongCooldown} \<and> lastRestartAt st' = lastRestartAt st \<and> restartHistory st' = restartHistory st \<and>
       consecutiveFailedRestarts st \<le> consecutiveFailedRestarts st' \<and>
       consecutiveCircuitMissing st' = (if ev = SignalFailed then consecutiveCircuitMissing st else 0))"
proof -
  have s: "later tt f e" if "signal_restart n s f = (ev, st', e)" for n s f
    using signal_restart_cases [OF that] by (simp add: later_def)
  show ?thesis
  proof (cases "lastRestartAt st")
    case None
    with b show ?thesis using s signal_restart_cases by (fastforce simp: bounce_def)
  next
    case (Some t)
    obtain now' d1 where n: "time_now env d = (now', d1)" by fastforce
    then have "now' = tt (world d)" "later tt d d1" using clockedD(3) [OF ck n] by auto
    with b Some n show ?thesis
      by (auto simp: bounce_def Let_def dest!: signal_restart_cases split: if_splits) (auto simp: later_def)
  qed
qed

lemma cooling_later: "clocked env tt \<Longrightarrow> cooling env st d = (b, e) \<Longrightarrow> later tt d e"
  by (auto simp: cooling_def dest!: clockedD(3) split: option.splits prod.splits)

definition no_restart :: "tick_end \<Rightarrow> bool" where
  "no_restart ev \<longleftrightarrow> (\<forall>t. ev \<noteq> Restarted t)"

lemma gates_cases:
  assumes g: "restart_gates env api st d = (ev, st', e)" and ck: "clocked env tt"
  shows "later tt d e \<and>
    ((\<exists>t. ev = Restarted t \<and> tt (world d) \<le> t \<and> t \<le> tt (world e) \<and> restarts_at st t st') \<or>
     no_restart ev \<and> keeps_times st (tt (world e)) st')"
proof -
  obtain r d1 where d1: "checkRelayPeerConnected env api staticRelayPeerID d = (r, d1)" by fastforce
  obtain c d2 where d2: "cooling env st d1 = (c, d2)" by fastforce
  obtain t3 d3 where d3: "time_now env d2 = (t3, d3)" by fastforce
  obtain now d4 where d4: "time_now env d3 = (now, d4)" by fastforce
  let ?st = "st\<lparr>restartHistory := filter (\<lambda>t. now - restartRateWindow < t) (restartHistory st)\<rparr>"
  obtain ev5 st5 d5 where d5: "bounce env now ?st d4 = (ev5, st5, d5)" using prod_cases3 by blast
  note b = bounce_cases [OF d5 ck]
  have l: "later tt d d1" "later tt d1 d2" "later tt d2 d3" "later tt d3 d4" "t3 = tt (world d2)" "now = tt (world d3)"
    using check_later(5) [OF ck d1] cooling_later [OF ck d2] clockedD(3) [OF ck d3] clockedD(3) [OF ck d4] by auto
  note times = l [unfolded later_def] minTimeBetweenFulaRestarts_def bounceVerifyGracePeriod_def
  let ?short = "case lastRestartAt st of None \<Rightarrow> False | Some t \<Rightarrow> t3 - t < minTimeBetweenFulaRestarts"
  show ?thesis
  proof (cases "r \<and> \<not> c \<and> \<not> ?short \<and> length (restartHistory ?st) < maxRestartsPerWindow")
    case True
    then have e: "(ev, st', e) = (ev5, st5, d5)"
      using g unfolding restart_gates_def d1 d2 d3 d4 prod.case Let_def using d5 by (auto split: option.splits)
    have le: "now \<le> tt (world e)" "tt (world d) \<le> now" "later tt d e" using b e times by (auto simp: later_def)
    show ?thesis
    proof (cases "ev = Restarted now")
      case True
      have "restarts_at st now st'"
        using b e True \<open>r \<and> \<not> c \<and> _\<close> times by (auto simp: restarts_at_def split: option.splits)
      with True le show ?thesis by blast
    next
      case False
      have "keeps_times st (tt (world e)) st'" using b e False le(1) by (auto simp: keeps_times_def)
      moreover have "no_restart ev" using b e False by (auto simp: no_restart_def)
      ultimately show ?thesis using le by blast
    qed
  next
    case False
    then have "no_restart ev \<and> (e = d1 \<and> st' = st\<lparr>consecutiveCircuitMissing := 0\<rparr> \<or> e \<in> {d2, d3} \<and> st' = st \<or> e = d4 \<and> st' = ?st)"
      using g unfolding restart_gates_def d1 d2 d3 d4 prod.case Let_def no_restart_def by (auto split: option.splits if_splits bool.splits)
    then show ?thesis using times by (auto simp: keeps_times_def later_def intro: order_trans)
  qed
qed

lemma restarts_at_count [simp]: "restarts_at (st\<lparr>consecutiveCircuitMissing := n\<rparr>) t st' = restarts_at st t st'"
  by (simp add: restarts_at_def)

lemma keeps_times_count [simp]: "keeps_times (st\<lparr>consecutiveCircuitMissing := n\<rparr>) t st' = keeps_times st t st'"
  by (simp add: keeps_times_def)

lemma count_miss_cases:
  assumes "count_miss env api st d = (ev, st', e)" and "clocked env tt"
  shows "later tt d e \<and>
    ((\<exists>t. ev = Restarted t \<and> tt (world d) \<le> t \<and> t \<le> tt (world e) \<and> restarts_at st t st') \<or>
     no_restart ev \<and> keeps_times st (tt (world e)) st')"
  using assms gates_cases [of env api "st\<lparr>consecutiveCircuitMissing := Suc (consecutiveCircuitMissing st)\<rparr>" d ev st' e tt]
  by (auto simp: count_miss_def Let_def no_restart_def keeps_times_def split: if_splits)

lemma tick_cases:
  assumes w: "watch_tick env nf api s st d = (ev, st', e)" and ck: "clocked env tt"
  shows "later tt d e \<and>
    ((\<exists>t. ev = Restarted t \<and> tt (world d) \<le> t \<and> t \<le> tt (world e) \<and> restarts_at st t st') \<or>
     no_restart ev \<and> keeps_times st (tt (world e)) st')"
proof -
  obtain a d1 where d1: "checkKuboAlive env api d = (a, d1)" by fastforce
  let ?d2 = "refresh_registrations env nf api s d1"
  obtain c d3 where d3: "checkKuboHasCircuitAddress env api ?d2 = (c, d3)" by fastforce
  obtain now d4 where d4: "time_now env d3 = (now, d4)" by fastforce
  have l: "later tt d d1" "later tt d d3" "later tt d d4" "later tt d3 d4"
    using check_later(1) [OF ck d1] refresh_later [OF ck, of d1 nf api s] check_later(4) [OF ck d3] clockedD(3) [OF ck d4]
    by (auto simp: later_def)
  have "(no_restart ev \<and> keeps_times st (tt (world e)) st' \<and> e \<in> {d1, d3, d4}) \<or>
      (\<exists>f \<in> {d3, d4}. count_miss env api st f = (ev, st', e))"
    using w unfolding watch_tick_def d1 d3 prod.case circuit_present_def circuit_missing_def d4 Let_def
    by (auto simp: no_restart_def keeps_times_def split: bool.splits if_splits option.splits)
  then show ?thesis
  proof
    assume "\<exists>f \<in> {d3, d4}. count_miss env api st f = (ev, st', e)"
    then show ?thesis using count_miss_cases [OF _ ck] l by (fastforce simp: later_def)
  qed (use l in auto)
qed

text \<open>The ticks in which the circuit was found missing and the miss was kept.\<close>

definition missed :: "tick_end \<Rightarrow> bool" where
  "missed ev \<longleftrightarrow> ev \<in> {BelowThreshold, InLongCooldown, InShortCooldown, RateLimited, SignalFailed}"

lemma bounce_missing:
  assumes "bounce env now st d = (ev, st', e)"
  shows "(ev = SignalFailed \<and> consecutiveCircuitMissing st' = consecutiveCircuitMissing st \<or>
    (ev = EntersLongCooldown \<or> ev = Restarted now) \<and> consecutiveCircuitMissing st' = 0)"
  using assms by (auto simp: bounce_def Let_def dest!: signal_restart_cases split: option.splits prod.splits if_splits)

lemma gates_missing:
  assumes "restart_gates env api st d = (ev, st', e)" and "0 < consecutiveCircuitMissing st"
  shows "0 < consecutiveCircuitMissing st' \<longleftrightarrow> missed ev"
  using assms unfolding restart_gates_def Let_def
  by (auto simp: missed_def dest!: bounce_missing split: option.splits prod.splits if_splits bool.splits)

lemma tick_missing:
  assumes "watch_tick env nf api s st d = (ev, st', e)"
  shows "0 < consecutiveCircuitMissing st' \<longleftrightarrow> missed ev"
proof -
  have g: "0 < consecutiveCircuitMissing st' \<longleftrightarrow> missed ev" if "count_miss env api st f = (ev, st', e)" for f
    using that gates_missing [of env api "st\<lparr>consecutiveCircuitMissing := Suc (consecutiveCircuitMissing st)\<rparr>" f ev st' e]
    by (auto simp: count_miss_def Let_def missed_def split: if_splits)
  have "(\<not> missed ev \<and> consecutiveCircuitMissing st' = 0) \<or> (\<exists>f. count_miss env api st f = (ev, st', e))"
    using assms unfolding watch_tick_def circuit_present_def circuit_missing_def Let_def
    by (auto simp: missed_def split: bool.splits if_splits option.splits prod.splits)
  then show ?thesis using g by auto
qed

section \<open>How often the services are restarted\<close>

fun restart_times :: "tick_end list \<Rightarrow> int list" where
  "restart_times [] = []"
| "restart_times (Restarted t # evs) = t # restart_times evs"
| "restart_times (_ # evs) = restart_times evs"

lemma restart_times_append: "restart_times (evs @ evs') = restart_times evs @ restart_times evs'"
  by (induction evs rule: restart_times.induct) simp_all

lemma restart_times_none: "no_restart ev \<Longrightarrow> restart_times [ev] = []"
  by (cases ev) (simp_all add: no_restart_def)

lemma filter_sorted_suffix:
  "sorted_wrt (\<le>) ts \<Longrightarrow> filter (\<lambda>t. c < t) ts = dropWhile (\<lambda>t. t \<le> c) (ts :: int list)"
proof (induction ts)
  case (Cons t ts)
  show ?case
  proof (cases "t \<le> c")
    case False
    with Cons.prems have "\<forall>u \<in> set ts. c < u" by auto
    with False show ?thesis by simp
  qed (use Cons in simp)
qed simp

text \<open>
  The times of all restarts so far: spaced, not in the future, the last one remembered, and the history
  a suffix of them that misses only restarts more than an hour old.
\<close>

definition spaced :: "int list \<Rightarrow> bool" where
  "spaced ts \<longleftrightarrow> sorted_wrt (\<lambda>a b. a + minTimeBetweenFulaRestarts \<le> b) ts \<and>
     (\<forall>i. i + maxRestartsPerWindow < length ts \<longrightarrow> ts ! i + restartRateWindow \<le> ts ! (i + maxRestartsPerWindow))"

definition watch_inv :: "int list \<Rightarrow> watch \<Rightarrow> int \<Rightarrow> bool" where
  "watch_inv ts st t \<longleftrightarrow> spaced ts \<and> (\<forall>u \<in> set ts. u \<le> t) \<and>
     lastRestartAt st = (if ts = [] then None else Some (last ts)) \<and>
     (\<exists>old. ts = old @ restartHistory st \<and> (\<forall>u \<in> set old. u + restartRateWindow \<le> t))"

lemma spaced_sorted: "spaced ts \<Longrightarrow> sorted_wrt (\<le>) ts"
  by (auto simp: spaced_def minTimeBetweenFulaRestarts_def elim: sorted_wrt_mono_rel [rotated])

lemma spaced_snoc:
  assumes "spaced ts" and "ts \<noteq> [] \<Longrightarrow> last ts + minTimeBetweenFulaRestarts \<le> t"
    and "maxRestartsPerWindow \<le> length ts \<Longrightarrow> ts ! (length ts - maxRestartsPerWindow) + restartRateWindow \<le> t"
  shows "spaced (ts @ [t])"
proof -
  have "u + minTimeBetweenFulaRestarts \<le> t" if "u \<in> set ts" for u
  proof -
    obtain i where i: "i < length ts" "u = ts ! i" using \<open>u \<in> set ts\<close> by (auto simp: in_set_conv_nth)
    with spaced_sorted [OF assms(1)] have "u \<le> last ts"
      by (metis One_nat_def Suc_pred diff_less last_conv_nth length_greater_0_conv length_pos_if_in_set less_Suc_eq_le
          sorted_wrt_nth_less that order.order_iff_strict zero_less_one)
    moreover have "ts \<noteq> []" using that by auto
    ultimately show ?thesis using assms(2) by auto
  qed
  moreover have "(ts @ [t]) ! i + restartRateWindow \<le> (ts @ [t]) ! (i + maxRestartsPerWindow)"
    if "i + maxRestartsPerWindow < length (ts @ [t])" for i
  proof (cases "i + maxRestartsPerWindow < length ts")
    case True
    with assms(1) show ?thesis by (simp add: spaced_def nth_append)
  next
    case False
    with that have "i = length ts - maxRestartsPerWindow" "maxRestartsPerWindow \<le> length ts" "length ts - maxRestartsPerWindow < length ts"
      by (auto simp: maxRestartsPerWindow_def)
    with assms(3) show ?thesis by (simp add: nth_append)
  qed
  ultimately show ?thesis using assms(1) by (auto simp: spaced_def sorted_wrt_append)
qed

lemma watch_inv_restart:
  assumes inv: "watch_inv ts st t0" and r: "restarts_at st t st'" and t: "t0 \<le> t" "t \<le> t1"
  shows "watch_inv (ts @ [t]) st' t1"
proof -
  obtain old where old: "ts = old @ restartHistory st" "\<forall>u \<in> set old. u + restartRateWindow \<le> t0"
    using inv by (auto simp: watch_inv_def)
  let ?c = "t - restartRateWindow"
  have "sorted_wrt (\<le>) (restartHistory st)"
    using inv spaced_sorted [of ts] old(1) by (simp add: watch_inv_def sorted_wrt_append)
  then have f: "filter (\<lambda>u. ?c < u) (restartHistory st) = dropWhile (\<lambda>u. u \<le> ?c) (restartHistory st)"
    by (rule filter_sorted_suffix)
  define gone where "gone = old @ takeWhile (\<lambda>u. u \<le> ?c) (restartHistory st)"
  have ts: "ts = gone @ filter (\<lambda>u. ?c < u) (restartHistory st)" unfolding f gone_def old(1) by simp
  have g: "u + restartRateWindow \<le> t" if "u \<in> set gone" for u
    using that old(2) t(1) by (auto simp: gone_def dest!: set_takeWhileD)
  have n: "length ts < length gone + maxRestartsPerWindow" using r arg_cong [OF ts, of length] by (simp add: restarts_at_def)
  have "spaced (ts @ [t])"
  proof (rule spaced_snoc)
    assume "maxRestartsPerWindow \<le> length ts"
    with n have "length ts - maxRestartsPerWindow < length gone" by simp
    then have "ts ! (length ts - maxRestartsPerWindow) \<in> set gone" by (subst ts) (simp add: nth_append)
    then show "ts ! (length ts - maxRestartsPerWindow) + restartRateWindow \<le> t" by (rule g)
  qed (use inv r in \<open>auto simp: watch_inv_def restarts_at_def split: if_splits\<close>)
  moreover have "ts @ [t] = gone @ restartHistory st'" using ts r by (simp add: restarts_at_def)
  moreover have "u + restartRateWindow \<le> t1" if "u \<in> set gone" for u using g [OF that] t by simp
  moreover have "u \<le> t1" if "u \<in> set (ts @ [t])" for u using inv that t by (fastforce simp: watch_inv_def)
  ultimately show ?thesis unfolding watch_inv_def using r by (auto simp: restarts_at_def)
qed

lemma watch_inv_keeps:
  assumes inv: "watch_inv ts st t0" and k: "keeps_times st t st'" and t: "t0 \<le> t"
  shows "watch_inv ts st' t"
proof -
  obtain old where old: "ts = old @ restartHistory st" "\<forall>u \<in> set old. u + restartRateWindow \<le> t0"
    using inv by (auto simp: watch_inv_def)
  have "\<exists>gone. ts = gone @ restartHistory st' \<and> (\<forall>u \<in> set gone. u + restartRateWindow \<le> t)"
  proof (cases "restartHistory st' = restartHistory st")
    case False
    with k obtain now where now: "now \<le> t" "restartHistory st' = filter (\<lambda>u. now - restartRateWindow < u) (restartHistory st)"
      by (auto simp: keeps_times_def)
    have "sorted_wrt (\<le>) (restartHistory st)"
      using inv spaced_sorted [of ts] old(1) by (simp add: watch_inv_def sorted_wrt_append)
    then have h: "restartHistory st' = dropWhile (\<lambda>u. u \<le> now - restartRateWindow) (restartHistory st)"
      unfolding now(2) by (rule filter_sorted_suffix)
    let ?gone = "old @ takeWhile (\<lambda>u. u \<le> now - restartRateWindow) (restartHistory st)"
    have "ts = ?gone @ restartHistory st'" unfolding h old(1) by simp
    moreover have "u + restartRateWindow \<le> t" if "u \<in> set ?gone" for u
      using that old(2) t now(1) by (auto dest!: set_takeWhileD)
    ultimately show ?thesis by blast
  qed (use old t in \<open>force\<close>)
  moreover have "u \<le> t" if "u \<in> set ts" for u using inv that t by (auto simp: watch_inv_def)
  ultimately show ?thesis using inv k by (simp add: watch_inv_def keeps_times_def)
qed

lemma watch_run_inv:
  assumes "watch_from env tt api st0 d0 evs st d" and ck: "clocked env tt"
    and "lastRestartAt st0 = None" and "restartHistory st0 = []"
  shows "watch_inv (restart_times evs) st (tt (world d))"
  using assms(1)
proof induction
  case idle
  show ?case using assms(3,4) by (simp add: watch_inv_def spaced_def)
next
  case (tick evs st1 d1 d2 nf s ev st2 e)
  note c = tick_cases [OF tick(3) ck]
  have l: "tt (world d1) \<le> tt (world d2)" "tt (world d2) \<le> tt (world e)" using tick(2) c by (auto simp: later_def)
  show ?case
  proof (cases "no_restart ev")
    case True
    with c have "keeps_times st1 (tt (world e)) st2" by (auto simp: no_restart_def)
    from watch_inv_keeps [OF tick.IH this] l True show ?thesis by (simp add: restart_times_append restart_times_none)
  next
    case False
    with c obtain t where t: "ev = Restarted t" "tt (world d2) \<le> t" "t \<le> tt (world e)" "restarts_at st1 t st2" by blast
    from watch_inv_restart [OF tick.IH t(4) _ t(3)] l t show ?thesis by (simp add: restart_times_append)
  qed
qed

text \<open>
  C8. The watchdog cannot make a restart loop: in every run of it, whatever kubo answers, however the
  device changes in between and however often the ticks come, two restarts are at least five minutes
  apart and no four restarts fall into one hour, as long as the clock does not run backwards.
\<close>

theorem watchdog_restart_limits:
  assumes "watchKuboP2P env tt api d evs st e" and "clocked env tt"
  shows "sorted_wrt (\<lambda>a b. a + 5 * minute \<le> b) (restart_times evs) \<and>
    (\<forall>i. i + 3 < length (restart_times evs) \<longrightarrow> restart_times evs ! i + hour \<le> restart_times evs ! (i + 3))"
proof -
  obtain now d1 where "watch_from env tt (if api = [] then defaultKuboAPIAddr else api) (watch_start now) d1 evs st e"
    using assms(1) by (auto simp: watchKuboP2P_def split: prod.splits)
  from watch_run_inv [OF this assms(2)] show ?thesis
    by (simp add: watch_inv_def spaced_def watch_start_def minTimeBetweenFulaRestarts_def maxRestartsPerWindow_def restartRateWindow_def)
qed

section \<open>When the services are restarted\<close>

lemma gates_restarted:
  assumes "restart_gates env api st d = (Restarted t, st', e)"
  shows "(\<exists>d1. checkRelayPeerConnected env api staticRelayPeerID d = (True, d1)) \<and> files e fulaRestartCommandPath = Some (Text [])"
proof -
  have s: "files e fulaRestartCommandPath = Some (Text [])" if "signal_restart n s f = (Restarted t, st', e)" for n s f
    using that by (auto simp: signal_restart_def signalFulaRestart_def WriteFile_def split: prod.splits bool.splits if_splits)
  have "files e fulaRestartCommandPath = Some (Text [])" if "bounce env n s f = (Restarted t, st', e)" for n s f
    using that by (auto simp: bounce_def Let_def dest: s split: option.splits prod.splits if_splits)
  with assms show ?thesis
    by (auto simp: restart_gates_def Let_def split: prod.splits bool.splits if_splits)
qed

lemma tick_restartedE:
  assumes "watch_tick env nf api s st d = (Restarted t, st', e)"
  obtains d1 d2 d3 d4 where "checkKuboAlive env api d = (True, d1)"
    and "checkKuboHasCircuitAddress env api (refresh_registrations env nf api s d1) = (False, d2)"
    and "hasSeenCircuit st \<and> d3 = d2 \<or> (\<exists>now. time_now env d2 = (now, d3) \<and> startupAt st + bootstrapGracePeriod \<le> now)"
    and "restart_gates env api (st\<lparr>consecutiveCircuitMissing := Suc (consecutiveCircuitMissing st)\<rparr>) d3 = (Restarted t, st', e)"
    and "checkRelayPeerConnected env api staticRelayPeerID d3 = (True, d4)" and "0 < consecutiveCircuitMissing st"
    and "files e fulaRestartCommandPath = Some (Text [])"
proof -
  have c: "restart_gates env api (st\<lparr>consecutiveCircuitMissing := Suc (consecutiveCircuitMissing st)\<rparr>) f = (Restarted t, st', e) \<and>
      0 < consecutiveCircuitMissing st" if "count_miss env api st f = (Restarted t, st', e)" for f
    using that by (auto simp: count_miss_def Let_def relayCircuitMissingThreshold_def split: if_splits)
  have "\<exists>d1 d2 d3. checkKuboAlive env api d = (True, d1) \<and>
      checkKuboHasCircuitAddress env api (refresh_registrations env nf api s d1) = (False, d2) \<and>
      (hasSeenCircuit st \<and> d3 = d2 \<or> (\<exists>now. time_now env d2 = (now, d3) \<and> startupAt st + bootstrapGracePeriod \<le> now)) \<and>
      count_miss env api st d3 = (Restarted t, st', e)"
    using assms unfolding watch_tick_def circuit_present_def circuit_missing_def Let_def
    by (auto split: bool.splits if_splits option.splits prod.splits)
  then show ?thesis using c gates_restarted that by metis
qed

lemma gates_keep_start:
  assumes "restart_gates env api st d = (ev, st', e)"
  shows "startupAt st' = startupAt st \<and> hasSeenCircuit st' = hasSeenCircuit st"
proof -
  have s: "startupAt st' = startupAt s \<and> hasSeenCircuit st' = hasSeenCircuit s" if "signal_restart n s f = (ev, st', e)" for n s f
    using that by (auto simp: signal_restart_def split: prod.splits bool.splits)
  have "startupAt st' = startupAt s \<and> hasSeenCircuit st' = hasSeenCircuit s" if "bounce env n s f = (ev, st', e)" for n s f
    using that by (auto simp: bounce_def Let_def dest!: s split: option.splits prod.splits if_splits)
  with assms show ?thesis by (auto simp: restart_gates_def Let_def split: prod.splits bool.splits if_splits)
qed

lemma tick_start:
  assumes "watch_tick env nf api s st d = (ev, st', e)"
  shows "startupAt st' = startupAt st \<and> (hasSeenCircuit st' \<longleftrightarrow> hasSeenCircuit st \<or> ev = CircuitPresent)"
proof -
  have c: "startupAt st' = startupAt st \<and> hasSeenCircuit st' = hasSeenCircuit st \<and> ev \<noteq> CircuitPresent"
    if "count_miss env api st f = (ev, st', e)" for f
  proof -
    have "ev \<noteq> CircuitPresent" using that
      by (auto simp: count_miss_def restart_gates_def Let_def dest!: bounce_missing split: prod.splits bool.splits if_splits)
    then show ?thesis using that by (auto simp: count_miss_def Let_def dest!: gates_keep_start split: if_splits)
  qed
  have "(startupAt st' = startupAt st \<and> (hasSeenCircuit st' \<longleftrightarrow> hasSeenCircuit st \<or> ev = CircuitPresent)) \<or>
      (\<exists>f. count_miss env api st f = (ev, st', e))"
    using assms unfolding watch_tick_def circuit_present_def circuit_missing_def Let_def
    by (auto split: bool.splits if_splits option.splits prod.splits)
  then show ?thesis using c by blast
qed

lemma watch_run_start:
  assumes "watch_from env tt api (watch_start now) d0 evs st d"
  shows "startupAt st = now \<and> (hasSeenCircuit st \<longleftrightarrow> CircuitPresent \<in> set evs) \<and>
    (0 < consecutiveCircuitMissing st \<longleftrightarrow> evs \<noteq> [] \<and> missed (last evs))"
  using assms
proof induction
  case (tick evs st1 d1 d2 nf s ev st2 e)
  then show ?case using tick_start [OF tick(3)] tick_missing [OF tick(3)] by auto
qed (simp add: watch_start_def)

text \<open>
  C9. A restart is asked for only when it is warranted: kubo answered and advertised no circuit address
  in this tick nor in the one before, the static relay is connected, and either the circuit had been
  seen since the start or five minutes have passed. The request is the marker file for the host.
\<close>

theorem watchdog_restart_justified:
  assumes "watchKuboP2P env tt api d evs st e" and "clocked env tt"
    and "api' = (if api = [] then defaultKuboAPIAddr else api)"
    and "watch_tick env nf api' serverPeerID st f = (Restarted t, st', g)"
  shows "evs \<noteq> [] \<and> missed (last evs) \<and> (CircuitPresent \<in> set evs \<or> fst (time_now env d) + 5 * minute \<le> t) \<and>
    (\<exists>d1 d2 d3 d4. checkKuboAlive env api' f = (True, d1) \<and>
       checkKuboHasCircuitAddress env api' (refresh_registrations env nf api' serverPeerID d1) = (False, d2) \<and>
       same_local d2 d3 \<and> checkRelayPeerConnected env api' staticRelayPeerID d3 = (True, d4)) \<and>
    files g fulaRestartCommandPath = Some (Text [])"
proof -
  obtain now d0 where n: "time_now env d = (now, d0)" by fastforce
  with assms(1,3) have "watch_from env tt api' (watch_start now) d0 evs st e" by (simp add: watchKuboP2P_def)
  note s = watch_run_start [OF this]
  from assms(4) show ?thesis
  proof (cases rule: tick_restartedE)
    case (1 d1 d2 d3 d4)
    have l: "tt (world d3) \<le> t" using gates_cases [OF 1(4) assms(2)] by (auto simp: no_restart_def)
    have "same_local d2 d3" using 1(3) by (auto dest: time_now_local)
    moreover have "CircuitPresent \<in> set evs \<or> now + 5 * minute \<le> t"
      using 1(3) s l clockedD(3) [OF assms(2), of d2] by (auto simp: later_def bootstrapGracePeriod_def)
    ultimately show ?thesis using 1 s n by auto
  qed
qed

lemma missed_observed:
  assumes "watch_tick env nf api s st d = (ev, st', e)" and "missed ev"
  shows "\<exists>d1 d2. checkKuboAlive env api d = (True, d1) \<and>
    checkKuboHasCircuitAddress env api (refresh_registrations env nf api s d1) = (False, d2)"
  using assms unfolding watch_tick_def circuit_present_def Let_def
  by (auto simp: missed_def split: bool.splits if_splits option.splits prod.splits)


section \<open>Giving up\<close>

lemma gates_failed:
  assumes "restart_gates env api st d = (ev, st', e)"
  shows "consecutiveFailedRestarts st \<le> consecutiveFailedRestarts st'"
proof -
  have "consecutiveFailedRestarts s \<le> consecutiveFailedRestarts st'" if "bounce env n s f = (ev, st', e)" for n s f
    using that by (auto simp: bounce_def Let_def dest!: signal_restart_cases split: option.splits prod.splits if_splits)
  with assms show ?thesis by (fastforce simp: restart_gates_def Let_def split: prod.splits bool.splits if_splits)
qed

lemma tick_failed:
  assumes w: "watch_tick env nf api s st d = (ev, st', e)" and ck: "clocked env tt"
    and l: "lastRestartAt st = Some t" "t + bounceVerifyGracePeriod \<le> tt (world d)"
  shows "consecutiveFailedRestarts st \<le> consecutiveFailedRestarts st'"
proof -
  obtain a d1 where d1: "checkKuboAlive env api d = (a, d1)" by fastforce
  obtain c d3 where d3: "checkKuboHasCircuitAddress env api (refresh_registrations env nf api s d1) = (c, d3)" by fastforce
  obtain now d4 where d4: "time_now env d3 = (now, d4)" by fastforce
  have now: "t + bounceVerifyGracePeriod \<le> now"
    using check_later(1) [OF ck d1] refresh_later [OF ck, of d1 nf api s] check_later(4) [OF ck d3] clockedD(3) [OF ck d4] l(2)
    by (auto simp: later_def)
  have c: "consecutiveFailedRestarts st \<le> consecutiveFailedRestarts st'" if "count_miss env api st f = (ev, st', e)" for f
    using that by (auto simp: count_miss_def Let_def dest!: gates_failed split: if_splits)
  have "consecutiveFailedRestarts st' = consecutiveFailedRestarts st \<or> (\<exists>f. count_miss env api st f = (ev, st', e))"
    using w l(1) now unfolding watch_tick_def d1 d3 prod.case circuit_present_def circuit_missing_def d4 Let_def
    by (auto split: bool.splits if_splits option.splits)
  then show ?thesis using c by auto
qed

text \<open>
  The long cooldown never ends: once two restarts in a row were judged unhelpful and the last restart
  is more than three minutes old, no tick of this process asks for a restart again. The counter is reset
  only while a restart is less than three minutes old, so every later attempt counts the same restart as
  failed once more and enters the cooldown anew, even when the circuit has been healthy for weeks.
\<close>

lemma watchdog_gives_up:
  assumes "watch_from env tt api st d evs st' e" and "clocked env tt"
    and "lastRestartAt st = Some t" and "t + 3 * minute \<le> tt (world d)" and "2 \<le> consecutiveFailedRestarts st"
  shows "restart_times evs = []"
proof -
  have "restart_times evs = [] \<and> lastRestartAt st' = Some t \<and> t + 3 * minute \<le> tt (world e) \<and> 2 \<le> consecutiveFailedRestarts st'"
    using assms(1)
  proof induction
    case (tick evs st1 d1 d2 nf s ev st2 f)
    note c = tick_cases [OF tick(3) assms(2)]
    have l: "tt (world d1) \<le> tt (world d2)" "tt (world d2) \<le> tt (world f)" using tick(2) c by (auto simp: later_def)
    have "no_restart ev"
      using c tick.IH by (auto simp: restarts_at_def maxConsecutiveFailedRestarts_def)
    moreover have "2 \<le> consecutiveFailedRestarts st2"
      using tick_failed [OF tick(3) assms(2)] tick.IH l by (auto simp: bounceVerifyGracePeriod_def)
    ultimately show ?case
      using c tick.IH l by (auto simp: restart_times_append restart_times_none no_restart_def keeps_times_def)
  qed (use assms in simp)
  then show ?thesis by simp
qed


section \<open>The cached peer of the server\<close>

text \<open>A fetched id is written to the cache and read back from there without the network.\<close>

lemma server_peer_cached:
  assumes "fetchServerKuboPeerID env pool d = (Some p, e)"
    and "\<not> unwritable d (serverKuboPeerIDCachePath pool)" and "\<not> unreadable d (serverKuboPeerIDCachePath pool)"
    and "TrimSpace p \<noteq> []" and "same_local e f"
  shows "fetchServerKuboPeerID env' pool f = (Some (TrimSpace p), f)"
proof -
  let ?c = "serverKuboPeerIDCachePath pool"
  have "unreadable e ?c = unreadable d ?c \<and> (\<exists>g. files e ?c = Some g \<and> TrimSpace (file_text g) = TrimSpace p)"
    using assms(1-3)
    by (auto simp: fetchServerKuboPeerID_def Let_def ReadFile_def WriteFile_def send_def
        split: if_splits prod.splits option.splits)
  then show ?thesis
    using assms(3,4) same_localD [OF assms(5)] by (auto simp: fetchServerKuboPeerID_def Let_def ReadFile_def)
qed

subsection \<open>A concrete run\<close>

text \<open>A kubo that is up and connected to the relay, but has no circuit.\<close>

definition relayed_kubo :: "http_req \<Rightarrow> net_reply" where
  "relayed_kubo r =
     (if hq_url r = ''http://127.0.0.1:5001/api/v0/id'' then Reply StatusOK (Some (Doc (JObj [(''Addresses'', JArr [])])))
      else if hq_url r = ''http://127.0.0.1:5001/api/v0/swarm/peers''
        then Reply StatusOK (Some (Doc (JObj [(''Peers'', JArr [JObj [(''Peer'', JStr staticRelayPeerID)]])])))
      else Reply StatusOK (Some (Doc JNull)))"

definition kubo_env :: "int env" where
  "kubo_env = (sample_env Map.empty)\<lparr>net := (\<lambda>r w. (relayed_kubo r, w))\<rparr>"

definition no_nics :: interfaces where
  "no_nics = \<lparr>nics = None, nics_again = None, nic_addrs = (\<lambda>_. None)\<rparr>"

lemma kubo_env_clocked: "clocked kubo_env (\<lambda>w. w)"
  by (simp add: clocked_def kubo_env_def sample_env_def)

lemma kubo_env_calls:
  "kubo_call kubo_env defaultKuboAPIAddr p d = (relayed_kubo \<lparr>hq_method = ''POST'', hq_url = ''http://127.0.0.1:5001/api/v0/'' @ p, hq_body = Raw []\<rparr>, d)"
  by (simp add: kubo_call_def http_Post_def kubo_env_def send_def defaultKuboAPIAddr_def HasPrefix_def)

lemma kubo_env_checks:
  "checkKuboAlive kubo_env defaultKuboAPIAddr d = (True, d)"
  "checkKuboHasCircuitAddress kubo_env defaultKuboAPIAddr d = (False, d)"
  "checkRelayPeerConnected kubo_env defaultKuboAPIAddr staticRelayPeerID d = (True, d)"
  by (simp_all add: checkKuboAlive_def checkKuboHasCircuitAddress_def checkRelayPeerConnected_def kubo_env_calls relayed_kubo_def
      ok_doc_def kubo_addresses_def kubo_peers_def decode_new_def entry_def elements_def text_of_def fold_eq_def lower_char_def)

lemma kubo_env_refresh: "refresh_registrations kubo_env no_nics defaultKuboAPIAddr [] d = d"
proof -
  have "register_all kubo_env defaultKuboAPIAddr ps d = (True, d)" for ps
    by (induction ps) (auto simp: registerSingleProtocol_def kubo_env_calls relayed_kubo_def split: prod.splits net_reply.splits)
  then have "registerKuboProtocols kubo_env no_nics defaultKuboAPIAddr d = (True, d)"
    by (simp add: registerKuboProtocols_def kubo_env_calls)
  moreover have "snd (checkKuboP2PListeners kubo_env no_nics defaultKuboAPIAddr d) = d"
    by (simp add: checkKuboP2PListeners_def kubo_env_calls Let_def split: option.splits)
  ultimately show ?thesis by (auto simp: refresh_registrations_def split: prod.splits bool.splits)
qed

lemma kubo_env_time: "time_now kubo_env d = (world d, d)"
  by (simp add: time_now_def kubo_env_def sample_env_def)

abbreviation at_minute :: "int \<Rightarrow> int device" where
  "at_minute m \<equiv> sample_device (m * minute)"

lemma world_sample: "world (sample_device w) = w"
  by (simp add: sample_device_def)

definition missing_once :: watch where
  "missing_once = (watch_start 0)\<lparr>consecutiveCircuitMissing := 1\<rparr>"

lemma first_miss: "watch_tick kubo_env no_nics defaultKuboAPIAddr [] (watch_start 0) (at_minute 6) = (BelowThreshold, missing_once, at_minute 6)"
  by (simp add: watch_tick_def kubo_env_checks kubo_env_refresh circuit_missing_def watch_start_def kubo_env_time count_miss_def
      bootstrapGracePeriod_def relayCircuitMissingThreshold_def missing_once_def sample_device_def)

lemma second_miss:
  "\<exists>e. watch_tick kubo_env no_nics defaultKuboAPIAddr [] missing_once (at_minute 7) = (Restarted (7 * minute),
     (watch_start 0)\<lparr>lastRestartAt := Some (7 * minute), restartHistory := [7 * minute]\<rparr>, e)"
  by (simp add: watch_tick_def kubo_env_checks kubo_env_refresh circuit_missing_def watch_start_def kubo_env_time count_miss_def
      bootstrapGracePeriod_def relayCircuitMissingThreshold_def missing_once_def sample_device_def restart_gates_def cooling_def
      maxRestartsPerWindow_def bounce_def signal_restart_def signalFulaRestart_def WriteFile_def RemoveFile_def)

lemma first_run: "watchKuboP2P kubo_env (\<lambda>w. w) [] (at_minute 0) [BelowThreshold] missing_once (at_minute 6)"
  using watch_from.tick [OF watch_from.idle _ first_miss, of "\<lambda>w. w" "at_minute 0"]
  by (simp add: watchKuboP2P_def kubo_env_time sample_device_def later_def)

theorem watchdog_restart_limits_witness:
  "\<exists>evs st e. watchKuboP2P kubo_env (\<lambda>w. w) [] (at_minute 0) evs st e \<and> restart_times evs = [7 * minute] \<and>
     sorted_wrt (\<lambda>a b. a + 5 * minute \<le> b) (restart_times evs)"
proof -
  obtain e st where s: "watch_tick kubo_env no_nics defaultKuboAPIAddr [] missing_once (at_minute 7) = (Restarted (7 * minute), st, e)"
    using second_miss by blast
  have "watchKuboP2P kubo_env (\<lambda>w. w) [] (at_minute 0) ([BelowThreshold] @ [Restarted (7 * minute)]) st e"
    using first_run watch_from.tick [OF _ _ s, of "\<lambda>w. w" "watch_start 0" "at_minute 0" "[BelowThreshold]" "at_minute 6"]
    by (simp add: watchKuboP2P_def kubo_env_time later_def world_sample)
  from watchdog_restart_limits [OF this kubo_env_clocked] this show ?thesis by fastforce
qed

theorem watchdog_restart_justified_witness:
  "missed (last [BelowThreshold]) \<and> fst (time_now kubo_env (at_minute 0)) + 5 * minute \<le> 7 * minute"
proof -
  obtain e st where s: "watch_tick kubo_env no_nics defaultKuboAPIAddr [] missing_once (at_minute 7) = (Restarted (7 * minute), st, e)"
    using second_miss by blast
  from watchdog_restart_justified [OF first_run kubo_env_clocked _ s] show ?thesis by simp
qed

definition given_up :: watch where
  "given_up = (watch_start 0)\<lparr>lastRestartAt := Some 0, consecutiveFailedRestarts := 2, consecutiveCircuitMissing := 1, hasSeenCircuit := True\<rparr>"

theorem watchdog_gives_up_witness:
  "\<exists>evs st e. watch_from kubo_env (\<lambda>w. w) defaultKuboAPIAddr given_up (at_minute 100) evs st e \<and> evs \<noteq> [] \<and> restart_times evs = []"
proof -
  obtain ev st e where t: "watch_tick kubo_env no_nics defaultKuboAPIAddr [] given_up (at_minute 100) = (ev, st, e)"
    using prod_cases3 by blast
  have w: "watch_from kubo_env (\<lambda>w. w) defaultKuboAPIAddr given_up (at_minute 100) ([] @ [ev]) st e"
    by (rule watch_from.tick [OF watch_from.idle _ t]) simp
  have "restart_times ([] @ [ev]) = []"
    by (rule watchdog_gives_up [OF w kubo_env_clocked, where t = 0]) (simp_all add: given_up_def world_sample)
  with w show ?thesis by blast
qed

end
