(* ===== verification/BlockStore.thy ===== *)
theory BlockStore
  imports Device "HOL-Library.Multiset"
begin

text \<open>
  The stored blocks of the node, \<^verbatim>\<open>blox/blox.go\<close>: from the name of a block file to its content id, and
  the listing of the blocks stored since the last check. The block directory is a tree of directory
  entries as \<^verbatim>\<open>filepath.WalkDir\<close> meets them; it does not change while it is walked. Multibase, multihash
  and content ids are third-party codecs and therefore parameters.
\<close>

section \<open>File names\<close>

definition HasSuffix :: "string \<Rightarrow> string \<Rightarrow> bool" where
  "HasSuffix s p \<longleftrightarrow> HasPrefix (rev s) (rev p)"

definition TrimSuffix :: "string \<Rightarrow> string \<Rightarrow> string" where
  "TrimSuffix s p = (if HasSuffix s p then take (length s - length p) s else s)"

definition upper_char :: "char \<Rightarrow> char" where
  "upper_char c = (let n = of_char c :: nat in if 97 \<le> n \<and> n \<le> 122 then char_of (n - 32) else c)"

text \<open>\<^verbatim>\<open>strings.ToUpper\<close> on ASCII, \<^verbatim>\<open>filepath.Base\<close> and \<^verbatim>\<open>filepath.Ext\<close>.\<close>

definition ToUpper :: "string \<Rightarrow> string" where
  "ToUpper s = map upper_char s"

definition filepath_Base :: "string \<Rightarrow> string" where
  "filepath_Base path =
     (if path = [] then ''.''
      else let p = rev (dropWhile (\<lambda>c. c = CHR ''/'') (rev path)) in
           if p = [] then ''/'' else last (split_char (CHR ''/'') p))"

definition filepath_Ext :: "string \<Rightarrow> string" where
  "filepath_Ext path =
     (let tail = takeWhile (\<lambda>c. c \<noteq> CHR ''.'' \<and> c \<noteq> CHR ''/'') (rev path) in
      case drop (length tail) (rev path) of
        c # _ \<Rightarrow> if c = CHR ''.'' then CHR ''.'' # rev tail else []
      | [] \<Rightarrow> [])"

lemma HasSuffix_append [simp]: "HasSuffix (s @ p) p"
  by (simp add: HasSuffix_def)

lemma TrimSuffix_append [simp]: "TrimSuffix (s @ p) p = s"
  by (simp add: TrimSuffix_def)

lemma split_char_last: "sep \<notin> set w \<Longrightarrow> last (split_char sep (s @ sep # w)) = w"
proof (induction s)
  case (Cons c s)
  obtain v vs where v: "split_char sep (s @ sep # w) = v # vs" by (meson neq_Nil_conv split_char_not_Nil)
  have "vs \<noteq> []"
  proof
    assume "vs = []"
    then have "join_char sep (split_char sep (s @ sep # w)) = v" using v by simp
    then have "v = s @ sep # w" by (simp add: join_split)
    moreover have "sep \<notin> set v" using v set_split_char [of v sep "s @ sep # w"] by simp
    ultimately show False by simp
  qed
  with Cons v show ?case by auto
qed (simp add: split_char_no_sep)

lemma filepath_Base_file: "name \<noteq> [] \<Longrightarrow> CHR ''/'' \<notin> set name \<Longrightarrow> filepath_Base (dir @ ''/'' @ name) = name"
proof -
  assume n: "name \<noteq> []" and s: "CHR ''/'' \<notin> set name"
  then have "dropWhile (\<lambda>c. c = CHR ''/'') (rev (dir @ ''/'' @ name)) = rev (dir @ ''/'' @ name)"
    by (cases "rev name") (auto dest: arg_cong [where f = set])
  then show ?thesis using split_char_last [OF s, of dir] by (simp add: filepath_Base_def Let_def)
qed

lemma filepath_Ext_dot:
  assumes "CHR ''.'' \<notin> set e" and "CHR ''/'' \<notin> set e"
  shows "filepath_Ext (s @ CHR ''.'' # e) = CHR ''.'' # e"
proof -
  have "takeWhile (\<lambda>c. c \<noteq> CHR ''.'' \<and> c \<noteq> CHR ''/'') (rev e @ CHR ''.'' # rev s) = rev e"
    using assms by (subst takeWhile_append2) auto
  then show ?thesis by (simp add: filepath_Ext_def Let_def)
qed


section \<open>From a block file to a content id\<close>

text \<open>\<^verbatim>\<open>multihash.Encode\<close> and \<^verbatim>\<open>cid.NewCidV1\<close>.\<close>

record 'c cid_codec =
  multihash_Encode :: "nat list \<Rightarrow> nat \<Rightarrow> nat list option"
  NewCidV1 :: "nat \<Rightarrow> nat list \<Rightarrow> 'c"

datatype cid_error = BadHex | BadMultihash | BadMultibase

definition hexStringToCID :: "'c cid_codec \<Rightarrow> string \<Rightarrow> (cid_error, 'c) outcome" where
  "hexStringToCID cc hexDigest =
     (case hex_DecodeString hexDigest of
        None \<Rightarrow> Err BadHex
      | Some bytes \<Rightarrow>
          if length bytes < 2 then Panic
          else (case multihash_Encode cc (drop 2 bytes) (bytes ! 0) of
                  None \<Rightarrow> Err BadMultihash
                | Some mh \<Rightarrow> Ok (NewCidV1 cc 0x71 mh)))"

definition findDigestHexFromBase32Multibase :: "codecs \<Rightarrow> string \<Rightarrow> (cid_error, string) outcome" where
  "findDigestHexFromBase32Multibase cd digest =
     (case mb_Decode cd digest of None \<Rightarrow> Err BadMultibase | Some bytes \<Rightarrow> Ok (hex_EncodeToString bytes))"

definition FindCIDFromDigest :: "codecs \<Rightarrow> 'c cid_codec \<Rightarrow> string \<Rightarrow> (cid_error, 'c) outcome" where
  "FindCIDFromDigest cd cc digest = and_then (findDigestHexFromBase32Multibase cd digest) (hexStringToCID cc)"

definition GetCidv1FromBlockFilename :: "codecs \<Rightarrow> 'c cid_codec \<Rightarrow> string \<Rightarrow> (cid_error, 'c) outcome" where
  "GetCidv1FromBlockFilename cd cc filename =
     (let base = filepath_Base filename in
      FindCIDFromDigest cd cc (''B'' @ ToUpper (TrimSuffix base (filepath_Ext base))))"

lemma block_file_digest:
  assumes "CHR ''/'' \<notin> set name"
  shows "GetCidv1FromBlockFilename cd cc (dir @ ''/'' @ name @ ''.data'') = FindCIDFromDigest cd cc (''B'' @ ToUpper name)"
proof -
  have b: "filepath_Base (dir @ ''/'' @ name @ ''.data'') = name @ ''.data''"
    using assms by (intro filepath_Base_file) auto
  have e: "filepath_Ext (name @ ''.data'') = ''.data''"
    using filepath_Ext_dot [of "''data''" name] by simp
  show ?thesis unfolding GetCidv1FromBlockFilename_def Let_def b e by simp
qed

lemma FindCID_bytes:
  assumes "mb_Decode cd digest = Some bs" and "\<forall>b \<in> set bs. b < 256"
  shows "FindCIDFromDigest cd cc digest =
    (if length bs < 2 then Panic
     else (case multihash_Encode cc (drop 2 bs) (bs ! 0) of None \<Rightarrow> Err BadMultihash | Some mh \<Rightarrow> Ok (NewCidV1 cc 0x71 mh)))"
  using assms by (simp add: FindCIDFromDigest_def findDigestHexFromBase32Multibase_def hexStringToCID_def hex_decode_encode)

text \<open>
  The name of a block file determines the block: if the upper-case name is the base 32 text of a
  multihash with a one-byte code and a one-byte length, the content id built from the file name carries
  exactly that multihash.
\<close>

lemma block_name_roundtrip:
  assumes "CHR ''/'' \<notin> set name" and "mb_Decode cd (''B'' @ ToUpper name) = Some (code # length digest # digest)"
    and "\<forall>b \<in> set digest. b < 256" and "code < 128" and "length digest < 128"
    and "\<And>buf c. c < 128 \<Longrightarrow> length buf < 128 \<Longrightarrow> multihash_Encode cc buf c = Some (c # length buf # buf)"
  shows "GetCidv1FromBlockFilename cd cc (dir @ ''/'' @ name @ ''.data'')
    = Ok (NewCidV1 cc 0x71 (code # length digest # digest))"
  unfolding block_file_digest [OF assms(1)]
  using assms(3-6) by (subst FindCID_bytes [OF assms(2)]) auto

section \<open>Walking the block directory\<close>

text \<open>
  An entry of the directory tree: its name, its modification time (\<^const>\<open>None\<close> when \<^verbatim>\<open>Info\<close> fails) and,
  for a directory, its entries in the order of \<^verbatim>\<open>ReadDir\<close> (\<^const>\<open>None\<close> when reading it fails).
\<close>

datatype fs_node = FsFile string "int option" | FsDir string "int option" "fs_node list option"

fun node_name :: "fs_node \<Rightarrow> string" where
  "node_name (FsFile n _) = n"
| "node_name (FsDir n _ _) = n"

definition blocksDir :: string where
  "blocksDir = ''/uniondrive/ipfs_datastore/blocks''"

text \<open>
  The first walk collects the directories modified after \<open>since\<close> and does not enter them; a directory
  named \<^verbatim>\<open>.temp\<close> is entered but not collected. The first error ends the walk.
\<close>

fun modified_dirs :: "int \<Rightarrow> bool \<Rightarrow> string \<Rightarrow> fs_node \<Rightarrow> (string \<times> fs_node) list option"
  and modified_in :: "int \<Rightarrow> string \<Rightarrow> fs_node list \<Rightarrow> (string \<times> fs_node) list option" where
  "modified_dirs since atTop path (FsFile n t) = Some []"
| "modified_dirs since atTop path (FsDir n t es) =
     (let deeper = (case es of None \<Rightarrow> None | Some xs \<Rightarrow> modified_in since path xs) in
      if \<not> atTop \<and> \<not> HasSuffix n ''.temp'' then
        (case t of
           None \<Rightarrow> None
         | Some m \<Rightarrow> if since < m then Some [(path, FsDir n t es)] else deeper)
      else deeper)"
| "modified_in since path [] = Some []"
| "modified_in since path (x # xs) =
     (case modified_dirs since False (path @ ''/'' @ node_name x) x of
        None \<Rightarrow> None
      | Some ds \<Rightarrow> map_option ((@) ds) (modified_in since path xs))"

text \<open>
  The second walk, one goroutine per collected directory: the content ids it sends, and whether it
  finished, stopped at an error (which is only logged) or crashed the process.
\<close>

datatype walk_end = Finished | Stopped | Crashed

fun walk_blocks :: "(string \<Rightarrow> ('e, 'c) outcome) \<Rightarrow> int \<Rightarrow> string \<Rightarrow> fs_node \<Rightarrow> 'c list \<times> walk_end"
  and walk_list :: "(string \<Rightarrow> ('e, 'c) outcome) \<Rightarrow> int \<Rightarrow> string \<Rightarrow> fs_node list \<Rightarrow> 'c list \<times> walk_end" where
  "walk_blocks get since path (FsFile n t) =
     (if \<not> HasSuffix n ''.temp'' \<and> HasSuffix n ''.data'' then
        (case t of
           None \<Rightarrow> ([], Stopped)
         | Some m \<Rightarrow>
             if since < m then
               (case get path of Ok c \<Rightarrow> ([c], Finished) | Err _ \<Rightarrow> ([], Finished) | Panic \<Rightarrow> ([], Crashed))
             else ([], Finished))
      else ([], Finished))"
| "walk_blocks get since path (FsDir n t es) =
     (case es of None \<Rightarrow> ([], Stopped) | Some xs \<Rightarrow> walk_list get since path xs)"
| "walk_list get since path [] = ([], Finished)"
| "walk_list get since path (x # xs) =
     (case walk_blocks get since (path @ ''/'' @ node_name x) x of
        (ls, Finished) \<Rightarrow> (case walk_list get since path xs of (ls', w) \<Rightarrow> (ls @ ls', w))
      | (ls, w) \<Rightarrow> (ls, w))"

text \<open>
  The listing. The goroutines send to one channel in any interleaving, so the result is a multiset; a
  panic in any of them ends the daemon. \<open>root\<close> is \<^const>\<open>None\<close> when the block directory cannot be examined.
\<close>

datatype walk_error = WalkFailed

definition ListModifiedStoredBlocks ::
  "codecs \<Rightarrow> 'c cid_codec \<Rightarrow> int \<Rightarrow> fs_node option \<Rightarrow> (walk_error, 'c multiset) outcome" where
  "ListModifiedStoredBlocks cd cc lastChecked root =
     (case Option.bind root (modified_dirs lastChecked True blocksDir) of
        None \<Rightarrow> Err WalkFailed
      | Some dirs \<Rightarrow>
          let runs = map (\<lambda>a. walk_blocks (GetCidv1FromBlockFilename cd cc) lastChecked (fst a) (snd a)) dirs in
          if Crashed \<in> snd ` set runs then Panic else Ok (mset (concat (map fst runs))))"


section \<open>The directory filter is only an optimisation\<close>

text \<open>The reference: every block file of the tree modified after \<open>since\<close>.\<close>

definition fresh_file :: "int \<Rightarrow> fs_node \<Rightarrow> bool" where
  "fresh_file since x = (case x of FsFile n (Some m) \<Rightarrow> HasSuffix n ''.data'' \<and> since < m | _ \<Rightarrow> False)"

fun fresh_paths :: "int \<Rightarrow> string \<Rightarrow> fs_node \<Rightarrow> string list"
  and fresh_in :: "int \<Rightarrow> string \<Rightarrow> fs_node list \<Rightarrow> string list" where
  "fresh_paths since path (FsFile n t) = (if fresh_file since (FsFile n t) then [path] else [])"
| "fresh_paths since path (FsDir n t es) = (case es of None \<Rightarrow> [] | Some xs \<Rightarrow> fresh_in since path xs)"
| "fresh_in since path [] = []"
| "fresh_in since path (x # xs) = fresh_paths since (path @ ''/'' @ node_name x) x @ fresh_in since path xs"

text \<open>Nothing in the tree is unreadable.\<close>

fun readable :: "fs_node \<Rightarrow> bool" where
  "readable (FsFile n t) = (t \<noteq> None)"
| "readable (FsDir n t es) = (t \<noteq> None \<and> (case es of None \<Rightarrow> False | Some xs \<Rightarrow> list_all readable xs))"

text \<open>
  A directory that directly holds a fresh block is a shard (neither the top nor \<^verbatim>\<open>.temp\<close>) and was itself
  modified since: that is what creating or renaming a file in it does to its modification time.
\<close>

fun timely :: "int \<Rightarrow> bool \<Rightarrow> fs_node \<Rightarrow> bool" where
  "timely since atTop (FsFile n t) = True"
| "timely since atTop (FsDir n t es) =
     (case es of
        None \<Rightarrow> True
      | Some xs \<Rightarrow>
          (list_ex (fresh_file since) xs \<longrightarrow>
             \<not> atTop \<and> \<not> HasSuffix n ''.temp'' \<and> (case t of None \<Rightarrow> False | Some m \<Rightarrow> since < m)) \<and>
          list_all (timely since False) xs)"

fun ok_value :: "('e, 'a) outcome \<Rightarrow> 'a option" where
  "ok_value (Ok v) = Some v"
| "ok_value _ = None"

lemma map_filter_append: "List.map_filter f (xs @ ys) = List.map_filter f xs @ List.map_filter f ys"
  by (induction xs) (auto split: option.splits)

lemma data_not_temp: "HasSuffix n ''.data'' \<Longrightarrow> \<not> HasSuffix n ''.temp''"
  by (auto simp: HasSuffix_def HasPrefix_iff)

text \<open>The second walk finds exactly the fresh blocks of its directory.\<close>

lemma walk_finds:
  shows "readable x \<Longrightarrow> walk_blocks get since path x = (ls, w) \<Longrightarrow>
      (if \<exists>p \<in> set (fresh_paths since path x). get p = Panic then w = Crashed
       else w = Finished \<and> ls = List.map_filter (\<lambda>p. ok_value (get p)) (fresh_paths since path x))"
    and "list_all readable xs \<Longrightarrow> walk_list get since path xs = (ls, w) \<Longrightarrow>
      (if \<exists>p \<in> set (fresh_in since path xs). get p = Panic then w = Crashed
       else w = Finished \<and> ls = List.map_filter (\<lambda>p. ok_value (get p)) (fresh_in since path xs))"
proof (induction get since path x and get since path xs arbitrary: ls w and ls w rule: walk_blocks_walk_list.induct)
  case (1 get since path n t)
  then show ?case
    by (auto simp: fresh_file_def data_not_temp map_filter_simps split: outcome.splits if_splits)
next
  case (2 get since path n t es)
  then obtain xs where "es = Some xs" by (auto split: option.splits)
  with 2 show ?case by simp
next
  case (4 get since path x xs)
  obtain l1 w1 where w1: "walk_blocks get since (path @ ''/'' @ node_name x) x = (l1, w1)" by fastforce
  obtain l2 w2 where w2: "walk_list get since path xs = (l2, w2)" by fastforce
  note one = "4.IH"(1) [OF _ w1]
  show ?case
  proof (cases w1)
    case Finished
    note two = "4.IH"(2) [OF w1 [symmetric] Finished]
    show ?thesis using one two "4.prems" w1 w2 Finished by (auto simp: map_filter_append split: if_splits)
  qed (use one "4.prems" w1 in \<open>auto split: if_splits\<close>)
qed (simp add: map_filter_simps)


text \<open>The first walk collects readable directories that together hold the fresh blocks, each once.\<close>

lemma dirs_cover:
  shows "readable x \<Longrightarrow> timely since atTop x \<Longrightarrow> \<not> fresh_file since x \<Longrightarrow>
      \<exists>ds. modified_dirs since atTop path x = Some ds \<and> list_all (\<lambda>a. readable (snd a)) ds \<and>
        concat (map (\<lambda>a. fresh_paths since (fst a) (snd a)) ds) = fresh_paths since path x"
    and "list_all readable xs \<Longrightarrow> list_all (timely since False) xs \<Longrightarrow> \<not> list_ex (fresh_file since) xs \<Longrightarrow>
      \<exists>ds. modified_in since path xs = Some ds \<and> list_all (\<lambda>a. readable (snd a)) ds \<and>
        concat (map (\<lambda>a. fresh_paths since (fst a) (snd a)) ds) = fresh_in since path xs"
proof (induction since atTop path x and since path xs rule: modified_dirs_modified_in.induct)
  case (2 since atTop path n t es)
  then obtain xs m where es: "es = Some xs" "t = Some m" by (auto split: option.splits)
  show ?case
  proof (cases "\<not> atTop \<and> \<not> HasSuffix n ''.temp'' \<and> since < m")
    case True
    with es "2.prems" show ?thesis by simp
  next
    case False
    with es "2.prems" have "\<not> list_ex (fresh_file since) xs" by auto
    with "2.IH" [OF es(1)] es "2.prems" have "\<exists>ds. modified_in since path xs = Some ds \<and> list_all (\<lambda>a. readable (snd a)) ds \<and>
        concat (map (\<lambda>a. fresh_paths since (fst a) (snd a)) ds) = fresh_in since path xs" by simp
    moreover from es False have "modified_dirs since atTop path (FsDir n t es) = modified_in since path xs" by (auto simp: Let_def)
    ultimately show ?thesis using es by simp
  qed
next
  case (4 since path x xs)
  from "4.prems" obtain d1 where d1: "modified_dirs since False (path @ ''/'' @ node_name x) x = Some d1"
      "list_all (\<lambda>a. readable (snd a)) d1"
      "concat (map (\<lambda>a. fresh_paths since (fst a) (snd a)) d1) = fresh_paths since (path @ ''/'' @ node_name x) x"
    using "4.IH"(1) by auto
  from "4.prems" obtain d2 where "modified_in since path xs = Some d2" "list_all (\<lambda>a. readable (snd a)) d2"
      "concat (map (\<lambda>a. fresh_paths since (fst a) (snd a)) d2) = fresh_in since path xs"
    using "4.IH"(2) [OF d1(1)] by auto
  with d1 show ?case by simp
qed simp_all

lemma walks_together:
  fixes get :: "string \<Rightarrow> ('e, 'c) outcome" and since :: int
  assumes "list_all (\<lambda>a. readable (snd a)) ds"
  defines "runs \<equiv> map (\<lambda>a. walk_blocks get since (fst a) (snd a)) ds"
    and "paths \<equiv> concat (map (\<lambda>a. fresh_paths since (fst a) (snd a)) ds)"
  shows "(Crashed \<in> snd ` set runs) = (\<exists>p \<in> set paths. get p = Panic)"
    and "\<forall>p \<in> set paths. get p \<noteq> Panic \<Longrightarrow>
      concat (map fst runs) = List.map_filter (\<lambda>p. ok_value (get p)) paths"
proof -
  have one: "(snd (walk_blocks get since p x) = Crashed) = (\<exists>q \<in> set (fresh_paths since p x). get q = Panic)"
    "\<forall>q \<in> set (fresh_paths since p x). get q \<noteq> Panic \<Longrightarrow>
       fst (walk_blocks get since p x) = List.map_filter (\<lambda>q. ok_value (get q)) (fresh_paths since p x)"
    if "readable x" for p x
    using walk_finds(1) [OF that prod.collapse [symmetric], where get = get and since = since and path = p]
    by (auto split: if_splits)
  show "(Crashed \<in> snd ` set runs) = (\<exists>p \<in> set paths. get p = Panic)"
    using assms(1) one(1) unfolding runs_def paths_def by (induction ds) (auto simp: image_iff eq_commute [of Crashed])
  show "concat (map fst runs) = List.map_filter (\<lambda>p. ok_value (get p)) paths" if "\<forall>p \<in> set paths. get p \<noteq> Panic"
    using assms(1) one(2) that unfolding runs_def paths_def by (induction ds) (auto simp: map_filter_append)
qed

lemma listing_runs:
  assumes "readable root" and "timely lastChecked True root" and "\<not> fresh_file lastChecked root"
  obtains ds where "modified_dirs lastChecked True blocksDir root = Some ds" and "list_all (\<lambda>a. readable (snd a)) ds"
    and "concat (map (\<lambda>a. fresh_paths lastChecked (fst a) (snd a)) ds) = fresh_paths lastChecked blocksDir root"
  using dirs_cover(1) [OF assms] by blast

text \<open>
  C16. Collecting modified directories first loses nothing: when the block tree is readable and every
  directory that received a block since the last check is a modified shard, the listing is, as a
  multiset, the content ids of all block files of the tree modified since the last check (file names
  that are no multihash are skipped), and it crashes exactly when one of these names is too short.
\<close>

theorem modified_blocks_complete:
  assumes "readable root" and "timely lastChecked True root" and "\<not> fresh_file lastChecked root"
  shows "ListModifiedStoredBlocks cd cc lastChecked (Some root) =
    (let paths = fresh_paths lastChecked blocksDir root in
     if \<exists>p \<in> set paths. GetCidv1FromBlockFilename cd cc p = Panic then Panic
     else Ok (mset (List.map_filter (\<lambda>p. ok_value (GetCidv1FromBlockFilename cd cc p)) paths)))"
proof -
  obtain ds where ds: "modified_dirs lastChecked True blocksDir root = Some ds" "list_all (\<lambda>a. readable (snd a)) ds"
      "concat (map (\<lambda>a. fresh_paths lastChecked (fst a) (snd a)) ds) = fresh_paths lastChecked blocksDir root"
    using listing_runs [OF assms] .
  note w = walks_together [OF ds(2), where get = "GetCidv1FromBlockFilename cd cc" and since = lastChecked]
  show ?thesis
    unfolding ListModifiedStoredBlocks_def Let_def using w ds by (simp add: ds(1))
qed

text \<open>
  A stray file brings the daemon down: one recently modified \<^verbatim>\<open>.data\<close> file whose name decodes to fewer
  than two bytes makes the listing panic in a goroutine, which nothing recovers.
\<close>

lemma short_block_name_crashes:
  assumes "readable root" and "timely lastChecked True root" and "\<not> fresh_file lastChecked root"
    and "dir @ ''/'' @ name @ ''.data'' \<in> set (fresh_paths lastChecked blocksDir root)" and "CHR ''/'' \<notin> set name"
    and "mb_Decode cd (''B'' @ ToUpper name) = Some bs" and "\<forall>b \<in> set bs. b < 256" and "length bs < 2"
  shows "ListModifiedStoredBlocks cd cc lastChecked (Some root) = Panic"
proof -
  have "GetCidv1FromBlockFilename cd cc (dir @ ''/'' @ name @ ''.data'') = Panic"
    unfolding block_file_digest [OF assms(5)] FindCID_bytes [OF assms(6,7)] using assms(8) by simp
  with assms(4) have p: "\<exists>p \<in> set (fresh_paths lastChecked blocksDir root). GetCidv1FromBlockFilename cd cc p = Panic" ..
  obtain ds where ds: "modified_dirs lastChecked True blocksDir root = Some ds" "list_all (\<lambda>a. readable (snd a)) ds"
      "concat (map (\<lambda>a. fresh_paths lastChecked (fst a) (snd a)) ds) = fresh_paths lastChecked blocksDir root"
    using listing_runs [OF assms(1-3)] .
  show ?thesis
    using p walks_together(1) [OF ds(2), where get = "GetCidv1FromBlockFilename cd cc" and since = lastChecked] ds
    by (simp add: ListModifiedStoredBlocks_def Let_def)
qed


subsection \<open>Concrete block directories\<close>

definition sample_cids :: "(nat \<times> nat list) cid_codec" where
  "sample_cids = \<lparr>multihash_Encode = (\<lambda>buf c. Some (c # length buf # buf)), NewCidV1 = Pair\<rparr>"

definition sample_bases :: codecs where
  "sample_bases = \<lparr>mb_Decode = (\<lambda>s. hex_DecodeString (tl s)), mb_Encode58 = hex_EncodeToString, peer_Decode = Some\<rparr>"

theorem block_name_roundtrip_witness:
  "GetCidv1FromBlockFilename sample_bases sample_cids (blocksDir @ ''/'' @ ''1202aabb'' @ ''.data'') = Ok (0x71, [18, 2, 170, 187])"
proof -
  have "mb_Decode sample_bases (''B'' @ ToUpper ''1202aabb'') = Some (18 # length [170, 187 :: nat] # [170, 187])"
    by (simp add: sample_bases_def ToUpper_def upper_char_def hex_val_def Let_def)
  from block_name_roundtrip [OF _ this, of sample_cids blocksDir] show ?thesis by (simp add: sample_cids_def)
qed

definition sample_blocks :: "string \<Rightarrow> fs_node" where
  "sample_blocks name = FsDir ''blocks'' (Some 1)
     (Some [FsFile ''SHARDING'' (Some 1),
            FsDir ''AA'' (Some 9) (Some [FsFile (name @ ''.data'') (Some 8), FsFile ''1202cccc.data'' (Some 3)])])"

lemma sample_blocks_ok: "readable (sample_blocks name)" "timely 5 True (sample_blocks name)" "\<not> fresh_file 5 (sample_blocks name)"
  by (simp_all add: sample_blocks_def fresh_file_def HasSuffix_def)

lemma sample_blocks_fresh: "fresh_paths 5 blocksDir (sample_blocks name) = [(blocksDir @ ''/AA'') @ ''/'' @ name @ ''.data'']"
  by (simp add: sample_blocks_def fresh_file_def HasSuffix_def)

theorem modified_blocks_complete_witness:
  "ListModifiedStoredBlocks sample_bases sample_cids 5 (Some (sample_blocks ''1202aabb'')) = Ok {#(0x71, [18, 2, 170, 187])#}"
proof -
  have "GetCidv1FromBlockFilename sample_bases sample_cids ((blocksDir @ ''/AA'') @ ''/'' @ ''1202aabb'' @ ''.data'')
      = Ok (0x71, [18, 2, 170, 187])"
    by (subst block_file_digest)
      (simp_all add: FindCIDFromDigest_def findDigestHexFromBase32Multibase_def hexStringToCID_def sample_bases_def
        sample_cids_def ToUpper_def upper_char_def hex_val_def hex_digit_def Let_def)
  then show ?thesis
    unfolding modified_blocks_complete [OF sample_blocks_ok] sample_blocks_fresh Let_def by simp
qed

theorem short_block_name_crashes_witness:
  "ListModifiedStoredBlocks sample_bases sample_cids 5 (Some (sample_blocks [])) = Panic"
  by (rule short_block_name_crashes [OF sample_blocks_ok, where dir = "blocksDir @ ''/AA''" and name = "[]" and bs = "[]"])
    (simp_all add: sample_blocks_fresh sample_bases_def ToUpper_def)

end
