(* ===== verification/BloxNode.thy ===== *)
theory BloxNode
  imports PoolRequests Watchdog BlockStore
begin

text \<open>
  The node of \<^verbatim>\<open>blox/blox.go\<close>: what \<^verbatim>\<open>Start\<close> does in its own goroutine (kubo registration, the tunnel to
  the pool's cluster, discovery of the pool, population of the member list), and one tick of the
  six-hourly task. The watchdog, the listeners and the delayed reconcile pass run in goroutines of their
  own and are modelled in their theories.
\<close>

section \<open>State\<close>

text \<open>
  The fields of \<^verbatim>\<open>Blox\<close> that start-up and the periodic task change. The callbacks are those of the
  blockchain component: \<^verbatim>\<open>New\<close> hands its own on unchanged.
\<close>

record blox =
  bx_topicName :: string
  bx_chainName :: string
  serverKuboPeerID :: string

text \<open>\<^verbatim>\<open>time.Sleep\<close>: time passes, whatever the context does meanwhile.\<close>

definition sleep :: "'w env \<Rightarrow> int \<Rightarrow> 'w device \<Rightarrow> 'w device" where
  "sleep env ns d = snd (wait_for env ns d)"


section \<open>Discovery at start-up\<close>

text \<open>\<open>Found c\<close>: a pool was found on chain \<open>c\<close>; \<open>Crash\<close>: a decoder panicked.\<close>

datatype search = NotFound | Found string | Crash

text \<open>The pools of one chain, in the order of the list; the first one that lists the device is taken.\<close>

fun check_pools ::
  "'w env \<Rightarrow> 'w options \<Rightarrow> string \<Rightarrow> EVMPool list \<Rightarrow> blox \<Rightarrow> 'w device \<Rightarrow> search \<times> blox \<times> 'w device" where
  "check_pools env opts chainName [] b d = (NotFound, b, d)"
| "check_pools env opts chainName (pool # pools) b d =
     (case HandleIsMemberOfPool env opts (clusterPeerID opts) (ev_ID pool) chainName d of
        (Panic, d1) \<Rightarrow> (Crash, b, d1)
      | (Err _, d1) \<Rightarrow> check_pools env opts chainName pools b d1
      | (Ok resp, d1) \<Rightarrow>
          if ir_IsMember resp then
            (let topicStr = Itoa (int (ev_ID pool));
                 d2 = snd (call_set (updatePoolName opts) topicStr d1);
                 d3 = snd (call_set (updateChainName opts) chainName d2)
             in (Found chainName, b\<lparr>bx_topicName := topicStr, bx_chainName := chainName\<rparr>, d3))
          else check_pools env opts chainName pools b d1)"

text \<open>One attempt: the chains in order. \<open>fuel\<close> bounds each enumeration of pools; \<^const>\<open>None\<close> is one that is still running.\<close>

fun check_chains ::
  "'w env \<Rightarrow> 'w options \<Rightarrow> nat \<Rightarrow> string list \<Rightarrow> blox \<Rightarrow> 'w device \<Rightarrow> (search \<times> blox \<times> 'w device) option" where
  "check_chains env opts fuel [] b d = Some (NotFound, b, d)"
| "check_chains env opts fuel (chainName # cs) b d =
     (case HandleEVMPoolList env opts fuel chainName d of
        None \<Rightarrow> None
      | Some (Panic, d1) \<Rightarrow> Some (Crash, b, d1)
      | Some (Err _, d1) \<Rightarrow> check_chains env opts fuel cs b d1
      | Some (Ok pools, d1) \<Rightarrow>
          (case check_pools env opts chainName pools b d1 of
             (NotFound, b2, d2) \<Rightarrow> check_chains env opts fuel cs b2 d2
           | r \<Rightarrow> Some r))"

definition discovery_chains :: "string list" where
  "discovery_chains = [''base'', ''skale'']"

text \<open>The attempts: \<open>n\<close> are left, \<open>delay\<close> is slept between two and doubled.\<close>

fun discovery_attempts ::
  "'w env \<Rightarrow> 'w options \<Rightarrow> nat \<Rightarrow> nat \<Rightarrow> int \<Rightarrow> blox \<Rightarrow> 'w device \<Rightarrow> (search \<times> blox \<times> 'w device) option" where
  "discovery_attempts env opts fuel 0 delay b d = Some (NotFound, b, d)"
| "discovery_attempts env opts fuel (Suc n) delay b d =
     (case check_chains env opts fuel discovery_chains b d of
        Some (NotFound, b1, d1) \<Rightarrow>
          if n = 0 then Some (NotFound, b1, d1)
          else discovery_attempts env opts fuel n (2 * delay) b1 (sleep env delay d1)
      | r \<Rightarrow> r)"

definition discover_at_start ::
  "'w env \<Rightarrow> 'w options \<Rightarrow> nat \<Rightarrow> blox \<Rightarrow> 'w device \<Rightarrow> (search \<times> blox \<times> 'w device) option" where
  "discover_at_start env opts fuel b d =
     discovery_attempts env opts fuel 5 (60 * second) b (sleep env (30 * second) d)"


section \<open>Start\<close>

definition register_tunnel :: "'w env \<Rightarrow> string \<Rightarrow> blox \<Rightarrow> 'w device \<Rightarrow> blox \<times> 'w device" where
  "register_tunnel env kuboAPIAddr b d =
     (case fetchServerKuboPeerID env (bx_topicName b) d of
        (None, d1) \<Rightarrow> (b, d1)
      | (Some serverKuboID, d1) \<Rightarrow>
          (b\<lparr>serverKuboPeerID := serverKuboID\<rparr>,
           snd (registerClusterForward env (getKuboAPIAddr kuboAPIAddr) serverKuboID d1)))"

definition needs_discovery :: "'w options \<Rightarrow> blox \<Rightarrow> 'w device \<Rightarrow> bool \<times> 'w device" where
  "needs_discovery opts b d =
     (if bx_topicName b = ''0'' then (True, d)
      else (case getChainName opts of
        None \<Rightarrow> (False, d)
      | Some get \<Rightarrow> (case get d of (c, d1) \<Rightarrow> (c = [], d1))))"

text \<open>
  \<^verbatim>\<open>Start\<close> after the listeners are up. \<open>fuel\<close> bounds the wait for kubo and each enumeration of pools; the
  result is \<^const>\<open>Panic\<close> when a decoder or a nil callback crashes the daemon.
\<close>

definition Start ::
  "'w env \<Rightarrow> 'w options \<Rightarrow> interfaces \<Rightarrow> string \<Rightarrow> nat \<Rightarrow> blox \<Rightarrow> 'w device \<Rightarrow>
   ((unit, blox) outcome \<times> 'w device) option" where
  "Start env opts nf kuboAPIAddr fuel b d =
     (case waitForKuboAndRegister env nf (getKuboAPIAddr kuboAPIAddr) fuel (cleanupStaleRestartMarker d) of
        None \<Rightarrow> None
      | Some (_, d1) \<Rightarrow>
          let (b2, d2) = (if bx_topicName b \<noteq> ''0'' then register_tunnel env kuboAPIAddr b d1 else (b, d1));
              (needsDiscovery, d3) = needs_discovery opts b2 d2
          in
          (case (if needsDiscovery then discover_at_start env opts fuel b2 d3 else Some (NotFound, b2, d3)) of
             None \<Rightarrow> None
           | Some (Crash, _, d4) \<Rightarrow> Some (Panic, d4)
           | Some (_, b4, d4) \<Rightarrow>
               let (b5, d5) =
                 (if bx_topicName b4 \<noteq> ''0'' \<and> serverKuboPeerID b4 = [] then register_tunnel env kuboAPIAddr b4 d4 else (b4, d4))
               in
               (case FetchUsersAndPopulateSets env opts (bx_topicName b5) True d5 of
                  (Panic, d6) \<Rightarrow> Some (Panic, d6)
                | (_, d6) \<Rightarrow> Some (Ok b5, d6))))"


section \<open>The periodic task\<close>

definition lastCheckedFile :: string where
  "lastCheckedFile = ''/internal/.last_time_ipfs_checked''"

definition syncingPath :: string where
  "syncingPath = ''/internal/fula-pinning/.syncing''"

text \<open>
  What the task reads of the file system besides files: modification times, and the block directory. The
  zero \<^verbatim>\<open>time.Time\<close> is the first instant of the year 1.
\<close>

record 'c disk =
  modified :: "string \<Rightarrow> (fs_error, int) outcome"
  blocks :: "fs_node option"
  cids :: "'c cid_codec"

definition zero_time :: int where
  "zero_time = - 62135596800 * second"

definition GetLastCheckedTime :: "'c disk \<Rightarrow> (fs_error, int) outcome" where
  "GetLastCheckedTime dk =
     (case modified dk lastCheckedFile of Err NotExist \<Rightarrow> Ok zero_time | r \<Rightarrow> r)"

definition UpdateLastCheckedTime :: "'w env \<Rightarrow> 'w device \<Rightarrow> bool \<times> 'w device" where
  "UpdateLastCheckedTime env d =
     (case time_now env d of (now, d1) \<Rightarrow> WriteFile lastCheckedFile (Stamp now) d1)"

text \<open>Garbage collection is skipped while a pin synchronisation has been active within half an hour.\<close>

definition collect_garbage :: "'w env \<Rightarrow> 'c disk \<Rightarrow> string \<Rightarrow> 'w device \<Rightarrow> 'w device" where
  "collect_garbage env dk rpcAddr d =
     (case modified dk syncingPath of
        Ok t \<Rightarrow>
          (case time_now env d of
             (now, d1) \<Rightarrow> if now - t < 30 * minute then d1 else snd (kubo_call env rpcAddr ''repo/gc'' d1))
      | _ \<Rightarrow> snd (kubo_call env rpcAddr ''repo/gc'' d))"

text \<open>\<^verbatim>\<open>reconcilePool\<close> only logs the result; \<^const>\<open>None\<close> is a crash.\<close>

definition reconcilePool :: "'w env \<Rightarrow> 'w options \<Rightarrow> 'w device \<Rightarrow> 'w device option" where
  "reconcilePool env opts d =
     (case ReconcilePoolConfig env opts d of (Panic, _) \<Rightarrow> None | (_, d1) \<Rightarrow> Some d1)"

definition startPoolReconcile :: "'w env \<Rightarrow> 'w options \<Rightarrow> 'w device \<Rightarrow> 'w device option" where
  "startPoolReconcile env opts d =
     (if poolHost opts then Some d
      else (case wait_for env (2 * minute) d of
        (False, d1) \<Rightarrow> Some d1
      | (True, d1) \<Rightarrow> reconcilePool env opts d1))"

definition read_topic :: "'w options \<Rightarrow> blox \<Rightarrow> 'w device \<Rightarrow> blox \<times> 'w device" where
  "read_topic opts b d =
     (case getPoolName opts of
        None \<Rightarrow> (b, d)
      | Some get \<Rightarrow> (case get d of (p, d1) \<Rightarrow> (b\<lparr>bx_topicName := p\<rparr>, d1)))"

text \<open>One tick; \<^const>\<open>None\<close> is a crash of the daemon.\<close>

definition periodic_tick ::
  "'w env \<Rightarrow> 'w options \<Rightarrow> 'c disk \<Rightarrow> string \<Rightarrow> blox \<Rightarrow> 'w device \<Rightarrow> (blox \<times> 'w device) option" where
  "periodic_tick env opts dk rpcAddr b d =
     (case reconcilePool env opts d of
        None \<Rightarrow> None
      | Some d1 \<Rightarrow>
          (case GetLastCheckedTime dk of
             Ok lastCheckedTime \<Rightarrow>
               (case read_topic opts b d1 of
                  (b2, d2) \<Rightarrow>
                    if bx_topicName b2 \<noteq> ''0'' then
                      (let d3 = collect_garbage env dk rpcAddr d2 in
                       case ListModifiedStoredBlocks (codec env) (cids dk) lastCheckedTime (blocks dk) of
                         Panic \<Rightarrow> None
                       | Err _ \<Rightarrow> Some (b2, d3)
                       | Ok storedLinks \<Rightarrow> Some (b2, snd (UpdateLastCheckedTime env d3)))
                    else Some (b2, snd (UpdateLastCheckedTime env d2)))
           | _ \<Rightarrow> Some (b, d1)))"

text \<open>
  \<^verbatim>\<open>UpdateFailedCids\<close> appends a line per link; the result is a nil error. A failing open and a failing
  write are the same here.
\<close>

definition failedCidsFile :: string where
  "failedCidsFile = ''/uniondrive/failed_cids.info''"

definition UpdateFailedCids :: "string list \<Rightarrow> 'w device \<Rightarrow> bool \<times> 'w device" where
  "UpdateFailedCids links d =
     (let old = (case files d failedCidsFile of None \<Rightarrow> [] | Some f \<Rightarrow> file_text f)
      in WriteFile failedCidsFile (Text (old @ concat (map (\<lambda>l. l @ [newline]) links))) d)"

section \<open>Discovery is sound\<close>

lemma sleep_local: "same_local d (sleep env ns d)"
  unfolding sleep_def by (rule wait_for_local [OF prod.collapse [symmetric]])

lemma pool_list_local:
  assumes "HandleEVMPoolList env opts fuel c d = Some (x, e)"
  shows "same_local d e"
proof (cases "chainConfigs opts c")
  case (Some cc)
  with assms have run: "run_loop (pool_list_step env opts c cc) fuel (0, [], d) = Some (x, e)"
    by (simp add: HandleEVMPoolList_def)
  have "same_local d (snd (x, e))"
  proof (rule run_loop_invariant [OF run, where I = "\<lambda>(i, ps, f). same_local d f"])
    show "\<And>s s'. (case s of (i, ps, f) \<Rightarrow> same_local d f) \<Longrightarrow> pool_list_step env opts c cc s = Next s' \<Longrightarrow>
        (case s' of (i, ps, f) \<Rightarrow> same_local d f)"
      by (auto dest!: pool_list_step_Next intro: same_local_trans)
    show "\<And>s r. (case s of (i, ps, f) \<Rightarrow> same_local d f) \<Longrightarrow> pool_list_step env opts c cc s = Done r \<Longrightarrow> same_local d (snd r)"
      by (auto simp: pool_list_step_def Let_def dest!: eth_call_local split: pool_list_splits intro: same_local_trans)
  qed simp
  then show ?thesis by simp
qed (use assms in \<open>simp add: HandleEVMPoolList_def\<close>)

text \<open>
  \<open>settles\<close>: how a search that started at \<open>d\<close> ends. Either nothing but the outside world moved, or a pool
  whose contract lists the device was written down, in memory and through both callbacks.
\<close>

definition settles ::
  "'w env \<Rightarrow> 'w options \<Rightarrow> (string \<Rightarrow> nat \<Rightarrow> string \<Rightarrow> bool) \<Rightarrow> string set \<Rightarrow> blox \<Rightarrow> 'w device \<Rightarrow>
   search \<times> blox \<times> 'w device \<Rightarrow> bool" where
  "settles env opts isM cs b d = (\<lambda>(r, b', e).
     case r of
       Found chain \<Rightarrow>
         \<exists>id d1. id \<noteq> 0 \<and> chain \<in> cs \<and> is_member_here env opts isM chain id \<and> same_local d d1 \<and>
           b' = b\<lparr>bx_topicName := Itoa (int id), bx_chainName := chain\<rparr> \<and>
           e = snd (call_set (updateChainName opts) chain (snd (call_set (updatePoolName opts) (Itoa (int id)) d1)))
     | _ \<Rightarrow> b' = b \<and> same_local d e)"

lemma settles_simps [simp]:
  "settles env opts isM cs b d (NotFound, b', e) \<longleftrightarrow> b' = b \<and> same_local d e"
  "settles env opts isM cs b d (Crash, b', e) \<longleftrightarrow> b' = b \<and> same_local d e"
  by (simp_all add: settles_def)

lemma settles_later:
  "same_local d d1 \<Longrightarrow> settles env opts isM cs b d1 r \<Longrightarrow> cs \<subseteq> cs' \<Longrightarrow> settles env opts isM cs' b d r"
proof -
  assume l: "same_local d d1" and s: "settles env opts isM cs b d1 r" and c: "cs \<subseteq> cs'"
  obtain x b' e where r: "r = (x, b', e)" by (metis prod_cases3)
  show ?thesis
  proof (cases x)
    case (Found chain)
    with s r obtain id d2 where w: "id \<noteq> 0" "chain \<in> cs" "is_member_here env opts isM chain id" "same_local d1 d2"
        "b' = b\<lparr>bx_topicName := Itoa (int id), bx_chainName := chain\<rparr>"
        "e = snd (call_set (updateChainName opts) chain (snd (call_set (updatePoolName opts) (Itoa (int id)) d2)))"
      by (auto simp: settles_def)
    then show ?thesis using r Found c same_local_trans [OF l] unfolding settles_def by auto
  qed (use l s r same_local_trans in \<open>auto\<close>)
qed

lemma not_member_of_0: "HandleIsMemberOfPool env opts pid 0 c d = (Ok resp, e) \<Longrightarrow> \<not> ir_IsMember resp"
  by (auto simp: HandleIsMemberOfPool_def not_a_member_def)

lemma check_pools_settles:
  "honest_chains env opts isM st \<Longrightarrow> settles env opts isM {c} b d (check_pools env opts c pools b d)"
proof (induction env opts c pools b d rule: check_pools.induct)
  case (2 env opts c pool pools b d)
  obtain x d1 where h: "HandleIsMemberOfPool env opts (clusterPeerID opts) (ev_ID pool) c d = (x, d1)" by fastforce
  note l = HandleIsMemberOfPool_local [OF h]
  show ?case
  proof (cases "\<exists>resp. x = Ok resp \<and> ir_IsMember resp")
    case True
    then obtain resp where resp: "x = Ok resp" "ir_IsMember resp" by blast
    have "is_member_here env opts isM c (ev_ID pool)" using membership_positive h resp 2(3) by fastforce
    moreover have "ev_ID pool \<noteq> 0" using not_member_of_0 [of env opts "clusterPeerID opts" c d resp d1] h resp by metis
    ultimately show ?thesis using h resp l by (auto simp: settles_def Let_def)
  next
    case False
    then show ?thesis using h 2 l
      by (auto split: outcome.splits intro: settles_later)
  qed
qed (simp add: settles_def)

lemma check_chains_settles:
  "check_chains env opts fuel cs b d = Some r \<Longrightarrow> honest_chains env opts isM st \<Longrightarrow> settles env opts isM (set cs) b d r"
proof (induction env opts fuel cs b d rule: check_chains.induct)
  case (2 env opts fuel c cs b d)
  then obtain x d1 where h: "HandleEVMPoolList env opts fuel c d = Some (x, d1)" by (auto split: option.splits)
  note l = pool_list_local [OF h]
  show ?case
  proof (cases x)
    case (Ok pools)
    obtain s b2 d2 where cp: "check_pools env opts c pools b d1 = (s, b2, d2)" by (metis prod_cases3)
    have st: "settles env opts isM {c} b d1 (s, b2, d2)" using check_pools_settles [OF 2(4)] cp by metis
    show ?thesis
    proof (cases s)
      case NotFound
      then have n: "b2 = b" "same_local d1 d2" using st by (simp_all add: settles_def)
      then have "settles env opts isM (set cs) b d2 r" using 2 h Ok cp NotFound by auto
      then show ?thesis using l n by (auto intro: settles_later same_local_trans)
    qed (use 2(3) h Ok cp st l in \<open>auto intro: settles_later\<close>)
  next
    case (Err e)
    then have "settles env opts isM (set cs) b d1 r" using 2 h by simp
    then show ?thesis using l by (auto intro: settles_later)
  qed (use 2(3) h l in \<open>auto simp: settles_def\<close>)
qed (auto simp: settles_def)

lemma discovery_attempts_settles:
  "discovery_attempts env opts fuel n delay b d = Some r \<Longrightarrow> honest_chains env opts isM st \<Longrightarrow>
     settles env opts isM (set discovery_chains) b d r"
proof (induction env opts fuel n delay b d rule: discovery_attempts.induct)
  case (2 env opts fuel n delay b d)
  then obtain s b1 d1 where c: "check_chains env opts fuel discovery_chains b d = Some (s, b1, d1)"
    by (auto split: option.splits)
  note st = check_chains_settles [OF c 2(3)]
  show ?case
  proof (cases "s = NotFound \<and> n \<noteq> 0")
    case True
    then have "b1 = b" "same_local d d1" using st by (simp_all add: settles_def)
    with 2 c True show ?thesis using sleep_local same_local_trans by (fastforce intro: settles_later)
  next
    case False
    then show ?thesis using 2(2) c st by (auto split: search.splits if_splits)
  qed
qed (auto simp: settles_def)

lemma discover_settles:
  "discover_at_start env opts fuel b d = Some r \<Longrightarrow> honest_chains env opts isM st \<Longrightarrow>
     settles env opts isM {''base'', ''skale''} b d r"
  unfolding discover_at_start_def
  by (drule (1) discovery_attempts_settles) (auto simp: discovery_chains_def intro: settles_later [OF sleep_local])

text \<open>A configuration file that can be read and written takes both names.\<close>

definition usable :: "string \<Rightarrow> 'w device \<Rightarrow> bool" where
  "usable cp d \<longleftrightarrow> (\<exists>y. files d cp = Some (Conf y)) \<and> \<not> unreadable d cp \<and> \<not> unwritable d cp"

lemma usable_writes:
  assumes "usable cp d"
  shows "fst (updatePoolName_config cp v d)" and "usable cp (snd (updatePoolName_config cp v d))"
    and "fst (updateChainName_config cp w d)"
  using assms unfolding usable_def by (auto simp: config_defs load_configI WriteFile_def Let_def split: if_splits)

abbreviation record_names :: "string \<Rightarrow> string \<Rightarrow> string \<Rightarrow> 'w device \<Rightarrow> 'w device" where
  "record_names cp p c d \<equiv> snd (updateChainName_config cp c (snd (updatePoolName_config cp p d)))"

lemma writes_recorded:
  assumes "usable cp d"
  shows "fst (getPoolNameFromConfig cp (record_names cp p c d)) = p \<and> fst (getChainNameFromConfig cp (record_names cp p c d)) = c"
  using blox_store.set_both [of cp p d "snd (updatePoolName_config cp p d)" c "record_names cp p c d"] usable_writes [OF assms]
    usable_writes(3) [OF usable_writes(2) [OF assms]] by (metis prod.collapse)

lemma writes_frame:
  "(\<forall>q. q \<noteq> cp \<longrightarrow> files (record_names cp p c d) q = files d q) \<and> members (record_names cp p c d) = members d"
  using blox_store.set_pool_attrs [OF prod.collapse [symmetric], of cp p d]
    blox_store.set_chain_attrs [OF prod.collapse [symmetric], of cp c "snd (updatePoolName_config cp p d)"]
  by simp

lemma blox_opts_callbacks [simp]:
  "updatePoolName (blox_opts cp opts) = Some (updatePoolName_config cp)"
  "updateChainName (blox_opts cp opts) = Some (updateChainName_config cp)"
  "getPoolName (blox_opts cp opts) = Some (getPoolNameFromConfig cp)"
  "getChainName (blox_opts cp opts) = Some (getChainNameFromConfig cp)"
  by (simp_all add: blox_opts_def)

lemma usable_local: "same_local d e \<Longrightarrow> usable cp e = usable cp d"
  by (simp add: usable_def same_localD)

text \<open>
  C15. Discovery at start-up adopts a pool only if the contract on one of the two chains lists this
  device's cluster peer as a member of it. The node then works with that pool and that chain, a usable
  configuration file names both, and no other file changed; a search that finds nothing (five rounds of
  failed calls included) changes nothing on the device.
\<close>

theorem startup_discovery_sound:
  assumes "discover_at_start env (blox_opts cp opts) fuel b d = Some (r, b', e)"
    and "honest_chains env (blox_opts cp opts) isM st"
  shows "case r of
      Found chain \<Rightarrow>
        \<exists>id. id \<noteq> 0 \<and> chain \<in> {''base'', ''skale''} \<and> is_member_here env (blox_opts cp opts) isM chain id \<and>
          b' = b\<lparr>bx_topicName := Itoa (int id), bx_chainName := chain\<rparr> \<and>
          (usable cp d \<longrightarrow> fst (getPoolNameFromConfig cp e) = Itoa (int id) \<and> fst (getChainNameFromConfig cp e) = chain) \<and>
          (\<forall>q. q \<noteq> cp \<longrightarrow> files e q = files d q) \<and> members e = members d
    | _ \<Rightarrow> b' = b \<and> same_local d e"
proof (cases r)
  case (Found chain)
  with discover_settles [OF assms] obtain id d1
    where w: "id \<noteq> 0" "chain \<in> {''base'', ''skale''}" "is_member_here env (blox_opts cp opts) isM chain id" "same_local d d1"
      "b' = b\<lparr>bx_topicName := Itoa (int id), bx_chainName := chain\<rparr>"
      "e = record_names cp (Itoa (int id)) chain d1"
    by (auto simp: settles_def call_set_def)
  have "usable cp d \<longrightarrow> fst (getPoolNameFromConfig cp e) = Itoa (int id) \<and> fst (getChainNameFromConfig cp e) = chain"
    using writes_recorded [of cp d1] usable_local [OF w(4), of cp] w(6) by simp
  moreover have "(\<forall>q. q \<noteq> cp \<longrightarrow> files e q = files d q) \<and> members e = members d"
    using writes_frame [where cp = cp and p = "Itoa (int id)" and c = chain and d = d1] same_localD [OF w(4)] w(6) by simp
  ultimately show ?thesis using Found w by auto
qed (use discover_settles [OF assms] in \<open>auto\<close>)


section \<open>The tunnel stays with the first pool\<close>

lemma fetchServer_nonempty: "fetchServerKuboPeerID env p d = (Some s, e) \<Longrightarrow> s \<noteq> []"
  by (auto simp: fetchServerKuboPeerID_def Let_def split: if_splits prod.splits option.splits)

lemma check_pools_server: "check_pools env opts c ps b d = (r, b', e) \<Longrightarrow> serverKuboPeerID b' = serverKuboPeerID b"
  by (induction env opts c ps b d rule: check_pools.induct)
    (auto simp: Let_def split: prod.splits outcome.splits if_splits)

lemma check_chains_server:
  "check_chains env opts fuel cs b d = Some (r, b', e) \<Longrightarrow> serverKuboPeerID b' = serverKuboPeerID b"
  by (induction env opts fuel cs b d rule: check_chains.induct)
    (auto dest!: check_pools_server split: prod.splits outcome.splits option.splits search.splits)

lemma discovery_attempts_server:
  "discovery_attempts env opts fuel n delay b d = Some (r, b', e) \<Longrightarrow> serverKuboPeerID b' = serverKuboPeerID b"
  by (induction env opts fuel n delay b d rule: discovery_attempts.induct)
    (auto dest!: check_chains_server split: prod.splits option.splits search.splits if_splits)

text \<open>
  The cluster tunnel leads to the pool the node had when it started, whatever discovery decides: once
  the server of the configured pool is known, \<^verbatim>\<open>Start\<close> ends with that server, even if a missing chain name
  made it search and adopt another pool.
\<close>

lemma tunnel_keeps_first_pool:
  assumes "Start env opts nf addr fuel b d = Some (Ok b', e)" and "bx_topicName b \<noteq> ''0''"
    and "waitForKuboAndRegister env nf (getKuboAPIAddr addr) fuel (cleanupStaleRestartMarker d) = Some (x, d1)"
    and "fetchServerKuboPeerID env (bx_topicName b) d1 = (Some server, d2)"
  shows "serverKuboPeerID b' = server"
proof -
  obtain b2 d3 where t: "register_tunnel env addr b d1 = (b2, d3)" by fastforce
  with assms(4) have s: "serverKuboPeerID b2 = server" by (auto simp: register_tunnel_def)
  obtain n d4 where n: "needs_discovery opts b2 d3 = (n, d4)" by fastforce
  have "\<exists>r b4 d5. (if n then discover_at_start env opts fuel b2 d4 else Some (NotFound, b2, d4)) = Some (r, b4, d5) \<and> r \<noteq> Crash \<and>
      (serverKuboPeerID b4 \<noteq> [] \<longrightarrow> b' = b4)"
    using assms(1,2) unfolding Start_def assms(3) option.case prod.case Let_def
    by (auto simp: t n split: option.splits search.splits prod.splits outcome.splits if_splits)
  moreover have "serverKuboPeerID b4 = server"
    if "(if n then discover_at_start env opts fuel b2 d4 else Some (NotFound, b2, d4)) = Some (r, b4, d5)" for r b4 d5
    using that s discovery_attempts_server unfolding discover_at_start_def by (fastforce split: if_splits)
  ultimately show ?thesis using fetchServer_nonempty [OF assms(4)] by auto
qed

section \<open>The periodic task survives everything but a stray block file\<close>

lemma ReconcilePoolConfig_total: "fst (ReconcilePoolConfig env opts d) \<noteq> Panic"
proof -
  have c: "fst (reconcile_clear env opts g h p c d) \<noteq> Panic" for g h p c d
    by (auto simp: reconcile_clear_def split: prod.splits bool.splits)
  have "fst (reconcile_checks env opts g h p c i d) \<noteq> Panic" for g h p c i d
    using c by (auto simp: reconcile_checks_def dest!: ClusterPeerPoolStatus_total split: prod.splits bool.splits outcome.splits)
  then show ?thesis
    by (auto simp: ReconcilePoolConfig_def split: prod.splits bool.splits option.splits if_splits)
qed

lemma reconcilePool_total: "\<exists>d1. reconcilePool env opts d = Some d1"
  using ReconcilePoolConfig_total [of env opts d] by (auto simp: reconcilePool_def split: prod.splits outcome.splits)

lemma collect_garbage_local: "same_local d (collect_garbage env dk a d)"
  by (auto simp: collect_garbage_def kubo_call_def http_Post_def dest!: time_now_local
      intro: same_local_trans send_local [OF prod.collapse [symmetric]] split: outcome.splits prod.splits)

text \<open>
  The daemon survives a tick of the periodic task unless it is configured for a pool and the listing of
  its blocks panics; the marker of the last check is left alone when the listing fails, so that the next
  tick lists the same blocks again.
\<close>

lemma tick_crashes_iff:
  assumes "reconcilePool env opts d = Some d1"
  shows "periodic_tick env opts dk a b d = None \<longleftrightarrow>
    bx_topicName (fst (read_topic opts b d1)) \<noteq> ''0'' \<and>
    (\<exists>t. GetLastCheckedTime dk = Ok t \<and> ListModifiedStoredBlocks (codec env) (cids dk) t (blocks dk) = Panic)"
  using assms by (auto simp: periodic_tick_def Let_def split: outcome.splits prod.splits)

lemma tick_keeps_marker:
  assumes "reconcilePool env opts d = Some d1" and "periodic_tick env opts dk a b d = Some (b', e)"
    and "GetLastCheckedTime dk = Ok t" and "read_topic opts b d1 = (b2, d2)" and "bx_topicName b2 \<noteq> ''0''"
    and "ListModifiedStoredBlocks (codec env) (cids dk) t (blocks dk) = Err x"
  shows "same_local d2 e"
  using assms collect_garbage_local by (auto simp: periodic_tick_def Let_def)

subsection \<open>A concrete start\<close>

text \<open>Chains on which pool 5 lists every peer, behind a kubo that accepts every request.\<close>

definition lively_chain :: "string \<rightharpoonup> string" where
  "lively_chain = (uniform_chain True 0)(ms_PoolIds MethodSignatures \<mapsto> ''0x'' @ fmt_064x 5, ms_Pools MethodSignatures \<mapsto> encode_pool sample_pool)"

definition node_env :: "int env" where
  "node_env = (sample_env lively_chain)\<lparr>net := (\<lambda>r w. (case hq_body r of Raw _ \<Rightarrow> Reply StatusOK (Some (Doc JNull))
     | _ \<Rightarrow> selector_node lively_chain r, w))\<rparr>"

lemma lively_selectors [simp]:
  "lively_chain (take 10 (EncodeIsPeerIdMemberOfPoolCall p k)) = Some (member_answer True (replicate 40 (CHR ''a'')))"
  "lively_chain (take 10 (EncodeJoinRequestsCall p k)) = Some (request_answer [9, 1, 100, 0, 2, 0, 0, 77] [])"
  "lively_chain (take 10 (EncodePoolIdsCall i)) = Some (''0x'' @ fmt_064x 5)"
  "lively_chain (take 10 (EncodePoolsCall p)) = Some (encode_pool sample_pool)"
  by (simp_all add: lively_chain_def uniform_chain_def MethodSignatures_def EncodeIsPeerIdMemberOfPoolCall_def
      EncodeJoinRequestsCall_def EncodePoolIdsCall_def EncodePoolsCall_def)

lemma node_env_answer [simp]:
  "node_answer node_env url contract callData w =
     (case lively_chain (take 10 callData) of None \<Rightarrow> CallFailed | Some r \<Rightarrow> Result r)"
  using selector_node_answer [of lively_chain url contract callData w]
  by (simp add: node_answer_def node_env_def sample_env_def)

lemma node_env_call:
  assumes "lively_chain (take 10 data) = Some r" and "chainConfigs opts c = Some cc"
  shows "eth_call node_env opts c cc data 3 d = (Result r, d)"
  using assms
  by (simp add: numeral_3_eq_3 eth_call_def callEVMChainWithRetry_def callEVMChain_def send_def node_env_def selector_node_def
      rpc_request_def eth_params_def read_all_def eth_answer_of_def fold_eq_def lower_char_def)

lemma node_env_honest: "honest_chains node_env opts (\<lambda>_ _ _. True) (\<lambda>_ _ _. 0)"
  using uniform_chain_honest [of 0 True] by (simp add: honest_chains_def honest_chain_def)

abbreviation pool_5 :: "string \<Rightarrow> EVMPool" where
  "pool_5 c \<equiv> evm_pool 5 c sample_pool"

lemma lively_step:
  assumes "chainConfigs opts c = Some cc"
  shows "pool_list_step node_env opts c cc (i, ps, d) =
    (if 20 < next_index i then Done (Ok (ps @ [pool_5 c]), d) else Next (next_index i, ps @ [pool_5 c], d))"
proof -
  note calls = node_env_call [OF lively_selectors(3) assms] node_env_call [OF lively_selectors(4) assms]
  have "DecodePoolIdResponse (''0x'' @ fmt_064x 5) = Ok 5"
    by (simp add: DecodePoolIdResponse_def Let_def ParseUint_fmt_064x to_uint32_def)
  moreover have "2 < length (''0x'' @ fmt_064x 5)" by simp
  ultimately show ?thesis
    unfolding pool_list_step_def by (simp add: calls decode_encode_pool [OF wf_sample_pool] Let_def)
qed

lemma lively_run:
  assumes "chainConfigs opts c = Some cc"
  shows "i + n = 20 \<Longrightarrow> run_loop (pool_list_step node_env opts c cc) (Suc n) (i, ps, d)
    = Some (Ok (ps @ replicate (Suc n) (pool_5 c)), d)"
proof (induction n arbitrary: i ps)
  case 0
  then show ?case by (simp add: lively_step [OF assms] next_index_def)
next
  case (Suc n)
  then have "next_index i = Suc i" "\<not> 20 < Suc i" by (simp_all add: next_index_def)
  moreover have "Suc i + n = 20" using Suc.prems by simp
  ultimately show ?case
    using Suc.IH [of "Suc i" "ps @ [pool_5 c]"]
    by (simp only: run_loop.simps(2) [of _ "Suc n"] lively_step [OF assms]) simp
qed

lemma lively_list:
  assumes "chainConfigs opts c = Some cc"
  shows "HandleEVMPoolList node_env opts 21 c d = Some (Ok (pool_5 c # replicate 20 (pool_5 c)), d)"
proof -
  have "run_loop (pool_list_step node_env opts c cc) (Suc 20) (0, [], d) = Some (Ok (replicate (Suc 20) (pool_5 c)), d)"
    using lively_run [OF assms, of 0 20 "[]" d] by simp
  moreover have "(21 :: nat) = Suc 20" by simp
  ultimately show ?thesis using assms by (simp only: HandleEVMPoolList_def option.case replicate_Suc)
qed

lemma node_base: "\<exists>cc. chainConfigs (blox_opts ''c'' sample_opts) ''base'' = Some cc"
  by (simp add: GetChainConfigs_def)

lemma lively_member:
  "\<exists>resp. HandleIsMemberOfPool node_env (blox_opts ''c'' sample_opts) (clusterPeerID (blox_opts ''c'' sample_opts)) 5 ''base'' d
     = (Ok resp, d) \<and> ir_IsMember resp"
proof -
  let ?o = "blox_opts ''c'' sample_opts"
  obtain cc where cc: "chainConfigs ?o ''base'' = Some cc" using node_base by blast
  obtain k where k: "peerIdToBytes32 (codec node_env) (clusterPeerID ?o) = Ok k"
    using sample_conversion by (auto simp: node_env_def sample_env_def sample_opts_def blox_opts_def)
  note call = node_env_call [OF lively_selectors(1) cc, of 5 k d]
  show ?thesis
    using call k cc DecodeIsMember_answer [of "replicate 40 (CHR ''a'')" True]
    by (simp add: HandleIsMemberOfPool_def member_answer_def member_answer_no_error [simplified])
qed

lemma lively_discovery:
  "discover_at_start node_env (blox_opts ''c'' sample_opts) 21 b d =
     Some (Found ''base'', b\<lparr>bx_topicName := ''5'', bx_chainName := ''base''\<rparr>,
       record_names ''c'' ''5'' ''base'' (sleep node_env (30 * second) d))"
proof -
  obtain cc where cc: "chainConfigs (blox_opts ''c'' sample_opts) ''base'' = Some cc" using node_base by blast
  have "check_chains node_env (blox_opts ''c'' sample_opts) 21 discovery_chains b d =
     Some (Found ''base'', b\<lparr>bx_topicName := ''5'', bx_chainName := ''base''\<rparr>, record_names ''c'' ''5'' ''base'' d)" for d
  proof -
    obtain resp where "HandleIsMemberOfPool node_env (blox_opts ''c'' sample_opts)
        (clusterPeerID (blox_opts ''c'' sample_opts)) 5 ''base'' d = (Ok resp, d)" "ir_IsMember resp"
      using lively_member by blast
    moreover have "ev_ID (pool_5 ''base'') = 5" by (simp add: evm_pool_def)
    ultimately show ?thesis
      by (simp add: discovery_chains_def lively_list [OF cc] Let_def call_set_def Itoa_5 [simplified])
  qed
  then show ?thesis by (simp add: discover_at_start_def numeral_eq_Suc)
qed

definition sample_blox :: blox where
  "sample_blox = \<lparr>bx_topicName = ''7'', bx_chainName = [], serverKuboPeerID = []\<rparr>"

text \<open>A device configured for pool 7 without a chain name, which has the server of pool 7 cached.\<close>

definition chainless_device :: "int device" where
  "chainless_device = (sample_device 0)\<lparr>files :=
     [''c'' \<mapsto> Conf \<lparr>y_poolName = Some ''7'', y_chainName = Some [], y_others = Map.empty\<rparr>,
      serverKuboPeerIDCachePath ''7'' \<mapsto> Text ''server-of-7'']\<rparr>"

theorem startup_discovery_sound_witness:
  "\<exists>id. id \<noteq> 0 \<and> is_member_here node_env (blox_opts ''c'' sample_opts) (\<lambda>_ _ _. True) ''base'' id \<and> ''5'' = Itoa (int id) \<and>
     fst (getPoolNameFromConfig ''c'' (record_names ''c'' ''5'' ''base'' (sleep node_env (30 * second) chainless_device))) = ''5''"
proof -
  have "usable ''c'' chainless_device"
    by (simp add: usable_def chainless_device_def sample_device_def serverKuboPeerIDCachePath_def)
  with startup_discovery_sound [OF lively_discovery [of sample_blox chainless_device] node_env_honest]
  show ?thesis by (auto simp: sample_blox_def)
qed

lemma node_kubo [simp]: "kubo_call node_env a p d = (Reply StatusOK (Some (Doc JNull)), d)"
  by (simp add: kubo_call_def http_Post_def send_def node_env_def)

lemma node_register [simp]: "register_all node_env a ps d = (True, d)"
  by (induction ps) (auto simp: registerSingleProtocol_def)

lemma node_sleep [simp]: "wait_for node_env ns d = (True, d\<lparr>world := world d + \<bar>ns\<bar>\<rparr>)"
  by (simp add: wait_for_def node_env_def sample_env_def)

lemma node_wait: "waitForKuboAndRegister node_env nf a (Suc n) d = Some (True, d\<lparr>world := world d + 2 * second\<rparr>)"
  by (simp add: checkKuboAlive_def registerKuboProtocols_def)

lemma members_known:
  assumes "fst (getChainNameFromConfig cp d) = ''base''"
  shows "\<exists>e. FetchUsersAndPopulateSets env (blox_opts cp opts) ''5'' True d = (Ok (), e)"
proof -
  have "Atoi ''5'' = Some 5" by (simp add: Atoi_def hex_val_def in_int64_def)
  with assms show ?thesis by (auto simp: FetchUsersAndPopulateSets_def split: prod.splits)
qed

lemma chainless_start:
  defines "d1 \<equiv> (cleanupStaleRestartMarker chainless_device)\<lparr>world := 2 * second\<rparr>"
  shows "waitForKuboAndRegister node_env no_nics (getKuboAPIAddr []) 21 (cleanupStaleRestartMarker chainless_device) = Some (True, d1)"
    and "fetchServerKuboPeerID node_env ''7'' d1 = (Some ''server-of-7'', d1)"
    and "\<exists>b e. Start node_env (blox_opts ''c'' sample_opts) no_nics [] 21 sample_blox chainless_device = Some (Ok b, e) \<and>
      bx_topicName b = ''5''"
proof -
  have "(21 :: nat) = Suc 20" "world (cleanupStaleRestartMarker chainless_device) = 0"
    by (simp_all add: cleanupStaleRestartMarker_def chainless_device_def sample_device_def)
  then show w: "waitForKuboAndRegister node_env no_nics (getKuboAPIAddr []) 21 (cleanupStaleRestartMarker chainless_device) = Some (True, d1)"
    unfolding d1_def by (simp only: node_wait add_0)
  have cached: "files d1 (serverKuboPeerIDCachePath ''7'') = Some (Text ''server-of-7'')" "\<not> unreadable d1 p" for p
    by (simp_all add: d1_def cleanupStaleRestartMarker_def RemoveFile_def fulaRestartCommandPath_def
        chainless_device_def sample_device_def serverKuboPeerIDCachePath_def)
  then show f: "fetchServerKuboPeerID node_env ''7'' d1 = (Some ''server-of-7'', d1)"
    by (simp add: fetchServerKuboPeerID_def ReadFile_def TrimSpace_def is_space_def Let_def)
  define b2 where "b2 = sample_blox\<lparr>serverKuboPeerID := ''server-of-7''\<rparr>"
  have t: "register_tunnel node_env [] sample_blox d1 = (b2, d1)"
    using f by (simp add: register_tunnel_def registerClusterForward_def sample_blox_def b2_def)
  obtain d2 where n: "needs_discovery (blox_opts ''c'' sample_opts) b2 d1 = (True, d2)" and "usable ''c'' d2"
    by (simp add: needs_discovery_def b2_def sample_blox_def sample_config_simps usable_def d1_def cleanupStaleRestartMarker_def
        RemoveFile_def fulaRestartCommandPath_def chainless_device_def sample_device_def serverKuboPeerIDCachePath_def)
  then have "fst (getChainNameFromConfig ''c'' (record_names ''c'' ''5'' ''base'' (sleep node_env (30 * second) d2))) = ''base''"
    using writes_recorded usable_local [OF sleep_local] by blast
  then obtain e where m: "FetchUsersAndPopulateSets node_env (blox_opts ''c'' sample_opts) ''5'' True
      (record_names ''c'' ''5'' ''base'' (sleep node_env (30 * second) d2)) = (Ok (), e)"
    using members_known by blast
  have "bx_topicName sample_blox \<noteq> ''0''" "serverKuboPeerID b2 \<noteq> []" by (simp_all add: sample_blox_def b2_def)
  then show "\<exists>b e. Start node_env (blox_opts ''c'' sample_opts) no_nics [] 21 sample_blox chainless_device = Some (Ok b, e) \<and>
      bx_topicName b = ''5''"
    unfolding Start_def w by (simp add: t n lively_discovery m [simplified])
qed

theorem tunnel_keeps_first_pool_witness:
  "\<exists>b e. Start node_env (blox_opts ''c'' sample_opts) no_nics [] 21 sample_blox chainless_device = Some (Ok b, e) \<and>
     bx_topicName b = ''5'' \<and> serverKuboPeerID b = ''server-of-7''"
proof -
  obtain b e where s: "Start node_env (blox_opts ''c'' sample_opts) no_nics [] 21 sample_blox chainless_device = Some (Ok b, e)"
    "bx_topicName b = ''5''" using chainless_start(3) by blast
  have "bx_topicName sample_blox \<noteq> ''0''" "bx_topicName sample_blox = ''7''" by (simp_all add: sample_blox_def)
  with tunnel_keeps_first_pool [OF s(1) _ chainless_start(1)] chainless_start(2) s show ?thesis by fastforce
qed

end
