(* ===== verification/PoolAnnouncements.thy ===== *)
theory PoolAnnouncements
  imports PingServer
begin

text \<open>
  Announcements over a pubsub topic (\<^verbatim>\<open>announcements/announcements.go\<close>, \<^verbatim>\<open>interface.go\<close>) and the vote on a join request
  that they lead to (\<^verbatim>\<open>HandlePoolJoinRequest\<close> of \<^verbatim>\<open>blockchain/bl_pool.go\<close>). The current daemon starts neither; both are
  kept in the repository for legacy peers.

  Parameters: \<open>al_encode\<close> and \<open>al_decode\<close> are DAG-CBOR under the schema of the package, \<open>al_multiaddr\<close> parses an address,
  \<open>al_peer\<close> is \<^verbatim>\<open>peer.IDFromBytes\<close>; gossipsub shows as the results of joining, subscribing, publishing and of \<^verbatim>\<open>sub.Next\<close>.
\<close>

section \<open>Announcements\<close>

definition UnknownAnnouncementType :: int where "UnknownAnnouncementType = 0"
definition IExistAnnouncementType :: int where "IExistAnnouncementType = 1"
definition PoolJoinRequestAnnouncementType :: int where "PoolJoinRequestAnnouncementType = 2"
definition PoolJoinApproveAnnouncementType :: int where "PoolJoinApproveAnnouncementType = 3"
definition NewManifestAnnouncementType :: int where "NewManifestAnnouncementType = 4"

lemmas announcement_types = UnknownAnnouncementType_def IExistAnnouncementType_def PoolJoinRequestAnnouncementType_def
  PoolJoinApproveAnnouncementType_def NewManifestAnnouncementType_def

record announcement =
  am_Version :: string
  am_Type :: int
  am_Addrs :: "string list"

record an_lib =
  al_encode :: "announcement \<Rightarrow> string option"
  al_decode :: "string \<Rightarrow> announcement option"
  al_multiaddr :: "string \<Rightarrow> string option"
  al_peer :: "string \<Rightarrow> peerID option"

text \<open>\<^verbatim>\<open>PubSubPrototypes.Announcement\<close> is nil until \<^verbatim>\<open>Start\<close> has loaded the schema; using it before panics.\<close>

definition MarshalBinary :: "an_lib \<Rightarrow> bool \<Rightarrow> announcement \<Rightarrow> (unit, string) outcome" where
  "MarshalBinary al loaded a = (if loaded then or_err () (al_encode al a) else Panic)"

definition UnmarshalBinary :: "an_lib \<Rightarrow> bool \<Rightarrow> string \<Rightarrow> (unit, announcement) outcome" where
  "UnmarshalBinary al loaded b = (if loaded then or_err () (al_decode al b) else Panic)"

definition SetAddrs :: "string list \<Rightarrow> announcement \<Rightarrow> announcement" where
  "SetAddrs ma a = a\<lparr>am_Addrs := ma\<rparr>"

definition GetAddrs :: "an_lib \<Rightarrow> announcement \<Rightarrow> string list option" where
  "GetAddrs al a = those (map (al_multiaddr al) (am_Addrs a))"


section \<open>Options and state\<close>

record an_options =
  ao_announceInterval :: int
  ao_timeout :: int
  ao_topicName :: string
  ao_relays :: "string list"

type_synonym an_option = "an_options \<Rightarrow> (unit, an_options) outcome"

definition an_newOptions :: "an_option list \<Rightarrow> (unit, an_options) outcome" where
  "an_newOptions fs = apply_options fs \<lparr>ao_announceInterval = 5 * minute, ao_timeout = 30, ao_topicName = ''0'', ao_relays = []\<rparr>"

definition an_WithAnnounceInterval :: "int \<Rightarrow> an_option" where
  "an_WithAnnounceInterval t o0 = Ok (o0\<lparr>ao_announceInterval := wrap64 (t * second)\<rparr>)"

definition an_WithTimeout :: "int \<Rightarrow> an_option" where
  "an_WithTimeout t o0 = Ok (o0\<lparr>ao_timeout := t\<rparr>)"

definition an_WithTopicName :: "string \<Rightarrow> an_option" where
  "an_WithTopicName n o0 = Ok (o0\<lparr>ao_topicName := n\<rparr>)"

definition an_WithRelays :: "string list \<Rightarrow> an_option" where
  "an_WithRelays r o0 = Ok (o0\<lparr>ao_relays := r\<rparr>)"

text \<open>
  \<open>fa_handler\<close> is the \<^verbatim>\<open>PoolJoinRequestHandler\<close>, which may be nil, and whose result \<^const>\<open>None\<close> is a call that does not return;
  \<open>fa_loops\<close> counts the running loops that announce join requests, \<open>fa_stopClosed\<close> says that the stop channel is closed,
  \<open>fa_published\<close> counts published messages.
\<close>

record 'w fx_announcements =
  fa_options :: an_options
  fa_self :: peerID
  fa_addrs :: "string list"
  fa_loaded :: bool
  fa_topic :: bool
  fa_sub :: bool
  fa_peerstore :: "peerID \<Rightarrow> string set"
  fa_handler :: "(peerID \<Rightarrow> string \<Rightarrow> string \<Rightarrow> 'w device \<Rightarrow> (bool \<times> 'w device) option) option"
  fa_announcing :: bool
  fa_stopClosed :: bool
  fa_loops :: nat
  fa_published :: nat

definition NewFxAnnouncements :: "peerID \<Rightarrow> string list \<Rightarrow> bool \<Rightarrow> an_option list \<Rightarrow> (unit, 'w fx_announcements) outcome" where
  "NewFxAnnouncements self addrs loaded fs = and_then (an_newOptions fs) (\<lambda>opts. Ok
     \<lparr>fa_options = opts, fa_self = self, fa_addrs = addrs, fa_loaded = loaded, fa_topic = False, fa_sub = False, fa_peerstore = (\<lambda>_. {}),
      fa_handler = None, fa_announcing = False, fa_stopClosed = False, fa_loops = 0, fa_published = 0\<rparr>)"

definition SetPoolJoinRequestHandler ::
  "(peerID \<Rightarrow> string \<Rightarrow> string \<Rightarrow> 'w device \<Rightarrow> (bool \<times> 'w device) option) \<Rightarrow> 'w fx_announcements \<Rightarrow> 'w fx_announcements" where
  "SetPoolJoinRequestHandler h an = an\<lparr>fa_handler := Some h\<rparr>"

text \<open>The three steps of gossipsub that may fail: creating it, joining the topic, subscribing.\<close>

definition an_Start :: "bool \<Rightarrow> bool \<Rightarrow> bool \<Rightarrow> 'w fx_announcements \<Rightarrow> bool \<times> 'w fx_announcements" where
  "an_Start gossip join sub an =
     (if ao_topicName (fa_options an) \<in> {[], ''0''} then (False, an)
      else (let an1 = an\<lparr>fa_loaded := True\<rparr> in
            if \<not> gossip then (False, an1)
            else if \<not> join then (False, an1\<lparr>fa_topic := False\<rparr>)
            else if \<not> sub then (False, an1\<lparr>fa_topic := True, fa_sub := False\<rparr>)
            else (True, an1\<lparr>fa_topic := True, fa_sub := True\<rparr>)))"


section \<open>Receiving\<close>

text \<open>The handler is called with an empty account. A nil handler panics; \<^const>\<open>None\<close>: the handler does not return.\<close>

definition processAnnouncement ::
  "peerID \<Rightarrow> int \<Rightarrow> string list \<Rightarrow> string \<Rightarrow> 'w fx_announcements \<Rightarrow> 'w device \<Rightarrow>
   ((unit, unit) outcome \<times> 'w fx_announcements \<times> 'w device) option" where
  "processAnnouncement from atype addrs topicString an d =
     (if atype = IExistAnnouncementType then
        Some (Ok (), an\<lparr>fa_peerstore := (fa_peerstore an)(from := fa_peerstore an from \<union> set addrs)\<rparr>, d)
      else if atype = PoolJoinRequestAnnouncementType then
        (case fa_handler an of
           None \<Rightarrow> Some (Panic, an, d)
         | Some h \<Rightarrow> (case h from [] topicString d of
                        None \<Rightarrow> None
                      | Some (ok, e) \<Rightarrow> Some (if ok then Ok () else Err (), an, e)))
      else Some (Ok (), an, d))"

text \<open>What the loop meets at its head: the end of its context, an error of \<^verbatim>\<open>sub.Next\<close>, no message, or a message.\<close>

datatype an_event = Cancelled | NextFailed | NoMessage | Message string string "string option"

datatype an_end = Ended | Waiting | Crashed | Stuck

fun HandleAnnouncements ::
  "an_lib \<Rightarrow> an_event list \<Rightarrow> 'w fx_announcements \<Rightarrow> 'w device \<Rightarrow> an_end \<times> 'w fx_announcements \<times> 'w device" where
  "HandleAnnouncements al [] an d = (Waiting, an, d)"
| "HandleAnnouncements al (Cancelled # evs) an d = (Ended, an, d)"
| "HandleAnnouncements al (NextFailed # evs) an d = (Ended, an, d)"
| "HandleAnnouncements al (NoMessage # evs) an d = HandleAnnouncements al evs an d"
| "HandleAnnouncements al (Message from dat topic # evs) an d =
     (case al_peer al from of
        None \<Rightarrow> HandleAnnouncements al evs an d
      | Some p \<Rightarrow>
          if p = fa_self an then HandleAnnouncements al evs an d
          else (case UnmarshalBinary al (fa_loaded an) dat of
                  Panic \<Rightarrow> (Crashed, an, d)
                | Err _ \<Rightarrow> HandleAnnouncements al evs an d
                | Ok a \<Rightarrow>
                    (case (GetAddrs al a, topic) of
                       (Some addrs, Some t) \<Rightarrow>
                         (case processAnnouncement p (am_Type a) addrs t an d of
                            None \<Rightarrow> (Stuck, an, d)
                          | Some (Panic, an1, d1) \<Rightarrow> (Crashed, an1, d1)
                          | Some (_, an1, d1) \<Rightarrow> HandleAnnouncements al evs an1 d1)
                     | _ \<Rightarrow> HandleAnnouncements al evs an d)))"

text \<open>The validator of the topic, given the status of the sender (\<^const>\<open>Unknown\<close> when it is not known).\<close>

definition ValidateAnnouncement :: "an_lib \<Rightarrow> string \<Rightarrow> member_status option \<Rightarrow> 'w fx_announcements \<Rightarrow> (unit, bool) outcome" where
  "ValidateAnnouncement al dat status an =
     (case UnmarshalBinary al (fa_loaded an) dat of
        Panic \<Rightarrow> Panic
      | Err _ \<Rightarrow> Ok False
      | Ok a \<Rightarrow>
          Ok (if am_Type a = NewManifestAnnouncementType then status = Some Approved
              else if am_Type a = PoolJoinRequestAnnouncementType then (case status of None \<Rightarrow> Unknown | Some s \<Rightarrow> s) \<noteq> Unknown
              else am_Type a \<in> {PoolJoinApproveAnnouncementType, IExistAnnouncementType}))"


section \<open>Announcing\<close>

text \<open>The result of publishing: done, an error that ends the loop (context ended, topic closed), another error.\<close>

datatype publish = Published | PublishEnds | PublishFails

text \<open>One tick of either periodic loop: whether it goes on; \<^const>\<open>None\<close> is a panic.\<close>

definition announce_tick :: "an_lib \<Rightarrow> int \<Rightarrow> publish \<Rightarrow> 'w fx_announcements \<Rightarrow> (bool \<times> 'w fx_announcements) option" where
  "announce_tick al typ pub an =
     (case MarshalBinary al (fa_loaded an) (SetAddrs (fa_addrs an) \<lparr>am_Version = ''0'', am_Type = typ, am_Addrs = []\<rparr>) of
        Panic \<Rightarrow> None
      | Err _ \<Rightarrow> Some (True, an)
      | Ok b \<Rightarrow> (case pub of
                  Published \<Rightarrow> Some (True, an\<lparr>fa_published := Suc (fa_published an)\<rparr>)
                | PublishEnds \<Rightarrow> Some (False, an)
                | PublishFails \<Rightarrow> Some (True, an)))"

definition join_begin :: "'w fx_announcements \<Rightarrow> 'w fx_announcements" where
  "join_begin an = (if fa_announcing an then an else an\<lparr>fa_announcing := True, fa_loops := Suc (fa_loops an)\<rparr>)"

definition join_return :: "'w fx_announcements \<Rightarrow> 'w fx_announcements" where
  "join_return an = an\<lparr>fa_announcing := False, fa_loops := fa_loops an - 1\<rparr>"

definition StopJoinPoolRequestAnnouncements :: "'w fx_announcements \<Rightarrow> 'w fx_announcements" where
  "StopJoinPoolRequestAnnouncements an = (if fa_stopClosed an then an else an\<lparr>fa_announcing := False, fa_stopClosed := True\<rparr>)"

text \<open>
  The loops of \<^verbatim>\<open>AnnounceJoinPoolRequestPeriodically\<close> with the calls that start and stop them. A loop leaves its \<^verbatim>\<open>select\<close> through the end
  of its context, through the closed stop channel, or through its ticker. The loops are started on a topic that has been joined.
\<close>

inductive join_step :: "an_lib \<Rightarrow> 'w fx_announcements \<Rightarrow> 'w fx_announcements \<Rightarrow> bool" for al where
  begins: "join_step al an (join_begin an)"
| cancelled: "0 < fa_loops an \<Longrightarrow> join_step al an (join_return an)"
| stop_seen: "0 < fa_loops an \<Longrightarrow> fa_stopClosed an \<Longrightarrow> join_step al an (join_return an)"
| tick: "0 < fa_loops an \<Longrightarrow> announce_tick al PoolJoinRequestAnnouncementType pub an = Some (True, an1) \<Longrightarrow> join_step al an an1"
| tick_ends: "0 < fa_loops an \<Longrightarrow> announce_tick al PoolJoinRequestAnnouncementType pub an = Some (False, an1) \<Longrightarrow>
    join_step al an (join_return an1)"
| stop: "join_step al an (StopJoinPoolRequestAnnouncements an)"

text \<open>Shutting down; \<open>closed\<close> says whether the topic closes without an error.\<close>

definition an_Shutdown :: "bool \<Rightarrow> 'w fx_announcements \<Rightarrow> bool" where
  "an_Shutdown closed an = (if fa_sub an then closed else True)"


section \<open>The vote on a join request\<close>

text \<open>
  The output of kubo's ping is a stream of documents. \<^verbatim>\<open>Decode\<close> consumes a document even when it does not fit the structure, but
  stays in front of bytes that are no document, which \<^verbatim>\<open>More\<close> still reports.
\<close>

datatype ping_item = PingDoc json | PingJunk

definition PingResponse_kubo :: gty where
  "PingResponse_kubo = GStruct [(''Success'', GBool, False), (''Time'', GInt, False), (''Text'', GStr, False)]"

text \<open>The sum of the times and their number. \<open>fuel\<close> bounds the rounds of the loop; \<^const>\<open>None\<close>: it is still running.\<close>

fun read_pings :: "nat \<Rightarrow> ping_item list \<Rightarrow> int \<Rightarrow> int \<Rightarrow> (int \<times> int) option" where
  "read_pings 0 is t c = None"
| "read_pings (Suc n) [] t c = Some (t, c)"
| "read_pings (Suc n) (PingJunk # is) t c = read_pings n (PingJunk # is) t c"
| "read_pings (Suc n) (PingDoc j # is) t c =
     (case decode_new PingResponse_kubo j of
        None \<Rightarrow> read_pings n is t c
      | Some v \<Rightarrow>
          if text_of (entry ''Text'' v) = [] \<and> 0 < int_of (entry ''Time'' v)
          then read_pings n is (wrap64 (t + int_of (entry ''Time'' v))) (wrap64 (c + 1))
          else read_pings n is t c)"

definition trunc_div :: "int \<Rightarrow> int \<Rightarrow> int" where
  "trunc_div a b = sgn a * (\<bar>a\<bar> div b)"

record ping_limits =
  lim_maxPingTime :: int
  lim_minPingSuccessCount :: int

definition vote_of :: "ping_limits \<Rightarrow> int \<times> int \<Rightarrow> bool" where
  "vote_of lim = (\<lambda>(total, c).
     (if 0 < c then trunc_div total (c * 1000000) else 2000) \<le> lim_maxPingTime lim \<and>
     lim_minPingSuccessCount lim \<le> (if 0 < c then c else 0))"

definition vote_doc :: "int \<Rightarrow> string \<Rightarrow> bool \<Rightarrow> peerID \<Rightarrow> json" where
  "vote_doc poolID account vote from =
     JObj [(''pool_id'', JNum poolID), (''account'', JStr account), (''vote_value'', JBool vote), (''peer_id'', JStr from)]"

text \<open>Sending the vote; only an accepted one changes the status of the peer.\<close>

definition cast_vote :: "'w env \<Rightarrow> 'w options \<Rightarrow> bool \<Rightarrow> peerID \<Rightarrow> string \<Rightarrow> string \<Rightarrow> 'w device \<Rightarrow> bool \<times> 'w device" where
  "cast_vote env opts vote from account topicString d =
     (case Atoi topicString of
        None \<Rightarrow> (False, d)
      | Some poolID \<Rightarrow>
          (case callBlockchain env opts ''POST'' ''fula-pool-vote'' (StructPtr PoolVoteRequest (vote_doc poolID account vote from)) d of
             (Failed _, e) \<Rightarrow> (False, e)
           | (Answer b st, e) \<Rightarrow>
               if st \<noteq> StatusOK \<and> st \<noteq> StatusAccepted then (False, e)
               else if Option.bind (unmarshal b) (decode_new PoolVoteResponse) = None then (False, e)
               else (True, e\<lparr>members := (members e)(from \<mapsto> Unknown)\<rparr>)))"

text \<open>\<open>rpc\<close> is the client of kubo, which may be nil: the ping of a peer fails or gives a stream.\<close>

definition HandlePoolJoinRequest ::
  "nat \<Rightarrow> 'w env \<Rightarrow> 'w options \<Rightarrow> ping_limits \<Rightarrow> (peerID \<Rightarrow> 'w \<Rightarrow> ping_item list option \<times> 'w) option \<Rightarrow>
   peerID \<Rightarrow> string \<Rightarrow> string \<Rightarrow> 'w device \<Rightarrow> (bool \<times> 'w device) option" where
  "HandlePoolJoinRequest fuel env opts lim rpc from account topicString d =
     (case GetMemberStatus from d of
        None \<Rightarrow> Some (True, d)
      | Some status \<Rightarrow>
          if status \<noteq> Pending then Some (False, d)
          else (case rpc of
                  None \<Rightarrow> Some (False, d)
                | Some ping \<Rightarrow>
                    (case ping from (world d) of
                       (None, w) \<Rightarrow> Some (False, d\<lparr>world := w\<rparr>)
                     | (Some items, w) \<Rightarrow>
                         map_option (\<lambda>result. cast_vote env opts (vote_of lim result) from account topicString (d\<lparr>world := w\<rparr>))
                           (read_pings fuel items 0 0))))"


text \<open>\<^verbatim>\<open>HandlePoolList\<close>, the list of pools of the API.\<close>

definition HandlePoolList :: "'w env \<Rightarrow> 'w options \<Rightarrow> 'w device \<Rightarrow> json option \<times> 'w device" where
  "HandlePoolList env opts d =
     (case callBlockchain env opts ''POST'' ''fula-pool'' (StructVal PoolListRequest (JObj [])) d of
        (Failed _, e) \<Rightarrow> (None, e)
      | (Answer b st, e) \<Rightarrow> (Option.bind (unmarshal b) (decode_new PoolListResponse), e))"


section \<open>What the components promise\<close>

text \<open>
  The loop over the answers of kubo ends after as many rounds as there are documents, but on the first bytes that are no document it runs
  for ever.
\<close>

lemma read_pings_ends: "PingJunk \<notin> set is \<Longrightarrow> length is < n \<Longrightarrow> \<exists>r. read_pings n is t c = Some r"
  by (induction n "is" t c rule: read_pings.induct) (auto split: option.splits)

lemma read_pings_junk: "PingJunk \<in> set is \<Longrightarrow> read_pings n is t c = None"
  by (induction n "is" t c rule: read_pings.induct) (auto split: option.splits)

lemma join_request_hangs:
  assumes "GetMemberStatus from d = Some Pending" and "ping from (world d) = (Some items, w)" and "PingJunk \<in> set items"
  shows "HandlePoolJoinRequest fuel env opts lim (Some ping) from account topic d = None"
  using assms by (simp add: HandlePoolJoinRequest_def read_pings_junk)

lemma read_pings_count:
  "read_pings n is t c = Some (t1, c1) \<Longrightarrow> 0 \<le> c \<Longrightarrow> c + int (length is) < 2 ^ 63 \<Longrightarrow>
   c \<le> c1 \<and> c1 \<le> c + int (length is)"
proof (induction n "is" t c rule: read_pings.induct)
  case (4 n j "is" t c)
  then have "wrap64 (c + 1) = c + 1" by (simp add: wrap64_id in_int64_def)
  with 4 show ?case by (auto split: option.splits if_splits)
qed auto

text \<open>
  What changes: only a vote that the API accepted marks the peer as \<^const>\<open>Unknown\<close>; nothing else of the device changes in
  any case. From then on the peer is refused by the validator and by the handler, so a pending request is voted on at most once.
\<close>

lemma cast_vote_effect:
  assumes "cast_vote env opts vote from account topic d = (ok, e)"
  shows "if ok then \<exists>e0. same_local d e0 \<and> e = e0\<lparr>members := (members e0)(from \<mapsto> Unknown)\<rparr> else same_local d e"
  using assms by (auto simp: cast_vote_def dest: callBlockchain_local split: option.splits prod.splits if_splits call.splits)

lemma join_request_cases:
  assumes "HandlePoolJoinRequest fuel env opts lim rpc from account topic d = Some (ok, e)"
  obtains (unknown) "GetMemberStatus from d = None" "ok" "e = d"
    | (refused) "\<not> ok" "same_local d e"
    | (voted) w vote where "GetMemberStatus from d = Some Pending" "cast_vote env opts vote from account topic (d\<lparr>world := w\<rparr>) = (ok, e)"
  using assms by (auto simp: HandlePoolJoinRequest_def split: option.splits prod.splits if_splits)

lemma join_request_effect:
  assumes "HandlePoolJoinRequest fuel env opts lim rpc from account topic d = Some (ok, e)"
  shows "same_local d e \<or> ok \<and> GetMemberStatus from d = Some Pending \<and> (\<exists>e0. same_local d e0 \<and> e = e0\<lparr>members := (members e0)(from \<mapsto> Unknown)\<rparr>)"
  using assms
proof (cases rule: join_request_cases)
  case (voted w vote)
  note trans = same_local_trans [OF same_local_world [of d w]]
  show ?thesis
  proof (cases ok)
    case True
    with cast_vote_effect [OF voted(2)] obtain e0
      where "same_local (d\<lparr>world := w\<rparr>) e0" "e = e0\<lparr>members := (members e0)(from \<mapsto> Unknown)\<rparr>" by auto
    with True voted(1) trans show ?thesis by blast
  next
    case False
    with cast_vote_effect [OF voted(2)] trans show ?thesis by simp
  qed
qed simp_all

lemma voted_once:
  assumes "HandlePoolJoinRequest fuel env opts lim rpc from account topic d = Some (True, e)" and "GetMemberStatus from d = Some Pending"
  shows "GetMemberStatus from e = Some Unknown"
    "HandlePoolJoinRequest fuel' env opts lim rpc from account topic e = Some (False, e)"
    "al_decode al dat = Some a \<Longrightarrow> am_Type a = PoolJoinRequestAnnouncementType \<Longrightarrow> fa_loaded an \<Longrightarrow>
     ValidateAnnouncement al dat (GetMemberStatus from e) an = Ok False"
proof -
  show u: "GetMemberStatus from e = Some Unknown"
    using assms(1)
  proof (cases rule: join_request_cases)
    case (voted w vote)
    from cast_vote_effect [OF voted(2)] show ?thesis by (auto simp: GetMemberStatus_def)
  qed (use assms(2) in simp_all)
  then show "HandlePoolJoinRequest fuel' env opts lim rpc from account topic e = Some (False, e)"
    by (simp add: HandlePoolJoinRequest_def)
  show "ValidateAnnouncement al dat (GetMemberStatus from e) an = Ok False"
    if "al_decode al dat = Some a" "am_Type a = PoolJoinRequestAnnouncementType" "fa_loaded an"
    using u that by (simp add: ValidateAnnouncement_def UnmarshalBinary_def or_err_def announcement_types)
qed

subsection \<open>What announcements can change\<close>

text \<open>The statuses of members move at most from pending to unknown, and nothing else of the device changes.\<close>

definition only_voted :: "'w device \<Rightarrow> 'w device \<Rightarrow> bool" where
  "only_voted d e \<longleftrightarrow>
     (\<forall>p. members e p = members d p \<or> members d p = Some Pending \<and> members e p = Some Unknown) \<and>
     files e = files d \<and> authorizedPeers e = authorizedPeers d \<and> ping_up e = ping_up d \<and> signals e = signals d"

lemma only_voted_refl [simp]: "only_voted d d"
  by (simp add: only_voted_def)

lemma only_voted_trans: "only_voted d e \<Longrightarrow> only_voted e f \<Longrightarrow> only_voted d f"
  unfolding only_voted_def by metis

lemma same_local_only_voted: "same_local d e \<Longrightarrow> only_voted d e"
  by (simp add: only_voted_def same_localD)

lemma join_request_only_voted:
  assumes "HandlePoolJoinRequest fuel env opts lim rpc from account topic d = Some (ok, e)"
  shows "only_voted d e"
  using join_request_effect [OF assms]
proof (elim disjE conjE exE)
  fix e0 assume "same_local d e0" "e = e0\<lparr>members := (members e0)(from \<mapsto> Unknown)\<rparr>" "GetMemberStatus from d = Some Pending"
  then show ?thesis by (auto simp: only_voted_def GetMemberStatus_def same_localD)
qed (rule same_local_only_voted)

lemma process_only_voted:
  assumes "processAnnouncement from typ addrs topic an d = Some (r, an1, e)"
    and "\<And>h p acc t d e ok. fa_handler an = Some h \<Longrightarrow> h p acc t d = Some (ok, e) \<Longrightarrow> only_voted d e"
  shows "only_voted d e" and "fa_handler an1 = fa_handler an"
  using assms by (auto simp: processAnnouncement_def split: if_splits option.splits prod.splits)

text \<open>A message either is passed over or is processed.\<close>

lemma HandleAnnouncements_Message:
  obtains "HandleAnnouncements al (Message from dat topic # evs) an d = HandleAnnouncements al evs an d"
  | "HandleAnnouncements al (Message from dat topic # evs) an d = (Crashed, an, d)"
  | p a addrs t where "al_peer al from = Some p" "p \<noteq> fa_self an" "UnmarshalBinary al (fa_loaded an) dat = Ok a" "GetAddrs al a = Some addrs"
      "topic = Some t"
      "HandleAnnouncements al (Message from dat topic # evs) an d =
       (case processAnnouncement p (am_Type a) addrs t an d of
          None \<Rightarrow> (Stuck, an, d)
        | Some (Panic, an1, d1) \<Rightarrow> (Crashed, an1, d1)
        | Some (_, an1, d1) \<Rightarrow> HandleAnnouncements al evs an1 d1)"
proof (cases "al_peer al from")
  case (Some p)
  show ?thesis
  proof (cases "p = fa_self an")
    case False
    show ?thesis
    proof (cases "UnmarshalBinary al (fa_loaded an) dat")
      case (Ok a)
      with that Some False show ?thesis by (cases "GetAddrs al a"; cases topic) auto
    qed (use that Some False in auto)
  qed (use that Some in auto)
qed (use that in auto)

lemma handled_only_voted:
  assumes "\<And>h p acc t d e ok. fa_handler an = Some h \<Longrightarrow> h p acc t d = Some (ok, e) \<Longrightarrow> only_voted d e"
  shows "only_voted d (snd (snd (HandleAnnouncements al evs an d)))"
  using assms
proof (induction evs arbitrary: an d)
  case (Cons ev evs)
  note IH = Cons.IH and law = Cons.prems
  show ?case
  proof (cases ev)
    case (Message sender dat topic)
    show ?thesis unfolding Message
    proof (cases rule: HandleAnnouncements_Message [of al sender dat topic evs an d])
      case (3 p a addrs t)
      show "only_voted d (snd (snd (HandleAnnouncements al (Message sender dat topic # evs) an d)))"
      proof (cases "processAnnouncement p (am_Type a) addrs t an d")
        case (Some x)
        obtain r an1 e where x: "x = (r, an1, e)" by (cases x)
        from process_only_voted [OF Some [unfolded x] law] have step: "only_voted d e" "fa_handler an1 = fa_handler an" by auto
        have "only_voted e (snd (snd (HandleAnnouncements al evs an1 e)))" by (rule IH) (use law step(2) in simp)
        with 3 Some x step show ?thesis by (cases r) (auto intro: only_voted_trans)
      qed (simp add: 3)
    qed (use IH law in simp_all)
  qed (use IH law in simp_all)
qed simp

text \<open>
  C38. Nobody becomes a member through the topic: whatever messages arrive, with the handler of join requests in place the statuses of
  peers change at most from pending to unknown, and files, permissions and the ping server stay as they are.
\<close>

theorem announcements_admit_nobody:
  assumes "fa_handler an = Some (HandlePoolJoinRequest fuel env opts lim rpc)"
  shows "only_voted d (snd (snd (HandleAnnouncements al evs an d)))"
  by (rule handled_only_voted) (use assms join_request_only_voted in auto)

text \<open>A join request that arrives before the handler is set ends the process.\<close>

lemma request_without_handler_crashes:
  assumes "fa_handler an = None" and "fa_loaded an" and "al_peer al from = Some p" and "p \<noteq> fa_self an" and "al_decode al dat = Some a"
    and "am_Type a = PoolJoinRequestAnnouncementType" and "GetAddrs al a = Some addrs"
  shows "fst (HandleAnnouncements al (Message from dat (Some t) # evs) an d) = Crashed"
  using assms by (simp add: UnmarshalBinary_def or_err_def processAnnouncement_def announcement_types)

text \<open>What a peer announces is what the others see, given that the codec reads what it writes and the addresses parse.\<close>

lemma announcement_roundtrip:
  assumes "MarshalBinary al True (SetAddrs addrs a) = Ok b" and "\<And>x y. al_encode al x = Some y \<Longrightarrow> al_decode al y = Some x"
    and "\<forall>x \<in> set addrs. al_multiaddr al x = Some x"
  shows "\<exists>a'. UnmarshalBinary al True b = Ok a' \<and> am_Type a' = am_Type a \<and> GetAddrs al a' = Some addrs"
proof -
  have "those (map (al_multiaddr al) addrs) = Some addrs" using assms(3) by (induction addrs) auto
  with assms(1,2) show ?thesis
    by (auto simp: MarshalBinary_def UnmarshalBinary_def or_err_def SetAddrs_def GetAddrs_def split: option.splits)
qed


subsection \<open>Announcing a join request\<close>

text \<open>Until the announcements are stopped there is at most one loop, and the flag says whether there is one.\<close>

definition one_loop :: "'w fx_announcements \<Rightarrow> bool" where
  "one_loop an \<longleftrightarrow> fa_stopClosed an \<or> fa_loops an = (if fa_announcing an then 1 else 0)"

lemma announce_tick_keeps:
  "announce_tick al typ pub an = Some (b, an1) \<Longrightarrow>
   fa_loops an1 = fa_loops an \<and> fa_announcing an1 = fa_announcing an \<and> fa_stopClosed an1 = fa_stopClosed an"
  by (auto simp: announce_tick_def split: outcome.splits publish.splits)

lemma one_loop_step: "join_step al an an1 \<Longrightarrow> one_loop an \<Longrightarrow> one_loop an1"
  by (induction rule: join_step.induct)
    (auto simp: one_loop_def join_begin_def join_return_def StopJoinPoolRequestAnnouncements_def dest: announce_tick_keeps split: if_splits)

lemma stop_is_final_step: "join_step al an an1 \<Longrightarrow> fa_stopClosed an \<Longrightarrow> fa_stopClosed an1"
  by (induction rule: join_step.induct)
    (auto simp: join_begin_def join_return_def StopJoinPoolRequestAnnouncements_def dest: announce_tick_keeps)

lemma join_announcements_invariant:
  assumes "(join_step al)\<^sup>*\<^sup>* an an1" and "one_loop an"
  shows "one_loop an1 \<and> (fa_stopClosed an \<longrightarrow> fa_stopClosed an1)"
  using assms by (induction rule: rtranclp_induct) (auto dest: one_loop_step stop_is_final_step)

text \<open>After a stop every loop can end, and none can be started that does not see the closed channel: the stop is for good.\<close>

lemma stopped_loops_drain:
  assumes "fa_stopClosed an"
  shows "\<exists>an1. (join_step al)\<^sup>*\<^sup>* an an1 \<and> fa_loops an1 = 0 \<and> fa_published an1 = fa_published an"
  using assms
proof (induction "fa_loops an" arbitrary: an)
  case (Suc n)
  then have "join_step al an (join_return an)" by (intro join_step.stop_seen) simp_all
  moreover from Suc have "\<exists>an1. (join_step al)\<^sup>*\<^sup>* (join_return an) an1 \<and> fa_loops an1 = 0 \<and> fa_published an1 = fa_published (join_return an)"
    by (intro Suc.hyps(1)) (simp_all add: join_return_def)
  ultimately show ?case by (auto simp: join_return_def intro: converse_rtranclp_into_rtranclp)
qed auto

section \<open>Witnesses\<close>

definition text_lib :: an_lib where
  "text_lib = \<lparr>al_encode = (\<lambda>a. if am_Type a = PoolJoinRequestAnnouncementType \<and> am_Addrs a = [] \<and> am_Version a = ''0'' then Some ''J'' else None),
     al_decode = (\<lambda>b. if b = ''J'' then Some \<lparr>am_Version = ''0'', am_Type = PoolJoinRequestAnnouncementType, am_Addrs = []\<rparr> else None),
     al_multiaddr = Some, al_peer = Some\<rparr>"

definition listening_node :: "'w env \<Rightarrow> 'w options \<Rightarrow> 'w fx_announcements" where
  "listening_node env opts = \<lparr>fa_options = \<lparr>ao_announceInterval = 5 * minute, ao_timeout = 30, ao_topicName = ''1'', ao_relays = []\<rparr>, fa_self = ''me'',
     fa_addrs = [], fa_loaded = True, fa_topic = True, fa_sub = True, fa_peerstore = (\<lambda>_. {}),
     fa_handler = Some (HandlePoolJoinRequest 10 env opts \<lparr>lim_maxPingTime = 200, lim_minPingSuccessCount = 3\<rparr>
       (Some (\<lambda>_ w. (Some (replicate 3 (PingDoc (JObj [(''Time'', JNum 1000000)]))), w)))),
     fa_announcing = False, fa_stopClosed = False, fa_loops = 0, fa_published = 0\<rparr>"

theorem announcements_admit_nobody_witness:
  "only_voted ((sample_device 0)\<lparr>members := [''p'' \<mapsto> Pending]\<rparr>)
     (snd (snd (HandleAnnouncements text_lib [Message ''p'' ''J'' (Some ''1''), Cancelled] (listening_node (sample_env Map.empty) sample_opts)
       ((sample_device 0)\<lparr>members := [''p'' \<mapsto> Pending]\<rparr>))))"
proof -
  have "fa_handler (listening_node (sample_env Map.empty) sample_opts) =
      Some (HandlePoolJoinRequest 10 (sample_env Map.empty) sample_opts \<lparr>lim_maxPingTime = 200, lim_minPingSuccessCount = 3\<rparr>
       (Some (\<lambda>_ w. (Some (replicate 3 (PingDoc (JObj [(''Time'', JNum 1000000)]))), w))))"
    by (simp add: listening_node_def)
  then show ?thesis by (rule announcements_admit_nobody)
qed

end
