(* ===== verification/NodeWiring.thy ===== *)
theory NodeWiring
  imports BloxNode PoolAnnouncements
begin

text \<open>
  How a node is put together and taken down: the functional options of the chain client (\<^verbatim>\<open>blockchain/options.go\<close>) and of the node
  (\<^verbatim>\<open>blox/options.go\<close>), \<^verbatim>\<open>blox.New\<close>, the options that the daemon passes (\<^verbatim>\<open>cmd/blox/main.go\<close>), the pins it reads from the cluster,
  recovering pins at start, and \<^verbatim>\<open>Shutdown\<close>. The options of the chain client extend the record on which its handlers run, so
  what is shown here is what the theorems about the handlers start from. A client or store that is only passed on is a flag that
  says whether it is set; of the wait groups only whether they empty in time is kept.
\<close>

section \<open>Options of the chain client\<close>

record 'w chain_options = "'w options" +
  co_authorizedPeers :: "peerID list"
  co_allowTransientConnection :: bool
  co_timeout :: int
  co_minPingSuccessCount :: int
  co_maxPingTime :: int
  co_chainName :: string
  co_relays :: "string list"
  co_fetchFrequency :: int
  co_rpc :: bool
  co_signingKey :: bool
  co_clientProtocolID :: string
  co_proxyListenAddr :: string
  co_pingListenAddr :: string

type_synonym 'w chain_option = "'w chain_options \<Rightarrow> (unit, 'w chain_options) outcome"

definition defaultUpdatePoolName :: "string \<Rightarrow> 'w device \<Rightarrow> bool \<times> 'w device" where
  "defaultUpdatePoolName newPoolName d = (True, d)"

definition defaultGetPoolName :: "'w device \<Rightarrow> string \<times> 'w device" where
  "defaultGetPoolName d = (''0'', d)"

definition defaultUpdateChainName :: "string \<Rightarrow> 'w device \<Rightarrow> bool \<times> 'w device" where
  "defaultUpdateChainName newChainName d = (True, d)"

definition defaultGetChainName :: "'w device \<Rightarrow> string \<times> 'w device" where
  "defaultGetChainName d = ([], d)"

definition default_endpoint :: string where
  "default_endpoint = ''api.node3.functionyard.fula.network''"

definition chain_newOptions :: "'w chain_option list \<Rightarrow> (unit, 'w chain_options) outcome" where
  "chain_newOptions fs = apply_options fs
     \<lparr>selfPeerID = [], authorizer = [], clusterPeerID = [], poolHost = False, topicName = ''0'', ipfsClusterApi = False,
      blockchainEndPoint = default_endpoint, secretsDir = [], chainConfigOverride = None,
      updatePoolName = Some defaultUpdatePoolName, getPoolName = Some defaultGetPoolName,
      updateChainName = Some defaultUpdateChainName, getChainName = Some defaultGetChainName, onPoolConfigCleared = False,
      co_authorizedPeers = [], co_allowTransientConnection = True, co_timeout = 30, co_minPingSuccessCount = 7, co_maxPingTime = 900,
      co_chainName = [], co_relays = [], co_fetchFrequency = hour, co_rpc = False, co_signingKey = False, co_clientProtocolID = [],
      co_proxyListenAddr = ''0.0.0.0:4020'', co_pingListenAddr = ''0.0.0.0:4021''\<rparr>"

definition chain_WithAuthorizer :: "peerID \<Rightarrow> 'w chain_option" where
  "chain_WithAuthorizer v o0 = Ok (o0\<lparr>authorizer := v\<rparr>)"

definition chain_WithAuthorizedPeers :: "peerID list \<Rightarrow> 'w chain_option" where
  "chain_WithAuthorizedPeers v o0 = Ok (o0\<lparr>co_authorizedPeers := v\<rparr>)"

definition chain_WithAllowTransientConnection :: "bool \<Rightarrow> 'w chain_option" where
  "chain_WithAllowTransientConnection v o0 = Ok (o0\<lparr>co_allowTransientConnection := v\<rparr>)"

definition chain_WithSecretsPath :: "string \<Rightarrow> 'w chain_option" where
  "chain_WithSecretsPath v o0 = Ok (o0\<lparr>secretsDir := v\<rparr>)"

definition chain_WithTimeout :: "int \<Rightarrow> 'w chain_option" where
  "chain_WithTimeout v o0 = Ok (o0\<lparr>co_timeout := v\<rparr>)"

definition chain_WithMinSuccessPingCount :: "int \<Rightarrow> 'w chain_option" where
  "chain_WithMinSuccessPingCount v o0 = Ok (o0\<lparr>co_minPingSuccessCount := v\<rparr>)"

definition chain_WithIpfsClusterAPI :: "bool \<Rightarrow> 'w chain_option" where
  "chain_WithIpfsClusterAPI v o0 = Ok (o0\<lparr>ipfsClusterApi := v\<rparr>)"

definition chain_WithMaxPingTime :: "int \<Rightarrow> 'w chain_option" where
  "chain_WithMaxPingTime v o0 = Ok (o0\<lparr>co_maxPingTime := v\<rparr>)"

definition chain_WithIpfsClient :: "bool \<Rightarrow> 'w chain_option" where
  "chain_WithIpfsClient v o0 = Ok (o0\<lparr>co_rpc := v\<rparr>)"

definition chain_WithFetchFrequency :: "int \<Rightarrow> 'w chain_option" where
  "chain_WithFetchFrequency v o0 = Ok (o0\<lparr>co_fetchFrequency := v\<rparr>)"

definition chain_WithTopicName :: "string \<Rightarrow> 'w chain_option" where
  "chain_WithTopicName v o0 = Ok (o0\<lparr>topicName := v\<rparr>)"

definition chain_WithChainName :: "string \<Rightarrow> 'w chain_option" where
  "chain_WithChainName v o0 = Ok (o0\<lparr>co_chainName := v\<rparr>)"

definition chain_WithRelays :: "string list \<Rightarrow> 'w chain_option" where
  "chain_WithRelays v o0 = Ok (o0\<lparr>co_relays := v\<rparr>)"

definition chain_WithSelfPeerID :: "peerID \<Rightarrow> 'w chain_option" where
  "chain_WithSelfPeerID v o0 = Ok (o0\<lparr>selfPeerID := v\<rparr>)"

definition chain_WithClusterPeerID :: "peerID \<Rightarrow> 'w chain_option" where
  "chain_WithClusterPeerID v o0 = Ok (o0\<lparr>clusterPeerID := v\<rparr>)"

definition chain_WithRequestSigning :: "bool \<Rightarrow> 'w chain_option" where
  "chain_WithRequestSigning v o0 = Ok (o0\<lparr>co_signingKey := v\<rparr>)"

definition chain_WithOnPoolConfigCleared :: "bool \<Rightarrow> 'w chain_option" where
  "chain_WithOnPoolConfigCleared v o0 = Ok (o0\<lparr>onPoolConfigCleared := v\<rparr>)"

definition chain_WithPoolHost :: "bool \<Rightarrow> 'w chain_option" where
  "chain_WithPoolHost v o0 = Ok (o0\<lparr>poolHost := v\<rparr>)"

definition chain_WithClientProtocolID :: "string \<Rightarrow> 'w chain_option" where
  "chain_WithClientProtocolID v o0 = Ok (o0\<lparr>co_clientProtocolID := v\<rparr>)"

definition chain_WithBlockchainEndPoint :: "string \<Rightarrow> 'w chain_option" where
  "chain_WithBlockchainEndPoint b o0 = Ok (o0\<lparr>blockchainEndPoint := (if b = [] then default_endpoint else b)\<rparr>)"

text \<open>A nil callback keeps the default.\<close>

definition chain_WithUpdatePoolName :: "(string \<Rightarrow> 'w device \<Rightarrow> bool \<times> 'w device) option \<Rightarrow> 'w chain_option" where
  "chain_WithUpdatePoolName v o0 = Ok (if v = None then o0 else o0\<lparr>updatePoolName := v\<rparr>)"

definition chain_WithGetPoolName :: "('w device \<Rightarrow> string \<times> 'w device) option \<Rightarrow> 'w chain_option" where
  "chain_WithGetPoolName v o0 = Ok (if v = None then o0 else o0\<lparr>getPoolName := v\<rparr>)"

definition chain_WithUpdateChainName :: "(string \<Rightarrow> 'w device \<Rightarrow> bool \<times> 'w device) option \<Rightarrow> 'w chain_option" where
  "chain_WithUpdateChainName v o0 = Ok (if v = None then o0 else o0\<lparr>updateChainName := v\<rparr>)"

definition chain_WithGetChainName :: "('w device \<Rightarrow> string \<times> 'w device) option \<Rightarrow> 'w chain_option" where
  "chain_WithGetChainName v o0 = Ok (if v = None then o0 else o0\<lparr>getChainName := v\<rparr>)"

lemmas chain_option_defs = chain_WithBlockchainEndPoint_def chain_WithAuthorizer_def chain_WithAuthorizedPeers_def chain_WithAllowTransientConnection_def chain_WithSecretsPath_def chain_WithTimeout_def chain_WithMinSuccessPingCount_def chain_WithIpfsClusterAPI_def chain_WithMaxPingTime_def chain_WithIpfsClient_def chain_WithFetchFrequency_def chain_WithTopicName_def chain_WithChainName_def chain_WithRelays_def chain_WithSelfPeerID_def chain_WithClusterPeerID_def chain_WithRequestSigning_def chain_WithOnPoolConfigCleared_def chain_WithPoolHost_def chain_WithClientProtocolID_def chain_WithUpdatePoolName_def chain_WithGetPoolName_def chain_WithUpdateChainName_def chain_WithGetChainName_def


section \<open>Options of the node\<close>

record 'w blox_options =
  bo_selfPeerID :: peerID
  bo_clusterPeerID :: peerID
  bo_name :: string
  bo_topicName :: string
  bo_chainName :: string
  bo_storeDir :: string
  bo_announceInterval :: int
  bo_ds :: bool
  bo_ls :: bool
  bo_authorizer :: peerID
  bo_authorizedPeers :: "peerID list"
  bo_relays :: "string list"
  bo_updatePoolName :: "(string \<Rightarrow> 'w device \<Rightarrow> bool \<times> 'w device) option"
  bo_getPoolName :: "('w device \<Rightarrow> string \<times> 'w device) option"
  bo_updateChainName :: "(string \<Rightarrow> 'w device \<Rightarrow> bool \<times> 'w device) option"
  bo_getChainName :: "('w device \<Rightarrow> string \<times> 'w device) option"
  bo_pingCount :: int
  bo_maxPingTime :: int
  bo_minSuccessRate :: int
  bo_blockchainEndpoint :: string
  bo_secretsPath :: string
  bo_poolHostMode :: bool
  bo_DefaultIPFShttpServer :: string
  bo_rpc :: bool
  bo_ipfsClusterApi :: bool
  bo_kuboAPIAddr :: string

type_synonym 'w blox_option = "'w blox_options \<Rightarrow> (unit, 'w blox_options) outcome"

text \<open>\<^verbatim>\<open>path.Clean\<close>.\<close>

definition path_Clean :: "string \<Rightarrow> string" where
  "path_Clean p =
     (let rooted = (p \<noteq> [] \<and> hd p = CHR ''/'');
          step = (\<lambda>acc s. if s = [] \<or> s = ''.'' then acc
                          else if s = ''..'' then
                            (if acc = [] \<or> last acc = ''..'' then (if rooted then acc else acc @ [s]) else butlast acc)
                          else acc @ [s]);
          segs = foldl step [] (split_char (CHR ''/'') p) in
      if rooted then CHR ''/'' # join_char (CHR ''/'') segs
      else if segs = [] then ''.'' else join_char (CHR ''/'') segs)"

text \<open>The link system that is made when none is given is not stored in the options, so \<open>bo_ls\<close> stays unset.\<close>

definition blox_defaults :: "'w blox_options \<Rightarrow> 'w blox_options" where
  "blox_defaults o0 =
     (let o1 = (if bo_name o0 = [] then o0\<lparr>bo_name := ''0''\<rparr> else o0);
          o2 = (if bo_pingCount o1 \<le> 0 then o1\<lparr>bo_pingCount := 5\<rparr> else o1);
          o3 = (if bo_topicName o2 = [] then o2\<lparr>bo_topicName := path_Clean (bo_name o2)\<rparr> else o2);
          o4 = o3\<lparr>bo_ds := True\<rparr>;
          o5 = (if bo_authorizer o4 = [] \<and> bo_selfPeerID o4 \<noteq> [] then o4\<lparr>bo_authorizer := bo_selfPeerID o4\<rparr> else o4) in
      if bo_kuboAPIAddr o5 = [] then o5\<lparr>bo_kuboAPIAddr := defaultKuboAPIAddr\<rparr> else o5)"

definition blox_newOptions :: "'w blox_option list \<Rightarrow> (unit, 'w blox_options) outcome" where
  "blox_newOptions fs = and_then
     (apply_options fs
        \<lparr>bo_selfPeerID = [], bo_clusterPeerID = [], bo_name = [], bo_topicName = [], bo_chainName = [], bo_storeDir = [],
         bo_announceInterval = 5 * second, bo_ds = False, bo_ls = False, bo_authorizer = [], bo_authorizedPeers = [], bo_relays = [],
         bo_updatePoolName = None, bo_getPoolName = None, bo_updateChainName = None, bo_getChainName = None, bo_pingCount = 0,
         bo_maxPingTime = 0, bo_minSuccessRate = 0, bo_blockchainEndpoint = [], bo_secretsPath = [], bo_poolHostMode = False,
         bo_DefaultIPFShttpServer = [], bo_rpc = False, bo_ipfsClusterApi = False, bo_kuboAPIAddr = []\<rparr>)
     (\<lambda>o0. Ok (blox_defaults o0))"

definition blox_WithAuthorizer :: "peerID \<Rightarrow> 'w blox_option" where
  "blox_WithAuthorizer v o0 = Ok (o0\<lparr>bo_authorizer := v\<rparr>)"

definition blox_WithSelfPeerID :: "peerID \<Rightarrow> 'w blox_option" where
  "blox_WithSelfPeerID v o0 = Ok (o0\<lparr>bo_selfPeerID := v\<rparr>)"

definition blox_WithClusterPeerID :: "peerID \<Rightarrow> 'w blox_option" where
  "blox_WithClusterPeerID v o0 = Ok (o0\<lparr>bo_clusterPeerID := v\<rparr>)"

definition blox_WithPoolName :: "string \<Rightarrow> 'w blox_option" where
  "blox_WithPoolName v o0 = Ok (o0\<lparr>bo_name := v\<rparr>)"

definition blox_WithStoreDir :: "string \<Rightarrow> 'w blox_option" where
  "blox_WithStoreDir v o0 = Ok (o0\<lparr>bo_storeDir := v\<rparr>)"

definition blox_WithTopicName :: "string \<Rightarrow> 'w blox_option" where
  "blox_WithTopicName v o0 = Ok (o0\<lparr>bo_topicName := v\<rparr>)"

definition blox_WithAnnounceInterval :: "int \<Rightarrow> 'w blox_option" where
  "blox_WithAnnounceInterval v o0 = Ok (o0\<lparr>bo_announceInterval := v\<rparr>)"

definition blox_WithDatastore :: "bool \<Rightarrow> 'w blox_option" where
  "blox_WithDatastore v o0 = Ok (o0\<lparr>bo_ds := v\<rparr>)"

definition blox_WithDefaultIPFShttpServer :: "string \<Rightarrow> 'w blox_option" where
  "blox_WithDefaultIPFShttpServer v o0 = Ok (o0\<lparr>bo_DefaultIPFShttpServer := v\<rparr>)"

definition blox_WithIpfsClient :: "bool \<Rightarrow> 'w blox_option" where
  "blox_WithIpfsClient v o0 = Ok (o0\<lparr>bo_rpc := v\<rparr>)"

definition blox_WithPoolHostMode :: "bool \<Rightarrow> 'w blox_option" where
  "blox_WithPoolHostMode v o0 = Ok (o0\<lparr>bo_poolHostMode := v\<rparr>)"

definition blox_WithIpfsClusterAPI :: "bool \<Rightarrow> 'w blox_option" where
  "blox_WithIpfsClusterAPI v o0 = Ok (o0\<lparr>bo_ipfsClusterApi := v\<rparr>)"

definition blox_WithLinkSystem :: "bool \<Rightarrow> 'w blox_option" where
  "blox_WithLinkSystem v o0 = Ok (o0\<lparr>bo_ls := v\<rparr>)"

definition blox_WithRelays :: "string list \<Rightarrow> 'w blox_option" where
  "blox_WithRelays v o0 = Ok (o0\<lparr>bo_relays := v\<rparr>)"

definition blox_WithPingCount :: "int \<Rightarrow> 'w blox_option" where
  "blox_WithPingCount v o0 = Ok (o0\<lparr>bo_pingCount := v\<rparr>)"

definition blox_WithMaxPingTime :: "int \<Rightarrow> 'w blox_option" where
  "blox_WithMaxPingTime v o0 = Ok (o0\<lparr>bo_maxPingTime := v\<rparr>)"

definition blox_WithMinSuccessPingRate :: "int \<Rightarrow> 'w blox_option" where
  "blox_WithMinSuccessPingRate v o0 = Ok (o0\<lparr>bo_minSuccessRate := v\<rparr>)"

definition blox_WithSecretsPath :: "string \<Rightarrow> 'w blox_option" where
  "blox_WithSecretsPath v o0 = Ok (o0\<lparr>bo_secretsPath := v\<rparr>)"

definition blox_WithChainName :: "string \<Rightarrow> 'w blox_option" where
  "blox_WithChainName v o0 = Ok (o0\<lparr>bo_chainName := v\<rparr>)"

definition blox_WithKuboAPIAddr :: "string \<Rightarrow> 'w blox_option" where
  "blox_WithKuboAPIAddr v o0 = Ok (o0\<lparr>bo_kuboAPIAddr := v\<rparr>)"

definition blox_WithUpdatePoolName :: "(string \<Rightarrow> 'w device \<Rightarrow> bool \<times> 'w device) option \<Rightarrow> 'w blox_option" where
  "blox_WithUpdatePoolName v o0 = Ok (o0\<lparr>bo_updatePoolName := v\<rparr>)"

definition blox_WithGetPoolName :: "('w device \<Rightarrow> string \<times> 'w device) option \<Rightarrow> 'w blox_option" where
  "blox_WithGetPoolName v o0 = Ok (o0\<lparr>bo_getPoolName := v\<rparr>)"

definition blox_WithUpdateChainName :: "(string \<Rightarrow> 'w device \<Rightarrow> bool \<times> 'w device) option \<Rightarrow> 'w blox_option" where
  "blox_WithUpdateChainName v o0 = Ok (o0\<lparr>bo_updateChainName := v\<rparr>)"

definition blox_WithGetChainName :: "('w device \<Rightarrow> string \<times> 'w device) option \<Rightarrow> 'w blox_option" where
  "blox_WithGetChainName v o0 = Ok (o0\<lparr>bo_getChainName := v\<rparr>)"

definition blox_WithBlockchainEndPoint :: "string \<Rightarrow> 'w blox_option" where
  "blox_WithBlockchainEndPoint b o0 = Ok (o0\<lparr>bo_blockchainEndpoint := (if b = [] then default_endpoint else b)\<rparr>)"

lemmas blox_option_defs = blox_WithBlockchainEndPoint_def blox_WithAuthorizer_def blox_WithSelfPeerID_def blox_WithClusterPeerID_def blox_WithPoolName_def blox_WithStoreDir_def blox_WithTopicName_def blox_WithAnnounceInterval_def blox_WithDatastore_def blox_WithDefaultIPFShttpServer_def blox_WithIpfsClient_def blox_WithPoolHostMode_def blox_WithIpfsClusterAPI_def blox_WithLinkSystem_def blox_WithRelays_def blox_WithPingCount_def blox_WithMaxPingTime_def blox_WithMinSuccessPingRate_def blox_WithSecretsPath_def blox_WithChainName_def blox_WithKuboAPIAddr_def blox_WithUpdatePoolName_def blox_WithGetPoolName_def blox_WithUpdateChainName_def blox_WithGetChainName_def


section \<open>Making a node\<close>

definition chain_client_options :: "'w blox_options \<Rightarrow> 'w chain_option list" where
  "chain_client_options p =
     [chain_WithAuthorizer (bo_authorizer p), chain_WithAuthorizedPeers (bo_authorizedPeers p),
      chain_WithBlockchainEndPoint (bo_blockchainEndpoint p), chain_WithSecretsPath (bo_secretsPath p),
      chain_WithSelfPeerID (bo_selfPeerID p), chain_WithClusterPeerID (bo_clusterPeerID p), chain_WithTimeout 65,
      chain_WithFetchFrequency minute, chain_WithTopicName (bo_topicName p), chain_WithChainName (bo_chainName p),
      chain_WithUpdatePoolName (bo_updatePoolName p), chain_WithGetPoolName (bo_getPoolName p),
      chain_WithUpdateChainName (bo_updateChainName p), chain_WithGetChainName (bo_getChainName p), chain_WithRelays (bo_relays p),
      chain_WithMaxPingTime (bo_maxPingTime p), chain_WithIpfsClient (bo_rpc p),
      chain_WithMinSuccessPingCount (trunc_div (wrap64 (bo_minSuccessRate p * bo_pingCount p)) 100),
      chain_WithIpfsClusterAPI (bo_ipfsClusterApi p), chain_WithPoolHost (bo_poolHostMode p), chain_WithOnPoolConfigCleared True]"

definition blox_New :: "'w blox_option list \<Rightarrow> 'w device \<Rightarrow> (unit, 'w blox_options \<times> 'w chain_options \<times> 'w device) outcome" where
  "blox_New fs d =
     and_then (blox_newOptions fs) (\<lambda>p.
     and_then (chain_newOptions (chain_client_options p)) (\<lambda>co.
       case NewFxBlockchain co d of None \<Rightarrow> Err () | Some e \<Rightarrow> Ok (p, co, e)))"

text \<open>
  The options of the daemon. \<open>cfg\<close> is its configuration, \<open>cp\<close> the path of the file; an owner that is no peer id is replaced by the
  node itself. \<open>cluster\<close> says whether the client of the cluster could be made.
\<close>

record daemon_settings =
  ds_self :: peerID
  ds_cluster_id :: peerID
  ds_configPath :: string
  ds_relays :: "string list"
  ds_owner :: string
  ds_storeDir :: string
  ds_poolHost :: bool
  ds_endpoint :: string
  ds_secretsPath :: string
  ds_kuboHostPort :: string
  ds_cluster :: bool

definition daemon_options :: "codecs \<Rightarrow> daemon_settings \<Rightarrow> string \<Rightarrow> 'w blox_option list" where
  "daemon_options cd s poolName =
     [blox_WithSelfPeerID (ds_self s), blox_WithClusterPeerID (ds_cluster_id s),
      blox_WithAuthorizer (case peer_Decode cd (ds_owner s) of None \<Rightarrow> ds_self s | Some p \<Rightarrow> p),
      blox_WithLinkSystem True, blox_WithPoolName poolName, blox_WithTopicName poolName, blox_WithStoreDir (ds_storeDir s),
      blox_WithRelays (ds_relays s), blox_WithUpdatePoolName (Some (updatePoolName_config (ds_configPath s))),
      blox_WithGetPoolName (Some (getPoolNameFromConfig (ds_configPath s))),
      blox_WithUpdateChainName (Some (updateChainName_config (ds_configPath s))),
      blox_WithGetChainName (Some (getChainNameFromConfig (ds_configPath s))),
      blox_WithBlockchainEndPoint (ds_endpoint s), blox_WithSecretsPath (ds_secretsPath s), blox_WithPingCount 5,
      blox_WithMaxPingTime 900, blox_WithMinSuccessPingRate 7, blox_WithDefaultIPFShttpServer ''none'', blox_WithIpfsClient True,
      blox_WithPoolHostMode (ds_poolHost s), blox_WithIpfsClusterAPI (ds_cluster s), blox_WithKuboAPIAddr (ds_kuboHostPort s)]"

section \<open>Pins of the cluster\<close>

text \<open>
  The stream of \<^verbatim>\<open>/pins\<close>: what is used of a pin is its time, its status at each peer and its content id; an element that cannot be
  decoded ends the stream. \<open>resp\<close> is \<^const>\<open>None\<close> when the request fails.
\<close>

record pin_info =
  pin_Created :: int
  pin_Status :: "string \<rightharpoonup> string"
  pin_Cid :: string

datatype pin_item = PinInfo pin_info | PinBroken

fun IpfsClusterPins :: "int \<Rightarrow> string \<Rightarrow> pin_item list \<Rightarrow> string list \<times> bool" where
  "IpfsClusterPins lastChecked account [] = ([], True)"
| "IpfsClusterPins lastChecked account (PinBroken # is) = ([], False)"
| "IpfsClusterPins lastChecked account (PinInfo p # is) =
     (let (links, ok) = IpfsClusterPins lastChecked account is in
      (if lastChecked < pin_Created p \<and> pin_Status p account = Some ''pinned'' then pin_Cid p # links else links, ok))"

definition ListModifiedStoredLinks :: "int \<Rightarrow> string \<Rightarrow> pin_item list option \<Rightarrow> string list option" where
  "ListModifiedStoredLinks lastChecked account resp =
     (case resp of
        None \<Rightarrow> None
      | Some is \<Rightarrow> (case IpfsClusterPins lastChecked account is of (links, True) \<Rightarrow> Some links | _ \<Rightarrow> None))"

lemma IpfsClusterPins_eq:
  "IpfsClusterPins t account is =
     (List.map_filter (\<lambda>i. case i of PinInfo p \<Rightarrow> if t < pin_Created p \<and> pin_Status p account = Some ''pinned'' then Some (pin_Cid p) else None | _ \<Rightarrow> None)
        (takeWhile (\<lambda>i. i \<noteq> PinBroken) is), PinBroken \<notin> set is)"
  by (induction t account "is" rule: IpfsClusterPins.induct) (auto simp: List.map_filter_simps)

text \<open>All or nothing: the listing is the pins of this peer since the last check, in order, and a broken stream gives no listing.\<close>

lemma stored_links_exact:
  "ListModifiedStoredLinks t account (Some is) =
     (if PinBroken \<in> set is then None
      else Some (List.map_filter (\<lambda>i. case i of PinInfo p \<Rightarrow>
        if t < pin_Created p \<and> pin_Status p account = Some ''pinned'' then Some (pin_Cid p) else None | _ \<Rightarrow> None) is))"
proof -
  have whole: "takeWhile (\<lambda>i. i \<noteq> PinBroken) is = is" if "PinBroken \<notin> set is" using that by (auto simp: takeWhile_eq_all_conv)
  show ?thesis by (cases "PinBroken \<in> set is") (simp_all add: ListModifiedStoredLinks_def IpfsClusterPins_eq whole)
qed

text \<open>
  Waiting for the cluster before its pins are recovered: at most 30 tries, five seconds apart; \<open>ended\<close> says whether the context has
  ended. The result is whether \<^verbatim>\<open>RecoverAll\<close> is called.
\<close>

fun wait_cluster :: "'w env \<Rightarrow> ('w \<Rightarrow> bool) \<Rightarrow> nat \<Rightarrow> 'w device \<Rightarrow> bool \<times> 'w device" where
  "wait_cluster env ended 0 d = (False, d)"
| "wait_cluster env ended (Suc n) d =
     (if ended (world d) then (False, d)
      else (case send env \<lparr>hq_method = ''GET'', hq_url = clusterAPIURL, hq_body = Raw []\<rparr> d of
              (Reply _ _, e) \<Rightarrow> (True, e)
            | (NetErr, e) \<Rightarrow> wait_cluster env ended n (sleep env (5 * second) e)))"

definition recover_pins :: "'w env \<Rightarrow> ('w \<Rightarrow> bool) \<Rightarrow> ('w \<Rightarrow> 'w) \<Rightarrow> 'w device \<Rightarrow> 'w device" where
  "recover_pins env ended recoverAll d =
     (case wait_cluster env ended 30 d of (ready, e) \<Rightarrow> if ready then e\<lparr>world := recoverAll (world e)\<rparr> else e)"

lemma wait_cluster_local: "wait_cluster env ended n d = (ok, e) \<Longrightarrow> same_local d e"
proof (induction n arbitrary: d)
  case (Suc n)
  show ?case
  proof (cases "ended (world d)")
    case False
    obtain r d1 where s: "send env \<lparr>hq_method = ''GET'', hq_url = clusterAPIURL, hq_body = Raw []\<rparr> d = (r, d1)" by fastforce
    note l = send_local [OF s]
    show ?thesis
    proof (cases r)
      case NetErr
      with Suc.prems False s have "wait_cluster env ended n (sleep env (5 * second) d1) = (ok, e)" by simp
      from Suc.IH [OF this] show ?thesis using l sleep_local same_local_trans by blast
    qed (use Suc.prems False s l in auto)
  qed (use Suc.prems in auto)
qed simp

text \<open>Recovering pins touches nothing of the device but the outside world.\<close>

lemma recover_pins_local: "same_local d (recover_pins env ended recoverAll d)"
  by (auto simp: recover_pins_def split: prod.splits dest!: wait_cluster_local intro: same_local_trans)


section \<open>Taking a node down\<close>

text \<open>
  \<open>nl_cancel\<close>: \<^verbatim>\<open>p.cancel\<close> is set, which \<^verbatim>\<open>Start\<close> does near its end; \<open>nl_fetchStop\<close>: the channel \<^verbatim>\<open>fetchCheckStop\<close> is closed.
\<close>

record node_life =
  nl_cancel :: bool
  nl_cancelled :: bool
  nl_fetchStop :: bool
  nl_ping :: bool
  nl_proxy :: bool
  nl_rpcServer :: bool
  nl_datastore :: bool

text \<open>Whether each server drains in time, the datastore closes and the goroutines end within 20 seconds.\<close>

record endings =
  en_ping :: bool
  en_proxy :: bool
  en_rpc :: bool
  en_ds :: bool
  en_goroutines :: bool

text \<open>\<^verbatim>\<open>ShutdownProxy\<close> and \<^verbatim>\<open>ShutdownPingProxy\<close> return nil when the server was never started.\<close>

definition chain_Shutdown :: "endings \<Rightarrow> node_life \<Rightarrow> (unit, bool) outcome \<times> node_life" where
  "chain_Shutdown en n =
     (if nl_fetchStop n then (Panic, n)
      else (Ok (nl_proxy n \<longrightarrow> en_proxy en), n\<lparr>nl_fetchStop := True, nl_ping := False, nl_proxy := False\<rparr>))"

datatype shutdown_error = ChainError | DatastoreError | DeadlineExceeded

definition blox_Shutdown :: "endings \<Rightarrow> node_life \<Rightarrow> (shutdown_error, unit) outcome \<times> node_life" where
  "blox_Shutdown en n =
     (if \<not> nl_cancel n then (Panic, n)
      else (case chain_Shutdown en (n\<lparr>nl_cancelled := True\<rparr>) of
              (Ok True, n1) \<Rightarrow>
                (let n2 = n1\<lparr>nl_rpcServer := False\<rparr> in
                 if \<not> en_ds en then (Err DatastoreError, n2)
                 else (if en_goroutines en then Ok () else Err DeadlineExceeded, n2\<lparr>nl_datastore := False\<rparr>))
            | (Ok False, n1) \<Rightarrow> (Err ChainError, n1)
            | (_, n1) \<Rightarrow> (Panic, n1)))"

text \<open>A shutdown that reports success has closed everything.\<close>

lemma shutdown_closes_all:
  assumes "blox_Shutdown en n = (Ok (), n')"
  shows "nl_cancelled n' \<and> \<not> nl_ping n' \<and> \<not> nl_proxy n' \<and> \<not> nl_rpcServer n' \<and> \<not> nl_datastore n'"
  using assms by (auto simp: blox_Shutdown_def chain_Shutdown_def Let_def split: if_splits bool.splits)

text \<open>
  When the proxy does not drain in time the shutdown returns at once: the IPFS server and the datastore stay open. A second
  shutdown closes a closed channel and panics, as does one before the start has come to its end.
\<close>

lemma shutdown_stops_at_proxy:
  assumes "nl_cancel n" and "\<not> nl_fetchStop n" and "nl_proxy n" and "\<not> en_proxy en"
  shows "\<exists>n'. blox_Shutdown en n = (Err ChainError, n') \<and> nl_datastore n' = nl_datastore n \<and> nl_rpcServer n' = nl_rpcServer n"
  using assms by (simp add: blox_Shutdown_def chain_Shutdown_def)

lemma shutdown_panics:
  "\<not> nl_cancel n \<Longrightarrow> fst (blox_Shutdown en n) = Panic"
  "nl_cancel n \<Longrightarrow> blox_Shutdown en n = (r, n') \<Longrightarrow> fst (blox_Shutdown en2 n') = Panic"
  by (auto simp: blox_Shutdown_def chain_Shutdown_def Let_def split: if_splits bool.splits)

section \<open>What the daemon is made of\<close>

lemma path_Clean_zero: "path_Clean ''0'' = ''0''"
  by (simp add: path_Clean_def)

text \<open>Whatever is asked for, a node has a pool name, pings to count, a block store and the address of kubo.\<close>

lemma blox_newOptions_complete:
  assumes "blox_newOptions fs = Ok p"
  shows "bo_name p \<noteq> []" "0 < bo_pingCount p" "bo_ds p" "bo_kuboAPIAddr p \<noteq> []"
proof -
  from assms obtain o0 where p: "p = blox_defaults o0" by (auto simp: blox_newOptions_def outcome_simps)
  show "bo_name p \<noteq> []" "0 < bo_pingCount p" "bo_ds p" "bo_kuboAPIAddr p \<noteq> []"
    unfolding p by (simp_all add: blox_defaults_def Let_def defaultKuboAPIAddr_def)
qed

definition or_default :: "'a option \<Rightarrow> 'a \<Rightarrow> 'a option" where
  "or_default v x = (if v = None then Some x else v)"

lemma chain_client_newOptions:
  "chain_newOptions (chain_client_options p) = Ok
     \<lparr>selfPeerID = bo_selfPeerID p, authorizer = bo_authorizer p, clusterPeerID = bo_clusterPeerID p, poolHost = bo_poolHostMode p,
      topicName = bo_topicName p, ipfsClusterApi = bo_ipfsClusterApi p,
      blockchainEndPoint = (if bo_blockchainEndpoint p = [] then default_endpoint else bo_blockchainEndpoint p),
      secretsDir = bo_secretsPath p, chainConfigOverride = None,
      updatePoolName = or_default (bo_updatePoolName p) defaultUpdatePoolName, getPoolName = or_default (bo_getPoolName p) defaultGetPoolName,
      updateChainName = or_default (bo_updateChainName p) defaultUpdateChainName,
      getChainName = or_default (bo_getChainName p) defaultGetChainName, onPoolConfigCleared = True,
      co_authorizedPeers = bo_authorizedPeers p, co_allowTransientConnection = True, co_timeout = 65,
      co_minPingSuccessCount = trunc_div (wrap64 (bo_minSuccessRate p * bo_pingCount p)) 100, co_maxPingTime = bo_maxPingTime p,
      co_chainName = bo_chainName p, co_relays = bo_relays p, co_fetchFrequency = minute, co_rpc = bo_rpc p, co_signingKey = False,
      co_clientProtocolID = [], co_proxyListenAddr = ''0.0.0.0:4020'', co_pingListenAddr = ''0.0.0.0:4021''\<rparr>"
  unfolding chain_newOptions_def chain_client_options_def apply_options.simps chain_option_defs and_then.simps or_default_def
  by (cases "bo_updatePoolName p"; cases "bo_getPoolName p"; cases "bo_updateChainName p"; cases "bo_getChainName p") simp_all

lemma daemon_newOptions:
  assumes "owner \<noteq> []" and "owner = (case peer_Decode cd (ds_owner s) of None \<Rightarrow> ds_self s | Some q \<Rightarrow> q)"
  shows "\<exists>p. blox_newOptions (daemon_options cd s poolName) = Ok p \<and> bo_selfPeerID p = ds_self s \<and> bo_authorizer p = owner \<and>
    bo_clusterPeerID p = ds_cluster_id s \<and> bo_poolHostMode p = ds_poolHost s \<and> bo_topicName p = (if poolName = [] then ''0'' else poolName) \<and>
    bo_updatePoolName p = Some (updatePoolName_config (ds_configPath s)) \<and> bo_getPoolName p = Some (getPoolNameFromConfig (ds_configPath s)) \<and>
    bo_updateChainName p = Some (updateChainName_config (ds_configPath s)) \<and> bo_getChainName p = Some (getChainNameFromConfig (ds_configPath s)) \<and>
    bo_minSuccessRate p = 7 \<and> bo_pingCount p = 5"
  unfolding blox_newOptions_def daemon_options_def apply_options.simps blox_option_defs and_then.simps assms(2) [symmetric]
  using assms(1) by (cases "poolName = []"; cases "ds_kuboHostPort s = []") (simp_all add: blox_defaults_def path_Clean_zero)

lemma NewFxBlockchain_owner:
  assumes "authorizer ids \<noteq> []" and "selfPeerID ids \<noteq> []"
  shows "NewFxBlockchain ids d = Some (d\<lparr>authorizedPeers := {authorizer ids}, members := Map.empty\<rparr>)"
  using assms by (simp add: NewFxBlockchain_def SetAuth_def)

text \<open>
  The node that the daemon makes: its chain client trusts exactly the owner of the configuration (or the node itself when that is no
  peer id), keeps pool and chain in the configuration file, and never leaves the pool of a pool host. The required number of
  answered pings, meant to be a share of five, comes out as zero.
\<close>

lemma daemon_wiring:
  fixes d :: "'w device"
  assumes "ds_self s \<noteq> []" and "\<forall>x. peer_Decode cd x \<noteq> Some []"
  shows "\<exists>p co e. blox_New (daemon_options cd s poolName) d = Ok (p, co, e) \<and>
    authorizedPeers e = {case peer_Decode cd (ds_owner s) of None \<Rightarrow> ds_self s | Some q \<Rightarrow> q} \<and>
    authorizer co = (case peer_Decode cd (ds_owner s) of None \<Rightarrow> ds_self s | Some q \<Rightarrow> q) \<and>
    selfPeerID co = ds_self s \<and> clusterPeerID co = ds_cluster_id s \<and> poolHost co = ds_poolHost s \<and>
    topicName co = (if poolName = [] then ''0'' else poolName) \<and>
    updatePoolName co = Some (updatePoolName_config (ds_configPath s)) \<and> getPoolName co = Some (getPoolNameFromConfig (ds_configPath s)) \<and>
    updateChainName co = Some (updateChainName_config (ds_configPath s)) \<and> getChainName co = Some (getChainNameFromConfig (ds_configPath s)) \<and>
    onPoolConfigCleared co \<and> chainConfigOverride co = None \<and> co_minPingSuccessCount co = 0 \<and> files e = files d \<and> unreadable e = unreadable d"
proof -
  define owner where "owner = (case peer_Decode cd (ds_owner s) of None \<Rightarrow> ds_self s | Some q \<Rightarrow> q)"
  then have "owner \<noteq> []" using assms by (auto split: option.splits)
  from daemon_newOptions [OF this owner_def, of poolName] obtain p :: "'w blox_options"
    where p: "blox_newOptions (daemon_options cd s poolName) = Ok p" "bo_selfPeerID p = ds_self s" "bo_authorizer p = owner"
      "bo_clusterPeerID p = ds_cluster_id s" "bo_poolHostMode p = ds_poolHost s" "bo_topicName p = (if poolName = [] then ''0'' else poolName)"
      "bo_updatePoolName p = Some (updatePoolName_config (ds_configPath s))" "bo_getPoolName p = Some (getPoolNameFromConfig (ds_configPath s))"
      "bo_updateChainName p = Some (updateChainName_config (ds_configPath s))" "bo_getChainName p = Some (getChainNameFromConfig (ds_configPath s))"
      "bo_minSuccessRate p = 7" "bo_pingCount p = 5" by blast
  obtain co :: "'w chain_options" where co: "chain_newOptions (chain_client_options p) = Ok co" using chain_client_newOptions [of p] by blast
  note co_eq = co [unfolded chain_client_newOptions, THEN outcome.inject(1) [THEN iffD1], symmetric]
  have ids: "authorizer co = owner" "selfPeerID co = ds_self s" by (simp_all add: co_eq p(2,3))
  have "blox_New (daemon_options cd s poolName) d = Ok (p, co, d\<lparr>authorizedPeers := {owner}, members := Map.empty\<rparr>)"
    using NewFxBlockchain_owner [of co d] \<open>owner \<noteq> []\<close> assms(1) by (simp add: blox_New_def p(1) co ids)
  moreover have "co_minPingSuccessCount co = 0" by (simp add: co_eq p(11,12) trunc_div_def wrap64_def)
  ultimately show ?thesis unfolding owner_def [symmetric] using ids
    by (intro exI [of _ p] exI [of _ co] exI [of _ "d\<lparr>authorizedPeers := {owner}, members := Map.empty\<rparr>"])
      (simp add: co_eq p(2-10) or_default_def)
qed

end
