(* ===== verification/PluginHttp.thy ===== *)
theory PluginHttp
  imports Plugins
begin

text \<open>
  The plain HTTP handlers of the plugin operations (\<^verbatim>\<open>HandleListPlugins\<close> to \<^verbatim>\<open>HandleUpdatePlugin\<close> of \<^verbatim>\<open>bl_plugins.go\<close>), which the dispatch table
  does not use, and how far they agree with \<^const>\<open>handlePluginAction\<close>, which it does. \<open>json_text\<close> is the text of a document.
\<close>

section \<open>The handlers\<close>

definition named_request :: gty where
  "named_request = GStruct [(''plugin_name'', GStr, False)]"

definition params_request :: gty where
  "params_request = GStruct [(''plugin_name'', GStr, False), (''params'', GStr, False)]"

text \<open>The two listings encode a byte slice, which \<^verbatim>\<open>encoding/json\<close> writes as base64.\<close>

definition encode_bytes :: "(json \<Rightarrow> string) \<Rightarrow> json \<Rightarrow> http_resp" where
  "encode_bytes json_text j = respond StatusOK (JStr (b64_encode (string_to_bytes (json_text j))))"

definition HandleListPlugins :: "'w env \<Rightarrow> (json \<Rightarrow> string) \<Rightarrow> bool \<Rightarrow> 'w device \<Rightarrow> http_resp option \<times> 'w device" where
  "HandleListPlugins env json_text cancelled d =
     (case listPluginsImpl env cancelled d of
        (Ok j, e) \<Rightarrow> (Some (encode_bytes json_text j), e)
      | (Err msg, e) \<Rightarrow> (Some (http_Error StatusInternalServerError msg), e)
      | (Panic, e) \<Rightarrow> (None, e))"

definition HandleListActivePlugins :: "(json \<Rightarrow> string) \<Rightarrow> bool \<Rightarrow> 'w device \<Rightarrow> http_resp" where
  "HandleListActivePlugins json_text cancelled d = encode_bytes json_text (listActivePluginsImpl cancelled d)"

definition decoded :: "gty \<Rightarrow> (json \<Rightarrow> 'w device \<Rightarrow> json \<times> 'w device) \<Rightarrow> body \<Rightarrow> 'w device \<Rightarrow> http_resp \<times> 'w device" where
  "decoded t f b d =
     (case Option.bind (decode_first b) (decode_new t) of
        None \<Rightarrow> (http_Error StatusBadRequest ''Invalid request body'', d)
      | Some req \<Rightarrow> (case f req d of (j, e) \<Rightarrow> (respond StatusOK j, e)))"

definition plugin_name :: "json \<Rightarrow> string" where
  "plugin_name req = text_of (entry ''plugin_name'' req)"

definition HandleInstallPlugin :: "bool \<Rightarrow> body \<Rightarrow> 'w device \<Rightarrow> http_resp \<times> 'w device" where
  "HandleInstallPlugin cancelled =
     decoded params_request (\<lambda>req d. installPluginImpl cancelled (plugin_name req) (text_of (entry ''params'' req)) d)"

definition HandleUninstallPlugin :: "bool \<Rightarrow> body \<Rightarrow> 'w device \<Rightarrow> http_resp \<times> 'w device" where
  "HandleUninstallPlugin cancelled = decoded named_request (\<lambda>req d. uninstallPluginImpl cancelled (plugin_name req) d)"

definition HandleGetInstallOutput :: "bool \<Rightarrow> body \<Rightarrow> 'w device \<Rightarrow> http_resp \<times> 'w device" where
  "HandleGetInstallOutput cancelled =
     decoded params_request (\<lambda>req d. (getInstallOutputImpl cancelled (plugin_name req) (text_of (entry ''params'' req)) d, d))"

definition HandleGetInstallStatus :: "bool \<Rightarrow> body \<Rightarrow> 'w device \<Rightarrow> http_resp \<times> 'w device" where
  "HandleGetInstallStatus cancelled = decoded named_request (\<lambda>req d. (getInstallStatusImpl cancelled (plugin_name req) d, d))"

definition HandleUpdatePlugin :: "bool \<Rightarrow> body \<Rightarrow> 'w device \<Rightarrow> http_resp \<times> 'w device" where
  "HandleUpdatePlugin cancelled = decoded named_request (\<lambda>req d. updatePluginImpl cancelled (plugin_name req) d)"


section \<open>Agreement with the dispatched handler\<close>

text \<open>What the smaller structures read of a document is what the structure of the dispatched handler reads.\<close>

lemma smaller_requests:
  assumes "decode_new plugin_request j = Some req"
  shows "\<exists>r. decode_new params_request j = Some r \<and> entry ''plugin_name'' r = entry ''plugin_name'' req \<and> entry ''params'' r = entry ''params'' req"
    "\<exists>r. decode_new named_request j = Some r \<and> entry ''plugin_name'' r = entry ''plugin_name'' req"
  using assms
  by (cases j; auto simp: decode_new_def plugin_request_def params_request_def named_request_def entry_def split: option.splits)+

lemmas agreement_defs = decoded_def plugin_name_def handlePluginAction_def read_plugin_request_def respond_def Let_def

text \<open>
  On a document that the dispatched handler can decode and that names a plugin, the plain handlers do and answer the same.
\<close>

lemma handlers_agree:
  assumes "decode_new plugin_request j = Some req" and "text_of (entry ''plugin_name'' req) \<noteq> []"
  shows "handlePluginAction env docker cancelled ''install-plugin'' (Doc j) d = map_prod Some id (HandleInstallPlugin cancelled (Doc j) d)"
    and "handlePluginAction env docker cancelled ''uninstall-plugin'' (Doc j) d = map_prod Some id (HandleUninstallPlugin cancelled (Doc j) d)"
    and "handlePluginAction env docker cancelled ''get-install-output'' (Doc j) d = map_prod Some id (HandleGetInstallOutput cancelled (Doc j) d)"
    and "handlePluginAction env docker cancelled ''get-install-status'' (Doc j) d = map_prod Some id (HandleGetInstallStatus cancelled (Doc j) d)"
    and "handlePluginAction env docker cancelled ''update-plugin'' (Doc j) d = map_prod Some id (HandleUpdatePlugin cancelled (Doc j) d)"
proof -
  from smaller_requests [OF assms(1)] obtain r n
    where r: "decode_new params_request j = Some r" "entry ''plugin_name'' r = entry ''plugin_name'' req" "entry ''params'' r = entry ''params'' req"
      and n: "decode_new named_request j = Some n" "entry ''plugin_name'' n = entry ''plugin_name'' req" by blast
  show "handlePluginAction env docker cancelled ''install-plugin'' (Doc j) d = map_prod Some id (HandleInstallPlugin cancelled (Doc j) d)"
    "handlePluginAction env docker cancelled ''uninstall-plugin'' (Doc j) d = map_prod Some id (HandleUninstallPlugin cancelled (Doc j) d)"
    "handlePluginAction env docker cancelled ''get-install-output'' (Doc j) d = map_prod Some id (HandleGetInstallOutput cancelled (Doc j) d)"
    "handlePluginAction env docker cancelled ''get-install-status'' (Doc j) d = map_prod Some id (HandleGetInstallStatus cancelled (Doc j) d)"
    "handlePluginAction env docker cancelled ''update-plugin'' (Doc j) d = map_prod Some id (HandleUpdatePlugin cancelled (Doc j) d)"
    using assms r n
    by (simp_all add: agreement_defs HandleInstallPlugin_def HandleUninstallPlugin_def HandleGetInstallOutput_def HandleGetInstallStatus_def
        HandleUpdatePlugin_def split: prod.splits)
qed

text \<open>They differ where the dispatched handler is careful: a plugin without a name is installed here.\<close>

lemma nameless_plugin_installed:
  "snd (HandleInstallPlugin cancelled (Doc (JObj [])) d) = snd (installPluginImpl cancelled [] [] d)"
  by (simp add: HandleInstallPlugin_def decoded_def decode_new_def params_request_def plugin_name_def entry_def text_of_def split: prod.splits)

text \<open>The listing is no list of plugins but a text in base64.\<close>

lemma listing_is_base64:
  assumes "HandleListPlugins env json_text cancelled d = (Some a, e)" and "rs_status a = StatusOK"
  shows "\<exists>s. rs_body a = Doc (JStr s)"
  using assms by (auto simp: HandleListPlugins_def encode_bytes_def respond_def http_Error_def split: outcome.splits prod.splits)

end
