(* ===== verification/SetupListeners.thy ===== *)
theory SetupListeners
  imports SetupApi
begin

text \<open>
  The listeners of the set-up server (\<^verbatim>\<open>multiCloser\<close>, \<^verbatim>\<open>Serve\<close> of \<^verbatim>\<open>wap/pkg/server/server.go\<close> and the watchers of
  \<^verbatim>\<open>lanbind.go\<close>) as a step relation: the goroutine that runs \<^verbatim>\<open>Serve\<close> and later \<^verbatim>\<open>Close\<close>, the watcher for addresses
  of the local network and the watcher for the hotspot interleave. A step is a section under the lock or one
  access to shared data. \<^verbatim>\<open>Serve\<close> appends its own listener without the lock, so a lock held by a watcher does not keep it
  out: where the two can meet, the reading of the slice and its replacement are separate steps on both sides. Which binds succeed, when the device gains an owner and
  which interfaces exist is up to the environment. A listener is named by its address; closing it succeeds. The
  goroutines that serve an accepted connection are the theory \<^verbatim>\<open>SetupApi\<close>.
\<close>

section \<open>Addresses\<close>

datatype ip_addr = IPv4 nat nat nat nat | OtherAddr

record lan_nic = nic +
  nic_addrs :: "ip_addr list option"

definition skipLANInterface :: "string \<Rightarrow> bool" where
  "skipLANInterface name \<longleftrightarrow>
     name = ''lo'' \<or> list_ex (HasPrefix name) [''docker'', ''br-'', ''veth'', ''dummy'', ''tun'', ''tap'']"

text \<open>\<^verbatim>\<open>IsPrivate\<close>, \<^verbatim>\<open>IsLoopback\<close> and \<^verbatim>\<open>String\<close> of an IPv4 address.\<close>

definition IsPrivate :: "nat \<Rightarrow> nat \<Rightarrow> bool" where
  "IsPrivate a b \<longleftrightarrow> a = 10 \<or> a = 172 \<and> 16 \<le> b \<and> b < 32 \<or> a = 192 \<and> b = 168"

definition ip_String :: "nat \<Rightarrow> nat \<Rightarrow> nat \<Rightarrow> nat \<Rightarrow> string" where
  "ip_String a b c d = join_char (CHR ''.'') (map (\<lambda>n. Itoa (int n)) [a, b, c, d])"

fun lan_address :: "string \<Rightarrow> string \<Rightarrow> ip_addr \<Rightarrow> string list" where
  "lan_address port apIP OtherAddr = []"
| "lan_address port apIP (IPv4 a b c d) =
     (if a = 127 \<or> \<not> IsPrivate a b \<or> ip_String a b c d = apIP then []
      else [ip_String a b c d @ CHR '':'' # port])"

definition realLANListenAddrs :: "lan_nic list option \<Rightarrow> string \<Rightarrow> string \<Rightarrow> string list" where
  "realLANListenAddrs ifaces port apIP =
     (case ifaces of
        None \<Rightarrow> []
      | Some is \<Rightarrow>
          concat (map (\<lambda>i. if \<not> nic_up i \<or> skipLANInterface (nic_name i) then []
                           else (case nic_addrs i of None \<Rightarrow> [] | Some as \<Rightarrow> concat (map (lan_address port apIP) as))) is))"


section \<open>The closer\<close>

text \<open>
  \<open>mc_stopWatch\<close> tells whether the channel exists, \<open>mc_stopped\<close> whether the one that the watchers hold has
  been closed; \<open>mc_watchers\<close> is the counter of the wait group.
\<close>

record multiCloser =
  mc_listeners :: "string list"
  mc_closed :: bool
  mc_stopWatch :: bool
  mc_stopped :: bool
  mc_watchers :: nat

definition new_closer :: multiCloser where
  "new_closer = \<lparr>mc_listeners = [], mc_closed = False, mc_stopWatch = False, mc_stopped = False, mc_watchers = 0\<rparr>"

definition trackWatcher :: "multiCloser \<Rightarrow> bool \<times> multiCloser" where
  "trackWatcher mc = (if mc_closed mc then (False, mc) else (True, mc\<lparr>mc_watchers := mc_watchers mc + 1\<rparr>))"

definition mc_add :: "string \<Rightarrow> multiCloser \<Rightarrow> bool \<times> multiCloser" where
  "mc_add l mc = (if mc_closed mc then (False, mc) else (True, mc\<lparr>mc_listeners := mc_listeners mc @ [l]\<rparr>))"

text \<open>The part of \<^verbatim>\<open>Close\<close> under the lock.\<close>

definition mc_Close :: "multiCloser \<Rightarrow> multiCloser" where
  "mc_Close mc = mc\<lparr>mc_closed := True, mc_stopped := mc_stopped mc \<or> mc_stopWatch mc, mc_stopWatch := False, mc_listeners := []\<rparr>"

text \<open>The creation of the stop channel and the registration of a watcher: \<^const>\<open>True\<close> if its goroutine starts.\<close>

definition start_watch :: "multiCloser \<Rightarrow> bool \<times> multiCloser" where
  "start_watch mc = (if mc_closed mc then (False, mc) else trackWatcher (mc\<lparr>mc_stopWatch := True\<rparr>))"

definition watcher_done :: "multiCloser \<Rightarrow> multiCloser" where
  "watcher_done mc = mc\<lparr>mc_watchers := mc_watchers mc - 1\<rparr>"


section \<open>The goroutines\<close>

text \<open>Where \<^verbatim>\<open>Serve\<close> is: before its first bind, in attempt \<open>n\<close> of the wait for the hotspot, appending, without a hotspot, or back.\<close>

datatype serve_pc = SBegin | SWait nat | SRead | SWrite "string list" | SNone | SReturned

datatype lan_pc = LanOff | LanIdle | LanBind "string list" | LanHold string "string list" |
  LanAppend string "string list" "string list" | LanDone

datatype hot_pc = HotOff | HotIdle | HotHold | HotDone

datatype close_pc = NotCalled | Waiting | Returned

record listening =
  mc :: multiCloser
  sockets :: "string set"
  serve_at :: serve_pc
  lan_at :: lan_pc
  lan_bound :: "string set"
  hot_at :: hot_pc
  close_at :: close_pc
  lost :: "string multiset"
  overlap :: bool

definition listening_start :: listening where
  "listening_start = \<lparr>mc = new_closer, sockets = {}, serve_at = SBegin, lan_at = LanOff, lan_bound = {}, hot_at = HotOff,
     close_at = NotCalled, lost = {#}, overlap = False\<rparr>"

text \<open>The watcher of the local network is the only goroutine that holds the lock over more than one step.\<close>

fun lan_locked :: "lan_pc \<Rightarrow> bool" where
  "lan_locked (LanAppend a as old) \<longleftrightarrow> True"
| "lan_locked _ \<longleftrightarrow> False"

fun serve_inside :: "serve_pc \<Rightarrow> bool" where
  "serve_inside (SWrite old) \<longleftrightarrow> True"
| "serve_inside _ \<longleftrightarrow> False"

definition listenAddr :: "string \<Rightarrow> string \<Rightarrow> string" where
  "listenAddr ip port = ip @ CHR '':'' # port"

definition localhostAddr :: "string \<Rightarrow> string" where
  "localhostAddr port = ''127.0.0.1:'' @ port"

text \<open>\<^verbatim>\<open>net.Listen\<close>: an address this process already listens on is refused, otherwise \<open>can\<close> decides.\<close>

definition net_Listen :: "(string \<Rightarrow> bool) \<Rightarrow> string \<Rightarrow> listening \<Rightarrow> bool \<times> listening" where
  "net_Listen can a s = (if can a \<and> a \<notin> sockets s then (True, s\<lparr>sockets := insert a (sockets s)\<rparr>) else (False, s))"

text \<open>Binding and registering a list of addresses in turn, as the start of the server does; the addresses bound.\<close>

fun bind_all :: "(string \<Rightarrow> bool) \<Rightarrow> string list \<Rightarrow> listening \<Rightarrow> string list \<times> listening" where
  "bind_all can [] s = ([], s)"
| "bind_all can (a # as) s =
     (case net_Listen can a s of
        (False, s1) \<Rightarrow> bind_all can as s1
      | (True, s1) \<Rightarrow>
          (case bind_all can as (s1\<lparr>mc := snd (mc_add a (mc s1))\<rparr>) of (bs, s2) \<Rightarrow> (a # bs, s2)))"

definition startLANSetupWatch :: "bool \<Rightarrow> string set \<Rightarrow> listening \<Rightarrow> listening" where
  "startLANSetupWatch owned bound s =
     (if owned then s
      else (case start_watch (mc s) of
              (False, m) \<Rightarrow> s\<lparr>mc := m\<rparr>
            | (True, m) \<Rightarrow> s\<lparr>mc := m, lan_at := LanIdle, lan_bound := bound\<rparr>))"

text \<open>\<open>owned1\<close> and \<open>owned2\<close> are the answers of \<^const>\<open>bloxHasOwner\<close> before the binds and before the watcher.\<close>

definition startAuxListeners ::
  "(string \<Rightarrow> bool) \<Rightarrow> bool \<Rightarrow> bool \<Rightarrow> lan_nic list option \<Rightarrow> string \<Rightarrow> string \<Rightarrow> listening \<Rightarrow> listening" where
  "startAuxListeners can owned1 owned2 ifaces port apIP s =
     (let (_, s1) = bind_all can [localhostAddr port] s;
          (bs, s2) = bind_all can (if owned1 then [] else realLANListenAddrs ifaces port apIP) s1 in
      startLANSetupWatch owned2 (set bs) s2)"

definition startHotspotWatch :: "listening \<Rightarrow> listening" where
  "startHotspotWatch s =
     (case start_watch (mc s) of (False, m) \<Rightarrow> s\<lparr>mc := m\<rparr> | (True, m) \<Rightarrow> s\<lparr>mc := m, hot_at := HotIdle\<rparr>)"

definition maxAttempts :: nat where
  "maxAttempts = 60"

definition Serve_start ::
  "(string \<Rightarrow> bool) \<Rightarrow> bool \<Rightarrow> bool \<Rightarrow> bool \<Rightarrow> lan_nic list option \<Rightarrow> string \<Rightarrow> string \<Rightarrow> listening \<Rightarrow> listening" where
  "Serve_start can no_address owned1 owned2 ifaces port ip s =
     (let (ok, s1) = net_Listen can (listenAddr ip port) s;
          s2 = startAuxListeners can owned1 owned2 ifaces port ip s1 in
      s2\<lparr>serve_at := (if ok then SRead else if no_address then SWait 0 else SNone)\<rparr>)"

text \<open>
  \<open>slice_write\<close> replaces the slice of listeners by the one that an append made from \<open>old\<close>. \<open>lost\<close> collects the
  listeners that no slice names: what was in the slice or lost before and is not in \<open>old\<close> is lost now.
\<close>

definition slice_write :: "string list \<Rightarrow> string \<Rightarrow> listening \<Rightarrow> listening" where
  "slice_write old a s = s\<lparr>mc := (mc s)\<lparr>mc_listeners := old @ [a]\<rparr>, lost := lost s + mset (mc_listeners (mc s)) - mset old\<rparr>"

text \<open>
  \<^verbatim>\<open>add\<close> called by the watcher of the local network: it takes the lock, gives up when the server is closed, and
  otherwise reads the slice; the second half writes the slice and releases the lock.
\<close>

definition lan_add_lock :: "string \<Rightarrow> string list \<Rightarrow> listening \<Rightarrow> listening" where
  "lan_add_lock a as s =
     (if mc_closed (mc s) then s\<lparr>mc := watcher_done (mc s), sockets := sockets s - {a}, lan_at := LanDone\<rparr>
      else s\<lparr>lan_at := LanAppend a as (mc_listeners (mc s)), overlap := overlap s \<or> serve_inside (serve_at s)\<rparr>)"

definition lan_add_write :: "string \<Rightarrow> string list \<Rightarrow> string list \<Rightarrow> listening \<Rightarrow> listening" where
  "lan_add_write a as old s =
     (slice_write old a s)\<lparr>lan_bound := insert a (lan_bound s), lan_at := LanBind as\<rparr>"

definition hot_add :: "string \<Rightarrow> listening \<Rightarrow> listening" where
  "hot_add a s =
     (case mc_add a (mc s) of
        (True, m) \<Rightarrow> s\<lparr>mc := watcher_done m, hot_at := HotDone\<rparr>
      | (False, m) \<Rightarrow> s\<lparr>mc := watcher_done m, sockets := sockets s - {a}, hot_at := HotDone\<rparr>)"

definition Close_lock :: "listening \<Rightarrow> listening" where
  "Close_lock s = s\<lparr>mc := mc_Close (mc s), sockets := sockets s - set (mc_listeners (mc s)), close_at := Waiting\<rparr>"

text \<open>
  The steps. \<^verbatim>\<open>Serve\<close> reads and writes the slice whoever holds the lock; every other access waits for it. \<open>overlap\<close>
  records that the two appends were in progress at the same time. A slice value is read and written as a whole. The
  watcher of the hotspot starts only when \<^verbatim>\<open>Serve\<close> appends nothing, so its \<^verbatim>\<open>add\<close> is one step. \<^verbatim>\<open>Close\<close> is called by
  the holder of the value that \<^verbatim>\<open>Serve\<close> returns, so after its return.
\<close>

inductive lstep :: "string \<Rightarrow> string \<Rightarrow> listening \<Rightarrow> listening \<Rightarrow> bool" for port ip where
  serve_begin: "serve_at s = SBegin \<Longrightarrow> lstep port ip s (Serve_start can no_address owned1 owned2 ifaces port ip s)"
| serve_bound: "serve_at s = SWait n \<Longrightarrow> net_Listen can (listenAddr ip port) s = (True, s') \<Longrightarrow> lstep port ip s (s'\<lparr>serve_at := SRead\<rparr>)"
| serve_again: "serve_at s = SWait n \<Longrightarrow> lstep port ip s (s\<lparr>serve_at := (if n + 1 < maxAttempts then SWait (n + 1) else SNone)\<rparr>)"
| serve_expired: "serve_at s = SWait n \<Longrightarrow> lstep port ip s (s\<lparr>serve_at := SNone\<rparr>)"
| serve_read: "serve_at s = SRead \<Longrightarrow> 
    lstep port ip s (s\<lparr>serve_at := SWrite (mc_listeners (mc s)), overlap := overlap s \<or> lan_locked (lan_at s)\<rparr>)"
| serve_write: "serve_at s = SWrite old \<Longrightarrow>
    lstep port ip s ((slice_write old (listenAddr ip port) s)\<lparr>serve_at := SReturned\<rparr>)"
| serve_none: "serve_at s = SNone \<Longrightarrow> \<not> lan_locked (lan_at s) \<Longrightarrow> lstep port ip s ((startHotspotWatch s)\<lparr>serve_at := SReturned\<rparr>)"
| lan_stop: "lan_at s = LanIdle \<Longrightarrow> mc_stopped (mc s) \<Longrightarrow> lstep port ip s (s\<lparr>mc := watcher_done (mc s), lan_at := LanDone\<rparr>)"
| lan_owned: "lan_at s = LanIdle \<Longrightarrow> lstep port ip s (s\<lparr>mc := watcher_done (mc s), lan_at := LanDone\<rparr>)"
| lan_tick: "lan_at s = LanIdle \<Longrightarrow> lstep port ip s (s\<lparr>lan_at := LanBind (realLANListenAddrs ifaces port ip)\<rparr>)"
| lan_skip: "lan_at s = LanBind (a # as) \<Longrightarrow> lstep port ip s (s\<lparr>lan_at := LanBind as\<rparr>)"
| lan_listen: "lan_at s = LanBind (a # as) \<Longrightarrow> a \<notin> lan_bound s \<Longrightarrow> net_Listen can a s = (True, s') \<Longrightarrow>
    lstep port ip s (s'\<lparr>lan_at := LanHold a as\<rparr>)"
| lan_adding: "lan_at s = LanHold a as \<Longrightarrow> lstep port ip s (lan_add_lock a as s)"
| lan_added: "lan_at s = LanAppend a as old \<Longrightarrow> lstep port ip s (lan_add_write a as old s)"
| lan_again: "lan_at s = LanBind [] \<Longrightarrow> lstep port ip s (s\<lparr>lan_at := LanIdle\<rparr>)"
| hot_stop: "hot_at s = HotIdle \<Longrightarrow> mc_stopped (mc s) \<Longrightarrow> lstep port ip s (s\<lparr>mc := watcher_done (mc s), hot_at := HotDone\<rparr>)"
| hot_listen: "hot_at s = HotIdle \<Longrightarrow> net_Listen can (listenAddr ip port) s = (True, s') \<Longrightarrow> lstep port ip s (s'\<lparr>hot_at := HotHold\<rparr>)"
| hot_added: "hot_at s = HotHold \<Longrightarrow> \<not> lan_locked (lan_at s) \<Longrightarrow> lstep port ip s (hot_add (listenAddr ip port) s)"
| close_lock: "serve_at s = SReturned \<Longrightarrow> \<not> lan_locked (lan_at s) \<Longrightarrow> lstep port ip s (Close_lock s)"
| close_return: "close_at s = Waiting \<Longrightarrow> mc_watchers (mc s) = 0 \<Longrightarrow> lstep port ip s (s\<lparr>close_at := Returned\<rparr>)"

abbreviation listening_run :: "string \<Rightarrow> string \<Rightarrow> listening \<Rightarrow> bool" where
  "listening_run port ip s \<equiv> (lstep port ip)\<^sup>*\<^sup>* listening_start s"


section \<open>Who owns a socket\<close>

fun lan_held :: "lan_pc \<Rightarrow> string multiset" where
  "lan_held (LanHold a as) = {#a#}"
| "lan_held (LanAppend a as old) = {#a#}"
| "lan_held _ = {#}"

fun serve_held :: "string \<Rightarrow> serve_pc \<Rightarrow> string multiset" where
  "serve_held h SRead = {#h#}"
| "serve_held h (SWrite old) = {#h#}"
| "serve_held h _ = {#}"

definition hot_held :: "string \<Rightarrow> hot_pc \<Rightarrow> string multiset" where
  "hot_held h p = (if p = HotHold then {#h#} else {#})"

text \<open>The open sockets with the part of the program that will close each of them: the closer, a goroutine, or nobody.\<close>

definition claims :: "string \<Rightarrow> listening \<Rightarrow> string multiset" where
  "claims h s = mset (mc_listeners (mc s)) + lan_held (lan_at s) + hot_held h (hot_at s) + serve_held h (serve_at s) + lost s"

definition owned_sockets :: "string \<Rightarrow> listening \<Rightarrow> bool" where
  "owned_sockets h s \<longleftrightarrow> finite (sockets s) \<and> claims h s = mset_set (sockets s)"

definition live :: "listening \<Rightarrow> nat" where
  "live s = (if lan_at s = LanOff \<or> lan_at s = LanDone then 0 else 1) + (if hot_at s = HotOff \<or> hot_at s = HotDone then 0 else 1)"

definition phases :: "listening \<Rightarrow> bool" where
  "phases s \<longleftrightarrow>
     mc_watchers (mc s) = live s \<and>
     (mc_closed (mc s) \<longrightarrow> mc_listeners (mc s) = [] \<and> serve_at s = SReturned \<and> \<not> mc_stopWatch (mc s)) \<and>
     (close_at s \<noteq> NotCalled \<longleftrightarrow> mc_closed (mc s)) \<and>
     (0 < live s \<longrightarrow> mc_stopWatch (mc s) \<or> mc_stopped (mc s)) \<and>
     (hot_at s \<noteq> HotOff \<longrightarrow> serve_at s = SReturned) \<and>
     (serve_at s = SBegin \<longrightarrow> lan_at s = LanOff) \<and>
     (close_at s = Returned \<longrightarrow> live s = 0) \<and>
     (lan_locked (lan_at s) \<longrightarrow> \<not> mc_closed (mc s)) \<and>
     (\<forall>old. serve_at s = SWrite old \<longrightarrow> mset old \<subseteq># lost s + mset (mc_listeners (mc s))) \<and>
     (\<forall>a as old. lan_at s = LanAppend a as old \<longrightarrow> mset old \<subseteq># lost s + mset (mc_listeners (mc s)))"

text \<open>As long as the two appends have not overlapped, the slice is the one that was read and nothing is lost.\<close>

definition undisturbed :: "listening \<Rightarrow> bool" where
  "undisturbed s \<longleftrightarrow>
     (overlap s \<or>
      lost s = {#} \<and> \<not> (serve_inside (serve_at s) \<and> lan_locked (lan_at s)) \<and>
      (\<forall>old. serve_at s = SWrite old \<longrightarrow> old = mc_listeners (mc s)) \<and>
      (\<forall>a as old. lan_at s = LanAppend a as old \<longrightarrow> old = mc_listeners (mc s)))"

lemmas closer_defs = trackWatcher_def mc_add_def mc_Close_def start_watch_def watcher_done_def new_closer_def

lemma net_Listen_True:
  "net_Listen can a s = (True, s') \<longleftrightarrow> can a \<and> a \<notin> sockets s \<and> s' = s\<lparr>sockets := insert a (sockets s)\<rparr>"
  by (auto simp: net_Listen_def)

lemma bind_all_frame:
  "bind_all can as s = (bs, s') \<Longrightarrow> \<not> mc_closed (mc s) \<Longrightarrow>
   \<exists>S. s' = s\<lparr>sockets := S, mc := (mc s)\<lparr>mc_listeners := mc_listeners (mc s) @ bs\<rparr>\<rparr> \<and> S = sockets s \<union> set bs \<and>
       set bs \<subseteq> set as \<and> distinct bs \<and> set bs \<inter> sockets s = {}"
proof (induction as arbitrary: s bs s')
  case (Cons a as)
  show ?case
  proof (cases "can a \<and> a \<notin> sockets s")
    case True
    define s1 where "s1 = s\<lparr>sockets := insert a (sockets s), mc := (mc s)\<lparr>mc_listeners := mc_listeners (mc s) @ [a]\<rparr>\<rparr>"
    from True Cons.prems obtain cs where c: "bind_all can as s1 = (cs, s')" "bs = a # cs"
      by (auto simp: net_Listen_def mc_add_def s1_def split: prod.splits)
    with Cons.IH [OF c(1)] Cons.prems(2) True show ?thesis by (auto simp: s1_def)
  next
    case False
    with Cons.prems have "bind_all can as s = (bs, s')" by (auto simp: net_Listen_def)
    from Cons.IH [OF this Cons.prems(2)] show ?thesis by auto
  qed
qed simp

text \<open>The state in which \<^verbatim>\<open>Serve\<close> starts to wait or to append: what it has bound and whether a watcher runs.\<close>

lemma Serve_start_shape:
  assumes "\<not> mc_closed (mc s)" and "sockets s = {}" and "lan_at s = LanOff"
  obtains ok bs watch bound where
    "Serve_start can no_address owned1 owned2 ifaces port ip s =
       s\<lparr>sockets := set bs \<union> (if ok then {listenAddr ip port} else {}),
         mc := (mc s)\<lparr>mc_listeners := mc_listeners (mc s) @ bs, mc_stopWatch := mc_stopWatch (mc s) \<or> watch,
                      mc_watchers := mc_watchers (mc s) + (if watch then 1 else 0)\<rparr>,
         lan_at := (if watch then LanIdle else LanOff), lan_bound := (if watch then bound else lan_bound s),
         serve_at := (if ok then SRead else if no_address then SWait 0 else SNone)\<rparr>"
    and "distinct bs" and "ok \<Longrightarrow> listenAddr ip port \<notin> set bs"
    and "set bs \<subseteq> insert (localhostAddr port) (set (realLANListenAddrs ifaces port ip))"
proof -
  obtain ok s1 where 1: "net_Listen can (listenAddr ip port) s = (ok, s1)" by fastforce
  then have s1: "s1 = s\<lparr>sockets := (if ok then {listenAddr ip port} else {})\<rparr>" using assms(2) by (auto simp: net_Listen_def split: if_splits)
  obtain bs1 s2 where 2: "bind_all can [localhostAddr port] s1 = (bs1, s2)" by fastforce
  obtain bs2 s3 where 3: "bind_all can (if owned1 then [] else realLANListenAddrs ifaces port ip) s2 = (bs2, s3)" by fastforce
  from bind_all_frame [OF 2] s1 assms have f2: "s2 = s1\<lparr>sockets := sockets s1 \<union> set bs1, mc := (mc s1)\<lparr>mc_listeners := mc_listeners (mc s1) @ bs1\<rparr>\<rparr>"
    "set bs1 \<subseteq> {localhostAddr port}" "distinct bs1" "set bs1 \<inter> sockets s1 = {}" by auto
  from bind_all_frame [OF 3] f2 s1 assms have f3: "s3 = s2\<lparr>sockets := sockets s2 \<union> set bs2, mc := (mc s2)\<lparr>mc_listeners := mc_listeners (mc s2) @ bs2\<rparr>\<rparr>"
    "set bs2 \<subseteq> set (realLANListenAddrs ifaces port ip)" "distinct bs2" "set bs2 \<inter> sockets s2 = {}" by (auto split: if_splits)
  have e: "Serve_start can no_address owned1 owned2 ifaces port ip s =
      (startLANSetupWatch owned2 (set bs2) s3)\<lparr>serve_at := (if ok then SRead else if no_address then SWait 0 else SNone)\<rparr>"
    by (simp only: Serve_start_def startAuxListeners_def 1 2 3 Let_def prod.case)
  show ?thesis
  proof (rule that [where ok = ok and bs = "bs1 @ bs2" and watch = "\<not> owned2" and bound = "set bs2"])
    show "Serve_start can no_address owned1 owned2 ifaces port ip s =
       s\<lparr>sockets := set (bs1 @ bs2) \<union> (if ok then {listenAddr ip port} else {}),
         mc := (mc s)\<lparr>mc_listeners := mc_listeners (mc s) @ bs1 @ bs2, mc_stopWatch := mc_stopWatch (mc s) \<or> \<not> owned2,
                      mc_watchers := mc_watchers (mc s) + (if \<not> owned2 then 1 else 0)\<rparr>,
         lan_at := (if \<not> owned2 then LanIdle else LanOff), lan_bound := (if \<not> owned2 then set bs2 else lan_bound s),
         serve_at := (if ok then SRead else if no_address then SWait 0 else SNone)\<rparr>"
      unfolding e using assms by (simp add: startLANSetupWatch_def start_watch_def trackWatcher_def f3 f2 s1 Un_commute Un_left_commute)
  qed (use f2 f3 s1 in auto)
qed

lemma mset_set_remove: "finite S \<Longrightarrow> a \<in> S \<Longrightarrow> M + {#a#} = mset_set S \<Longrightarrow> M = mset_set (S - {a})"
  by (metis add_mset_add_single add_mset_remove_trivial mset_set.remove finite_Diff)

lemma claims_disjoint: "M + N = mset_set S \<Longrightarrow> a \<in># N \<Longrightarrow> a \<notin># M"
proof
  assume "M + N = mset_set S" "a \<in># N" "a \<in># M"
  then have "count (mset_set S) a \<ge> 2" by (metis add_le_mono count_greater_eq_one_iff count_union one_add_one)
  then show False by (cases "finite S \<and> a \<in> S") auto
qed

lemma subset_add_mset: "M \<subseteq># N \<Longrightarrow> M \<subseteq># add_mset a N"
  by (metis add_mset_add_single subset_mset.add_increasing2 subset_mset.zero_le)

text \<open>Every step keeps the phases of the goroutines in order and an owner for every socket.\<close>

lemma phases_start: "phases listening_start"
  by (simp add: phases_def listening_start_def closer_defs live_def)

lemma phases_step:
  assumes "lstep port ip s t" and "phases s" and "owned_sockets (listenAddr ip port) s" and "serve_at s = SBegin \<longrightarrow> sockets s = {}"
  shows "phases t"
  using assms
proof (induction rule: lstep.induct)
  case (serve_begin s can no_address owned1 owned2 ifaces)
  then have *: "\<not> mc_closed (mc s)" "sockets s = {}" "lan_at s = LanOff" by (auto simp: phases_def)
  show ?case
    by (rule Serve_start_shape [OF *, of can no_address owned1 owned2 ifaces port ip]) (use serve_begin in \<open>auto simp: phases_def live_def\<close>)
qed (auto simp: phases_def live_def closer_defs net_Listen_True startHotspotWatch_def lan_add_lock_def lan_add_write_def slice_write_def hot_add_def Close_lock_def
    split: if_splits intro: subset_add_mset)

lemma owned_listen:
  "net_Listen can a s = (True, s') \<Longrightarrow> finite (sockets s) \<Longrightarrow> M = mset_set (sockets s) \<Longrightarrow>
   finite (sockets s') \<and> add_mset a M = mset_set (sockets s')"
  by (auto simp: net_Listen_True)

lemma mset_set_Diff_listed:
  assumes "finite S" and "mset L + R = mset_set S"
  shows "R = mset_set (S - set L)"
proof (rule multiset_eqI)
  fix x
  have c: "count (mset L) x + count R x = count (mset_set S) x" using assms(2) by (metis count_union)
  show "count R x = count (mset_set (S - set L)) x"
  proof (cases "x \<in> set L")
    case True
    then have "x \<in># mset L" by simp
    then have "x \<notin># R" using claims_disjoint [of R "mset L" S x] assms(2) by (simp add: add.commute)
    with True assms(1) show ?thesis by (simp add: not_in_iff)
  next
    case False
    then have "count (mset L) x = 0" by (simp add: not_in_iff [symmetric])
    with c False assms(1) show ?thesis by (cases "x \<in> S") auto
  qed
qed

text \<open>What the slice names and what is lost, taken together, only grows by the listener appended.\<close>

lemma slice_total:
  "mset old \<subseteq># lost s + mset (mc_listeners (mc s)) \<Longrightarrow>
   lost (slice_write old a s) + mset (mc_listeners (mc (slice_write old a s))) = lost s + mset (mc_listeners (mc s)) + {#a#}"
  by (simp add: slice_write_def)

lemma slice_same:
  "sockets (slice_write old a s) = sockets s" "lan_at (slice_write old a s) = lan_at s" "hot_at (slice_write old a s) = hot_at s"
  "serve_at (slice_write old a s) = serve_at s"
  by (simp_all add: slice_write_def)

lemma owned_start: "owned_sockets h listening_start"
  by (simp add: owned_sockets_def claims_def listening_start_def closer_defs hot_held_def)

lemma owned_step:
  assumes "lstep port ip s t" and "phases s" and "owned_sockets (listenAddr ip port) s" and "serve_at s = SBegin \<longrightarrow> sockets s = {}"
  shows "owned_sockets (listenAddr ip port) t"
  using assms
proof (induction rule: lstep.induct)
  case (serve_begin s can no_address owned1 owned2 ifaces)
  then have *: "\<not> mc_closed (mc s)" "sockets s = {}" "lan_at s = LanOff" by (auto simp: phases_def)
  show ?case
  proof (rule Serve_start_shape [OF *, of can no_address owned1 owned2 ifaces port ip])
    fix ok bs watch bound
    assume t: "Serve_start can no_address owned1 owned2 ifaces port ip s =
       s\<lparr>sockets := set bs \<union> (if ok then {listenAddr ip port} else {}),
         mc := (mc s)\<lparr>mc_listeners := mc_listeners (mc s) @ bs, mc_stopWatch := mc_stopWatch (mc s) \<or> watch,
                      mc_watchers := mc_watchers (mc s) + (if watch then 1 else 0)\<rparr>,
         lan_at := (if watch then LanIdle else LanOff), lan_bound := (if watch then bound else lan_bound s),
         serve_at := (if ok then SRead else if no_address then SWait 0 else SNone)\<rparr>"
      and d: "distinct bs" "ok \<Longrightarrow> listenAddr ip port \<notin> set bs"
    from serve_begin * have e: "mc_listeners (mc s) = []" "lost s = {#}" "hot_held (listenAddr ip port) (hot_at s) = {#}"
      by (auto simp: owned_sockets_def claims_def)
    show ?thesis unfolding t using d e by (auto simp: owned_sockets_def claims_def mset_set_set)
  qed
next
  case (serve_write s old)
  then have "mset old \<subseteq># lost s + mset (mc_listeners (mc s))" by (simp add: phases_def)
  from slice_total [OF this, of "listenAddr ip port"] serve_write show ?case
    by (simp add: owned_sockets_def claims_def slice_same ac_simps)
next
  case (lan_added s a as old)
  then have "mset old \<subseteq># lost s + mset (mc_listeners (mc s))" by (simp add: phases_def)
  from slice_total [OF this, of a] lan_added show ?case
    by (simp add: owned_sockets_def claims_def lan_add_write_def slice_same ac_simps) (metis add.assoc add.commute add_mset_add_single)
next
  case (lan_adding s a as)
  let ?M = "mset (mc_listeners (mc s)) + hot_held (listenAddr ip port) (hot_at s) + serve_held (listenAddr ip port) (serve_at s) + lost s"
  from lan_adding have M: "finite (sockets s)" "?M + {#a#} = mset_set (sockets s)" by (simp_all add: owned_sockets_def claims_def)
  then have "a \<in> sockets s" by (metis elem_mset_set union_iff union_single_eq_member)
  from mset_set_remove [OF M(1) this M(2)] M show ?case
    by (auto simp: lan_add_lock_def lan_add_write_def slice_write_def mc_add_def watcher_done_def owned_sockets_def claims_def lan_adding)
next
  case (hot_added s)
  let ?h = "listenAddr ip port"
  let ?M = "mset (mc_listeners (mc s)) + lan_held (lan_at s) + serve_held ?h (serve_at s) + lost s"
  from hot_added have M: "finite (sockets s)" "?M + {#?h#} = mset_set (sockets s)" by (simp_all add: owned_sockets_def claims_def hot_held_def)
  then have "?h \<in> sockets s" by (metis elem_mset_set union_iff union_single_eq_member)
  from mset_set_remove [OF M(1) this M(2)] M show ?case
    by (auto simp: hot_add_def mc_add_def watcher_done_def owned_sockets_def claims_def hot_held_def)
next
  case (close_lock s)
  then have "finite (sockets s)" "mset (mc_listeners (mc s)) + (lan_held (lan_at s) + hot_held (listenAddr ip port) (hot_at s) + lost s) = mset_set (sockets s)"
    by (simp_all add: owned_sockets_def claims_def add.assoc)
  from mset_set_Diff_listed [OF this] this(1) close_lock show ?case
    by (simp add: Close_lock_def mc_Close_def owned_sockets_def claims_def)
qed (auto simp: owned_sockets_def claims_def hot_held_def closer_defs net_Listen_True startHotspotWatch_def phases_def split: if_splits)

section \<open>What is open\<close>

definition private_address :: "string \<Rightarrow> string \<Rightarrow> bool" where
  "private_address port x \<longleftrightarrow> (\<exists>a b c d. IsPrivate a b \<and> x = ip_String a b c d @ CHR '':'' # port)"

definition expected_address :: "string \<Rightarrow> string \<Rightarrow> string \<Rightarrow> bool" where
  "expected_address port ip x \<longleftrightarrow> x = listenAddr ip port \<or> x = localhostAddr port \<or> private_address port x"

lemma lan_address_private: "x \<in> set (lan_address port ip a) \<Longrightarrow> private_address port x"
  by (cases a) (auto simp: private_address_def split: if_splits)

lemma realLANListenAddrs_private: "x \<in> set (realLANListenAddrs ifaces port ip) \<Longrightarrow> private_address port x"
  by (auto simp: realLANListenAddrs_def dest!: lan_address_private split: option.splits if_splits)

fun lan_todo :: "lan_pc \<Rightarrow> string set" where
  "lan_todo (LanBind as) = set as"
| "lan_todo (LanAppend a as old) = set as"
| "lan_todo (LanHold a as) = set as"
| "lan_todo _ = {}"

definition local_only :: "string \<Rightarrow> string \<Rightarrow> listening \<Rightarrow> bool" where
  "local_only port ip s \<longleftrightarrow> (\<forall>x \<in> sockets s. expected_address port ip x) \<and> (\<forall>x \<in> lan_todo (lan_at s). private_address port x)"

lemma local_only_step:
  assumes "lstep port ip s t" and "phases s" and "local_only port ip s" and "serve_at s = SBegin \<longrightarrow> sockets s = {}"
  shows "local_only port ip t"
  using assms
proof (induction rule: lstep.induct)
  case (serve_begin s can no_address owned1 owned2 ifaces)
  then have *: "\<not> mc_closed (mc s)" "sockets s = {}" "lan_at s = LanOff" by (auto simp: phases_def)
  show ?case
    by (rule Serve_start_shape [OF *, of can no_address owned1 owned2 ifaces port ip])
      (auto simp: local_only_def expected_address_def dest: realLANListenAddrs_private)
qed (auto simp: local_only_def expected_address_def closer_defs net_Listen_True startHotspotWatch_def lan_add_lock_def lan_add_write_def slice_write_def hot_add_def Close_lock_def
    split: if_splits dest: realLANListenAddrs_private)

lemma begin_step: "lstep port ip s t \<Longrightarrow> phases s \<Longrightarrow> serve_at t \<noteq> SBegin"
  by (induction rule: lstep.induct)
    (auto simp: phases_def closer_defs net_Listen_True startHotspotWatch_def lan_add_lock_def lan_add_write_def slice_write_def hot_add_def Close_lock_def Serve_start_def
      split: if_splits prod.splits)

lemma undisturbed_step:
  assumes "lstep port ip s t" and "phases s" and "undisturbed s" and "serve_at s = SBegin \<longrightarrow> sockets s = {}"
  shows "undisturbed t"
  using assms
proof (induction rule: lstep.induct)
  case (serve_begin s can no_address owned1 owned2 ifaces)
  then have *: "\<not> mc_closed (mc s)" "sockets s = {}" "lan_at s = LanOff" by (auto simp: phases_def)
  show ?case
    by (rule Serve_start_shape [OF *, of can no_address owned1 owned2 ifaces port ip]) (use serve_begin in \<open>auto simp: undisturbed_def\<close>)
qed (auto simp: undisturbed_def phases_def closer_defs net_Listen_True startHotspotWatch_def lan_add_lock_def lan_add_write_def slice_write_def
    hot_add_def Close_lock_def split: if_splits)

lemma listening_invariant:
  "listening_run port ip s \<Longrightarrow>
   phases s \<and> undisturbed s \<and> owned_sockets (listenAddr ip port) s \<and> local_only port ip s \<and> (serve_at s = SBegin \<longrightarrow> sockets s = {})"
proof (induction rule: rtranclp_induct)
  case base
  show ?case using phases_start owned_start by (auto simp: local_only_def undisturbed_def listening_start_def)
next
  case (step s t)
  then have inv: "phases s" "undisturbed s" "owned_sockets (listenAddr ip port) s" "local_only port ip s" "serve_at s = SBegin \<longrightarrow> sockets s = {}"
    by blast+
  show ?case
    using phases_step [OF step(2) inv(1,3,5)] undisturbed_step [OF step(2) inv(1,2,5)] owned_step [OF step(2) inv(1,3,5)]
      local_only_step [OF step(2) inv(1,4,5)] begin_step [OF step(2) inv(1)] by simp
qed

text \<open>
  C26. What stays open when the set-up server is closed: once \<^verbatim>\<open>Close\<close> has returned, under every interleaving
  with the two watchers, no watcher runs and the sockets still open are exactly the listeners that the closer no longer knew,
  because the unlocked append of \<^verbatim>\<open>Serve\<close> and the locked append of the watcher of the local network overwrote each other,
  in either direction. When these two appends did not overlap, everything is closed. At every moment every open socket is
  the hotspot's, the loopback's or one of a private address.
\<close>

theorem close_closes_what_it_knows:
  assumes "listening_run port ip s"
  shows "(close_at s = Returned \<longrightarrow> live s = 0 \<and> sockets s = set_mset (lost s) \<and> (\<not> overlap s \<longrightarrow> sockets s = {})) \<and>
    (\<forall>x \<in> sockets s. expected_address port ip x)"
proof -
  note inv = listening_invariant [OF assms]
  then have "sockets s = set_mset (lost s) \<and> live s = 0" if "close_at s = Returned"
    using that
    by (cases "lan_at s") (auto simp: phases_def owned_sockets_def claims_def live_def hot_held_def split: if_splits)
  moreover have "lost s = {#}" if "\<not> overlap s" using inv that by (simp add: undisturbed_def)
  ultimately show ?thesis using inv by (auto simp: local_only_def)
qed

section \<open>Closing ends\<close>

lemma run_step: "(lstep port ip)\<^sup>*\<^sup>* s t \<Longrightarrow> lstep port ip t u \<Longrightarrow> (lstep port ip)\<^sup>*\<^sup>* s u"
  by (rule rtranclp.rtrancl_into_rtrancl)

lemma lan_drains: "lan_at s = LanBind as \<Longrightarrow> (lstep port ip)\<^sup>*\<^sup>* s (s\<lparr>lan_at := LanIdle\<rparr>)"
proof (induction as arbitrary: s)
  case Nil
  then show ?case using lstep.lan_again by blast
next
  case (Cons a as)
  from lstep.lan_skip [OF Cons.prems] have "lstep port ip s (s\<lparr>lan_at := LanBind as\<rparr>)" .
  moreover have "(lstep port ip)\<^sup>*\<^sup>* (s\<lparr>lan_at := LanBind as\<rparr>) (s\<lparr>lan_at := LanBind as\<rparr>\<lparr>lan_at := LanIdle\<rparr>)"
    by (rule Cons.IH) simp
  ultimately show ?case by simp
qed

lemma lan_stops:
  assumes "mc_stopped (mc s)" and "mc_closed (mc s)" and "\<not> lan_locked (lan_at s)"
  shows "\<exists>t. (lstep port ip)\<^sup>*\<^sup>* s t \<and> lan_at t \<in> {LanOff, LanDone} \<and> hot_at t = hot_at s \<and> close_at t = close_at s \<and>
    mc_stopped (mc t) \<and> mc_closed (mc t)"
proof -
  have idle: "\<exists>t. (lstep port ip)\<^sup>*\<^sup>* u t \<and> lan_at t \<in> {LanOff, LanDone} \<and> hot_at t = hot_at u \<and> close_at t = close_at u \<and>
      mc_stopped (mc t) \<and> mc_closed (mc t)" if "lan_at u = LanIdle" "mc_stopped (mc u)" "mc_closed (mc u)" for u
    using lstep.lan_stop [OF that(1,2), of port ip] that(2,3)
    by (intro exI [of _ "u\<lparr>mc := watcher_done (mc u), lan_at := LanDone\<rparr>"]) (auto simp: watcher_done_def)
  show ?thesis
  proof (cases "lan_at s")
    case (LanBind as)
    from idle [of "s\<lparr>lan_at := LanIdle\<rparr>"] assms obtain t where t: "(lstep port ip)\<^sup>*\<^sup>* (s\<lparr>lan_at := LanIdle\<rparr>) t" "lan_at t \<in> {LanOff, LanDone}"
      "hot_at t = hot_at s" "close_at t = close_at s" "mc_stopped (mc t)" "mc_closed (mc t)" by auto
    with lan_drains [OF LanBind, of port ip] show ?thesis by (meson rtranclp_trans)
  next
    case (LanHold a as)
    from lstep.lan_adding [OF this, of port ip] show ?thesis
      by (intro exI [of _ "lan_add_lock a as s"]) (use assms in \<open>auto simp: lan_add_lock_def lan_add_write_def slice_write_def mc_add_def watcher_done_def\<close>)
  qed (use assms idle in auto)
qed

lemma hot_stops:
  assumes "mc_stopped (mc s)" and "mc_closed (mc s)" and "\<not> lan_locked (lan_at s)"
  shows "\<exists>t. (lstep port ip)\<^sup>*\<^sup>* s t \<and> hot_at t \<in> {HotOff, HotDone} \<and> lan_at t = lan_at s \<and> close_at t = close_at s"
proof (cases "hot_at s")
  case HotIdle
  from lstep.hot_stop [OF this assms(1), of port ip] show ?thesis
    by (intro exI [of _ "s\<lparr>mc := watcher_done (mc s), hot_at := HotDone\<rparr>"]) auto
next
  case HotHold
  from lstep.hot_added [OF this assms(3), of port ip] assms show ?thesis
    by (intro exI [of _ "hot_add (listenAddr ip port) s"]) (auto simp: hot_add_def mc_add_def)
qed auto

text \<open>
  \<^verbatim>\<open>Close\<close> cannot get stuck: wherever the watchers are when it has taken the lock, they can run to their
  end, after which it returns; in particular it never waits for a watcher that waits for it.
\<close>

lemma close_can_return:
  assumes "listening_run port ip s" and "close_at s = Waiting"
  shows "\<exists>t. (lstep port ip)\<^sup>*\<^sup>* s t \<and> close_at t = Returned"
proof -
  have inv: "phases s" using listening_invariant [OF assms(1)] by blast
  show ?thesis
  proof (cases "live s = 0")
    case True
    with inv assms(2) have "mc_watchers (mc s) = 0" by (simp add: phases_def)
    from lstep.close_return [OF assms(2) this, of port ip] show ?thesis by (intro exI [of _ "s\<lparr>close_at := Returned\<rparr>"]) auto
  next
    case False
    with inv assms(2) have c: "mc_stopped (mc s)" "mc_closed (mc s)" "\<not> lan_locked (lan_at s)" by (auto simp: phases_def)
    from lan_stops [OF c, of port ip] obtain t where t: "(lstep port ip)\<^sup>*\<^sup>* s t" "lan_at t \<in> {LanOff, LanDone}" "close_at t = Waiting"
      "mc_stopped (mc t)" "mc_closed (mc t)" using assms(2) by auto
    have "\<not> lan_locked (lan_at t)" using t(2) by auto
    from hot_stops [OF t(4,5) this, of port ip] obtain u where u: "(lstep port ip)\<^sup>*\<^sup>* t u" "hot_at u \<in> {HotOff, HotDone}" "lan_at u = lan_at t"
      "close_at u = Waiting" using t(3) by auto
    from assms(1) t(1) u(1) have "listening_run port ip u" by (meson rtranclp_trans)
    from listening_invariant [OF this] t(2) u have w: "mc_watchers (mc u) = 0" by (auto simp: phases_def live_def)
    from lstep.close_return [OF u(4) w, of port ip] t(1) u(1) have "(lstep port ip)\<^sup>*\<^sup>* s (u\<lparr>close_at := Returned\<rparr>)"
      by (meson rtranclp_trans run_step)
    then show ?thesis by (intro exI [of _ "u\<lparr>close_at := Returned\<rparr>"]) simp
  qed
qed

section \<open>A run in which a listener is forgotten\<close>

abbreviation sample_hot :: string where "sample_hot \<equiv> ''10.42.0.1:3500''"
abbreviation sample_loop :: string where "sample_loop \<equiv> ''127.0.0.1:3500''"
abbreviation sample_lan :: string where "sample_lan \<equiv> ''192.168.1.5:3500''"

definition sample_nics :: "lan_nic list option" where
  "sample_nics = Some [\<lparr>nic_name = ''eth0'', nic_up = True, nic_loopback = False, nic_addrs = Some [IPv4 192 168 1 5]\<rparr>]"

lemma sample_addrs: "realLANListenAddrs sample_nics ''3500'' ''10.42.0.1'' = [sample_lan]"
  by (simp add: realLANListenAddrs_def sample_nics_def skipLANInterface_def HasPrefix_def IsPrivate_def ip_String_def Itoa_def digits_of.simps hex_digit_def
      char_of_def bit_Suc_0_iff)

definition serving :: listening where
  "serving = Serve_start (\<lambda>_. True) False False False None ''3500'' ''10.42.0.1'' listening_start"

lemma serving_state:
  "serving = \<lparr>mc = \<lparr>mc_listeners = [sample_loop], mc_closed = False, mc_stopWatch = True, mc_stopped = False, mc_watchers = 1\<rparr>,
     sockets = {sample_loop, sample_hot}, serve_at = SRead, lan_at = LanIdle, lan_bound = {}, hot_at = HotOff, close_at = NotCalled, lost = {#}, overlap = False\<rparr>"
  by (simp add: serving_def Serve_start_def startAuxListeners_def startLANSetupWatch_def listening_start_def closer_defs net_Listen_def
      listenAddr_def localhostAddr_def realLANListenAddrs_def)

lemma serving_run: "listening_run ''3500'' ''10.42.0.1'' serving"
  unfolding serving_def by (rule r_into_rtranclp, rule lstep.serve_begin) (simp add: listening_start_def)

lemma serving_appended:
  "listening_run ''3500'' ''10.42.0.1'' (serving\<lparr>serve_at := SReturned, mc := (mc serving)\<lparr>mc_listeners := [sample_loop, sample_hot]\<rparr>\<rparr>)"
proof -
  have "listening_run ''3500'' ''10.42.0.1'' (serving\<lparr>serve_at := SWrite [sample_loop]\<rparr>)"
    using run_step [OF serving_run lstep.serve_read] by (simp add: serving_state)
  from run_step [OF this lstep.serve_write [of _ "[sample_loop]"]] show ?thesis
    by (simp add: serving_state slice_write_def listenAddr_def)
qed

lemmas race_defs = serving_state lan_add_lock_def lan_add_write_def slice_write_def Close_lock_def mc_Close_def watcher_done_def

text \<open>\<^verbatim>\<open>Close\<close> runs to its end from a state in which \<^verbatim>\<open>Serve\<close> has returned and the watcher is between two addresses.\<close>

lemma close_now:
  assumes "listening_run port ip s" and "serve_at s = SReturned" and "lan_at s = LanBind []" and "hot_at s = HotOff"
    and "mc_watchers (mc s) = 1" and "mc_stopWatch (mc s)"
  shows "\<exists>t. listening_run port ip t \<and> close_at t = Returned \<and> sockets t = sockets s - set (mc_listeners (mc s)) \<and> overlap t = overlap s"
proof -
  let ?t1 = "Close_lock s"
  let ?t2 = "?t1\<lparr>lan_at := LanIdle\<rparr>"
  let ?t3 = "?t2\<lparr>mc := watcher_done (mc ?t2), lan_at := LanDone\<rparr>"
  have "listening_run port ip ?t1" using run_step [OF assms(1) lstep.close_lock [OF assms(2)]] assms(3) by simp
  from run_step [OF this lstep.lan_again] have "listening_run port ip ?t2" using assms(3) by (simp add: Close_lock_def)
  from run_step [OF this lstep.lan_stop] have "listening_run port ip ?t3" using assms(6) by (simp add: Close_lock_def mc_Close_def)
  from run_step [OF this lstep.close_return] have "listening_run port ip (?t3\<lparr>close_at := Returned\<rparr>)"
    using assms(5) by (simp add: race_defs)
  then show ?thesis by (intro exI [of _ "?t3\<lparr>close_at := Returned\<rparr>"]) (simp add: Close_lock_def)
qed

text \<open>The watcher registers the address of the local network between the two accesses of \<^verbatim>\<open>Serve\<close> to the slice.\<close>

lemma race_leaks_listener:
  "\<exists>s. listening_run ''3500'' ''10.42.0.1'' s \<and> close_at s = Returned \<and> sockets s = {sample_lan}"
proof -
  let ?R = "listening_run ''3500'' ''10.42.0.1''"
  define s1 where "s1 = serving\<lparr>lan_at := LanBind [sample_lan]\<rparr>"
  define s2 where "s2 = s1\<lparr>serve_at := SWrite [sample_loop]\<rparr>"
  define s3 where "s3 = s2\<lparr>sockets := insert sample_lan (sockets s2)\<rparr>\<lparr>lan_at := LanHold sample_lan []\<rparr>"
  define s4 where "s4 = lan_add_lock sample_lan [] s3"
  define s5 where "s5 = lan_add_write sample_lan [] [sample_loop] s4"
  define s6 where "s6 = (slice_write [sample_loop] (listenAddr ''10.42.0.1'' ''3500'') s5)\<lparr>serve_at := SReturned\<rparr>"
  note d = s1_def s2_def s3_def s4_def s5_def s6_def race_defs
  have "?R s1" using run_step [OF serving_run lstep.lan_tick [where ifaces = sample_nics]] by (simp add: s1_def sample_addrs serving_state)
  from run_step [OF this lstep.serve_read] have "?R s2" by (simp add: s2_def s1_def serving_state)
  from run_step [OF this lstep.lan_listen [of s2 sample_lan "[]" "\<lambda>_. True"]] have "?R s3" by (simp add: d net_Listen_def)
  from run_step [OF this lstep.lan_adding [of s3 sample_lan "[]"]] have "?R s4" by (simp add: d)
  from run_step [OF this lstep.lan_added [of s4 sample_lan "[]" "[sample_loop]"]] have "?R s5" by (simp add: d)
  from run_step [OF this lstep.serve_write [of s5 "[sample_loop]"]] have "?R s6" by (simp add: d)
  from close_now [OF this] obtain t where t: "?R t" "close_at t = Returned" "sockets t = sockets s6 - set (mc_listeners (mc s6))"
    by (auto simp: d)
  have "sockets s6 - set (mc_listeners (mc s6)) = {sample_lan}" by (auto simp: d listenAddr_def)
  with t show ?thesis by auto
qed

text \<open>The other direction: \<^verbatim>\<open>Serve\<close> appends while the watcher, which holds the lock, is about to write the slice; the hotspot stays open.\<close>

lemma race_leaks_own_listener:
  "\<exists>s. listening_run ''3500'' ''10.42.0.1'' s \<and> close_at s = Returned \<and> sockets s = {sample_hot}"
proof -
  let ?R = "listening_run ''3500'' ''10.42.0.1''"
  define s1 where "s1 = serving\<lparr>lan_at := LanBind [sample_lan]\<rparr>"
  define s2 where "s2 = s1\<lparr>sockets := insert sample_lan (sockets s1)\<rparr>\<lparr>lan_at := LanHold sample_lan []\<rparr>"
  define s3 where "s3 = lan_add_lock sample_lan [] s2"
  define s4 where "s4 = s3\<lparr>serve_at := SWrite [sample_loop], overlap := True\<rparr>"
  define s5 where "s5 = (slice_write [sample_loop] (listenAddr ''10.42.0.1'' ''3500'') s4)\<lparr>serve_at := SReturned\<rparr>"
  define s6 where "s6 = lan_add_write sample_lan [] [sample_loop] s5"
  note d = s1_def s2_def s3_def s4_def s5_def s6_def race_defs
  have "?R s1" using run_step [OF serving_run lstep.lan_tick [where ifaces = sample_nics]] by (simp add: s1_def sample_addrs serving_state)
  from run_step [OF this lstep.lan_listen [of s1 sample_lan "[]" "\<lambda>_. True"]] have "?R s2" by (simp add: d net_Listen_def)
  from run_step [OF this lstep.lan_adding [of s2 sample_lan "[]"]] have "?R s3" by (simp add: d)
  from run_step [OF this lstep.serve_read [of s3]] have "?R s4" by (simp add: d)
  from run_step [OF this lstep.serve_write [of s4 "[sample_loop]"]] have "?R s5" by (simp add: d)
  from run_step [OF this lstep.lan_added [of s5 sample_lan "[]" "[sample_loop]"]] have "?R s6" by (simp add: d)
  from close_now [OF this] obtain t where t: "?R t" "close_at t = Returned" "sockets t = sockets s6 - set (mc_listeners (mc s6))"
    by (auto simp: d)
  have "sockets s6 - set (mc_listeners (mc s6)) = {sample_hot}" by (auto simp: d listenAddr_def)
  with t show ?thesis by auto
qed

theorem close_closes_what_it_knows_witness:
  "\<exists>t. listening_run ''3500'' ''10.42.0.1'' t \<and> close_at t = Returned \<and> sockets t = {}"
proof -
  let ?s = "serving\<lparr>serve_at := SReturned, mc := (mc serving)\<lparr>mc_listeners := [sample_loop, sample_hot]\<rparr>, lan_at := LanBind []\<rparr>"
  have "listening_run ''3500'' ''10.42.0.1'' ?s"
    using run_step [OF serving_appended lstep.lan_tick [where ifaces = None]] by (simp add: serving_state realLANListenAddrs_def)
  from close_now [OF this] obtain t where t: "listening_run ''3500'' ''10.42.0.1'' t" "close_at t = Returned" "\<not> overlap t"
    by (auto simp: serving_state)
  with close_closes_what_it_knows [OF t(1)] show ?thesis by blast
qed

text \<open>The server is closed while its watcher is about to bind an address.\<close>

definition closing_early :: listening where
  "closing_early = Close_lock (serving\<lparr>serve_at := SReturned,
     mc := (mc serving)\<lparr>mc_listeners := [sample_loop, sample_hot]\<rparr>, lan_at := LanBind [sample_lan]\<rparr>)"

theorem close_can_return_witness:
  "\<exists>t. (lstep ''3500'' ''10.42.0.1'')\<^sup>*\<^sup>* closing_early t \<and> close_at t = Returned"
proof -
  let ?R = "listening_run ''3500'' ''10.42.0.1''"
  from run_step [OF serving_appended lstep.lan_tick [where ifaces = sample_nics]]
  have "?R (serving\<lparr>serve_at := SReturned, mc := (mc serving)\<lparr>mc_listeners := [sample_loop, sample_hot]\<rparr>, lan_at := LanBind [sample_lan]\<rparr>)"
    by (simp add: serving_state sample_addrs)
  from run_step [OF this lstep.close_lock] have "?R closing_early" by (simp add: closing_early_def serving_state)
  then show ?thesis by (rule close_can_return) (simp add: closing_early_def Close_lock_def)
qed

end
