(* ===== verification/SetupDaemon.thy ===== *)
theory SetupDaemon
  imports SetupListeners "HOL-Library.List_Lexorder"
begin

text \<open>
  The set-up daemon (\<^verbatim>\<open>wap/cmd/main.go\<close>): the check of the installed version, which decides whether the host is
  asked to restart, and the process itself, as a step relation over its main goroutine, the goroutine of the HTTP
  server and the one of the mDNS server. The states of the HTTP server's own goroutines are the theory
  \<^verbatim>\<open>SetupListeners\<close>.
\<close>

section \<open>Versions\<close>

fun version_loop :: "int \<Rightarrow> string list \<Rightarrow> int option" where
  "version_loop versionInt [] = Some versionInt"
| "version_loop versionInt (w # ws) =
     (case Atoi w of None \<Rightarrow> None | Some num \<Rightarrow> version_loop (wrap64 (versionInt * 1000 + num)) ws)"

definition versionStringToInt :: "string \<Rightarrow> int option" where
  "versionStringToInt version = version_loop 0 (split_char (CHR ''.'') version)"

text \<open>The number of a version whose components are below 1000.\<close>

fun thousands :: "int list \<Rightarrow> int" where
  "thousands [] = 0"
| "thousands (x # xs) = x * 1000 ^ length xs + thousands xs"

definition small :: "int list \<Rightarrow> bool" where
  "small xs \<longleftrightarrow> (\<forall>x \<in> set xs. 0 \<le> x \<and> x < 1000)"

lemma small_simps [simp]: "small []" "small (x # xs) \<longleftrightarrow> 0 \<le> x \<and> x < 1000 \<and> small xs"
  by (auto simp: small_def)

lemma thousands_bounds: "small xs \<Longrightarrow> 0 \<le> thousands xs \<and> thousands xs < 1000 ^ length xs"
proof (induction xs)
  case (Cons x xs)
  then have "x * 1000 ^ length xs \<le> 999 * 1000 ^ length xs" "0 \<le> x * 1000 ^ length xs" by (auto intro: mult_right_mono)
  moreover have "0 \<le> thousands xs" "thousands xs < 1000 ^ length xs" using Cons by auto
  moreover have "(1000::int) ^ length (x # xs) = 1000 * 1000 ^ length xs" by simp
  ultimately show ?case unfolding thousands.simps by linarith
qed simp

lemma thousands_less:
  "length xs = length ys \<Longrightarrow> small xs \<Longrightarrow> small ys \<Longrightarrow> thousands xs < thousands ys \<longleftrightarrow> xs < ys"
proof (induction xs ys rule: list_induct2)
  case (Cons x xs y ys)
  let ?k = "1000 ^ length ys :: int"
  have b: "0 \<le> thousands xs" "thousands xs < ?k" "0 \<le> thousands ys" "thousands ys < ?k"
    using Cons thousands_bounds [of xs] thousands_bounds [of ys] by auto
  show ?case
  proof (cases x y rule: linorder_cases)
    case less
    then have "(x + 1) * ?k \<le> y * ?k" by (intro mult_right_mono) auto
    with b less Cons.hyps show ?thesis by (simp add: algebra_simps)
  next
    case greater
    then have "(y + 1) * ?k \<le> x * ?k" by (intro mult_right_mono) auto
    with b greater Cons.hyps show ?thesis by (simp add: algebra_simps)
  next
    case equal
    with Cons show ?thesis by simp
  qed
qed simp

lemma wrap64_small: "- (2 ^ 63) \<le> i \<Longrightarrow> i < 2 ^ 63 \<Longrightarrow> wrap64 i = i"
  by (simp add: wrap64_def)

lemma version_loop_small:
  "map Atoi ws = map Some xs \<Longrightarrow> small xs \<Longrightarrow> 0 \<le> acc \<Longrightarrow> acc < 1000 ^ k \<Longrightarrow> k + length xs \<le> 6 \<Longrightarrow>
   version_loop acc ws = Some (acc * 1000 ^ length xs + thousands xs)"
proof (induction xs arbitrary: acc k ws)
  case (Cons x xs)
  then obtain w ws' where ws: "ws = w # ws'" "Atoi w = Some x" "map Atoi ws' = map Some xs" by (cases ws) auto
  have "(acc + 1) * 1000 \<le> 1000 ^ k * 1000" using Cons.prems by (intro mult_right_mono) auto
  then have lt: "acc * 1000 + x < 1000 ^ Suc k" and ge: "0 \<le> acc * 1000 + x" using Cons.prems by auto
  have "(1000::int) ^ Suc k \<le> 1000 ^ 6" using Cons.prems by (intro power_increasing) auto
  with lt ge have "wrap64 (acc * 1000 + x) = acc * 1000 + x" by (intro wrap64_small) auto
  moreover have "version_loop (acc * 1000 + x) ws' = Some ((acc * 1000 + x) * 1000 ^ length xs + thousands xs)"
    using Cons.prems lt ge ws by (intro Cons.IH [where k = "Suc k"]) auto
  ultimately show ?case by (simp add: ws algebra_simps)
qed simp

text \<open>
  Versions are ordered as they are read: of two versions with the same number of components, at most six and
  each below 1000, the number of the first is smaller exactly when its components come first in lexicographic order.
\<close>

lemma version_order:
  assumes "map Atoi (split_char (CHR ''.'') v) = map Some xs" and "map Atoi (split_char (CHR ''.'') u) = map Some ys"
    and "length xs = length ys" and "length ys \<le> 6" and "small xs" and "small ys"
  shows "\<exists>a b. versionStringToInt v = Some a \<and> versionStringToInt u = Some b \<and> (a < b \<longleftrightarrow> xs < ys) \<and> (a = b \<longleftrightarrow> xs = ys)"
proof -
  have "versionStringToInt v = Some (thousands xs)" "versionStringToInt u = Some (thousands ys)"
    unfolding versionStringToInt_def using assms version_loop_small [of _ _ 0 0] by simp_all
  moreover have "thousands xs < thousands ys \<longleftrightarrow> xs < ys" "thousands ys < thousands xs \<longleftrightarrow> ys < xs"
    using assms by (simp_all add: thousands_less)
  then have "thousands xs = thousands ys \<longleftrightarrow> xs = ys" by (metis less_irrefl linorder_neqE)
  ultimately show ?thesis using \<open>thousands xs < thousands ys \<longleftrightarrow> xs < ys\<close> by auto
qed

text \<open>A version with fewer components is smaller, whatever they are.\<close>

lemma shorter_version_is_smaller:
  "versionStringToInt ''2.0'' = Some 2000 \<and> versionStringToInt ''1.0.0'' = Some 1000000"
  by code_simp

theorem version_order_witness:
  "\<exists>a b. versionStringToInt ''1.2'' = Some a \<and> versionStringToInt ''1.10'' = Some b \<and> (a < b \<longleftrightarrow> [1, 2::int] < [1, 10]) \<and>
    (a = b \<longleftrightarrow> [1, 2::int] = [1, 10])"
proof -
  have "map Atoi (split_char (CHR ''.'') ''1.2'') = map Some [1, 2]" by code_simp
  moreover have "map Atoi (split_char (CHR ''.'') ''1.10'') = map Some [1, 10]" by code_simp
  ultimately show ?thesis by (rule version_order) auto
qed

section \<open>Asking the host to restart\<close>

text \<open>
  \<open>time_text\<close> and \<open>text_time\<close> are the JSON form of \<^verbatim>\<open>time.Time\<close> (RFC 3339 with nanoseconds); \<open>uptime_secs\<close> is \<^verbatim>\<open>strconv.ParseFloat\<close>
  truncated to whole seconds. Times are in nanoseconds.
\<close>

record time_format =
  time_text :: "int \<Rightarrow> string"
  text_time :: "string \<Rightarrow> int option"
  uptime_secs :: "string \<Rightarrow> int option"

record VersionInfo =
  vi_Version :: int
  vi_Date :: int

definition zero_time :: int where
  "zero_time = - 62135596800 * second"

fun as_time :: "time_format \<Rightarrow> json \<Rightarrow> int option" where
  "as_time tf (JStr s) = text_time tf s"
| "as_time tf _ = None"

definition decode_version :: "time_format \<Rightarrow> json \<Rightarrow> VersionInfo option" where
  "decode_version tf j =
     Option.bind (get_field as_int ''version'' 0 j) (\<lambda>v.
     Option.bind (get_field (as_time tf) ''date'' zero_time j) (\<lambda>t.
     Some \<lparr>vi_Version = v, vi_Date = t\<rparr>))"

definition version_file :: "time_format \<Rightarrow> VersionInfo \<Rightarrow> fcontent" where
  "version_file tf vi = Json (JObj [(''version'', JNum (vi_Version vi)), (''date'', JStr (time_text tf (vi_Date vi)))])"

definition VERSION_FILE_PATH :: string where
  "VERSION_FILE_PATH = ''/home/go_fula_version.info''"

datatype version_error = BadVersion | WriteVersionFailed | ReadVersionFailed | ParseVersionFailed | UptimeFailed | MarkerFailed

definition GetLastRebootTime :: "'w env \<Rightarrow> time_format \<Rightarrow> 'w device \<Rightarrow> int option \<times> 'w device" where
  "GetLastRebootTime env tf d =
     (case ReadFile ''/proc/uptime'' d of
        Ok f \<Rightarrow>
          (case uptime_secs tf (hd (split_char (CHR '' '') (file_text f))) of
             None \<Rightarrow> (None, d)
           | Some uptimeSeconds \<Rightarrow> (case time_now env d of (now, d1) \<Rightarrow> (Some (now - second * uptimeSeconds), d1)))
      | _ \<Rightarrow> (None, d))"

definition create_marker :: "'w device \<Rightarrow> version_error option \<times> 'w device" where
  "create_marker d = (case WriteFile RESTART_NEEDED_PATH (Text []) d of (ok, d1) \<Rightarrow> (if ok then None else Some MarkerFailed, d1))"

definition remove_marker :: "'w device \<Rightarrow> version_error option \<times> 'w device" where
  "remove_marker d =
     (if FileExists RESTART_NEEDED_PATH d \<and> unwritable d RESTART_NEEDED_PATH then (Some MarkerFailed, d)
      else (None, RemoveFile RESTART_NEEDED_PATH d))"

definition first_version :: "'w env \<Rightarrow> time_format \<Rightarrow> int \<Rightarrow> 'w device \<Rightarrow> version_error option \<times> 'w device" where
  "first_version env tf ota d =
     (case time_now env d of
        (now, d1) \<Rightarrow>
          (case WriteFile VERSION_FILE_PATH (version_file tf \<lparr>vi_Version = ota, vi_Date = now\<rparr>) d1 of
             (False, d2) \<Rightarrow> (Some WriteVersionFailed, d2)
           | (True, d2) \<Rightarrow> create_marker d2))"

text \<open>The file is brought up to date when it holds another version.\<close>

definition update_version :: "'w env \<Rightarrow> time_format \<Rightarrow> int \<Rightarrow> VersionInfo \<Rightarrow> 'w device \<Rightarrow> (version_error, VersionInfo) outcome \<times> 'w device" where
  "update_version env tf ota vi d =
     (if vi_Version vi = ota then (Ok vi, d)
      else (case time_now env d of
              (now, d1) \<Rightarrow>
                (let vi' = \<lparr>vi_Version = ota, vi_Date = now\<rparr> in
                 case WriteFile VERSION_FILE_PATH (version_file tf vi') d1 of
                   (False, d2) \<Rightarrow> (Err WriteVersionFailed, d2)
                 | (True, d2) \<Rightarrow> (Ok vi', d2))))"

definition next_version :: "'w env \<Rightarrow> time_format \<Rightarrow> int \<Rightarrow> int \<Rightarrow> 'w device \<Rightarrow> version_error option \<times> 'w device" where
  "next_version env tf ota restartAfter d =
     (case ReadFile VERSION_FILE_PATH d of
        Ok f \<Rightarrow>
          (case Option.bind (file_json f) (decode_version tf) of
             None \<Rightarrow> (Some ParseVersionFailed, d)
           | Some vi \<Rightarrow>
               (case update_version env tf ota vi d of
                  (Ok vi', d1) \<Rightarrow>
                    (case GetLastRebootTime env tf d1 of
                       (None, d2) \<Rightarrow> (Some UptimeFailed, d2)
                     | (Some restartTime, d2) \<Rightarrow>
                         if restartTime < vi_Date vi' \<and> ota \<le> restartAfter then create_marker d2 else remove_marker d2)
                | (_, d1) \<Rightarrow> (Some WriteVersionFailed, d1)))
      | _ \<Rightarrow> (Some ReadVersionFailed, d))"

definition checkAndSetVersionInfo :: "'w env \<Rightarrow> time_format \<Rightarrow> string \<Rightarrow> string \<Rightarrow> 'w device \<Rightarrow> version_error option \<times> 'w device" where
  "checkAndSetVersionInfo env tf otaVersion restartNeededAfter d =
     (case (versionStringToInt otaVersion, versionStringToInt restartNeededAfter) of
        (Some ota, Some restartAfter) \<Rightarrow>
          if FileExists VERSION_FILE_PATH d then next_version env tf ota restartAfter d else first_version env tf ota d
      | _ \<Rightarrow> (Some BadVersion, d))"

text \<open>What is relied on of \<^verbatim>\<open>time.Time\<close>: a time it printed is read back.\<close>

definition time_format_ok :: "time_format \<Rightarrow> bool" where
  "time_format_ok tf \<longleftrightarrow> (\<forall>t. text_time tf (time_text tf t) = Some t)"

lemma decode_version_file: "time_format_ok tf \<Longrightarrow> in_int64 (vi_Version vi) \<Longrightarrow>
   Option.bind (file_json (version_file tf vi)) (decode_version tf) = Some vi"
  by (simp add: version_file_def decode_version_def time_format_ok_def fold_eq_def lower_char_def)

lemma paths_differ: "VERSION_FILE_PATH \<noteq> RESTART_NEEDED_PATH"
  by (simp add: VERSION_FILE_PATH_def RESTART_NEEDED_PATH_def)

lemma wrap64_range: "in_int64 (wrap64 i)"
  by (simp add: in_int64_def wrap64_def)

lemma versionStringToInt_range: "versionStringToInt v = Some n \<Longrightarrow> in_int64 n"
proof -
  have "version_loop a ws = Some n \<Longrightarrow> in_int64 a \<Longrightarrow> in_int64 n" for a ws
    by (induction a ws rule: version_loop.induct) (auto simp: wrap64_range split: option.splits)
  moreover have "in_int64 0" by (simp add: in_int64_def)
  ultimately show "versionStringToInt v = Some n \<Longrightarrow> in_int64 n" unfolding versionStringToInt_def by blast
qed

lemma first_version_ok:
  "first_version env tf ota d = (None, d1) \<Longrightarrow>
   FileExists RESTART_NEEDED_PATH d1 \<and>
   files d1 VERSION_FILE_PATH = Some (version_file tf \<lparr>vi_Version = ota, vi_Date = fst (time_now env d)\<rparr>)"
  using paths_differ
  by (auto simp: first_version_def create_marker_def WriteFile_def FileExists_def split: prod.splits if_splits)

lemma GetLastRebootTime_files: "GetLastRebootTime env tf d = (r, d1) \<Longrightarrow> files d1 = files d"
  by (auto simp: GetLastRebootTime_def dest!: time_now_local dest: same_localD(1) split: outcome.splits option.splits prod.splits)

lemma marker_kept: "create_marker d = (None, d') \<Longrightarrow> FileExists RESTART_NEEDED_PATH d' \<and> files d' VERSION_FILE_PATH = files d VERSION_FILE_PATH"
  using paths_differ by (auto simp: create_marker_def WriteFile_def FileExists_def split: prod.splits if_splits)

lemma marker_gone: "remove_marker d = (None, d') \<Longrightarrow> \<not> FileExists RESTART_NEEDED_PATH d' \<and> files d' VERSION_FILE_PATH = files d VERSION_FILE_PATH"
  using paths_differ by (auto simp: remove_marker_def RemoveFile_def FileExists_def split: if_splits)

text \<open>The version and the date that the version file of a device records.\<close>

definition recorded_version :: "time_format \<Rightarrow> 'w device \<Rightarrow> VersionInfo option" where
  "recorded_version tf d = Option.bind (files d VERSION_FILE_PATH) (\<lambda>f. Option.bind (file_json f) (decode_version tf))"

text \<open>
  What a start that succeeds does, with the time of the last boot that it computes. A host that has recorded a date of this
  version keeps it; one that recorded another version, or nothing, records the time of this start.
\<close>

lemma GetLastRebootTime_moved:
  "files e ''/proc/uptime'' = files d ''/proc/uptime'' \<Longrightarrow> unreadable e = unreadable d \<Longrightarrow> world e = world d \<Longrightarrow>
   fst (GetLastRebootTime env tf e) = fst (GetLastRebootTime env tf d)"
  by (auto simp: GetLastRebootTime_def ReadFile_def time_now_def split: option.splits outcome.splits prod.splits)

lemma next_version_cases:
  assumes "next_version env tf n m d = (None, d')" and "time_format_ok tf" and "in_int64 n"
  shows "\<exists>vi v0 boot. recorded_version tf d = Some v0 \<and> recorded_version tf d' = Some vi \<and> vi_Version vi = n \<and>
    (vi_Version v0 = n \<longrightarrow> vi = v0 \<and> files d' VERSION_FILE_PATH = files d VERSION_FILE_PATH \<and> fst (GetLastRebootTime env tf d) = Some boot) \<and>
    (vi_Version v0 \<noteq> n \<longrightarrow> vi_Date vi = fst (time_now env d) \<and> fst (GetLastRebootTime env tf (snd (time_now env d))) = Some boot) \<and>
    (FileExists RESTART_NEEDED_PATH d' \<longleftrightarrow> boot < vi_Date vi \<and> n \<le> m)"
proof -
  from assms(1) obtain f v0 vi d1 boot d2 where f: "files d VERSION_FILE_PATH = Some f"
    and v0: "Option.bind (file_json f) (decode_version tf) = Some v0" and u: "update_version env tf n v0 d = (Ok vi, d1)"
    and g: "GetLastRebootTime env tf d1 = (Some boot, d2)"
    and e: "(if boot < vi_Date vi \<and> n \<le> m then create_marker d2 else remove_marker d2) = (None, d')"
    by (auto simp: next_version_def ReadFile_def split: option.splits outcome.splits prod.splits if_splits)
  have e': "files d' VERSION_FILE_PATH = files d1 VERSION_FILE_PATH" "FileExists RESTART_NEEDED_PATH d' \<longleftrightarrow> boot < vi_Date vi \<and> n \<le> m"
    using e marker_kept [of d2 d'] marker_gone [of d2 d'] GetLastRebootTime_files [OF g] by (auto split: if_splits)
  show ?thesis
  proof (cases "vi_Version v0 = n")
    case True
    with u have "vi = v0" "d1 = d" by (auto simp: update_version_def)
    with True e' f v0 g show ?thesis by (intro exI [of _ v0] exI [of _ boot]) (simp add: recorded_version_def)
  next
    case False
    obtain now t where t: "time_now env d = (now, t)" by fastforce
    with u False have w: "vi = \<lparr>vi_Version = n, vi_Date = now\<rparr>" "d1 = t\<lparr>files := (files t)(VERSION_FILE_PATH \<mapsto> version_file tf vi)\<rparr>"
      by (auto simp: update_version_def Let_def WriteFile_def split: prod.splits bool.splits if_splits)
    have "fst (GetLastRebootTime env tf t) = Some boot"
      using g GetLastRebootTime_moved [of d1 t env tf] w(2) by (simp add: VERSION_FILE_PATH_def)
    with False w e' f v0 t decode_version_file [OF assms(2), of vi] assms(3) show ?thesis
      by (intro exI [of _ vi] exI [of _ v0] exI [of _ boot]) (simp add: recorded_version_def)
  qed
qed

lemma version_file_present: "recorded_version tf d = Some vi \<Longrightarrow> FileExists VERSION_FILE_PATH d"
  by (cases "files d VERSION_FILE_PATH") (auto simp: recorded_version_def FileExists_def)

text \<open>
  C29. An update asks for restarts until the host has been restarted, and then no more. Take a start of a version that succeeds:
  afterwards the host has recorded this version, with the date it had recorded for it before or else with the
  time of this start. The marker that makes the host restart is left on a host that had no record; on one that had recorded
  another version it is left exactly when the last boot was before this start and the version is not after
  \<^verbatim>\<open>restartNeededAfter\<close>. Take then any later start of the same version that succeeds and finds that record: it
  keeps the record, and leaves the marker exactly when the last boot, as computed from the clock and the uptime, is before the
  recorded date and the version is not after \<^verbatim>\<open>restartNeededAfter\<close>; in particular it removes the marker on a host that
  has been booted since.
\<close>

theorem no_reboot_loop:
  assumes "time_format_ok tf" and "checkAndSetVersionInfo env tf ota r d = (None, d1)"
    and "files d2 VERSION_FILE_PATH = files d1 VERSION_FILE_PATH" and "checkAndSetVersionInfo env tf ota r d2 = (None, d3)"
  shows "\<exists>n m vi. versionStringToInt ota = Some n \<and> versionStringToInt r = Some m \<and>
    recorded_version tf d1 = Some vi \<and> vi_Version vi = n \<and>
    (case recorded_version tf d of
       Some v0 \<Rightarrow> if vi_Version v0 = n then vi = v0
         else vi_Date vi = fst (time_now env d) \<and>
           (\<exists>boot. fst (GetLastRebootTime env tf (snd (time_now env d))) = Some boot \<and>
              (FileExists RESTART_NEEDED_PATH d1 \<longleftrightarrow> boot < vi_Date vi \<and> n \<le> m))
     | None \<Rightarrow> vi_Date vi = fst (time_now env d) \<and> FileExists RESTART_NEEDED_PATH d1) \<and>
    files d3 VERSION_FILE_PATH = files d1 VERSION_FILE_PATH \<and>
    (\<exists>boot. fst (GetLastRebootTime env tf d2) = Some boot \<and>
       (FileExists RESTART_NEEDED_PATH d3 \<longleftrightarrow> boot < vi_Date vi \<and> n \<le> m))"
proof -
  from assms(2) obtain n m where v: "versionStringToInt ota = Some n" "versionStringToInt r = Some m"
    by (auto simp: checkAndSetVersionInfo_def split: option.splits)
  note n = versionStringToInt_range [OF v(1)]
  have first: "\<exists>vi. recorded_version tf d1 = Some vi \<and> vi_Version vi = n \<and>
    (case recorded_version tf d of
       Some v0 \<Rightarrow> if vi_Version v0 = n then vi = v0
         else vi_Date vi = fst (time_now env d) \<and>
           (\<exists>boot. fst (GetLastRebootTime env tf (snd (time_now env d))) = Some boot \<and>
              (FileExists RESTART_NEEDED_PATH d1 \<longleftrightarrow> boot < vi_Date vi \<and> n \<le> m))
     | None \<Rightarrow> vi_Date vi = fst (time_now env d) \<and> FileExists RESTART_NEEDED_PATH d1)"
  proof (cases "FileExists VERSION_FILE_PATH d")
    case True
    with assms(2) v have "next_version env tf n m d = (None, d1)" by (simp add: checkAndSetVersionInfo_def)
    from next_version_cases [OF this assms(1) n] show ?thesis by (fastforce split: option.splits)
  next
    case False
    let ?vi = "\<lparr>vi_Version = n, vi_Date = fst (time_now env d)\<rparr>"
    from False assms(2) v have "first_version env tf n d = (None, d1)" by (simp add: checkAndSetVersionInfo_def)
    from first_version_ok [OF this] decode_version_file [OF assms(1), of ?vi] n False show ?thesis
      by (intro exI [of _ ?vi]) (simp add: recorded_version_def FileExists_def)
  qed
  then obtain vi where vi: "recorded_version tf d1 = Some vi" "vi_Version vi = n" by blast
  then have r2: "recorded_version tf d2 = Some vi" using assms(3) by (simp add: recorded_version_def)
  from assms(4) v version_file_present [OF r2] have "next_version env tf n m d2 = (None, d3)" by (simp add: checkAndSetVersionInfo_def)
  from next_version_cases [OF this assms(1) n] r2 vi(2) assms(3)
  have "files d3 VERSION_FILE_PATH = files d1 VERSION_FILE_PATH \<and>
    (\<exists>boot. fst (GetLastRebootTime env tf d2) = Some boot \<and> (FileExists RESTART_NEEDED_PATH d3 \<longleftrightarrow> boot < vi_Date vi \<and> n \<le> m))" by auto
  with first v vi show ?thesis by auto
qed

definition unary_times :: time_format where
  "unary_times = \<lparr>time_text = (\<lambda>t. (if t < 0 then ''-'' else []) @ replicate (nat \<bar>t\<bar>) (CHR ''i'')),
     text_time = (\<lambda>s. Some (if HasPrefix s ''-'' then - int (length s - 1) else int (length s))), uptime_secs = (\<lambda>s. Some (int (length s)))\<rparr>"

lemma unary_times_ok: "time_format_ok unary_times"
proof -
  have "\<not> HasPrefix (replicate n (CHR ''i'')) ''-''" for n by (cases n) (auto simp: HasPrefix_def)
  then show ?thesis by (auto simp: time_format_ok_def unary_times_def)
qed

theorem no_reboot_loop_witness:
  "\<exists>d1 d2 d3. checkAndSetVersionInfo (sample_env Map.empty) unary_times ''6'' ''6'' (sample_device 7) = (None, d1) \<and>
     FileExists RESTART_NEEDED_PATH d1 \<and> FileExists VERSION_FILE_PATH d2 \<and>
     checkAndSetVersionInfo (sample_env Map.empty) unary_times ''6'' ''6'' d2 = (None, d3) \<and> \<not> FileExists RESTART_NEEDED_PATH d3"
proof -
  let ?env = "sample_env Map.empty" and ?d = "sample_device 7 :: int device"
  let ?f = "version_file unary_times \<lparr>vi_Version = 6, vi_Date = 7\<rparr>"
  let ?d1 = "?d\<lparr>files := [VERSION_FILE_PATH \<mapsto> ?f, RESTART_NEEDED_PATH \<mapsto> Text []]\<rparr>"
  let ?d2 = "?d1\<lparr>files := (files ?d1)(''/proc/uptime'' \<mapsto> Text ''1 2''), world := 5 * second\<rparr>"
  have v: "versionStringToInt ''6'' = Some 6" by code_simp
  have u: "VERSION_FILE_PATH \<noteq> ''/proc/uptime''" "RESTART_NEEDED_PATH \<noteq> ''/proc/uptime''"
    by (simp_all add: VERSION_FILE_PATH_def RESTART_NEEDED_PATH_def)
  have t: "time_now ?env ?d = (7, ?d)" by (simp add: time_now_def sample_env_def sample_device_def)
  have 1: "checkAndSetVersionInfo ?env unary_times ''6'' ''6'' ?d = (None, ?d1)"
    by (simp add: checkAndSetVersionInfo_def v first_version_def t create_marker_def WriteFile_def FileExists_def) (simp add: sample_device_def)
  define d2 where "d2 = ?d2"
  have f: "files d2 VERSION_FILE_PATH = Some ?f" "unreadable d2 = (\<lambda>_. False)" "unwritable d2 = (\<lambda>_. False)"
    using paths_differ u by (simp_all add: d2_def) (simp_all add: sample_device_def)
  have g: "GetLastRebootTime ?env unary_times d2 = (Some (4 * second), d2)"
    using u by (simp add: GetLastRebootTime_def ReadFile_def sample_device_def unary_times_def time_now_def sample_env_def d2_def)
  let ?vi = "\<lparr>vi_Version = 6, vi_Date = 7\<rparr>"
  have dv: "Option.bind (file_json ?f) (decode_version unary_times) = Some ?vi"
    using decode_version_file [OF unary_times_ok, of ?vi] by (simp add: in_int64_def)
  then have "next_version ?env unary_times 6 6 d2 = remove_marker d2"
    by (simp add: next_version_def ReadFile_def update_version_def f g)
  then have "\<exists>d3. checkAndSetVersionInfo ?env unary_times ''6'' ''6'' d2 = (None, d3)"
    by (simp add: checkAndSetVersionInfo_def v FileExists_def remove_marker_def f)
  then obtain d3 where 3: "checkAndSetVersionInfo ?env unary_times ''6'' ''6'' d2 = (None, d3)" ..
  have "files d2 VERSION_FILE_PATH = files ?d1 VERSION_FILE_PATH" using paths_differ by (simp add: f)
  note s = no_reboot_loop [OF unary_times_ok 1 this 3]
  have "recorded_version unary_times ?d = None" "recorded_version unary_times ?d1 = Some ?vi"
    using dv paths_differ by (simp_all add: recorded_version_def sample_device_def)
  with s g have "FileExists RESTART_NEEDED_PATH ?d1 \<and> \<not> FileExists RESTART_NEEDED_PATH d3" by auto
  moreover have "FileExists VERSION_FILE_PATH d2" by (simp add: FileExists_def f)
  ultimately show ?thesis using 1 3 by blast
qed

section \<open>The state of the daemon\<close>

text \<open>
  \<open>dm_connected\<close> is \<^verbatim>\<open>currentIsConnected\<close> (2 before the first check), \<open>dm_hotspot\<close> is \<^verbatim>\<open>isHotspotStarted\<close>; \<open>dm_stop\<close> and \<open>dm_restart\<close> count
  the signals waiting in the channels \<^verbatim>\<open>stopServer\<close> and \<^verbatim>\<open>restartServer\<close>, which hold one each.
\<close>

record daemon =
  dm_connected :: int
  dm_hotspot :: bool
  dm_stop :: nat
  dm_restart :: nat

text \<open>A call of \<^verbatim>\<open>handleAppState\<close> returns, waits for room in \<^verbatim>\<open>stopServer\<close>, or panics in \<^verbatim>\<open>LoadConfig\<close>.\<close>

datatype 'w app_result = Goes daemon "'w device" | WaitsToStop | Crashes

definition checkConfigExists :: "'w device \<Rightarrow> bool" where
  "checkConfigExists d = FileExists FULA_CONFIG_PATH d"

definition ensure_hotspot :: "('w, 'k) wap_setup \<Rightarrow> daemon \<Rightarrow> 'w device \<Rightarrow> daemon \<times> 'w device" where
  "ensure_hotspot su s d =
     (if dm_hotspot s then (s, d)
      else (case StartHotspot (su_env su) (su_tools su) (su_platform su) True d of
              (ok, d1) \<Rightarrow> (s\<lparr>dm_hotspot := ok\<rparr>, d1)))"

definition leave_hotspot :: "('w, 'k) wap_setup \<Rightarrow> daemon \<Rightarrow> 'w device \<Rightarrow> 'w app_result" where
  "leave_hotspot su s d =
     (case CheckIfIsConnectedWifi (su_tools su) (su_platform su) [] (snd (DisconnectNamedWifi (su_platform su) ''FxBlox'' d)) of
        (False, d1) \<Rightarrow> Goes s d1
      | (True, d1) \<Rightarrow> if dm_stop s < 1 then Goes (s\<lparr>dm_stop := dm_stop s + 1\<rparr>) d1 else WaitsToStop)"

definition first_hotspot :: "('w, 'k) wap_setup \<Rightarrow> daemon \<Rightarrow> 'w device \<Rightarrow> daemon \<times> 'w device" where
  "first_hotspot su s d =
     (if dm_hotspot s then (s, d)
      else ensure_hotspot su s
        (if FileExists ''/home/V6.info'' d then snd (DisconnectFromExternalWifi (su_tools su) (su_platform su) d)
         else snd (WriteFile RESTART_NEEDED_PATH (Text []) d)))"

definition change_state :: "('w, 'k) wap_setup \<Rightarrow> bool \<Rightarrow> daemon \<Rightarrow> 'w device \<Rightarrow> 'w app_result" where
  "change_state su isConnected s d =
     (if isConnected then
        (if checkConfigExists d then leave_hotspot su s d else (case first_hotspot su s d of (s1, d1) \<Rightarrow> Goes s1 d1))
      else (case ensure_hotspot su s d of (s1, d1) \<Rightarrow> Goes s1 d1))"

definition handleAppState :: "('w, 'k) wap_setup \<Rightarrow> bool \<Rightarrow> daemon \<Rightarrow> 'w device \<Rightarrow> 'w app_result" where
  "handleAppState su isConnected s d =
     (case LoadConfig (su_env su) (su_platform su) (su_conv su) (su_keys su) d of
        (Panic, d1) \<Rightarrow> Crashes
      | (_, d1) \<Rightarrow>
          (let newState = (if isConnected then 1 else 0) in
           if dm_connected s = newState then Goes s d1
           else (case change_state su isConnected s d1 of
                   Goes s2 d2 \<Rightarrow> Goes (s2\<lparr>dm_connected := newState\<rparr>) d2
                 | r \<Rightarrow> r)))"


section \<open>The process\<close>

text \<open>
  The main goroutine: it checks the connection and starts the others, waits for the server, waits up to 30 seconds for a saved network,
  and ranges over a ticker to check the connection every ten minutes; \<open>wap_ticking\<close> tells that this ticker has not been
  stopped, since a stopped one delivers nothing more and does not end the loop, and \<open>wap_checks\<close> counts the iterations. The server goroutine: (re)starts the HTTP server, waits for a signal or for the connection
  reported by a handler, after which it waits for a signal only; or has returned. \<open>wap_mdns\<close> is what the mDNS
  server announces, if it runs, \<open>wap_listening\<close> tells whether \<^verbatim>\<open>currentServer\<close> is set, \<open>wap_ready\<close> is the signal \<^verbatim>\<open>serverReady\<close>,
  \<open>wap_connected\<close> the shared variable \<^verbatim>\<open>isConnected\<close> and \<open>wap_configured\<close> is \<^verbatim>\<open>configExists\<close>.
\<close>

datatype main_pc = Booting | AwaitReady | AwaitSaved | Monitoring

datatype http_pc = Starting | Serving | AfterChange | Gone

record 'w wap =
  wap_daemon :: daemon
  wap_device :: "'w device"
  wap_main :: main_pc
  wap_http :: http_pc
  wap_ready :: bool
  wap_listening :: bool
  wap_mdns :: "meta option"
  wap_connected :: bool
  wap_configured :: bool
  wap_crashed :: bool
  wap_ticking :: bool
  wap_checks :: nat

definition wap_start :: "'w device \<Rightarrow> 'w wap" where
  "wap_start d = \<lparr>wap_daemon = \<lparr>dm_connected = 2, dm_hotspot = False, dm_stop = 0, dm_restart = 0\<rparr>, wap_device = d, wap_main = Booting,
     wap_http = Starting, wap_ready = False, wap_listening = False, wap_mdns = None, wap_connected = False, wap_configured = False,
     wap_crashed = False, wap_ticking = True, wap_checks = 0\<rparr>"

text \<open>The effect of \<^verbatim>\<open>handleAppState\<close> on the process, where the call returns or panics.\<close>

definition app_state :: "('w, 'k) wap_setup \<Rightarrow> bool \<Rightarrow> 'w device \<Rightarrow> 'w wap \<Rightarrow> 'w wap option" where
  "app_state su isConnected d p =
     (case handleAppState su isConnected (wap_daemon p) d of
        Goes s d1 \<Rightarrow> Some (p\<lparr>wap_daemon := s, wap_device := d1\<rparr>)
      | WaitsToStop \<Rightarrow> None
      | Crashes \<Rightarrow> Some (p\<lparr>wap_crashed := True\<rparr>))"

abbreviation check_wifi :: "('w, 'k) wap_setup \<Rightarrow> 'w wap \<Rightarrow> bool \<times> 'w device" where
  "check_wifi su p \<equiv> CheckIfIsConnected (su_tools su) (su_platform su) [] (wap_device p)"

text \<open>One iteration of the loop that checks the connection: it stops the ticker, or handles the loss of the connection.\<close>

definition monitor :: "('w, 'k) wap_setup \<Rightarrow> 'w wap \<Rightarrow> 'w wap option" where
  "monitor su p =
     (case check_wifi su p of
        (True, d) \<Rightarrow> Some (p\<lparr>wap_device := d, wap_ticking := False, wap_checks := wap_checks p + 1\<rparr>)
      | (False, d) \<Rightarrow> app_state su False d (p\<lparr>wap_connected := False, wap_checks := wap_checks p + 1\<rparr>))"

text \<open>Reactions of the server goroutine to its two signals.\<close>

definition stop_http :: "'w wap \<Rightarrow> 'w wap" where
  "stop_http p = p\<lparr>wap_daemon := (wap_daemon p)\<lparr>dm_stop := dm_stop (wap_daemon p) - 1, dm_hotspot := False\<rparr>, wap_listening := False,
     wap_http := Gone\<rparr>"

definition restart_http :: "'w wap \<Rightarrow> 'w wap" where
  "restart_http p = p\<lparr>wap_daemon := (wap_daemon p)\<lparr>dm_restart := dm_restart (wap_daemon p) - 1\<rparr>, wap_listening := False, wap_http := Starting\<rparr>"

definition saved_timeout :: "('w, 'k) wap_setup \<Rightarrow> 'w wap \<Rightarrow> 'w wap option" where
  "saved_timeout su p =
     (case EnsureHotspotActive (su_env su) (su_tools su) (su_platform su) (wap_device p) of
        (False, d1) \<Rightarrow> Some (p\<lparr>wap_device := d1, wap_main := Monitoring\<rparr>)
      | (True, d1) \<Rightarrow>
          if dm_restart (wap_daemon p) < 1 then
            Some (p\<lparr>wap_device := go_sleep (su_env su) (5 * second) d1, wap_main := Monitoring,
                    wap_daemon := (wap_daemon p)\<lparr>dm_hotspot := True, dm_restart := dm_restart (wap_daemon p) + 1\<rparr>\<rparr>)
          else None)"

text \<open>One message of \<^verbatim>\<open>serverControl\<close>: a server that is started announces the configuration as it is now.\<close>

definition handleServerLifecycle :: "('w, 'k) wap_setup \<Rightarrow> bool \<Rightarrow> 'w wap \<Rightarrow> 'w wap" where
  "handleServerLifecycle su start p =
     (if \<not> start then p\<lparr>wap_mdns := None\<rparr>
      else if wap_mdns p \<noteq> None then p
      else (case LoadConfig (su_env su) (su_platform su) (su_conv su) (su_keys su) (wap_device p) of
              (Ok m, d1) \<Rightarrow> p\<lparr>wap_mdns := Some m, wap_device := d1\<rparr>
            | (_, d1) \<Rightarrow> p\<lparr>wap_crashed := True\<rparr>))"

inductive wap_step :: "('w, 'k) wap_setup \<Rightarrow> 'w wap \<Rightarrow> 'w wap \<Rightarrow> bool" for su where
  boots: "\<not> wap_crashed p \<Longrightarrow> wap_main p = Booting \<Longrightarrow> check_wifi su p = (c, d) \<Longrightarrow>
     app_state su c d (p\<lparr>wap_main := AwaitReady, wap_connected := c, wap_configured := checkConfigExists d\<rparr>) = Some q \<Longrightarrow> wap_step su p q"
| serves: "\<not> wap_crashed p \<Longrightarrow> wap_main p \<noteq> Booting \<Longrightarrow> wap_http p = Starting \<Longrightarrow>
     wap_step su p (p\<lparr>wap_http := Serving, wap_listening := True, wap_ready := True\<rparr>)"
| ready: "\<not> wap_crashed p \<Longrightarrow> wap_main p = AwaitReady \<Longrightarrow> wap_ready p \<Longrightarrow> wap_connected p \<or> \<not> wap_configured p \<Longrightarrow>
     wap_step su p (p\<lparr>wap_main := Monitoring, wap_ready := False\<rparr>)"
| tries_saved: "\<not> wap_crashed p \<Longrightarrow> wap_main p = AwaitReady \<Longrightarrow> wap_ready p \<Longrightarrow> \<not> wap_connected p \<Longrightarrow> wap_configured p \<Longrightarrow>
     wap_step su p (p\<lparr>wap_main := AwaitSaved, wap_ready := False,
       wap_device := snd (ConnectToSavedWifi (su_env su) (su_tools su) (su_platform su) (wap_device p))\<rparr>)"
| saved_fails: "\<not> wap_crashed p \<Longrightarrow> wap_main p = AwaitSaved \<Longrightarrow> check_wifi su p = (False, d) \<Longrightarrow> wap_step su p (p\<lparr>wap_device := d\<rparr>)"
| saved_works: "\<not> wap_crashed p \<Longrightarrow> wap_main p = AwaitSaved \<Longrightarrow> check_wifi su p = (True, d) \<Longrightarrow>
     app_state su True d (p\<lparr>wap_main := Monitoring, wap_connected := True\<rparr>) = Some q \<Longrightarrow> wap_step su p q"
| saved_ends: "\<not> wap_crashed p \<Longrightarrow> wap_main p = AwaitSaved \<Longrightarrow> saved_timeout su p = Some q \<Longrightarrow> wap_step su p q"
| ticks: "\<not> wap_crashed p \<Longrightarrow> wap_main p = Monitoring \<Longrightarrow> wap_ticking p \<Longrightarrow> monitor su p = Some q \<Longrightarrow> wap_step su p q"
| stops: "\<not> wap_crashed p \<Longrightarrow> wap_http p \<in> {Serving, AfterChange} \<Longrightarrow> 0 < dm_stop (wap_daemon p) \<Longrightarrow> wap_step su p (stop_http p)"
| restarts: "\<not> wap_crashed p \<Longrightarrow> wap_http p \<in> {Serving, AfterChange} \<Longrightarrow> 0 < dm_restart (wap_daemon p) \<Longrightarrow> wap_step su p (restart_http p)"
| reported: "\<not> wap_crashed p \<Longrightarrow> wap_http p = Serving \<Longrightarrow>
     app_state su c (wap_device p) (p\<lparr>wap_http := AfterChange, wap_connected := c\<rparr>) = Some q \<Longrightarrow> wap_step su p q"
| mdns: "\<not> wap_crashed p \<Longrightarrow> wap_main p \<noteq> Booting \<Longrightarrow> wap_step su p (handleServerLifecycle su b p)"
| outside: "\<not> wap_crashed p \<Longrightarrow> wap_step su p (p\<lparr>wap_device := d\<rparr>)"

inductive_cases wap_stepE: "wap_step su p q"

section \<open>What the process does\<close>

lemma ensure_hotspot_daemon:
  "ensure_hotspot su s d = (s', d') \<Longrightarrow> \<exists>h. s' = s\<lparr>dm_hotspot := h\<rparr>"
  by (auto simp: ensure_hotspot_def split: if_splits prod.splits) (metis (full_types) daemon.surjective daemon.update_convs(2))

lemma leave_hotspot_daemon:
  "leave_hotspot su s d = Goes s' d' \<Longrightarrow> s' = s \<or> dm_stop s = 0 \<and> s' = s\<lparr>dm_stop := 1\<rparr>"
  by (auto simp: leave_hotspot_def split: prod.splits bool.splits if_splits)

definition daemon_ok :: "daemon \<Rightarrow> bool" where
  "daemon_ok s \<longleftrightarrow> dm_stop s \<le> 1 \<and> dm_restart s \<le> 1 \<and> dm_connected s \<in> {0, 1, 2}"

lemma daemon_ok_updates [simp]:
  "daemon_ok (s\<lparr>dm_hotspot := h\<rparr>) = daemon_ok s" "daemon_ok s \<Longrightarrow> daemon_ok (s\<lparr>dm_stop := dm_stop s - Suc 0\<rparr>)"
  "daemon_ok s \<Longrightarrow> daemon_ok (s\<lparr>dm_restart := dm_restart s - Suc 0\<rparr>)" "daemon_ok s \<Longrightarrow> daemon_ok (s\<lparr>dm_stop := Suc 0\<rparr>)"
  "daemon_ok s \<Longrightarrow> daemon_ok (s\<lparr>dm_restart := Suc 0\<rparr>)" "daemon_ok (s\<lparr>dm_stop := n, dm_hotspot := h\<rparr>) = daemon_ok (s\<lparr>dm_stop := n\<rparr>)"
  "daemon_ok (s\<lparr>dm_hotspot := h, dm_restart := n\<rparr>) = daemon_ok (s\<lparr>dm_restart := n\<rparr>)"
  by (auto simp: daemon_ok_def)

lemma change_state_ok: "change_state su c s d = Goes s' d' \<Longrightarrow> daemon_ok s \<Longrightarrow> daemon_ok s'"
  by (auto simp: change_state_def first_hotspot_def dest!: ensure_hotspot_daemon leave_hotspot_daemon split: if_splits prod.splits)

lemma handleAppState_ok: "handleAppState su c s d = Goes s' d' \<Longrightarrow> daemon_ok s \<Longrightarrow> daemon_ok s'"
  by (auto simp: handleAppState_def Let_def dest!: change_state_ok split: prod.splits outcome.splits if_splits app_result.splits)
    (auto simp: daemon_ok_def)

definition wap_inv :: "'w wap \<Rightarrow> bool" where
  "wap_inv p \<longleftrightarrow> daemon_ok (wap_daemon p) \<and> (wap_listening p \<longleftrightarrow> wap_http p \<in> {Serving, AfterChange})"

lemma app_state_inv:
  "app_state su c d p = Some q \<Longrightarrow> daemon_ok (wap_daemon p) \<Longrightarrow>
   daemon_ok (wap_daemon q) \<and> wap_listening q = wap_listening p \<and> wap_http q = wap_http p \<and> wap_main q = wap_main p"
  by (auto simp: app_state_def dest: handleAppState_ok split: app_result.splits)

lemma monitor_inv: "monitor su p = Some q \<Longrightarrow> wap_inv p \<Longrightarrow> wap_inv q"
  by (auto simp: monitor_def wap_inv_def dest!: app_state_inv split: prod.splits bool.splits)

lemma handleServerLifecycle_same:
  "wap_daemon (handleServerLifecycle su b p) = wap_daemon p" "wap_listening (handleServerLifecycle su b p) = wap_listening p"
  "wap_http (handleServerLifecycle su b p) = wap_http p" "wap_main (handleServerLifecycle su b p) = wap_main p"
  by (auto simp: handleServerLifecycle_def split: prod.splits outcome.splits)

lemma saved_timeout_inv: "saved_timeout su p = Some q \<Longrightarrow> wap_inv p \<Longrightarrow> wap_inv q"
  by (auto simp: saved_timeout_def wap_inv_def split: prod.splits bool.splits if_splits)

lemma wap_inv_step: "wap_step su p q \<Longrightarrow> wap_inv p \<Longrightarrow> wap_inv q"
proof (erule wap_stepE)
  assume "wap_inv p" "q = stop_http p"
  then show ?thesis by (simp add: wap_inv_def stop_http_def)
next
  assume "wap_inv p" "q = restart_http p"
  then show ?thesis by (simp add: wap_inv_def restart_http_def)
next
  assume "wap_inv p" "saved_timeout su p = Some q"
  then show ?thesis by (simp add: saved_timeout_inv)
next
  assume "wap_inv p" "monitor su p = Some q"
  then show ?thesis by (rule monitor_inv [rotated])
qed (auto simp: wap_inv_def handleServerLifecycle_same dest!: app_state_inv)

text \<open>
  The HTTP server of the set-up daemon is open exactly while its goroutine waits for signals, the two signal
  channels never hold more than one signal, and the recorded connection is one of the three states, under every
  interleaving of the goroutines and whatever the network does.
\<close>

lemma daemon_invariant:
  assumes "(wap_step su)\<^sup>*\<^sup>* (wap_start d) p"
  shows "(wap_listening p \<longleftrightarrow> wap_http p \<in> {Serving, AfterChange}) \<and> dm_stop (wap_daemon p) \<le> 1 \<and> dm_restart (wap_daemon p) \<le> 1 \<and>
    dm_connected (wap_daemon p) \<in> {0, 1, 2}"
proof -
  have "wap_inv p" using assms
  proof (induction rule: rtranclp_induct)
    case base
    show ?case by (simp add: wap_inv_def wap_start_def daemon_ok_def)
  qed (rule wap_inv_step)
  then show ?thesis by (auto simp: wap_inv_def daemon_ok_def)
qed

lemma app_state_loop:
  "app_state su c d p = Some q \<Longrightarrow> wap_main q = wap_main p \<and> wap_ticking q = wap_ticking p \<and> wap_checks q = wap_checks p \<and> wap_http q = wap_http p"
  by (auto simp: app_state_def split: app_result.splits)

lemma handleServerLifecycle_loop:
  "wap_ticking (handleServerLifecycle su b p) = wap_ticking p" "wap_checks (handleServerLifecycle su b p) = wap_checks p"
  by (auto simp: handleServerLifecycle_def split: prod.splits outcome.splits)

lemma silent_step:
  "wap_step su p q \<Longrightarrow> wap_main p = Monitoring \<Longrightarrow> \<not> wap_ticking p \<Longrightarrow>
   wap_main q = Monitoring \<and> \<not> wap_ticking q \<and> wap_checks q = wap_checks p \<and>
   (wap_http p = Gone \<longrightarrow> wap_http q = Gone \<and> wap_daemon q = wap_daemon p \<and> wap_listening q = wap_listening p)"
  by (erule wap_stepE)
    (auto simp: handleServerLifecycle_same handleServerLifecycle_loop stop_http_def restart_http_def dest!: app_state_loop)

lemma silent_run:
  "(wap_step su)\<^sup>*\<^sup>* p q \<Longrightarrow> wap_main p = Monitoring \<Longrightarrow> \<not> wap_ticking p \<Longrightarrow>
   wap_main q = Monitoring \<and> \<not> wap_ticking q \<and> wap_checks q = wap_checks p \<and>
   (wap_http p = Gone \<longrightarrow> wap_http q = Gone \<and> wap_daemon q = wap_daemon p \<and> wap_listening q = wap_listening p)"
proof (induction rule: rtranclp_induct)
  case (step q r)
  with silent_step [of su q r] show ?case by auto
qed simp

text \<open>
  C30. Once an iteration of the checking loop has found a connection, there is never another one: in every later state the main
  goroutine still sits in the loop, so the code behind it that handles signals is not reached, and the number of checks is what it
  was. When the HTTP server has been stopped too, which is what happens on every start of a configured device on its
  Wi-Fi, neither the server nor the hotspot ever comes back, whatever happens to the network.
\<close>

theorem deaf_after_connection:
  assumes "wap_main p = Monitoring" and "fst (check_wifi su p)" and "monitor su p = Some p'" and "(wap_step su)\<^sup>*\<^sup>* p' q"
  shows "wap_main q = Monitoring \<and> wap_checks q = wap_checks p + 1 \<and>
    (wap_http p = Gone \<longrightarrow> wap_http q = Gone \<and> wap_daemon q = wap_daemon p \<and> wap_listening q = wap_listening p)"
proof -
  obtain d where d: "check_wifi su p = (True, d)" using assms(2) by (metis prod.collapse)
  with assms(3) have "p' = p\<lparr>wap_device := d, wap_ticking := False, wap_checks := wap_checks p + 1\<rparr>" by (simp add: monitor_def)
  with silent_run [OF assms(4)] assms(1) show ?thesis by simp
qed

text \<open>
  A hotspot that could not be started is not tried again while the device stays disconnected: the state is recorded
  even so.
\<close>

lemma hotspot_not_retried:
  assumes "handleAppState su False s d = Goes s' d'"
  shows "dm_connected s' = 0 \<and> (\<forall>e s'' d''. handleAppState su False s' e = Goes s'' d'' \<longrightarrow> s'' = s')"
proof -
  have "dm_connected s' = 0" using assms
    by (auto simp: handleAppState_def Let_def split: prod.splits outcome.splits if_splits app_result.splits)
  then show ?thesis by (auto simp: handleAppState_def Let_def split: prod.splits outcome.splits if_splits app_result.splits)
qed

subsection \<open>A configured device on its Wi-Fi\<close>

definition wifi_platform :: "int platform" where
  "wifi_platform = (sample_platform (\<lambda>_. True))\<lparr>exec := (\<lambda>argv w. (Exited True
     (if argv = [''iw'', ''dev''] then ''Interface wlan0'' else if argv = [''iw'', ''dev'', ''wlan0'', ''link''] then ''Connected to home'' else []), w))\<rparr>"

definition wifi_setup :: "(int, nat list) wap_setup" where
  "wifi_setup = \<lparr>su_env = sample_env Map.empty, su_tools = sample_tools [], su_platform = wifi_platform, su_keys = sample_keys,
     su_conv = (\<lambda>_ _. None), su_peerFunction = (\<lambda>_ _ d. (Panic, d)), su_rand = (\<lambda>_ w. (None, w)), su_notify = id, su_origins = [],
     su_order = id, su_is_dir = (\<lambda>_. True)\<rparr>"

definition wifi_device :: "int device" where
  "wifi_device = (sample_device 0)\<lparr>files := [FULA_CONFIG_PATH \<mapsto> Text ''x'']\<rparr>"

lemma wifi_commands:
  "runCommand wifi_platform ''iw dev'' d = ((''Interface wlan0'', True), d)"
  "runCommand wifi_platform ''iw dev wlan0 link'' d = ((''Connected to home'', True), d)"
  "runCommand wifi_platform ''nmcli -t -f NAME connection show --active'' d = (([], True), d)"
  "\<exists>o1. runCommand wifi_platform ''nmcli con down FxBlox'' d = ((o1, True), d)"
  by (simp_all add: runCommand_def on_world_def wifi_platform_def Fields_def is_space_def)

lemma wifi_linked: "CheckIfIsConnectedWifi (sample_tools []) wifi_platform [] d = (True, d)"
proof -
  have "split_char newline ''Interface wlan0'' = [''Interface wlan0'']" by (rule split_char_no_sep) (simp add: newline_def)
  then have "fst (scan_tokens ''Interface wlan0'') = [''Interface wlan0'']"
    by (simp add: scan_tokens_def Let_def MaxScanTokenSize_def strip_cr_def)
  moreover have "Contains ''Interface wlan0'' ''Interface''" by code_simp
  moreover have "Fields ''Interface wlan0'' = [''Interface'', ''wlan0'']" by (simp add: Fields_def is_space_def)
  ultimately have "iw_interfaces ''Interface wlan0'' = [''wlan0'']" by (simp add: iw_interfaces_def)
  moreover have "Contains ''Connected to home'' ''Not connected'' = False" "Contains ''Connected to home'' ''Connected to''"
    "Contains ''Connected to home'' ''FxBlox'' = False" by code_simp+
  moreover have "linked wifi_platform [''wlan0''] d = (True, d)" 
    using calculation wifi_commands(2) [of d] by simp
  ultimately show ?thesis
    by (simp add: CheckIfIsConnectedWifi_def checkIfIsConnectedLinux_def sample_tools_def wifi_commands(1))
qed

lemma wifi_checked: "CheckIfIsConnected (sample_tools []) wifi_platform [] d = (True, d)"
  by (simp add: CheckIfIsConnected_def wifi_linked wifi_commands(3)) (simp add: sample_tools_def)

lemma wifi_boot:
  "handleAppState wifi_setup True \<lparr>dm_connected = 2, dm_hotspot = False, dm_stop = 0, dm_restart = 0\<rparr> wifi_device =
   Goes \<lparr>dm_connected = 1, dm_hotspot = False, dm_stop = 1, dm_restart = 0\<rparr> wifi_device"
proof -
  have "snd (DisconnectNamedWifi wifi_platform ''FxBlox'' d) = d" for d
    using wifi_commands(4) [of d] by (auto simp: DisconnectNamedWifi_def TrimSpace_def is_space_def)
  moreover have "\<exists>m. LoadConfig (sample_env Map.empty) wifi_platform (\<lambda>_ _. None) sample_keys wifi_device = (Ok m, wifi_device)"
    by (simp add: LoadConfig_def on_world_def wifi_platform_def sample_platform_def load_yaml_def ReadFile_def wifi_device_def
        sample_device_def as_yaml_def TrimSpace_def is_space_def Let_def)
  moreover have "checkConfigExists wifi_device" by (simp add: checkConfigExists_def FileExists_def wifi_device_def)
  ultimately show ?thesis
    by (auto simp: handleAppState_def change_state_def leave_hotspot_def wifi_setup_def wifi_linked)
qed

lemma wifi_check: "check_wifi wifi_setup p = (True, wap_device p)"
  by (simp add: wifi_setup_def wifi_checked)

text \<open>The device after a start on its Wi-Fi: the server is gone and the loop waits for its first tick.\<close>

definition wifi_state :: "int wap" where
  "wifi_state = \<lparr>wap_daemon = \<lparr>dm_connected = 1, dm_hotspot = False, dm_stop = 0, dm_restart = 0\<rparr>, wap_device = wifi_device,
     wap_main = Monitoring, wap_http = Gone, wap_ready = False, wap_listening = False, wap_mdns = None, wap_connected = True,
     wap_configured = True, wap_crashed = False, wap_ticking = True, wap_checks = 0\<rparr>"

lemma wifi_run: "(wap_step wifi_setup)\<^sup>*\<^sup>* (wap_start wifi_device) wifi_state"
proof -
  let ?s = wifi_setup
  let ?dm = "\<lambda>n. \<lparr>dm_connected = 1, dm_hotspot = False, dm_stop = n, dm_restart = 0\<rparr>"
  let ?p = "\<lambda>n m h r l. \<lparr>wap_daemon = ?dm n, wap_device = wifi_device, wap_main = m, wap_http = h, wap_ready = r, wap_listening = l,
      wap_mdns = None, wap_connected = True, wap_configured = True, wap_crashed = False, wap_ticking = True, wap_checks = 0\<rparr>"
  have "wap_step ?s (wap_start wifi_device) (?p 1 AwaitReady Starting False False)"
    by (rule boots [of _ _ True wifi_device])
      (simp_all add: wifi_check, simp_all add: wap_start_def app_state_def wifi_boot, simp add: checkConfigExists_def FileExists_def wifi_device_def)
  moreover have "wap_step ?s (?p 1 AwaitReady Starting False False) (?p 1 AwaitReady Serving True True)"
    using serves [of "?p 1 AwaitReady Starting False False" ?s] by simp
  moreover have "wap_step ?s (?p 1 AwaitReady Serving True True) (?p 0 AwaitReady Gone True False)"
    using stops [of "?p 1 AwaitReady Serving True True" ?s] by (simp add: stop_http_def)
  moreover have "wap_step ?s (?p 0 AwaitReady Gone True False) wifi_state"
    using ready [of "?p 0 AwaitReady Gone True False" ?s] by (simp add: wifi_state_def)
  ultimately show ?thesis by (meson converse_rtranclp_into_rtranclp rtranclp.rtrancl_refl)
qed

theorem daemon_invariant_witness:
  "(wap_step wifi_setup)\<^sup>*\<^sup>* (wap_start wifi_device) wifi_state \<and>
     (wap_listening wifi_state \<longleftrightarrow> wap_http wifi_state \<in> {Serving, AfterChange}) \<and> dm_stop (wap_daemon wifi_state) \<le> 1"
  using daemon_invariant [OF wifi_run] wifi_run by blast

theorem deaf_after_connection_witness:
  "\<exists>p q. (wap_step wifi_setup)\<^sup>*\<^sup>* (wap_start wifi_device) p \<and> monitor wifi_setup p = Some q \<and>
     {r. (wap_step wifi_setup)\<^sup>*\<^sup>* q r \<and> (wap_checks r \<noteq> 1 \<or> wap_http r \<noteq> Gone \<or> dm_hotspot (wap_daemon r))} = {}"
proof -
  have m: "monitor wifi_setup wifi_state = Some (wifi_state\<lparr>wap_ticking := False, wap_checks := 1\<rparr>)"
    by (simp add: monitor_def wifi_check) (simp add: wifi_state_def)
  have "wap_checks r = 1 \<and> wap_http r = Gone \<and> \<not> dm_hotspot (wap_daemon r)"
    if "(wap_step wifi_setup)\<^sup>*\<^sup>* (wifi_state\<lparr>wap_ticking := False, wap_checks := 1\<rparr>) r" for r
    using deaf_after_connection [OF _ _ m that] by (simp add: wifi_check) (simp add: wifi_state_def)
  then show ?thesis using wifi_run m by blast
qed

end
