(* ===== verification/Spec2Isabelle.thy ===== *)
theory Spec2Isabelle
  imports ChatIterator ExchangeWiring IpfsRpc KuboSetup MobileClient NodeWiring PluginHttp SetupDaemon
begin

text \<open>
  A verification development for \<^verbatim>\<open>go-fula\<close>, the daemon of a Fula storage device (a "Blox") and the
  library through which a phone talks to it.

  \<^bold>\<open>The program.\<close> A phone signs HTTP requests with its peer key and sends them through the IPFS daemon
  (kubo) to the proxy of the device. The proxy verifies the signature, looks the peer up in the set of
  authorised peers and dispatches on the action: pool membership, manifests, plugins, pinning, Wi-Fi,
  hardware, chat. Handlers talk to an HTTP API, to the contracts of two EVM chains, to files of the
  device and to platform commands. In the background the device reconciles its configured pool with the
  chain and watches its own reachability. Before a device has an owner, a set-up daemon offers a hotspot
  and an HTTP server through which the phone gives it Wi-Fi credentials, an owner and a pool; two programs
  derive the identities of kubo and of the cluster from the identity of the device. The library on the
  phone keeps a libp2p host, a block store and an exchange through which blocks are pushed and pulled.

  \<^bold>\<open>The model.\<close> Everything is shallow and executable. A device is a record (files, paths that fail, the
  in-memory state of \<^verbatim>\<open>FxBlockchain\<close>, the outside world); handlers are functions from a request body and
  a device to an answer and a device. The network, the clock, waiting, codecs and the cluster client
  are fields of an \<^verbatim>\<open>env\<close> record, platform commands and hardware probes of a \<^verbatim>\<open>platform\<close> record, the
  cryptography of a \<^verbatim>\<open>crypto\<close> record: the theorems hold for every behaviour of them unless a hypothesis
  says more. Errors are values of an outcome type (\<^verbatim>\<open>Ok\<close>, \<^verbatim>\<open>Err\<close>, \<^verbatim>\<open>Panic\<close>); an answer \<^const>\<open>None\<close> is a
  handler that panicked, whose connection the server drops.

  \<^bold>\<open>Theories\<close>, in the order of their imports:
  \<^item> \<^verbatim>\<open>GoPrelude\<close>: outcomes, the used parts of \<^verbatim>\<open>strings\<close>, \<^verbatim>\<open>strconv\<close>, \<^verbatim>\<open>encoding/hex\<close>, fixed-width integers,
    loops with fuel and the lemmas about them.
  \<^item> \<^verbatim>\<open>Device\<close>: JSON documents, HTTP, the outside, the device and its file system, frames.
  \<^item> \<^verbatim>\<open>GoStruct\<close>, \<^verbatim>\<open>ApiTypes\<close>: \<^verbatim>\<open>encoding/json\<close> on struct types, the request and response types of
    \<^verbatim>\<open>blockchain/interface.go\<close> that go through the API, and the part of its two tables that is looked up for them.
  \<^item> \<^verbatim>\<open>Abi\<close> (\<^verbatim>\<open>blockchain/abi/contract.go\<close>): call data and decoders of contract answers, with the 64-bit
    wrap-around of their length arithmetic; round trips, exactness, and the answers that crash them.
  \<^item> \<^verbatim>\<open>PeerIds\<close> (\<^verbatim>\<open>blockchain/peerid_utils.go\<close>): peer ids and the contract's \<^verbatim>\<open>bytes32\<close>.
  \<^item> \<^verbatim>\<open>AuthSigned\<close> (\<^verbatim>\<open>blockchain/auth_signed.go\<close>): signing and verifying requests.
  \<^item> \<^verbatim>\<open>AccessControl\<close> (\<^verbatim>\<open>blockchain/blockchain.go\<close>): the permission switch and the authorised set. The
    locale \<^verbatim>\<open>access_list\<close> is its contract.
  \<^item> \<^verbatim>\<open>EvmChain\<close> (\<^verbatim>\<open>blockchain.go\<close>, \<^verbatim>\<open>bl_pool.go\<close>): JSON-RPC with retries, membership and pool queries,
    pool enumeration. Its loop is bounded by fuel; a theorem gives fuel that suffices as soon as the chain has an
    end, another shows that the code's own bound does not stop it.
  \<^item> \<^verbatim>\<open>ApiRelay\<close>: calls of the HTTP API, the seed they carry, relayed answers, replication, uploads.
  \<^item> \<^verbatim>\<open>PoolConfig\<close>, \<^verbatim>\<open>PoolReconcile\<close>, \<^verbatim>\<open>PoolRequests\<close> (\<^verbatim>\<open>bl_pool.go\<close>, the callbacks of \<^verbatim>\<open>cmd/blox/main.go\<close>):
    joining, leaving, cancelling, reconciling and discovering pools. The locale \<^verbatim>\<open>pool_store\<close> states
    what the operations rely on from the configuration callbacks; it is interpreted on the YAML file
    callbacks of the daemon.
  \<^item> \<^verbatim>\<open>Plugins\<close> (\<^verbatim>\<open>bl_plugins.go\<close>): plugins over files; the locale \<^verbatim>\<open>name_file\<close> is the contract of a file of
    names, interpreted on both list files; the files refine two duplicate-free lists.
  \<^item> \<^verbatim>\<open>DeviceActions\<close> (\<^verbatim>\<open>bl_autopin.go\<close>, \<^verbatim>\<open>bl_nas.go\<close>, handlers of \<^verbatim>\<open>blockchain.go\<close> and \<^verbatim>\<open>blox.go\<close>,
    \<^verbatim>\<open>wap/pkg/wifi\<close>): pinning credentials, NAS password, Wi-Fi, reboot and hardware requests.
  \<^item> \<^verbatim>\<open>Chat\<close> (\<^verbatim>\<open>blox.go\<close>): the streamed chat, its reader, and the buffer between two goroutines as a step
    relation.
  \<^item> \<^verbatim>\<open>Proxy\<close> (\<^verbatim>\<open>proxy.go\<close>, \<^verbatim>\<open>dispatch\<close>): the whole table behind the signed entry point.
  \<^item> \<^verbatim>\<open>P2PClient\<close>: the calls of the phone, and their composition with the proxy.
  \<^item> \<^verbatim>\<open>Watchdog\<close> (\<^verbatim>\<open>blox/kubo_proxy.go\<close>): registration with kubo and the reachability watchdog, one function
    per tick and a step relation for its runs.
  \<^item> \<^verbatim>\<open>BlockStore\<close> (\<^verbatim>\<open>blox/blox.go\<close>): content ids from the names of block files, and the listing of the blocks
    stored since the last check over a tree of directory entries; its directory filter is shown to be only
    an optimisation.
  \<^item> \<^verbatim>\<open>BloxNode\<close> (\<^verbatim>\<open>blox/blox.go\<close>, \<^verbatim>\<open>blox/pool_reconcile.go\<close>): start-up of the node with pool discovery (five
    rounds over two chains) and the tunnel to the pool's cluster, the reconcile passes and the periodic
    task. Fuel bounds the wait for kubo and each enumeration of pools; \<^const>\<open>None\<close> is a start that is still
    waiting.
  \<^item> \<^verbatim>\<open>WifiTools\<close> (\<^verbatim>\<open>wap/pkg/wifi\<close>): scanning, connecting, the hotspot, and the queries of
    containers, disks and logs.
  \<^item> \<^verbatim>\<open>NodeKeys\<close> (\<^verbatim>\<open>cmd/blox/main.go\<close>, \<^verbatim>\<open>wap/cmd/blox\<close>, \<^verbatim>\<open>wap/cmd/mdns\<close>): the identity of a device, the keys derived
    from it, how the daemon completes its configuration on start, what mDNS announces.
  \<^item> \<^verbatim>\<open>KuboSetup\<close> (\<^verbatim>\<open>modules/initipfs\<close>, \<^verbatim>\<open>modules/initipfscluster\<close>): the two programs that write the configuration of
    kubo and the identity of the cluster, over a disk with directories.
  \<^item> \<^verbatim>\<open>SetupApi\<close>, \<^verbatim>\<open>SetupListeners\<close> (\<^verbatim>\<open>wap/pkg/server\<close>): every route of the set-up server with its guards against
    foreign pages and against the local network, and its listeners with the goroutines that open and close
    them as a step relation.
  \<^item> \<^verbatim>\<open>SetupDaemon\<close> (\<^verbatim>\<open>wap/cmd/main.go\<close>): the version check, the states of the application, and the goroutines of the
    daemon as a step relation.
  \<^item> \<^verbatim>\<open>MobileClient\<close>, \<^verbatim>\<open>ChatIterator\<close> (\<^verbatim>\<open>mobile\<close>): starting and shutting down the library with operations in flight,
    its calls, and the two ways it reads a chat stream. The loop of \<^verbatim>\<open>GetChatChunk\<close> has fuel; 100 rounds, the
    capacity of the buffer, suffice whenever it returns at all.
  \<^item> \<^verbatim>\<open>DataExchange\<close> (\<^verbatim>\<open>exchange\<close>): permissions, stored blocks, pulls, pushes with repetitions and a rate limit, and
    the two publishers of stored links.
  \<^item> \<^verbatim>\<open>IpfsRpc\<close> (\<^verbatim>\<open>blox/ipfs.go\<close>, \<^verbatim>\<open>blox/store.go\<close>): the embedded IPFS interface and the block store behind it.
  \<^item> \<^verbatim>\<open>PingServer\<close> (\<^verbatim>\<open>ping\<close>, \<^verbatim>\<open>blockchain/ping_server.go\<close>): the ping protocol, server and client, and the server that reports the
    state of the node.
  \<^item> \<^verbatim>\<open>PoolAnnouncements\<close> (\<^verbatim>\<open>announcements\<close>, \<^verbatim>\<open>bl_pool.go\<close>): announcements over pubsub, their periodic loops as a step relation, and the
    vote on a join request. The loop over the answers of kubo has fuel; one round per document and one more suffice when all are
    documents, and none suffices otherwise.
  \<^item> \<^verbatim>\<open>NodeWiring\<close> (\<^verbatim>\<open>blox/options.go\<close>, \<^verbatim>\<open>blockchain/options.go\<close>, \<^verbatim>\<open>blox/blox.go\<close>, \<^verbatim>\<open>cmd/blox/main.go\<close>): options, the construction of a node by
    the daemon, the pins of the cluster, shutdown.
  \<^item> \<^verbatim>\<open>ExchangeWiring\<close> (\<^verbatim>\<open>exchange/options.go\<close>, \<^verbatim>\<open>fx_exchange.go\<close>): making, starting and shutting down an exchange, and whom a new one lets push.
  \<^item> \<^verbatim>\<open>PluginHttp\<close> (\<^verbatim>\<open>bl_plugins.go\<close>): the plain HTTP handlers of the plugin operations, which agree with the dispatched handler on
    documents that name a plugin.

  \<^bold>\<open>What is shown.\<close> Security: the proxy serves only fresh, signed, authorised requests; only the owner changes
  permissions; the last authorisation decides; the seed is sent only where needed; passwords stay with the
  device they belong to. Pools: configuration is cleared only after the chain definitively says the device
  left, by the background loop only after it said so twice and at most once in 24 hours; joins and discovery configure only
  pools confirmed on chain; content is pinned for the own pool only; messages on the pool topic admit nobody. Availability: restarts are spaced and bounded and happen only when warranted.
  Data: documents, contract answers, peer ids and chat streams survive their encodings. Composition: a remote
  call is the handler. The remaining theorems pin down where the code does not do what it means to:
  unreachable handlers, calls that cannot succeed, path traversal to the secret seed, panics on
  crafted or missing answers, cleanup that never runs, a watchdog that gives up, a tunnel that stays with a pool
  the device no longer uses, a stray file that ends the daemon.
  Set-up: a foreign web page and, once there is an owner, the local network change nothing; closing the server closes
  every listener but those that an unlocked append of the code loses; the derived identities agree wherever they are derived;
  kubo gets the configuration it is meant to get, and preparing it can be repeated; a host that has been restarted after an update is not
  asked to restart again. Phone: nothing is used after shutdown; blocks are stored under the hash
  of their content; pushes keep to the limiter and end.

  \<^bold>\<open>Abstractions.\<close> A peer id is its text. Error descriptions that quote an operating system or network error are
  empty. Files hold text, a time stamp, a YAML or JSON document or a property map; a write fails
  when the file cannot be opened and then changes nothing, while a write that breaks off and leaves a truncated file is not modelled. Requests are handled one at a time: locks and data races are outside the model except where a step
  relation gives the interleavings (stream buffer, watchdog, reconcile loop, listeners of the set-up server,
  set-up daemon, lifecycle of the library on the phone, its stream iterator).
  Timeouts of contexts show as failing calls or waits. Logging is dropped.

  \<^bold>\<open>Not modelled.\<close> The code in \<^verbatim>\<open>cmd/blox/main.go\<close> that is kept unused (an embedded kubo node, its repository and HTTP interface) and
  the calls that make third-party clients; the wrappers of the exchange that only forward to the DHT; the test programs
  and the relay under \<^verbatim>\<open>cmd\<close>, which configure libp2p and print; the status of a plugin on the phone; operations that only return that they are no longer supported.
\<close>


section \<open>Properties that span components\<close>

text \<open>
  C31. A restart forgets on which chain the pool is, so it looks for a pool again: the start of the program writes the configuration
  file without the chain, the node it then makes reads its chain from that file, and its own start finds none and goes into
  discovery, although pool, identity and owner are configured.
\<close>

theorem restart_repeats_discovery:
  assumes "before lib gen pl flags_ok flag path d = (Ok path', e)" and "path \<noteq> []"
    and "altsrc_law Map.empty dflt flag" and "ReadFile path d = Ok (Conf y)" and "\<not> unreadable e path"
    and "y_poolName y = Some pool" and "y_others y ''identity'' = Some (JStr identity)" and "identity \<noteq> []"
    and "y_others y ''authorizer'' = Some (JStr owner)" and "owner \<noteq> []"
    and "ds_configPath s = path" and "ds_self s \<noteq> []" and "\<forall>x. peer_Decode cd x \<noteq> Some []"
  shows "\<exists>p co e1 e2. blox_New (daemon_options cd s pool) e = Ok (p, co, e1) \<and> needs_discovery (options.truncate co) b e1 = (True, e2)"
proof -
  from restart_rewrites_config [OF assms(1-4,6-10)] obtain y'
    where y': "files e path = Some (Conf y')" "y_chainName y' = Some []" by blast
  from daemon_wiring [OF assms(12,13), where poolName = pool and d = e] assms(11) obtain p co e1
    where new: "blox_New (daemon_options cd s pool) e = Ok (p, co, e1)" "getChainName co = Some (getChainNameFromConfig path)"
      "files e1 = files e" "unreadable e1 = unreadable e" by blast
  have "\<exists>e2. getChainNameFromConfig path e1 = ([], e2)"
    using y' assms(5) new(3,4) by (simp add: getChainNameFromConfig_def load_config_def ReadFile_def yaml_Unmarshal_def Let_def)
  then have "\<exists>e2. needs_discovery (options.truncate co) b e1 = (True, e2)"
    using new(2) by (auto simp: needs_discovery_def options.truncate_def)
  with new(1) show ?thesis by blast
qed

definition sample_settings :: daemon_settings where
  "sample_settings = \<lparr>ds_self = ''me'', ds_cluster_id = ''cluster'', ds_configPath = ''/c'', ds_relays = [], ds_owner = ''QmOwner'', ds_storeDir = ''x'',
     ds_poolHost = False, ds_endpoint = [], ds_secretsPath = [], ds_kuboHostPort = ''127.0.0.1:5001'', ds_cluster = True\<rparr>"

definition peer_texts :: codecs where
  "peer_texts = \<lparr>mb_Decode = (\<lambda>_. None), mb_Encode58 = (\<lambda>_. []), peer_Decode = (\<lambda>x. if x = [] then None else Some x)\<rparr>"

theorem restart_repeats_discovery_witness:
  "\<exists>e p co e1 e2. before sample_keys (\<lambda>w. (None, w)) sample_places (\<lambda>_. True) sample_flag ''/c'' start_device = (Ok ''/c'', e) \<and>
     blox_New (daemon_options peer_texts sample_settings ''5'') e = Ok (p, co, e1) \<and>
     needs_discovery (options.truncate co) \<lparr>bx_topicName = ''5'', bx_chainName = [], serverKuboPeerID = []\<rparr> e1 = (True, e2)"
proof -
  obtain e where e: "before sample_keys (\<lambda>w. (None, w)) sample_places (\<lambda>_. True) sample_flag ''/c'' start_device = (Ok ''/c'', e)"
    "\<not> unreadable e ''/c''" using sample_start_runs by blast
  have "\<exists>p co e1 e2. blox_New (daemon_options peer_texts sample_settings ''5'') e = Ok (p, co, e1) \<and>
      needs_discovery (options.truncate co) \<lparr>bx_topicName = ''5'', bx_chainName = [], serverKuboPeerID = []\<rparr> e1 = (True, e2)"
    by (rule restart_repeats_discovery [OF e(1) _ sample_start(2,3) e(2), where identity = sample_identity and owner = "''QmOwner''"])
      (use sample_start(1) in \<open>simp_all add: start_doc_def sample_settings_def peer_texts_def split: if_splits\<close>)
  with e(1) show ?thesis by blast
qed

end
